(* ===== verification/Prelude.thy ===== *)
theory Prelude
  imports Main "HOL-Library.Sublist" "HOL-Library.Product_Lexorder" "HOL-Library.Word"
begin

text \<open>
  Shared vocabulary of the development: the collections of rewrite rules the component theories
  fill, the machine-integer types of the Rust code, and the generic list and option functions that
  stand for the iterator adapters of the standard library (\<open>Iterator::find_map\<close>,
  \<open>position\<close>, \<open>max_by_key\<close>, \<open>windows(2)\<close>, \<open>Option::or\<close>) together with the lemmas the
  components share about them.
\<close>

section \<open>Rule collections\<close>

named_theorems str_simps \<open>rewrite rules for the byte-string operations\<close>
named_theorems policy_defs \<open>definitions the decision procedures are unfolded with\<close>
named_theorems ws_intros \<open>introduction rules about whitespace-free tokens\<close>

section \<open>Machine integers\<close>

type_synonym u8 = "8 word"
type_synonym u32 = "32 word"
type_synonym u64 = "64 word"

text \<open>\<open>Result<T, String>\<close>: the error on the left.\<close>

type_synonym 'a str_result = "string + 'a"

definition saturating_sub :: "'w::len word \<Rightarrow> 'w word \<Rightarrow> 'w word" where
  "saturating_sub a b = (if a \<le> b then 0 else a - b)"

definition saturating_add :: "'w::len word \<Rightarrow> 'w word \<Rightarrow> 'w word" where
  "saturating_add a b = (if a + b < a then - 1 else a + b)"

lemma saturating_add_ge: "a \<le> saturating_add a b"
  by (simp add: saturating_add_def not_less)

lemma saturating_sub_le: "saturating_sub a b \<le> a"
  by (auto simp: saturating_sub_def word_sub_le linorder_not_le)

lemma saturating_sub_one_less: "a \<noteq> 0 \<Longrightarrow> saturating_sub a 1 < a"
proof -
  assume a: "a \<noteq> 0"
  show ?thesis
  proof (cases "a \<le> 1")
    case True
    with a show ?thesis by (simp add: saturating_sub_def word_greater_zero_iff)
  next
    case False
    with a show ?thesis
      by (simp add: saturating_sub_def word_less_nat_alt unat_minus_one unat_gt_0)
  qed
qed

lemma unat_Suc_below: "x < (y :: 'w::len word) \<Longrightarrow> unat (x + 1) = Suc (unat x)"
proof -
  assume "x < y"
  then have "unat x < unat y" by (simp add: word_less_nat_alt)
  moreover have "unat y < 2 ^ LENGTH('w)" by (rule unsigned_less)
  ultimately have "Suc (unat x) < 2 ^ LENGTH('w)" by linarith
  then show ?thesis by (simp add: unat_word_ariths)
qed

lemma saturating_add_one:
  fixes a :: "'w::len word"
  assumes "a \<noteq> - 1"
  shows "saturating_add a 1 = a + 1" and "a < saturating_add a 1"
proof -
  have "a < - 1" using assms by (simp add: word_order.not_eq_extremum [symmetric])
  then have "unat (a + 1) = Suc (unat a)" by (rule unat_Suc_below)
  then have "a < a + 1" by (simp add: word_less_nat_alt)
  then show "saturating_add a 1 = a + 1" "a < saturating_add a 1" by (auto simp: saturating_add_def)
qed

section \<open>Iterator adapters\<close>

fun find_map :: "('a \<Rightarrow> 'b option) \<Rightarrow> 'a list \<Rightarrow> 'b option" where
  "find_map f [] = None"
| "find_map f (x # xs) = (case f x of None \<Rightarrow> find_map f xs | Some y \<Rightarrow> Some y)"

fun position :: "('a \<Rightarrow> bool) \<Rightarrow> 'a list \<Rightarrow> nat option" where
  "position P [] = None"
| "position P (x # xs) = (if P x then Some 0 else map_option Suc (position P xs))"

definition nth_opt :: "'a list \<Rightarrow> nat \<Rightarrow> 'a option" where
  "nth_opt xs i = (if i < length xs then Some (xs ! i) else None)"

fun windows2 :: "'a list \<Rightarrow> ('a \<times> 'a) list" where
  "windows2 (x # y # ys) = (x, y) # windows2 (y # ys)"
| "windows2 _ = []"

definition option_or :: "'a option \<Rightarrow> 'a option \<Rightarrow> 'a option" where
  "option_or a b = (case a of None \<Rightarrow> b | Some x \<Rightarrow> Some x)"

definition is_some :: "'a option \<Rightarrow> bool" where
  "is_some x = (x \<noteq> None)"

text \<open>\<open>Iterator::max_by_key\<close> returns the last of several maximal elements.\<close>

fun max_by_key :: "('a \<Rightarrow> 'k::linorder) \<Rightarrow> 'a list \<Rightarrow> 'a option" where
  "max_by_key f [] = None"
| "max_by_key f (x # xs) =
     (case max_by_key f xs of
        None \<Rightarrow> Some x
      | Some y \<Rightarrow> if f y < f x then Some x else Some y)"

lemma is_some_simps [simp]: "is_some (Some x)" "\<not> is_some None"
  by (simp_all add: is_some_def)

lemma option_or_simps [simp]: "option_or None b = b" "option_or (Some x) b = Some x"
  by (simp_all add: option_or_def)

lemma find_map_Some: "find_map f xs = Some y \<Longrightarrow> \<exists>x \<in> set xs. f x = Some y"
  by (induction xs) (auto split: option.splits)

lemma find_map_None: "find_map f xs = None \<longleftrightarrow> (\<forall>x \<in> set xs. f x = None)"
  by (induction xs) (auto split: option.splits)

lemma list_ex_image: "list_ex (\<lambda>x. f x = y) xs \<longleftrightarrow> y \<in> f ` set xs"
  by (induction xs) auto

lemma set_map_filter_eq: "set (List.map_filter f xs) = {y. \<exists>x \<in> set xs. f x = Some y}"
  by (induction xs) (auto split: option.split)

lemma distinct_concat_nth:
  assumes "distinct (concat xss)" and "i < length xss" and "j < length xss"
    and "x \<in> set (xss ! i)" and "x \<in> set (xss ! j)"
  shows "i = j"
  using assms
proof (induction xss arbitrary: i j)
  case (Cons xs xss)
  have "x \<notin> set xs" if "k < length xss" "x \<in> set (xss ! k)" for k
    using that Cons.prems(1) by fastforce
  with Cons show ?case by (cases i; cases j) auto
qed simp

lemma find_map_not_None: "find_map f xs \<noteq> None \<longleftrightarrow> (\<exists>x \<in> set xs. f x \<noteq> None)"
  by (induction xs) (auto split: option.splits)

lemma position_None: "position P xs = None \<longleftrightarrow> (\<forall>x \<in> set xs. \<not> P x)"
  by (induction xs) auto

lemma position_Some:
  "position P xs = Some i \<Longrightarrow> i < length xs \<and> P (xs ! i) \<and> (\<forall>j < i. \<not> P (xs ! j))"
proof (induction xs arbitrary: i)
  case (Cons x xs)
  show ?case
  proof (cases "P x")
    case True
    with Cons.prems show ?thesis by simp
  next
    case False
    with Cons.prems obtain k where k: "position P xs = Some k" "i = Suc k" by auto
    with Cons.IH [OF k(1)] False show ?thesis
      by (auto simp: less_Suc_eq_0_disj)
  qed
qed simp

lemma find_Some_set: "List.find P xs = Some x \<Longrightarrow> x \<in> set xs \<and> P x"
  by (auto simp: find_Some_iff)

lemma find_exists: "x \<in> set xs \<Longrightarrow> P x \<Longrightarrow> \<exists>y. List.find P xs = Some y \<and> y \<in> set xs \<and> P y"
  by (induction xs) auto

lemma max_by_key_None [simp]: "max_by_key f xs = None \<longleftrightarrow> xs = []"
  by (cases xs) (auto split: option.splits)

lemma max_by_key_Some:
  "max_by_key f xs = Some m \<Longrightarrow> m \<in> set xs \<and> (\<forall>x \<in> set xs. f x \<le> f m)"
proof (induction xs arbitrary: m)
  case (Cons x xs)
  then show ?case by (force split: option.splits if_splits)
qed simp

lemma max_by_key_exists: "xs \<noteq> [] \<Longrightarrow> \<exists>m. max_by_key f xs = Some m"
  using max_by_key_None [of f xs] by (cases "max_by_key f xs") auto

lemma nth_opt_Some: "nth_opt xs i = Some x \<longleftrightarrow> i < length xs \<and> xs ! i = x"
  by (auto simp: nth_opt_def)

section \<open>Attenuation: interfaces whose derivation step never gains authority\<close>

text \<open>
  Several components derive a narrower authority from a wider one (permission sets, shell
  policies, worker profiles, turn authorities). The interface states what such a step promises, and
  the client lemma is proved once: no sequence of derivations exceeds its root.
\<close>

locale attenuation =
  fixes below :: "'a \<Rightarrow> 'a \<Rightarrow> bool"
    and derive :: "'a \<Rightarrow> 'r \<Rightarrow> 'a"
  assumes below_refl: "below x x"
    and below_trans: "below x y \<Longrightarrow> below y z \<Longrightarrow> below x z"
    and derive_below: "below (derive x r) x"
begin

lemma fold_derive_below: "below (foldl derive x rs) x"
proof (induction rs arbitrary: x)
  case Nil
  show ?case by (simp add: below_refl)
next
  case (Cons r rs)
  have "below (foldl derive (derive x r) rs) (derive x r)" by (rule Cons.IH)
  then show ?case using derive_below [of x r] below_trans by simp
qed

lemma fold_derive_prefix_below:
  "below (foldl derive x (rs @ qs)) (foldl derive x rs)"
  by (simp add: fold_derive_below)

end

end
