(* ===== verification/Rust_Str.thy ===== *)
theory Rust_Str
  imports Prelude
begin

text \<open>
  The operations of Rust's \<open>str\<close> that the modelled crates use. A \<open>str\<close> is its UTF-8 encoding: a
  list of bytes, one \<open>char\<close> of HOL per byte, so \<open>length\<close> is \<open>str::len\<close> and the byte predicates of
  the source read the list directly. Whitespace is the Unicode property \<open>White_Space\<close> of
  \<open>char::is_whitespace\<close>, recognised on the encoded bytes: none of its encodings starts with a
  continuation byte, so scanning byte by byte finds exactly the whitespace scalars of a well-formed
  string.
\<close>

section \<open>Bytes\<close>

definition byte :: "char \<Rightarrow> nat" where
  "byte c = of_char c"

definition is_ascii_digit :: "char \<Rightarrow> bool" where
  "is_ascii_digit c = (48 \<le> byte c \<and> byte c \<le> 57)"

definition is_ascii_upper :: "char \<Rightarrow> bool" where
  "is_ascii_upper c = (65 \<le> byte c \<and> byte c \<le> 90)"

definition is_ascii_lower :: "char \<Rightarrow> bool" where
  "is_ascii_lower c = (97 \<le> byte c \<and> byte c \<le> 122)"

definition is_ascii_alphabetic :: "char \<Rightarrow> bool" where
  "is_ascii_alphabetic c = (is_ascii_upper c \<or> is_ascii_lower c)"

definition is_ascii_alphanumeric :: "char \<Rightarrow> bool" where
  "is_ascii_alphanumeric c = (is_ascii_alphabetic c \<or> is_ascii_digit c)"

definition lower_byte :: "char \<Rightarrow> char" where
  "lower_byte c = (if is_ascii_upper c then char_of (byte c + 32) else c)"

definition to_ascii_lowercase :: "string \<Rightarrow> string" where
  "to_ascii_lowercase s = map lower_byte s"

definition eq_ignore_ascii_case :: "string \<Rightarrow> string \<Rightarrow> bool" where
  "eq_ignore_ascii_case a b = (to_ascii_lowercase a = to_ascii_lowercase b)"

text \<open>
  \<open>str::to_lowercase\<close>. Every scalar outside ASCII lowers to scalars outside ASCII, but for two:
  U+212A (KELVIN SIGN) lowers to \<open>k\<close> and U+0130 lowers to \<open>i\<close> followed by U+0307. The source
  compares a lowered string with ASCII patterns only, so the bytes of the other non-ASCII scalars are
  left as they are.
\<close>

fun to_lowercase :: "string \<Rightarrow> string" where
  "to_lowercase (a # b # c # s) =
     (if a = CHR 0xE2 \<and> b = CHR 0x84 \<and> c = CHR 0xAA then CHR ''k'' # to_lowercase s
      else if a = CHR 0xC4 \<and> b = CHR 0xB0
        then CHR ''i'' # CHR 0xCC # CHR 0x87 # to_lowercase (c # s)
      else lower_byte a # to_lowercase (b # c # s))"
| "to_lowercase [a, b] =
     (if a = CHR 0xC4 \<and> b = CHR 0xB0 then [CHR ''i'', CHR 0xCC, CHR 0x87]
      else [lower_byte a, lower_byte b])"
| "to_lowercase [a] = [lower_byte a]"
| "to_lowercase [] = []"

section \<open>Prefixes, substrings, splitting at a character\<close>

definition starts_with :: "string \<Rightarrow> string \<Rightarrow> bool" where
  "starts_with s p = prefix p s"

definition ends_with :: "string \<Rightarrow> string \<Rightarrow> bool" where
  "ends_with s p = suffix p s"

fun contains :: "string \<Rightarrow> string \<Rightarrow> bool" where
  "contains [] p = (p = [])"
| "contains (c # s) p = (prefix p (c # s) \<or> contains s p)"

definition contains_char :: "string \<Rightarrow> char \<Rightarrow> bool" where
  "contains_char s c = (c \<in> set s)"

definition strip_prefix :: "string \<Rightarrow> string \<Rightarrow> string option" where
  "strip_prefix s p = (if prefix p s then Some (drop (length p) s) else None)"

fun split_char :: "char \<Rightarrow> string \<Rightarrow> string list" where
  "split_char d [] = [[]]"
| "split_char d (c # s) =
     (if c = d then [] # split_char d s
      else (case split_char d s of [] \<Rightarrow> [[c]] | w # ws \<Rightarrow> (c # w) # ws))"

fun split_once :: "char \<Rightarrow> string \<Rightarrow> (string \<times> string) option" where
  "split_once d [] = None"
| "split_once d (c # s) =
     (if c = d then Some ([], s)
      else map_option (\<lambda>(a, b). (c # a, b)) (split_once d s))"

fun replace2 :: "char \<Rightarrow> char \<Rightarrow> char \<Rightarrow> string \<Rightarrow> string" where
  "replace2 a b t (c # d # s) =
     (if c = a \<and> d = b then t # replace2 a b t s else c # replace2 a b t (d # s))"
| "replace2 a b t s = s"

definition replace_chars :: "char list \<Rightarrow> char \<Rightarrow> string \<Rightarrow> string" where
  "replace_chars cs t s = map (\<lambda>c. if c \<in> set cs then t else c) s"

fun join :: "string \<Rightarrow> string list \<Rightarrow> string" where
  "join sep [] = []"
| "join sep [w] = w"
| "join sep (w # v # ws) = w @ sep @ join sep (v # ws)"

fun trim_start_matches :: "char list \<Rightarrow> string \<Rightarrow> string" where
  "trim_start_matches cs [] = []"
| "trim_start_matches cs (c # s) = (if c \<in> set cs then trim_start_matches cs s else c # s)"

definition trim_matches :: "char list \<Rightarrow> string \<Rightarrow> string" where
  "trim_matches cs s = rev (trim_start_matches cs (rev (trim_start_matches cs s)))"

section \<open>Whitespace\<close>

text \<open>The length of the whitespace scalar a string starts with, 0 when it starts with none.\<close>

definition ascii_ws :: "char list" where
  "ascii_ws = [CHR 0x09, CHR 0x0A, CHR 0x0B, CHR 0x0C, CHR 0x0D, CHR 0x20]"

definition ws_e280 :: "char list" where
  "ws_e280 = [CHR 0x80, CHR 0x81, CHR 0x82, CHR 0x83, CHR 0x84, CHR 0x85, CHR 0x86, CHR 0x87,
     CHR 0x88, CHR 0x89, CHR 0x8A, CHR 0xA8, CHR 0xA9, CHR 0xAF]"

fun ws_len :: "string \<Rightarrow> nat" where
  "ws_len [] = 0"
| "ws_len [a] = (if a \<in> set ascii_ws then 1 else 0)"
| "ws_len [a, b] =
     (if a \<in> set ascii_ws then 1
      else if a = CHR 0xC2 \<and> (b = CHR 0x85 \<or> b = CHR 0xA0) then 2
      else 0)"
| "ws_len (a # b # c # s) =
     (if a \<in> set ascii_ws then 1
      else if a = CHR 0xC2 \<and> (b = CHR 0x85 \<or> b = CHR 0xA0) then 2
      else if a = CHR 0xE1 \<and> b = CHR 0x9A \<and> c = CHR 0x80
            \<or> a = CHR 0xE2 \<and> b = CHR 0x80 \<and> c \<in> set ws_e280
            \<or> a = CHR 0xE2 \<and> b = CHR 0x81 \<and> c = CHR 0x9F
            \<or> a = CHR 0xE3 \<and> b = CHR 0x80 \<and> c = CHR 0x80 then 3
      else 0)"

lemma ws_len_le: "ws_len s \<le> length s"
  by (cases s rule: ws_len.cases) auto

function trim_start :: "string \<Rightarrow> string" where
  "trim_start s = (if ws_len s = 0 then s else trim_start (drop (ws_len s) s))"
  by pat_completeness auto
termination
proof (relation "measure length")
  fix s :: string
  assume "ws_len s \<noteq> 0"
  with ws_len_le [of s] show "(drop (ws_len s) s, s) \<in> measure length" by auto
qed simp

declare trim_start.simps [simp del]

fun trim_end :: "string \<Rightarrow> string" where
  "trim_end [] = []"
| "trim_end (c # s) = (if trim_start (c # s) = [] then [] else c # trim_end s)"

definition trim :: "string \<Rightarrow> string" where
  "trim s = trim_end (trim_start s)"

fun word_span :: "string \<Rightarrow> string \<times> string" where
  "word_span [] = ([], [])"
| "word_span (c # s) =
     (if ws_len (c # s) \<noteq> 0 then ([], c # s)
      else (let (w, r) = word_span s in (c # w, r)))"

lemma trim_start_length: "length (trim_start s) \<le> length s"
proof (induction s rule: trim_start.induct)
  case (1 s)
  then show ?case by (cases "ws_len s = 0") (auto simp: trim_start.simps [of s])
qed

lemma word_span_append: "word_span s = (w, r) \<Longrightarrow> s = w @ r"
  by (induction s arbitrary: w r) (auto split: if_splits prod.splits)

lemma ws_len_trim_start: "ws_len (trim_start s) = 0"
proof (induction s rule: trim_start.induct)
  case (1 s)
  then show ?case by (cases "ws_len s = 0") (auto simp: trim_start.simps [of s])
qed

lemma word_span_nonempty: "s \<noteq> [] \<Longrightarrow> ws_len s = 0 \<Longrightarrow> fst (word_span s) \<noteq> []"
  by (cases s) (auto split: prod.splits)

lemma word_span_shorter:
  assumes "s \<noteq> []" and "ws_len s = 0"
  shows "length (snd (word_span s)) < length s"
proof -
  obtain w r where wr: "word_span s = (w, r)" by force
  with word_span_append [OF wr] word_span_nonempty [OF assms] show ?thesis by auto
qed

function split_whitespace :: "string \<Rightarrow> string list" where
  "split_whitespace s =
     (if trim_start s = [] then []
      else fst (word_span (trim_start s)) # split_whitespace (snd (word_span (trim_start s))))"
  by pat_completeness auto
termination
proof (relation "measure length")
  fix s :: string
  assume "trim_start s \<noteq> []"
  then have "length (snd (word_span (trim_start s))) < length (trim_start s)"
    by (intro word_span_shorter) (simp_all add: ws_len_trim_start)
  with trim_start_length [of s]
  show "(snd (word_span (trim_start s)), s) \<in> measure length" by simp
qed simp

declare split_whitespace.simps [simp del]

definition first_word :: "string \<Rightarrow> string option" where
  "first_word s = (case split_whitespace s of [] \<Rightarrow> None | w # _ \<Rightarrow> Some w)"

section \<open>Lines\<close>

fun split_inclusive :: "char \<Rightarrow> string \<Rightarrow> string list" where
  "split_inclusive d [] = []"
| "split_inclusive d (c # s) =
     (if c = d then [c] # split_inclusive d s
      else (case split_inclusive d s of [] \<Rightarrow> [[c]] | w # ws \<Rightarrow> (c # w) # ws))"

definition strip_line_end :: "string \<Rightarrow> string" where
  "strip_line_end l =
     (if l \<noteq> [] \<and> last l = CHR 0x0A
      then (let m = butlast l in if m \<noteq> [] \<and> last m = CHR 0x0D then butlast m else m)
      else l)"

definition lines :: "string \<Rightarrow> string list" where
  "lines s = map strip_line_end (split_inclusive (CHR 0x0A) s)"

section \<open>Decimal numbers\<close>

text \<open>\<open>to_string\<close> of an unsigned integer.\<close>

fun show_nat :: "nat \<Rightarrow> string" where
  "show_nat n = (if n < 10 then [char_of (48 + n)] else show_nat (n div 10) @ [char_of (48 + n mod 10)])"

declare show_nat.simps [simp del]

lemma digit_inject: "a < 10 \<Longrightarrow> b < 10 \<Longrightarrow> (char_of (48 + a) :: char) = char_of (48 + b) \<longleftrightarrow> a = (b :: nat)"
  by (simp add: char_of_eq_iff take_bit_nat_def)

lemma show_nat_not_Nil [simp]: "show_nat n \<noteq> []" "[] \<noteq> show_nat n"
  by (simp_all add: show_nat.simps [of n])

lemma show_nat_inject: "show_nat m = show_nat n \<longleftrightarrow> m = n"
proof
  show "show_nat m = show_nat n \<Longrightarrow> m = n"
  proof (induction m arbitrary: n rule: show_nat.induct)
    case (1 m)
    show ?case
    proof (cases "m < 10")
      case True
      then have "n < 10"
        using "1.prems" by (auto simp: show_nat.simps [of m] show_nat.simps [of n] split: if_splits)
      with True "1.prems" show ?thesis
        by (simp add: show_nat.simps [of m] show_nat.simps [of n] digit_inject)
    next
      case False
      then have "\<not> n < 10"
        using "1.prems" by (auto simp: show_nat.simps [of m] show_nat.simps [of n] split: if_splits)
      with False "1.prems" have "show_nat (m div 10) = show_nat (n div 10)" "m mod 10 = n mod 10"
        by (simp_all add: show_nat.simps [of m] show_nat.simps [of n] digit_inject)
      with "1.IH" [OF False] have "m div 10 = n div 10" by blast
      with \<open>m mod 10 = n mod 10\<close> show ?thesis by (metis div_mod_decomp)
    qed
  qed
qed simp

end
