(* ===== verification/Str_Lemmas.thy ===== *)
theory Str_Lemmas
  imports Rust_Str
begin

text \<open>
  The laws of the byte-string operations that the component proofs rest on: tokens of
  \<open>split_whitespace\<close> are non-empty and whitespace-free, joining tokens with single spaces and
  splitting again gives the tokens back, ASCII lowering commutes with tokenising, trimming is
  idempotent and does not change the tokens, and the two ways of cutting a command into lines agree
  once the lines are trimmed.
\<close>

section \<open>ASCII lowering\<close>

lemma byte_inject: "byte a = byte b \<longleftrightarrow> a = b"
  by (simp add: byte_def)

lemma byte_lower: "byte (lower_byte c) = (if is_ascii_upper c then byte c + 32 else byte c)"
  by (auto simp: lower_byte_def byte_def is_ascii_upper_def take_bit_nat_def)

lemma lower_byte_not_upper: "\<not> is_ascii_upper (lower_byte c)"
  by (auto simp: is_ascii_upper_def byte_lower)

lemma lower_byte_idem [simp]: "lower_byte (lower_byte c) = lower_byte c"
  using lower_byte_not_upper [of c] by (simp add: lower_byte_def [of "lower_byte c"])

lemma lower_byte_fixed_iff:
  assumes "\<not> is_ascii_upper d" and "\<not> is_ascii_lower d"
  shows "lower_byte c = d \<longleftrightarrow> c = d"
proof -
  have "byte (lower_byte c) = byte d \<longleftrightarrow> byte c = byte d"
    using assms by (auto simp: byte_lower is_ascii_upper_def is_ascii_lower_def split: if_splits)
  then show ?thesis by (simp add: byte_inject)
qed

lemma lower_byte_member_iff:
  assumes "\<forall>d \<in> set ds. \<not> is_ascii_upper d \<and> \<not> is_ascii_lower d"
  shows "lower_byte c \<in> set ds \<longleftrightarrow> c \<in> set ds"
  using assms by (induction ds) (auto simp: lower_byte_fixed_iff)

lemma to_ascii_lowercase_simps [simp]:
  "to_ascii_lowercase [] = []"
  "to_ascii_lowercase (c # s) = lower_byte c # to_ascii_lowercase s"
  "to_ascii_lowercase (s @ t) = to_ascii_lowercase s @ to_ascii_lowercase t"
  "length (to_ascii_lowercase s) = length s"
  "to_ascii_lowercase s = [] \<longleftrightarrow> s = []"
  by (simp_all add: to_ascii_lowercase_def)

lemma to_ascii_lowercase_idem [simp]:
  "to_ascii_lowercase (to_ascii_lowercase s) = to_ascii_lowercase s"
  by (simp add: to_ascii_lowercase_def)

lemma to_ascii_lowercase_drop: "to_ascii_lowercase (drop n s) = drop n (to_ascii_lowercase s)"
  by (simp add: to_ascii_lowercase_def drop_map)

lemma ascii_ws_case: "\<forall>d \<in> set ascii_ws. \<not> is_ascii_upper d \<and> \<not> is_ascii_lower d"
  by code_simp

lemma ws_e280_case: "\<forall>d \<in> set ws_e280. \<not> is_ascii_upper d \<and> \<not> is_ascii_lower d"
  by code_simp

lemma lower_byte_ws_bytes:
  "lower_byte c \<in> set ascii_ws \<longleftrightarrow> c \<in> set ascii_ws"
  "lower_byte c \<in> set ws_e280 \<longleftrightarrow> c \<in> set ws_e280"
  by (simp_all add: lower_byte_member_iff ascii_ws_case ws_e280_case)

lemma lower_byte_lead_bytes:
  "lower_byte c = CHR 0xC2 \<longleftrightarrow> c = CHR 0xC2"
  "lower_byte c = CHR 0xE1 \<longleftrightarrow> c = CHR 0xE1"
  "lower_byte c = CHR 0xE2 \<longleftrightarrow> c = CHR 0xE2"
  "lower_byte c = CHR 0xE3 \<longleftrightarrow> c = CHR 0xE3"
  "lower_byte c = CHR 0x80 \<longleftrightarrow> c = CHR 0x80"
  "lower_byte c = CHR 0x81 \<longleftrightarrow> c = CHR 0x81"
  "lower_byte c = CHR 0x85 \<longleftrightarrow> c = CHR 0x85"
  "lower_byte c = CHR 0x9A \<longleftrightarrow> c = CHR 0x9A"
  "lower_byte c = CHR 0x9F \<longleftrightarrow> c = CHR 0x9F"
  "lower_byte c = CHR 0xA0 \<longleftrightarrow> c = CHR 0xA0"
  by (rule lower_byte_fixed_iff; code_simp)+

lemma ws_len_lower [simp]: "ws_len (to_ascii_lowercase s) = ws_len s"
  by (cases s rule: ws_len.cases) (simp_all only: to_ascii_lowercase_simps ws_len.simps
      lower_byte_ws_bytes lower_byte_lead_bytes)

lemma trim_start_lower: "trim_start (to_ascii_lowercase s) = to_ascii_lowercase (trim_start s)"
proof (induction s rule: trim_start.induct)
  case (1 s)
  then show ?case
    by (cases "ws_len s = 0")
      (simp_all add: trim_start.simps [of s] trim_start.simps [of "to_ascii_lowercase s"]
        to_ascii_lowercase_drop)
qed

lemma word_span_lower:
  "word_span (to_ascii_lowercase s) =
     (to_ascii_lowercase (fst (word_span s)), to_ascii_lowercase (snd (word_span s)))"
proof (induction s)
  case (Cons c s)
  have "ws_len (lower_byte c # to_ascii_lowercase s) = ws_len (c # s)"
    using ws_len_lower [of "c # s"] by simp
  with Cons show ?case by (simp add: split_beta)
qed simp

lemma split_whitespace_lower:
  "split_whitespace (to_ascii_lowercase s) = map to_ascii_lowercase (split_whitespace s)"
proof (induction s rule: split_whitespace.induct)
  case (1 s)
  then show ?case
    by (simp add: split_whitespace.simps [of s] split_whitespace.simps [of "to_ascii_lowercase s"]
        trim_start_lower word_span_lower)
qed

section \<open>Whitespace-free tokens\<close>

fun ws_free :: "string \<Rightarrow> bool" where
  "ws_free [] = True"
| "ws_free (c # s) = (ws_len (c # s) = 0 \<and> ws_free s)"

definition is_token :: "string \<Rightarrow> bool" where
  "is_token w = (w \<noteq> [] \<and> ws_free w)"

lemma ws_len_append: "ws_len s \<noteq> 0 \<Longrightarrow> ws_len (s @ t) = ws_len s"
  by (cases s rule: ws_len.cases; cases t rule: ws_len.cases) (auto split: if_splits)

text \<open>No encoding of a whitespace scalar contains another one behind its first byte.\<close>

definition ws_lead :: "char list" where
  "ws_lead = ascii_ws @ [CHR 0xC2, CHR 0xE1, CHR 0xE2, CHR 0xE3]"

lemma ws_len_lead: "ws_len t \<noteq> 0 \<Longrightarrow> \<exists>d r. t = d # r \<and> d \<in> set ws_lead"
  by (cases t rule: ws_len.cases) (auto simp: ws_lead_def split: if_splits)

lemma ws_lead_not_inner:
  "\<forall>d \<in> set ws_lead. d \<notin> set ws_e280 \<and>
     d \<notin> {CHR 0x80, CHR 0x81, CHR 0x85, CHR 0x9A, CHR 0x9F, CHR 0xA0}"
  by code_simp

lemma ws_len_lead_second:
  assumes "d \<in> set ws_lead" and "ws_len [a] = 0"
  shows "ws_len (a # d # r) = 0"
proof -
  from assms(1) ws_lead_not_inner have
    d: "d \<noteq> CHR 0x80" "d \<noteq> CHR 0x81" "d \<noteq> CHR 0x85" "d \<noteq> CHR 0x9A" "d \<noteq> CHR 0xA0"
    by auto
  from assms(2) have "a \<notin> set ascii_ws" by (simp split: if_splits)
  with d show ?thesis by (cases r) simp_all
qed

lemma ws_len_lead_third:
  assumes "d \<in> set ws_lead" and "ws_len [a, b] = 0"
  shows "ws_len (a # b # d # r) = 0"
proof -
  from assms(1) ws_lead_not_inner have
    d: "d \<notin> set ws_e280" "d \<noteq> CHR 0x80" "d \<noteq> CHR 0x9F"
    by auto
  from assms(2) have "a \<notin> set ascii_ws" "\<not> (a = CHR 0xC2 \<and> (b = CHR 0x85 \<or> b = CHR 0xA0))"
    by (simp_all split: if_splits)
  with d show ?thesis by simp
qed

lemma ws_len_append_ws:
  assumes "s \<noteq> []" and "ws_len s = 0" and "ws_len t \<noteq> 0"
  shows "ws_len (s @ t) = 0"
proof -
  obtain d r where t: "t = d # r" "d \<in> set ws_lead" using ws_len_lead [OF assms(3)] by blast
  show ?thesis
  proof (cases s rule: ws_len.cases)
    case (2 a)
    with assms(2) t show ?thesis using ws_len_lead_second [of d a r] by simp
  next
    case (3 a b)
    with assms(2) t show ?thesis using ws_len_lead_third [of d a b r] by simp
  next
    case (4 a b c u)
    with assms(2) show ?thesis by simp
  qed (use assms in simp)
qed

lemma ws_free_ws_len: "ws_free s \<Longrightarrow> ws_len s = 0"
  by (cases s) auto

lemma ws_len_space [simp]: "ws_len (CHR '' '' # s) = 1"
  by (cases "CHR '' '' # s" rule: ws_len.cases) (auto simp: ascii_ws_def)

lemma trim_start_space [simp]: "trim_start (CHR '' '' # s) = trim_start s"
  by (simp add: trim_start.simps [of "CHR '' '' # s"])

lemma trim_start_id: "ws_len s = 0 \<Longrightarrow> trim_start s = s"
  by (simp add: trim_start.simps)

lemma trim_start_Nil [simp]: "trim_start [] = []"
  by (simp add: trim_start_id)

lemma word_span_ws_free:
  "ws_free w \<Longrightarrow> t = [] \<or> ws_len t \<noteq> 0 \<Longrightarrow> word_span (w @ t) = (w, t)"
proof (induction w)
  case Nil
  then show ?case by (cases t) auto
next
  case (Cons c w)
  then have "ws_len (c # w @ t) = 0" using ws_len_append_ws [of "c # w" t] by auto
  with Cons show ?case by auto
qed

lemma word_span_is_ws_free: "word_span s = (w, r) \<Longrightarrow> ws_free w"
proof (induction s arbitrary: w r)
  case (Cons c s)
  show ?case
  proof (cases "ws_len (c # s) = 0")
    case True
    obtain w' r' where wr: "word_span s = (w', r')" by force
    with True Cons.prems have w: "w = c # w'" by simp
    have "s = w' @ r'" by (rule word_span_append [OF wr])
    with True have "ws_len (c # w') = 0" using ws_len_append [of "c # w'" r'] by fastforce
    with w Cons.IH [OF wr] show ?thesis by simp
  qed (use Cons.prems in simp)
qed simp

lemma split_whitespace_Nil_iff: "split_whitespace s = [] \<longleftrightarrow> trim_start s = []"
  by (simp add: split_whitespace.simps [of s])

lemma split_whitespace_tokens: "w \<in> set (split_whitespace s) \<Longrightarrow> is_token w"
proof (induction s rule: split_whitespace.induct)
  case (1 s)
  show ?case
  proof (cases "trim_start s = []")
    case True
    with "1.prems" show ?thesis by (simp add: split_whitespace.simps [of s])
  next
    case False
    obtain v r where vr: "word_span (trim_start s) = (v, r)" by force
    have "v \<noteq> []" using word_span_nonempty [OF False ws_len_trim_start] vr by simp
    moreover have "ws_free v" by (rule word_span_is_ws_free [OF vr])
    ultimately show ?thesis
      using 1 False vr by (auto simp: split_whitespace.simps [of s] is_token_def)
  qed
qed

lemma split_whitespace_token_append:
  assumes "is_token w" and "t = [] \<or> ws_len t \<noteq> 0"
  shows "split_whitespace (w @ t) = w # split_whitespace t"
proof -
  from assms have ws: "ws_free w" "w \<noteq> []" by (simp_all add: is_token_def)
  have "ws_len (w @ t) = 0"
    using assms(2) ws ws_free_ws_len [OF ws(1)] ws_len_append_ws [of w t] by auto
  then have "trim_start (w @ t) = w @ t" by (rule trim_start_id)
  with ws show ?thesis
    by (simp add: split_whitespace.simps [of "w @ t"] word_span_ws_free [OF ws(1) assms(2)])
qed

lemma split_whitespace_space [simp]: "split_whitespace (CHR '' '' # s) = split_whitespace s"
  by (simp add: split_whitespace.simps [of "CHR '' '' # s"] split_whitespace.simps [of s])

lemma split_whitespace_Nil [simp]: "split_whitespace [] = []"
  by (simp add: split_whitespace_Nil_iff)

lemma split_whitespace_join:
  "\<forall>w \<in> set ws. is_token w \<Longrightarrow> split_whitespace (join '' '' ws) = ws"
proof (induction "'' ''" ws rule: join.induct)
  case (2 w)
  then show ?case using split_whitespace_token_append [of w "[]"] by simp
next
  case (3 w v ws)
  then show ?case
    using split_whitespace_token_append [of w "CHR '' '' # join '' '' (v # ws)"] by simp
qed simp

lemma split_whitespace_join_words [simp]:
  "split_whitespace (join '' '' (split_whitespace s)) = split_whitespace s"
  by (rule split_whitespace_join) (simp add: split_whitespace_tokens)

lemma is_token_lower: "is_token w \<Longrightarrow> is_token (to_ascii_lowercase w)"
proof -
  have "ws_free w \<Longrightarrow> ws_free (to_ascii_lowercase w)"
  proof (induction w)
    case (Cons c w)
    then show ?case using ws_len_lower [of "c # w"] by auto
  qed simp
  then show "is_token w \<Longrightarrow> is_token (to_ascii_lowercase w)" by (simp add: is_token_def)
qed

lemma join_lower: "to_ascii_lowercase (join '' '' ws) = join '' '' (map to_ascii_lowercase ws)"
proof (induction "'' ''" ws rule: join.induct)
  case (3 w v ws)
  have "lower_byte CHR '' '' = CHR '' ''" by code_simp
  with 3 show ?case by simp
qed simp_all

lemma join_inject:
  "\<forall>w \<in> set us. is_token w \<Longrightarrow> \<forall>w \<in> set vs. is_token w \<Longrightarrow>
     join '' '' us = join '' '' vs \<longleftrightarrow> us = vs"
  by (metis split_whitespace_join)

lemma join_Nil_iff: "\<forall>w \<in> set ws. is_token w \<Longrightarrow> join '' '' ws = [] \<longleftrightarrow> ws = []"
  using join_inject [of ws "[]"] by simp

lemma space_not_in_token: "is_token w \<Longrightarrow> CHR '' '' \<notin> set w"
proof -
  have "ws_free w \<Longrightarrow> CHR '' '' \<notin> set w"
    by (induction w) (auto simp del: ws_len.simps)
  then show "is_token w \<Longrightarrow> CHR '' '' \<notin> set w" by (simp add: is_token_def)
qed

text \<open>A word-boundary string prefix is a prefix of the token lists.\<close>

lemma join_append:
  "us \<noteq> [] \<Longrightarrow> vs \<noteq> [] \<Longrightarrow> join '' '' (us @ vs) = join '' '' us @ '' '' @ join '' '' vs"
proof (induction "'' ''" us rule: join.induct)
  case (2 w)
  then show ?case by (cases vs) auto
qed auto

section \<open>Trimming\<close>

lemma trim_start_append_all:
  "trim_start u = [] \<Longrightarrow> trim_start (u @ t) = trim_start t"
proof (induction u rule: trim_start.induct)
  case (1 u)
  show ?case
  proof (cases "ws_len u = 0")
    case True
    with "1.prems" show ?thesis by (simp add: trim_start_id)
  next
    case False
    then have "trim_start (u @ t) = trim_start (drop (ws_len u) u @ t)"
      using ws_len_le [of u] ws_len_append [OF False, of t] by (simp add: trim_start.simps [of "u @ t"])
    with 1 False show ?thesis by (simp add: trim_start.simps [of u])
  qed
qed

lemma blank_cases: "trim_start t = [] \<Longrightarrow> t = [] \<or> ws_len t \<noteq> 0"
  using trim_start_id by force

lemma trim_start_append:
  assumes "trim_start a \<noteq> []" and "t = [] \<or> ws_len t \<noteq> 0"
  shows "trim_start (a @ t) = trim_start a @ t"
  using assms(1)
proof (induction a rule: trim_start.induct)
  case (1 a)
  show ?case
  proof (cases "ws_len a = 0")
    case True
    with "1.prems" have "a \<noteq> []" by auto
    then have "ws_len (a @ t) = 0" using True assms(2) ws_len_append_ws [of a t] by auto
    with True show ?thesis by (simp add: trim_start_id)
  next
    case False
    then have "trim_start (a @ t) = trim_start (drop (ws_len a) a @ t)"
      using ws_len_le [of a] ws_len_append [OF False, of t] by (simp add: trim_start.simps [of "a @ t"])
    with 1 False show ?thesis by (simp add: trim_start.simps [of a])
  qed
qed

lemma trim_start_idem [simp]: "trim_start (trim_start s) = trim_start s"
  by (simp add: trim_start_id ws_len_trim_start)

lemma trim_end_split: "\<exists>t. s = trim_end s @ t \<and> trim_start t = []"
proof (induction s)
  case (Cons c s)
  then show ?case by auto
qed simp

lemma trim_end_Nil_iff: "trim_end s = [] \<longleftrightarrow> trim_start s = []"
  by (cases s) auto

lemma trim_end_append_blank: "trim_start t = [] \<Longrightarrow> trim_end (x @ t) = trim_end x"
proof (induction x)
  case Nil
  then show ?case by (simp add: trim_end_Nil_iff)
next
  case (Cons c x)
  have "trim_start (c # x @ t) = [] \<longleftrightarrow> trim_start (c # x) = []"
    using trim_start_append_all [of "c # x" t] trim_start_append [of "c # x" t] Cons.prems
      blank_cases [of t] by fastforce
  with Cons show ?case by simp
qed

lemma trim_end_idem [simp]: "trim_end (trim_end s) = trim_end s"
proof -
  obtain t where "s = trim_end s @ t" "trim_start t = []" using trim_end_split by blast
  then show ?thesis using trim_end_append_blank [of t "trim_end s"] by simp
qed

lemma ws_len_trim_end: "ws_len s = 0 \<Longrightarrow> ws_len (trim_end s) = 0"
proof -
  assume ws: "ws_len s = 0"
  obtain t where "s = trim_end s @ t" using trim_end_split by blast
  then show ?thesis using ws ws_len_append [of "trim_end s" t] by force
qed

lemma trim_idem [simp]: "trim (trim s) = trim s"
  by (simp add: trim_def trim_start_id ws_len_trim_end ws_len_trim_start)

lemma trim_start_trim [simp]: "trim_start (trim s) = trim s"
  by (simp add: trim_def trim_start_id ws_len_trim_end ws_len_trim_start)

lemma trim_Nil_iff: "trim s = [] \<longleftrightarrow> trim_start s = []"
  by (simp add: trim_def trim_end_Nil_iff)

lemma trim_empty [simp]: "trim [] = []"
  by (simp add: trim_Nil_iff)

lemma trim_append_blank: "trim_start t = [] \<Longrightarrow> trim (x @ t) = trim x"
proof (cases "trim_start x = []")
  case True
  then show "trim_start t = [] \<Longrightarrow> trim (x @ t) = trim x"
    by (simp add: trim_def trim_start_append_all)
next
  case False
  then show "trim_start t = [] \<Longrightarrow> trim (x @ t) = trim x"
    using trim_start_append [OF False blank_cases] by (simp add: trim_def trim_end_append_blank)
qed

lemma set_trim_end: "set (trim_end s) \<subseteq> set s"
  by (induction s) auto

lemma set_trim_start: "set (trim_start s) \<subseteq> set s"
proof (induction s rule: trim_start.induct)
  case (1 s)
  then show ?case
    by (cases "ws_len s = 0") (auto simp: trim_start.simps [of s] dest: in_set_dropD)
qed

lemma set_trim: "set (trim s) \<subseteq> set s"
  using set_trim_end set_trim_start by (fastforce simp: trim_def)

lemma trim_sublist: "sublist (trim s) s"
proof -
  have suf: "suffix (trim_start s) s"
  proof (induction s rule: trim_start.induct)
    case (1 s)
    then show ?case
      by (cases "ws_len s = 0")
        (auto simp: trim_start.simps [of s] intro: suffix_order.trans suffix_drop)
  qed
  have pre: "prefix (trim_end (trim_start s)) (trim_start s)"
    using trim_end_split [of "trim_start s"] by (metis prefixI)
  show ?thesis
    unfolding trim_def
    by (rule sublist_order.order.trans [OF prefix_imp_sublist [OF pre] suffix_imp_sublist [OF suf]])
qed

lemma word_span_append_blank:
  assumes "trim_start t = []" and "word_span x = (w, r)"
  shows "word_span (x @ t) = (w, r @ t)"
proof -
  have x: "x = w @ r" by (rule word_span_append [OF assms(2)])
  have free: "ws_free w" by (rule word_span_is_ws_free [OF assms(2)])
  have "r = [] \<or> ws_len r \<noteq> 0" using assms(2)
    by (induction x arbitrary: w r) (auto split: if_splits prod.splits)
  then have "r @ t = [] \<or> ws_len (r @ t) \<noteq> 0"
    using blank_cases [OF assms(1)] ws_len_append [of r t] by auto
  then show ?thesis using word_span_ws_free [OF free, of "r @ t"] x by simp
qed

lemma split_whitespace_append_blank:
  "trim_start t = [] \<Longrightarrow> split_whitespace (x @ t) = split_whitespace x"
proof (induction x rule: split_whitespace.induct)
  case (1 x)
  show ?case
  proof (cases "trim_start x = []")
    case True
    then have "split_whitespace x = []" by (simp add: split_whitespace_Nil_iff)
    moreover have "split_whitespace (x @ t) = []"
      using True "1.prems" by (simp add: split_whitespace_Nil_iff trim_start_append_all)
    ultimately show ?thesis by simp
  next
    case False
    obtain w r where wr: "word_span (trim_start x) = (w, r)" by force
    have "word_span (trim_start (x @ t)) = (w, r @ t)"
      using trim_start_append [OF False blank_cases [OF "1.prems"]]
        word_span_append_blank [OF "1.prems" wr] by simp
    with 1 False wr show ?thesis
      by (simp add: split_whitespace.simps [of x] split_whitespace.simps [of "x @ t"]
          trim_start_append [OF False blank_cases])
  qed
qed

lemma split_whitespace_trim_start [simp]: "split_whitespace (trim_start s) = split_whitespace s"
  by (simp add: split_whitespace.simps [of s] split_whitespace.simps [of "trim_start s"])

lemma split_whitespace_trim [simp]: "split_whitespace (trim s) = split_whitespace s"
proof -
  obtain t where "trim_start s = trim_end (trim_start s) @ t" "trim_start t = []"
    using trim_end_split by blast
  then have "split_whitespace (trim_start s) = split_whitespace (trim_end (trim_start s))"
    using split_whitespace_append_blank by metis
  then show ?thesis by (simp add: trim_def)
qed

lemma trim_end_lower: "trim_end (to_ascii_lowercase s) = to_ascii_lowercase (trim_end s)"
proof (induction s)
  case (Cons c s)
  have "trim_start (lower_byte c # to_ascii_lowercase s) = to_ascii_lowercase (trim_start (c # s))"
    using trim_start_lower [of "c # s"] by simp
  with Cons show ?case by simp
qed simp

lemma trim_lower: "trim (to_ascii_lowercase s) = to_ascii_lowercase (trim s)"
  by (simp add: trim_def trim_start_lower trim_end_lower)

section \<open>Splitting at a character\<close>

lemma split_char_not_Nil [simp]: "split_char d s \<noteq> []"
  by (cases s) (auto split: list.splits)

lemma split_char_pieces: "w \<in> set (split_char d s) \<Longrightarrow> d \<notin> set w"
  by (induction s arbitrary: w) (auto split: if_splits list.splits)

lemma split_char_append_sep: "split_char d (a @ d # b) = split_char d a @ split_char d b"
proof (induction a)
  case (Cons c a)
  then show ?case by (cases "split_char d a") auto
qed simp

lemma split_char_no_sep: "d \<notin> set s \<Longrightarrow> split_char d s = [s]"
  by (induction s) auto

lemma split_char_join: "join [d] (split_char d s) = s"
proof (induction s)
  case (Cons c s)
  obtain w ws where "split_char d s = w # ws" by (cases "split_char d s") auto
  with Cons show ?case by (cases ws) auto
qed simp

definition strip_sep :: "char \<Rightarrow> string \<Rightarrow> string" where
  "strip_sep d l = (if l \<noteq> [] \<and> last l = d then butlast l else l)"

lemma split_inclusive_Nil_iff [simp]: "split_inclusive d s = [] \<longleftrightarrow> s = []"
  by (cases s) (auto split: list.splits)

lemma split_inclusive_nonempty: "w \<in> set (split_inclusive d s) \<Longrightarrow> w \<noteq> []"
  by (induction s arbitrary: w) (auto split: if_splits list.splits)

lemma split_char_inclusive:
  "split_char d s = map (strip_sep d) (split_inclusive d s) @
     (if s = [] \<or> last s = d then [[]] else [])"
proof (induction s)
  case (Cons c s)
  show ?case
  proof (cases "split_inclusive d s")
    case Nil
    then show ?thesis by (simp add: strip_sep_def)
  next
    case (Cons w ws)
    then have "w \<noteq> []" using split_inclusive_nonempty [of w d s] by simp
    then have "strip_sep d (c # w) = c # strip_sep d w" by (simp add: strip_sep_def)
    moreover have "s \<noteq> []" using Cons by auto
    ultimately show ?thesis using Cons Cons.IH by (simp add: strip_sep_def)
  qed
qed simp

lemma trim_strip_line_end: "trim (strip_line_end l) = trim (strip_sep (CHR 0x0A) l)"
proof -
  have "trim_start [CHR 0x0D] = []" by code_simp
  then have cr: "trim (m @ [CHR 0x0D]) = trim m" for m by (rule trim_append_blank)
  have "m \<noteq> [] \<Longrightarrow> last m = CHR 0x0D \<Longrightarrow> trim (butlast m) = trim m" for m
    using cr [of "butlast m"] append_butlast_last_id [of m] by simp
  then show ?thesis by (simp add: strip_line_end_def strip_sep_def Let_def)
qed

text \<open>Once lines are trimmed and blank lines dropped, \<open>str::lines\<close> and \<open>split('\n')\<close> agree.\<close>

lemma trimmed_lines:
  "filter (\<lambda>x. x \<noteq> []) (map trim (lines s)) =
     filter (\<lambda>x. x \<noteq> []) (map trim (split_char (CHR 0x0A) s))"
  unfolding lines_def split_char_inclusive [of "CHR 0x0A" s]
  by (simp add: trim_strip_line_end comp_def)

end
