(* ===== verification/Arity.thy ===== *)
theory Arity
  imports Str_Lemmas
begin

text \<open>
  The command-prefix classifier. \<open>crates/execpolicy/src/bash_arity.rs\<close> holds the arity table, the
  dictionary built from it and the allow-rule match; \<open>command_safety.rs\<close> carries a second copy of
  the classifier over its own table. The locale \<open>arity_classifier\<close> is the contract both copies are
  shown to satisfy: flags never count, and the answer is a non-empty run of leading positional words.
\<close>

section \<open>Data\<close>

type_synonym arity_entry = "string \<times> u8"

definition BASH_ARITY_TABLE :: "arity_entry list" where
  "BASH_ARITY_TABLE = [
     (''git add'', 2), (''git am'', 2), (''git apply'', 2), (''git bisect'', 2),
     (''git blame'', 2), (''git branch'', 2), (''git cat-file'', 2), (''git checkout'', 2),
     (''git cherry-pick'', 2), (''git clean'', 2), (''git clone'', 2), (''git commit'', 2),
     (''git config'', 2), (''git describe'', 2), (''git diff'', 2), (''git fetch'', 2),
     (''git format-patch'', 2), (''git grep'', 2), (''git init'', 2), (''git log'', 2),
     (''git ls-files'', 2), (''git merge'', 2), (''git mv'', 2), (''git notes'', 2),
     (''git pull'', 2), (''git push'', 2), (''git rebase'', 2), (''git reflog'', 2),
     (''git remote'', 2), (''git reset'', 2), (''git restore'', 2), (''git revert'', 2),
     (''git rm'', 2), (''git show'', 2), (''git stash'', 2), (''git status'', 2),
     (''git submodule'', 2), (''git switch'', 2), (''git tag'', 2), (''git worktree'', 2),
     (''npm audit'', 2), (''npm build'', 2), (''npm cache'', 2), (''npm ci'', 2),
     (''npm dedupe'', 2), (''npm fund'', 2), (''npm help'', 2), (''npm info'', 2),
     (''npm init'', 2), (''npm install'', 2), (''npm link'', 2), (''npm list'', 2),
     (''npm ls'', 2), (''npm outdated'', 2), (''npm pack'', 2), (''npm prune'', 2),
     (''npm publish'', 2), (''npm rebuild'', 2), (''npm run'', 3), (''npm start'', 2),
     (''npm stop'', 2), (''npm test'', 2), (''npm uninstall'', 2), (''npm update'', 2),
     (''npm version'', 2), (''npm view'', 2), (''yarn add'', 2), (''yarn audit'', 2),
     (''yarn build'', 2), (''yarn install'', 2), (''yarn run'', 3), (''yarn start'', 2),
     (''yarn test'', 2), (''yarn upgrade'', 2), (''yarn workspace'', 3), (''pnpm add'', 2),
     (''pnpm build'', 2), (''pnpm install'', 2), (''pnpm run'', 3), (''pnpm start'', 2),
     (''pnpm test'', 2), (''pnpm update'', 2), (''cargo add'', 2), (''cargo bench'', 2),
     (''cargo build'', 2), (''cargo check'', 2), (''cargo clean'', 2), (''cargo clippy'', 2),
     (''cargo doc'', 2), (''cargo fix'', 2), (''cargo fmt'', 2), (''cargo generate'', 2),
     (''cargo install'', 2), (''cargo metadata'', 2), (''cargo package'', 2),
     (''cargo publish'', 2), (''cargo remove'', 2), (''cargo run'', 2), (''cargo search'', 2),
     (''cargo test'', 2), (''cargo tree'', 2), (''cargo uninstall'', 2), (''cargo update'', 2),
     (''cargo yank'', 2), (''docker build'', 2), (''docker compose'', 3),
     (''docker container'', 3), (''docker cp'', 2), (''docker exec'', 2), (''docker image'', 3),
     (''docker images'', 2), (''docker inspect'', 2), (''docker kill'', 2), (''docker logs'', 2),
     (''docker network'', 3), (''docker ps'', 2), (''docker pull'', 2), (''docker push'', 2),
     (''docker rm'', 2), (''docker rmi'', 2), (''docker run'', 2), (''docker start'', 2),
     (''docker stop'', 2), (''docker system'', 3), (''docker tag'', 2), (''docker volume'', 3),
     (''kubectl apply'', 2), (''kubectl create'', 3), (''kubectl delete'', 3),
     (''kubectl describe'', 3), (''kubectl exec'', 2), (''kubectl explain'', 2),
     (''kubectl get'', 3), (''kubectl label'', 2), (''kubectl logs'', 2), (''kubectl patch'', 2),
     (''kubectl port-forward'', 2), (''kubectl rollout'', 3), (''kubectl scale'', 2),
     (''kubectl set'', 2), (''kubectl top'', 3), (''go build'', 2), (''go clean'', 2),
     (''go env'', 2), (''go fmt'', 2), (''go generate'', 2), (''go get'', 2), (''go install'', 2),
     (''go list'', 2), (''go mod'', 3), (''go run'', 2), (''go test'', 2), (''go vet'', 2),
     (''go work'', 3), (''pip install'', 2), (''pip uninstall'', 2), (''pip list'', 2),
     (''pip show'', 2), (''pip freeze'', 2), (''pip3 install'', 2), (''pip3 uninstall'', 2),
     (''pip3 list'', 2), (''pip3 show'', 2), (''python -m'', 3), (''python3 -m'', 3),
     (''make'', 1), (''cmake'', 1), (''gh pr'', 3), (''gh issue'', 3), (''gh repo'', 3),
     (''gh release'', 3), (''gh workflow'', 3), (''gh run'', 3), (''gh secret'', 3),
     (''rustup default'', 2), (''rustup install'', 2), (''rustup show'', 2),
     (''rustup target'', 3), (''rustup toolchain'', 3), (''rustup update'', 2), (''deno run'', 2),
     (''deno test'', 2), (''deno fmt'', 2), (''deno lint'', 2), (''bun add'', 2),
     (''bun build'', 2), (''bun install'', 2), (''bun run'', 3), (''bun test'', 2), (''npx'', 2),
     (''aws s3'', 3), (''aws ec2'', 3), (''aws iam'', 3), (''aws lambda'', 3),
     (''aws cloudformation'', 3), (''aws ecs'', 3), (''aws eks'', 3), (''aws rds'', 3),
     (''aws sts'', 3), (''aws configure'', 2), (''terraform init'', 2), (''terraform plan'', 2),
     (''terraform apply'', 2), (''terraform destroy'', 2), (''terraform validate'', 2),
     (''terraform output'', 2), (''terraform state'', 3), (''terraform workspace'', 3),
     (''helm install'', 2), (''helm upgrade'', 2), (''helm uninstall'', 2), (''helm list'', 2),
     (''helm repo'', 3), (''helm status'', 2), (''helm template'', 2)
   ]"

record BashArityDict =
  dict_entries :: "arity_entry list"

section \<open>Operations\<close>

text \<open>\<open>BashArityDict::new\<close>: the table sorted (stably) by decreasing key length.\<close>

definition BashArityDict_new :: BashArityDict where
  "BashArityDict_new =
     \<lparr>dict_entries = sort_key (\<lambda>e. - int (length (fst e))) BASH_ARITY_TABLE\<rparr>"

definition is_flag :: "string \<Rightarrow> bool" where
  "is_flag t = starts_with t ''-''"

definition positional :: "string list \<Rightarrow> string list" where
  "positional tokens = map to_ascii_lowercase (filter (\<lambda>t. \<not> is_flag t) tokens)"

text \<open>
  The loop over candidate depths, from the deepest down to 1: \<open>try_depths\<close> is called with
  \<open>min (length pos) 3\<close>.
\<close>

fun try_depths :: "arity_entry list \<Rightarrow> string list \<Rightarrow> nat \<Rightarrow> string option" where
  "try_depths tbl pos 0 = None"
| "try_depths tbl pos (Suc n) =
     (case List.find (\<lambda>e. fst e = join '' '' (take (Suc n) pos)) tbl of
        Some e \<Rightarrow> Some (join '' '' (take (min (unat (snd e)) (length pos)) pos))
      | None \<Rightarrow> try_depths tbl pos n)"

definition classify_tokens :: "arity_entry list \<Rightarrow> string list \<Rightarrow> string" where
  "classify_tokens tbl tokens =
     (if tokens = [] then []
      else
        (case positional tokens of
           [] \<Rightarrow> []
         | base # rest \<Rightarrow>
             (case try_depths tbl (base # rest) (min (length (base # rest)) 3) of
                Some canonical \<Rightarrow> canonical
              | None \<Rightarrow> base)))"

definition classify :: "BashArityDict \<Rightarrow> string list \<Rightarrow> string" where
  "classify d tokens = classify_tokens (dict_entries d) tokens"

definition allow_rule_matches :: "BashArityDict \<Rightarrow> string \<Rightarrow> string \<Rightarrow> bool" where
  "allow_rule_matches d pattern command =
     (let pattern_lower = to_ascii_lowercase (trim pattern);
          command_tokens = split_whitespace command;
          canonical = classify d command_tokens
      in if canonical = pattern_lower then True
         else
           (let command_lower = to_ascii_lowercase (trim command);
                pattern_norm = join '' '' (split_whitespace pattern_lower);
                command_norm = join '' '' (split_whitespace command_lower)
            in command_norm = pattern_norm \<or>
               (starts_with command_norm pattern_norm \<and>
                nth_opt command_norm (length pattern_norm) = Some (CHR '' ''))))"

definition dict_len :: "BashArityDict \<Rightarrow> nat" where
  "dict_len d = length (dict_entries d)"

definition dict_is_empty :: "BashArityDict \<Rightarrow> bool" where
  "dict_is_empty d = (dict_entries d = [])"

section \<open>The classifier contract\<close>

locale arity_classifier =
  fixes cls :: "string list \<Rightarrow> string"
  assumes cls_positional: "positional ts = positional us \<Longrightarrow> cls ts = cls us"
    and cls_empty: "positional ts = [] \<Longrightarrow> cls ts = []"
    and cls_prefix: "positional ts \<noteq> [] \<Longrightarrow> \<exists>k > 0. cls ts = join '' '' (take k (positional ts))"
begin

lemma cls_flag_insert: "is_flag f \<Longrightarrow> cls (xs @ f # ys) = cls (xs @ ys)"
  by (rule cls_positional) (simp add: positional_def)

lemma cls_drop_flags: "cls (filter (\<lambda>t. \<not> is_flag t) ts) = cls ts"
  by (rule cls_positional) (simp add: positional_def)

lemma cls_words:
  assumes "\<forall>t \<in> set ts. is_token t" and "positional ts \<noteq> []"
  shows "\<exists>k > 0. split_whitespace (cls ts) = take k (positional ts)"
proof -
  obtain k where k: "k > 0" "cls ts = join '' '' (take k (positional ts))"
    using cls_prefix [OF assms(2)] by blast
  have "\<forall>w \<in> set (take k (positional ts)). is_token w"
    using assms(1) by (auto simp: positional_def is_token_lower dest!: in_set_takeD)
  with k show ?thesis using split_whitespace_join by auto
qed

lemma cls_base_word:
  assumes "\<forall>t \<in> set ts. is_token t" and "positional ts \<noteq> []"
  shows "split_whitespace (cls ts) \<noteq> [] \<and> hd (split_whitespace (cls ts)) = hd (positional ts)"
  using cls_words [OF assms] assms(2) by (auto simp: hd_take)

end

section \<open>Classification lemmas\<close>

lemma try_depths_Some:
  assumes "\<forall>e \<in> set tbl. 0 < unat (snd e)" and "try_depths tbl pos n = Some c"
    and "pos \<noteq> []"
  shows "\<exists>k > 0. c = join '' '' (take k pos)"
  using assms(2)
proof (induction n)
  case (Suc n)
  show ?case
  proof (cases "List.find (\<lambda>e. fst e = join '' '' (take (Suc n) pos)) tbl")
    case None
    with Suc show ?thesis by simp
  next
    case (Some e)
    then have "e \<in> set tbl" using find_Some_set by fastforce
    with assms(1,3) have "0 < min (unat (snd e)) (length pos)" by simp
    moreover have "c = join '' '' (take (min (unat (snd e)) (length pos)) pos)"
      using Suc.prems Some by simp
    ultimately show ?thesis by blast
  qed
qed simp

lemma positional_Nil [simp]: "positional [] = []"
  by (simp add: positional_def)

lemma classify_tokens_positional:
  "positional ts = positional us \<Longrightarrow> classify_tokens tbl ts = classify_tokens tbl us"
  by (cases "ts = []"; cases "us = []") (auto simp: classify_tokens_def)

lemma classify_tokens_classifier:
  assumes "\<forall>e \<in> set tbl. 0 < unat (snd e)"
  shows "arity_classifier (classify_tokens tbl)"
proof
  fix ts us :: "string list"
  show "positional ts = positional us \<Longrightarrow> classify_tokens tbl ts = classify_tokens tbl us"
    by (rule classify_tokens_positional)
  show "positional ts = [] \<Longrightarrow> classify_tokens tbl ts = []"
    by (simp add: classify_tokens_def)
  show "\<exists>k > 0. classify_tokens tbl ts = join '' '' (take k (positional ts))"
    if ne: "positional ts \<noteq> []"
  proof (cases "try_depths tbl (positional ts) (min (length (positional ts)) 3)")
    case None
    then have "classify_tokens tbl ts = join '' '' (take 1 (positional ts))"
      using ne by (cases "positional ts") (auto simp: classify_tokens_def)
    then show ?thesis by (intro exI [of _ 1]) simp
  next
    case (Some c)
    then have "classify_tokens tbl ts = c"
      using ne by (cases "positional ts") (auto simp: classify_tokens_def)
    with try_depths_Some [OF assms Some ne] show ?thesis by simp
  qed
qed

lemma bash_table_arity_pos: "\<forall>e \<in> set BASH_ARITY_TABLE. 0 < unat (snd e)"
  by code_simp

lemma bash_dict_arity_pos: "\<forall>e \<in> set (dict_entries BashArityDict_new). 0 < unat (snd e)"
  using bash_table_arity_pos by (simp add: BashArityDict_new_def)

interpretation bash_dict: arity_classifier "classify BashArityDict_new"
  using classify_tokens_classifier [OF bash_dict_arity_pos] by (simp add: classify_def [abs_def])

section \<open>The sorted dictionary answers like the table\<close>

lemma find_filter: "List.find P xs = (case filter P xs of [] \<Rightarrow> None | x # _ \<Rightarrow> Some x)"
  by (induction xs) auto

text \<open>Entries with the same key have the same length, so the stable sort keeps their order.\<close>

lemma find_key_sorted:
  fixes tbl :: "(string \<times> 'a) list"
  shows "List.find (\<lambda>e. fst e = k) (sort_key (\<lambda>e. - int (length (fst e))) tbl) =
     List.find (\<lambda>e. fst e = k) tbl"
proof -
  let ?f = "\<lambda>e. - int (length (fst e))"
  have split: "filter (\<lambda>e. fst e = k) xs =
      filter (\<lambda>e. fst e = k) (filter (\<lambda>e. ?f e = - int (length k)) xs)" for xs :: "(string \<times> 'a) list"
    by (auto intro: filter_cong)
  have "filter (\<lambda>e. fst e = k) (sort_key ?f tbl) = filter (\<lambda>e. fst e = k) tbl"
    using split [of "sort_key ?f tbl"] split [of tbl] sort_key_stable [of ?f "- int (length k)" tbl]
    by presburger
  then show ?thesis by (simp only: find_filter)
qed

lemma try_depths_sorted:
  "try_depths (sort_key (\<lambda>e. - int (length (fst e))) tbl) pos n = try_depths tbl pos n"
  by (induction n) (simp_all add: find_key_sorted split: option.split)

lemma classify_table: "classify BashArityDict_new ts = classify_tokens BASH_ARITY_TABLE ts"
  by (simp only: classify_def BashArityDict_new_def classify_tokens_def try_depths_sorted
      BashArityDict.simps)

section \<open>Allow-rule matching on words\<close>

definition words_lower :: "string \<Rightarrow> string list" where
  "words_lower s = map to_ascii_lowercase (split_whitespace s)"

lemma words_lower_tokens: "w \<in> set (words_lower s) \<Longrightarrow> is_token w"
  by (auto simp: words_lower_def intro: is_token_lower split_whitespace_tokens)

lemma split_whitespace_join_append:
  "\<forall>w \<in> set us. is_token w \<Longrightarrow> us \<noteq> [] \<Longrightarrow>
     split_whitespace (join '' '' us @ CHR '' '' # r) = us @ split_whitespace r"
proof (induction "'' ''" us rule: join.induct)
  case (2 w)
  then show ?case using split_whitespace_token_append [of w "CHR '' '' # r"] by simp
next
  case (3 w v ws)
  then show ?case
    using split_whitespace_token_append [of w "CHR '' '' # join '' '' (v # ws) @ CHR '' '' # r"] by simp
qed simp

lemma word_boundary_prefix:
  assumes "\<forall>w \<in> set us. is_token w" and "\<forall>w \<in> set vs. is_token w" and "us \<noteq> []"
  shows "(join '' '' vs = join '' '' us \<or>
      (starts_with (join '' '' vs) (join '' '' us) \<and>
       nth_opt (join '' '' vs) (length (join '' '' us)) = Some (CHR '' ''))) \<longleftrightarrow> prefix us vs"
    (is "?L \<longleftrightarrow> ?R")
proof
  assume ?L
  then consider "vs = us" | r where "join '' '' vs = join '' '' us @ CHR '' '' # r"
    using join_inject [OF assms(2,1)]
    by (auto simp: starts_with_def nth_opt_def prefix_def nth_append hd_conv_nth [symmetric]
        neq_Nil_conv split: if_splits)
  then show ?R
  proof cases
    case 2
    then have "vs = us @ split_whitespace r"
      using split_whitespace_join [OF assms(2)] split_whitespace_join_append [OF assms(1,3), of r]
      by simp
    then show ?thesis by simp
  qed simp
next
  assume ?R
  then obtain ws where ws: "vs = us @ ws" by (auto simp: prefix_def)
  show ?L
  proof (cases "ws = []")
    case False
    then have "join '' '' vs = join '' '' us @ '' '' @ join '' '' ws"
      using ws assms(3) by (simp add: join_append)
    then show ?thesis by (simp add: starts_with_def nth_opt_def)
  qed (simp add: ws)
qed

lemma allow_rule_matches_words:
  "allow_rule_matches d pattern command \<longleftrightarrow>
     classify d (split_whitespace command) = to_ascii_lowercase (trim pattern) \<or>
     (if words_lower pattern = [] then words_lower command = []
      else prefix (words_lower pattern) (words_lower command))"
proof -
  let ?P = "words_lower pattern" and ?C = "words_lower command"
  have norm: "split_whitespace (to_ascii_lowercase (trim s)) = words_lower s" for s
    by (simp add: split_whitespace_lower words_lower_def)
  have toks: "\<forall>w \<in> set ?P. is_token w" "\<forall>w \<in> set ?C. is_token w"
    by (simp_all add: words_lower_tokens)
  have empty: "(join '' '' ?C = [] \<or>
      (starts_with (join '' '' ?C) [] \<and> nth_opt (join '' '' ?C) 0 = Some (CHR '' ''))) \<longleftrightarrow> ?C = []"
  proof (cases ?C)
    case (Cons w ws)
    then have "is_token w" using toks by simp
    then obtain c w' where w: "w = c # w'" "c \<noteq> CHR '' ''"
      using space_not_in_token [of w] by (cases w) (auto simp: is_token_def)
    have "\<exists>r. join '' '' (w # ws) = c # r" using w by (cases ws) auto
    then show ?thesis using Cons w by (auto simp: nth_opt_def)
  qed simp
  show ?thesis
    unfolding allow_rule_matches_def Let_def norm
    using word_boundary_prefix [OF toks] empty by (cases "?P = []") auto
qed

end
