(* ===== verification/Segments.thy ===== *)
theory Segments
  imports Str_Lemmas
begin

text \<open>
  Cutting a shell command into its chained segments. Three components carry their own copy of this
  routine (\<open>command_segments\<close> in the execpolicy crate, \<open>split_command_segments\<close> in
  \<open>command_safety.rs\<close>, \<open>split_shell_segments_for_review\<close> in \<open>auto_review.rs\<close>). The locale
  \<open>segmenter\<close> states what their callers rely on; \<open>cut\<close> is the common shape the three copies are
  shown to have, and \<open>cut_segmenter\<close> discharges the laws once for that shape.
\<close>

section \<open>The interface\<close>

locale segmenter =
  fixes segs :: "string \<Rightarrow> string list"
  assumes seg_trimmed: "x \<in> set (segs c) \<Longrightarrow> trim x = x \<and> x \<noteq> []"
    and seg_self: "x \<in> set (segs c) \<Longrightarrow> segs x = [x]"
    and seg_and: "segs (a @ '' && '' @ b) = segs a @ segs b"
    and seg_or: "segs (a @ '' || '' @ b) = segs a @ segs b"
    and seg_semi: "segs (a @ '' ; '' @ b) = segs a @ segs b"
    and seg_plain: "trim c \<noteq> [] \<Longrightarrow>
      \<forall>d \<in> {CHR ''&'', CHR ''|'', CHR '';'', CHR 0x0A}. d \<notin> set c \<Longrightarrow> segs c = [trim c]"
begin

lemma seg_has_word: "x \<in> set (segs c) \<Longrightarrow> split_whitespace x \<noteq> []"
  using seg_trimmed by (metis split_whitespace_Nil_iff trim_Nil_iff)

lemma seg_chain_members:
  "x \<in> set (segs b) \<Longrightarrow> x \<in> set (segs (a @ '' && '' @ b))"
  "x \<in> set (segs b) \<Longrightarrow> x \<in> set (segs (a @ '' || '' @ b))"
  "x \<in> set (segs b) \<Longrightarrow> x \<in> set (segs (a @ '' ; '' @ b))"
  using seg_and [of a b] seg_or [of a b] seg_semi [of a b] by (auto simp del: append_Cons)

lemma seg_join_and: "cs \<noteq> [] \<Longrightarrow> segs (join '' && '' cs) = concat (map segs cs)"
proof (induction "'' && ''" cs rule: join.induct)
  case (3 w v ws)
  then show ?case using seg_and [of w "join '' && '' (v # ws)"] by simp
qed auto

lemma seg_chain_length:
  "segs a \<noteq> [] \<Longrightarrow> segs b \<noteq> [] \<Longrightarrow> 1 < length (segs (a @ '' ; '' @ b))"
  using seg_semi [of a b] by (cases "segs a"; cases "segs b") (auto simp del: append_Cons)

end

section \<open>The common shape\<close>

definition chain_marks :: "char list \<Rightarrow> string \<Rightarrow> string" where
  "chain_marks extra s =
     replace_chars extra (CHR 0x0A)
       (replace2 (CHR ''|'') (CHR ''|'') (CHR 0x0A)
         (replace2 (CHR ''&'') (CHR ''&'') (CHR 0x0A) s))"

definition cut :: "char list \<Rightarrow> string \<Rightarrow> string list" where
  "cut extra s =
     filter (\<lambda>x. x \<noteq> []) (map trim (split_char (CHR 0x0A) (chain_marks extra s)))"

lemma contains_sublist: "contains s p \<longleftrightarrow> sublist p s"
  by (induction s) (auto simp: sublist_Cons_right)

lemma sublist_pair_Cons:
  "sublist [p, q] (c # s) \<longleftrightarrow> (c = p \<and> (\<exists>r. s = q # r)) \<or> sublist [p, q] s"
  by (cases s) (auto simp: sublist_Cons_right)

lemma replace2_head: "replace2 a b t s = h # r \<Longrightarrow> h = t \<or> (\<exists>u. s = h # u)"
  by (cases "(a, b, t, s)" rule: replace2.cases) (auto split: if_splits)

lemma replace2_pair_Cons:
  assumes "sublist [p, q] (c # replace2 a b t (d # s))" and "q \<noteq> t"
  shows "(c = p \<and> d = q) \<or> sublist [p, q] (replace2 a b t (d # s))"
proof -
  from assms(1) consider r where "c = p" "replace2 a b t (d # s) = q # r"
    | "sublist [p, q] (replace2 a b t (d # s))"
    unfolding sublist_pair_Cons by blast
  then show ?thesis
  proof cases
    case 1
    with replace2_head [OF 1(2)] assms(2) show ?thesis by auto
  qed simp
qed

lemma replace2_sublist:
  "sublist [p, q] (replace2 a b t s) \<Longrightarrow> p \<noteq> t \<Longrightarrow> q \<noteq> t \<Longrightarrow> sublist [p, q] s"
proof (induction a b t s rule: replace2.induct)
  case (1 a b t c d s)
  show ?case
  proof (cases "c = a \<and> d = b")
    case True
    with "1.prems" have "sublist [p, q] (replace2 a b t s)" by (simp add: sublist_pair_Cons)
    then have "sublist [p, q] s" using "1.IH"(1) True "1.prems" by blast
    then show ?thesis by (simp add: sublist_pair_Cons)
  next
    case False
    with "1.prems" have "sublist [p, q] (c # replace2 a b t (d # s))" by auto
    from replace2_pair_Cons [OF this "1.prems"(3)] show ?thesis
      using "1.IH"(2) False "1.prems" by (auto simp: sublist_pair_Cons [of p q c])
  qed
qed simp_all

lemma replace2_no_pair: "t \<noteq> b \<Longrightarrow> t \<noteq> a \<Longrightarrow> \<not> sublist [a, b] (replace2 a b t s)"
proof (induction a b t s rule: replace2.induct)
  case (1 a b t c d s)
  show ?case
  proof (cases "c = a \<and> d = b")
    case True
    with 1 show ?thesis by (simp add: sublist_pair_Cons)
  next
    case False
    show ?thesis
    proof
      assume "sublist [a, b] (replace2 a b t (c # d # s))"
      with False have "sublist [a, b] (c # replace2 a b t (d # s))" by auto
      from replace2_pair_Cons [OF this] 1 False show False by auto
    qed
  qed
qed (auto simp: sublist_Cons_right)

lemma replace2_id: "\<not> sublist [a, b] s \<Longrightarrow> replace2 a b t s = s"
  by (induction a b t s rule: replace2.induct) (auto simp: sublist_pair_Cons)

lemma replace_chars_sublist:
  assumes "sublist [p, q] (replace_chars cs t s)" and "p \<noteq> t" and "q \<noteq> t"
  shows "sublist [p, q] s"
  using assms unfolding replace_chars_def
  by (induction s) (auto simp: sublist_pair_Cons split: if_splits)

lemma replace_chars_id: "\<forall>c \<in> set cs. c \<notin> set s \<Longrightarrow> replace_chars cs t s = s"
  unfolding replace_chars_def by (intro map_idI) auto

lemma split_char_sublist: "w \<in> set (split_char d s) \<Longrightarrow> sublist w s"
proof (induction s arbitrary: w)
  case (Cons c s)
  obtain v vs where v: "split_char d s = v # vs" by (cases "split_char d s") auto
  have pre: "prefix v s"
    using v by (induction s arbitrary: v vs) (auto split: if_splits list.splits)
  show ?case
  proof (cases "c = d")
    case True
    with Cons show ?thesis by (auto simp: sublist_Cons_right)
  next
    case False
    with v Cons.prems consider "w = c # v" | "w \<in> set vs" by auto
    then show ?thesis
    proof cases
      case 1
      with pre show ?thesis by (simp add: prefix_imp_sublist)
    next
      case 2
      with v Cons.IH [of w] show ?thesis by (simp add: sublist_Cons_right)
    qed
  qed
qed simp

lemma cut_member:
  assumes "x \<in> set (cut extra s)"
  shows "trim x = x" and "x \<noteq> []" and "CHR 0x0A \<notin> set x"
    and "\<not> sublist [CHR ''&'', CHR ''&''] x" and "\<not> sublist [CHR ''|'', CHR ''|''] x"
    and "\<forall>c \<in> set extra. c \<noteq> CHR 0x0A \<longrightarrow> c \<notin> set x"
proof -
  let ?nl = "CHR 0x0A"
  let ?m = "chain_marks extra s"
  from assms obtain w where w: "w \<in> set (split_char ?nl ?m)" "x = trim w" "x \<noteq> []"
    by (auto simp: cut_def)
  have sub: "sublist x ?m"
    using split_char_sublist [OF w(1)] trim_sublist [of w] w(2) sublist_order.order.trans by blast
  show "trim x = x" "x \<noteq> []" using w by simp_all
  show "?nl \<notin> set x" using split_char_pieces [OF w(1)] set_trim [of w] w(2) by blast
  show "\<not> sublist [CHR ''&'', CHR ''&''] x"
  proof
    assume "sublist [CHR ''&'', CHR ''&''] x"
    with sub have "sublist [CHR ''&'', CHR ''&''] ?m" using sublist_order.order.trans by blast
    then show False
      unfolding chain_marks_def
      using replace2_no_pair [of ?nl "CHR ''&''" "CHR ''&''" s]
      by (auto dest!: replace_chars_sublist replace2_sublist)
  qed
  show "\<not> sublist [CHR ''|'', CHR ''|''] x"
  proof
    assume "sublist [CHR ''|'', CHR ''|''] x"
    with sub have "sublist [CHR ''|'', CHR ''|''] ?m" using sublist_order.order.trans by blast
    then show False
      unfolding chain_marks_def
      using replace2_no_pair [of ?nl "CHR ''|''" "CHR ''|''"]
      by (auto dest!: replace_chars_sublist)
  qed
  show "\<forall>c \<in> set extra. c \<noteq> ?nl \<longrightarrow> c \<notin> set x"
    using set_mono_sublist [OF sub] by (auto simp: chain_marks_def replace_chars_def)
qed

lemma cut_self:
  assumes "x \<in> set (cut extra s)" and "CHR 0x0A \<notin> set extra"
  shows "cut extra x = [x]"
proof -
  note mem = cut_member [OF assms(1)]
  have "\<forall>c \<in> set extra. c \<notin> set x" using mem(6) assms(2) by metis
  then have "chain_marks extra x = x"
    unfolding chain_marks_def replace2_id [OF mem(4)] replace2_id [OF mem(5)]
    by (rule replace_chars_id)
  with mem show ?thesis by (simp add: cut_def split_char_no_sep)
qed

lemma replace2_space:
  assumes "a \<noteq> CHR '' ''" and "b \<noteq> CHR '' ''"
  shows "replace2 a b t (x @ CHR '' '' # y) = replace2 a b t x @ CHR '' '' # replace2 a b t y"
  using assms
  by (induction a b t x rule: replace2.induct; cases y) auto

lemma trim_space: "trim (CHR '' '' # s) = trim s"
  by (simp add: trim_def)

lemma trim_space_end: "trim (s @ '' '') = trim s"
  by (rule trim_append_blank) code_simp

lemma split_char_space_start:
  "d \<noteq> CHR '' '' \<Longrightarrow> map trim (split_char d (CHR '' '' # s)) = map trim (split_char d s)"
  by (auto simp: trim_space split: list.splits)

lemma split_char_append:
  "d \<notin> set t \<Longrightarrow> split_char d (s @ t) = butlast (split_char d s) @ [last (split_char d s) @ t]"
proof (induction s)
  case Nil
  then show ?case by (simp add: split_char_no_sep)
next
  case (Cons c s)
  then show ?case by (cases "split_char d s"; cases "butlast (split_char d s)") (auto split: list.splits)
qed

lemma split_char_space_end:
  assumes "d \<noteq> CHR '' ''"
  shows "map trim (split_char d (s @ '' '')) = map trim (split_char d s)"
proof -
  let ?xs = "split_char d s"
  have "map trim (split_char d (s @ '' '')) = map trim (butlast ?xs) @ [trim (last ?xs @ '' '')]"
    using split_char_append [of d "'' ''" s] assms by simp
  also have "\<dots> = map trim (butlast ?xs @ [last ?xs])"
    by (simp only: map_append list.map trim_space_end)
  also have "butlast ?xs @ [last ?xs] = ?xs" by (rule append_butlast_last_id) simp
  finally show ?thesis .
qed

text \<open>A separator with spaces around it, once marked, cuts the command in two.\<close>

lemma cut_at:
  assumes "chain_marks extra m = '' '' @ [CHR 0x0A] @ '' ''"
    and "\<And>a b. chain_marks extra (a @ m @ b) = chain_marks extra a @ chain_marks extra m @ chain_marks extra b"
  shows "cut extra (a @ m @ b) = cut extra a @ cut extra b"
proof -
  let ?A = "chain_marks extra a" and ?B = "chain_marks extra b"
  have "split_char (CHR 0x0A) (chain_marks extra (a @ m @ b)) =
      split_char (CHR 0x0A) (?A @ '' '') @ split_char (CHR 0x0A) (CHR '' '' # ?B)"
    using assms split_char_append_sep [of "CHR 0x0A" "?A @ '' ''" "CHR '' '' # ?B"] by simp
  then have "map trim (split_char (CHR 0x0A) (chain_marks extra (a @ m @ b))) =
      map trim (split_char (CHR 0x0A) ?A) @ map trim (split_char (CHR 0x0A) ?B)"
    using split_char_space_start [of "CHR 0x0A" ?B] split_char_space_end [of "CHR 0x0A" ?A]
    by (simp del: split_char.simps)
  then show ?thesis by (simp add: cut_def)
qed

lemma replace_chars_append: "replace_chars cs t (a @ b) = replace_chars cs t a @ replace_chars cs t b"
  by (simp add: replace_chars_def)

lemma chain_marks_spaced:
  assumes "CHR '' '' \<notin> set extra"
  shows "chain_marks extra (a @ '' '' @ m @ '' '' @ b) =
     chain_marks extra a @ '' '' @ chain_marks extra m @ '' '' @ chain_marks extra b"
  using assms
  by (simp add: chain_marks_def replace2_space replace_chars_append)
    (simp add: replace_chars_def)

lemma cut_segmenter:
  assumes semi: "CHR '';'' \<in> set extra" and sub: "set extra \<subseteq> {CHR ''|'', CHR '';''}"
  shows "segmenter (cut extra)"
proof -
  have nl: "CHR 0x0A \<notin> set extra" and sp: "CHR '' '' \<notin> set extra" using sub by auto
  have empty: "chain_marks extra [] = []" by (simp add: chain_marks_def replace_chars_def)
  have marks: "chain_marks extra ''&&'' = [CHR 0x0A]" "chain_marks extra ''||'' = [CHR 0x0A]"
    "chain_marks extra '';'' = [CHR 0x0A]"
    using semi by (simp_all add: chain_marks_def replace_chars_def)
  have spaced: "cut extra (a @ ('' '' @ m @ '' '') @ b) = cut extra a @ cut extra b"
    if "chain_marks extra m = [CHR 0x0A]" for a b m
  proof (rule cut_at)
    show "chain_marks extra ('' '' @ m @ '' '') = '' '' @ [CHR 0x0A] @ '' ''"
      using chain_marks_spaced [OF sp, of "[]" m "[]"] that empty by simp
    show "chain_marks extra (a @ ('' '' @ m @ '' '') @ b) =
        chain_marks extra a @ chain_marks extra ('' '' @ m @ '' '') @ chain_marks extra b" for a b
      using chain_marks_spaced [OF sp, of a m b] chain_marks_spaced [OF sp, of "[]" m "[]"] empty
      by simp
  qed
  show ?thesis
  proof
    show "trim x = x \<and> x \<noteq> []" if "x \<in> set (cut extra c)" for x c
      using cut_member [OF that] by simp
    show "cut extra x = [x]" if "x \<in> set (cut extra c)" for x c
      by (rule cut_self [OF that nl])
    show "cut extra (a @ '' && '' @ b) = cut extra a @ cut extra b" for a b
      using spaced [OF marks(1), of a b] by simp
    show "cut extra (a @ '' || '' @ b) = cut extra a @ cut extra b" for a b
      using spaced [OF marks(2), of a b] by simp
    show "cut extra (a @ '' ; '' @ b) = cut extra a @ cut extra b" for a b
      using spaced [OF marks(3), of a b] by simp
    show "cut extra c = [trim c]"
      if "trim c \<noteq> []" and "\<forall>d \<in> {CHR ''&'', CHR ''|'', CHR '';'', CHR 0x0A}. d \<notin> set c" for c
    proof -
      from that(2) have no: "\<not> sublist [d, d] c" if "d = CHR ''&'' \<or> d = CHR ''|''" for d
        using set_mono_sublist [of "[d, d]" c] that by auto
      have "chain_marks extra c = c"
        unfolding chain_marks_def using no sub that(2) by (simp add: replace2_id) (rule replace_chars_id, blast)
      with that show ?thesis by (simp add: cut_def split_char_no_sep)
    qed
  qed
qed

end
