(* ===== verification/Deny_Match.thy ===== *)
theory Deny_Match
  imports Arity Segments
begin

text \<open>
  Matching of denied command prefixes (\<open>crates/execpolicy/src/lib.rs\<close>): the segments of a chained
  command, and the search over (command index, rule index) pairs that skips flags. \<open>deny_search\<close> is
  the worklist loop of the source, with its stack and its \<open>seen\<close> set; \<open>deny_match\<close> is the plain
  recursion it is shown to compute.
\<close>

section \<open>Operations\<close>

definition command_segments :: "string \<Rightarrow> string list" where
  "command_segments command =
     filter (\<lambda>segment. segment \<noteq> [])
       (map trim
         (lines
           (replace_chars [CHR ''|'', CHR '';''] (CHR 0x0A)
             (replace2 (CHR ''|'') (CHR ''|'') (CHR 0x0A)
               (replace2 (CHR ''&'') (CHR ''&'') (CHR 0x0A) command)))))"

definition command_is_chained :: "string \<Rightarrow> bool" where
  "command_is_chained command = (1 < length (command_segments command))"

definition normalize_command :: "string \<Rightarrow> string" where
  "normalize_command v = to_ascii_lowercase (join '' '' (split_whitespace v))"

definition first_token :: "string \<Rightarrow> string" where
  "first_token command = (case split_whitespace command of [] \<Rightarrow> [] | w # _ \<Rightarrow> w)"

definition is_env_assignment :: "string \<Rightarrow> bool" where
  "is_env_assignment token =
     (case split_once (CHR ''='') token of
        Some (name, _) \<Rightarrow>
          name \<noteq> [] \<and> \<not> starts_with name ''-'' \<and>
          list_all (\<lambda>ch. is_ascii_alphanumeric ch \<or> ch = CHR ''_'') name
      | None \<Rightarrow> False)"

text \<open>
  The exploration loop. The pairs pushed for one token are listed top of the stack first: the source
  pushes the consuming pair, then the skipped flag, then the flag with its value. The rule index is
  only advanced past a token of the rule, so it never exceeds the rule's length.
\<close>

definition pushed :: "string list \<Rightarrow> string list \<Rightarrow> nat \<Rightarrow> nat \<Rightarrow> (nat \<times> nat) list" where
  "pushed ct rt i j =
     (let token = ct ! i
      in (if is_flag token
          then (if contains_char token (CHR ''='') then [] else [(i + 2, j)]) @ [(i + 1, j)]
          else []) @
         (if token = rt ! j then [(i + 1, j + 1)] else []))"

function deny_search ::
  "string list \<Rightarrow> string list \<Rightarrow> (nat \<times> nat) set \<Rightarrow> (nat \<times> nat) list \<Rightarrow> bool" where
  "deny_search ct rt seen [] = False"
| "deny_search ct rt seen ((i, j) # stack) =
     (if length rt \<le> j then True
      else if length ct \<le> i \<or> (i, j) \<in> seen then deny_search ct rt seen stack
      else deny_search ct rt (insert (i, j) seen) (pushed ct rt i j @ stack))"
  by pat_completeness auto
termination
proof (relation "measures [\<lambda>(ct, rt, seen, stack). card ({..<length ct} \<times> {..<length rt} - seen),
    \<lambda>(ct, rt, seen, stack). length stack]", goal_cases)
  case (3 ct rt seen i j stack)
  let ?box = "{..<length ct} \<times> {..<length rt}"
  have "(i, j) \<in> ?box - seen" using 3 by auto
  then have "card (?box - insert (i, j) seen) < card (?box - seen)"
    by (intro psubset_card_mono) auto
  then show ?case by simp
qed simp_all

definition deny_tokens :: "string \<Rightarrow> string list" where
  "deny_tokens s = split_whitespace (normalize_command s)"

definition denied_prefix_matches :: "string \<Rightarrow> string \<Rightarrow> bool" where
  "denied_prefix_matches rule command =
     (let rule_tokens = deny_tokens rule
      in if rule_tokens = [] then False
         else
           (let command_tokens = deny_tokens command;
                start = (case position (\<lambda>t. \<not> is_env_assignment t) command_tokens of
                           Some i \<Rightarrow> i | None \<Rightarrow> length command_tokens)
            in deny_search command_tokens rule_tokens {} [(start, 0)]))"

section \<open>The reference matcher\<close>

fun deny_match :: "string list \<Rightarrow> string list \<Rightarrow> bool" where
  "deny_match ct [] = True"
| "deny_match [] (r # rs) = False"
| "deny_match (t # ts) (r # rs) =
     (t = r \<and> deny_match ts rs \<or>
      is_flag t \<and>
        (deny_match ts (r # rs) \<or>
         CHR ''='' \<notin> set t \<and> deny_match (drop 1 ts) (r # rs)))"

definition at :: "string list \<Rightarrow> string list \<Rightarrow> nat \<times> nat \<Rightarrow> bool" where
  "at ct rt p = deny_match (drop (fst p) ct) (drop (snd p) rt)"

lemma at_step:
  assumes "i < length ct" and "j < length rt"
  shows "at ct rt (i, j) \<longleftrightarrow> (\<exists>q \<in> set (pushed ct rt i j). at ct rt q)"
proof -
  have "drop i ct = ct ! i # drop (Suc i) ct" "drop j rt = rt ! j # drop (Suc j) rt"
    using assms by (simp_all add: Cons_nth_drop_Suc)
  then show ?thesis
    by (cases "is_flag (ct ! i)"; cases "CHR ''='' \<in> set (ct ! i)"; cases "ct ! i = rt ! j")
      (simp_all add: at_def pushed_def Let_def contains_char_def numeral_2_eq_2, blast+)
qed

lemma at_dead: "length ct \<le> i \<Longrightarrow> j < length rt \<Longrightarrow> \<not> at ct rt (i, j)"
  by (cases "drop j rt") (auto simp: at_def)

text \<open>
  What the loop keeps: every pair already seen is inside the box, and each of its successors has
  been seen, is still on the stack, or lies behind the last command token.
\<close>

definition search_inv ::
  "string list \<Rightarrow> string list \<Rightarrow> (nat \<times> nat) set \<Rightarrow> (nat \<times> nat) list \<Rightarrow> bool" where
  "search_inv ct rt seen stack \<longleftrightarrow>
     (\<forall>(i, j) \<in> seen. i < length ct \<and> j < length rt \<and>
        (\<forall>q \<in> set (pushed ct rt i j). q \<in> seen \<or> q \<in> set stack \<or>
           (length ct \<le> fst q \<and> snd q < length rt)))"

lemma pushed_advances: "q \<in> set (pushed ct rt i j) \<Longrightarrow> i < fst q"
  by (auto simp: pushed_def Let_def split: if_splits)

lemma seen_reaches_stack:
  assumes "search_inv ct rt seen stack" and "p \<in> seen" and "at ct rt p"
  shows "\<exists>q \<in> set stack. at ct rt q"
  using assms(2,3)
proof (induction "length ct - fst p" arbitrary: p rule: less_induct)
  case less
  obtain i j where p: "p = (i, j)" by (cases p)
  with assms(1) less.prems have box: "i < length ct" "j < length rt"
    and succ: "\<forall>q \<in> set (pushed ct rt i j). q \<in> seen \<or> q \<in> set stack \<or>
        (length ct \<le> fst q \<and> snd q < length rt)"
    by (auto simp: search_inv_def)
  obtain q where q: "q \<in> set (pushed ct rt i j)" "at ct rt q"
    using at_step [OF box] less.prems p by auto
  have "\<not> (length ct \<le> fst q \<and> snd q < length rt)"
    using at_dead [of ct "fst q" "snd q" rt] q(2) by auto
  then consider "q \<in> seen" | "q \<in> set stack" using succ q(1) by blast
  then show ?case
  proof cases
    case 1
    have "length ct - fst q < length ct - fst p"
      using pushed_advances [OF q(1)] box p by auto
    then show ?thesis using 1 q(2) by (rule less.hyps)
  qed (use q in blast)
qed

lemma deny_search_iff:
  "search_inv ct rt seen stack \<Longrightarrow>
     deny_search ct rt seen stack \<longleftrightarrow> (\<exists>p \<in> set stack. at ct rt p)"
proof (induction ct rt seen stack rule: deny_search.induct)
  case (2 ct rt seen i j stack)
  consider "length rt \<le> j" | "j < length rt" "length ct \<le> i" | "j < length rt" "(i, j) \<in> seen"
    | "j < length rt" "i < length ct" "(i, j) \<notin> seen" by linarith
  then show ?case
  proof cases
    case 1
    then show ?thesis by (simp add: at_def)
  next
    case 2
    have "search_inv ct rt seen stack" using "2.prems" 2 by (force simp: search_inv_def)
    with "2.IH"(1) 2 at_dead [OF 2(2,1)] show ?thesis by simp
  next
    case 3
    have inv: "search_inv ct rt seen stack" using "2.prems" 3 by (force simp: search_inv_def)
    have "at ct rt (i, j) \<Longrightarrow> \<exists>p \<in> set stack. at ct rt p" by (rule seen_reaches_stack [OF inv 3(2)])
    with "2.IH"(1) 3 inv show ?thesis by auto
  next
    case 4
    have "search_inv ct rt (insert (i, j) seen) (pushed ct rt i j @ stack)"
      using "2.prems" 4 by (fastforce simp: search_inv_def)
    with "2.IH"(2) 4 at_step [OF 4(2,1)] show ?thesis by auto
  qed
qed simp

definition command_words :: "string \<Rightarrow> string list" where
  "command_words s = map to_ascii_lowercase (split_whitespace s)"

lemma deny_tokens_words [simp]: "deny_tokens s = command_words s"
  by (simp add: deny_tokens_def normalize_command_def split_whitespace_lower command_words_def)

lemma dropWhile_position:
  "drop (case position P xs of Some i \<Rightarrow> i | None \<Rightarrow> length xs) xs = dropWhile (\<lambda>x. \<not> P x) xs"
  by (induction xs) (auto split: option.splits)

lemma denied_prefix_matches_words:
  "denied_prefix_matches rule command \<longleftrightarrow>
     command_words rule \<noteq> [] \<and>
     deny_match (dropWhile is_env_assignment (command_words command)) (command_words rule)"
proof -
  have inv: "search_inv ct rt {} stack" for ct rt stack by (simp add: search_inv_def)
  show ?thesis
    using dropWhile_position [where P = "\<lambda>t. \<not> is_env_assignment t" and xs = "command_words command"]
    by (simp del: deny_search.simps
        add: denied_prefix_matches_def Let_def deny_search_iff [OF inv] at_def)
qed

text \<open>
  C7. The flag-skipping worklist search of \<open>denied_prefix_matches\<close> computes the declarative matcher:
  after the leading environment assignments, the rule's words are consumed in order, a flag may be
  skipped, and a flag without \<open>=\<close> may be skipped together with the token behind it.
\<close>

theorem denied_prefix_matches_reference:
  "denied_prefix_matches rule command \<longleftrightarrow>
     command_words rule \<noteq> [] \<and>
     deny_match (dropWhile is_env_assignment (command_words command)) (command_words rule)"
  by (rule denied_prefix_matches_words)

section \<open>What the matcher guarantees\<close>

lemma deny_match_append: "deny_match (rs @ rest) rs"
  by (induction rs) auto

lemma deny_match_flag_insert:
  assumes "\<not> is_flag t" and "deny_match (t # ts) rs" and "rs \<noteq> []"
  shows "is_flag f \<Longrightarrow> deny_match (t # f # ts) rs"
    and "is_flag f \<Longrightarrow> CHR ''='' \<notin> set f \<Longrightarrow> deny_match (t # f # v # ts) rs"
proof -
  from assms obtain r rs' where rs: "rs = r # rs'" "t = r" "deny_match ts rs'"
    by (cases rs) auto
  then show "is_flag f \<Longrightarrow> deny_match (t # f # ts) rs"
    by (cases rs') auto
  show "is_flag f \<Longrightarrow> CHR ''='' \<notin> set f \<Longrightarrow> deny_match (t # f # v # ts) rs"
    using rs by (cases rs') auto
qed

lemma deny_match_anchored:
  "deny_match (t # ts) (r # rs) \<Longrightarrow> \<not> is_flag t \<Longrightarrow> t = r"
  by simp

interpretation cmdseg: segmenter command_segments
proof -
  have "command_segments c = cut [CHR ''|'', CHR '';''] c" for c
    unfolding command_segments_def cut_def chain_marks_def by (rule trimmed_lines)
  then have "command_segments = cut [CHR ''|'', CHR '';'']" by (rule ext)
  then show "segmenter command_segments"
    using cut_segmenter [of "[CHR ''|'', CHR '';'']"] by simp
qed

end
