(* ===== verification/Exec_Paths.thy ===== *)
theory Exec_Paths
  imports Segments
begin

text \<open>
  The lexical path rules of \<open>crates/execpolicy/src/lib.rs\<close>: workspace-relative normalisation of a
  file path and normalisation of the workspace scope of a rule. The platform's case rule
  (\<open>platform_paths_are_case_insensitive\<close>, a compile-time constant) is the argument \<open>ci\<close>.
\<close>

section \<open>Data and operations\<close>

record PathForMatching =
  path_root :: "string option"
  path_components :: "string list"

definition SLASH :: char where
  "SLASH = CHR 0x2F"

definition has_windows_drive_prefix :: "string \<Rightarrow> bool" where
  "has_windows_drive_prefix v =
     (2 \<le> length v \<and> is_ascii_alphabetic (v ! 0) \<and> v ! 1 = CHR '':'')"

definition is_windows_absolute_path :: "string \<Rightarrow> bool" where
  "is_windows_absolute_path v =
     (3 \<le> length v \<and> is_ascii_alphabetic (v ! 0) \<and> v ! 1 = CHR '':'' \<and> v ! 2 = SLASH)"

text \<open>The component loop: empty and \<open>.\<close> components are dropped, \<open>..\<close> gives up.\<close>

fun normalized_components :: "string list \<Rightarrow> string list option" where
  "normalized_components [] = Some []"
| "normalized_components (c # cs) =
     (if c = [] \<or> c = ''.'' then normalized_components cs
      else if c = ''..'' then None
      else map_option (Cons c) (normalized_components cs))"

definition fold_path_case :: "bool \<Rightarrow> string \<Rightarrow> string" where
  "fold_path_case ci v =
     (if ci then to_ascii_lowercase v
      else if has_windows_drive_prefix v then to_ascii_lowercase (take 1 v) @ drop 1 v
      else v)"

definition path_canon :: "bool \<Rightarrow> string \<Rightarrow> string" where
  "path_canon ci raw = fold_path_case ci (replace_chars [CHR 0x5C] SLASH (trim raw))"

text \<open>
  The root of a path and the text of its components; \<open>C:foo\<close> is drive-relative and has none.
\<close>

definition split_path_root :: "string \<Rightarrow> (string option \<times> string) option" where
  "split_path_root v =
     (case strip_prefix v [SLASH] of
        Some path \<Rightarrow> Some (Some [SLASH], path)
      | None \<Rightarrow>
          if is_windows_absolute_path v then Some (Some (take 2 v), drop 3 v)
          else if has_windows_drive_prefix v then None
          else Some (None, v))"

definition parse_path_for_matching_with_case :: "string \<Rightarrow> bool \<Rightarrow> PathForMatching option" where
  "parse_path_for_matching_with_case raw ci =
     (let v = path_canon ci raw
      in if v = [] then None
         else
           (case split_path_root v of
              None \<Rightarrow> None
            | Some (root, components) \<Rightarrow>
                (case normalized_components (split_char SLASH components) of
                   None \<Rightarrow> None
                 | Some cs \<Rightarrow> Some \<lparr>path_root = root, path_components = cs\<rparr>)))"

definition normalize_workspace_relative_path_with_case ::
  "string \<Rightarrow> string \<Rightarrow> bool \<Rightarrow> string option" where
  "normalize_workspace_relative_path_with_case raw workspace_root ci =
     (case parse_path_for_matching_with_case raw ci of
        None \<Rightarrow> None
      | Some path \<Rightarrow>
          (case parse_path_for_matching_with_case workspace_root ci of
             None \<Rightarrow> None
           | Some workspace \<Rightarrow>
               (case path_root workspace of
                  None \<Rightarrow> None
                | Some ws_root \<Rightarrow>
                    (case path_root path of
                       Some p_root \<Rightarrow>
                         if p_root \<noteq> ws_root then None
                         else if prefix (path_components workspace) (path_components path)
                           then Some (join [SLASH]
                             (drop (length (path_components workspace)) (path_components path)))
                         else None
                     | None \<Rightarrow> Some (join [SLASH] (path_components path))))))"

definition normalize_workspace_relative_path :: "bool \<Rightarrow> string \<Rightarrow> string \<Rightarrow> string option" where
  "normalize_workspace_relative_path ci raw workspace_root =
     normalize_workspace_relative_path_with_case raw workspace_root ci"

definition split_scope_root :: "string \<Rightarrow> (string \<times> string) option" where
  "split_scope_root v =
     (case strip_prefix v [SLASH] of
        Some path \<Rightarrow> Some ([SLASH], path)
      | None \<Rightarrow>
          if is_windows_absolute_path v
          then (let w = to_ascii_lowercase v in Some (take 2 w, drop 3 w))
          else None)"

definition normalize_workspace_scope :: "string \<Rightarrow> string option" where
  "normalize_workspace_scope raw =
     (let v = replace_chars [CHR 0x5C] SLASH (trim raw)
      in if v = [] then None
         else
           (case split_scope_root v of
              None \<Rightarrow> None
            | Some (root, components) \<Rightarrow>
                (case normalized_components (split_char SLASH components) of
                   None \<Rightarrow> None
                 | Some cs \<Rightarrow>
                     if cs = [] then None
                     else Some (root @ (if root = [SLASH] then [] else [SLASH]) @ join [SLASH] cs))))"

definition workspace_scope_matches :: "string \<Rightarrow> string \<Rightarrow> bool" where
  "workspace_scope_matches rule_workspace cwd =
     (case (normalize_workspace_scope rule_workspace, normalize_workspace_scope cwd) of
        (Some r, Some c) \<Rightarrow> r = c
      | _ \<Rightarrow> False)"

section \<open>Components\<close>

definition safe_component :: "string \<Rightarrow> bool" where
  "safe_component c = (c \<noteq> [] \<and> c \<noteq> ''.'' \<and> c \<noteq> ''..'' \<and> SLASH \<notin> set c)"

lemma normalized_components_safe:
  "normalized_components cs = Some ds \<Longrightarrow> \<forall>c \<in> set cs. SLASH \<notin> set c \<Longrightarrow>
     \<forall>d \<in> set ds. safe_component d"
  by (induction cs arbitrary: ds) (auto simp: safe_component_def split: if_splits)

lemma normalized_components_id:
  "\<forall>c \<in> set cs. safe_component c \<Longrightarrow> normalized_components cs = Some cs"
  by (induction cs) (auto simp: safe_component_def)

lemma normalized_components_traversal: "''..'' \<in> set cs \<Longrightarrow> normalized_components cs = None"
  by (induction cs) auto

lemma normalized_components_filter:
  "''..'' \<notin> set cs \<Longrightarrow> normalized_components cs = Some (filter (\<lambda>c. c \<noteq> [] \<and> c \<noteq> ''.'') cs)"
  by (induction cs) auto

lemma split_components_safe:
  "normalized_components (split_char SLASH p) = Some ds \<Longrightarrow> \<forall>d \<in> set ds. safe_component d"
  by (rule normalized_components_safe) (auto dest: split_char_pieces)

lemma split_join_slash:
  "\<forall>c \<in> set cs. SLASH \<notin> set c \<Longrightarrow> cs \<noteq> [] \<Longrightarrow> split_char SLASH (join [SLASH] cs) = cs"
proof (induction "[SLASH]" cs rule: join.induct)
  case (2 w)
  then show ?case by (simp add: split_char_no_sep)
next
  case (3 w v ws)
  then show ?case using split_char_append_sep [of SLASH w "join [SLASH] (v # ws)"]
    by (simp add: split_char_no_sep)
qed simp

lemma reparse_safe:
  assumes "\<forall>c \<in> set cs. safe_component c"
  shows "normalized_components (split_char SLASH (join [SLASH] cs)) = Some cs"
proof (cases "cs = []")
  case False
  then show ?thesis
    using assms split_join_slash [of cs] normalized_components_id [OF assms]
    by (simp add: safe_component_def)
qed simp

lemma join_slash_inject:
  assumes "\<forall>c \<in> set cs. safe_component c" and "\<forall>c \<in> set ds. safe_component c"
    and "join [SLASH] cs = join [SLASH] ds"
  shows "cs = ds"
  using reparse_safe [OF assms(1)] reparse_safe [OF assms(2)] assms(3) by (metis option.inject)

lemma split_path_root_cases:
  assumes "split_path_root v = Some (root, q)"
  obtains "v = SLASH # q" "root = Some [SLASH]"
    | "is_windows_absolute_path v" "q = drop 3 v" "root = Some (take 2 v)"
    | "q = v" "root = None" "strip_prefix v [SLASH] = None" "\<not> has_windows_drive_prefix v"
proof (cases "strip_prefix v [SLASH]")
  case None
  show ?thesis
  proof (cases "is_windows_absolute_path v")
    case True
    with assms None have "q = drop 3 v" "root = Some (take 2 v)" by (simp_all add: split_path_root_def)
    with True show ?thesis by (rule that(2))
  next
    case False
    with assms None have "q = v" "root = None" "\<not> has_windows_drive_prefix v"
      by (simp_all add: split_path_root_def split: if_splits)
    with None show ?thesis by (intro that(3))
  qed
next
  case (Some path)
  with assms have "q = path" "root = Some [SLASH]" by (simp_all add: split_path_root_def)
  moreover have "v = SLASH # path"
    using Some by (auto simp: strip_prefix_def prefix_def split: if_splits)
  ultimately show ?thesis using that(1) by simp
qed

lemma split_path_root_rest: "split_path_root v = Some (root, q) \<Longrightarrow> set q \<subseteq> set v"
  by (erule split_path_root_cases) (auto dest: in_set_dropD)

lemma windows_absolute_split:
  assumes "is_windows_absolute_path v"
  shows "split_char SLASH v = take 2 v # split_char SLASH (drop 3 v)"
    and "take 2 v \<noteq> ''..''"
proof -
  from assms have len: "3 \<le> length v" and al: "is_ascii_alphabetic (v ! 0)"
    and at: "v ! 1 = CHR '':''" "v ! 2 = SLASH"
    by (simp_all add: is_windows_absolute_path_def)
  from len obtain a b c u where v: "v = a # b # c # u"
    by (metis Suc_le_length_iff numeral_3_eq_3)
  with at al have bc: "b = CHR '':''" "c = SLASH" "is_ascii_alphabetic a" by simp_all
  have "\<not> is_ascii_alphabetic SLASH" "\<not> is_ascii_alphabetic (CHR ''.'')" by code_simp+
  with bc have "a \<noteq> SLASH" "a \<noteq> CHR ''.''" by auto
  with v bc show "split_char SLASH v = take 2 v # split_char SLASH (drop 3 v)" "take 2 v \<noteq> ''..''"
    by (simp_all add: SLASH_def numeral_2_eq_2)
qed

lemma split_path_root_traversal:
  assumes "split_path_root v = Some (root, q)" and "''..'' \<in> set (split_char SLASH v)"
  shows "''..'' \<in> set (split_char SLASH q)"
  using assms(1)
proof (cases rule: split_path_root_cases)
  case 1
  with assms(2) show ?thesis by simp
next
  case 2
  with assms(2) windows_absolute_split [OF 2(1)] show ?thesis by auto
next
  case 3
  with assms(2) show ?thesis by simp
qed

lemma parse_path_Some:
  assumes "parse_path_for_matching_with_case raw ci = Some p"
  obtains q where "split_path_root (path_canon ci raw) = Some (path_root p, q)"
    and "normalized_components (split_char SLASH q) = Some (path_components p)"
  using assms unfolding parse_path_for_matching_with_case_def Let_def
  by (cases "path_canon ci raw = []"; cases "split_path_root (path_canon ci raw)")
    (auto split: option.splits)

lemma parse_path_components_safe:
  "parse_path_for_matching_with_case raw ci = Some p \<Longrightarrow> \<forall>c \<in> set (path_components p). safe_component c"
  by (erule parse_path_Some) (rule split_components_safe)

text \<open>The relative path is made of the path's components behind the workspace's.\<close>

lemma relative_path_Some:
  assumes "normalize_workspace_relative_path_with_case raw workspace ci = Some r"
  obtains p w cs where "parse_path_for_matching_with_case raw ci = Some p"
    and "parse_path_for_matching_with_case workspace ci = Some w"
    and "path_root w \<noteq> None"
    and "r = join [SLASH] cs"
    and "path_root p = None \<and> path_components p = cs \<or>
         path_root p = path_root w \<and> path_components p = path_components w @ cs"
proof -
  from assms obtain p w root where pw: "parse_path_for_matching_with_case raw ci = Some p"
      "parse_path_for_matching_with_case workspace ci = Some w" "path_root w = Some root"
    unfolding normalize_workspace_relative_path_with_case_def by (auto split: option.splits)
  show ?thesis
  proof (cases "path_root p")
    case None
    with assms pw show ?thesis
      by (intro that [OF pw(1,2)]) (auto simp: normalize_workspace_relative_path_with_case_def)
  next
    case (Some p_root)
    with assms pw obtain cs where "p_root = root" "path_components p = path_components w @ cs"
        "r = join [SLASH] cs"
      by (auto simp: normalize_workspace_relative_path_with_case_def prefix_def split: if_splits)
    with Some pw show ?thesis by (intro that [OF pw(1,2)]) auto
  qed
qed

lemma relative_path_components:
  assumes "normalize_workspace_relative_path_with_case raw w ci = Some r"
  obtains cs where "r = join [SLASH] cs" and "\<forall>c \<in> set cs. safe_component c"
  using relative_path_Some [OF assms] parse_path_components_safe
  by (metis (no_types, lifting) Un_iff set_append)

section \<open>Bytes of a normalised path\<close>

lemma backslash_lower: "lower_byte c = CHR 0x5C \<longleftrightarrow> c = CHR 0x5C"
  by (rule lower_byte_fixed_iff; code_simp)

lemma lower_byte_slash: "lower_byte SLASH = SLASH"
  by code_simp

lemma replace_backslash: "CHR 0x5C \<notin> set (replace_chars [CHR 0x5C] SLASH v)"
  by (auto simp: replace_chars_def SLASH_def)

lemma lower_no_backslash:
  assumes "CHR 0x5C \<notin> set u"
  shows "CHR 0x5C \<notin> set (to_ascii_lowercase u)"
proof
  assume "CHR 0x5C \<in> set (to_ascii_lowercase u)"
  then obtain c where "c \<in> set u" "lower_byte c = CHR 0x5C" by (auto simp: to_ascii_lowercase_def)
  with assms show False by (simp add: backslash_lower)
qed

lemma path_canon_no_backslash: "CHR 0x5C \<notin> set (path_canon ci raw)"
proof -
  let ?v = "replace_chars [CHR 0x5C] SLASH (trim raw)"
  have "CHR 0x5C \<notin> set (take 1 ?v)" "CHR 0x5C \<notin> set (drop 1 ?v)"
    using replace_backslash [of "trim raw"] by (meson in_set_takeD in_set_dropD)+
  then show ?thesis
    using lower_no_backslash [of ?v] lower_no_backslash [of "take 1 ?v"] replace_backslash [of "trim raw"]
    by (auto simp: path_canon_def fold_path_case_def)
qed

lemma path_canon_lower: "b \<in> set (path_canon True raw) \<Longrightarrow> lower_byte b = b"
  by (auto simp: path_canon_def fold_path_case_def to_ascii_lowercase_def)

lemma split_char_bytes: "w \<in> set (split_char d s) \<Longrightarrow> set w \<subseteq> set s"
  using split_char_sublist set_mono_sublist by blast

lemma normalized_components_subset: "normalized_components cs = Some ds \<Longrightarrow> set ds \<subseteq> set cs"
  by (induction cs arbitrary: ds) (auto split: if_splits)

lemma split_components_bytes:
  "normalized_components (split_char SLASH p) = Some ds \<Longrightarrow> c \<in> set ds \<Longrightarrow> set c \<subseteq> set p"
  using normalized_components_subset split_char_bytes by blast

lemma parse_path_bytes:
  assumes "parse_path_for_matching_with_case raw ci = Some p" and "c \<in> set (path_components p)"
  shows "set c \<subseteq> set (path_canon ci raw)"
proof -
  obtain q where q: "split_path_root (path_canon ci raw) = Some (path_root p, q)"
      "normalized_components (split_char SLASH q) = Some (path_components p)"
    using parse_path_Some [OF assms(1)] .
  have "set q \<subseteq> set (path_canon ci raw)" by (rule split_path_root_rest [OF q(1)])
  with split_components_bytes [OF q(2) assms(2)] show ?thesis by blast
qed

lemma set_join: "set (join sep cs) \<subseteq> set sep \<union> \<Union> (set ` set cs)"
  by (induction sep cs rule: join.induct) auto

lemma relative_path_bytes:
  assumes "normalize_workspace_relative_path_with_case raw w ci = Some r" and "b \<in> set r"
  shows "b = SLASH \<or> b \<in> set (path_canon ci raw)"
proof -
  obtain p cs where p: "parse_path_for_matching_with_case raw ci = Some p"
    and r: "r = join [SLASH] cs" "set cs \<subseteq> set (path_components p)"
    using relative_path_Some [OF assms(1)] by (metis order_refl set_append sup_ge2)
  from set_join [of "[SLASH]" cs] assms(2) r parse_path_bytes [OF p] show ?thesis by fastforce
qed

lemma join_safe_head:
  assumes "\<forall>c \<in> set cs. safe_component c" and "join [SLASH] cs \<noteq> []"
  shows "strip_prefix (join [SLASH] cs) [SLASH] = None"
proof -
  from assms(2) obtain c cs' where cs: "cs = c # cs'" by (cases cs) auto
  then obtain b c' where "c = b # c'" "b \<noteq> SLASH"
    using assms(1) by (cases c) (auto simp: safe_component_def)
  then show ?thesis using cs by (cases cs') (auto simp: strip_prefix_def)
qed

lemma windows_absolute_drive: "is_windows_absolute_path v \<Longrightarrow> has_windows_drive_prefix v"
  by (simp add: is_windows_absolute_path_def has_windows_drive_prefix_def)

section \<open>Properties\<close>

text \<open>
  A normalised workspace-relative path has no traversing, empty or dot component: it is the
  \<open>/\<close>-join of components that are non-empty, contain no slash and are neither \<open>.\<close> nor \<open>..\<close>, and it
  contains no backslash.
\<close>

theorem relative_path_is_safe:
  assumes "normalize_workspace_relative_path ci raw workspace = Some r"
  shows "(\<exists>cs. r = join [SLASH] cs \<and> (\<forall>c \<in> set cs. safe_component c)) \<and> CHR 0x5C \<notin> set r"
proof -
  note n = assms [unfolded normalize_workspace_relative_path_def]
  have "CHR 0x5C \<notin> set r"
    using relative_path_bytes [OF n, of "CHR 0x5C"] path_canon_no_backslash [of ci raw]
    by (auto simp: SLASH_def)
  with relative_path_components [OF n] show ?thesis by metis
qed

theorem relative_path_is_safe_witness:
  "normalize_workspace_relative_path False ''/repo/./src//main.rs'' ''/repo/'' = Some ''src/main.rs'' \<and>
   (\<exists>cs. ''src/main.rs'' = join [SLASH] cs \<and> list_all safe_component cs) \<and>
   CHR 0x5C \<notin> set ''src/main.rs''"
proof -
  have "normalize_workspace_relative_path False ''/repo/./src//main.rs'' ''/repo/'' = Some ''src/main.rs''"
    by code_simp
  with relative_path_is_safe [OF this] show ?thesis by (simp add: list_all_iff)
qed

text \<open>
  C10. Containment. A path is rejected when one of its components is \<open>..\<close>, and an absolute path is
  accepted only below the workspace: its root is the workspace's and its components start with the
  workspace's components, whole component by whole component; the answer is the rest of them.
\<close>

theorem relative_path_contained:
  assumes "normalize_workspace_relative_path ci raw workspace = Some r"
  shows "\<exists>p w cs. parse_path_for_matching_with_case raw ci = Some p \<and>
      parse_path_for_matching_with_case workspace ci = Some w \<and> path_root w \<noteq> None \<and>
      ''..'' \<notin> set (split_char SLASH (path_canon ci raw)) \<and> r = join [SLASH] cs \<and>
      (path_root p = None \<and> path_components p = cs \<or>
       path_root p = path_root w \<and> path_components p = path_components w @ cs)"
proof -
  obtain p w cs where p: "parse_path_for_matching_with_case raw ci = Some p"
    and rest: "parse_path_for_matching_with_case workspace ci = Some w" "path_root w \<noteq> None"
      "r = join [SLASH] cs"
      "path_root p = None \<and> path_components p = cs \<or>
       path_root p = path_root w \<and> path_components p = path_components w @ cs"
    using relative_path_Some [OF assms [unfolded normalize_workspace_relative_path_def]] .
  obtain q where q: "split_path_root (path_canon ci raw) = Some (path_root p, q)"
      "normalized_components (split_char SLASH q) = Some (path_components p)"
    using parse_path_Some [OF p] .
  have "''..'' \<notin> set (split_char SLASH (path_canon ci raw))"
    using split_path_root_traversal [OF q(1)] normalized_components_traversal q(2) by fastforce
  with p rest show ?thesis by blast
qed

theorem relative_path_contained_witness:
  "normalize_workspace_relative_path False ''/repo/src/a.rs'' ''/repo'' = Some ''src/a.rs'' \<and>
   (\<exists>p w cs. parse_path_for_matching_with_case ''/repo/src/a.rs'' False = Some p \<and>
      parse_path_for_matching_with_case ''/repo'' False = Some w \<and> path_root w \<noteq> None \<and>
      ''..'' \<notin> set (split_char SLASH (path_canon False ''/repo/src/a.rs'')) \<and>
      ''src/a.rs'' = join [SLASH] cs \<and>
      (path_root p = None \<and> path_components p = cs \<or>
       path_root p = path_root w \<and> path_components p = path_components w @ cs))"
proof -
  have "normalize_workspace_relative_path False ''/repo/src/a.rs'' ''/repo'' = Some ''src/a.rs''"
    by code_simp
  with relative_path_contained [OF this] show ?thesis by blast
qed

text \<open>
  Round trip. A path saved in its normalised form is matched again later: normalising it a
  second time gives it back, when it is non-empty, does not start or end with whitespace and does
  not look like a drive prefix.
\<close>

theorem saved_relative_path_stable:
  assumes "normalize_workspace_relative_path ci raw workspace = Some r"
    and "r \<noteq> []" and "trim r = r" and "\<not> has_windows_drive_prefix r"
  shows "normalize_workspace_relative_path ci r workspace = Some r"
proof -
  note n = assms(1) [unfolded normalize_workspace_relative_path_def]
  obtain cs where cs: "r = join [SLASH] cs" "\<forall>c \<in> set cs. safe_component c"
    using relative_path_components [OF n] .
  have "CHR 0x5C \<notin> set r"
    using relative_path_bytes [OF n, of "CHR 0x5C"] path_canon_no_backslash [of ci raw]
    by (auto simp: SLASH_def)
  then have "replace_chars [CHR 0x5C] SLASH r = r" by (intro replace_chars_id) simp
  moreover have "to_ascii_lowercase r = r" if "ci"
    using relative_path_bytes [OF n] path_canon_lower [of _ raw] that lower_byte_slash
    unfolding to_ascii_lowercase_def by (intro map_idI) auto
  ultimately have canon: "path_canon ci r = r"
    using assms(3,4) by (simp add: path_canon_def fold_path_case_def)
  have "split_path_root r = Some (None, r)"
    using join_safe_head [OF cs(2)] assms(2,4) cs(1) windows_absolute_drive [of r]
    by (auto simp: split_path_root_def)
  then have "parse_path_for_matching_with_case r ci = Some \<lparr>path_root = None, path_components = cs\<rparr>"
    using canon assms(2) reparse_safe [OF cs(2)] cs(1)
    by (simp add: parse_path_for_matching_with_case_def)
  moreover obtain w where "parse_path_for_matching_with_case workspace ci = Some w" "path_root w \<noteq> None"
    using relative_path_Some [OF n] by metis
  ultimately show ?thesis
    using cs(1) by (auto simp: normalize_workspace_relative_path_def
        normalize_workspace_relative_path_with_case_def)
qed

theorem saved_relative_path_stable_witness:
  "normalize_workspace_relative_path True ''/Repo/Src/A.rs'' ''/repo'' = Some ''src/a.rs'' \<and>
   normalize_workspace_relative_path True ''src/a.rs'' ''/repo'' = Some ''src/a.rs''"
proof -
  have n: "normalize_workspace_relative_path True ''/Repo/Src/A.rs'' ''/repo'' = Some ''src/a.rs''"
    by code_simp
  have "trim ''src/a.rs'' = ''src/a.rs''" "\<not> has_windows_drive_prefix ''src/a.rs''" by code_simp+
  with saved_relative_path_stable [OF n] n show ?thesis by simp
qed

text \<open>
  Without those side conditions the saved path is lost: a file whose name looks like a drive
  prefix normalises to a value that normalises to nothing, so a rule saved for it never matches.
\<close>

theorem saved_drive_like_path_lost:
  "normalize_workspace_relative_path False ''/repo/c:notes'' ''/repo'' = Some ''c:notes'' \<and>
   normalize_workspace_relative_path False ''c:notes'' ''/repo'' = None"
  by code_simp

section \<open>Workspace scopes\<close>

lemma lower_byte_alphabetic: "is_ascii_alphabetic c \<Longrightarrow> is_ascii_alphabetic (lower_byte c)"
  by (auto simp: is_ascii_alphabetic_def is_ascii_upper_def is_ascii_lower_def byte_lower)

text \<open>A scope is a root followed by at least one component, written in one way only.\<close>

lemma workspace_scope_Some:
  assumes "normalize_workspace_scope raw = Some s"
  obtains cs where "s = SLASH # join [SLASH] cs" "cs \<noteq> []" "\<forall>c \<in> set cs. safe_component c"
      "CHR 0x5C \<notin> set s"
    | d cs where "s = d # CHR '':'' # SLASH # join [SLASH] cs" "is_ascii_alphabetic d"
      "lower_byte d = d" "cs \<noteq> []" "\<forall>c \<in> set cs. safe_component c" "CHR 0x5C \<notin> set s"
      "to_ascii_lowercase s = s"
proof -
  let ?v = "replace_chars [CHR 0x5C] SLASH (trim raw)"
  from assms obtain root q cs where q: "split_scope_root ?v = Some (root, q)"
    and cs: "normalized_components (split_char SLASH q) = Some cs" "cs \<noteq> []"
    and s: "s = root @ (if root = [SLASH] then [] else [SLASH]) @ join [SLASH] cs"
    unfolding normalize_workspace_scope_def Let_def
    by (auto split: if_splits option.splits)
  note safe = split_components_safe [OF cs(1)]
  have bytes: "b \<in> set (join [SLASH] cs) \<Longrightarrow> b = SLASH \<or> b \<in> set q" for b
    using set_join [of "[SLASH]" cs] split_components_bytes [OF cs(1)] by fastforce
  show ?thesis
  proof (cases "strip_prefix ?v [SLASH]")
    case (Some path)
    then have root: "root = [SLASH]" "q = path" using q by (simp_all add: split_scope_root_def)
    have "set q \<subseteq> set ?v"
      using Some root by (auto simp: strip_prefix_def dest: in_set_dropD split: if_splits)
    then have "CHR 0x5C \<notin> set s"
      using s root bytes replace_backslash [of "trim raw"] by (auto simp: SLASH_def)
    with s root cs(2) safe show ?thesis by (intro that(1)) auto
  next
    case None
    then have w: "is_windows_absolute_path ?v" using q by (auto simp: split_scope_root_def split: if_splits)
    let ?w = "to_ascii_lowercase ?v"
    have rq: "root = take 2 ?w" "q = drop 3 ?w"
      using q None w by (simp_all add: split_scope_root_def Let_def)
    obtain a b c u where v: "?v = a # b # c # u"
      using w by (metis Suc_le_length_iff is_windows_absolute_path_def numeral_3_eq_3)
    with w have abc: "is_ascii_alphabetic a" "b = CHR '':''"
      by (simp_all add: is_windows_absolute_path_def)
    have colon: "lower_byte (CHR '':'') = CHR '':''" by code_simp
    have root: "root = [lower_byte a, CHR '':'']" using rq(1) v abc colon by (simp add: numeral_2_eq_2)
    then have s': "s = lower_byte a # CHR '':'' # SLASH # join [SLASH] cs" using s by simp
    have low: "b \<in> set s \<Longrightarrow> lower_byte b = b" for b
      using s' bytes [of b] rq(2) colon lower_byte_slash
      by (auto simp: to_ascii_lowercase_def dest!: in_set_dropD)
    then have "to_ascii_lowercase s = s" unfolding to_ascii_lowercase_def by (intro map_idI) auto
    moreover have "CHR 0x5C \<notin> set ?w"
      by (rule lower_no_backslash [OF replace_backslash])
    then have "CHR 0x5C \<notin> set q" "CHR 0x5C \<noteq> lower_byte a"
      using rq(2) v by (auto dest: in_set_dropD)
    then have "CHR 0x5C \<notin> set s" using s' bytes [of "CHR 0x5C"] by (auto simp: SLASH_def)
    ultimately show ?thesis
      using s' cs(2) safe lower_byte_alphabetic [OF abc(1)] by (intro that(2)) auto
  qed
qed

text \<open>
  A workspace scope is canonical: it names an absolute root with at least one component (never
  a filesystem root, never a relative path), and normalising it again gives it back when it does not
  end in whitespace.
\<close>

theorem workspace_scope_canonical:
  assumes "normalize_workspace_scope raw = Some s" and "trim s = s"
  shows "normalize_workspace_scope s = Some s \<and>
    (\<exists>c root. safe_component c \<and> prefix (root @ c) s \<and>
       (root = [SLASH] \<or> (\<exists>d. is_ascii_alphabetic d \<and> root = [d, CHR '':'', SLASH])))"
proof (rule workspace_scope_Some [OF assms(1)])
  fix cs
  assume s: "s = SLASH # join [SLASH] cs" "cs \<noteq> []" "\<forall>c \<in> set cs. safe_component c"
    "CHR 0x5C \<notin> set s"
  have "replace_chars [CHR 0x5C] SLASH s = s" using s(4) by (intro replace_chars_id) simp
  then have "normalize_workspace_scope s = Some s"
    using s reparse_safe [OF s(3)] assms(2)
    by (simp add: normalize_workspace_scope_def split_scope_root_def strip_prefix_def)
  moreover have "safe_component (hd cs) \<and> prefix ([SLASH] @ hd cs) s"
    using s by (cases cs rule: list.exhaust; cases "tl cs") auto
  ultimately show ?thesis by blast
next
  fix d cs
  assume s: "s = d # CHR '':'' # SLASH # join [SLASH] cs" "is_ascii_alphabetic d"
      "lower_byte d = d" "cs \<noteq> []" "\<forall>c \<in> set cs. safe_component c" "CHR 0x5C \<notin> set s"
      "to_ascii_lowercase s = s"
  have "replace_chars [CHR 0x5C] SLASH s = s" using s(6) by (intro replace_chars_id) simp
  moreover have "\<not> is_ascii_alphabetic SLASH" by code_simp
  then have "d \<noteq> SLASH" using s(2) by auto
  ultimately have "normalize_workspace_scope s = Some s"
    using s reparse_safe [OF s(5)] assms(2)
    by (simp add: normalize_workspace_scope_def split_scope_root_def strip_prefix_def
        is_windows_absolute_path_def numeral_2_eq_2)
  moreover have "safe_component (hd cs) \<and> prefix ([d, CHR '':'', SLASH] @ hd cs) s"
    using s by (cases cs rule: list.exhaust; cases "tl cs") auto
  ultimately show ?thesis using s(2) by blast
qed

theorem workspace_scope_canonical_witness:
  "normalize_workspace_scope '' /home/me/repo/ '' = Some ''/home/me/repo'' \<and>
   normalize_workspace_scope ''/home/me/repo'' = Some ''/home/me/repo'' \<and>
   (\<exists>c root. safe_component c \<and> prefix (root @ c) ''/home/me/repo'' \<and>
       (root = [SLASH] \<or> (\<exists>d. is_ascii_alphabetic d \<and> root = [d, CHR '':'', SLASH])))"
proof -
  have n: "normalize_workspace_scope '' /home/me/repo/ '' = Some ''/home/me/repo''" by code_simp
  have "trim ''/home/me/repo'' = ''/home/me/repo''" by code_simp
  with workspace_scope_canonical [OF n] n show ?thesis by blast
qed

end
