(* ===== verification/Exec_Policy.thy ===== *)
theory Exec_Policy
  imports Deny_Match Exec_Paths
begin

text \<open>
  The execution-policy engine of \<open>crates/execpolicy/src/lib.rs\<close>: layered rulesets, typed ask rules,
  and \<open>check\<close>, which turns a command and an approval mode into a decision. \<open>check\<close> returns
  \<open>anyhow::Result\<close> in the source and every path of it is \<open>Ok\<close>; the model returns the decision.
\<close>

section \<open>Data\<close>

datatype RulesetLayer = BuiltinDefault | Agent | User

datatype PermissionAction = Allow | Ask | Deny

fun layer_ordinal :: "RulesetLayer \<Rightarrow> nat" where
  "layer_ordinal BuiltinDefault = 0"
| "layer_ordinal Agent = 1"
| "layer_ordinal User = 2"

fun action_ordinal :: "PermissionAction \<Rightarrow> nat" where
  "action_ordinal Allow = 0"
| "action_ordinal Ask = 1"
| "action_ordinal Deny = 2"

lemma layer_ordinal_inject: "layer_ordinal x = layer_ordinal y \<Longrightarrow> x = y"
  by (cases x; cases y) simp_all

lemma action_ordinal_inject: "action_ordinal x = action_ordinal y \<Longrightarrow> x = y"
  by (cases x; cases y) simp_all

text \<open>The derived \<open>Ord\<close> of the two enums is the order of their variants.\<close>

instantiation RulesetLayer :: linorder
begin

definition less_eq_RulesetLayer :: "RulesetLayer \<Rightarrow> RulesetLayer \<Rightarrow> bool" where
  "less_eq_RulesetLayer x y = (layer_ordinal x \<le> layer_ordinal y)"

definition less_RulesetLayer :: "RulesetLayer \<Rightarrow> RulesetLayer \<Rightarrow> bool" where
  "less_RulesetLayer x y = (layer_ordinal x < layer_ordinal y)"

instance
  by standard (auto simp: less_eq_RulesetLayer_def less_RulesetLayer_def intro: layer_ordinal_inject)

end

instantiation PermissionAction :: linorder
begin

definition less_eq_PermissionAction :: "PermissionAction \<Rightarrow> PermissionAction \<Rightarrow> bool" where
  "less_eq_PermissionAction x y = (action_ordinal x \<le> action_ordinal y)"

definition less_PermissionAction :: "PermissionAction \<Rightarrow> PermissionAction \<Rightarrow> bool" where
  "less_PermissionAction x y = (action_ordinal x < action_ordinal y)"

instance
  by standard (auto simp: less_eq_PermissionAction_def less_PermissionAction_def
      intro: action_ordinal_inject)

end

record ToolAskRule =
  ask_tool :: string
  ask_command :: "string option"
  ask_command_exact :: bool
  ask_path :: "string option"
  ask_workspace :: "string option"
  ask_action :: PermissionAction

record Ruleset =
  rs_layer :: RulesetLayer
  rs_trusted_prefixes :: "string list"
  rs_denied_prefixes :: "string list"
  rs_ask_rules :: "ToolAskRule list"

datatype AskForApproval =
  UnlessTrusted | OnFailure | OnRequest
  | Reject (sandbox_approval: bool) (reject_rules: bool) (mcp_elicitations: bool)
  | Never

record ExecPolicyAmendment =
  amendment_prefixes :: "string list"

datatype NetworkPolicyRuleAction = NetworkAllow | NetworkDeny

record NetworkPolicyAmendment =
  network_host :: string
  network_action :: NetworkPolicyRuleAction

datatype ExecApprovalRequirement =
  Skip (bypass_sandbox: bool) (skip_amendment: "ExecPolicyAmendment option")
  | NeedsApproval (approval_reason: string) (approval_amendment: "ExecPolicyAmendment option")
      (network_amendments: "NetworkPolicyAmendment list")
  | Forbidden (forbidden_reason: string)

record ExecPolicyDecision =
  allow :: bool
  requires_approval :: bool
  requirement :: ExecApprovalRequirement
  matched_rule :: "string option"
  matched_action :: "PermissionAction option"

record ExecPolicyContext =
  ctx_command :: string
  ctx_cwd :: string
  ctx_tool :: "string option"
  ctx_path :: "string option"
  ctx_ask_for_approval :: AskForApproval
  ctx_sandbox_mode :: "string option"

record ExecPolicyEngine =
  rulesets :: "Ruleset list"
  trusted_prefixes :: "string list"
  denied_prefixes :: "string list"
  approved_for_session :: "string set"
  arity_dict :: BashArityDict

section \<open>Constructors\<close>

definition default_rule_action :: PermissionAction where
  "default_rule_action = Ask"

definition Ruleset_builtin_default :: Ruleset where
  "Ruleset_builtin_default = \<lparr>rs_layer = BuiltinDefault, rs_trusted_prefixes = [],
     rs_denied_prefixes = [], rs_ask_rules = []\<rparr>"

definition Ruleset_agent :: "string list \<Rightarrow> string list \<Rightarrow> Ruleset" where
  "Ruleset_agent trusted denied = \<lparr>rs_layer = Agent, rs_trusted_prefixes = trusted,
     rs_denied_prefixes = denied, rs_ask_rules = []\<rparr>"

definition Ruleset_user :: "string list \<Rightarrow> string list \<Rightarrow> Ruleset" where
  "Ruleset_user trusted denied = \<lparr>rs_layer = User, rs_trusted_prefixes = trusted,
     rs_denied_prefixes = denied, rs_ask_rules = []\<rparr>"

definition with_ask_rules :: "Ruleset \<Rightarrow> ToolAskRule list \<Rightarrow> Ruleset" where
  "with_ask_rules rs rules = rs\<lparr>rs_ask_rules := rules\<rparr>"

definition ToolAskRule_new :: "string \<Rightarrow> ToolAskRule" where
  "ToolAskRule_new tool = \<lparr>ask_tool = tool, ask_command = None, ask_command_exact = False,
     ask_path = None, ask_workspace = None, ask_action = Ask\<rparr>"

definition ToolAskRule_exec_shell :: "string \<Rightarrow> ToolAskRule" where
  "ToolAskRule_exec_shell command = \<lparr>ask_tool = ''exec_shell'', ask_command = Some command,
     ask_command_exact = False, ask_path = None, ask_workspace = None, ask_action = Ask\<rparr>"

definition ToolAskRule_file_path :: "string \<Rightarrow> string \<Rightarrow> ToolAskRule" where
  "ToolAskRule_file_path tool path = \<lparr>ask_tool = tool, ask_command = None,
     ask_command_exact = False, ask_path = Some path, ask_workspace = None, ask_action = Ask\<rparr>"

definition into_exact_workspace_allow :: "ToolAskRule \<Rightarrow> string \<Rightarrow> ToolAskRule" where
  "into_exact_workspace_allow rule workspace =
     rule\<lparr>ask_command_exact := is_some (ask_command rule), ask_workspace := Some workspace,
       ask_action := Allow\<rparr>"

definition ask_label :: "ToolAskRule \<Rightarrow> string" where
  "ask_label rule =
     join '' ''
       ([''tool='' @ ask_tool rule] @
        (case ask_command rule of Some c \<Rightarrow> [''command='' @ c] | None \<Rightarrow> []) @
        (if ask_command_exact rule then [''command_exact=true''] else []) @
        (case ask_path rule of Some p \<Rightarrow> [''path='' @ p] | None \<Rightarrow> []) @
        (case ask_workspace rule of Some w \<Rightarrow> [''workspace='' @ w] | None \<Rightarrow> []))"

definition requirement_reason :: "ExecApprovalRequirement \<Rightarrow> string" where
  "requirement_reason req =
     (case req of
        Skip _ _ \<Rightarrow> ''Execution allowed by policy.''
      | NeedsApproval reason _ _ \<Rightarrow> reason
      | Forbidden reason \<Rightarrow> reason)"

definition requirement_phase :: "ExecApprovalRequirement \<Rightarrow> string" where
  "requirement_phase req =
     (case req of
        Skip _ _ \<Rightarrow> ''allowed''
      | NeedsApproval _ _ _ \<Rightarrow> ''needs_approval''
      | Forbidden _ \<Rightarrow> ''forbidden'')"

section \<open>The engine\<close>

definition ExecPolicyEngine_new :: "string list \<Rightarrow> string list \<Rightarrow> ExecPolicyEngine" where
  "ExecPolicyEngine_new trusted denied = \<lparr>rulesets = [], trusted_prefixes = trusted,
     denied_prefixes = denied, approved_for_session = {}, arity_dict = BashArityDict_new\<rparr>"

definition with_rulesets :: "Ruleset list \<Rightarrow> ExecPolicyEngine" where
  "with_rulesets rss = \<lparr>rulesets = sort_key rs_layer rss, trusted_prefixes = [],
     denied_prefixes = [], approved_for_session = {}, arity_dict = BashArityDict_new\<rparr>"

definition add_ruleset :: "ExecPolicyEngine \<Rightarrow> Ruleset \<Rightarrow> ExecPolicyEngine" where
  "add_ruleset e rs = e\<lparr>rulesets := sort_key rs_layer (rulesets e @ [rs])\<rparr>"

definition set_ruleset :: "ExecPolicyEngine \<Rightarrow> Ruleset \<Rightarrow> ExecPolicyEngine" where
  "set_ruleset e rs =
     e\<lparr>rulesets := sort_key rs_layer
         (filter (\<lambda>existing. rs_layer existing \<noteq> rs_layer rs) (rulesets e) @ [rs])\<rparr>"

definition remember_session_approval :: "ExecPolicyEngine \<Rightarrow> string \<Rightarrow> ExecPolicyEngine" where
  "remember_session_approval e key = e\<lparr>approved_for_session := insert key (approved_for_session e)\<rparr>"

definition is_session_approved :: "ExecPolicyEngine \<Rightarrow> string \<Rightarrow> bool" where
  "is_session_approved e key = (key \<in> approved_for_session e)"

definition resolve_prefixes :: "ExecPolicyEngine \<Rightarrow> string list \<times> string list" where
  "resolve_prefixes e =
     (if rulesets e = [] then (trusted_prefixes e, denied_prefixes e)
      else (concat (map rs_trusted_prefixes (rulesets e)) @ trusted_prefixes e,
            concat (map rs_denied_prefixes (rulesets e)) @ denied_prefixes e))"

definition ask_rule_specificity :: "ToolAskRule \<Rightarrow> nat" where
  "ask_rule_specificity rule =
     length (ask_tool rule) +
     (case ask_command rule of Some c \<Rightarrow> length c + 1000 | None \<Rightarrow> 0) +
     (case ask_path rule of Some p \<Rightarrow> length p + 1000 | None \<Rightarrow> 0) +
     (case ask_workspace rule of Some w \<Rightarrow> length w + 1000 | None \<Rightarrow> 0) +
     (if ask_command_exact rule then 1 else 0)"

text \<open>The filters of \<open>matching_ask_rule\<close>, in the source's order, for one rule.\<close>

definition ask_rule_applies ::
  "bool \<Rightarrow> ExecPolicyEngine \<Rightarrow> ExecPolicyContext \<Rightarrow> ToolAskRule \<Rightarrow> bool" where
  "ask_rule_applies ci e ctx rule =
     (ask_tool rule = (case ctx_tool ctx of Some t \<Rightarrow> t | None \<Rightarrow> ''exec_shell'') \<and>
      (case ask_workspace rule of
         None \<Rightarrow> True
       | Some workspace \<Rightarrow> workspace_scope_matches workspace (ctx_cwd ctx)) \<and>
      (case ask_command rule of
         Some command \<Rightarrow>
           if ask_command_exact rule then trim command = trim (ctx_command ctx)
           else allow_rule_matches (arity_dict e) command (ctx_command ctx)
       | None \<Rightarrow> True) \<and>
      (case (ask_path rule, ctx_path ctx) of
         (Some pattern, Some path) \<Rightarrow>
           (case (normalize_workspace_relative_path ci pattern (ctx_cwd ctx),
                  normalize_workspace_relative_path ci path (ctx_cwd ctx)) of
              (Some p, Some q) \<Rightarrow> p = q
            | _ \<Rightarrow> False)
       | (Some _, None) \<Rightarrow> False
       | (None, _) \<Rightarrow> True))"

definition ask_rule_key ::
  "RulesetLayer \<times> ToolAskRule \<Rightarrow> RulesetLayer \<times> PermissionAction \<times> nat" where
  "ask_rule_key lr = (fst lr, ask_action (snd lr), ask_rule_specificity (snd lr))"

definition applicable_ask_rules ::
  "bool \<Rightarrow> ExecPolicyEngine \<Rightarrow> ExecPolicyContext \<Rightarrow> (RulesetLayer \<times> ToolAskRule) list" where
  "applicable_ask_rules ci e ctx =
     filter (\<lambda>lr. ask_rule_applies ci e ctx (snd lr))
       (concat (map (\<lambda>rs. map (Pair (rs_layer rs)) (rs_ask_rules rs)) (rulesets e)))"

definition matching_ask_rule ::
  "bool \<Rightarrow> ExecPolicyEngine \<Rightarrow> ExecPolicyContext \<Rightarrow> ToolAskRule option" where
  "matching_ask_rule ci e ctx =
     map_option snd (max_by_key ask_rule_key (applicable_ask_rules ci e ctx))"

section \<open>The decision\<close>

definition quoted :: "string \<Rightarrow> string" where
  "quoted s = [CHR 0x27] @ s @ [CHR 0x27]"

text \<open>The first denied prefix that matches the whole command or one of its segments.\<close>

definition denied_rule :: "ExecPolicyEngine \<Rightarrow> string \<Rightarrow> string option" where
  "denied_rule e command =
     List.find (\<lambda>rule. list_ex (denied_prefix_matches rule) (command # command_segments command))
       (snd (resolve_prefixes e))"

definition trusted_rule :: "ExecPolicyEngine \<Rightarrow> string \<Rightarrow> string option" where
  "trusted_rule e command =
     (if command_is_chained command then None
      else List.find (\<lambda>rule. allow_rule_matches (arity_dict e) rule command)
             (fst (resolve_prefixes e)))"

definition segment_deny_rule ::
  "bool \<Rightarrow> ExecPolicyEngine \<Rightarrow> ExecPolicyContext \<Rightarrow> ToolAskRule option" where
  "segment_deny_rule ci e ctx =
     (if command_is_chained (ctx_command ctx)
      then find_map
             (\<lambda>seg. case matching_ask_rule ci e (ctx\<lparr>ctx_command := seg\<rparr>) of
                 Some rule \<Rightarrow> if ask_action rule = Deny then Some rule else None
               | None \<Rightarrow> None)
             (command_segments (ctx_command ctx))
      else None)"

definition forbid :: "string \<Rightarrow> PermissionAction option \<Rightarrow> string \<Rightarrow> ExecPolicyDecision" where
  "forbid rule action reason = \<lparr>allow = False, requires_approval = False,
     requirement = Forbidden reason, matched_rule = Some rule, matched_action = action\<rparr>"

text \<open>
  The mode-based part of \<open>check\<close>: the requirement, and the label left in \<open>matched_ask_rule\<close>.
\<close>

definition rejects_rules :: "AskForApproval \<Rightarrow> bool" where
  "rejects_rules mode = (case mode of Reject _ rules _ \<Rightarrow> rules | _ \<Rightarrow> False)"

definition mode_requirement ::
  "AskForApproval \<Rightarrow> ToolAskRule option \<Rightarrow> bool \<Rightarrow> string \<Rightarrow>
     ExecApprovalRequirement \<times> string option" where
  "mode_requirement mode ask_rule is_trusted command =
     (case (if mode = Never \<or> rejects_rules mode then None else ask_rule) of
        Some rule \<Rightarrow>
          (NeedsApproval (''Typed ask rule '' @ quoted (ask_label rule) @ '' requires approval.'') None [],
           Some (ask_label rule))
      | None \<Rightarrow>
          if mode = Never then
            (case ask_rule of
               Some rule \<Rightarrow>
                 (Forbidden (''Typed ask rule '' @ quoted (ask_label rule) @
                    '' requires approval, but approval policy is never.''),
                  Some (ask_label rule))
             | None \<Rightarrow> (Skip False None, None))
          else if rejects_rules mode then
            (Forbidden ''Policy is configured to reject rule-exceptions.'', None)
          else if mode = UnlessTrusted \<and> is_trusted then (Skip False None, None)
          else if mode = OnFailure then (Skip False None, None)
          else
            (NeedsApproval
               (if is_trusted then ''Approval requested by policy mode.''
                else ''Unmatched command prefix requires approval.'')
               (if is_trusted \<or> command_is_chained command then None
                else Some \<lparr>amendment_prefixes = [first_token command]\<rparr>)
               [], None))"

text \<open>The decision built from the mode-based requirement, at the end of \<open>check\<close>.\<close>

definition requirement_bits :: "ExecApprovalRequirement \<Rightarrow> bool \<times> bool" where
  "requirement_bits req =
     (case req of
        Skip _ _ \<Rightarrow> (True, False)
      | NeedsApproval _ _ _ \<Rightarrow> (True, True)
      | Forbidden _ \<Rightarrow> (False, False))"

definition mode_decision ::
  "AskForApproval \<Rightarrow> ToolAskRule option \<Rightarrow> string option \<Rightarrow> string \<Rightarrow> ExecPolicyDecision" where
  "mode_decision mode ask_rule trusted command =
     (let (req, matched_ask_rule) = mode_requirement mode ask_rule (is_some trusted) command
      in \<lparr>allow = fst (requirement_bits req), requires_approval = snd (requirement_bits req),
           requirement = req, matched_rule = option_or matched_ask_rule trusted,
           matched_action = map_option ask_action ask_rule\<rparr>)"

definition check :: "bool \<Rightarrow> ExecPolicyEngine \<Rightarrow> ExecPolicyContext \<Rightarrow> ExecPolicyDecision" where
  "check ci e ctx =
     (case denied_rule e (ctx_command ctx) of
        Some rule \<Rightarrow> forbid rule None (''Command blocked by denied prefix rule '' @ quoted rule)
      | None \<Rightarrow>
     (let trusted = trusted_rule e (ctx_command ctx)
      in case segment_deny_rule ci e ctx of
        Some rule \<Rightarrow>
          forbid (ask_label rule) (Some Deny)
            (''Permission rule '' @ quoted (ask_label rule) @
             '' explicitly denies a chained segment of this invocation.'')
      | None \<Rightarrow>
     (let ask_rule = matching_ask_rule ci e ctx;
          by_mode = mode_decision (ctx_ask_for_approval ctx) ask_rule trusted (ctx_command ctx)
      in case ask_rule of
        Some rule \<Rightarrow>
          (case ask_action rule of
             Deny \<Rightarrow>
               forbid (ask_label rule) (Some Deny)
                 (''Permission rule '' @ quoted (ask_label rule) @
                  '' explicitly denies this invocation.'')
           | Allow \<Rightarrow> \<lparr>allow = True, requires_approval = False, requirement = Skip False None,
               matched_rule = Some (ask_label rule), matched_action = Some Allow\<rparr>
           | Ask \<Rightarrow> by_mode)
      | None \<Rightarrow> by_mode)))"

section \<open>Case analysis of a decision\<close>

lemma check_cases:
  obtains (denied) r reason where "denied_rule e (ctx_command ctx) = Some r"
      "check ci e ctx = forbid r None reason"
    | (segment) rule reason where "segment_deny_rule ci e ctx = Some rule"
      "check ci e ctx = forbid (ask_label rule) (Some Deny) reason"
    | (deny) rule reason where "matching_ask_rule ci e ctx = Some rule" "ask_action rule = Deny"
      "check ci e ctx = forbid (ask_label rule) (Some Deny) reason"
    | (allow) rule where "denied_rule e (ctx_command ctx) = None" "segment_deny_rule ci e ctx = None"
      "matching_ask_rule ci e ctx = Some rule" "ask_action rule = Allow"
      "check ci e ctx = \<lparr>allow = True, requires_approval = False, requirement = Skip False None,
         matched_rule = Some (ask_label rule), matched_action = Some Allow\<rparr>"
    | (mode) "denied_rule e (ctx_command ctx) = None" "segment_deny_rule ci e ctx = None"
      "matching_ask_rule ci e ctx = None \<or>
         (\<exists>rule. matching_ask_rule ci e ctx = Some rule \<and> ask_action rule = Ask)"
      "check ci e ctx = mode_decision (ctx_ask_for_approval ctx) (matching_ask_rule ci e ctx)
         (trusted_rule e (ctx_command ctx)) (ctx_command ctx)"
proof (cases "denied_rule e (ctx_command ctx)")
  case (Some r)
  then show ?thesis by (intro denied) (simp_all add: check_def)
next
  case nodeny: None
  show ?thesis
  proof (cases "segment_deny_rule ci e ctx")
    case (Some rule)
    with nodeny show ?thesis by (intro segment) (simp_all add: check_def)
  next
    case noseg: None
    show ?thesis
    proof (cases "matching_ask_rule ci e ctx")
      case None
      with nodeny noseg show ?thesis by (intro mode) (simp_all add: check_def)
    next
      case (Some rule)
      show ?thesis
      proof (cases "ask_action rule")
        case Allow
        with nodeny noseg Some show ?thesis by (intro allow) (simp_all add: check_def)
      next
        case Ask
        with nodeny noseg Some show ?thesis by (intro mode) (simp_all add: check_def)
      next
        case Deny
        with nodeny noseg Some show ?thesis by (intro deny) (simp_all add: check_def)
      qed
    qed
  qed
qed

end
