(* ===== verification/Exec_Policy_Props.thy ===== *)
theory Exec_Policy_Props
  imports Exec_Policy
begin

text \<open>
  What the execution-policy engine guarantees: denied prefixes always win, whatever the mode, the
  trust rules and the typed rules say; chaining and inserted flags do not hide a denied command; a
  trusted prefix never approves a chain; the bits of a decision agree with its requirement; typed
  rules are ranked by layer, then action, then specificity; the stored rulesets stay sorted. The
  theorems about the engine's state rest on the locale \<open>ruleset_store\<close>, which the two mutators are
  shown to satisfy.
\<close>

section \<open>Denied prefixes\<close>

lemma denied_rule_exists:
  assumes "rule \<in> set (snd (resolve_prefixes e))"
    and "hay = command \<or> hay \<in> set (command_segments command)"
    and "denied_prefix_matches rule hay"
  shows "\<exists>r. denied_rule e command = Some r"
  using assms find_exists [of rule "snd (resolve_prefixes e)"
      "\<lambda>rule. list_ex (denied_prefix_matches rule) (command # command_segments command)"]
  by (auto simp: denied_rule_def list_ex_iff)

lemma check_denied:
  "denied_rule e (ctx_command ctx) = Some r \<Longrightarrow>
     check ci e ctx = forbid r None (''Command blocked by denied prefix rule '' @ quoted r)"
  by (simp add: check_def)

lemma resolve_prefixes_denied:
  "r \<in> set (denied_prefixes e) \<or> (\<exists>rs \<in> set (rulesets e). r \<in> set (rs_denied_prefixes rs)) \<Longrightarrow>
     r \<in> set (snd (resolve_prefixes e))"
  by (auto simp: resolve_prefixes_def)

definition is_forbidden :: "ExecPolicyDecision \<Rightarrow> bool" where
  "is_forbidden d = (\<not> allow d \<and> \<not> requires_approval d \<and> (\<exists>reason. requirement d = Forbidden reason))"

lemma is_forbidden_forbid [simp]: "is_forbidden (forbid r a reason)"
  by (simp add: is_forbidden_def forbid_def)

lemma denied_forbids:
  assumes "rule \<in> set (denied_prefixes e) \<or> (\<exists>rs \<in> set (rulesets e). rule \<in> set (rs_denied_prefixes rs))"
    and "hay = ctx_command ctx \<or> hay \<in> set (command_segments (ctx_command ctx))"
    and "denied_prefix_matches rule hay"
  shows "is_forbidden (check ci e ctx)"
  using denied_rule_exists [OF resolve_prefixes_denied [OF assms(1)] assms(2,3)]
  by (auto simp: check_denied)

text \<open>
  C2. Deny always wins: a denied prefix of any layer (or of the legacy list) that matches the whole
  command or one of its chained segments forbids the invocation, in every approval mode and whatever
  trusted prefixes and typed rules the engine also holds.
\<close>

theorem denied_prefix_always_wins:
  assumes "rule \<in> set (denied_prefixes e) \<or> (\<exists>rs \<in> set (rulesets e). rule \<in> set (rs_denied_prefixes rs))"
    and "hay = ctx_command ctx \<or> hay \<in> set (command_segments (ctx_command ctx))"
    and "denied_prefix_matches rule hay"
  shows "is_forbidden (check ci e ctx)"
  using assms by (rule denied_forbids)

definition shell_ctx :: "string \<Rightarrow> AskForApproval \<Rightarrow> ExecPolicyContext" where
  "shell_ctx command mode = \<lparr>ctx_command = command, ctx_cwd = ''/repo'', ctx_tool = None,
     ctx_path = None, ctx_ask_for_approval = mode, ctx_sandbox_mode = None\<rparr>"

theorem denied_prefix_always_wins_witness:
  "is_forbidden (check False
     (with_rulesets [Ruleset_agent [] [''git push''], Ruleset_user [''git push''] []])
     (shell_ctx ''ls && git -c a=b push origin'' Never))"
proof -
  have seg: "''git -c a=b push origin'' \<in> set (command_segments ''ls && git -c a=b push origin'')"
    by code_simp
  have "denied_prefix_matches ''git push'' ''git -c a=b push origin''" by code_simp
  with seg show ?thesis
    by (intro denied_prefix_always_wins
          [where rule = "''git push''" and hay = "''git -c a=b push origin''"])
      (auto simp: with_rulesets_def Ruleset_agent_def shell_ctx_def)
qed

text \<open>
  Chaining does not shield: if any segment of \<open>b\<close> is denied then \<open>a && b\<close>, \<open>a || b\<close> and
  \<open>a ; b\<close> are forbidden, whatever \<open>a\<close> is.
\<close>

theorem denied_suffix_not_shielded:
  assumes "rule \<in> set (denied_prefixes e) \<or> (\<exists>rs \<in> set (rulesets e). rule \<in> set (rs_denied_prefixes rs))"
    and "x \<in> set (command_segments b)" and "denied_prefix_matches rule x"
    and "op \<in> {'' && '', '' || '', '' ; ''}"
  shows "is_forbidden (check ci e (ctx\<lparr>ctx_command := a @ op @ b\<rparr>))"
proof -
  have "x \<in> set (command_segments (a @ op @ b))"
    using assms(2,4) cmdseg.seg_chain_members [of x b a] by auto
  then show ?thesis
    by (intro denied_forbids [OF assms(1) _ assms(3)]) simp
qed

theorem denied_suffix_not_shielded_witness:
  "is_forbidden (check True (ExecPolicyEngine_new [''ls''] [''rm''])
     ((shell_ctx [] UnlessTrusted)\<lparr>ctx_command := ''ls'' @ '' ; '' @ ''FOO=1 rm -rf x''\<rparr>))"
proof (rule denied_suffix_not_shielded [where rule = "''rm''" and x = "''FOO=1 rm -rf x''"])
  show "''FOO=1 rm -rf x'' \<in> set (command_segments ''FOO=1 rm -rf x'')" by code_simp
  show "denied_prefix_matches ''rm'' ''FOO=1 rm -rf x''" by code_simp
qed (simp_all add: ExecPolicyEngine_new_def)

text \<open>
  Flags do not hide a denied command: if \<open>base ts\<close> is denied then so is the command with a flag
  inserted behind the base command word, alone or (when it has no \<open>=\<close>) with a separate value.
\<close>

theorem denied_flag_insertion:
  assumes "denied_prefix_matches rule c" and "command_words c = base # ts"
    and "\<not> is_flag base" and "\<not> is_env_assignment base" and "is_flag f"
    and "command_words c' = base # f # ts \<or>
         CHR ''='' \<notin> set f \<and> command_words c' = base # f # v # ts"
  shows "denied_prefix_matches rule c'"
proof -
  from assms(1,2,4) have "command_words rule \<noteq> []" "deny_match (base # ts) (command_words rule)"
    by (simp_all add: denied_prefix_matches_words)
  with deny_match_flag_insert [OF assms(3), of ts "command_words rule" f] assms(4-6) show ?thesis
    by (auto simp: denied_prefix_matches_words)
qed

theorem denied_flag_insertion_witness:
  "denied_prefix_matches ''git push'' ''git --git-dir x push''"
proof (rule denied_flag_insertion [where c = "''git push''" and base = "''git''"
      and ts = "[''push'']" and f = "''--git-dir''" and v = "''x''"])
  show "denied_prefix_matches ''git push'' ''git push''" by code_simp
  show "command_words ''git push'' = [''git'', ''push'']" by code_simp
  show "\<not> is_flag ''git''" "\<not> is_env_assignment ''git''" "is_flag ''--git-dir''" by code_simp+
  show "command_words ''git --git-dir x push'' = [''git'', ''--git-dir'', ''push''] \<or>
      CHR ''='' \<notin> set ''--git-dir'' \<and>
      command_words ''git --git-dir x push'' = [''git'', ''--git-dir'', ''x'', ''push'']"
    by code_simp
qed

section \<open>The decision as a whole\<close>

definition decision_coherent :: "ExecPolicyDecision \<Rightarrow> bool" where
  "decision_coherent d =
     (case requirement d of
        Skip bypass amendment \<Rightarrow> allow d \<and> \<not> requires_approval d \<and> \<not> bypass \<and> amendment = None
      | NeedsApproval _ _ network \<Rightarrow> allow d \<and> requires_approval d \<and> network = []
      | Forbidden _ \<Rightarrow> \<not> allow d \<and> \<not> requires_approval d)"

lemma mode_requirement_shape:
  "(case fst (mode_requirement mode rule t c) of
      Skip bypass amendment \<Rightarrow> \<not> bypass \<and> amendment = None
    | NeedsApproval _ _ network \<Rightarrow> network = []
    | Forbidden _ \<Rightarrow> True)"
  by (cases rule) (simp_all add: mode_requirement_def)

lemma mode_decision_coherent: "decision_coherent (mode_decision mode rule t c)"
  using mode_requirement_shape [of mode rule "is_some t" c]
  by (auto simp: mode_decision_def decision_coherent_def requirement_bits_def
      split: prod.splits ExecApprovalRequirement.splits)

lemma mode_decision_Never:
  "\<not> requires_approval (mode_decision Never rule t c) \<and>
   (rule \<noteq> None \<longrightarrow> is_forbidden (mode_decision Never rule t c))"
  by (cases rule) (simp_all add: mode_decision_def mode_requirement_def requirement_bits_def
      is_forbidden_def)

lemma mode_decision_untrusted:
  "mode \<noteq> Never \<Longrightarrow> mode \<noteq> OnFailure \<Longrightarrow>
     requires_approval (mode_decision mode rule None c) \<or> is_forbidden (mode_decision mode rule None c)"
  by (cases rule) (simp_all add: mode_decision_def mode_requirement_def requirement_bits_def
      is_forbidden_def)

text \<open>
  Coherence of every decision: the two bits are those of the requirement, the sandbox is never
  bypassed, and an approval prompt never carries a network-policy amendment.
\<close>

theorem check_coherent: "decision_coherent (check ci e ctx)"
proof (cases rule: check_cases [of e ctx ci])
  case mode
  then show ?thesis by (simp add: mode_decision_coherent)
qed (simp_all add: decision_coherent_def forbid_def)

text \<open>
  Under \<open>Never\<close> no prompt is ever requested: the command runs or is forbidden, and it is
  forbidden whenever a typed ask rule would have asked.
\<close>

theorem never_mode_never_prompts:
  assumes "ctx_ask_for_approval ctx = Never"
  shows "\<not> requires_approval (check ci e ctx) \<and>
    (\<forall>rule. matching_ask_rule ci e ctx = Some rule \<longrightarrow> ask_action rule \<noteq> Allow \<longrightarrow>
       is_forbidden (check ci e ctx))"
proof (cases rule: check_cases [of e ctx ci])
  case mode
  with assms mode_decision_Never show ?thesis by auto
qed (auto simp: forbid_def is_forbidden_def)

theorem never_mode_never_prompts_witness:
  "\<not> requires_approval (check False (ExecPolicyEngine_new [] []) (shell_ctx ''make'' Never))"
  using never_mode_never_prompts [of "shell_ctx ''make'' Never"] by (simp add: shell_ctx_def)

text \<open>
  A trusted prefix never approves a chain: when the command is chained and no typed rule says
  \<open>Allow\<close>, the modes that ask still ask (or forbid), for every set of trusted prefixes.
\<close>

theorem chained_command_not_trusted:
  assumes "command_is_chained (ctx_command ctx)"
    and "\<forall>rule. matching_ask_rule ci e ctx = Some rule \<longrightarrow> ask_action rule \<noteq> Allow"
    and "ctx_ask_for_approval ctx \<noteq> Never" and "ctx_ask_for_approval ctx \<noteq> OnFailure"
  shows "requires_approval (check ci e ctx) \<or> is_forbidden (check ci e ctx)"
proof -
  have "trusted_rule e (ctx_command ctx) = None" using assms(1) by (simp add: trusted_rule_def)
  with assms(2-4) show ?thesis
    by (cases rule: check_cases [of e ctx ci]) (auto simp: mode_decision_untrusted)
qed

theorem chained_command_not_trusted_witness:
  "requires_approval (check False (ExecPolicyEngine_new [''git log''] [])
       (shell_ctx ''git log ; rm -rf /'' UnlessTrusted)) \<or>
   is_forbidden (check False (ExecPolicyEngine_new [''git log''] [])
       (shell_ctx ''git log ; rm -rf /'' UnlessTrusted))"
proof (rule chained_command_not_trusted)
  have "command_is_chained ''git log ; rm -rf /''" by code_simp
  then show "command_is_chained (ctx_command (shell_ctx ''git log ; rm -rf /'' UnlessTrusted))"
    by (simp add: shell_ctx_def)
qed (simp_all add: shell_ctx_def matching_ask_rule_def applicable_ask_rules_def
    ExecPolicyEngine_new_def)

section \<open>Typed rules\<close>

text \<open>The rank of every typed rule that applies to the invocation: layer, action, specificity.\<close>

definition applicable_keys ::
  "bool \<Rightarrow> ExecPolicyEngine \<Rightarrow> ExecPolicyContext \<Rightarrow> (RulesetLayer \<times> PermissionAction \<times> nat) set" where
  "applicable_keys ci e ctx =
     {(rs_layer rs, ask_action r, ask_rule_specificity r) | rs r.
        rs \<in> set (rulesets e) \<and> r \<in> set (rs_ask_rules rs) \<and> ask_rule_applies ci e ctx r}"

lemma applicable_keys_image:
  "applicable_keys ci e ctx = ask_rule_key ` set (applicable_ask_rules ci e ctx)"
  by (auto simp: applicable_keys_def applicable_ask_rules_def ask_rule_key_def image_iff; force)

definition winning_action ::
  "bool \<Rightarrow> ExecPolicyEngine \<Rightarrow> ExecPolicyContext \<Rightarrow> PermissionAction option" where
  "winning_action ci e ctx =
     (if applicable_keys ci e ctx = {} then None
      else Some (fst (snd (Max (applicable_keys ci e ctx)))))"

lemma matching_ask_rule_action:
  "map_option ask_action (matching_ask_rule ci e ctx) = winning_action ci e ctx"
proof (cases "applicable_ask_rules ci e ctx = []")
  case True
  then show ?thesis by (simp add: matching_ask_rule_def winning_action_def applicable_keys_image)
next
  case False
  let ?xs = "applicable_ask_rules ci e ctx"
  obtain m where m: "max_by_key ask_rule_key ?xs = Some m" using max_by_key_exists [OF False] by blast
  then have "Max (applicable_keys ci e ctx) = ask_rule_key m"
    unfolding applicable_keys_image by (intro Max_eqI) (auto dest: max_by_key_Some)
  with m False show ?thesis
    by (simp add: matching_ask_rule_def winning_action_def applicable_keys_image ask_rule_key_def)
qed

lemma winning_action_deny:
  assumes "(l, Deny, s) \<in> applicable_keys ci e ctx"
    and "\<forall>(l', a, s') \<in> applicable_keys ci e ctx. l' \<le> l"
  shows "winning_action ci e ctx = Some Deny"
proof -
  let ?K = "applicable_keys ci e ctx"
  have fin: "finite ?K" by (simp add: applicable_keys_image)
  obtain l' a s' where m: "Max ?K = (l', a, s')" by (metis prod_cases3)
  have "Max ?K \<in> ?K" using Max_in [OF fin] assms(1) by blast
  then have "l' \<le> l" using assms(2) m by auto
  moreover have "(l, Deny, s) \<le> (l', a, s')" using Max_ge [OF fin assms(1)] m by simp
  ultimately have "Deny \<le> a" by (auto simp: less_eq_prod_def split: if_splits)
  then have "a = Deny" by (cases a) (simp_all add: less_eq_PermissionAction_def)
  with m assms(1) show ?thesis by (auto simp: winning_action_def)
qed

text \<open>
  Within the highest layer that has an applicable rule, a typed deny wins over every allow and
  ask rule, however specific: the invocation is forbidden in every mode.
\<close>

theorem typed_deny_wins_in_top_layer:
  assumes "rs \<in> set (rulesets e)" and "r \<in> set (rs_ask_rules rs)" and "ask_action r = Deny"
    and "ask_rule_applies ci e ctx r"
    and "\<forall>rs' \<in> set (rulesets e). \<forall>r' \<in> set (rs_ask_rules rs').
           ask_rule_applies ci e ctx r' \<longrightarrow> rs_layer rs' \<le> rs_layer rs"
  shows "is_forbidden (check ci e ctx)"
proof -
  have "(rs_layer rs, Deny, ask_rule_specificity r) \<in> applicable_keys ci e ctx"
    unfolding applicable_keys_def using assms(1-4) by (intro CollectI exI [of _ rs] exI [of _ r]) simp
  moreover have "\<forall>(l', a, s') \<in> applicable_keys ci e ctx. l' \<le> rs_layer rs"
    using assms(5) by (auto simp: applicable_keys_def)
  ultimately have "winning_action ci e ctx = Some Deny" by (rule winning_action_deny)
  then obtain rule where "matching_ask_rule ci e ctx = Some rule" "ask_action rule = Deny"
    using matching_ask_rule_action [of ci e ctx] by auto
  then show ?thesis by (cases rule: check_cases [of e ctx ci]) auto
qed

definition push_rule :: "PermissionAction \<Rightarrow> ToolAskRule" where
  "push_rule action = (ToolAskRule_exec_shell ''git push'')\<lparr>ask_action := action\<rparr>"

lemma push_rule_matches: "allow_rule_matches BashArityDict_new ''git push'' ''git push origin''"
  unfolding allow_rule_matches_words by (rule disjI2) code_simp

lemma push_rule_applies:
  "arity_dict e = BashArityDict_new \<Longrightarrow> ask_rule_applies ci e (shell_ctx ''git push origin'' m) (push_rule a)"
  by (simp add: ask_rule_applies_def push_rule_def ToolAskRule_exec_shell_def shell_ctx_def
      push_rule_matches)

theorem typed_deny_wins_in_top_layer_witness:
  "is_forbidden (check False
     (with_rulesets [with_ask_rules (Ruleset_agent [''git push''] []) [push_rule Deny, push_rule Allow]])
     (shell_ctx ''git push origin'' OnFailure))"
  by (rule typed_deny_wins_in_top_layer
      [where rs = "with_ask_rules (Ruleset_agent [''git push''] []) [push_rule Deny, push_rule Allow]"
        and r = "push_rule Deny"])
    (simp_all add: with_rulesets_def with_ask_rules_def push_rule_applies, simp add: push_rule_def)

lemma empty_denied: "denied_rule (with_rulesets [with_ask_rules (Ruleset_agent [] []) xs,
    with_ask_rules (Ruleset_user [] []) ys]) c = None"
  by (simp add: denied_rule_def resolve_prefixes_def with_rulesets_def with_ask_rules_def
      Ruleset_agent_def Ruleset_user_def)

text \<open>
  Across layers the layer decides before the action: a user-layer allow rule overrides an
  agent-layer deny rule for the same invocation, which then runs without approval.
\<close>

theorem user_allow_overrides_agent_deny:
  "check ci (with_rulesets [with_ask_rules (Ruleset_agent [] []) [push_rule Deny],
       with_ask_rules (Ruleset_user [] []) [push_rule Allow]])
     (shell_ctx ''git push origin'' OnRequest) =
   \<lparr>allow = True, requires_approval = False, requirement = Skip False None,
     matched_rule = Some ''tool=exec_shell command=git push'', matched_action = Some Allow\<rparr>"
  (is "check ci ?e ?ctx = _")
proof -
  have sorted: "rulesets ?e = [with_ask_rules (Ruleset_agent [] []) [push_rule Deny],
      with_ask_rules (Ruleset_user [] []) [push_rule Allow]]"
    by (simp add: with_rulesets_def with_ask_rules_def Ruleset_agent_def Ruleset_user_def
        less_eq_RulesetLayer_def)
  have dict: "arity_dict ?e = BashArityDict_new" by (simp add: with_rulesets_def)
  have "applicable_ask_rules ci ?e ?ctx = [(Agent, push_rule Deny), (User, push_rule Allow)]"
    using push_rule_applies [OF dict] unfolding applicable_ask_rules_def sorted
    by (simp add: with_ask_rules_def Ruleset_agent_def Ruleset_user_def)
  then have m: "matching_ask_rule ci ?e ?ctx = Some (push_rule Allow)"
    by (simp add: matching_ask_rule_def ask_rule_key_def less_prod_def less_eq_RulesetLayer_def
        less_RulesetLayer_def)
  have "\<not> command_is_chained ''git push origin''" by code_simp
  then have "segment_deny_rule ci ?e ?ctx = None" by (simp add: segment_deny_rule_def shell_ctx_def)
  moreover have "ask_label (push_rule Allow) = ''tool=exec_shell command=git push''" by code_simp
  ultimately show ?thesis
    using m empty_denied by (simp add: check_def push_rule_def)
qed

definition log_rule :: ToolAskRule where
  "log_rule = (ToolAskRule_exec_shell ''git log'')\<lparr>ask_action := Allow\<rparr>"

text \<open>
  A typed allow rule, unlike a trusted prefix, does approve a chain: with an allow rule for
  \<open>git log\<close>, the command \<open>git log ; rm -rf /\<close> runs without approval.
\<close>

theorem typed_allow_sweeps_chain:
  "command_is_chained ''git log ; rm -rf /'' \<and>
   (let d = check ci (with_rulesets [with_ask_rules (Ruleset_agent [] []) [],
              with_ask_rules (Ruleset_user [] []) [log_rule]])
              (shell_ctx ''git log ; rm -rf /'' OnRequest)
    in allow d \<and> \<not> requires_approval d)"
proof -
  let ?e = "with_rulesets [with_ask_rules (Ruleset_agent [] []) [],
              with_ask_rules (Ruleset_user [] []) [log_rule]]"
  let ?ctx = "shell_ctx ''git log ; rm -rf /'' OnRequest"
  have chained: "command_is_chained ''git log ; rm -rf /''" by code_simp
  have "allow_rule_matches BashArityDict_new ''git log'' ''git log ; rm -rf /''"
    unfolding allow_rule_matches_words by (rule disjI2) code_simp
  then have app: "ask_rule_applies ci ?e ?ctx log_rule"
    by (simp add: ask_rule_applies_def log_rule_def ToolAskRule_exec_shell_def shell_ctx_def
        with_rulesets_def)
  have rules: "map (\<lambda>rs. map (Pair (rs_layer rs)) (rs_ask_rules rs)) (rulesets ?e) =
      [[], [(User, log_rule)]]"
    by (simp add: with_rulesets_def with_ask_rules_def Ruleset_agent_def Ruleset_user_def
        less_eq_RulesetLayer_def)
  have only: "matching_ask_rule ci ?e c = None \<or> matching_ask_rule ci ?e c = Some log_rule" for c
    unfolding matching_ask_rule_def applicable_ask_rules_def rules by simp
  have "matching_ask_rule ci ?e ?ctx = Some log_rule"
    using app unfolding matching_ask_rule_def applicable_ask_rules_def rules by simp
  moreover have "segment_deny_rule ci ?e ?ctx = None"
  proof -
    have "find_map f xs = None" if "\<And>x. f x = None" for f :: "string \<Rightarrow> ToolAskRule option" and xs
      using that by (simp add: find_map_None)
    moreover have "(case matching_ask_rule ci ?e c of
        Some rule \<Rightarrow> if ask_action rule = Deny then Some rule else None | None \<Rightarrow> None) = None" for c
      using only [of c] by (auto simp: log_rule_def)
    ultimately show ?thesis by (simp add: segment_deny_rule_def)
  qed
  ultimately show ?thesis
    using chained empty_denied by (simp add: check_def log_rule_def)
qed

end
