(* ===== verification/Exec_Policy_State.thy ===== *)
theory Exec_Policy_State
  imports Exec_Policy_Props
begin

text \<open>
  The engine as a state machine and the abstract specification of its verdict. The locale
  \<open>ruleset_store\<close> is the contract of a mutator that installs a ruleset; both mutators of the engine
  satisfy it. Engines are built by the two constructors and changed by the three mutators, and
  \<open>engine_reachable\<close> collects what can be built that way. \<open>spec_verdict\<close> states the decision over
  sets of rules and words, without search order, and \<open>check\<close> is shown to implement it.
\<close>

section \<open>Installing rulesets\<close>

definition layers_sorted :: "ExecPolicyEngine \<Rightarrow> bool" where
  "layers_sorted e = sorted (map rs_layer (rulesets e))"

locale ruleset_store =
  fixes put :: "ExecPolicyEngine \<Rightarrow> Ruleset \<Rightarrow> ExecPolicyEngine"
  assumes put_sorted: "layers_sorted (put e rs)"
    and put_member: "rs \<in> set (rulesets (put e rs))"
    and put_origin: "set (rulesets (put e rs)) \<subseteq> insert rs (set (rulesets e))"
    and put_other_layer: "r \<in> set (rulesets e) \<Longrightarrow> rs_layer r \<noteq> rs_layer rs \<Longrightarrow>
           r \<in> set (rulesets (put e rs))"
    and put_frame: "approved_for_session (put e rs) = approved_for_session e"
        "trusted_prefixes (put e rs) = trusted_prefixes e"
        "denied_prefixes (put e rs) = denied_prefixes e"
        "arity_dict (put e rs) = arity_dict e"
begin

lemma put_denied:
  "r \<in> set (rs_denied_prefixes rs) \<Longrightarrow> r \<in> set (snd (resolve_prefixes (put e rs)))"
  using put_member [of rs e] by (intro resolve_prefixes_denied) auto

lemma foldl_put_frame:
  "approved_for_session (foldl put e rss) = approved_for_session e"
  "arity_dict (foldl put e rss) = arity_dict e"
  "denied_prefixes (foldl put e rss) = denied_prefixes e"
  by (induction rss arbitrary: e) (simp_all add: put_frame)

lemma foldl_put_sorted: "rss \<noteq> [] \<Longrightarrow> layers_sorted (foldl put e rss)"
  by (induction rss arbitrary: e rule: rev_induct) (simp_all add: put_sorted)

end

lemma sorted_sort_layers: "sorted (map rs_layer (sort_key rs_layer rss))"
  by (rule sorted_sort_key)

interpretation add_store: ruleset_store add_ruleset
  by unfold_locales (auto simp: add_ruleset_def layers_sorted_def sorted_sort_layers)

interpretation set_store: ruleset_store set_ruleset
  by unfold_locales (auto simp: set_ruleset_def layers_sorted_def sorted_sort_layers)

lemma filter_layer_sort:
  "filter (\<lambda>r. rs_layer r = l) (sort_key rs_layer rss) = filter (\<lambda>r. rs_layer r = l) rss"
  by (rule sort_key_stable)

text \<open>
  \<open>set_ruleset\<close> replaces one layer and nothing else: the new ruleset is the only one of its
  layer, the rulesets of the other layers keep their order, and the session approvals and the legacy
  prefix lists are untouched.
\<close>

theorem set_ruleset_replaces_layer:
  "filter (\<lambda>r. rs_layer r = l) (rulesets (set_ruleset e rs)) =
     (if l = rs_layer rs then [rs] else filter (\<lambda>r. rs_layer r = l) (rulesets e)) \<and>
   layers_sorted (set_ruleset e rs) \<and>
   approved_for_session (set_ruleset e rs) = approved_for_session e \<and>
   trusted_prefixes (set_ruleset e rs) = trusted_prefixes e \<and>
   denied_prefixes (set_ruleset e rs) = denied_prefixes e"
proof -
  have "filter (\<lambda>r. rs_layer r = l) (rulesets (set_ruleset e rs)) =
     (if l = rs_layer rs then [rs] else filter (\<lambda>r. rs_layer r = l) (rulesets e))"
    by (auto simp: set_ruleset_def filter_layer_sort filter_empty_conv intro: filter_cong)
  then show ?thesis by (simp add: set_store.put_sorted set_store.put_frame)
qed

section \<open>Reachable engines\<close>

inductive engine_step :: "ExecPolicyEngine \<Rightarrow> ExecPolicyEngine \<Rightarrow> bool" where
  step_add: "engine_step e (add_ruleset e rs)"
| step_set: "engine_step e (set_ruleset e rs)"
| step_remember: "engine_step e (remember_session_approval e key)"

inductive engine_reachable :: "ExecPolicyEngine \<Rightarrow> bool" where
  reach_new: "engine_reachable (ExecPolicyEngine_new trusted denied)"
| reach_rulesets: "engine_reachable (with_rulesets rss)"
| reach_step: "engine_reachable e \<Longrightarrow> engine_step e e' \<Longrightarrow> engine_reachable e'"

inductive_cases engine_stepE: "engine_step e e'"

definition engine_inv :: "ExecPolicyEngine \<Rightarrow> bool" where
  "engine_inv e = (layers_sorted e \<and> arity_dict e = BashArityDict_new)"

lemma remember_sorted: "layers_sorted (remember_session_approval e key) = layers_sorted e"
  by (simp add: layers_sorted_def remember_session_approval_def)

lemma engine_step_inv: "engine_step e e' \<Longrightarrow> engine_inv e \<Longrightarrow> engine_inv e'"
  by (erule engine_stepE)
    (simp_all add: engine_inv_def add_store.put_sorted add_store.put_frame set_store.put_sorted
      set_store.put_frame remember_sorted, simp add: remember_session_approval_def)

lemma engine_step_approvals:
  "engine_step e e' \<Longrightarrow> approved_for_session e \<subseteq> approved_for_session e' \<and> denied_prefixes e' = denied_prefixes e"
  by (erule engine_stepE)
    (auto simp: add_store.put_frame set_store.put_frame remember_session_approval_def)

text \<open>
  Every engine the API can build keeps its rulesets sorted by layer and uses the standard arity
  dictionary, and no step forgets a session approval or a legacy denied prefix.
\<close>

theorem engine_reachable_inv:
  assumes "engine_reachable e"
  shows "engine_inv e \<and>
    (\<forall>e'. engine_step e e' \<longrightarrow>
       approved_for_session e \<subseteq> approved_for_session e' \<and> denied_prefixes e' = denied_prefixes e)"
proof -
  from assms have "engine_inv e"
    by induction
      (auto simp: engine_inv_def layers_sorted_def ExecPolicyEngine_new_def with_rulesets_def
        sorted_sort_layers dest: engine_step_inv [unfolded engine_inv_def layers_sorted_def])
  with engine_step_approvals show ?thesis by blast
qed

theorem engine_reachable_inv_witness:
  "engine_inv (set_ruleset (ExecPolicyEngine_new [] [''rm'']) (Ruleset_user [''ls''] []))"
  using engine_reachable_inv [OF reach_step [OF reach_new step_set]] by blast

section \<open>The abstract specification of the verdict\<close>

datatype verdict = Forbid | Prompt | Run

definition verdict_of :: "ExecPolicyDecision \<Rightarrow> verdict" where
  "verdict_of d =
     (case requirement d of Skip _ _ \<Rightarrow> Run | NeedsApproval _ _ _ \<Rightarrow> Prompt | Forbidden _ \<Rightarrow> Forbid)"

definition all_denied :: "ExecPolicyEngine \<Rightarrow> string set" where
  "all_denied e = set (denied_prefixes e) \<union> (\<Union>rs \<in> set (rulesets e). set (rs_denied_prefixes rs))"

definition all_trusted :: "ExecPolicyEngine \<Rightarrow> string set" where
  "all_trusted e = set (trusted_prefixes e) \<union> (\<Union>rs \<in> set (rulesets e). set (rs_trusted_prefixes rs))"

text \<open>A command is denied when a denied rule matches it or a segment, word by word.\<close>

definition spec_denied :: "ExecPolicyEngine \<Rightarrow> string \<Rightarrow> bool" where
  "spec_denied e command \<longleftrightarrow>
     (\<exists>rule \<in> all_denied e. \<exists>hay \<in> insert command (set (command_segments command)).
        command_words rule \<noteq> [] \<and>
        deny_match (dropWhile is_env_assignment (command_words hay)) (command_words rule))"

definition spec_trusted :: "ExecPolicyEngine \<Rightarrow> string \<Rightarrow> bool" where
  "spec_trusted e command \<longleftrightarrow>
     \<not> command_is_chained command \<and>
     (\<exists>rule \<in> all_trusted e. allow_rule_matches (arity_dict e) rule command)"

fun mode_verdict :: "AskForApproval \<Rightarrow> bool \<Rightarrow> bool \<Rightarrow> verdict" where
  "mode_verdict Never asks trusted = (if asks then Forbid else Run)"
| "mode_verdict (Reject _ True _) asks trusted = Forbid"
| "mode_verdict UnlessTrusted asks trusted = (if trusted \<and> \<not> asks then Run else Prompt)"
| "mode_verdict OnFailure asks trusted = (if asks then Prompt else Run)"
| "mode_verdict _ asks trusted = Prompt"

definition spec_verdict :: "bool \<Rightarrow> ExecPolicyEngine \<Rightarrow> ExecPolicyContext \<Rightarrow> verdict" where
  "spec_verdict ci e ctx =
     (if spec_denied e (ctx_command ctx) then Forbid
      else if command_is_chained (ctx_command ctx) \<and>
        (\<exists>seg \<in> set (command_segments (ctx_command ctx)).
           winning_action ci e (ctx\<lparr>ctx_command := seg\<rparr>) = Some Deny) then Forbid
      else
        (case winning_action ci e ctx of
           Some Deny \<Rightarrow> Forbid
         | Some Allow \<Rightarrow> Run
         | action \<Rightarrow> mode_verdict (ctx_ask_for_approval ctx) (action = Some Ask)
             (spec_trusted e (ctx_command ctx))))"

lemma resolve_prefixes_sets:
  "set (snd (resolve_prefixes e)) = all_denied e" "set (fst (resolve_prefixes e)) = all_trusted e"
  by (auto simp: resolve_prefixes_def all_denied_def all_trusted_def)

lemma denied_rule_spec: "denied_rule e c \<noteq> None \<longleftrightarrow> spec_denied e c"
  unfolding denied_rule_def spec_denied_def
  by (auto simp: find_None_iff list_ex_iff denied_prefix_matches_words resolve_prefixes_sets
      simp flip: not_None_eq)

lemma trusted_rule_spec: "is_some (trusted_rule e c) \<longleftrightarrow> spec_trusted e c"
  by (auto simp: is_some_def trusted_rule_def spec_trusted_def find_None_iff resolve_prefixes_sets
      simp flip: not_None_eq)

lemma segment_deny_spec:
  "segment_deny_rule ci e ctx \<noteq> None \<longleftrightarrow>
     command_is_chained (ctx_command ctx) \<and>
     (\<exists>seg \<in> set (command_segments (ctx_command ctx)).
        winning_action ci e (ctx\<lparr>ctx_command := seg\<rparr>) = Some Deny)"
proof -
  have none: "(case matching_ask_rule ci e c of
        Some rule \<Rightarrow> if ask_action rule = Deny then Some rule else None | None \<Rightarrow> None) = None
      \<longleftrightarrow> winning_action ci e c \<noteq> Some Deny" for c
    using matching_ask_rule_action [of ci e c] by (auto split: option.splits)
  have "segment_deny_rule ci e ctx = None \<longleftrightarrow>
     command_is_chained (ctx_command ctx) \<longrightarrow>
     (\<forall>seg \<in> set (command_segments (ctx_command ctx)).
        winning_action ci e (ctx\<lparr>ctx_command := seg\<rparr>) \<noteq> Some Deny)"
    unfolding segment_deny_rule_def by (simp only: find_map_None none split: if_split) simp
  from arg_cong [OF this, of Not] show ?thesis by (simp only: not_imp bex_simps not_not ball_simps)
qed

lemma verdict_forbid [simp]: "verdict_of (forbid r a reason) = Forbid"
  by (simp add: verdict_of_def forbid_def)

lemma mode_decision_verdict:
  "verdict_of (mode_decision mode rule trusted c) = mode_verdict mode (rule \<noteq> None) (is_some trusted)"
proof (cases mode)
  case (Reject s r m)
  then show ?thesis
    by (cases rule; cases r) (simp_all add: mode_decision_def mode_requirement_def rejects_rules_def
        verdict_of_def)
qed (cases rule; simp add: mode_decision_def mode_requirement_def rejects_rules_def verdict_of_def)+


end
