(* ===== verification/Canonical_Action.thy ===== *)
theory Canonical_Action
  imports Rust_Str
begin

text \<open>
  The action-policy seam (\<open>crates/tui/src/tools/canonical_action.rs\<close>): a call of an action family
  such as \<open>Web\<close> with \<open>action: fetch\<close> is resolved to the per-action name the deny lists and the risk
  classifier know. The argument of a call is a \<open>serde_json::Value\<close>, code outside the repository: its
  accessors are a parameter, the record \<open>json_api\<close>.
\<close>

record 'v json_api =
  json_null :: 'v
  json_get :: "'v \<Rightarrow> string \<Rightarrow> 'v option"
  json_as_str :: "'v \<Rightarrow> string option"
  json_as_array :: "'v \<Rightarrow> 'v list option"

text \<open>\<open>params.get(key).and_then(Value::as_str)\<close>, the access most callers make.\<close>

definition get_str :: "'v json_api \<Rightarrow> 'v \<Rightarrow> string \<Rightarrow> string option" where
  "get_str api v key = Option.bind (json_get api v key) (json_as_str api)"

definition CANONICAL_ACTION_ALIASES :: "(string \<times> string \<times> string) list" where
  "CANONICAL_ACTION_ALIASES = [
     (''Bash'', ''run'', ''exec_shell''),
     (''Bash'', ''wait'', ''exec_shell_wait''),
     (''Bash'', ''interact'', ''exec_shell_interact''),
     (''Bash'', ''cancel'', ''exec_shell_cancel''),
     (''File'', ''read'', ''read_file''),
     (''File'', ''list'', ''list_dir''),
     (''File'', ''search_name'', ''file_search''),
     (''File'', ''search_content'', ''grep_files''),
     (''File'', ''write'', ''write_file''),
     (''File'', ''edit'', ''edit_file''),
     (''File'', ''patch'', ''apply_patch''),
     (''Git'', ''status'', ''git_status''),
     (''Git'', ''diff'', ''git_diff''),
     (''Git'', ''log'', ''git_log''),
     (''Git'', ''show'', ''git_show''),
     (''Git'', ''blame'', ''git_blame''),
     (''Run'', ''tests'', ''run_tests''),
     (''Run'', ''verifiers'', ''run_verifiers''),
     (''Web'', ''search'', ''web_search''),
     (''Web'', ''fetch'', ''fetch_url''),
     (''Web'', ''wait'', ''wait_for_dev_server''),
     (''rlm'', ''session_objects'', ''rlm_session_objects''),
     (''rlm'', ''open'', ''rlm_open''),
     (''rlm'', ''eval'', ''rlm_eval''),
     (''rlm'', ''configure'', ''rlm_configure''),
     (''rlm'', ''close'', ''rlm_close''),
     (''tasks'', ''create'', ''task_create''),
     (''tasks'', ''list'', ''task_list''),
     (''tasks'', ''read'', ''task_read''),
     (''tasks'', ''cancel'', ''task_cancel''),
     (''tasks'', ''gate_run'', ''task_gate_run''),
     (''tasks'', ''pr_attempt_record'', ''pr_attempt_record''),
     (''tasks'', ''pr_attempt_list'', ''pr_attempt_list''),
     (''tasks'', ''pr_attempt_read'', ''pr_attempt_read''),
     (''tasks'', ''pr_attempt_preflight'', ''pr_attempt_preflight''),
     (''automation'', ''create'', ''automation_create''),
     (''automation'', ''list'', ''automation_list''),
     (''automation'', ''read'', ''automation_read''),
     (''automation'', ''update'', ''automation_update''),
     (''automation'', ''pause'', ''automation_pause''),
     (''automation'', ''resume'', ''automation_resume''),
     (''automation'', ''delete'', ''automation_delete''),
     (''automation'', ''run'', ''automation_run''),
     (''github'', ''issue_context'', ''github_issue_context''),
     (''github'', ''pr_context'', ''github_pr_context''),
     (''github'', ''comment'', ''github_comment''),
     (''github'', ''close_issue'', ''github_close_issue''),
     (''github'', ''close_pr'', ''github_close_pr'')]"

definition action_family_default :: "string \<Rightarrow> string option option" where
  "action_family_default tool_name =
     (if tool_name = ''Bash'' then Some (Some ''run'')
      else if tool_name = ''File'' then Some (Some ''read'')
      else if tool_name = ''Git'' then Some (Some ''status'')
      else if tool_name = ''Run'' then Some (Some ''tests'')
      else if tool_name = ''Web'' then Some (Some ''search'')
      else if tool_name \<in> set [''rlm'', ''tasks'', ''automation'', ''github''] then Some None
      else None)"

definition is_action_family :: "string \<Rightarrow> bool" where
  "is_action_family tool_name = is_some (action_family_default tool_name)"

definition find_alias :: "string \<Rightarrow> string \<Rightarrow> string option" where
  "find_alias tool_name action =
     find_map (\<lambda>(family, candidate_action, alias).
       if family = tool_name \<and> candidate_action = action then Some alias else None)
       CANONICAL_ACTION_ALIASES"

definition canonical_action_alias :: "'v json_api \<Rightarrow> string \<Rightarrow> 'v \<Rightarrow> string" where
  "canonical_action_alias api tool_name input =
     (case action_family_default tool_name of
        None \<Rightarrow> tool_name
      | Some default_action \<Rightarrow>
          (case option_or (get_str api input ''action'') default_action of
             None \<Rightarrow> tool_name
           | Some action \<Rightarrow>
               (case find_alias tool_name action of None \<Rightarrow> tool_name | Some alias \<Rightarrow> alias)))"

section \<open>Resolution of the listed actions\<close>

lemma aliases_resolve:
  "list_all (\<lambda>(family, action, alias).
     is_action_family family \<and> find_alias family action = Some alias \<and> \<not> is_action_family alias)
     CANONICAL_ACTION_ALIASES"
  by code_simp

lemma defaults_listed:
  "list_all (\<lambda>family. case action_family_default family of
       Some (Some action) \<Rightarrow> find_alias family action \<noteq> None | _ \<Rightarrow> True)
     [''Bash'', ''File'', ''Git'', ''Run'', ''Web'']"
  by code_simp

lemma alias_resolves:
  assumes "(family, action, alias) \<in> set CANONICAL_ACTION_ALIASES"
  shows "is_action_family family" "find_alias family action = Some alias" "\<not> is_action_family alias"
  using aliases_resolve assms by (auto simp: list_all_iff)

lemma find_alias_listed:
  "find_alias family action = Some alias \<Longrightarrow> (family, action, alias) \<in> set CANONICAL_ACTION_ALIASES"
  unfolding find_alias_def by (drule find_map_Some) (auto split: if_splits prod.splits)

text \<open>
  The alias table is a function of family and action: every listed action, given explicitly,
  resolves to exactly its per-action name, so a deny list that names the per-action tool sees the call
  through the family; and the resolved name is not itself a family.
\<close>

theorem explicit_action_resolves:
  assumes "(family, action, alias) \<in> set CANONICAL_ACTION_ALIASES"
    and "get_str api input ''action'' = Some action"
  shows "canonical_action_alias api family input = alias \<and> \<not> is_action_family alias"
proof -
  from alias_resolves(1) [OF assms(1)] obtain d where "action_family_default family = Some d"
    by (auto simp: is_action_family_def is_some_def)
  with alias_resolves(2,3) [OF assms(1)] assms(2) show ?thesis by (simp add: canonical_action_alias_def)
qed

definition str_api :: "(string \<times> string) list json_api" where
  "str_api = \<lparr>json_null = [], json_get = (\<lambda>kvs k. map_option (\<lambda>v. [(v, v)]) (map_of kvs k)),
     json_as_str = (\<lambda>v. case v of [(a, b)] \<Rightarrow> Some a | _ \<Rightarrow> None), json_as_array = (\<lambda>_. None)\<rparr>"

theorem explicit_action_resolves_witness:
  "canonical_action_alias str_api ''Web'' [(''action'', ''fetch'')] = ''fetch_url'' \<and> \<not> is_action_family ''fetch_url''"
  by (rule explicit_action_resolves [where action = "''fetch''"]) code_simp+

lemma canonical_alias_not_family:
  "\<not> is_action_family tool \<Longrightarrow> canonical_action_alias api tool input = tool"
  by (simp add: canonical_action_alias_def is_action_family_def is_some_def)

lemma canonical_alias_cases:
  "canonical_action_alias api tool input = tool \<or>
     (\<exists>action. (tool, action, canonical_action_alias api tool input) \<in> set CANONICAL_ACTION_ALIASES)"
  by (auto simp: canonical_action_alias_def dest!: find_alias_listed split: option.splits)

lemma canonical_alias_idem:
  "canonical_action_alias api (canonical_action_alias api tool input) input' =
     canonical_action_alias api tool input \<or> canonical_action_alias api tool input = tool"
  using canonical_alias_cases [of api tool input] alias_resolves(3) canonical_alias_not_family by metis

end
