(* ===== verification/Command_Safety.thy ===== *)
theory Command_Safety
  imports Arity Segments
begin

text \<open>
  The shell-command safety analysis of the terminal front end
  (\<open>crates/tui/src/command_safety.rs\<close>): the arity classifier over \<open>COMMAND_ARITY\<close>, the read-only
  test that admits a command to a parallel batch, and \<open>analyze_command\<close>, which grades a command as
  safe, safe in the workspace, needing approval or dangerous. Word splitting is the crate \<open>shlex\<close>,
  a parameter of the definitions. The definitions are here; their properties are in
  \<open>Command_Safety_Props\<close>.
\<close>

section \<open>Arity classification\<close>

definition COMMAND_ARITY :: "arity_entry list" where
  "COMMAND_ARITY = [
     (''git add'', 2), (''git am'', 2), (''git apply'', 2), (''git bisect'', 2),
     (''git blame'', 2), (''git branch'', 2), (''git cat-file'', 2), (''git checkout'', 2),
     (''git cherry-pick'', 2), (''git clean'', 2), (''git clone'', 2), (''git commit'', 2),
     (''git config'', 2), (''git describe'', 2), (''git diff'', 2), (''git fetch'', 2),
     (''git format-patch'', 2), (''git grep'', 2), (''git init'', 2), (''git log'', 2),
     (''git ls-files'', 2), (''git merge'', 2), (''git mv'', 2), (''git notes'', 2),
     (''git pull'', 2), (''git push'', 2), (''git rebase'', 2), (''git reflog'', 2),
     (''git remote'', 2), (''git reset'', 2), (''git restore'', 2), (''git revert'', 2),
     (''git rm'', 2), (''git show'', 2), (''git stash'', 2), (''git status'', 2),
     (''git submodule'', 2), (''git switch'', 2), (''git tag'', 2), (''git worktree'', 2),
     (''npm audit'', 2), (''npm build'', 2), (''npm cache'', 2), (''npm ci'', 2),
     (''npm dedupe'', 2), (''npm fund'', 2), (''npm help'', 2), (''npm info'', 2),
     (''npm init'', 2), (''npm install'', 2), (''npm link'', 2), (''npm list'', 2),
     (''npm ls'', 2), (''npm outdated'', 2), (''npm pack'', 2), (''npm prune'', 2),
     (''npm publish'', 2), (''npm rebuild'', 2), (''npm run'', 3), (''npm start'', 2),
     (''npm stop'', 2), (''npm test'', 2), (''npm uninstall'', 2), (''npm update'', 2),
     (''npm version'', 2), (''npm view'', 2), (''yarn add'', 2), (''yarn audit'', 2),
     (''yarn build'', 2), (''yarn install'', 2), (''yarn run'', 3), (''yarn start'', 2),
     (''yarn test'', 2), (''yarn upgrade'', 2), (''yarn workspace'', 3), (''pnpm add'', 2),
     (''pnpm build'', 2), (''pnpm install'', 2), (''pnpm run'', 3), (''pnpm start'', 2),
     (''pnpm test'', 2), (''pnpm update'', 2), (''cargo add'', 2), (''cargo bench'', 2),
     (''cargo build'', 2), (''cargo check'', 2), (''cargo clean'', 2), (''cargo clippy'', 2),
     (''cargo doc'', 2), (''cargo fix'', 2), (''cargo fmt'', 2), (''cargo generate'', 2),
     (''cargo install'', 2), (''cargo metadata'', 2), (''cargo package'', 2),
     (''cargo publish'', 2), (''cargo remove'', 2), (''cargo run'', 2), (''cargo search'', 2),
     (''cargo test'', 2), (''cargo tree'', 2), (''cargo uninstall'', 2), (''cargo update'', 2),
     (''cargo yank'', 2), (''docker build'', 2), (''docker compose'', 3),
     (''docker container'', 3), (''docker cp'', 2), (''docker exec'', 2), (''docker image'', 3),
     (''docker images'', 2), (''docker inspect'', 2), (''docker kill'', 2), (''docker logs'', 2),
     (''docker network'', 3), (''docker ps'', 2), (''docker pull'', 2), (''docker push'', 2),
     (''docker rm'', 2), (''docker rmi'', 2), (''docker run'', 2), (''docker start'', 2),
     (''docker stop'', 2), (''docker system'', 3), (''docker tag'', 2), (''docker volume'', 3),
     (''kubectl apply'', 2), (''kubectl create'', 3), (''kubectl delete'', 3),
     (''kubectl describe'', 3), (''kubectl exec'', 2), (''kubectl explain'', 2),
     (''kubectl get'', 3), (''kubectl label'', 2), (''kubectl logs'', 2), (''kubectl patch'', 2),
     (''kubectl port-forward'', 2), (''kubectl rollout'', 3), (''kubectl scale'', 2),
     (''kubectl set'', 2), (''kubectl top'', 3), (''go build'', 2), (''go clean'', 2),
     (''go env'', 2), (''go fmt'', 2), (''go generate'', 2), (''go get'', 2), (''go install'', 2),
     (''go list'', 2), (''go mod'', 3), (''go run'', 2), (''go test'', 2), (''go vet'', 2),
     (''go work'', 3), (''pip install'', 2), (''pip uninstall'', 2), (''pip list'', 2),
     (''pip show'', 2), (''pip freeze'', 2), (''pip3 install'', 2), (''pip3 uninstall'', 2),
     (''pip3 list'', 2), (''pip3 show'', 2), (''python'', 2), (''python3'', 2), (''make'', 1),
     (''gh pr'', 3), (''gh issue'', 3), (''gh repo'', 3), (''gh release'', 3),
     (''gh workflow'', 3), (''gh run'', 3), (''gh secret'', 3), (''rustup default'', 2),
     (''rustup install'', 2), (''rustup show'', 2), (''rustup target'', 3),
     (''rustup toolchain'', 3), (''rustup update'', 2), (''deno run'', 2), (''deno test'', 2),
     (''deno fmt'', 2), (''deno lint'', 2), (''bun add'', 2), (''bun build'', 2),
     (''bun install'', 2), (''bun run'', 3), (''bun test'', 2), (''npx'', 2)]"

definition classify_command :: "string list \<Rightarrow> string" where
  "classify_command tokens = classify_tokens COMMAND_ARITY tokens"

definition prefix_allow_matches :: "string \<Rightarrow> string \<Rightarrow> bool" where
  "prefix_allow_matches pattern command =
     (let pattern_norm = join '' '' (split_whitespace (to_ascii_lowercase (trim pattern)));
          tokens = split_whitespace command
      in if tokens = [] then pattern_norm = []
         else if classify_command tokens = pattern_norm then True
         else
           (let command_norm = join '' '' (split_whitespace (to_ascii_lowercase (trim command)))
            in command_norm = pattern_norm \<or> starts_with command_norm (pattern_norm @ '' '')))"

section \<open>Shell words and the primary command\<close>

definition quote_chars :: "char list" where
  "quote_chars = [CHR ''\"'', CHR 0x27]"

text \<open>\<open>shlex\<close> is \<open>shlex::split\<close>: the words of a well-quoted line, none when the quoting is broken.\<close>

definition shell_words :: "(string \<Rightarrow> string list option) \<Rightarrow> string \<Rightarrow> string list" where
  "shell_words shlex segment =
     (case shlex segment of
        Some ws \<Rightarrow> ws
      | None \<Rightarrow> map (trim_matches quote_chars) (split_whitespace segment))"

definition is_env_assignment_token :: "string \<Rightarrow> bool" where
  "is_env_assignment_token token =
     (case split_once (CHR ''='') token of
        None \<Rightarrow> False
      | Some (name, _) \<Rightarrow>
          name \<noteq> [] \<and>
          list_all (\<lambda>ch. ch = CHR ''_'' \<or> is_ascii_alphanumeric ch) name \<and>
          (case name of [] \<Rightarrow> False | ch # _ \<Rightarrow> ch = CHR ''_'' \<or> is_ascii_alphabetic ch))"

text \<open>
  The scan of \<open>primary_token_index\<close>: the outer loop skips \<open>env\<close> and assignments, the inner loop
  (\<open>in_env\<close>) the flags and assignments behind an \<open>env\<close>.
\<close>

fun scan_primary :: "bool \<Rightarrow> nat \<Rightarrow> string list \<Rightarrow> nat option" where
  "scan_primary in_env idx [] = None"
| "scan_primary in_env idx (token # rest) =
     (if in_env \<and> (starts_with token ''-'' \<or> is_env_assignment_token token)
      then scan_primary True (Suc idx) rest
      else if token = ''env'' then scan_primary True (Suc idx) rest
      else if is_env_assignment_token token then scan_primary False (Suc idx) rest
      else Some idx)"

definition primary_token_index :: "string list \<Rightarrow> nat option" where
  "primary_token_index tokens = scan_primary False 0 tokens"

section \<open>Commands for a parallel read-only batch\<close>

definition PARALLEL_READONLY_PREFIXES :: "string list" where
  "PARALLEL_READONLY_PREFIXES = [
     ''git status'', ''git log'', ''git diff'', ''git show'', ''git ls-files'', ''git blame'',
     ''git grep'', ''ls'', ''pwd'', ''cat'', ''head'', ''tail'', ''wc'', ''which'', ''stat'',
     ''file'', ''du'', ''df'', ''grep'', ''rg'', ''fd'']"

text \<open>The flags behind a single dash, read as a cluster of one-letter flags.\<close>

definition short_cluster_has :: "char list \<Rightarrow> string \<Rightarrow> bool" where
  "short_cluster_has flags token =
     (starts_with token ''-'' \<and> \<not> starts_with token ''--'' \<and>
      list_ex (\<lambda>flag. flag \<in> set flags) (drop 1 token))"

definition has_exec_capable_readonly_flag :: "string \<Rightarrow> string list \<Rightarrow> bool" where
  "has_exec_capable_readonly_flag canonical tokens =
     (if canonical = ''fd'' then
        list_ex (\<lambda>token.
          token = ''--exec'' \<or> token = ''--exec-batch'' \<or>
          starts_with token ''--exec='' \<or> starts_with token ''--exec-batch='' \<or>
          short_cluster_has [CHR ''x'', CHR ''X''] token) (drop 1 tokens)
      else if canonical = ''rg'' then
        list_ex (\<lambda>token. token = ''--pre'' \<or> starts_with token ''--pre='') (drop 1 tokens)
      else if canonical = ''git grep'' then
        list_ex (\<lambda>token.
          token = ''-O'' \<or> starts_with token ''-O'' \<or>
          token = ''--open-files-in-pager'' \<or> starts_with token ''--open-files-in-pager='' \<or>
          short_cluster_has [CHR ''O''] token) (drop 2 tokens)
      else False)"

fun is_nestlone_readonly_invocation :: "string list \<Rightarrow> bool" where
  "is_nestlone_readonly_invocation [command, arg] =
     (command \<in> set [''nestlone'', ''codew''] \<and>
      arg \<in> set [''--version'', ''-V'', ''-v'', ''--help'', ''-h''])"
| "is_nestlone_readonly_invocation _ = False"

fun readonly_shell_wrapper_inner_command :: "string list \<Rightarrow> string option" where
  "readonly_shell_wrapper_inner_command [shell, flag, inner] =
     (if shell \<in> set [''bash'', ''sh'', ''zsh''] \<and> flag \<in> set [''-c'', ''-lc'']
      then Some inner else None)"
| "readonly_shell_wrapper_inner_command _ = None"

definition shell_metachars :: "char list" where
  "shell_metachars = [CHR 0x0A, CHR 0x0D, CHR '';'', CHR ''&'', CHR ''|'', CHR ''>'', CHR ''<'', CHR 0x60]"

definition has_shell_syntax :: "string \<Rightarrow> bool" where
  "has_shell_syntax trimmed =
     (contains trimmed ''$('' \<or> list_ex (\<lambda>ch. ch \<in> set shell_metachars) trimmed)"

definition tail_follows :: "string \<Rightarrow> string list \<Rightarrow> bool" where
  "tail_follows canonical command_refs =
     (canonical = ''tail'' \<and>
      list_ex (\<lambda>token. token = ''-f'' \<or> token = ''-F'' \<or> token = ''--follow'' \<or>
        starts_with token ''--follow='') (drop 1 command_refs))"

text \<open>The body behind the wrapper test, on the tokens from the primary command on.\<close>

definition readonly_invocation :: "string list \<Rightarrow> bool" where
  "readonly_invocation command_refs =
     (if is_nestlone_readonly_invocation command_refs then True
      else
        (let canonical = classify_command command_refs
         in if has_exec_capable_readonly_flag canonical command_refs then False
            else if tail_follows canonical command_refs then False
            else list_ex (\<lambda>p. p = canonical) PARALLEL_READONLY_PREFIXES))"

text \<open>
  The function calls itself on the command inside \<open>sh -c\<close>; how long that command is depends on
  \<open>shlex\<close>, so the recursion is partial and not returning is the value \<open>None\<close>.
\<close>

partial_function (option) is_parallel_readonly_command ::
    "(string \<Rightarrow> string list option) \<Rightarrow> string \<Rightarrow> bool option" where
  "is_parallel_readonly_command shlex command =
     (let trimmed = trim command
      in if trimmed = [] then Some False
         else if has_shell_syntax trimmed then Some False
         else
           (let tokens = shell_words shlex trimmed
            in case primary_token_index tokens of
                 None \<Rightarrow> Some False
               | Some start \<Rightarrow>
                   (case readonly_shell_wrapper_inner_command (drop start tokens) of
                      Some inner_command \<Rightarrow> is_parallel_readonly_command shlex inner_command
                    | None \<Rightarrow> Some (readonly_invocation (drop start tokens)))))"

section \<open>Safety analyses\<close>

datatype SafetyLevel = Safe | WorkspaceSafe | RequiresApproval | Dangerous

record SafetyAnalysis =
  sa_level :: SafetyLevel
  sa_reasons :: "string list"
  sa_suggestions :: "string list"

definition SafetyAnalysis_safe :: "string \<Rightarrow> SafetyAnalysis" where
  "SafetyAnalysis_safe command =
     \<lparr>sa_level = Safe, sa_reasons = [''Command is read-only''], sa_suggestions = []\<rparr>"

definition SafetyAnalysis_workspace_safe :: "string \<Rightarrow> string \<Rightarrow> SafetyAnalysis" where
  "SafetyAnalysis_workspace_safe command reason =
     \<lparr>sa_level = WorkspaceSafe, sa_reasons = [reason], sa_suggestions = []\<rparr>"

definition SafetyAnalysis_requires_approval :: "string \<Rightarrow> string list \<Rightarrow> SafetyAnalysis" where
  "SafetyAnalysis_requires_approval command reasons =
     \<lparr>sa_level = RequiresApproval, sa_reasons = reasons, sa_suggestions = []\<rparr>"

definition SafetyAnalysis_dangerous :: "string \<Rightarrow> string list \<Rightarrow> string list \<Rightarrow> SafetyAnalysis" where
  "SafetyAnalysis_dangerous command reasons suggestions =
     \<lparr>sa_level = Dangerous, sa_reasons = reasons, sa_suggestions = suggestions\<rparr>"

definition SAFE_COMMANDS :: "string list" where
  "SAFE_COMMANDS = [
     ''ls'', ''dir'', ''pwd'', ''cd'', ''cat'', ''head'', ''tail'', ''less'', ''more'', ''grep'',
     ''rg'', ''ag'', ''find'', ''fd'', ''which'', ''whereis'', ''type'', ''echo'', ''printf'',
     ''date'', ''cal'', ''uptime'', ''whoami'', ''id'', ''hostname'', ''uname'', ''env'',
     ''printenv'', ''set'', ''ps'', ''top'', ''htop'', ''df'', ''du'', ''free'', ''vmstat'',
     ''wc'', ''sort'', ''uniq'', ''cut'', ''tr'', ''awk'', ''sed'', ''diff'', ''file'', ''stat'',
     ''md5'', ''sha1sum'', ''sha256sum'', ''git status'', ''git log'', ''git diff'',
     ''git show'', ''git branch'', ''git remote'', ''git tag'', ''git stash list'', ''npm list'',
     ''npm ls'', ''npm outdated'', ''npm view'', ''cargo check'', ''cargo test'',
     ''cargo build'', ''cargo doc'', ''python --version'', ''node --version'',
     ''rustc --version'', ''man'', ''help'', ''info'']"

definition WORKSPACE_SAFE_COMMANDS :: "string list" where
  "WORKSPACE_SAFE_COMMANDS = [
     ''mkdir'', ''touch'', ''cp'', ''mv'', ''git add'', ''git commit'', ''git checkout'',
     ''git switch'', ''git restore'', ''git merge'', ''git rebase'', ''git cherry-pick'',
     ''git reset --soft'', ''npm install'', ''npm ci'', ''npm update'', ''cargo build'',
     ''cargo run'', ''cargo test'', ''cargo fmt'', ''pip install'', ''pip uninstall'', ''make'',
     ''cmake'', ''ninja'']"

definition DANGEROUS_PATTERNS :: "(string \<times> string) list" where
  "DANGEROUS_PATTERNS = [
     (''rm -rf /'', ''Attempts to recursively delete root filesystem''),
     (''rm -rf /*'', ''Attempts to recursively delete all root directories''),
     (''rm -rf ~'', ''Attempts to recursively delete home directory''),
     (''rm -rf $HOME'', ''Attempts to recursively delete home directory''),
     ('':(){ :|:& };:'', ''Fork bomb '' @ [CHR 0xE2, CHR 0x80, CHR 0x94] @ '' will crash the system'')]"

definition PRIVILEGED_PATTERNS :: "string list" where
  "PRIVILEGED_PATTERNS = [
     ''sudo'', ''su '', ''doas'', ''pkexec'', ''gksudo'', ''kdesudo'']"

definition NETWORK_COMMANDS :: "string list" where
  "NETWORK_COMMANDS = [
     ''curl'', ''wget'', ''fetch'', ''nc'', ''netcat'', ''ncat'', ''ssh'', ''scp'', ''sftp'',
     ''rsync'', ''ftp'', ''ping'', ''traceroute'', ''nslookup'', ''dig'', ''host'', ''nmap'',
     ''masscan'', ''tcpdump'', ''wireshark'']"

definition KNOWN_SAFE_CHAIN_PREFIXES :: "string list" where
  "KNOWN_SAFE_CHAIN_PREFIXES = [
     ''cargo'', ''rustc'', ''rustup'', ''git'', ''gh'', ''hub'', ''npm'', ''yarn'', ''pnpm'',
     ''node'', ''npx'', ''zig'', ''go'', ''deno'', ''bun'', ''make'', ''cmake'', ''ninja'',
     ''meson'', ''python'', ''python3'', ''pip'', ''pip3'', ''uv'', ''poetry'', ''ls'', ''pwd'',
     ''cd'', ''echo'', ''cat'', ''head'', ''tail'', ''grep'', ''rg'', ''find'', ''fd'', ''wc'',
     ''sort'', ''uniq'', ''which'', ''env'', ''true'', ''false'']"

section \<open>Segments and destructive commands\<close>

definition split_command_segments :: "string \<Rightarrow> string list" where
  "split_command_segments command =
     filter (\<lambda>segment. segment \<noteq> [])
       (map trim
         (split_char (CHR 0x0A)
           (replace_chars [CHR '';''] (CHR 0x0A)
             (replace2 (CHR ''|'') (CHR ''|'') (CHR 0x0A)
               (replace2 (CHR ''&'') (CHR ''&'') (CHR 0x0A) command)))))"

definition primary_token :: "string list \<Rightarrow> string option" where
  "primary_token tokens = Option.bind (primary_token_index tokens) (nth_opt tokens)"

definition primary_shell_command_is :: "(string \<Rightarrow> string list option) \<Rightarrow> string \<Rightarrow> string \<Rightarrow> bool" where
  "primary_shell_command_is shlex command expected =
     list_ex (\<lambda>segment. primary_token (shell_words shlex segment) = Some expected)
       (split_command_segments command)"

definition pipes_remote_content_to_shell :: "(string \<Rightarrow> string list option) \<Rightarrow> string \<Rightarrow> bool" where
  "pipes_remote_content_to_shell shlex command =
     list_ex (\<lambda>segment.
       (let parts = split_char (CHR ''|'') segment
        in if length parts < 2 then False
           else
             list_ex (\<lambda>(l, r).
               (let left = to_ascii_lowercase l
                in if \<not> (contains left ''curl'' \<or> contains left ''wget'') then False
                   else
                     (case primary_token (shell_words shlex r) of
                        None \<Rightarrow> False
                      | Some token \<Rightarrow> token \<in> set [''sh'', ''bash'', ''zsh''])))
               (windows2 parts)))
       (split_command_segments command)"

definition unquoted_slashes :: "string \<Rightarrow> string" where
  "unquoted_slashes target = replace_chars [CHR 0x5C] (CHR ''/'') (trim_matches quote_chars target)"

definition is_root_delete_target :: "string \<Rightarrow> bool" where
  "is_root_delete_target target =
     (let normalized = unquoted_slashes target
      in normalized = ''/'' \<or> normalized = ''/*'' \<or> normalized = ''//'' \<or>
         starts_with normalized ''/*/'' \<or> starts_with normalized ''/.'')"

definition is_home_delete_target :: "string \<Rightarrow> bool" where
  "is_home_delete_target target =
     (let lower = to_ascii_lowercase (unquoted_slashes target)
      in lower = ''~'' \<or> starts_with lower ''~/'' \<or>
         lower = ''$home'' \<or> starts_with lower ''$home/'' \<or>
         lower = ''${home}'' \<or> starts_with lower ''${home}/'')"

definition target_contains_parent_escape :: "string \<Rightarrow> bool" where
  "target_contains_parent_escape target =
     list_ex (\<lambda>component. component = ''..'')
       (split_char (CHR ''/'') (replace_chars [CHR 0x5C] (CHR ''/'') target))"

text \<open>The argument loop of \<open>dangerous_rm_reason\<close>: recursive, force and the targets in order.\<close>

fun rm_args :: "string list \<Rightarrow> bool \<Rightarrow> bool \<Rightarrow> string list \<Rightarrow> bool \<times> bool \<times> string list" where
  "rm_args [] recursive force targets = (recursive, force, targets)"
| "rm_args (arg # args) recursive force targets =
     (if arg = ''--'' then rm_args args recursive force targets
      else if arg = ''--recursive'' \<or> arg = ''--dir'' then rm_args args True force targets
      else if arg = ''--force'' then rm_args args recursive True targets
      else if starts_with arg ''-'' \<and> \<not> starts_with arg ''--'' then
        rm_args args
          (recursive \<or> list_ex (\<lambda>ch. ch = CHR ''r'' \<or> ch = CHR ''R'') arg)
          (force \<or> list_ex (\<lambda>ch. ch = CHR ''f'') arg) targets
      else rm_args args recursive force (targets @ [arg]))"

definition rm_target_reason :: "string \<Rightarrow> string option" where
  "rm_target_reason target =
     (if is_root_delete_target target
      then Some ''Recursive or forced deletion targets the root filesystem''
      else if is_home_delete_target target
      then Some ''Recursive or forced deletion targets the home directory''
      else if target_contains_parent_escape target
      then Some ''Recursive or forced deletion may escape the workspace''
      else None)"

definition dangerous_rm_reason :: "string list \<Rightarrow> string option" where
  "dangerous_rm_reason args =
     (case rm_args args False False [] of
        (recursive, force, targets) \<Rightarrow>
          if \<not> (recursive \<or> force) then None else find_map rm_target_reason targets)"

definition analyze_find_mutation :: "string \<Rightarrow> string list \<Rightarrow> SafetyAnalysis option" where
  "analyze_find_mutation command args =
     (let has_delete = list_ex (\<lambda>arg. arg = ''-delete'') args;
          execs_rm = list_ex (\<lambda>(a, b). a = ''-exec'' \<and> b = ''rm'') (windows2 args)
      in if \<not> (has_delete \<or> execs_rm) then None
         else
           (let targets = takeWhile (\<lambda>arg. \<not> starts_with arg ''-'') args
            in if list_ex (\<lambda>target. is_root_delete_target target \<or> is_home_delete_target target \<or>
                    target_contains_parent_escape target) targets
               then Some (SafetyAnalysis_dangerous command
                      [''find mutation targets a broad or external path'']
                      [''Restrict the find root to a workspace-relative path''])
               else Some (SafetyAnalysis_requires_approval command [''find command may delete files''])))"

text \<open>The body of the segment loop of \<open>analyze_destructive_patterns\<close>.\<close>

definition segment_analysis ::
    "(string \<Rightarrow> string list option) \<Rightarrow> string \<Rightarrow> string \<Rightarrow> SafetyAnalysis option" where
  "segment_analysis shlex command segment =
     (let tokens = shell_words shlex segment
      in case primary_token_index tokens of
           None \<Rightarrow> None
         | Some start \<Rightarrow>
             if tokens ! start = ''rm'' then
               (case dangerous_rm_reason (drop (start + 1) tokens) of
                  Some reason \<Rightarrow> Some (SafetyAnalysis_dangerous command [reason]
                    [''Review the deletion target before retrying''])
                | None \<Rightarrow> None)
             else if tokens ! start = ''find''
             then analyze_find_mutation command (drop (start + 1) tokens)
             else None)"

definition analyze_destructive_patterns ::
    "(string \<Rightarrow> string list option) \<Rightarrow> string \<Rightarrow> SafetyAnalysis option" where
  "analyze_destructive_patterns shlex command =
     (if primary_shell_command_is shlex command ''eval''
      then Some (SafetyAnalysis_dangerous command [''Command invokes shell eval'']
             [''Avoid evaluating dynamically generated shell input''])
      else if pipes_remote_content_to_shell shlex command
      then Some (SafetyAnalysis_dangerous command
             [''Piping remote content directly to shell is dangerous'']
             [''Download the script first and review it before execution''])
      else find_map (segment_analysis shlex command) (split_command_segments command))"

section \<open>Known commands\<close>

definition is_safe_command :: "(string \<Rightarrow> string list option) \<Rightarrow> string \<Rightarrow> bool" where
  "is_safe_command shlex command =
     (let command_lower = to_lowercase command;
          tokens = shell_words shlex command
      in (case primary_token_index tokens of
            Some start \<Rightarrow> is_nestlone_readonly_invocation (drop start tokens)
          | None \<Rightarrow> False) \<or>
         list_ex (\<lambda>safe_cmd. starts_with command_lower safe_cmd) SAFE_COMMANDS)"

definition is_workspace_safe_command :: "string \<Rightarrow> bool" where
  "is_workspace_safe_command command =
     (let command_lower = to_lowercase command
      in list_ex (\<lambda>ws_cmd. starts_with command_lower ws_cmd) WORKSPACE_SAFE_COMMANDS)"

definition all_segments_known_safe :: "string \<Rightarrow> bool" where
  "all_segments_known_safe command =
     (let normalized = replace_chars [CHR '';''] (CHR 0x0A)
            (replace2 (CHR ''|'') (CHR ''|'') (CHR 0x0A)
              (replace2 (CHR ''&'') (CHR ''&'') (CHR 0x0A) command));
          segments = filter (\<lambda>s. s \<noteq> []) (map trim (split_char (CHR 0x0A) normalized))
      in if segments = [] then False
         else
           list_all (\<lambda>seg.
             (let head = (case List.find (\<lambda>tok. \<not> contains_char tok (CHR ''='') \<and> tok \<noteq> ''env'')
                            (split_whitespace seg) of Some tok \<Rightarrow> tok | None \<Rightarrow> [])
              in list_ex (\<lambda>prefix. eq_ignore_ascii_case head prefix) KNOWN_SAFE_CHAIN_PREFIXES))
             segments)"

definition extract_primary_command :: "string \<Rightarrow> string option" where
  "extract_primary_command command =
     (let trimmed = trim command
      in if starts_with trimmed ''env '' \<or> starts_with trimmed ''ENV=''
         then List.find (\<lambda>s. \<not> contains_char s (CHR ''='') \<and> s \<noteq> ''env'') (split_whitespace trimmed)
         else first_word trimmed)"

section \<open>The analysis of a command\<close>

definition multiline_analysis :: "string \<Rightarrow> SafetyAnalysis" where
  "multiline_analysis command =
     SafetyAnalysis_dangerous command [''Command contains multiple lines'']
       [''Run one command at a time'',
        ''Write multiline scripts to a file first, then execute the script'',
        ''Use task_shell_start or background shell for long interactive flows'']"

definition chain_analysis :: "string \<Rightarrow> SafetyAnalysis" where
  "chain_analysis command =
     (if all_segments_known_safe command
      then SafetyAnalysis_requires_approval command
             [''Command chains known-safe segments (cargo/git/etc.)'']
      else SafetyAnalysis_requires_approval command [''Command chaining detected''])"

definition dangerous_pattern_hit :: "string \<Rightarrow> string \<Rightarrow> SafetyAnalysis option" where
  "dangerous_pattern_hit command command_lower =
     find_map (\<lambda>(pattern, reason).
       if contains command_lower (to_lowercase pattern)
       then Some (SafetyAnalysis_dangerous command [reason]
              [''Review the command carefully before execution''])
       else None) DANGEROUS_PATTERNS"

definition privileged_hit :: "string \<Rightarrow> string \<Rightarrow> string \<Rightarrow> SafetyAnalysis option" where
  "privileged_hit command command_trimmed command_lower =
     find_map (\<lambda>pattern.
       if starts_with command_trimmed pattern \<or> contains command_lower ('' '' @ pattern @ '' '')
       then Some (SafetyAnalysis_requires_approval command
              [''Command uses privileged execution ('' @ trim pattern @ '')''])
       else None) PRIVILEGED_PATTERNS"

definition pipe_to_shell :: "string \<Rightarrow> bool" where
  "pipe_to_shell command_lower =
     ((contains command_lower ''curl'' \<or> contains command_lower ''wget'') \<and>
      (contains command_lower ''| sh'' \<or> contains command_lower ''| bash'' \<or>
       contains command_lower ''| zsh''))"

definition rm_analysis :: "string \<Rightarrow> string \<Rightarrow> SafetyAnalysis" where
  "rm_analysis command command_lower =
     (let reasons = [''Recursive or forced deletion'']
      in if contains command_lower ''..'' \<or> contains command_lower ''~/'' \<or>
            contains command_lower ''$HOME''
         then SafetyAnalysis_dangerous command (reasons @ [''May delete files outside workspace''])
                [''Use relative paths within the workspace'']
         else SafetyAnalysis_requires_approval command reasons)"

definition git_push_analysis :: "string \<Rightarrow> string \<Rightarrow> SafetyAnalysis" where
  "git_push_analysis command command_lower =
     (if contains command_lower ''--force'' \<or> contains command_lower ''-f''
      then SafetyAnalysis_requires_approval command [''Force push can overwrite remote history'']
      else SafetyAnalysis_requires_approval command [''Push will modify remote repository''])"

text \<open>The grading behind the blocking checks: known commands first, then the network, \<open>rm\<close> and push.\<close>

definition grade_command ::
    "(string \<Rightarrow> string list option) \<Rightarrow> string \<Rightarrow> string \<Rightarrow> string \<Rightarrow> SafetyAnalysis" where
  "grade_command shlex command command_trimmed command_lower =
     (let first = (case first_word command_trimmed of Some w \<Rightarrow> w | None \<Rightarrow> [])
      in if is_safe_command shlex command_trimmed then SafetyAnalysis_safe command
         else if is_workspace_safe_command command_trimmed
         then SafetyAnalysis_workspace_safe command ''Command modifies files within workspace''
         else if first \<in> set NETWORK_COMMANDS
         then SafetyAnalysis_requires_approval command [''Command may make network requests'']
         else if first = ''rm'' \<and> (contains command_lower ''-r'' \<or> contains command_lower ''-f'')
         then rm_analysis command command_lower
         else if contains command_lower ''git push'' then git_push_analysis command command_lower
         else SafetyAnalysis_requires_approval command [''Unknown command - review before execution''])"

definition analyze_command :: "(string \<Rightarrow> string list option) \<Rightarrow> string \<Rightarrow> SafetyAnalysis" where
  "analyze_command shlex command =
     (let command_lower = to_lowercase command;
          command_trimmed = trim command
      in if contains_char command (CHR 0x0A) \<or> contains_char command (CHR 0x0D)
         then multiline_analysis command
         else if contains_char command (CHR 0x00)
         then SafetyAnalysis_dangerous command [''Command contains a null byte'']
                [''Strip embedded null bytes before retrying'']
         else
           (case analyze_destructive_patterns shlex command of
              Some analysis \<Rightarrow> analysis
            | None \<Rightarrow>
                if contains command ''&&'' \<or> contains command ''||'' \<or> contains_char command (CHR '';'')
                then chain_analysis command
                else if contains command [CHR 0x60] \<or> contains command ''$(''
                then SafetyAnalysis_requires_approval command [''Command substitution detected'']
                else
                  (case dangerous_pattern_hit command command_lower of
                     Some analysis \<Rightarrow> analysis
                   | None \<Rightarrow>
                       (case privileged_hit command command_trimmed command_lower of
                          Some analysis \<Rightarrow> analysis
                        | None \<Rightarrow>
                            if pipe_to_shell command_lower
                            then SafetyAnalysis_dangerous command
                                   [''Piping remote content directly to shell is dangerous'']
                                   [''Download the script first and review it before execution'']
                            else grade_command shlex command command_trimmed command_lower))))"

end
