(* ===== verification/Command_Safety_Props.thy ===== *)
theory Command_Safety_Props
  imports Command_Safety
begin

text \<open>
  Properties of the shell-command safety analysis: the classifier and the segment splitter satisfy the
  shared contracts, the read-only test terminates and admits only listed commands, and the grading
  never lets a chained, substituted or destructive command through as safe.
\<close>

section \<open>The shared contracts\<close>

lemma command_arity_pos: "\<forall>e \<in> set COMMAND_ARITY. 0 < unat (snd e)"
  by code_simp

interpretation command_arity: arity_classifier classify_command
proof -
  have "classify_command = classify_tokens COMMAND_ARITY" by (rule ext) (simp add: classify_command_def)
  then show "arity_classifier classify_command"
    using classify_tokens_classifier [OF command_arity_pos] by simp
qed

interpretation safetyseg: segmenter split_command_segments
proof -
  have "split_command_segments = cut [CHR '';'']"
    by (rule ext) (simp add: split_command_segments_def cut_def chain_marks_def)
  then show "segmenter split_command_segments"
    using cut_segmenter [of "[CHR '';'']"] by simp
qed

lemma starts_with_space_boundary:
  "starts_with t (p @ '' '') \<longleftrightarrow>
     starts_with t p \<and> nth_opt t (length p) = Some (CHR '' '')"
  by (auto simp: starts_with_def prefix_def nth_opt_def nth_append neq_Nil_conv hd_conv_nth [symmetric]
      split: if_splits)

lemma join_no_leading_space:
  "\<forall>w \<in> set ws. is_token w \<Longrightarrow> \<not> starts_with (join '' '' ws) '' ''"
  by (induction "'' ''" ws rule: join.induct)
    (auto simp: starts_with_def is_token_def neq_Nil_conv dest: space_not_in_token)

lemma prefix_allow_words:
  "prefix_allow_matches pattern command \<longleftrightarrow>
     (if words_lower command = [] then words_lower pattern = []
      else classify_command (split_whitespace command) = join '' '' (words_lower pattern) \<or>
        words_lower pattern \<noteq> [] \<and> prefix (words_lower pattern) (words_lower command))"
proof -
  let ?P = "words_lower pattern" and ?C = "words_lower command"
  have norm: "split_whitespace (to_ascii_lowercase (trim s)) = words_lower s" for s
    by (simp add: split_whitespace_lower words_lower_def)
  have toks: "\<forall>w \<in> set ?P. is_token w" "\<forall>w \<in> set ?C. is_token w" by (simp_all add: words_lower_tokens)
  have none: "split_whitespace command = [] \<longleftrightarrow> ?C = []" by (simp add: words_lower_def)
  show ?thesis
  proof (cases "?P = []")
    case True
    then show ?thesis
      unfolding prefix_allow_matches_def Let_def norm none
      using join_no_leading_space [OF toks(2)] join_Nil_iff [OF toks(2)] by auto
  next
    case False
    then show ?thesis
      unfolding prefix_allow_matches_def Let_def norm none starts_with_space_boundary
      using word_boundary_prefix [OF toks] join_Nil_iff [OF toks(1)] by auto
  qed
qed

section \<open>The primary command of a word list\<close>

lemma scan_primary_Some:
  "scan_primary b k ts = Some i \<Longrightarrow>
     k \<le> i \<and> i < k + length ts \<and> ts ! (i - k) \<noteq> ''env'' \<and>
     \<not> is_env_assignment_token (ts ! (i - k))"
proof (induction b k ts arbitrary: i rule: scan_primary.induct)
  case (2 b k t rest)
  have later: "k \<le> i \<and> i < k + length (t # rest) \<and> (t # rest) ! (i - k) \<noteq> ''env'' \<and>
      \<not> is_env_assignment_token ((t # rest) ! (i - k))"
    if "Suc k \<le> i \<and> i < Suc k + length rest \<and> rest ! (i - Suc k) \<noteq> ''env'' \<and>
      \<not> is_env_assignment_token (rest ! (i - Suc k))"
    using that by (simp add: nth_Cons')
  show ?case
  proof (cases "b \<and> (starts_with t ''-'' \<or> is_env_assignment_token t)")
    case True
    with "2.IH"(1) "2.prems" later show ?thesis by simp
  next
    case flag: False
    show ?thesis
    proof (cases "t = ''env''")
      case True
      then have "scan_primary True (Suc k) rest = Some i" using "2.prems" by (simp split: if_splits)
      with "2.IH"(2) [OF flag True] later show ?thesis by blast
    next
      case env: False
      show ?thesis
      proof (cases "is_env_assignment_token t")
        case True
        with flag env "2.prems" have "scan_primary False (Suc k) rest = Some i" by simp
        with "2.IH"(3) [OF flag env True] later show ?thesis by blast
      next
        case False
        with flag env "2.prems" show ?thesis by (auto split: if_splits)
      qed
    qed
  qed
qed simp

lemma primary_token_index_Some:
  "primary_token_index ts = Some i \<Longrightarrow>
     i < length ts \<and> ts ! i \<noteq> ''env'' \<and> \<not> is_env_assignment_token (ts ! i)"
  using scan_primary_Some [of False 0 ts i] by (simp add: primary_token_index_def)

lemma primary_token_eq:
  "primary_token_index ts = Some i \<Longrightarrow> primary_token ts = Some (ts ! i)"
  using primary_token_index_Some [of ts i] by (simp add: primary_token_def nth_opt_def)

lemma primary_token_Some:
  "primary_token ts = Some t \<Longrightarrow> \<exists>i. primary_token_index ts = Some i \<and> i < length ts \<and> ts ! i = t"
  by (cases "primary_token_index ts") (auto simp: primary_token_def nth_opt_def split: if_splits)

section \<open>Termination of the read-only test\<close>

lemma join_nth_length: "i < length ws \<Longrightarrow> length (ws ! i) \<le> length (join '' '' ws)"
proof (induction "'' ''" ws arbitrary: i rule: join.induct)
  case (3 w v ws)
  then show ?case by (cases i) (auto simp: le_Suc_eq trans_le_add2)
qed auto

lemma join_last_shorter:
  "1 < length ws \<Longrightarrow> length (last ws) < length (join '' '' ws)"
proof (induction "'' ''" ws rule: join.induct)
  case (3 w v ws)
  then show ?case by (cases ws) auto
qed auto

lemma word_span_rest: "snd (word_span s) = [] \<or> ws_len (snd (word_span s)) \<noteq> 0"
  by (induction s) (auto split: prod.splits)

lemma split_whitespace_drop_ws:
  "split_whitespace (drop (ws_len s) s) = split_whitespace s"
  by (simp add: split_whitespace.simps [of s] split_whitespace.simps [of "drop (ws_len s) s"]
      trim_start.simps [of s])

lemma split_whitespace_join_length: "length (join '' '' (split_whitespace s)) \<le> length s"
proof (induction s rule: measure_induct_rule [of length])
  case (less s)
  show ?case
  proof (cases "trim_start s = []")
    case False
    define w r where "w = fst (word_span (trim_start s))" and "r = snd (word_span (trim_start s))"
    define r' where "r' = drop (ws_len r) r"
    have len: "length w + length r \<le> length s"
      using arg_cong [OF word_span_append [of "trim_start s" w r], of length] trim_start_length [of s]
      by (simp add: w_def r_def)
    have ws: "split_whitespace s = w # split_whitespace r'"
      using False split_whitespace_drop_ws [of r]
      by (simp add: split_whitespace.simps [of s] w_def r_def r'_def)
    show ?thesis
    proof (cases "split_whitespace r' = []")
      case ne: False
      then have "r \<noteq> []" by (auto simp: r'_def)
      then have "length r' < length r"
        using word_span_rest [of "trim_start s"] by (simp add: r'_def r_def)
      then have "length (join '' '' (split_whitespace r')) < length r"
        using less.IH [of r'] len by simp
      with ne ws len show ?thesis by (cases "split_whitespace r'") auto
    qed (use ws len in simp)
  qed (simp add: split_whitespace.simps [of s])
qed

lemma trim_start_matches_length: "length (trim_start_matches cs s) \<le> length s"
  by (induction s) auto

lemma trim_matches_length: "length (trim_matches cs s) \<le> length s"
  using trim_start_matches_length [of cs "rev (trim_start_matches cs s)"]
    trim_start_matches_length [of cs s]
  by (simp add: trim_matches_def)

lemma join_map_length:
  "(\<And>w. length (f w) \<le> length w) \<Longrightarrow> length (join '' '' (map f ws)) \<le> length (join '' '' ws)"
  by (induction "'' ''" ws rule: join.induct) (auto simp: add_mono)

lemma trim_length: "length (trim s) \<le> length s"
  using sublist_length_le [OF trim_sublist [of s]] .

lemma shell_words_length:
  assumes "\<And>s ws. shlex s = Some ws \<Longrightarrow> length (join '' '' ws) \<le> length s"
  shows "length (join '' '' (shell_words shlex s)) \<le> length s"
proof (cases "shlex s")
  case None
  have "length (join '' '' (map (trim_matches quote_chars) (split_whitespace s)))
      \<le> length (join '' '' (split_whitespace s))"
    by (rule join_map_length) (rule trim_matches_length)
  with None split_whitespace_join_length [of s] show ?thesis by (simp add: shell_words_def)
qed (simp add: assms shell_words_def)

lemma wrapper_Some:
  "readonly_shell_wrapper_inner_command ts = Some inner \<Longrightarrow> \<exists>shell flag. ts = [shell, flag, inner]"
  by (cases ts rule: readonly_shell_wrapper_inner_command.cases) (auto split: if_splits)

lemma wrapper_inner_shorter:
  assumes "\<And>s ws. shlex s = Some ws \<Longrightarrow> length (join '' '' ws) \<le> length s"
    and "readonly_shell_wrapper_inner_command (drop k (shell_words shlex (trim c))) = Some inner"
  shows "length inner < length c"
proof -
  let ?ws = "shell_words shlex (trim c)"
  from wrapper_Some [OF assms(2)] obtain a b where d: "drop k ?ws = [a, b, inner]" by blast
  then have ws: "?ws = take k ?ws @ [a, b, inner]" using append_take_drop_id [of k ?ws] by simp
  have "last ?ws = inner" by (subst ws) simp
  moreover have "1 < length ?ws" by (subst ws) simp
  ultimately have "length inner < length (join '' '' ?ws)" using join_last_shorter [of ?ws] by simp
  also have "\<dots> \<le> length (trim c)" by (rule shell_words_length) (rule assms(1))
  also have "\<dots> \<le> length c" by (rule trim_length)
  finally show ?thesis .
qed

lemma readonly_test_total:
  assumes "\<And>s ws. shlex s = Some ws \<Longrightarrow> length (join '' '' ws) \<le> length s"
  shows "\<exists>b. is_parallel_readonly_command shlex command = Some b"
proof (induction command rule: measure_induct_rule [of length])
  case (less c)
  have "\<exists>b. is_parallel_readonly_command shlex inner = Some b"
    if "readonly_shell_wrapper_inner_command (drop k (shell_words shlex (trim c))) = Some inner" for k inner
    using less.IH [OF wrapper_inner_shorter [OF assms that]] .
  then show ?case
    by (subst is_parallel_readonly_command.simps) (auto simp: Let_def split: option.splits)
qed

text \<open>
  The read-only test returns on every command: unwrapping \<open>sh -c\<close> always shortens the command,
  because \<open>shlex\<close> only drops characters (its words, separated by single blanks, are no longer than
  the line).
\<close>

theorem readonly_test_returns:
  assumes "\<And>s ws. shlex s = Some ws \<Longrightarrow> length (join '' '' ws) \<le> length s"
  shows "\<exists>b. is_parallel_readonly_command shlex command = Some b"
  using assms by (rule readonly_test_total)

definition plain_shlex :: "string \<Rightarrow> string list option" where
  "plain_shlex s = (if list_ex (\<lambda>c. c \<in> set (CHR 0x5C # quote_chars)) s then None else Some (split_whitespace s))"

lemma plain_shlex_length: "plain_shlex s = Some ws \<Longrightarrow> length (join '' '' ws) \<le> length s"
  using split_whitespace_join_length [of s] by (auto simp: plain_shlex_def split: if_splits)

theorem readonly_test_returns_witness:
  "\<exists>b. is_parallel_readonly_command plain_shlex ''sh -c ls'' = Some b"
  by (rule readonly_test_returns) (rule plain_shlex_length)

section \<open>What the read-only test admits\<close>

text \<open>
  The commands a line runs: itself, or the command inside \<open>sh -c\<close>, down to the innermost one.
\<close>

inductive unwraps :: "(string \<Rightarrow> string list option) \<Rightarrow> string \<Rightarrow> string \<Rightarrow> bool"
  for shlex :: "string \<Rightarrow> string list option" where
  unwraps_self: "unwraps shlex c c"
| unwraps_inner: "readonly_shell_wrapper_inner_command
      (drop start (shell_words shlex (trim c))) = Some inner \<Longrightarrow>
    primary_token_index (shell_words shlex (trim c)) = Some start \<Longrightarrow>
    unwraps shlex inner d \<Longrightarrow> unwraps shlex c d"

lemma readonly_invocation_cases:
  "readonly_invocation ts \<Longrightarrow>
     is_nestlone_readonly_invocation ts \<or>
     classify_command ts \<in> set PARALLEL_READONLY_PREFIXES \<and>
     \<not> has_exec_capable_readonly_flag (classify_command ts) ts \<and> \<not> tail_follows (classify_command ts) ts"
  by (auto simp: readonly_invocation_def Let_def list_ex_iff split: if_splits)

definition readonly_layers :: "(string \<Rightarrow> string list option) \<Rightarrow> string \<Rightarrow> bool" where
  "readonly_layers shlex c \<longleftrightarrow>
     (\<exists>inner ts start. unwraps shlex c inner \<and> \<not> has_shell_syntax (trim c) \<and>
        \<not> has_shell_syntax (trim inner) \<and> ts = drop start (shell_words shlex (trim inner)) \<and>
        primary_token_index (shell_words shlex (trim inner)) = Some start \<and> readonly_invocation ts)"

lemma readonly_test_step:
  assumes IH: "\<And>shlex c b. rec shlex c = Some b \<Longrightarrow> b \<longrightarrow> readonly_layers shlex c"
    and step: "(let trimmed = trim c
      in if trimmed = [] then Some False
         else if has_shell_syntax trimmed then Some False
         else
           (let tokens = shell_words shlex trimmed
            in case primary_token_index tokens of
                 None \<Rightarrow> Some False
               | Some start \<Rightarrow>
                   (case readonly_shell_wrapper_inner_command (drop start tokens) of
                      Some inner_command \<Rightarrow> rec shlex inner_command
                    | None \<Rightarrow> Some (readonly_invocation (drop start tokens))))) = Some True"
  shows "readonly_layers shlex c"
proof -
  from step obtain start where no: "\<not> has_shell_syntax (trim c)"
    and start: "primary_token_index (shell_words shlex (trim c)) = Some start"
    and body: "(case readonly_shell_wrapper_inner_command (drop start (shell_words shlex (trim c))) of
        Some inner \<Rightarrow> rec shlex inner
      | None \<Rightarrow> Some (readonly_invocation (drop start (shell_words shlex (trim c))))) = Some True"
    by (auto simp: Let_def split: if_splits option.splits)
  show ?thesis
  proof (cases "readonly_shell_wrapper_inner_command (drop start (shell_words shlex (trim c)))")
    case None
    with body no start show ?thesis by (auto simp: readonly_layers_def intro: unwraps_self)
  next
    case (Some inner)
    with body IH [of shlex inner True] have "readonly_layers shlex inner" by simp
    with no unwraps_inner [OF Some start] show ?thesis unfolding readonly_layers_def by blast
  qed
qed

lemma readonly_test_layers:
  assumes "is_parallel_readonly_command shlex c = Some b"
  shows "b \<longrightarrow> readonly_layers shlex c"
  by (rule is_parallel_readonly_command.raw_induct
      [where P = "\<lambda>shlex c b. b \<longrightarrow> readonly_layers shlex c", OF _ assms])
    (rule impI, rule readonly_test_step, auto)


lemma readonly_test_unwrap:
  assumes "trim c \<noteq> []" and "\<not> has_shell_syntax (trim c)"
    and "primary_token_index (shell_words shlex (trim c)) = Some start"
  shows "readonly_shell_wrapper_inner_command (drop start (shell_words shlex (trim c))) = Some inner \<Longrightarrow>
      is_parallel_readonly_command shlex c = is_parallel_readonly_command shlex inner"
    and "readonly_shell_wrapper_inner_command (drop start (shell_words shlex (trim c))) = None \<Longrightarrow>
      is_parallel_readonly_command shlex c = Some (readonly_invocation (drop start (shell_words shlex (trim c))))"
  using assms by (subst is_parallel_readonly_command.simps, simp add: Let_def)+


section \<open>Deletions\<close>

definition rm_forces :: "string \<Rightarrow> bool" where
  "rm_forces arg \<longleftrightarrow>
     arg \<in> {''--recursive'', ''--dir'', ''--force''} \<or>
     starts_with arg ''-'' \<and> \<not> starts_with arg ''--'' \<and> (\<exists>ch \<in> {CHR ''r'', CHR ''R'', CHR ''f''}. ch \<in> set arg)"

definition rm_target :: "string \<Rightarrow> bool" where
  "rm_target arg \<longleftrightarrow>
     arg \<notin> {''--'', ''--recursive'', ''--dir'', ''--force''} \<and>
     \<not> (starts_with arg ''-'' \<and> \<not> starts_with arg ''--'')"

lemma rm_args_spec:
  "rm_args args r f ts = (r', f', ts') \<Longrightarrow>
     (r' \<or> f' \<longleftrightarrow> r \<or> f \<or> (\<exists>arg \<in> set args. rm_forces arg)) \<and> ts' = ts @ filter rm_target args"
proof (induction args r f ts rule: rm_args.induct)
  case (2 arg args r f ts)
  consider "arg = ''--''" | "arg = ''--recursive'' \<or> arg = ''--dir''" | "arg = ''--force''"
    | "starts_with arg ''-''" "\<not> starts_with arg ''--''"
    | "\<not> (starts_with arg ''-'' \<and> \<not> starts_with arg ''--'')"
      "arg \<notin> {''--'', ''--recursive'', ''--dir'', ''--force''}" by blast
  then show ?case
  proof cases
    case 1
    then have "\<not> rm_forces arg" "\<not> rm_target arg" by (auto simp: rm_forces_def rm_target_def starts_with_def)
    with 1 "2.IH"(1) "2.prems" show ?thesis by simp
  next
    case c: 2
    then have "rm_forces arg" "\<not> rm_target arg" "arg \<noteq> ''--''" by (auto simp: rm_forces_def rm_target_def)
    with c "2.IH"(2) "2.prems" show ?thesis by simp
  next
    case 3
    then have "rm_forces arg" "\<not> rm_target arg" by (auto simp: rm_forces_def rm_target_def)
    with 3 "2.IH"(3) "2.prems" show ?thesis by simp
  next
    case 4
    then have no: "arg \<noteq> ''--''" "\<not> (arg = ''--recursive'' \<or> arg = ''--dir'')" "arg \<noteq> ''--force''"
      by (auto simp: starts_with_def)
    have "rm_forces arg \<longleftrightarrow> list_ex (\<lambda>ch. ch = CHR ''r'' \<or> ch = CHR ''R'') arg \<or> list_ex (\<lambda>ch. ch = CHR ''f'') arg"
      using 4 no by (auto simp: rm_forces_def list_ex_iff)
    moreover have "\<not> rm_target arg" using 4 by (simp add: rm_target_def)
    ultimately show ?thesis using 4 no "2.IH"(4) "2.prems" by auto
  next
    case 5
    then have "\<not> rm_forces arg" "rm_target arg" by (auto simp: rm_forces_def rm_target_def)
    with 5 "2.IH"(5) "2.prems" show ?thesis by (auto split: if_splits)
  qed
qed auto

lemma rm_target_reason_None:
  "rm_target_reason t = None \<longleftrightarrow>
     \<not> (is_root_delete_target t \<or> is_home_delete_target t \<or> target_contains_parent_escape t)"
  by (simp add: rm_target_reason_def)

text \<open>
  A deletion is reported exactly when it is recursive or forced, by any flag in any position, and
  one of its targets is the root, the home directory or a path with a parent component.
\<close>

theorem dangerous_rm_reason_iff:
  "dangerous_rm_reason args \<noteq> None \<longleftrightarrow>
     (\<exists>arg \<in> set args. rm_forces arg) \<and>
     (\<exists>t \<in> set args. rm_target t \<and>
        (is_root_delete_target t \<or> is_home_delete_target t \<or> target_contains_parent_escape t))"
proof -
  obtain r f ts where args: "rm_args args False False [] = (r, f, ts)" by (rule prod_cases3)
  show ?thesis
    using rm_args_spec [OF args] unfolding dangerous_rm_reason_def args
    by (auto simp del: not_None_eq simp: rm_target_reason_None find_map_not_None)
qed

section \<open>The levels of an analysis\<close>

lemma analysis_levels [simp]:
  "sa_level (SafetyAnalysis_safe c) = Safe"
  "sa_level (SafetyAnalysis_workspace_safe c r) = WorkspaceSafe"
  "sa_level (SafetyAnalysis_requires_approval c rs) = RequiresApproval"
  "sa_level (SafetyAnalysis_dangerous c rs ss) = Dangerous"
  by (simp_all add: SafetyAnalysis_safe_def SafetyAnalysis_workspace_safe_def
      SafetyAnalysis_requires_approval_def SafetyAnalysis_dangerous_def)

definition escalated :: "SafetyAnalysis \<Rightarrow> bool" where
  "escalated a = (sa_level a = RequiresApproval \<or> sa_level a = Dangerous)"

lemma escalated_simps [simp]:
  "escalated (SafetyAnalysis_requires_approval c rs)" "escalated (SafetyAnalysis_dangerous c rs ss)"
  "escalated (multiline_analysis c)" "escalated (chain_analysis c)"
  "\<not> escalated (SafetyAnalysis_safe c)" "\<not> escalated (SafetyAnalysis_workspace_safe c r)"
  by (simp_all add: escalated_def multiline_analysis_def chain_analysis_def)

lemma segment_analysis_escalated: "segment_analysis shlex c seg = Some a \<Longrightarrow> escalated a"
  by (auto simp: segment_analysis_def analyze_find_mutation_def Let_def split: option.splits if_splits)

lemma destructive_escalated: "analyze_destructive_patterns shlex c = Some a \<Longrightarrow> escalated a"
  by (auto simp: analyze_destructive_patterns_def segment_analysis_escalated
      split: if_splits dest!: find_map_Some)

lemma pattern_hits_escalated:
  "dangerous_pattern_hit c l = Some a \<Longrightarrow> escalated a"
  "privileged_hit c t l = Some a \<Longrightarrow> escalated a"
  by (auto simp: dangerous_pattern_hit_def privileged_hit_def split: if_splits dest!: find_map_Some)

definition shell_control :: "string \<Rightarrow> bool" where
  "shell_control c \<longleftrightarrow>
     (\<exists>ch \<in> {CHR 0x0A, CHR 0x0D, CHR 0x00, CHR '';'', CHR 0x60}. ch \<in> set c) \<or>
     sublist ''&&'' c \<or> sublist ''||'' c \<or> sublist ''$('' c"

lemma sublist_single: "sublist [x] s \<longleftrightarrow> x \<in> set s"
  by (auto simp: sublist_def in_set_conv_decomp)

lemma shell_control_tests:
  "shell_control c \<longleftrightarrow>
     contains_char c (CHR 0x0A) \<or> contains_char c (CHR 0x0D) \<or> contains_char c (CHR 0x00) \<or>
     contains c ''&&'' \<or> contains c ''||'' \<or> contains_char c (CHR '';'') \<or>
     contains c [CHR 0x60] \<or> contains c ''$(''"
  by (auto simp: shell_control_def contains_char_def contains_sublist sublist_single)

lemma analyze_early:
  "contains_char c (CHR 0x0A) \<or> contains_char c (CHR 0x0D) \<or> contains_char c (CHR 0x00) \<Longrightarrow>
     sa_level (analyze_command shlex c) = Dangerous"
  by (auto simp: analyze_command_def multiline_analysis_def Let_def)

lemma analyze_destructive:
  "\<not> contains_char c (CHR 0x0A) \<Longrightarrow> \<not> contains_char c (CHR 0x0D) \<Longrightarrow> \<not> contains_char c (CHR 0x00) \<Longrightarrow>
     analyze_destructive_patterns shlex c = Some a \<Longrightarrow> analyze_command shlex c = a"
  by (simp add: analyze_command_def)

lemma control_escalated: "shell_control c \<Longrightarrow> escalated (analyze_command shlex c)"
  by (auto simp: shell_control_tests analyze_command_def Let_def
      dest: destructive_escalated split: option.split)

text \<open>
  Shell control never passes as safe: a command with a line break, a NUL byte, a separator or a
  command substitution is escalated to approval or blocked, whatever its words are and however
  \<open>shlex\<close> splits it.
\<close>

theorem shell_control_escalates:
  assumes "shell_control command"
  shows "escalated (analyze_command shlex command)"
  using assms by (rule control_escalated)

theorem shell_control_escalates_witness: "escalated (analyze_command plain_shlex ''ls && ls'')"
  by (rule shell_control_escalates) code_simp

definition safe_prefixed :: "string \<Rightarrow> bool" where
  "safe_prefixed c \<longleftrightarrow> (\<exists>p \<in> set SAFE_COMMANDS. prefix p (to_lowercase (trim c)))"

lemma analyze_Safe:
  assumes "sa_level (analyze_command shlex c) = Safe"
  shows "\<not> shell_control c \<and> analyze_destructive_patterns shlex c = None \<and>
     dangerous_pattern_hit c (to_lowercase c) = None \<and>
     privileged_hit c (trim c) (to_lowercase c) = None \<and> \<not> pipe_to_shell (to_lowercase c) \<and>
     is_safe_command shlex (trim c)"
proof -
  have ne: "\<not> escalated (analyze_command shlex c)" using assms by (simp add: escalated_def)
  then have nc: "\<not> shell_control c" using control_escalated by blast
  then have d: "analyze_destructive_patterns shlex c = None"
    using ne analyze_destructive [of c shlex] destructive_escalated [of shlex c]
    by (cases "analyze_destructive_patterns shlex c") (auto simp: shell_control_tests)
  have p: "dangerous_pattern_hit c (to_lowercase c) = None"
    using ne nc d pattern_hits_escalated(1) [of c "to_lowercase c"]
    by (cases "dangerous_pattern_hit c (to_lowercase c)")
      (auto simp: analyze_command_def shell_control_tests)
  have q: "privileged_hit c (trim c) (to_lowercase c) = None"
    using ne nc d p pattern_hits_escalated(2) [of c "trim c" "to_lowercase c"]
    by (cases "privileged_hit c (trim c) (to_lowercase c)")
      (auto simp: analyze_command_def shell_control_tests)
  have "\<not> pipe_to_shell (to_lowercase c)"
    using ne nc d p q by (auto simp: analyze_command_def shell_control_tests)
  moreover from this have "sa_level (grade_command shlex c (trim c) (to_lowercase c)) = Safe"
    using assms nc d p q by (simp add: analyze_command_def shell_control_tests)
  then have "is_safe_command shlex (trim c)"
    by (simp add: grade_command_def Let_def rm_analysis_def git_push_analysis_def split: if_splits)
  ultimately show ?thesis using nc d p q by simp
qed

lemma privileged_hit_None:
  "privileged_hit c t l = None \<longleftrightarrow>
     (\<forall>p \<in> set PRIVILEGED_PATTERNS. \<not> prefix p t \<and> \<not> sublist ('' '' @ p @ '' '') l)"
  by (auto simp: privileged_hit_def find_map_None starts_with_def contains_sublist)

lemma dangerous_pattern_hit_None:
  "dangerous_pattern_hit c l = None \<longleftrightarrow>
     (\<forall>p \<in> set DANGEROUS_PATTERNS. \<not> sublist (to_lowercase (fst p)) l)"
  by (auto simp: dangerous_pattern_hit_def find_map_None contains_sublist case_prod_beta split: if_splits)

text \<open>
  C6. What the level Safe guarantees: no shell control, no segment whose command is \<open>eval\<close> or a
  reported deletion, no privilege escalation in front of the command, no known destructive pattern, and
  the command starts with an entry of the table of safe commands or is a version or help call.
\<close>

theorem safe_level_guarantees:
  assumes "sa_level (analyze_command shlex command) = Safe"
  shows "\<not> shell_control command \<and>
     (\<forall>seg \<in> set (split_command_segments command).
        primary_token (shell_words shlex seg) \<noteq> Some ''eval'' \<and>
        segment_analysis shlex command seg = None) \<and>
     (\<forall>p \<in> set DANGEROUS_PATTERNS. \<not> sublist (to_lowercase (fst p)) (to_lowercase command)) \<and>
     (\<forall>p \<in> set PRIVILEGED_PATTERNS. \<not> prefix p (trim command) \<and>
        \<not> sublist ('' '' @ p @ '' '') (to_lowercase command)) \<and>
     (safe_prefixed command \<or>
      (\<exists>start. primary_token_index (shell_words shlex (trim command)) = Some start \<and>
         is_nestlone_readonly_invocation (drop start (shell_words shlex (trim command)))))"
proof -
  note safe = analyze_Safe [OF assms]
  have "\<forall>seg \<in> set (split_command_segments command).
        primary_token (shell_words shlex seg) \<noteq> Some ''eval'' \<and>
        segment_analysis shlex command seg = None"
    using safe by (auto simp: analyze_destructive_patterns_def primary_shell_command_is_def
        list_ex_iff find_map_None split: if_splits)
  moreover have "safe_prefixed command \<or>
      (\<exists>start. primary_token_index (shell_words shlex (trim command)) = Some start \<and>
         is_nestlone_readonly_invocation (drop start (shell_words shlex (trim command))))"
    using safe by (auto simp: is_safe_command_def safe_prefixed_def list_ex_iff starts_with_def Let_def
        split: option.splits)
  ultimately show ?thesis using safe privileged_hit_None dangerous_pattern_hit_None by blast
qed

theorem safe_level_guarantees_witness:
  "sa_level (analyze_command plain_shlex ''git log -3'') = Safe \<and> \<not> shell_control ''git log -3'' \<and>
   segment_analysis plain_shlex ''git log -3'' ''git log -3'' = None"
proof -
  have safe: "sa_level (analyze_command plain_shlex ''git log -3'') = Safe" by code_simp
  have "split_command_segments ''git log -3'' = [''git log -3'']" by code_simp
  with safe safe_level_guarantees [OF safe] show ?thesis by simp
qed

section \<open>Destructive segments\<close>

lemma find_map_first:
  "(\<forall>x \<in> set xs. f x = None) \<Longrightarrow> f y = Some r \<Longrightarrow> find_map f (xs @ y # ys) = Some r"
  by (induction xs) auto

lemma find_map_pred:
  "xs = ys @ y # zs \<Longrightarrow> f y \<noteq> None \<Longrightarrow> \<forall>x \<in> set (y # ys). \<forall>r. f x = Some r \<longrightarrow> P r \<Longrightarrow>
     \<exists>r. find_map f xs = Some r \<and> P r"
  by (induction ys arbitrary: xs) (auto split: option.splits)

lemma segment_rm:
  assumes "primary_token_index (shell_words shlex seg) = Some i"
    and "shell_words shlex seg ! i = ''rm''"
  shows "segment_analysis shlex c seg =
     map_option (\<lambda>reason. SafetyAnalysis_dangerous c [reason] [''Review the deletion target before retrying''])
       (dangerous_rm_reason (drop (Suc i) (shell_words shlex seg)))"
  using assms by (simp add: segment_analysis_def Let_def split: option.split)

lemma segment_not_find:
  "primary_token (shell_words shlex seg) \<noteq> Some ''find'' \<Longrightarrow>
     segment_analysis shlex c seg = Some a \<Longrightarrow> sa_level a = Dangerous"
  by (auto simp: segment_analysis_def Let_def primary_token_eq split: option.splits if_splits)

text \<open>
  A reported deletion blocks the whole line: if a segment runs \<open>rm\<close> with arguments that
  \<open>dangerous_rm_reason\<close> reports, behind any assignments and \<open>env\<close>, and no earlier segment runs
  \<open>find\<close>, then the line is graded Dangerous, whatever else it chains.
\<close>

theorem reported_deletion_blocks:
  assumes "split_command_segments command = before @ seg # after"
    and "shell_words shlex seg = pre @ ''rm'' # args"
    and "primary_token_index (shell_words shlex seg) = Some (length pre)"
    and "dangerous_rm_reason args \<noteq> None"
    and "\<forall>s \<in> set before. primary_token (shell_words shlex s) \<noteq> Some ''find''"
  shows "sa_level (analyze_command shlex command) = Dangerous"
proof (cases "contains_char command (CHR 0x0A) \<or> contains_char command (CHR 0x0D) \<or>
    contains_char command (CHR 0x00)")
  case True
  then show ?thesis by (rule analyze_early)
next
  case False
  have rm: "segment_analysis shlex command seg \<noteq> None"
    using segment_rm [OF assms(3)] assms(2,4) by simp
  moreover have "primary_token (shell_words shlex seg) = Some ''rm''"
    using primary_token_eq [OF assms(3)] assms(2) by simp
  then have "\<forall>r. segment_analysis shlex command seg = Some r \<longrightarrow> sa_level r = Dangerous"
    using segment_not_find [of shlex seg command] by simp
  ultimately have "\<exists>a. find_map (segment_analysis shlex command) (split_command_segments command) = Some a \<and>
      sa_level a = Dangerous"
    using assms(5) by (intro find_map_pred [OF assms(1)]) (auto intro: segment_not_find)
  then have "\<exists>a. analyze_destructive_patterns shlex command = Some a \<and> sa_level a = Dangerous"
    by (auto simp: analyze_destructive_patterns_def)
  then show ?thesis using analyze_destructive [of command shlex] False by auto
qed

theorem reported_deletion_blocks_witness:
  "sa_level (analyze_command plain_shlex ''git log && FOO=1 rm -v -rf ../x'') = Dangerous"
proof (rule reported_deletion_blocks)
  show "split_command_segments ''git log && FOO=1 rm -v -rf ../x'' =
      [''git log''] @ ''FOO=1 rm -v -rf ../x'' # []" by code_simp
  show "shell_words plain_shlex ''FOO=1 rm -v -rf ../x'' = [''FOO=1''] @ ''rm'' # [''-v'', ''-rf'', ''../x'']"
    by code_simp
  show "primary_token_index (shell_words plain_shlex ''FOO=1 rm -v -rf ../x'') = Some (length [''FOO=1''])"
    by code_simp
  show "dangerous_rm_reason [''-v'', ''-rf'', ''../x''] \<noteq> None" by code_simp
  show "\<forall>s \<in> set [''git log'']. primary_token (shell_words plain_shlex s) \<noteq> Some ''find''" by code_simp
qed

text \<open>
  An earlier \<open>find -delete\<close> masks a later deletion: the segment loop returns at the first
  analysis, so the line \<open>find . -delete ; rm -rf /\<close> only asks for approval although its second
  segment alone is Dangerous.
\<close>

theorem find_masks_later_deletion:
  assumes "shlex ''find . -delete'' = Some [''find'', ''.'', ''-delete'']"
    and "shlex ''rm -rf /'' = Some [''rm'', ''-rf'', ''/'']"
  shows "sa_level (analyze_command shlex ''find . -delete ; rm -rf /'') = RequiresApproval \<and>
     sa_level (analyze_command shlex ''rm -rf /'') = Dangerous"
proof -
  have segs: "split_command_segments ''find . -delete ; rm -rf /'' = [''find . -delete'', ''rm -rf /'']"
    "split_command_segments ''rm -rf /'' = [''rm -rf /'']" by code_simp+
  have words: "shell_words shlex ''find . -delete'' = [''find'', ''.'', ''-delete'']"
    "shell_words shlex ''rm -rf /'' = [''rm'', ''-rf'', ''/'']" using assms by (simp_all add: shell_words_def)
  have idx: "primary_token_index [''find'', ''.'', ''-delete''] = Some 0"
    "primary_token_index [''rm'', ''-rf'', ''/''] = Some 0" by code_simp+
  have pipes: "split_char (CHR ''|'') ''find . -delete'' = [''find . -delete'']"
    "split_char (CHR ''|'') ''rm -rf /'' = [''rm -rf /'']" by code_simp+
  have find: "analyze_find_mutation c [''.'', ''-delete''] =
      Some (SafetyAnalysis_requires_approval c [''find command may delete files''])" for c
  proof -
    have "list_ex (\<lambda>arg. arg = ''-delete'') [''.'', ''-delete'']"
      "\<not> list_ex (\<lambda>target. is_root_delete_target target \<or> is_home_delete_target target \<or>
         target_contains_parent_escape target) (takeWhile (\<lambda>arg. \<not> starts_with arg ''-'') [''.'', ''-delete''])"
      by code_simp+
    then show ?thesis unfolding analyze_find_mutation_def Let_def by simp
  qed
  have rm: "dangerous_rm_reason [''-rf'', ''/''] =
      Some ''Recursive or forced deletion targets the root filesystem''" by code_simp
  have "analyze_destructive_patterns shlex ''find . -delete ; rm -rf /'' =
      Some (SafetyAnalysis_requires_approval ''find . -delete ; rm -rf /'' [''find command may delete files''])"
    unfolding analyze_destructive_patterns_def primary_shell_command_is_def pipes_remote_content_to_shell_def
      segs by (simp add: words idx pipes primary_token_def nth_opt_def segment_analysis_def find)
  moreover have "\<exists>a. analyze_destructive_patterns shlex ''rm -rf /'' = Some a \<and> sa_level a = Dangerous"
    unfolding analyze_destructive_patterns_def primary_shell_command_is_def pipes_remote_content_to_shell_def
      segs by (simp add: words idx pipes primary_token_def nth_opt_def segment_analysis_def rm)
  ultimately show ?thesis
    using analyze_destructive [of "''find . -delete ; rm -rf /''" shlex]
      analyze_destructive [of "''rm -rf /''" shlex]
    by (auto simp: contains_char_def)
qed

theorem find_masks_later_deletion_witness:
  "sa_level (analyze_command plain_shlex ''find . -delete ; rm -rf /'') = RequiresApproval \<and>
   sa_level (analyze_command plain_shlex ''rm -rf /'') = Dangerous"
  by (rule find_masks_later_deletion) code_simp+

section \<open>The string comparisons\<close>

lemma not_upper_bytes:
  "\<not> is_ascii_upper (CHR ''k'')" "\<not> is_ascii_upper (CHR ''i'')" "\<not> is_ascii_upper (CHR 0xCC)"
  "\<not> is_ascii_upper (CHR 0x87)"
  by code_simp+

lemma to_lowercase_no_upper: "c \<in> set (to_lowercase s) \<Longrightarrow> \<not> is_ascii_upper c"
  by (induction s rule: to_lowercase.induct)
    (auto simp: lower_byte_not_upper not_upper_bytes split: if_splits)

lemma home_never_in_lowercase: "\<not> contains (to_lowercase s) ''$HOME''"
proof
  assume "contains (to_lowercase s) ''$HOME''"
  then have "CHR ''H'' \<in> set (to_lowercase s)"
    using set_mono_sublist [of "''$HOME''" "to_lowercase s"] by (simp add: contains_sublist)
  then show False using to_lowercase_no_upper [of "CHR ''H''" s] by (simp add: is_ascii_upper_def byte_def)
qed

text \<open>
  The \<open>$HOME\<close> marker of the deletion check never fires: it is searched in the lowered command,
  so the fallback grades a deletion Dangerous exactly when the command contains \<open>..\<close> or \<open>~/\<close>.
\<close>

theorem rm_home_marker_dead:
  "sa_level (rm_analysis command (to_lowercase command)) = Dangerous \<longleftrightarrow>
     contains (to_lowercase command) ''..'' \<or> contains (to_lowercase command) ''~/''"
  using home_never_in_lowercase [of command] by (simp add: rm_analysis_def Let_def)

text \<open>
  The table of safe commands is compared with the start of the line and not with its words: a
  command whose name merely begins with an entry (\<open>truncate\<close> begins with \<open>tr\<close>) is graded Safe.
\<close>

theorem safe_table_compares_characters:
  assumes "shlex ''truncate -s 0 data.db'' = Some [''truncate'', ''-s'', ''0'', ''data.db'']"
  shows "sa_level (analyze_command shlex ''truncate -s 0 data.db'') = Safe \<and>
     first_word ''truncate -s 0 data.db'' = Some ''truncate'' \<and> ''truncate'' \<notin> set SAFE_COMMANDS"
proof -
  let ?c = "''truncate -s 0 data.db''"
  have segs: "split_command_segments ?c = [?c]" by code_simp
  have words: "shell_words shlex ?c = [''truncate'', ''-s'', ''0'', ''data.db'']"
    using assms by (simp add: shell_words_def)
  have idx: "primary_token_index [''truncate'', ''-s'', ''0'', ''data.db''] = Some 0" by code_simp
  have pipes: "split_char (CHR ''|'') ?c = [?c]" by code_simp
  have d: "analyze_destructive_patterns shlex ?c = None"
    unfolding analyze_destructive_patterns_def primary_shell_command_is_def pipes_remote_content_to_shell_def
      segs by (simp add: words idx pipes primary_token_def nth_opt_def segment_analysis_def)
  have low: "to_lowercase ?c = ?c" "trim ?c = ?c" by code_simp+
  have plain: "\<not> (contains_char ?c (CHR 0x0A) \<or> contains_char ?c (CHR 0x0D))" "\<not> contains_char ?c (CHR 0x00)"
    "\<not> (contains ?c ''&&'' \<or> contains ?c ''||'' \<or> contains_char ?c (CHR '';''))"
    "\<not> (contains ?c [CHR 0x60] \<or> contains ?c ''$('')" by code_simp+
  have hits: "dangerous_pattern_hit ?c ?c = None" "privileged_hit ?c ?c ?c = None" "\<not> pipe_to_shell ?c"
    by code_simp+
  have "list_ex (\<lambda>safe_cmd. starts_with ?c safe_cmd) SAFE_COMMANDS" by code_simp
  then have safe: "is_safe_command shlex ?c" unfolding is_safe_command_def Let_def low by blast
  have "analyze_command shlex ?c = grade_command shlex ?c ?c ?c"
    unfolding analyze_command_def Let_def low d by (simp only: plain hits if_False option.case)
  then have "sa_level (analyze_command shlex ?c) = Safe" by (simp only: grade_command_def Let_def safe if_True analysis_levels)
  moreover have "first_word ?c = Some ''truncate'' \<and> ''truncate'' \<notin> set SAFE_COMMANDS" by code_simp
  ultimately show ?thesis by blast
qed

theorem safe_table_compares_characters_witness:
  "sa_level (analyze_command plain_shlex ''truncate -s 0 data.db'') = Safe \<and>
   first_word ''truncate -s 0 data.db'' = Some ''truncate'' \<and> ''truncate'' \<notin> set SAFE_COMMANDS"
  by (rule safe_table_compares_characters) code_simp

text \<open>
  Allow rules match whole words: a pattern matches a command when it equals the command's
  canonical prefix, or its words are a prefix of the command's words, ignoring ASCII case and spacing.
  A rule for \<open>git status\<close> therefore never admits \<open>git statusx\<close>.
\<close>

theorem prefix_allow_matches_on_words:
  "prefix_allow_matches pattern command \<longleftrightarrow>
     (if words_lower command = [] then words_lower pattern = []
      else classify_command (split_whitespace command) = join '' '' (words_lower pattern) \<or>
        words_lower pattern \<noteq> [] \<and> prefix (words_lower pattern) (words_lower command))"
  by (rule prefix_allow_words)

text \<open>
  Chains of known commands: the test reads the same segments as the destructive scan, and joining two
  chains passes exactly when both pass.
\<close>

definition known_head :: "string \<Rightarrow> bool" where
  "known_head seg \<longleftrightarrow>
     list_ex (\<lambda>prefix. eq_ignore_ascii_case
       (case List.find (\<lambda>tok. \<not> contains_char tok (CHR ''='') \<and> tok \<noteq> ''env'') (split_whitespace seg) of
          Some tok \<Rightarrow> tok | None \<Rightarrow> []) prefix) KNOWN_SAFE_CHAIN_PREFIXES"

lemma all_segments_known_safe_segments:
  "all_segments_known_safe c \<longleftrightarrow>
     split_command_segments c \<noteq> [] \<and> (\<forall>seg \<in> set (split_command_segments c). known_head seg)"
  by (simp add: all_segments_known_safe_def split_command_segments_def known_head_def Let_def list_all_iff)

text \<open>
  The known-chain test composes: a chain of two non-empty command lines is a known chain exactly
  when both lines are.
\<close>

theorem known_chain_composes:
  assumes "split_command_segments a \<noteq> []" and "split_command_segments b \<noteq> []"
    and "op \<in> {'' && '', '' || '', '' ; ''}"
  shows "all_segments_known_safe (a @ op @ b) \<longleftrightarrow> all_segments_known_safe a \<and> all_segments_known_safe b"
proof -
  have "split_command_segments (a @ op @ b) = split_command_segments a @ split_command_segments b"
    using assms(3) safetyseg.seg_and safetyseg.seg_or safetyseg.seg_semi by auto
  with assms(1,2) show ?thesis by (auto simp: all_segments_known_safe_segments)
qed

theorem known_chain_composes_witness:
  "all_segments_known_safe (''cargo build'' @ '' && '' @ ''git log'') \<longleftrightarrow>
     all_segments_known_safe ''cargo build'' \<and> all_segments_known_safe ''git log''"
proof (rule known_chain_composes)
  show "split_command_segments ''cargo build'' \<noteq> []" "split_command_segments ''git log'' \<noteq> []" by code_simp+
qed simp

end
