(* ===== verification/Approval.thy ===== *)
theory Approval
  imports Canonical_Action Command_Safety_Props
begin

text \<open>
  The vocabulary of approvals and the risk classifier: application modes
  (\<open>crates/tui/src/tui/app/types.rs\<close>), approval modes (\<open>tui/approval.rs\<close>), input provenance
  (\<open>core/ops.rs\<close>), the approval requirement of a tool (\<open>crates/tools/src/lib.rs\<close>), sandbox policies
  (\<open>sandbox/policy.rs\<close>) and the classification of tool calls (\<open>tui/approval/policy.rs\<close>).
  Constructors that several enums share are written with the name of their type.
\<close>

section \<open>Modes\<close>

datatype AppMode = Agent | Auto | Yolo | Plan | Operate

definition mode_CYCLE :: "AppMode list" where
  "mode_CYCLE = [AppMode.Plan, AppMode.Agent, AppMode.Operate]"

definition AppMode_parse :: "string \<Rightarrow> AppMode option" where
  "AppMode_parse value =
     (let v = to_ascii_lowercase (trim value)
      in if v \<in> set [''agent'', ''act'', ''auto'', ''1''] then Some AppMode.Agent
         else if v \<in> set [''plan'', ''2''] then Some AppMode.Plan
         else if v \<in> set [''operate'', ''operation'', ''ops'', ''3''] then Some AppMode.Operate
         else if v \<in> set [''yolo'', ''4'', ''bypass'', ''bypass-permissions'', ''bypasspermissions'']
         then Some AppMode.Yolo
         else None)"

definition AppMode_from_setting :: "string \<Rightarrow> AppMode" where
  "AppMode_from_setting value =
     (let v = to_ascii_lowercase (trim value)
      in if v \<in> set [''multitask'', ''multi'', ''5''] then AppMode.Operate
         else (case AppMode_parse v of Some m \<Rightarrow> m | None \<Rightarrow> AppMode.Agent))"

fun AppMode_as_setting :: "AppMode \<Rightarrow> string" where
  "AppMode_as_setting AppMode.Agent = ''agent''"
| "AppMode_as_setting AppMode.Auto = ''agent''"
| "AppMode_as_setting AppMode.Yolo = ''agent''"
| "AppMode_as_setting AppMode.Plan = ''plan''"
| "AppMode_as_setting AppMode.Operate = ''operate''"

fun AppMode_label :: "AppMode \<Rightarrow> string" where
  "AppMode_label AppMode.Agent = ''ACT''"
| "AppMode_label AppMode.Auto = ''ACT''"
| "AppMode_label AppMode.Yolo = ''ACT''"
| "AppMode_label AppMode.Plan = ''PLAN''"
| "AppMode_label AppMode.Operate = ''OPERATE''"

fun AppMode_display_name :: "AppMode \<Rightarrow> string" where
  "AppMode_display_name AppMode.Agent = ''Act''"
| "AppMode_display_name AppMode.Auto = ''Act''"
| "AppMode_display_name AppMode.Yolo = ''Act''"
| "AppMode_display_name AppMode.Plan = ''Plan''"
| "AppMode_display_name AppMode.Operate = ''Operate''"

fun AppMode_number :: "AppMode \<Rightarrow> char" where
  "AppMode_number AppMode.Plan = CHR ''2''"
| "AppMode_number AppMode.Operate = CHR ''3''"
| "AppMode_number _ = CHR ''1''"

definition uses_agent_baseline :: "AppMode \<Rightarrow> bool" where
  "uses_agent_baseline m = (m \<in> {AppMode.Agent, AppMode.Auto, AppMode.Operate})"

definition mode_delegation_launch_floor :: "AppMode \<Rightarrow> nat" where
  "mode_delegation_launch_floor m = (if m = AppMode.Operate then 4 else 1)"

datatype ApprovalMode = Auto | Bypass | Suggest | Never

definition PERMISSION_CYCLE :: "ApprovalMode list" where
  "PERMISSION_CYCLE = [ApprovalMode.Suggest, ApprovalMode.Auto, ApprovalMode.Bypass]"

fun ApprovalMode_label :: "ApprovalMode \<Rightarrow> string" where
  "ApprovalMode_label ApprovalMode.Auto = ''AUTO''"
| "ApprovalMode_label ApprovalMode.Bypass = ''BYPASS''"
| "ApprovalMode_label ApprovalMode.Suggest = ''SUGGEST''"
| "ApprovalMode_label ApprovalMode.Never = ''NEVER''"

definition ApprovalMode_from_config_value :: "string \<Rightarrow> ApprovalMode option" where
  "ApprovalMode_from_config_value value =
     (let v = to_ascii_lowercase (trim value)
      in if v \<in> set [''auto'', ''auto-review'', ''auto_review''] then Some ApprovalMode.Auto
         else if v \<in> set [''bypass'', ''yolo'', ''dontask'', ''dont_ask'', ''bypass-permissions'',
             ''bypasspermissions'', ''full-access'', ''full''] then Some ApprovalMode.Bypass
         else if v \<in> set [''suggest'', ''suggested'', ''on-request'', ''untrusted'', ''ask'']
         then Some ApprovalMode.Suggest
         else if v \<in> set [''never'', ''deny'', ''denied''] then Some ApprovalMode.Never
         else None)"

definition cycle_permission_next :: "ApprovalMode \<Rightarrow> ApprovalMode" where
  "cycle_permission_next mode =
     (case position (\<lambda>m. m = mode) PERMISSION_CYCLE of
        None \<Rightarrow> ApprovalMode.Suggest
      | Some index \<Rightarrow> PERMISSION_CYCLE ! ((index + 1) mod length PERMISSION_CYCLE))"

fun permission_chip_label :: "ApprovalMode \<Rightarrow> string" where
  "permission_chip_label ApprovalMode.Suggest = ''Ask''"
| "permission_chip_label ApprovalMode.Auto = ''Auto-Review''"
| "permission_chip_label ApprovalMode.Bypass = ''Full Access''"
| "permission_chip_label ApprovalMode.Never = ''Never''"

datatype UserInputProvenance =
  ExternalUser | Runtime | SubAgentHandoff | ImportedTranscript | MemoryRecall | AssistantGenerated

fun provenance_as_str :: "UserInputProvenance \<Rightarrow> string" where
  "provenance_as_str ExternalUser = ''external_user''"
| "provenance_as_str Runtime = ''runtime''"
| "provenance_as_str SubAgentHandoff = ''subagent_handoff''"
| "provenance_as_str ImportedTranscript = ''imported_transcript''"
| "provenance_as_str MemoryRecall = ''memory_recall''"
| "provenance_as_str AssistantGenerated = ''assistant_generated''"

definition can_authorize_work :: "UserInputProvenance \<Rightarrow> bool" where
  "can_authorize_work p = (p = ExternalUser)"

datatype ApprovalRequirement = Auto | Suggest | Required

section \<open>Sandbox policies\<close>

datatype SandboxPolicy =
  DangerFullAccess
| ReadOnly
| ExternalSandbox (external_network: bool)
| WorkspaceWrite (writable_roots: "string list") (workspace_network: bool) (exclude_tmpdir: bool)
    (exclude_slash_tmp: bool)

definition SandboxPolicy_default :: SandboxPolicy where
  "SandboxPolicy_default = WorkspaceWrite [] False False False"

definition workspace_with_network :: SandboxPolicy where
  "workspace_with_network = WorkspaceWrite [] True False False"

definition workspace_with_roots :: "string list \<Rightarrow> bool \<Rightarrow> SandboxPolicy" where
  "workspace_with_roots roots network = WorkspaceWrite roots network False False"

fun has_full_disk_write_access :: "SandboxPolicy \<Rightarrow> bool" where
  "has_full_disk_write_access DangerFullAccess = True"
| "has_full_disk_write_access (ExternalSandbox _) = True"
| "has_full_disk_write_access _ = False"

fun has_network_access :: "SandboxPolicy \<Rightarrow> bool" where
  "has_network_access DangerFullAccess = True"
| "has_network_access ReadOnly = False"
| "has_network_access (ExternalSandbox network_access) = network_access"
| "has_network_access (WorkspaceWrite _ network_access _ _) = network_access"

fun should_sandbox :: "SandboxPolicy \<Rightarrow> bool" where
  "should_sandbox DangerFullAccess = False"
| "should_sandbox (ExternalSandbox _) = False"
| "should_sandbox _ = True"

datatype SandboxPolicyBehavior = Sandboxed SandboxPolicy | RequiresApproval | Blocked

fun map_safety_level_to_behavior :: "SafetyLevel \<Rightarrow> SandboxPolicy \<Rightarrow> SandboxPolicyBehavior" where
  "map_safety_level_to_behavior SafetyLevel.Safe p = Sandboxed p"
| "map_safety_level_to_behavior SafetyLevel.WorkspaceSafe p = Sandboxed p"
| "map_safety_level_to_behavior SafetyLevel.RequiresApproval p = SandboxPolicyBehavior.RequiresApproval"
| "map_safety_level_to_behavior SafetyLevel.Dangerous p = Blocked"

section \<open>Tool categories and risk\<close>

datatype ToolCategory = Safe | FileWrite | Shell | Network | McpRead | McpAction | Agent | Unknown

datatype RiskLevel = Benign | Destructive

datatype ApprovalStakes = Routine | Elevated | Critical

definition SAFE_TOOL_NAMES :: "string list" where
  "SAFE_TOOL_NAMES = [''read_file'', ''list_dir'', ''work_update'', ''todo_write'', ''todo_read'',
     ''checklist_write'', ''note'', ''update_plan'', ''search'', ''file_search'', ''grep_files'',
     ''git_status'', ''git_diff'', ''git_log'', ''git_show'', ''git_blame'', ''project'', ''diagnostics'']"

definition get_tool_category :: "string \<Rightarrow> ToolCategory" where
  "get_tool_category name =
     (if name = ''agent'' \<or> name = ''workflow'' then ToolCategory.Agent
      else if name \<in> set [''write_file'', ''edit_file'', ''apply_patch''] then ToolCategory.FileWrite
      else if name \<in> set [''web_run'', ''web_search'', ''fetch_url'', ''wait_for_dev_server'']
      then ToolCategory.Network
      else if name \<in> set [''exec_shell'', ''task_shell_start'', ''task_shell_wait'', ''exec_shell_wait'',
          ''exec_shell_interact'', ''exec_shell_cancel'', ''exec_wait'', ''exec_interact'']
      then ToolCategory.Shell
      else if starts_with name ''list_mcp_'' \<or> starts_with name ''read_mcp_'' \<or> starts_with name ''get_mcp_''
      then ToolCategory.McpRead
      else if starts_with name ''mcp_'' then ToolCategory.McpAction
      else if name \<in> set SAFE_TOOL_NAMES \<or> starts_with name ''read_'' \<or> starts_with name ''list_'' \<or>
          starts_with name ''get_'' then ToolCategory.Safe
      else if name = ''start_mcp_server'' then ToolCategory.McpAction
      else ToolCategory.Unknown)"

definition get_tool_category_for_call :: "'v json_api \<Rightarrow> string \<Rightarrow> 'v \<Rightarrow> ToolCategory" where
  "get_tool_category_for_call api name params = get_tool_category (canonical_action_alias api name params)"

definition nonempty_array :: "'v json_api \<Rightarrow> 'v \<Rightarrow> string \<Rightarrow> bool" where
  "nonempty_array api params key =
     (case Option.bind (json_get api params key) (json_as_array api) of
        None \<Rightarrow> False | Some a \<Rightarrow> a \<noteq> [])"

text \<open>
  The risk of a call. \<open>None\<close> is the value of a call whose read-only test does not return; the
  theorems show that this does not happen.
\<close>

definition classify_risk ::
    "(string \<Rightarrow> string list option) \<Rightarrow> 'v json_api \<Rightarrow> string \<Rightarrow> ToolCategory \<Rightarrow> 'v \<Rightarrow> RiskLevel option" where
  "classify_risk shlex api tool_name category params =
     (let tool_name = canonical_action_alias api tool_name params
      in case category of
           ToolCategory.Safe \<Rightarrow> Some Benign
         | ToolCategory.McpRead \<Rightarrow> Some Benign
         | ToolCategory.Network \<Rightarrow>
             if tool_name \<in> set [''web_search'', ''wait_for_dev_server''] then Some Benign
             else if tool_name = ''web_run''
             then (if nonempty_array api params ''open'' \<or> nonempty_array api params ''click''
                   then Some Destructive else Some Benign)
             else Some Destructive
         | ToolCategory.Shell \<Rightarrow>
             (case get_str api params ''command'' of
                None \<Rightarrow> Some Destructive
              | Some cmd \<Rightarrow>
                  map_option (\<lambda>readonly. if readonly then Benign else Destructive)
                    (is_parallel_readonly_command shlex cmd))
         | ToolCategory.Agent \<Rightarrow>
             (case get_str api params ''action'' of
                None \<Rightarrow> Some Destructive
              | Some action \<Rightarrow>
                  if action \<in> set [''status'', ''peek'', ''list''] then Some Benign else Some Destructive)
         | ToolCategory.FileWrite \<Rightarrow> Some Destructive
         | ToolCategory.McpAction \<Rightarrow> Some Destructive
         | ToolCategory.Unknown \<Rightarrow> Some Destructive)"

end
