(* ===== verification/Auto_Review.thy ===== *)
theory Auto_Review
  imports Approval
begin

text \<open>
  The deterministic auto-review policy (\<open>crates/tui/src/tui/auto_review.rs\<close>): what a tool call does
  (\<open>ToolActionKind\<close>), the recognisers of publish-like and disk-destroying shell commands, and the
  evaluation of block rules, the safety floor, allow rules and the fallback. \<open>classify_stakes\<close> of
  \<open>tui/approval/policy.rs\<close> stands here because it reads the action kind.
\<close>

section \<open>Actions and decisions\<close>

datatype AutoReviewAction = Allow | AskUser | HoldForReview | Block

fun AutoReviewAction_as_str :: "AutoReviewAction \<Rightarrow> string" where
  "AutoReviewAction_as_str AutoReviewAction.Allow = ''allow''"
| "AutoReviewAction_as_str AskUser = ''ask_user''"
| "AutoReviewAction_as_str HoldForReview = ''hold_for_review''"
| "AutoReviewAction_as_str Block = ''block''"

record AutoReviewDecision =
  ard_action :: AutoReviewAction
  ard_reason :: string
  ard_rule_id :: "string option"

definition AutoReviewDecision_new :: "AutoReviewAction \<Rightarrow> string \<Rightarrow> AutoReviewDecision" where
  "AutoReviewDecision_new action reason = \<lparr>ard_action = action, ard_reason = reason, ard_rule_id = None\<rparr>"

definition with_rule :: "AutoReviewDecision \<Rightarrow> string \<Rightarrow> AutoReviewDecision" where
  "with_rule d rule_id = d\<lparr>ard_rule_id := Some rule_id\<rparr>"

datatype ToolActionKind =
  Read | Write | Shell | Network | Git | McpRead | McpAction | Browser | Secret | Publish
| Destructive | Agent | Unknown

fun ToolActionKind_as_str :: "ToolActionKind \<Rightarrow> string" where
  "ToolActionKind_as_str ToolActionKind.Read = ''read''"
| "ToolActionKind_as_str ToolActionKind.Write = ''write''"
| "ToolActionKind_as_str ToolActionKind.Shell = ''shell''"
| "ToolActionKind_as_str ToolActionKind.Network = ''network''"
| "ToolActionKind_as_str ToolActionKind.Git = ''git''"
| "ToolActionKind_as_str ToolActionKind.McpRead = ''mcp_read''"
| "ToolActionKind_as_str ToolActionKind.McpAction = ''mcp_action''"
| "ToolActionKind_as_str ToolActionKind.Browser = ''browser''"
| "ToolActionKind_as_str ToolActionKind.Secret = ''secret''"
| "ToolActionKind_as_str ToolActionKind.Publish = ''publish''"
| "ToolActionKind_as_str ToolActionKind.Destructive = ''destructive''"
| "ToolActionKind_as_str ToolActionKind.Agent = ''agent''"
| "ToolActionKind_as_str ToolActionKind.Unknown = ''unknown''"

section \<open>Shell tokens\<close>

definition contains_any :: "string \<Rightarrow> string list \<Rightarrow> bool" where
  "contains_any haystack needles = list_ex (\<lambda>needle. contains haystack needle) needles"

definition shell_token_trim :: "string \<Rightarrow> string" where
  "shell_token_trim token = trim_matches [CHR 0x27, CHR ''\"''] token"

definition shell_token_eq :: "string \<Rightarrow> string \<Rightarrow> bool" where
  "shell_token_eq token expected = eq_ignore_ascii_case (shell_token_trim token) expected"

definition split_shell_segments_for_review :: "string \<Rightarrow> string list" where
  "split_shell_segments_for_review command =
     filter (\<lambda>segment. segment \<noteq> [])
       (map trim
         (lines
           (replace_chars [CHR '';''] (CHR 0x0A)
             (replace2 (CHR ''|'') (CHR ''|'') (CHR 0x0A)
               (replace2 (CHR ''&'') (CHR ''&'') (CHR 0x0A) command)))))"

definition unquote_token :: "string \<Rightarrow> string" where
  "unquote_token token =
     (let t = trim token;
          quoted_by = (\<lambda>q. 2 \<le> length t \<and> starts_with t [q] \<and> ends_with t [q])
      in if quoted_by (CHR ''\"'') \<or> quoted_by (CHR 0x27) then butlast (drop 1 t) else t)"

text \<open>\<open>raw.find('=')\<close> at a positive index with no slash in front of it.\<close>

definition env_assignment_like :: "string \<Rightarrow> bool" where
  "env_assignment_like raw =
     (case split_once (CHR ''='') raw of
        None \<Rightarrow> False
      | Some (name, _) \<Rightarrow> 0 < length name \<and> \<not> contains_char name (CHR ''/''))"

fun trim_dot_slash :: "string \<Rightarrow> string" where
  "trim_dot_slash (a # b # s) =
     (if a = CHR ''.'' \<and> b = CHR ''/'' then trim_dot_slash s else a # b # s)"
| "trim_dot_slash s = s"

definition base_name :: "string \<Rightarrow> string" where
  "base_name raw = last (split_char (CHR ''/'') (trim_dot_slash raw))"

definition WRAPPERS :: "string list" where
  "WRAPPERS = [''sudo'', ''env'', ''nohup'', ''time'', ''command'', ''nice'', ''ionice'', ''doas'',
     ''stdbuf'', ''timeout'', ''setsid'']"

definition wrapper_argument :: "string \<Rightarrow> bool" where
  "wrapper_argument token =
     (let f = unquote_token token in starts_with f ''-'' \<or> env_assignment_like f)"

definition skip_duration :: "string list \<Rightarrow> string list" where
  "skip_duration tokens =
     (case tokens of
        [] \<Rightarrow> []
      | t # rest \<Rightarrow>
          (case unquote_token t of
             [] \<Rightarrow> tokens
           | c # _ \<Rightarrow> if is_ascii_digit c then rest else tokens))"

lemma skip_duration_length: "length (skip_duration ts) \<le> length ts"
  by (auto simp: skip_duration_def split: list.splits)

function effective_command_tokens :: "string list \<Rightarrow> string list" where
  "effective_command_tokens [] = []"
| "effective_command_tokens (token # rest) =
     (let raw = unquote_token token
      in if env_assignment_like raw then effective_command_tokens rest
         else if base_name raw \<in> set WRAPPERS
         then
           (let after_flags = dropWhile wrapper_argument rest
            in effective_command_tokens
                 (if base_name raw = ''timeout'' then skip_duration after_flags else after_flags))
         else token # rest)"
  by pat_completeness auto
termination
proof (relation "measure length")
  fix token :: string and rest x xa
  assume "xa = dropWhile wrapper_argument rest"
  then have "length (if base_name x = ''timeout'' then skip_duration xa else xa) \<le> length rest"
    using skip_duration_length [of xa] length_dropWhile_le [of wrapper_argument rest] by auto
  then show "((if base_name x = ''timeout'' then skip_duration xa else xa), token # rest) \<in> measure length"
    by simp
qed simp_all

text \<open>The flag loop of a forced recursive deletion of an absolute path.\<close>

fun rm_system_scan :: "string list \<Rightarrow> bool \<Rightarrow> bool \<Rightarrow> bool \<Rightarrow> bool" where
  "rm_system_scan [] recursive force abs_system_target = (recursive \<and> force \<and> abs_system_target)"
| "rm_system_scan (t # ts) recursive force abs_system_target =
     (let token = unquote_token t
      in if starts_with token ''--''
         then rm_system_scan ts (recursive \<or> token = ''--recursive'' \<or> token = ''--dir'')
                (force \<or> token = ''--force'') abs_system_target
         else if starts_with token ''-''
         then rm_system_scan ts
                (recursive \<or> contains_char (drop 1 token) (CHR ''r'') \<or> contains_char (drop 1 token) (CHR ''R''))
                (force \<or> contains_char (drop 1 token) (CHR ''f'')) abs_system_target
         else rm_system_scan ts recursive force (abs_system_target \<or> starts_with token ''/''))"

definition stage_is_device_or_filesystem_destroyer :: "string \<Rightarrow> bool" where
  "stage_is_device_or_filesystem_destroyer stage =
     (case effective_command_tokens (split_whitespace stage) of
        [] \<Rightarrow> False
      | first # args \<Rightarrow>
          (let base = base_name (unquote_token first)
           in if base \<in> set [''mkfs'', ''wipefs'', ''shred'', ''blkdiscard''] \<or> starts_with base ''mkfs.''
              then True
              else if base = ''dd''
              then list_ex (\<lambda>t. case strip_prefix (unquote_token t) ''of='' of
                       None \<Rightarrow> False
                     | Some dest \<Rightarrow> starts_with (unquote_token dest) ''/dev/'') (first # args)
              else if base = ''rm'' then rm_system_scan args False False False
              else False))"

definition segment_is_device_or_filesystem_destroyer :: "string \<Rightarrow> bool" where
  "segment_is_device_or_filesystem_destroyer segment =
     list_ex stage_is_device_or_filesystem_destroyer (split_char (CHR ''|'') segment)"

section \<open>Publishing with git\<close>

definition git_global_option_takes_value :: "string \<Rightarrow> bool" where
  "git_global_option_takes_value token =
     (token \<in> set [''-C'', ''-c'', ''--git-dir'', ''--work-tree'', ''--namespace'', ''--config-env'', ''--exec-path''])"

definition git_global_option_has_value :: "string \<Rightarrow> bool" where
  "git_global_option_has_value token =
     (starts_with token ''--git-dir='' \<or> starts_with token ''--work-tree='' \<or>
      starts_with token ''--namespace='' \<or> starts_with token ''--config-env='' \<or>
      starts_with token ''--exec-path='')"

fun git_option_scan :: "nat \<Rightarrow> string list \<Rightarrow> nat option" where
  "git_option_scan index [] = None"
| "git_option_scan index [t] =
     (let token = shell_token_trim t
      in if git_global_option_takes_value token then None
         else if git_global_option_has_value token \<or> starts_with token ''-'' then None
         else Some index)"
| "git_option_scan index (t # u # ts) =
     (let token = shell_token_trim t
      in if git_global_option_takes_value token then git_option_scan (index + 2) ts
         else if git_global_option_has_value token \<or> starts_with token ''-''
         then git_option_scan (index + 1) (u # ts)
         else Some index)"

definition git_subcommand_index :: "string list \<Rightarrow> nat option" where
  "git_subcommand_index tokens =
     (case tokens of
        [] \<Rightarrow> None
      | first # rest \<Rightarrow> if \<not> shell_token_eq first ''git'' then None else git_option_scan 1 rest)"

text \<open>The index of the subcommand when it is the expected one (\<open>filter\<close> on the option).\<close>

definition git_subcommand_at :: "string list \<Rightarrow> string \<Rightarrow> nat option" where
  "git_subcommand_at tokens expected =
     (case git_subcommand_index tokens of
        None \<Rightarrow> None
      | Some index \<Rightarrow>
          (case nth_opt tokens index of
             None \<Rightarrow> None
           | Some token \<Rightarrow> if shell_token_eq token expected then Some index else None))"

definition git_push_refspec_is_protected :: "string \<Rightarrow> bool" where
  "git_push_refspec_is_protected refspec =
     (if starts_with refspec ''+'' \<or> contains_char refspec (CHR ''*'') then True
      else
        (let (src, dst) = (case split_once (CHR '':'') refspec of
               Some (src, dst) \<Rightarrow> (src, dst) | None \<Rightarrow> (refspec, refspec))
         in if src = [] \<or> dst = [] \<or> contains_char dst (CHR '':'') then True
            else
              (let dst = (case strip_prefix dst ''refs/heads/'' of Some d \<Rightarrow> d | None \<Rightarrow> dst)
               in if starts_with dst ''refs/'' then True
                  else
                    (let lower = to_ascii_lowercase dst
                     in if lower \<in> set [''main'', ''master'', ''head''] then True
                        else if starts_with lower ''release'' then True
                        else
                          (case lower of
                             a # b # _ \<Rightarrow> a = CHR ''v'' \<and> is_ascii_digit b
                           | _ \<Rightarrow> False)))))"

text \<open>
  The argument loop of \<open>git push\<close>: \<open>None\<close> where the source returns early because of a flag it does
  not recognise as routine, otherwise the positional arguments.
\<close>

fun push_positionals :: "string list \<Rightarrow> string list option" where
  "push_positionals [] = Some []"
| "push_positionals (raw # rest) =
     (let token = shell_token_trim raw
      in if starts_with token ''--''
         then (if hd (split_char (CHR ''='') (drop 2 token)) \<in>
                   set [''set-upstream'', ''verbose'', ''quiet'', ''porcelain'', ''no-verify'', ''dry-run'']
               then push_positionals rest else None)
         else if starts_with token ''-''
         then (if drop 1 token = [] \<or>
                   \<not> list_all (\<lambda>flag. flag \<in> set [CHR ''u'', CHR ''v'', CHR ''q'', CHR ''n'']) (drop 1 token)
               then None else push_positionals rest)
         else map_option (\<lambda>ps. token # ps) (push_positionals rest))"

definition git_push_tokens_are_publish_like :: "string list \<Rightarrow> bool" where
  "git_push_tokens_are_publish_like tokens =
     (case git_subcommand_at tokens ''push'' of
        None \<Rightarrow> True
      | Some push_index \<Rightarrow>
          (case push_positionals (drop (push_index + 1) tokens) of
             None \<Rightarrow> True
           | Some positionals \<Rightarrow>
               if length positionals < 2 then True
               else list_ex git_push_refspec_is_protected (drop 1 positionals)))"

definition tag_list_option :: "string \<Rightarrow> bool" where
  "tag_list_option token =
     (starts_with token ''--list='' \<or> starts_with token ''-n'' \<or> starts_with token ''--contains='' \<or>
      starts_with token ''--points-at='' \<or> starts_with token ''--merged='' \<or>
      starts_with token ''--no-merged='' \<or> starts_with token ''--sort='' \<or>
      starts_with token ''--format='' \<or> starts_with token ''--column='')"

function tag_scan :: "string list \<Rightarrow> bool \<Rightarrow> bool \<Rightarrow> bool \<Rightarrow> bool" where
  "tag_scan [] list_like verify_only has_positional = (has_positional \<and> \<not> list_like \<and> \<not> verify_only)"
| "tag_scan (t # ts) list_like verify_only has_positional =
     (let token = shell_token_trim t
      in if token \<in> set [''-d'', ''--delete'', ''-a'', ''--annotate'', ''-s'', ''--sign'', ''-f'', ''--force'',
             ''-u'', ''--local-user'', ''-m'', ''--message'', ''-F'', ''--file''] then True
         else if token \<in> set [''--list'', ''-l''] then tag_scan ts True verify_only has_positional
         else if token \<in> set [''-n'', ''--verify'', ''-v''] then tag_scan ts list_like True has_positional
         else if token \<in> set [''--contains'', ''--points-at'', ''--merged'', ''--no-merged'', ''--sort'',
             ''--format'', ''--column''] then tag_scan (drop 1 ts) True verify_only has_positional
         else if tag_list_option token then tag_scan ts True verify_only has_positional
         else if starts_with token ''-'' then tag_scan ts list_like verify_only has_positional
         else tag_scan ts list_like verify_only True)"
  by pat_completeness auto
termination by (relation "measure (\<lambda>(ts, _). length ts)") auto

definition git_tag_tokens_are_publish_like :: "string list \<Rightarrow> bool" where
  "git_tag_tokens_are_publish_like tokens =
     (case git_subcommand_at tokens ''tag'' of
        None \<Rightarrow> False
      | Some tag_index \<Rightarrow> tag_scan (drop (tag_index + 1) tokens) False False False)"

definition shell_tokens_are_publish_like :: "string list \<Rightarrow> bool" where
  "shell_tokens_are_publish_like tokens =
     (if git_tag_tokens_are_publish_like tokens then True
      else
        (let canonical = classify_command tokens
         in if canonical = ''git push'' then git_push_tokens_are_publish_like tokens
            else canonical \<in> set [''gh release'', ''npm publish'', ''cargo publish'']))"

section \<open>The kind of a tool call\<close>

definition command_param :: "'v json_api \<Rightarrow> 'v \<Rightarrow> string option" where
  "command_param api params =
     Option.bind (option_or (json_get api params ''command'') (json_get api params ''cmd''))
       (json_as_str api)"

definition shell_params_are_publish_like :: "'v json_api \<Rightarrow> 'v \<Rightarrow> bool" where
  "shell_params_are_publish_like api params =
     (case command_param api params of
        None \<Rightarrow> False
      | Some command \<Rightarrow>
          list_ex shell_tokens_are_publish_like
            (map (\<lambda>segment. filter (\<lambda>token. trim token \<noteq> []) (split_whitespace segment))
              (split_shell_segments_for_review command)))"

definition shell_params_are_destructive_like ::
    "(string \<Rightarrow> string list option) \<Rightarrow> 'v json_api \<Rightarrow> 'v \<Rightarrow> bool" where
  "shell_params_are_destructive_like shlex api params =
     (case command_param api params of
        None \<Rightarrow> False
      | Some command \<Rightarrow>
          list_ex (\<lambda>segment.
            sa_level (analyze_command shlex segment) = SafetyLevel.Dangerous \<or>
            segment_is_device_or_filesystem_destroyer segment)
            (split_shell_segments_for_review command))"

fun category_kind :: "ToolCategory \<Rightarrow> ToolActionKind" where
  "category_kind ToolCategory.Safe = ToolActionKind.Read"
| "category_kind ToolCategory.FileWrite = ToolActionKind.Write"
| "category_kind ToolCategory.Shell = ToolActionKind.Shell"
| "category_kind ToolCategory.Network = ToolActionKind.Network"
| "category_kind ToolCategory.McpRead = ToolActionKind.McpRead"
| "category_kind ToolCategory.McpAction = ToolActionKind.McpAction"
| "category_kind ToolCategory.Agent = ToolActionKind.Agent"
| "category_kind ToolCategory.Unknown = ToolActionKind.Unknown"

definition kind_from_tool_call ::
    "(string \<Rightarrow> string list option) \<Rightarrow> 'v json_api \<Rightarrow> string \<Rightarrow> 'v \<Rightarrow> ToolCategory \<Rightarrow> ToolActionKind" where
  "kind_from_tool_call shlex api tool_name params category =
     (let semantic = to_ascii_lowercase (canonical_action_alias api tool_name params);
          normalized =
            (if semantic \<in> set [''automation'', ''tasks'', ''github'', ''rlm'']
             then (case get_str api params ''action'' of
                     Some action \<Rightarrow> semantic @ ''_'' @ action
                   | None \<Rightarrow> semantic)
             else semantic)
      in if contains_any normalized [''push'', ''publish'', ''release'', ''tag''] then ToolActionKind.Publish
         else if contains_any normalized [''secret'', ''token'', ''credential'', ''password'']
         then ToolActionKind.Secret
         else if contains_any normalized [''delete'', ''destroy'', ''remove'', ''drop'', ''reset'']
         then ToolActionKind.Destructive
         else if contains_any normalized [''git_''] then ToolActionKind.Git
         else if contains_any normalized [''browser'', ''chrome'', ''playwright''] then ToolActionKind.Browser
         else if category = ToolCategory.Shell \<and> shell_params_are_publish_like api params
         then ToolActionKind.Publish
         else if category = ToolCategory.Shell \<and> shell_params_are_destructive_like shlex api params
         then ToolActionKind.Destructive
         else category_kind category)"

definition kind_from_tool_name ::
    "(string \<Rightarrow> string list option) \<Rightarrow> 'v json_api \<Rightarrow> string \<Rightarrow> ToolCategory \<Rightarrow> ToolActionKind" where
  "kind_from_tool_name shlex api tool_name category =
     kind_from_tool_call shlex api tool_name (json_null api) category"

definition classify_stakes ::
    "(string \<Rightarrow> string list option) \<Rightarrow> 'v json_api \<Rightarrow> string \<Rightarrow> ToolCategory \<Rightarrow> RiskLevel \<Rightarrow> 'v \<Rightarrow> ApprovalStakes" where
  "classify_stakes shlex api tool_name category risk params =
     (if risk = RiskLevel.Benign then Routine
      else
        (case kind_from_tool_call shlex api (canonical_action_alias api tool_name params) params category of
           ToolActionKind.Publish \<Rightarrow> Critical
         | ToolActionKind.Destructive \<Rightarrow> Critical
         | ToolActionKind.Secret \<Rightarrow> Critical
         | _ \<Rightarrow> Elevated))"

section \<open>Rules and evaluation\<close>

datatype RunOrigin = Interactive | Headless | Background

fun RunOrigin_as_str :: "RunOrigin \<Rightarrow> string" where
  "RunOrigin_as_str Interactive = ''interactive''"
| "RunOrigin_as_str Headless = ''headless''"
| "RunOrigin_as_str Background = ''background''"

record AutoReviewContext =
  arc_tool_name :: string
  arc_category :: ToolCategory
  arc_risk :: RiskLevel
  arc_action_kind :: ToolActionKind
  arc_run_origin :: RunOrigin
  arc_approval_mode :: ApprovalMode
  arc_user_intent :: "string option"
  arc_workspace_trusted :: bool
  arc_dirty_worktree :: bool

definition context_from_tool_call ::
    "(string \<Rightarrow> string list option) \<Rightarrow> 'v json_api \<Rightarrow> string \<Rightarrow> 'v \<Rightarrow> RunOrigin \<Rightarrow> ApprovalMode \<Rightarrow>
     string option \<Rightarrow> bool \<Rightarrow> bool \<Rightarrow> AutoReviewContext option" where
  "context_from_tool_call shlex api tool_name params run_origin approval_mode user_intent
      workspace_trusted dirty_worktree =
     (let category = get_tool_category_for_call api tool_name params
      in map_option (\<lambda>risk.
           \<lparr>arc_tool_name = tool_name, arc_category = category, arc_risk = risk,
            arc_action_kind = kind_from_tool_call shlex api tool_name params category,
            arc_run_origin = run_origin, arc_approval_mode = approval_mode,
            arc_user_intent = user_intent, arc_workspace_trusted = workspace_trusted,
            arc_dirty_worktree = dirty_worktree\<rparr>)
           (classify_risk shlex api tool_name category params))"

record AutoReviewRule =
  arr_id :: string
  arr_action :: AutoReviewAction
  arr_tool_name :: "string option"
  arr_action_kind :: "ToolActionKind option"
  arr_text_contains :: "string option"
  arr_reason :: string

definition AutoReviewRule_block :: "string \<Rightarrow> string \<Rightarrow> AutoReviewRule" where
  "AutoReviewRule_block i reason =
     \<lparr>arr_id = i, arr_action = Block, arr_tool_name = None, arr_action_kind = None,
      arr_text_contains = None, arr_reason = reason\<rparr>"

definition AutoReviewRule_allow :: "string \<Rightarrow> string \<Rightarrow> AutoReviewRule" where
  "AutoReviewRule_allow i reason =
     \<lparr>arr_id = i, arr_action = AutoReviewAction.Allow, arr_tool_name = None, arr_action_kind = None,
      arr_text_contains = None, arr_reason = reason\<rparr>"

definition rule_tool_name :: "AutoReviewRule \<Rightarrow> string \<Rightarrow> AutoReviewRule" where
  "rule_tool_name r tool_name = r\<lparr>arr_tool_name := Some tool_name\<rparr>"

definition rule_action_kind :: "AutoReviewRule \<Rightarrow> ToolActionKind \<Rightarrow> AutoReviewRule" where
  "rule_action_kind r action_kind = r\<lparr>arr_action_kind := Some action_kind\<rparr>"

definition rule_text_contains :: "AutoReviewRule \<Rightarrow> string \<Rightarrow> AutoReviewRule" where
  "rule_text_contains r text = r\<lparr>arr_text_contains := Some text\<rparr>"

definition rule_matches :: "AutoReviewRule \<Rightarrow> AutoReviewContext \<Rightarrow> bool" where
  "rule_matches rule ctx =
     ((case arr_tool_name rule of None \<Rightarrow> True | Some t \<Rightarrow> t = arc_tool_name ctx) \<and>
      (case arr_action_kind rule of None \<Rightarrow> True | Some k \<Rightarrow> k = arc_action_kind ctx) \<and>
      (case arr_text_contains rule of
         None \<Rightarrow> True
       | Some text \<Rightarrow>
           (case arc_user_intent ctx of
              None \<Rightarrow> False
            | Some user_intent \<Rightarrow> contains (to_ascii_lowercase user_intent) (to_ascii_lowercase text))))"

record AutoReviewPolicy =
  arp_allow_rules :: "AutoReviewRule list"
  arp_block_rules :: "AutoReviewRule list"
  arp_natural_language_guidance :: "string option"

definition safety_floor :: "AutoReviewContext \<Rightarrow> AutoReviewDecision option" where
  "safety_floor ctx =
     (if arc_action_kind ctx = ToolActionKind.Publish \<and> arc_approval_mode ctx \<noteq> ApprovalMode.Bypass
      then Some (AutoReviewDecision_new HoldForReview ''publish-like action requires durable review'')
      else if (arc_action_kind ctx = ToolActionKind.Destructive \<or> arc_action_kind ctx = ToolActionKind.Secret) \<and>
          (arc_run_origin ctx = Background \<or> arc_run_origin ctx = Headless)
      then Some (AutoReviewDecision_new HoldForReview
             ''destructive background/headless action requires durable review'')
      else None)"

definition deterministic_fallback :: "AutoReviewContext \<Rightarrow> AutoReviewDecision" where
  "deterministic_fallback ctx =
     (if arc_risk ctx = RiskLevel.Benign
      then AutoReviewDecision_new AutoReviewAction.Allow ''read-only action is allowed''
      else if arc_category ctx = ToolCategory.Unknown
      then AutoReviewDecision_new AskUser ''unknown tool category requires explicit review''
      else AutoReviewDecision_new AskUser ''destructive action requires explicit review'')"

definition evaluate :: "AutoReviewPolicy \<Rightarrow> AutoReviewContext \<Rightarrow> AutoReviewDecision" where
  "evaluate policy ctx =
     (case List.find (\<lambda>rule. rule_matches rule ctx \<and> arr_action rule = Block) (arp_block_rules policy) of
        Some rule \<Rightarrow> with_rule (AutoReviewDecision_new Block (arr_reason rule)) (arr_id rule)
      | None \<Rightarrow>
          (case safety_floor ctx of
             Some decision \<Rightarrow> decision
           | None \<Rightarrow>
               (case List.find (\<lambda>rule. rule_matches rule ctx \<and> arr_action rule = AutoReviewAction.Allow)
                   (arp_allow_rules policy) of
                  Some rule \<Rightarrow>
                    with_rule (AutoReviewDecision_new AutoReviewAction.Allow (arr_reason rule)) (arr_id rule)
                | None \<Rightarrow> deterministic_fallback ctx)))"

text \<open>The audit record, as the members of the JSON object in order.\<close>

datatype audit_value = AuditStr string | AuditBool bool | AuditNull

fun tool_category_label :: "ToolCategory \<Rightarrow> string" where
  "tool_category_label ToolCategory.Safe = ''safe''"
| "tool_category_label ToolCategory.FileWrite = ''file_write''"
| "tool_category_label ToolCategory.Shell = ''shell''"
| "tool_category_label ToolCategory.Network = ''network''"
| "tool_category_label ToolCategory.McpRead = ''mcp_read''"
| "tool_category_label ToolCategory.McpAction = ''mcp_action''"
| "tool_category_label ToolCategory.Agent = ''agent''"
| "tool_category_label ToolCategory.Unknown = ''unknown''"

fun risk_label :: "RiskLevel \<Rightarrow> string" where
  "risk_label RiskLevel.Benign = ''benign''"
| "risk_label RiskLevel.Destructive = ''destructive''"

definition audit_event ::
    "AutoReviewPolicy \<Rightarrow> AutoReviewContext \<Rightarrow> AutoReviewDecision \<Rightarrow> (string \<times> audit_value) list" where
  "audit_event policy ctx decision =
     [(''tool_name'', AuditStr (arc_tool_name ctx)),
      (''tool_category'', AuditStr (tool_category_label (arc_category ctx))),
      (''risk'', AuditStr (risk_label (arc_risk ctx))),
      (''action_kind'', AuditStr (ToolActionKind_as_str (arc_action_kind ctx))),
      (''run_origin'', AuditStr (RunOrigin_as_str (arc_run_origin ctx))),
      (''approval_mode'', AuditStr (ApprovalMode_label (arc_approval_mode ctx))),
      (''workspace_trusted'', AuditBool (arc_workspace_trusted ctx)),
      (''dirty_worktree'', AuditBool (arc_dirty_worktree ctx)),
      (''policy_has_guidance'', AuditBool (is_some (arp_natural_language_guidance policy))),
      (''decision'', AuditStr (AutoReviewAction_as_str (ard_action decision))),
      (''reason'', AuditStr (ard_reason decision)),
      (''rule_id'', (case ard_rule_id decision of None \<Rightarrow> AuditNull | Some i \<Rightarrow> AuditStr i))]"

end
