(* ===== verification/Auto_Review_Props.thy ===== *)
theory Auto_Review_Props
  imports Auto_Review
begin

text \<open>
  Properties of the risk classifier and of the auto-review policy: what a benign call is, which calls
  no rule and no approval mode can release, what the push and wrapper recognisers guarantee, and where
  the recognisers can be evaded.
\<close>

interpretation reviewseg: segmenter split_shell_segments_for_review
proof -
  have "split_shell_segments_for_review c = cut [CHR '';''] c" for c
    unfolding split_shell_segments_for_review_def cut_def chain_marks_def by (rule trimmed_lines)
  then have "split_shell_segments_for_review = cut [CHR '';'']" by (rule ext)
  then show "segmenter split_shell_segments_for_review"
    using cut_segmenter [of "[CHR '';'']"] by simp
qed

section \<open>Risk\<close>

lemma classify_risk_shell:
  "classify_risk shlex api name ToolCategory.Shell params =
     (case get_str api params ''command'' of
        None \<Rightarrow> Some RiskLevel.Destructive
      | Some cmd \<Rightarrow> map_option (\<lambda>readonly. if readonly then RiskLevel.Benign else RiskLevel.Destructive)
          (is_parallel_readonly_command shlex cmd))"
  by (simp add: classify_risk_def Let_def)

text \<open>
  The risk of every call is decided: the classifier returns for all tool names, categories and
  parameters, and a shell call is benign only if its command passed the read-only test, so it contains
  no separator, redirection, substitution or line break.
\<close>

theorem classify_risk_total_and_conservative:
  assumes "\<And>s ws. shlex s = Some ws \<Longrightarrow> length (join '' '' ws) \<le> length s"
  shows "\<exists>risk. classify_risk shlex api tool_name category params = Some risk \<and>
     (category = ToolCategory.Shell \<and> risk = RiskLevel.Benign \<longrightarrow>
        (\<exists>cmd. get_str api params ''command'' = Some cmd \<and>
           is_parallel_readonly_command shlex cmd = Some True \<and> \<not> has_shell_syntax (trim cmd))) \<and>
     (category \<in> {ToolCategory.FileWrite, ToolCategory.McpAction, ToolCategory.Unknown} \<longrightarrow>
        risk = RiskLevel.Destructive)"
proof (cases "category = ToolCategory.Shell")
  case True
  show ?thesis
  proof (cases "get_str api params ''command''")
    case None
    with True show ?thesis by (simp add: classify_risk_shell)
  next
    case (Some c)
    obtain b where b: "is_parallel_readonly_command shlex c = Some b"
      using readonly_test_total [of shlex c] assms by blast
    have "b \<longrightarrow> \<not> has_shell_syntax (trim c)"
      using readonly_test_layers [OF b] by (auto simp: readonly_layers_def)
    with True Some b show ?thesis by (cases b) (simp_all add: classify_risk_shell)
  qed
next
  case False
  then show ?thesis
    by (cases category) (auto simp: classify_risk_def Let_def split: option.split)
qed

theorem classify_risk_total_and_conservative_witness:
  "\<exists>risk. classify_risk plain_shlex str_api ''exec_shell'' ToolCategory.Unknown [(''command'', ''ls -la'')] = Some risk \<and>
     risk = RiskLevel.Destructive"
  using classify_risk_total_and_conservative [of plain_shlex str_api "''exec_shell''" ToolCategory.Unknown
      "[(''command'', ''ls -la'')]"] plain_shlex_length by blast

section \<open>The decision\<close>

lemma decision_simps [simp]:
  "ard_action (AutoReviewDecision_new a r) = a" "ard_action (with_rule d i) = ard_action d"
  by (simp_all add: AutoReviewDecision_new_def with_rule_def)

lemma floor_action: "safety_floor ctx = Some d \<Longrightarrow> ard_action d = HoldForReview"
  by (auto simp: safety_floor_def split: if_splits)

text \<open>
  C8. When a call is released: exactly if no block rule matches, the safety floor is silent, and an
  allow rule matches or the call is benign. Rules cannot release what the floor holds, and an allow rule
  cannot release what a block rule names.
\<close>

theorem evaluate_allows_iff:
  "ard_action (evaluate policy ctx) = AutoReviewAction.Allow \<longleftrightarrow>
     (\<forall>rule \<in> set (arp_block_rules policy). \<not> (rule_matches rule ctx \<and> arr_action rule = Block)) \<and>
     safety_floor ctx = None \<and>
     ((\<exists>rule \<in> set (arp_allow_rules policy). rule_matches rule ctx \<and> arr_action rule = AutoReviewAction.Allow) \<or>
      arc_risk ctx = RiskLevel.Benign)"
proof (cases "List.find (\<lambda>rule. rule_matches rule ctx \<and> arr_action rule = Block) (arp_block_rules policy)")
  case (Some rule)
  then show ?thesis using find_Some_set [OF Some] by (auto simp: evaluate_def)
next
  case none: None
  then have nb: "\<forall>rule \<in> set (arp_block_rules policy). \<not> (rule_matches rule ctx \<and> arr_action rule = Block)"
    by (simp add: find_None_iff)
  show ?thesis
  proof (cases "safety_floor ctx")
    case (Some d)
    then show ?thesis using none floor_action [OF Some] by (simp add: evaluate_def)
  next
    case floor: None
    show ?thesis
    proof (cases "List.find (\<lambda>rule. rule_matches rule ctx \<and> arr_action rule = AutoReviewAction.Allow)
        (arp_allow_rules policy)")
      case (Some rule)
      with none floor nb find_Some_set [OF Some] show ?thesis by (auto simp: evaluate_def)
    next
      case None
      then have "\<not> (\<exists>rule \<in> set (arp_allow_rules policy). rule_matches rule ctx \<and> arr_action rule = AutoReviewAction.Allow)"
        by (simp add: find_None_iff)
      with none floor nb None show ?thesis by (simp add: evaluate_def deterministic_fallback_def)
    qed
  qed
qed

definition review_ctx :: "ToolActionKind \<Rightarrow> RunOrigin \<Rightarrow> ApprovalMode \<Rightarrow> AutoReviewContext" where
  "review_ctx kind origin mode =
     \<lparr>arc_tool_name = ''exec_shell'', arc_category = ToolCategory.Shell, arc_risk = RiskLevel.Destructive,
      arc_action_kind = kind, arc_run_origin = origin, arc_approval_mode = mode, arc_user_intent = None,
      arc_workspace_trusted = True, arc_dirty_worktree = False\<rparr>"

theorem evaluate_allows_iff_witness:
  "ard_action (evaluate \<lparr>arp_allow_rules = [AutoReviewRule_allow ''a'' ''all''], arp_block_rules = [AutoReviewRule_block ''b'' ''no''],
       arp_natural_language_guidance = None\<rparr> (review_ctx ToolActionKind.Shell Interactive ApprovalMode.Auto)) \<noteq>
     AutoReviewAction.Allow"
  unfolding evaluate_allows_iff
  by (simp add: rule_matches_def AutoReviewRule_block_def review_ctx_def)

lemma evaluate_floor:
  "safety_floor ctx \<noteq> None \<Longrightarrow> ard_action (evaluate policy ctx) \<in> {Block, HoldForReview}"
  using floor_action [of ctx] by (auto simp: evaluate_def split: option.split)

section \<open>Shell calls\<close>

lemma exec_shell_names:
  "to_ascii_lowercase ''exec_shell'' = ''exec_shell''" "\<not> is_action_family ''exec_shell''"
  "\<not> contains_any ''exec_shell'' [''push'', ''publish'', ''release'', ''tag'']"
  "\<not> contains_any ''exec_shell'' [''secret'', ''token'', ''credential'', ''password'']"
  "\<not> contains_any ''exec_shell'' [''delete'', ''destroy'', ''remove'', ''drop'', ''reset'']"
  "\<not> contains_any ''exec_shell'' [''git_'']"
  "\<not> contains_any ''exec_shell'' [''browser'', ''chrome'', ''playwright'']"
  "''exec_shell'' \<notin> set [''automation'', ''tasks'', ''github'', ''rlm'']"
  "get_tool_category ''exec_shell'' = ToolCategory.Shell"
  by code_simp+

lemma exec_shell_kind:
  "kind_from_tool_call shlex api ''exec_shell'' params ToolCategory.Shell =
     (if shell_params_are_publish_like api params then ToolActionKind.Publish
      else if shell_params_are_destructive_like shlex api params then ToolActionKind.Destructive
      else ToolActionKind.Shell)"
  unfolding kind_from_tool_call_def Let_def canonical_alias_not_family [OF exec_shell_names(2)]
    exec_shell_names(1)
  by (simp only: exec_shell_names(3-8) if_False category_kind.simps simp_thms)

lemma exec_shell_context:
  assumes "context_from_tool_call shlex api ''exec_shell'' params origin mode intent trusted dirty = Some ctx"
  shows "arc_action_kind ctx = kind_from_tool_call shlex api ''exec_shell'' params ToolCategory.Shell"
    "arc_run_origin ctx = origin" "arc_approval_mode ctx = mode"
  using assms
  by (auto simp: context_from_tool_call_def Let_def get_tool_category_for_call_def
      canonical_alias_not_family [OF exec_shell_names(2)] exec_shell_names(9))


definition shell_call :: "string \<Rightarrow> (string \<times> string) list" where
  "shell_call command = [(''command'', command)]"

lemma shell_call_context:
  assumes "classify_risk plain_shlex str_api ''exec_shell'' ToolCategory.Shell (shell_call c) = Some RiskLevel.Destructive"
  shows "context_from_tool_call plain_shlex str_api ''exec_shell'' (shell_call c) origin mode None True False =
     Some (review_ctx (kind_from_tool_call plain_shlex str_api ''exec_shell'' (shell_call c) ToolCategory.Shell) origin mode)"
  using assms
  by (simp add: context_from_tool_call_def Let_def get_tool_category_for_call_def review_ctx_def
      canonical_alias_not_family [OF exec_shell_names(2)] exec_shell_names(9))

lemma readonly_false_by_syntax:
  "trim c \<noteq> [] \<Longrightarrow> has_shell_syntax (trim c) \<Longrightarrow> is_parallel_readonly_command shlex c = Some False"
  by (subst is_parallel_readonly_command.simps) (simp add: Let_def)


text \<open>
  A publish-like segment disarms the destroyer floor in Full Access: the action kind of a command
  line is Publish as soon as one segment publishes, and in that posture the floor lets Publish pass, so
  a background line that pushes and then overwrites a disk is released by a matching allow rule.
\<close>

theorem publish_disarms_destroyer_floor:
  assumes "json_get api params ''command'' = Some v"
    and "json_as_str api v = Some ''git push origin main && dd if=x of=/dev/sda''"
    and "policy = \<lparr>arp_allow_rules = [AutoReviewRule_allow i r], arp_block_rules = [], arp_natural_language_guidance = None\<rparr>"
  shows "\<exists>ctx. context_from_tool_call shlex api ''exec_shell'' params Background ApprovalMode.Bypass intent trusted dirty = Some ctx \<and>
     segment_is_device_or_filesystem_destroyer ''dd if=x of=/dev/sda'' \<and>
     ''dd if=x of=/dev/sda'' \<in> set (split_shell_segments_for_review ''git push origin main && dd if=x of=/dev/sda'') \<and>
     safety_floor ctx = None \<and> ard_action (evaluate policy ctx) = AutoReviewAction.Allow"
proof -
  let ?c = "''git push origin main && dd if=x of=/dev/sda''"
  have cmd: "command_param api params = Some ?c" "get_str api params ''command'' = Some ?c"
    using assms(1,2) by (simp_all add: command_param_def get_str_def)
  have "is_parallel_readonly_command shlex ?c = Some False"
    by (rule readonly_false_by_syntax) code_simp+
  with cmd have "classify_risk shlex api ''exec_shell'' ToolCategory.Shell params = Some RiskLevel.Destructive"
    by (simp add: classify_risk_shell)
  then obtain ctx where ctx: "context_from_tool_call shlex api ''exec_shell'' params Background ApprovalMode.Bypass
      intent trusted dirty = Some ctx"
    by (simp add: context_from_tool_call_def Let_def get_tool_category_for_call_def
        canonical_alias_not_family [OF exec_shell_names(2)] exec_shell_names(9))
  have "list_ex shell_tokens_are_publish_like
      (map (\<lambda>segment. filter (\<lambda>token. trim token \<noteq> []) (split_whitespace segment))
        (split_shell_segments_for_review ?c))" by code_simp
  then have "shell_params_are_publish_like api params"
    by (simp only: shell_params_are_publish_like_def cmd option.case)
  then have kind: "arc_action_kind ctx = ToolActionKind.Publish"
    by (simp add: exec_shell_context(1) [OF ctx] exec_shell_kind)
  then have floor: "safety_floor ctx = None"
    using exec_shell_context(3) [OF ctx] by (simp add: safety_floor_def)
  moreover have "rule_matches (AutoReviewRule_allow i r) ctx"
    by (simp add: rule_matches_def AutoReviewRule_allow_def)
  ultimately have "ard_action (evaluate policy ctx) = AutoReviewAction.Allow"
    by (simp add: assms(3) evaluate_def AutoReviewRule_allow_def)
  moreover have "segment_is_device_or_filesystem_destroyer ''dd if=x of=/dev/sda''"
    "''dd if=x of=/dev/sda'' \<in> set (split_shell_segments_for_review ?c)" by code_simp+
  ultimately show ?thesis using ctx floor by blast
qed

theorem publish_disarms_destroyer_floor_witness:
  "\<exists>ctx. context_from_tool_call plain_shlex str_api ''exec_shell''
       (shell_call ''git push origin main && dd if=x of=/dev/sda'') Background ApprovalMode.Bypass None True False = Some ctx \<and>
     segment_is_device_or_filesystem_destroyer ''dd if=x of=/dev/sda'' \<and>
     ''dd if=x of=/dev/sda'' \<in> set (split_shell_segments_for_review ''git push origin main && dd if=x of=/dev/sda'') \<and>
     safety_floor ctx = None \<and>
     ard_action (evaluate \<lparr>arp_allow_rules = [AutoReviewRule_allow ''i'' ''r''], arp_block_rules = [],
       arp_natural_language_guidance = None\<rparr> ctx) = AutoReviewAction.Allow"
proof (rule publish_disarms_destroyer_floor)
  show "json_get str_api (shell_call ''git push origin main && dd if=x of=/dev/sda'') ''command'' =
      Some [(''git push origin main && dd if=x of=/dev/sda'', ''git push origin main && dd if=x of=/dev/sda'')]"
    by code_simp
  show "json_as_str str_api
      [(''git push origin main && dd if=x of=/dev/sda'', ''git push origin main && dd if=x of=/dev/sda'')] =
      Some ''git push origin main && dd if=x of=/dev/sda''" by code_simp
qed simp

section \<open>Pushes\<close>

definition push_destination :: "string \<Rightarrow> string" where
  "push_destination refspec =
     (let dst = (case split_once (CHR '':'') refspec of Some (src, dst) \<Rightarrow> dst | None \<Rightarrow> refspec)
      in case strip_prefix dst ''refs/heads/'' of Some d \<Rightarrow> d | None \<Rightarrow> dst)"

lemma unprotected_refspec:
  assumes "\<not> git_push_refspec_is_protected refspec"
  shows "\<not> starts_with refspec ''+'' \<and> CHR ''*'' \<notin> set refspec \<and>
     to_ascii_lowercase (push_destination refspec) \<notin> {''main'', ''master'', ''head''} \<and>
     \<not> starts_with (to_ascii_lowercase (push_destination refspec)) ''release'' \<and>
     \<not> starts_with (push_destination refspec) ''refs/''"
  using assms
  by (cases "split_once (CHR '':'') refspec")
    (auto simp: git_push_refspec_is_protected_def push_destination_def contains_char_def Let_def
      split: if_splits option.splits prod.splits)

definition push_arg_ok :: "string \<Rightarrow> bool" where
  "push_arg_ok token =
     (if starts_with token ''--''
      then hd (split_char (CHR ''='') (drop 2 token)) \<in>
         set [''set-upstream'', ''verbose'', ''quiet'', ''porcelain'', ''no-verify'', ''dry-run'']
      else if starts_with token ''-''
      then drop 1 token \<noteq> [] \<and>
         list_all (\<lambda>flag. flag \<in> set [CHR ''u'', CHR ''v'', CHR ''q'', CHR ''n'']) (drop 1 token)
      else True)"

lemma push_positionals_ok:
  "push_positionals args = Some ps \<Longrightarrow> t \<in> set args \<Longrightarrow> push_arg_ok (shell_token_trim t)"
proof (induction args arbitrary: ps)
  case (Cons a args)
  have step: "push_positionals (a # args) \<noteq> None \<Longrightarrow>
      push_arg_ok (shell_token_trim a) \<and> push_positionals args \<noteq> None"
    by (auto simp: push_arg_ok_def Let_def split: if_splits)
  show ?case
  proof (cases "t = a")
    case True
    with step Cons.prems(1) show ?thesis by simp
  next
    case False
    from step Cons.prems(1) obtain qs where "push_positionals args = Some qs" by auto
    with Cons.IH False Cons.prems(2) show ?thesis by simp
  qed
qed simp

definition FORCING_PUSH_FLAGS :: "string list" where
  "FORCING_PUSH_FLAGS = [''--force'', ''-f'', ''--force-with-lease'', ''--force-with-lease=main'', ''--delete'', ''-d'',
     ''--mirror'', ''--all'', ''--tags'', ''--prune'', ''-uf'', ''-fu'', ''--follow-tags'']"

lemma forcing_flags_rejected: "list_all (\<lambda>token. \<not> push_arg_ok token) FORCING_PUSH_FLAGS"
  by code_simp

text \<open>
  A push that is not held is routine: it names a remote and at least one refspec, no destination
  (behind \<open>refs/heads/\<close>) is \<open>main\<close>, \<open>master\<close>, \<open>head\<close>, a release branch or another namespace,
  no refspec forces or globs, and no argument is a forcing, deleting, mirroring or tagging flag.
\<close>

theorem routine_push_guarantees:
  assumes "\<not> git_push_tokens_are_publish_like tokens"
  shows "\<exists>i remote refs. git_subcommand_at tokens ''push'' = Some i \<and>
     push_positionals (drop (i + 1) tokens) = Some (remote # refs) \<and> refs \<noteq> [] \<and>
     (\<forall>r \<in> set refs. \<not> starts_with r ''+'' \<and> CHR ''*'' \<notin> set r \<and>
        to_ascii_lowercase (push_destination r) \<notin> {''main'', ''master'', ''head''} \<and>
        \<not> starts_with (to_ascii_lowercase (push_destination r)) ''release'' \<and>
        \<not> starts_with (push_destination r) ''refs/'') \<and>
     (\<forall>t \<in> set (drop (i + 1) tokens). shell_token_trim t \<notin> set FORCING_PUSH_FLAGS)"
proof -
  from assms obtain i ps where i: "git_subcommand_at tokens ''push'' = Some i"
    and ps: "push_positionals (drop (i + 1) tokens) = Some ps" "\<not> length ps < 2"
    and refs: "\<not> list_ex git_push_refspec_is_protected (drop 1 ps)"
    by (auto simp: git_push_tokens_are_publish_like_def split: option.splits if_splits)
  from ps(2) obtain remote ref refs' where shape: "ps = remote # ref # refs'"
    by (cases ps; cases "tl ps") auto
  have "\<forall>t \<in> set (drop (i + 1) tokens). shell_token_trim t \<notin> set FORCING_PUSH_FLAGS"
    using push_positionals_ok [OF ps(1)] forcing_flags_rejected by (auto simp: list_all_iff)
  moreover have "\<forall>r \<in> set (ref # refs'). \<not> git_push_refspec_is_protected r"
    using refs shape by (auto simp: list_ex_iff)
  ultimately show ?thesis using i ps(1) shape unprotected_refspec by blast
qed

theorem routine_push_guarantees_witness:
  "\<exists>i remote refs. git_subcommand_at [''git'', ''push'', ''-u'', ''origin'', ''feat:topic''] ''push'' = Some i \<and>
     push_positionals (drop (i + 1) [''git'', ''push'', ''-u'', ''origin'', ''feat:topic'']) = Some (remote # refs) \<and>
     refs \<noteq> []"
proof -
  have "\<not> git_push_tokens_are_publish_like [''git'', ''push'', ''-u'', ''origin'', ''feat:topic'']" by code_simp
  from routine_push_guarantees [OF this] show ?thesis by blast
qed

text \<open>
  A global option with a separate value hides a push: the push test is only reached when the
  arity classifier says \<open>git push\<close>, and that classifier counts the value of \<open>-C\<close> as a positional
  word, so a push of \<open>main\<close> behind \<open>git -C .\<close> is not publish-like, while the push test itself would
  have held it.
\<close>

theorem global_option_hides_push:
  "\<not> shell_tokens_are_publish_like [''git'', ''-C'', ''.'', ''push'', ''origin'', ''main''] \<and>
   git_push_tokens_are_publish_like [''git'', ''-C'', ''.'', ''push'', ''origin'', ''main''] \<and>
   shell_tokens_are_publish_like [''git'', ''push'', ''origin'', ''main'']"
proof (intro conjI)
  show "\<not> shell_tokens_are_publish_like [''git'', ''-C'', ''.'', ''push'', ''origin'', ''main'']" by code_simp
  show "git_push_tokens_are_publish_like [''git'', ''-C'', ''.'', ''push'', ''origin'', ''main'']" by code_simp
  show "shell_tokens_are_publish_like [''git'', ''push'', ''origin'', ''main'']" by code_simp
qed

section \<open>Wrappers\<close>

definition unwrapped :: "string list \<Rightarrow> bool" where
  "unwrapped ts = (case ts of [] \<Rightarrow> True
     | t # _ \<Rightarrow> \<not> env_assignment_like (unquote_token t) \<and> base_name (unquote_token t) \<notin> set WRAPPERS)"

lemma skip_duration_suffix: "suffix (skip_duration ts) ts"
  by (auto simp: skip_duration_def suffix_Cons split: list.splits)

lemma effective_command_tokens_spec:
  "suffix (effective_command_tokens ts) ts \<and> unwrapped (effective_command_tokens ts)"
proof (induction ts rule: effective_command_tokens.induct)
  case (2 t rest)
  let ?af = "dropWhile wrapper_argument rest"
  let ?next = "if base_name (unquote_token t) = ''timeout'' then skip_duration ?af else ?af"
  have sub: "suffix ?next rest"
    using skip_duration_suffix [of ?af] suffix_dropWhile [of wrapper_argument rest]
    by (auto intro: suffix_order.trans)
  show ?case
  proof (cases "env_assignment_like (unquote_token t)")
    case True
    with "2.IH"(1) show ?thesis by (simp add: Let_def suffix_ConsI)
  next
    case env: False
    show ?thesis
    proof (cases "base_name (unquote_token t) \<in> set WRAPPERS")
      case True
      have eq: "effective_command_tokens (t # rest) = effective_command_tokens ?next"
        using env True by (simp add: Let_def)
      from "2.IH"(2) [OF refl env True refl] sub show ?thesis
        unfolding eq by (meson suffix_ConsI suffix_order.trans)
    next
      case False
      with env show ?thesis by (simp add: Let_def unwrapped_def)
    qed
  qed
qed (simp add: unwrapped_def)

lemma unwrapped_fixpoint: "unwrapped ts \<Longrightarrow> effective_command_tokens ts = ts"
  by (cases ts) (auto simp: unwrapped_def Let_def)

text \<open>
  Peeling wrappers ends at a real command: the effective tokens are a suffix of the line, do not
  start with an assignment or a wrapper such as \<open>sudo\<close> or \<open>timeout\<close>, and peeling them again
  changes nothing; a wrapper and its flags in front of a line do not change its effective command.
\<close>

theorem effective_command_is_unwrapped:
  "suffix (effective_command_tokens ts) ts \<and> unwrapped (effective_command_tokens ts) \<and>
   effective_command_tokens (effective_command_tokens ts) = effective_command_tokens ts \<and>
   effective_command_tokens (''sudo'' # ts) = effective_command_tokens (dropWhile wrapper_argument ts)"
proof -
  have sudo: "unquote_token ''sudo'' = ''sudo''" "\<not> env_assignment_like ''sudo''" "base_name ''sudo'' = ''sudo''"
    "''sudo'' \<in> set WRAPPERS" "''sudo'' \<noteq> ''timeout''"
    by code_simp+
  then have "effective_command_tokens (''sudo'' # ts) = effective_command_tokens (dropWhile wrapper_argument ts)"
    by (simp add: Let_def)
  then show ?thesis using effective_command_tokens_spec [of ts] unwrapped_fixpoint by blast
qed

end
