(* ===== verification/Worker_Profile.thy ===== *)
theory Worker_Profile
  imports Prelude
begin

text \<open>
  The capability contract of a worker (\<open>crates/tui/src/worker_profile.rs\<close>): permission sets, shell
  policies, tool scopes and the derivation of a child profile from its parent. Each derivation step is
  an instance of the contract \<open>attenuation\<close>, so no chain of spawns gains authority over its root.
\<close>

section \<open>Permissions and shell policies\<close>

record PermissionSet =
  ps_write :: bool
  ps_network :: bool

definition PermissionSet_full :: PermissionSet where
  "PermissionSet_full = \<lparr>ps_write = True, ps_network = True\<rparr>"

definition PermissionSet_read_only :: PermissionSet where
  "PermissionSet_read_only = \<lparr>ps_write = False, ps_network = False\<rparr>"

definition permission_intersect :: "PermissionSet \<Rightarrow> PermissionSet \<Rightarrow> PermissionSet" where
  "permission_intersect a b =
     \<lparr>ps_write = (ps_write a \<and> ps_write b), ps_network = (ps_network a \<and> ps_network b)\<rparr>"

datatype ShellPolicy = ShellNone | ShellReadOnly | ShellFull

fun shell_ordinal :: "ShellPolicy \<Rightarrow> nat" where
  "shell_ordinal ShellNone = 0"
| "shell_ordinal ShellReadOnly = 1"
| "shell_ordinal ShellFull = 2"

lemma shell_ordinal_inject: "shell_ordinal a = shell_ordinal b \<longleftrightarrow> a = b"
  by (cases a; cases b) auto

instantiation ShellPolicy :: linorder
begin

definition less_eq_ShellPolicy :: "ShellPolicy \<Rightarrow> ShellPolicy \<Rightarrow> bool" where
  "less_eq_ShellPolicy a b \<longleftrightarrow> shell_ordinal a \<le> shell_ordinal b"

definition less_ShellPolicy :: "ShellPolicy \<Rightarrow> ShellPolicy \<Rightarrow> bool" where
  "less_ShellPolicy a b \<longleftrightarrow> shell_ordinal a < shell_ordinal b"

instance
  by standard (auto simp: less_eq_ShellPolicy_def less_ShellPolicy_def shell_ordinal_inject)

end

definition from_legacy_allow_shell :: "bool \<Rightarrow> ShellPolicy" where
  "from_legacy_allow_shell allow_shell = (if allow_shell then ShellFull else ShellNone)"

definition allows_shell :: "ShellPolicy \<Rightarrow> bool" where
  "allows_shell p = (case p of ShellNone \<Rightarrow> False | _ \<Rightarrow> True)"

definition min_with :: "ShellPolicy \<Rightarrow> ShellPolicy \<Rightarrow> ShellPolicy" where
  "min_with a b = (if a \<le> b then a else b)"

section \<open>Profiles\<close>

datatype ToolScope = Inherit | Explicit "string list"

datatype ModelRoute = InheritModel | Faster | AutoModel | Fixed string

datatype FleetRole =
  Worker | Scout | Planner | Reviewer | Builder | Verifier | Consultant | Custom

record WorkerRuntimeProfile =
  wp_role :: FleetRole
  wp_permissions :: PermissionSet
  wp_shell :: ShellPolicy
  wp_tools :: ToolScope
  wp_model :: ModelRoute
  wp_provider :: "string option"
  wp_reasoning_effort :: "string option"
  wp_denied_tools :: "string list"
  wp_max_spawn_depth :: u32
  wp_max_steps :: u32
  wp_background :: bool

definition DEFAULT_SPAWN_DEPTH :: u32 where
  "DEFAULT_SPAWN_DEPTH = 3"

definition MAX_SPAWN_DEPTH_CEILING :: u32 where
  "MAX_SPAWN_DEPTH_CEILING = 8"

definition READ_ONLY_MAX_STEPS :: u32 where
  "READ_ONLY_MAX_STEPS = 60"

definition GENERAL_MAX_STEPS :: u32 where
  "GENERAL_MAX_STEPS = 120"

fun default_max_steps :: "FleetRole \<Rightarrow> u32" where
  "default_max_steps Scout = READ_ONLY_MAX_STEPS"
| "default_max_steps Reviewer = READ_ONLY_MAX_STEPS"
| "default_max_steps Planner = READ_ONLY_MAX_STEPS"
| "default_max_steps Verifier = READ_ONLY_MAX_STEPS"
| "default_max_steps Consultant = READ_ONLY_MAX_STEPS"
| "default_max_steps Builder = GENERAL_MAX_STEPS"
| "default_max_steps Worker = GENERAL_MAX_STEPS"
| "default_max_steps Custom = GENERAL_MAX_STEPS"

fun role_posture :: "FleetRole \<Rightarrow> PermissionSet \<times> ShellPolicy" where
  "role_posture Scout = (PermissionSet_read_only, ShellReadOnly)"
| "role_posture Reviewer = (PermissionSet_read_only, ShellReadOnly)"
| "role_posture Planner = (PermissionSet_read_only, ShellNone)"
| "role_posture Consultant = (PermissionSet_read_only, ShellNone)"
| "role_posture Verifier = (PermissionSet_read_only, ShellFull)"
| "role_posture Builder = (PermissionSet_full, ShellFull)"
| "role_posture Worker = (PermissionSet_full, ShellFull)"
| "role_posture Custom = (PermissionSet_read_only, ShellNone)"

definition for_role :: "FleetRole \<Rightarrow> WorkerRuntimeProfile" where
  "for_role role =
     \<lparr>wp_role = role, wp_permissions = fst (role_posture role), wp_shell = snd (role_posture role),
      wp_tools = Inherit, wp_model = InheritModel, wp_provider = None,
      wp_reasoning_effort = (if role = Consultant then Some ''high'' else None),
      wp_denied_tools = [], wp_max_spawn_depth = DEFAULT_SPAWN_DEPTH,
      wp_max_steps = default_max_steps role, wp_background = True\<rparr>"

definition WorkerRuntimeProfile_default :: WorkerRuntimeProfile where
  "WorkerRuntimeProfile_default = for_role Worker"

text \<open>The loop that appends the requested deny entries the parent lacks.\<close>

fun union_denied :: "string list \<Rightarrow> string list \<Rightarrow> string list" where
  "union_denied denied [] = denied"
| "union_denied denied (rule # rules) =
     union_denied (if rule \<in> set denied then denied else denied @ [rule]) rules"

fun child_tools :: "ToolScope \<Rightarrow> ToolScope \<Rightarrow> ToolScope" where
  "child_tools (Explicit parent) (Explicit child) = Explicit (filter (\<lambda>name. name \<in> set parent) child)"
| "child_tools (Explicit parent) Inherit = Explicit parent"
| "child_tools Inherit child = child"

definition derive_child :: "WorkerRuntimeProfile \<Rightarrow> WorkerRuntimeProfile \<Rightarrow> WorkerRuntimeProfile" where
  "derive_child parent requested =
     \<lparr>wp_role = wp_role requested,
      wp_permissions = permission_intersect (wp_permissions parent) (wp_permissions requested),
      wp_shell = min_with (wp_shell parent) (wp_shell requested),
      wp_tools = child_tools (wp_tools parent) (wp_tools requested),
      wp_model = wp_model requested,
      wp_provider = option_or (wp_provider requested) (wp_provider parent),
      wp_reasoning_effort = option_or (wp_reasoning_effort requested) (wp_reasoning_effort parent),
      wp_denied_tools = union_denied (wp_denied_tools parent) (wp_denied_tools requested),
      wp_max_spawn_depth =
        min (min (wp_max_spawn_depth requested) (saturating_sub (wp_max_spawn_depth parent) 1))
          MAX_SPAWN_DEPTH_CEILING,
      wp_max_steps = wp_max_steps requested,
      wp_background = wp_background requested\<rparr>"

definition can_spawn_child :: "WorkerRuntimeProfile \<Rightarrow> bool" where
  "can_spawn_child p = (wp_max_spawn_depth p > 0)"

text \<open>The record a child is launched from.\<close>

record ChildLaunchManifest =
  cm_owner_session :: string
  cm_child_id :: string
  cm_profile :: WorkerRuntimeProfile
  cm_prompt :: string
  cm_cwd :: "string option"
  cm_worktree :: bool
  cm_writable_roots :: "string list"
  cm_writable_files :: "string list"
  cm_coordination_contracts :: "string list"
  cm_expected_artifact :: "string option"
  cm_token_budget :: "u64 option"
  cm_resume_identity :: "string option"
  cm_generation :: u32

section \<open>Attenuation\<close>

definition permissions_below :: "PermissionSet \<Rightarrow> PermissionSet \<Rightarrow> bool" where
  "permissions_below a b \<longleftrightarrow> (ps_write a \<longrightarrow> ps_write b) \<and> (ps_network a \<longrightarrow> ps_network b)"

interpretation perm: attenuation permissions_below permission_intersect
  by unfold_locales (auto simp: permissions_below_def permission_intersect_def)

interpretation shell: attenuation "(\<le>) :: ShellPolicy \<Rightarrow> ShellPolicy \<Rightarrow> bool" min_with
  by unfold_locales (auto simp: min_with_def)

fun scope_tools :: "ToolScope \<Rightarrow> string set" where
  "scope_tools Inherit = UNIV"
| "scope_tools (Explicit names) = set names"

lemma child_tools_scope: "scope_tools (child_tools p r) = scope_tools p \<inter> scope_tools r"
  by (cases p; cases r) auto

interpretation scope: attenuation "\<lambda>a b. scope_tools a \<subseteq> scope_tools b" child_tools
  by unfold_locales (auto simp: child_tools_scope)

lemma set_union_denied: "set (union_denied d rs) = set d \<union> set rs"
  by (induction d rs rule: union_denied.induct) auto

lemma distinct_union_denied: "distinct d \<Longrightarrow> distinct (union_denied d rs)"
  by (induction d rs rule: union_denied.induct) auto

lemma union_denied_prefix: "prefix d (union_denied d rs)"
proof (induction d rs rule: union_denied.induct)
  case (2 denied rule rules)
  then show ?case by (auto simp: prefix_def split: if_splits)
qed simp

definition profile_below :: "WorkerRuntimeProfile \<Rightarrow> WorkerRuntimeProfile \<Rightarrow> bool" where
  "profile_below c p \<longleftrightarrow>
     permissions_below (wp_permissions c) (wp_permissions p) \<and> wp_shell c \<le> wp_shell p \<and>
     scope_tools (wp_tools c) \<subseteq> scope_tools (wp_tools p) \<and>
     set (wp_denied_tools p) \<subseteq> set (wp_denied_tools c) \<and>
     wp_max_spawn_depth c \<le> wp_max_spawn_depth p"

lemma derive_child_depth:
  "wp_max_spawn_depth (derive_child p r) \<le> saturating_sub (wp_max_spawn_depth p) 1"
  by (simp add: derive_child_def min.coboundedI1)

lemma derive_child_below: "profile_below (derive_child p r) p"
proof -
  have "wp_max_spawn_depth (derive_child p r) \<le> wp_max_spawn_depth p"
    using derive_child_depth [of p r] saturating_sub_le [of "wp_max_spawn_depth p" 1] by (rule order_trans)
  then show ?thesis
    using perm.derive_below [of "wp_permissions p" "wp_permissions r"]
      shell.derive_below [of "wp_shell p" "wp_shell r"]
    by (auto simp: profile_below_def derive_child_def child_tools_scope set_union_denied)
qed

interpretation spawn: attenuation profile_below derive_child
proof
  show "profile_below x x" for x by (simp add: profile_below_def perm.below_refl)
  show "profile_below x y \<Longrightarrow> profile_below y z \<Longrightarrow> profile_below x z" for x y z
    by (auto simp: profile_below_def permissions_below_def)
  show "profile_below (derive_child x r) x" for x r by (rule derive_child_below)
qed

lemma derive_depth_unat:
  "unat (wp_max_spawn_depth (derive_child p r)) \<le> unat (wp_max_spawn_depth p) - 1"
proof -
  have "unat (saturating_sub a 1) \<le> unat a - 1" for a :: u32
  proof (cases "a = 0")
    case False
    from saturating_sub_one_less [OF this] show ?thesis by (simp add: word_less_nat_alt)
  qed (simp add: saturating_sub_def)
  then have "unat (saturating_sub (wp_max_spawn_depth p) 1) \<le> unat (wp_max_spawn_depth p) - 1" .
  with derive_child_depth [of p r] show ?thesis by (simp add: word_le_nat_alt)
qed

lemma fold_depth_unat:
  "unat (wp_max_spawn_depth (foldl derive_child p rs)) \<le> unat (wp_max_spawn_depth p) - length rs"
proof (induction rs arbitrary: p)
  case (Cons r rs)
  from Cons.IH [of "derive_child p r"] derive_depth_unat [of p r] show ?case by simp
qed simp

text \<open>
  C4. No chain of spawns gains authority: whatever profiles the descendants request, each holds a
  subset of the root's permissions and tools, a shell policy no wider than the root's, every deny entry
  of the root and no more spawn budget.
\<close>

theorem spawn_chain_never_escalates:
  "permissions_below (wp_permissions (foldl derive_child root requests)) (wp_permissions root) \<and>
   wp_shell (foldl derive_child root requests) \<le> wp_shell root \<and>
   scope_tools (wp_tools (foldl derive_child root requests)) \<subseteq> scope_tools (wp_tools root) \<and>
   set (wp_denied_tools root) \<subseteq> set (wp_denied_tools (foldl derive_child root requests)) \<and>
   wp_max_spawn_depth (foldl derive_child root requests) \<le> wp_max_spawn_depth root"
  using spawn.fold_derive_below [of root requests] by (simp add: profile_below_def)

text \<open>
  The spawn budget is finite: after as many derivations as the root's depth, no descendant may
  spawn again, whatever depths were requested, and a derived profile never exceeds the ceiling.
\<close>

theorem spawn_budget_exhausts:
  assumes "unat (wp_max_spawn_depth root) \<le> length requests"
  shows "\<not> can_spawn_child (foldl derive_child root requests) \<and>
     wp_max_spawn_depth (derive_child root requested) \<le> MAX_SPAWN_DEPTH_CEILING"
  using fold_depth_unat [of root requests] assms
  by (auto simp: can_spawn_child_def word_less_nat_alt derive_child_def)

theorem spawn_budget_exhausts_witness:
  "\<not> can_spawn_child (foldl derive_child (for_role Builder)
       [for_role Worker, for_role Worker, for_role Scout]) \<and>
   wp_max_spawn_depth (derive_child (for_role Builder) (for_role Worker)) \<le> MAX_SPAWN_DEPTH_CEILING"
  by (rule spawn_budget_exhausts) (simp add: for_role_def DEFAULT_SPAWN_DEPTH_def)

end
