(* ===== verification/Authority.thy ===== *)
theory Authority
  imports Approval Worker_Profile
begin

text \<open>
  Turn authority (\<open>crates/tui/src/core/authority.rs\<close>): the permission policy of a mode, the narrowing
  of a turn whose input cannot carry standing authority, the sandbox and shell policy of a turn, the
  per-tool permission and the disposition of an approval request in the user interface.
\<close>

section \<open>Mode policies\<close>

record ModeSessionPrefs =
  agent_allow_shell :: bool
  agent_trust_mode :: bool
  agent_approval_mode :: ApprovalMode

record EffectiveModePolicy =
  emp_mode :: AppMode
  emp_allow_shell :: bool
  emp_trust_mode :: bool
  emp_approval_mode :: ApprovalMode

definition base_policy_for_mode :: "AppMode \<Rightarrow> ModeSessionPrefs \<Rightarrow> EffectiveModePolicy" where
  "base_policy_for_mode mode prefs =
     (case mode of
        AppMode.Plan \<Rightarrow> \<lparr>emp_mode = mode, emp_allow_shell = False, emp_trust_mode = False,
          emp_approval_mode = ApprovalMode.Suggest\<rparr>
      | AppMode.Yolo \<Rightarrow> \<lparr>emp_mode = mode, emp_allow_shell = True, emp_trust_mode = True,
          emp_approval_mode = ApprovalMode.Bypass\<rparr>
      | _ \<Rightarrow> \<lparr>emp_mode = mode, emp_allow_shell = agent_allow_shell prefs,
          emp_trust_mode = agent_trust_mode prefs, emp_approval_mode = agent_approval_mode prefs\<rparr>)"

section \<open>Narrowing\<close>

datatype PolicyNarrowingReason = NonAuthoritativeProvenance

fun reason_as_str :: "PolicyNarrowingReason \<Rightarrow> string" where
  "reason_as_str NonAuthoritativeProvenance = ''non_authoritative_provenance''"

record PolicyNarrowingEvent =
  pne_reason :: PolicyNarrowingReason
  pne_from_mode :: string
  pne_to_mode :: string
  pne_from_approval :: ApprovalMode
  pne_to_approval :: ApprovalMode
  pne_detail :: string

definition narrowing_message :: "PolicyNarrowingEvent \<Rightarrow> string" where
  "narrowing_message e =
     (case pne_reason e of NonAuthoritativeProvenance \<Rightarrow>
        ''Input provenance '' @ [CHR 0x27] @ pne_detail e @ [CHR 0x27] @
        '' cannot inherit standing auto-approval authority; continuing with approvals required.'')"

definition narrowing_transition :: "PolicyNarrowingEvent \<Rightarrow> string" where
  "narrowing_transition e =
     pne_from_mode e @ '' ('' @ permission_chip_label (pne_from_approval e) @ '') -> '' @
     pne_to_mode e @ '' ('' @ permission_chip_label (pne_to_approval e) @ '')''"

record TurnAuthority =
  ta_mode :: AppMode
  ta_allow_shell :: bool
  ta_trust_mode :: bool
  ta_auto_approve :: bool
  ta_approval_mode :: ApprovalMode
  ta_dynamic_active_tools :: "string list"
  ta_narrowing :: "PolicyNarrowingEvent option"

definition turn_status :: "TurnAuthority \<Rightarrow> string option" where
  "turn_status a = map_option narrowing_message (ta_narrowing a)"

definition from_effective_fields ::
    "AppMode \<Rightarrow> bool \<Rightarrow> bool \<Rightarrow> bool \<Rightarrow> ApprovalMode \<Rightarrow> TurnAuthority" where
  "from_effective_fields mode allow_shell trust_mode auto_approve approval_mode =
     \<lparr>ta_mode = mode, ta_allow_shell = allow_shell, ta_trust_mode = trust_mode,
      ta_auto_approve = auto_approve, ta_approval_mode = approval_mode,
      ta_dynamic_active_tools = [], ta_narrowing = None\<rparr>"

definition provenance_can_inherit_standing_auto_authority :: "UserInputProvenance \<Rightarrow> bool" where
  "provenance_can_inherit_standing_auto_authority provenance =
     (provenance \<in> {ExternalUser, Runtime, SubAgentHandoff})"

definition effective_input_policy ::
    "UserInputProvenance \<Rightarrow> AppMode \<Rightarrow> string \<Rightarrow> bool \<Rightarrow> bool \<Rightarrow> bool \<Rightarrow> ApprovalMode \<Rightarrow> TurnAuthority" where
  "effective_input_policy provenance requested_mode content allow_shell trust_mode auto_approve approval_mode =
     (let (mode, trust_mode', auto_approve', approval_mode', narrowing) =
        (if \<not> provenance_can_inherit_standing_auto_authority provenance
         then
           (let had_auto_authority =
                  (requested_mode = AppMode.Yolo \<or> trust_mode \<or> auto_approve \<or>
                   approval_mode = ApprovalMode.Bypass);
                mode = (if requested_mode = AppMode.Yolo then AppMode.Agent else requested_mode);
                to_approval = (if approval_mode = ApprovalMode.Auto \<or> approval_mode = ApprovalMode.Bypass
                  then ApprovalMode.Suggest else approval_mode)
            in (mode, False, False, to_approval,
                if had_auto_authority
                then Some \<lparr>pne_reason = NonAuthoritativeProvenance,
                       pne_from_mode = AppMode_as_setting requested_mode,
                       pne_to_mode = AppMode_as_setting mode,
                       pne_from_approval = approval_mode, pne_to_approval = to_approval,
                       pne_detail = provenance_as_str provenance\<rparr>
                else None))
         else (requested_mode, trust_mode, auto_approve, approval_mode, None))
      in \<lparr>ta_mode = mode, ta_allow_shell = allow_shell, ta_trust_mode = trust_mode',
          ta_auto_approve = (if approval_mode' = ApprovalMode.Bypass then True else auto_approve'),
          ta_approval_mode = approval_mode', ta_dynamic_active_tools = [], ta_narrowing = narrowing\<rparr>)"

definition permission_posture_allows_questions :: "ApprovalMode \<Rightarrow> bool" where
  "permission_posture_allows_questions approval_mode = (approval_mode \<noteq> ApprovalMode.Auto)"

definition agent_approval_mode_for_turn :: "bool \<Rightarrow> ApprovalMode \<Rightarrow> ApprovalMode" where
  "agent_approval_mode_for_turn auto_approve approval_mode =
     (if auto_approve then ApprovalMode.Bypass else approval_mode)"

definition approval_mode_for_session :: "TurnAuthority \<Rightarrow> ApprovalMode" where
  "approval_mode_for_session a = agent_approval_mode_for_turn (ta_auto_approve a) (ta_approval_mode a)"

definition for_tool_approval_decision :: "bool \<Rightarrow> TurnAuthority" where
  "for_tool_approval_decision auto_approve =
     from_effective_fields (if auto_approve then AppMode.Yolo else AppMode.Agent) True False auto_approve
       (if auto_approve then ApprovalMode.Bypass else ApprovalMode.Suggest)"

section \<open>Sandbox and shell\<close>

definition workspace_write_policy :: "string \<Rightarrow> SandboxPolicy" where
  "workspace_write_policy workspace = WorkspaceWrite [workspace] True False False"

definition sandbox_policy_for_turn ::
    "AppMode \<Rightarrow> ApprovalMode \<Rightarrow> string option \<Rightarrow> string \<Rightarrow> SandboxPolicy" where
  "sandbox_policy_for_turn mode approval_mode configured_mode workspace =
     (let default =
        (if mode = AppMode.Plan then SandboxPolicy.ReadOnly
         else if mode = AppMode.Yolo \<or> approval_mode = ApprovalMode.Bypass then DangerFullAccess
         else workspace_write_policy workspace)
      in if default = SandboxPolicy.ReadOnly \<or> configured_mode = Some ''read-only'' then SandboxPolicy.ReadOnly
         else if default = DangerFullAccess \<and> configured_mode = Some ''workspace-write''
         then workspace_write_policy workspace
         else if default = DangerFullAccess \<and> configured_mode = Some ''external-sandbox''
         then ExternalSandbox True
         else default)"

definition shell_policy_for_mode :: "AppMode \<Rightarrow> bool \<Rightarrow> ShellPolicy" where
  "shell_policy_for_mode mode allow_shell =
     (if \<not> allow_shell then ShellNone
      else (case mode of AppMode.Plan \<Rightarrow> ShellNone | _ \<Rightarrow> ShellFull))"

definition turn_shell_policy :: "TurnAuthority \<Rightarrow> ShellPolicy" where
  "turn_shell_policy a = shell_policy_for_mode (ta_mode a) (ta_allow_shell a)"

definition turn_sandbox_policy :: "TurnAuthority \<Rightarrow> string \<Rightarrow> string option \<Rightarrow> SandboxPolicy" where
  "turn_sandbox_policy a workspace configured_mode =
     sandbox_policy_for_turn (ta_mode a) (approval_mode_for_session a) configured_mode workspace"

section \<open>Tool permission and approval requests\<close>

datatype ToolPermission = Allow | Prompt | Deny

definition resolve_tool_permission ::
    "TurnAuthority \<Rightarrow> ApprovalRequirement \<Rightarrow> bool \<Rightarrow> ToolPermission" where
  "resolve_tool_permission authority requirement is_non_bypassable =
     (if ta_approval_mode authority = ApprovalMode.Never \<and> requirement \<noteq> ApprovalRequirement.Auto \<and>
         \<not> ta_auto_approve authority \<and> ta_mode authority \<noteq> AppMode.Yolo
      then ToolPermission.Deny
      else if requirement = ApprovalRequirement.Auto then ToolPermission.Allow
      else if is_non_bypassable then ToolPermission.Prompt
      else if ta_auto_approve authority \<or> ta_approval_mode authority = ApprovalMode.Bypass \<or>
          ta_mode authority = AppMode.Yolo
      then ToolPermission.Allow
      else ToolPermission.Prompt)"

datatype ApprovalRequestDisposition =
  AutoApprove | AutoDenySessionDenied | AutoDenyFullAccessPolicyHold | AutoDenyNeverPosture | Prompt

definition resolve_approval_request_disposition ::
    "TurnAuthority \<Rightarrow> bool \<Rightarrow> bool \<Rightarrow> bool \<Rightarrow> ApprovalRequestDisposition" where
  "resolve_approval_request_disposition authority session_approved session_denied approval_force_prompt =
     (if session_denied then AutoDenySessionDenied
      else
        (let posture = resolve_tool_permission authority ApprovalRequirement.Suggest False
         in if approval_force_prompt \<and> posture = ToolPermission.Allow then AutoDenyFullAccessPolicyHold
            else if \<not> approval_force_prompt \<and> (posture = ToolPermission.Allow \<or> session_approved)
            then AutoApprove
            else if posture = ToolPermission.Deny then AutoDenyNeverPosture
            else ApprovalRequestDisposition.Prompt))"

section \<open>No input gains authority\<close>

text \<open>Full access as the permission resolver reads it.\<close>

definition full_access :: "TurnAuthority \<Rightarrow> bool" where
  "full_access a \<longleftrightarrow>
     ta_auto_approve a \<or> ta_approval_mode a = ApprovalMode.Bypass \<or> ta_mode a = AppMode.Yolo"

lemma tool_permission_Allow:
  "resolve_tool_permission a req hold = ToolPermission.Allow \<longleftrightarrow>
     req = ApprovalRequirement.Auto \<or> \<not> hold \<and> full_access a"
  by (auto simp: resolve_tool_permission_def full_access_def)

lemma tool_permission_Deny:
  "resolve_tool_permission a req hold = ToolPermission.Deny \<longleftrightarrow>
     req \<noteq> ApprovalRequirement.Auto \<and> ta_approval_mode a = ApprovalMode.Never \<and> \<not> full_access a"
  by (auto simp: resolve_tool_permission_def full_access_def)

lemma narrowed_fields:
  assumes "\<not> provenance_can_inherit_standing_auto_authority p"
  shows "ta_mode (effective_input_policy p m c sh tr au ap) = (if m = AppMode.Yolo then AppMode.Agent else m)"
    "ta_trust_mode (effective_input_policy p m c sh tr au ap) = False"
    "ta_auto_approve (effective_input_policy p m c sh tr au ap) = False"
    "ta_approval_mode (effective_input_policy p m c sh tr au ap) =
       (if ap = ApprovalMode.Auto \<or> ap = ApprovalMode.Bypass then ApprovalMode.Suggest else ap)"
    "ta_allow_shell (effective_input_policy p m c sh tr au ap) = sh"
  using assms by (simp_all add: effective_input_policy_def Let_def)

text \<open>
  C3. Input that cannot inherit authority (imported transcripts, recalled memory, assistant text) runs
  without it: whatever the session was set to, the turn is not full access and not trusted, no tool that
  asks for approval is released without a prompt, and the sandbox stays on.
\<close>

theorem non_authoritative_input_is_narrowed:
  assumes "provenance \<in> {ImportedTranscript, MemoryRecall, AssistantGenerated}"
    and "turn = effective_input_policy provenance mode content allow_shell trust auto_approve approval"
  shows "\<not> full_access turn \<and> \<not> ta_trust_mode turn \<and>
     (requirement \<noteq> ApprovalRequirement.Auto \<longrightarrow>
        resolve_tool_permission turn requirement hold \<noteq> ToolPermission.Allow) \<and>
     should_sandbox (turn_sandbox_policy turn workspace configured)"
proof -
  have p: "\<not> provenance_can_inherit_standing_auto_authority provenance"
    using assms(1) by (auto simp: provenance_can_inherit_standing_auto_authority_def)
  note f = narrowed_fields [OF p]
  have nf: "\<not> full_access turn" by (auto simp: assms(2) full_access_def f)
  have "should_sandbox (turn_sandbox_policy turn workspace configured)"
    using nf by (auto simp: turn_sandbox_policy_def sandbox_policy_for_turn_def full_access_def Let_def
        approval_mode_for_session_def agent_approval_mode_for_turn_def workspace_write_policy_def)
  with nf show ?thesis by (auto simp: tool_permission_Allow assms(2) f)
qed

theorem non_authoritative_input_is_narrowed_witness:
  "\<not> full_access (effective_input_policy MemoryRecall AppMode.Yolo ''run it'' True True True ApprovalMode.Bypass) \<and>
   resolve_tool_permission (effective_input_policy MemoryRecall AppMode.Yolo ''run it'' True True True
     ApprovalMode.Bypass) ApprovalRequirement.Required False \<noteq> ToolPermission.Allow \<and>
   should_sandbox (turn_sandbox_policy (effective_input_policy MemoryRecall AppMode.Yolo ''run it'' True True True
     ApprovalMode.Bypass) ''/repo'' None)"
  using non_authoritative_input_is_narrowed [of MemoryRecall _ AppMode.Yolo "''run it''" True True True
      ApprovalMode.Bypass ApprovalRequirement.Required False "''/repo''" None, OF _ refl] by simp

lemma inherited_fields:
  assumes "provenance_can_inherit_standing_auto_authority p"
  shows "ta_mode (effective_input_policy p m c sh tr au ap) = m"
    "ta_trust_mode (effective_input_policy p m c sh tr au ap) = tr"
    "ta_auto_approve (effective_input_policy p m c sh tr au ap) = (ap = ApprovalMode.Bypass \<or> au)"
    "ta_approval_mode (effective_input_policy p m c sh tr au ap) = ap"
    "ta_narrowing (effective_input_policy p m c sh tr au ap) = None"
    "ta_allow_shell (effective_input_policy p m c sh tr au ap) = sh"
  using assms by (simp_all add: effective_input_policy_def Let_def)

text \<open>
  No input gains authority: the turn is full access or trusted only if the requested posture was,
  and its shell policy is the requested one or narrower, for every provenance. Under a posture that the
  session already holds in full the turn is normalised: \<open>Bypass\<close> implies the auto-approve bit.
\<close>

theorem input_never_gains_authority:
  assumes "turn = effective_input_policy provenance mode content allow_shell trust auto_approve approval"
  shows "(full_access turn \<longrightarrow> full_access (from_effective_fields mode allow_shell trust auto_approve approval)) \<and>
     (ta_trust_mode turn \<longrightarrow> trust) \<and>
     turn_shell_policy turn \<le> shell_policy_for_mode mode allow_shell \<and>
     (ta_approval_mode turn = ApprovalMode.Bypass \<longrightarrow> ta_auto_approve turn)"
proof (cases "provenance_can_inherit_standing_auto_authority provenance")
  case True
  then show ?thesis
    by (auto simp: assms inherited_fields full_access_def from_effective_fields_def turn_shell_policy_def)
next
  case False
  then show ?thesis
    by (cases mode) (auto simp: assms narrowed_fields full_access_def from_effective_fields_def
        turn_shell_policy_def shell_policy_for_mode_def)
qed

theorem input_never_gains_authority_witness:
  "turn_shell_policy (effective_input_policy Runtime AppMode.Agent [] True False False ApprovalMode.Bypass)
     \<le> shell_policy_for_mode AppMode.Agent True \<and>
   \<not> ta_trust_mode (effective_input_policy Runtime AppMode.Agent [] True False False ApprovalMode.Bypass)"
  using input_never_gains_authority [OF refl, of Runtime AppMode.Agent "[]" True False False ApprovalMode.Bypass]
  by blast

section \<open>What a narrowing records\<close>

lemma narrowing_recorded:
  "ta_narrowing (effective_input_policy p m c sh tr au ap) \<noteq> None \<longleftrightarrow>
     \<not> provenance_can_inherit_standing_auto_authority p \<and>
     (m = AppMode.Yolo \<or> tr \<or> au \<or> ap = ApprovalMode.Bypass)"
  by (auto simp: effective_input_policy_def Let_def)

text \<open>
  The posture Auto-Review is narrowed in silence: when it is the only standing authority, input
  that cannot inherit turns it into Ask and records no event; and the mode strings of a recorded event
  never differ, because the settings name of Yolo is the one of Agent.
\<close>

theorem auto_review_narrowed_silently:
  assumes "provenance \<in> {ImportedTranscript, MemoryRecall, AssistantGenerated}"
  shows "ta_narrowing (effective_input_policy provenance AppMode.Agent content sh False False ApprovalMode.Auto) = None \<and>
     ta_approval_mode (effective_input_policy provenance AppMode.Agent content sh False False ApprovalMode.Auto) =
       ApprovalMode.Suggest \<and>
     (\<forall>m tr au ap e. ta_narrowing (effective_input_policy provenance m content sh tr au ap) = Some e \<longrightarrow>
        pne_from_mode e = pne_to_mode e)"
proof -
  have p: "\<not> provenance_can_inherit_standing_auto_authority provenance"
    using assms by (auto simp: provenance_can_inherit_standing_auto_authority_def)
  then have "pne_from_mode e = pne_to_mode e"
    if "ta_narrowing (effective_input_policy provenance m content sh tr au ap) = Some e" for m tr au ap e
    using that by (auto simp: effective_input_policy_def Let_def split: if_splits)
  with p show ?thesis
    using narrowing_recorded [of provenance AppMode.Agent content sh False False ApprovalMode.Auto]
    by (auto simp: narrowed_fields)
qed

theorem auto_review_narrowed_silently_witness:
  "ta_narrowing (effective_input_policy MemoryRecall AppMode.Agent [] True False False ApprovalMode.Auto) = None \<and>
   ta_approval_mode (effective_input_policy MemoryRecall AppMode.Agent [] True False False ApprovalMode.Auto) =
     ApprovalMode.Suggest"
  using auto_review_narrowed_silently [of MemoryRecall "[]" True] by simp

section \<open>Dispositions and sandbox scope\<close>

text \<open>
  When a request is approved without the user: exactly if the key was not denied in the session, the
  request is not a forced hold, and the turn is full access or the session holds a grant. A forced hold is
  never approved silently, and under full access it is denied instead of prompted.
\<close>

theorem silent_approval_iff:
  "(resolve_approval_request_disposition a approved denied forced = AutoApprove \<longleftrightarrow>
      \<not> denied \<and> \<not> forced \<and> (full_access a \<or> approved)) \<and>
   (resolve_approval_request_disposition a approved denied forced = ApprovalRequestDisposition.Prompt \<longleftrightarrow>
      \<not> denied \<and> \<not> full_access a \<and> \<not> (approved \<and> \<not> forced) \<and> ta_approval_mode a \<noteq> ApprovalMode.Never)"
proof -
  have posture: "resolve_tool_permission a ApprovalRequirement.Suggest False = ToolPermission.Allow \<longleftrightarrow> full_access a"
    "resolve_tool_permission a ApprovalRequirement.Suggest False = ToolPermission.Deny \<longleftrightarrow>
       ta_approval_mode a = ApprovalMode.Never \<and> \<not> full_access a"
    by (simp_all add: tool_permission_Allow tool_permission_Deny)
  show ?thesis
    by (cases denied; cases forced; cases "full_access a")
      (auto simp: resolve_approval_request_disposition_def Let_def posture)
qed

text \<open>How much a sandbox policy lets a command write: nothing, the workspace, everything.\<close>

fun write_scope :: "SandboxPolicy \<Rightarrow> nat" where
  "write_scope SandboxPolicy.ReadOnly = 0"
| "write_scope (WorkspaceWrite _ _ _ _) = 1"
| "write_scope (ExternalSandbox _) = 2"
| "write_scope DangerFullAccess = 3"

text \<open>
  The sandbox of a turn: Plan is read-only whatever is configured; unrestricted access needs the
  Full Access posture outside Plan; and a configured sandbox mode only ever tightens the scope the
  posture gives, so no setting loosens Plan, Ask or Auto-Review.
\<close>

theorem configured_sandbox_only_tightens:
  "sandbox_policy_for_turn AppMode.Plan approval configured workspace = SandboxPolicy.ReadOnly \<and>
   (has_full_disk_write_access (sandbox_policy_for_turn mode approval configured workspace) \<longleftrightarrow>
      mode \<noteq> AppMode.Plan \<and> (mode = AppMode.Yolo \<or> approval = ApprovalMode.Bypass) \<and>
      configured \<notin> {Some ''read-only'', Some ''workspace-write''}) \<and>
   write_scope (sandbox_policy_for_turn mode approval configured workspace) \<le>
     write_scope (sandbox_policy_for_turn mode approval None workspace)"
proof -
  have "''external-sandbox'' \<noteq> ''read-only''" "''external-sandbox'' \<noteq> ''workspace-write''"
    "''read-only'' \<noteq> ''workspace-write''" by simp_all
  then show ?thesis
    by (auto simp: sandbox_policy_for_turn_def workspace_write_policy_def Let_def)
qed

text \<open>
  The mode table: only Yolo grants full access on its own, Plan grants nothing, and the other modes are
  the durable baseline.
\<close>

lemma base_policy_modes:
  "emp_allow_shell (base_policy_for_mode AppMode.Plan prefs) = False"
  "emp_trust_mode (base_policy_for_mode AppMode.Plan prefs) = False"
  "uses_agent_baseline mode \<Longrightarrow>
     emp_approval_mode (base_policy_for_mode mode prefs) = agent_approval_mode prefs"
  "emp_approval_mode (base_policy_for_mode mode prefs) = ApprovalMode.Bypass \<Longrightarrow>
     mode = AppMode.Yolo \<or> uses_agent_baseline mode \<and> agent_approval_mode prefs = ApprovalMode.Bypass"
  by (auto simp: base_policy_for_mode_def uses_agent_baseline_def split: AppMode.splits)

end
