(* ===== verification/Run_Budget.thy ===== *)
theory Run_Budget
  imports Rust_Str
begin

text \<open>
  Budgets, retries and the goal loop: \<open>core/runtime_contract/budget.rs\<close> and \<open>retry.rs\<close>, and the
  continuation decision of \<open>goal_loop.rs\<close>. A child budget is an attenuation of its parent's.
\<close>

section \<open>Execution budgets\<close>

record ExecutionBudget =
  max_steps :: u32
  max_tool_calls :: u32
  max_retries :: u32
  max_wall_time_ms :: u64

record BudgetUsage =
  used_steps :: u32
  used_tool_calls :: u32
  used_retries :: u32
  used_elapsed_ms :: u64

datatype BudgetExhaustion = Steps | ToolCalls | Retries | WallTime

definition budget_validate :: "ExecutionBudget \<Rightarrow> unit str_result" where
  "budget_validate b =
     (if max_steps b = 0 then Inl ''execution budget max_steps must be greater than zero''
      else if max_tool_calls b = 0 then Inl ''execution budget max_tool_calls must be greater than zero''
      else if max_wall_time_ms b = 0 then Inl ''execution budget max_wall_time_ms must be greater than zero''
      else Inr ())"

text \<open>A \<open>Duration\<close> as whole seconds and nanoseconds.\<close>

definition wall_time :: "ExecutionBudget \<Rightarrow> nat \<times> nat" where
  "wall_time b = (unat (max_wall_time_ms b) div 1000, unat (max_wall_time_ms b) mod 1000 * 1000000)"

definition exhausted_by :: "ExecutionBudget \<Rightarrow> BudgetUsage \<Rightarrow> BudgetExhaustion option" where
  "exhausted_by b u =
     (if max_steps b \<le> used_steps u then Some Steps
      else if max_tool_calls b \<le> used_tool_calls u then Some ToolCalls
      else if max_retries b < used_retries u then Some Retries
      else if max_wall_time_ms b \<le> used_elapsed_ms u then Some WallTime
      else None)"

definition child_budget :: "ExecutionBudget \<Rightarrow> ExecutionBudget \<Rightarrow> ExecutionBudget" where
  "child_budget b requested =
     \<lparr>max_steps = min (max_steps b) (max_steps requested),
      max_tool_calls = min (max_tool_calls b) (max_tool_calls requested),
      max_retries = min (max_retries b) (max_retries requested),
      max_wall_time_ms = min (max_wall_time_ms b) (max_wall_time_ms requested)\<rparr>"

definition budget_below :: "ExecutionBudget \<Rightarrow> ExecutionBudget \<Rightarrow> bool" where
  "budget_below a b \<longleftrightarrow>
     max_steps a \<le> max_steps b \<and> max_tool_calls a \<le> max_tool_calls b \<and>
     max_retries a \<le> max_retries b \<and> max_wall_time_ms a \<le> max_wall_time_ms b"

interpretation budget: attenuation budget_below child_budget
  by unfold_locales (auto simp: budget_below_def child_budget_def)

definition usage_below :: "BudgetUsage \<Rightarrow> BudgetUsage \<Rightarrow> bool" where
  "usage_below a b \<longleftrightarrow>
     used_steps a \<le> used_steps b \<and> used_tool_calls a \<le> used_tool_calls b \<and>
     used_retries a \<le> used_retries b \<and> used_elapsed_ms a \<le> used_elapsed_ms b"

lemma exhausted_by_None:
  "exhausted_by b u = None \<longleftrightarrow>
     used_steps u < max_steps b \<and> used_tool_calls u < max_tool_calls b \<and>
     used_retries u \<le> max_retries b \<and> used_elapsed_ms u < max_wall_time_ms b"
  by (simp add: exhausted_by_def not_le not_less)

lemma exhausted_mono:
  assumes "budget_below c b" and "usage_below u v" and "exhausted_by c v = None"
  shows "exhausted_by b u = None"
  using assms unfolding exhausted_by_None budget_below_def usage_below_def by (meson le_less_trans less_le_trans order_trans)

text \<open>
  Exhaustion is inherited by every descendant: once a budget is exhausted it stays exhausted as usage
  grows, in each budget derived from it by any sequence of child requests.
\<close>

theorem descendant_budget_exhausts_first:
  assumes "exhausted_by parent usage \<noteq> None" and "usage_below usage later"
  shows "exhausted_by (foldl child_budget parent requests) later \<noteq> None"
  using exhausted_mono [OF budget.fold_derive_below [of parent requests] assms(2)] assms(1) by blast

theorem descendant_budget_exhausts_first_witness:
  "exhausted_by (foldl child_budget \<lparr>max_steps = 4, max_tool_calls = 9, max_retries = 0, max_wall_time_ms = 50\<rparr>
       [\<lparr>max_steps = 100, max_tool_calls = 100, max_retries = 7, max_wall_time_ms = 900\<rparr>])
     \<lparr>used_steps = 5, used_tool_calls = 0, used_retries = 0, used_elapsed_ms = 0\<rparr> \<noteq> None"
  by (rule descendant_budget_exhausts_first
      [where usage = "\<lparr>used_steps = 4, used_tool_calls = 0, used_retries = 0, used_elapsed_ms = 0\<rparr>"])
    (simp_all add: exhausted_by_def usage_below_def)

section \<open>Retries\<close>

datatype OperationClass =
  ModelRequest | ModelStream | ToolTransport | ToolExecution | ContextCompaction | Verification | ChildRun

datatype Idempotency = ReadOnlyOp | IdempotentWrite | NonIdempotentWrite | UnknownWrite

record RetryAttempt =
  ra_operation :: OperationClass
  ra_idempotency :: Idempotency
  ra_attempt :: u32
  ra_max_attempts :: u32
  ra_content_observed :: bool
  ra_side_effect_observed :: bool
  ra_canceled :: bool
  ra_reason :: string

datatype RetryDecision = Retry | StopRetry string

definition decide_retry :: "RetryAttempt \<Rightarrow> RetryDecision" where
  "decide_retry a =
     (if ra_canceled a then StopRetry ''operation was canceled''
      else if ra_max_attempts a \<le> ra_attempt a then StopRetry ''retry budget exhausted''
      else if ra_side_effect_observed a \<and>
          (case ra_idempotency a of NonIdempotentWrite \<Rightarrow> True | UnknownWrite \<Rightarrow> True | _ \<Rightarrow> False)
      then StopRetry ''uncertain write side effect prevents an automatic retry''
      else if ra_content_observed a \<and> ra_operation a = ModelStream
      then StopRetry ''model stream already emitted content''
      else Retry)"

lemma decide_retry_Retry:
  "decide_retry a = Retry \<longleftrightarrow>
     \<not> ra_canceled a \<and> ra_attempt a < ra_max_attempts a \<and>
     \<not> (ra_side_effect_observed a \<and> ra_idempotency a \<in> {NonIdempotentWrite, UnknownWrite}) \<and>
     \<not> (ra_content_observed a \<and> ra_operation a = ModelStream)"
  by (cases "ra_idempotency a") (auto simp: decide_retry_def not_le)

text \<open>The attempts an adapter makes while the decision is to retry.\<close>

definition next_attempt :: "RetryAttempt \<Rightarrow> RetryAttempt" where
  "next_attempt a = a\<lparr>ra_attempt := ra_attempt a + 1\<rparr>"

lemma next_attempt_fields [simp]:
  "ra_attempt (next_attempt a) = ra_attempt a + 1" "ra_max_attempts (next_attempt a) = ra_max_attempts a"
  by (simp_all add: next_attempt_def)

lemma retry_attempts:
  assumes "\<forall>i < n. decide_retry ((next_attempt ^^ i) a) = Retry"
  shows "unat (ra_attempt ((next_attempt ^^ n) a)) = unat (ra_attempt a) + n \<and>
    ra_max_attempts ((next_attempt ^^ n) a) = ra_max_attempts a \<and>
    (0 < n \<longrightarrow> unat (ra_attempt a) + n \<le> unat (ra_max_attempts a))"
  using assms
proof (induction n)
  case (Suc n)
  then have IH: "unat (ra_attempt ((next_attempt ^^ n) a)) = unat (ra_attempt a) + n"
    "ra_max_attempts ((next_attempt ^^ n) a) = ra_max_attempts a" by simp_all
  from Suc.prems have "decide_retry ((next_attempt ^^ n) a) = Retry" by simp
  then have lt: "ra_attempt ((next_attempt ^^ n) a) < ra_max_attempts a"
    using IH(2) by (simp add: decide_retry_Retry)
  then have "unat (ra_attempt ((next_attempt ^^ n) a) + 1) = Suc (unat (ra_attempt ((next_attempt ^^ n) a)))"
    by (rule unat_Suc_below)
  with IH lt show ?case by (simp add: word_less_nat_alt)
qed simp

text \<open>
  Retrying is safe and bounded: an attempt is repeated exactly if it was not canceled, has budget
  left, left no uncertain write behind and did not stream content; and no run of consecutive retries is
  longer than the budget that was left.
\<close>

theorem retries_safe_and_bounded:
  assumes "\<forall>i < n. decide_retry ((next_attempt ^^ i) a) = Retry"
  shows "n \<le> unat (ra_max_attempts a) - unat (ra_attempt a) \<and>
    (decide_retry a = Retry \<longleftrightarrow>
       \<not> ra_canceled a \<and> ra_attempt a < ra_max_attempts a \<and>
       \<not> (ra_side_effect_observed a \<and> ra_idempotency a \<in> {NonIdempotentWrite, UnknownWrite}) \<and>
       \<not> (ra_content_observed a \<and> ra_operation a = ModelStream))"
  using retry_attempts [OF assms] decide_retry_Retry [of a] by (cases n) auto

definition sample_attempt :: RetryAttempt where
  "sample_attempt = \<lparr>ra_operation = ModelRequest, ra_idempotency = ReadOnlyOp, ra_attempt = 1, ra_max_attempts = 3,
     ra_content_observed = False, ra_side_effect_observed = False, ra_canceled = False, ra_reason = []\<rparr>"

theorem retries_safe_and_bounded_witness:
  "(2 :: nat) \<le> unat (ra_max_attempts sample_attempt) - unat (ra_attempt sample_attempt)"
proof -
  have "decide_retry sample_attempt = Retry" "decide_retry (next_attempt sample_attempt) = Retry"
    by code_simp+
  then have "\<forall>i < 2. decide_retry ((next_attempt ^^ i) sample_attempt) = Retry"
    by (auto dest!: less_2_cases)
  from retries_safe_and_bounded [OF this] show ?thesis by blast
qed

section \<open>The goal loop\<close>

definition MAX_GOAL_CONTINUATIONS :: u32 where
  "MAX_GOAL_CONTINUATIONS = 10"

datatype GoalRunStatus = Active | Completed | Blocked

datatype StopReason = GoalCompleted | GoalBlocked | TokenBudget | TimeBudget | ContinuationLimit

record GoalProgress =
  tokens_used :: u64
  time_used_seconds :: u64
  continuations :: u32

record GoalBudget =
  token_budget :: "u64 option"
  time_budget_seconds :: "u64 option"

definition GoalBudget_unbounded :: GoalBudget where
  "GoalBudget_unbounded = \<lparr>token_budget = None, time_budget_seconds = None\<rparr>"

definition GoalBudget_with_token_budget :: "u64 \<Rightarrow> GoalBudget" where
  "GoalBudget_with_token_budget t = \<lparr>token_budget = Some t, time_budget_seconds = None\<rparr>"

datatype ContinuationDecision = Continue | StopGoal StopReason

definition token_budget_exhausted :: "GoalProgress \<Rightarrow> GoalBudget \<Rightarrow> bool" where
  "token_budget_exhausted p b = (case token_budget b of Some tokens \<Rightarrow> tokens \<le> tokens_used p | None \<Rightarrow> False)"

definition decide_continuation :: "GoalRunStatus \<Rightarrow> GoalProgress \<Rightarrow> GoalBudget \<Rightarrow> ContinuationDecision" where
  "decide_continuation status p b =
     (case status of
        Completed \<Rightarrow> StopGoal GoalCompleted
      | Blocked \<Rightarrow> StopGoal GoalBlocked
      | Active \<Rightarrow>
          if token_budget_exhausted p b then StopGoal TokenBudget
          else if (case time_budget_seconds b of Some secs \<Rightarrow> secs \<le> time_used_seconds p | None \<Rightarrow> False)
          then StopGoal TimeBudget
          else if MAX_GOAL_CONTINUATIONS \<le> continuations p then StopGoal ContinuationLimit
          else Continue)"

definition goal_is_success :: "StopReason \<Rightarrow> bool" where
  "goal_is_success reason = (reason = GoalCompleted)"

lemma decide_continuation_Continue:
  "decide_continuation status p b = Continue \<longleftrightarrow>
     status = Active \<and> \<not> token_budget_exhausted p b \<and>
     (\<forall>secs. time_budget_seconds b = Some secs \<longrightarrow> time_used_seconds p < secs) \<and>
     continuations p < MAX_GOAL_CONTINUATIONS"
  by (auto simp: decide_continuation_def not_le not_less split: GoalRunStatus.splits option.splits)

text \<open>
  A goal run ends: in any run in which every dispatched pass raises the durable continuation counter by
  one, the loop dispatches at most ten passes, whatever the model reports and however small its usage; and
  it only stops with success when the status is Completed.
\<close>

theorem goal_loop_bounded:
  assumes "\<forall>i < n. decide_continuation (status i) (progress i) budget = Continue \<and>
      continuations (progress (Suc i)) = continuations (progress i) + 1"
    and "continuations (progress 0) = 0"
  shows "n \<le> 10 \<and>
    (decide_continuation s p budget = StopGoal reason \<and> goal_is_success reason \<longleftrightarrow>
       s = Completed \<and> reason = GoalCompleted)"
proof -
  have "n \<le> 10 \<and> unat (continuations (progress n)) = n"
    using assms(1)
  proof (induction n)
    case 0
    show ?case by (simp add: assms(2))
  next
    case (Suc n)
    then have IH: "n \<le> 10" "unat (continuations (progress n)) = n" by simp_all
    from Suc.prems have lt: "continuations (progress n) < 10"
      by (auto simp: decide_continuation_Continue MAX_GOAL_CONTINUATIONS_def)
    with IH(2) have "n < 10" by (simp add: word_less_nat_alt)
    moreover have "continuations (progress (Suc n)) = continuations (progress n) + 1"
      using Suc.prems by simp
    ultimately show ?case using unat_Suc_below [OF lt] IH(2) by simp
  qed
  then show ?thesis
    by (auto simp: decide_continuation_def goal_is_success_def split: GoalRunStatus.splits if_splits)
qed

definition demo_progress :: "nat \<Rightarrow> GoalProgress" where
  "demo_progress i = \<lparr>tokens_used = 0, time_used_seconds = 0, continuations = of_nat i\<rparr>"

theorem goal_loop_bounded_witness:
  "(2 :: nat) \<le> 10 \<and> decide_continuation Active (demo_progress 1) GoalBudget_unbounded = Continue"
proof -
  have c: "decide_continuation Active (demo_progress 0) GoalBudget_unbounded = Continue"
    "decide_continuation Active (demo_progress 1) GoalBudget_unbounded = Continue" by code_simp+
  then have "\<forall>i < 2. decide_continuation ((\<lambda>_. Active) i) (demo_progress i) GoalBudget_unbounded = Continue \<and>
      continuations (demo_progress (Suc i)) = continuations (demo_progress i) + 1"
    by (auto simp: demo_progress_def dest!: less_2_cases)
  from goal_loop_bounded [OF this] c show ?thesis by (simp add: demo_progress_def)
qed

end
