(* ===== verification/Progress_Guard.thy ===== *)
theory Progress_Guard
  imports Rust_Str
begin

text \<open>
  The structural no-progress detector (\<open>core/runtime_contract/progress.rs\<close>). It keeps a bounded
  history of action fingerprints, recognises identical repetition, two-action cycles and idle runs,
  warns once and stops the next time. \<open>usize\<close> values are natural numbers.
\<close>

record ActionFingerprint =
  af_operation :: string
  af_target :: "string option"
  af_input_digest :: string
  af_outcome_digest :: "string option"
  af_succeeded :: bool
  af_changed_state :: bool

record ProgressGuardConfig =
  identical_action_limit :: nat
  alternating_cycle_limit :: nat
  no_progress_limit :: nat
  history_limit :: nat

definition ProgressGuardConfig_default :: ProgressGuardConfig where
  "ProgressGuardConfig_default =
     \<lparr>identical_action_limit = 3, alternating_cycle_limit = 3, no_progress_limit = 6, history_limit = 16\<rparr>"

datatype GuardDecision = Continue | Warn string | Stop string

record ProgressGuard =
  pg_config :: ProgressGuardConfig
  pg_history :: "ActionFingerprint list"
  pg_warning_issued :: bool

definition ProgressGuard_new :: "ProgressGuardConfig \<Rightarrow> ProgressGuard" where
  "ProgressGuard_new config = \<lparr>pg_config = config, pg_history = [], pg_warning_issued = False\<rparr>"

definition same_action :: "ActionFingerprint \<Rightarrow> ActionFingerprint \<Rightarrow> bool" where
  "same_action l r =
     (af_operation l = af_operation r \<and> af_target l = af_target r \<and>
      af_input_digest l = af_input_digest r \<and> af_outcome_digest l = af_outcome_digest r \<and>
      af_succeeded l = af_succeeded r \<and> af_changed_state l = af_changed_state r)"

definition usize_max :: nat where
  "usize_max = 2 ^ 64 - 1"

definition backticked :: "string \<Rightarrow> string" where
  "backticked s = [CHR 0x60] @ s @ [CHR 0x60]"

definition identical_loop_reason :: "ProgressGuard \<Rightarrow> string option" where
  "identical_loop_reason g =
     (let limit = identical_action_limit (pg_config g)
      in if limit < 2 \<or> length (pg_history g) < limit then None
         else
           (let recent = take limit (rev (pg_history g))
            in case recent of
                 [] \<Rightarrow> None
               | first # _ \<Rightarrow>
                   if list_all (\<lambda>action. same_action first action) recent
                   then Some (''repeated identical '' @ backticked (af_operation first) @ '' action without progress'')
                   else None))"

definition alternating_loop_reason :: "ProgressGuard \<Rightarrow> string option" where
  "alternating_loop_reason g =
     (let cycles = alternating_cycle_limit (pg_config g);
          needed = min (cycles * 2) usize_max
      in if cycles < 2 \<or> length (pg_history g) < needed then None
         else
           (let recent = take needed (rev (pg_history g))
            in case recent of
                 a # b # _ \<Rightarrow>
                   if same_action a b then None
                   else if list_all (\<lambda>(index, action). same_action (if index mod 2 = 0 then a else b) action)
                       (List.enumerate 0 recent)
                   then Some (''alternating '' @ backticked (af_operation a) @ ''/'' @ backticked (af_operation b) @
                     '' actions are cycling without progress'')
                   else None
               | _ \<Rightarrow> None))"

definition no_progress_reason :: "ProgressGuard \<Rightarrow> string option" where
  "no_progress_reason g =
     (let limit = no_progress_limit (pg_config g)
      in if limit = 0 \<or> length (pg_history g) < limit then None
         else if list_all (\<lambda>action. \<not> af_changed_state action) (take limit (rev (pg_history g)))
         then Some (show_nat limit @ '' consecutive actions produced no observable state change'')
         else None)"

definition guard_reason :: "ProgressGuard \<Rightarrow> string option" where
  "guard_reason g =
     option_or (identical_loop_reason g) (option_or (alternating_loop_reason g) (no_progress_reason g))"

definition record_action :: "ProgressGuard \<Rightarrow> ActionFingerprint \<Rightarrow> ProgressGuard" where
  "record_action g action =
     (let history = pg_history g @ [action]
      in g\<lparr>pg_warning_issued := (if af_changed_state action then False else pg_warning_issued g),
           pg_history := drop (length history - history_limit (pg_config g)) history\<rparr>)"

definition observe :: "ProgressGuard \<Rightarrow> ActionFingerprint \<Rightarrow> ProgressGuard \<times> GuardDecision" where
  "observe g action =
     (let g' = record_action g action
      in case guard_reason g' of
           None \<Rightarrow> (g', Continue)
         | Some reason \<Rightarrow>
             if pg_warning_issued g' then (g', Stop reason)
             else (g'\<lparr>pg_warning_issued := True\<rparr>, Warn reason))"

section \<open>Runs of observations\<close>

definition observe_all :: "ProgressGuard \<Rightarrow> ActionFingerprint list \<Rightarrow> ProgressGuard" where
  "observe_all g actions = foldl (\<lambda>g a. fst (observe g a)) g actions"

lemma observe_all_snoc: "observe_all g (as @ [a]) = fst (observe (observe_all g as) a)"
  by (simp add: observe_all_def)

lemma record_fields [simp]:
  "pg_config (record_action g a) = pg_config g"
  "length (pg_history (record_action g a)) = min (Suc (length (pg_history g))) (history_limit (pg_config g))"
  "pg_warning_issued (record_action g a) = (\<not> af_changed_state a \<and> pg_warning_issued g)"
  by (auto simp: record_action_def Let_def)

lemma record_rev_history:
  "rev (pg_history (record_action g a)) = take (history_limit (pg_config g)) (a # rev (pg_history g))"
proof -
  have "rev (drop (length xs - n) xs) = take n (rev xs)" for xs :: "ActionFingerprint list" and n
    by (cases "n \<le> length xs") (simp_all add: rev_drop)
  from this [of "pg_history g @ [a]" "history_limit (pg_config g)"] show ?thesis
    by (simp add: record_action_def Let_def)
qed

lemma observe_fields:
  "pg_config (fst (observe g a)) = pg_config g"
  "pg_history (fst (observe g a)) = pg_history (record_action g a)"
  "pg_warning_issued (fst (observe g a)) =
     (guard_reason (record_action g a) \<noteq> None \<or> \<not> af_changed_state a \<and> pg_warning_issued g)"
  by (auto simp: observe_def Let_def split: option.split)

lemma observe_Stop:
  "(\<exists>reason. snd (observe g a) = Stop reason) \<longleftrightarrow>
     guard_reason (record_action g a) \<noteq> None \<and> \<not> af_changed_state a \<and> pg_warning_issued g"
  by (auto simp: observe_def Let_def split: option.split)

lemma observe_all_config [simp]: "pg_config (observe_all g as) = pg_config g"
  by (induction as rule: rev_induct) (simp_all add: observe_all_def observe_fields)

lemma idle_history:
  assumes "\<forall>a \<in> set as. \<not> af_changed_state a" and "length as \<le> history_limit (pg_config g)"
  shows "length as \<le> length (pg_history (observe_all g as)) \<and>
    (\<forall>a \<in> set (take (length as) (rev (pg_history (observe_all g as)))). \<not> af_changed_state a)"
  using assms
proof (induction as rule: rev_induct)
  case (snoc a as)
  then have IH: "length as \<le> length (pg_history (observe_all g as))"
    "\<forall>a \<in> set (take (length as) (rev (pg_history (observe_all g as)))). \<not> af_changed_state a"
    by simp_all
  have "rev (pg_history (observe_all g (as @ [a]))) =
      take (history_limit (pg_config g)) (a # rev (pg_history (observe_all g as)))"
    by (simp add: observe_all_snoc observe_fields record_rev_history)
  then have "take (length (as @ [a])) (rev (pg_history (observe_all g (as @ [a])))) =
      a # take (length as) (rev (pg_history (observe_all g as)))"
    using snoc.prems(2) by (simp add: min_absorb1)
  moreover have "length (as @ [a]) \<le> length (pg_history (observe_all g (as @ [a])))"
    using IH(1) snoc.prems(2) by (simp add: observe_all_snoc observe_fields)
  ultimately show ?case using IH(2) snoc.prems(1) by simp
qed (simp add: observe_all_def)

lemma idle_reason:
  assumes "\<forall>a \<in> set (take (no_progress_limit (pg_config g)) (rev (pg_history g))). \<not> af_changed_state a"
    and "0 < no_progress_limit (pg_config g)" and "no_progress_limit (pg_config g) \<le> length (pg_history g)"
  shows "guard_reason g \<noteq> None"
proof -
  have "no_progress_reason g \<noteq> None"
    using assms by (simp add: no_progress_reason_def Let_def list_all_iff)
  then show ?thesis by (auto simp: guard_reason_def option_or_def split: option.split)
qed

text \<open>
  C14. An idle run is stopped: whatever the guard has seen before, the last of \<open>no_progress_limit + 1\<close>
  consecutive actions without a state change is answered with Stop, when the history is long enough to
  hold the run.
\<close>

theorem idle_run_is_stopped:
  assumes "\<forall>a \<in> set (as @ [b]). \<not> af_changed_state a"
    and "length as = no_progress_limit (pg_config g)" and "0 < no_progress_limit (pg_config g)"
    and "no_progress_limit (pg_config g) < history_limit (pg_config g)"
  shows "\<exists>reason. snd (observe (observe_all g as) b) = Stop reason"
proof -
  let ?L = "no_progress_limit (pg_config g)"
  obtain as' a where as: "as = as' @ [a]" using assms(2,3) by (cases as rule: rev_cases) auto
  have "guard_reason (record_action (observe_all g as') a) \<noteq> None"
  proof (rule idle_reason)
    have eq: "pg_history (record_action (observe_all g as') a) = pg_history (observe_all g as)"
      by (simp add: as observe_all_snoc observe_fields)
    show "\<forall>a \<in> set (take (no_progress_limit (pg_config (record_action (observe_all g as') a)))
        (rev (pg_history (record_action (observe_all g as') a)))). \<not> af_changed_state a"
      "no_progress_limit (pg_config (record_action (observe_all g as') a)) \<le>
        length (pg_history (record_action (observe_all g as') a))"
      unfolding eq using idle_history [of as g] assms by simp_all
    show "0 < no_progress_limit (pg_config (record_action (observe_all g as') a))" using assms(3) by simp
  qed
  then have warned: "pg_warning_issued (observe_all g as)"
    by (simp add: as observe_all_snoc observe_fields)
  have "guard_reason (record_action (observe_all g as) b) \<noteq> None"
  proof (rule idle_reason)
    have eq: "pg_history (record_action (observe_all g as) b) = pg_history (observe_all g (as @ [b]))"
      by (simp add: observe_all_snoc observe_fields)
    have h: "Suc ?L \<le> length (pg_history (observe_all g (as @ [b])))"
      "\<forall>a \<in> set (take (Suc ?L) (rev (pg_history (observe_all g (as @ [b]))))). \<not> af_changed_state a"
      using idle_history [of "as @ [b]" g] assms by simp_all
    have "set (take ?L xs) \<subseteq> set (take (Suc ?L) xs)" for xs :: "ActionFingerprint list"
      by (rule set_take_subset_set_take) simp
    with h show "\<forall>a \<in> set (take (no_progress_limit (pg_config (record_action (observe_all g as) b)))
        (rev (pg_history (record_action (observe_all g as) b)))). \<not> af_changed_state a"
      "no_progress_limit (pg_config (record_action (observe_all g as) b)) \<le>
        length (pg_history (record_action (observe_all g as) b))"
      unfolding eq by auto
    show "0 < no_progress_limit (pg_config (record_action (observe_all g as) b))" using assms(3) by simp
  qed
  then show ?thesis using observe_Stop warned assms(1) by simp
qed

definition idle_action :: ActionFingerprint where
  "idle_action = \<lparr>af_operation = ''read'', af_target = None, af_input_digest = [], af_outcome_digest = None,
     af_succeeded = True, af_changed_state = False\<rparr>"

theorem idle_run_is_stopped_witness:
  "\<exists>reason. snd (observe (observe_all (ProgressGuard_new ProgressGuardConfig_default) (replicate 6 idle_action))
     idle_action) = Stop reason"
  by (rule idle_run_is_stopped)
    (simp_all add: ProgressGuard_new_def ProgressGuardConfig_default_def idle_action_def)

text \<open>
  Progress is never stopped: an action that changes state is answered with Continue or Warn, a Stop is
  only given to a guard that has warned and seen no state change since, and the history never exceeds
  its limit.
\<close>

theorem state_change_is_never_stopped:
  assumes "snd (observe g a) = Stop reason"
  shows "\<not> af_changed_state a \<and> pg_warning_issued g \<and>
    length (pg_history (fst (observe g a))) \<le> history_limit (pg_config g)"
  using assms observe_Stop [of g a] by (auto simp: observe_fields)

theorem state_change_is_never_stopped_witness:
  "\<exists>reason. snd (observe \<lparr>pg_config = ProgressGuardConfig_default, pg_history = [idle_action, idle_action],
     pg_warning_issued = True\<rparr> idle_action) = Stop reason \<and> \<not> af_changed_state idle_action"
proof -
  let ?g = "\<lparr>pg_config = ProgressGuardConfig_default, pg_history = [idle_action, idle_action], pg_warning_issued = True\<rparr>"
  have "identical_loop_reason (record_action ?g idle_action) \<noteq> None"
    by (simp add: identical_loop_reason_def record_action_def ProgressGuardConfig_default_def same_action_def
        eval_nat_numeral Let_def)
  then have "guard_reason (record_action ?g idle_action) \<noteq> None"
    by (auto simp: guard_reason_def option_or_def)
  then obtain reason where "snd (observe ?g idle_action) = Stop reason"
    using observe_Stop [of ?g idle_action] by (auto simp: idle_action_def)
  with state_change_is_never_stopped [OF this] show ?thesis by blast
qed

end
