(* ===== verification/Runtime_Ledger.thy ===== *)
theory Runtime_Ledger
  imports Rust_Str
begin

text \<open>
  The append-only runtime ledger (\<open>core/runtime_contract/ledger.rs\<close>). The payload is an opaque JSON value
  and the checksum is the parameter \<open>digest\<close>: the serialisation with \<open>serde_json\<close> and the SHA-256 digest
  of \<open>sha2\<close>, applied to the eight fields the code puts into the canonical object. Sequence numbers are
  64-bit words and their increment wraps.
\<close>

definition RUNTIME_CONTRACT_SCHEMA_VERSION :: u32 where
  "RUNTIME_CONTRACT_SCHEMA_VERSION = 1"

datatype RuntimeEventKind =
  UserMessage | AssistantMessage | ToolStarted | ToolCompleted | ApprovalRequested | ApprovalResolved |
  SteeringQueued | SteeringDelivered | ResourcesLoaded | Condensation | Work | Child | Usage | RetryEvent |
  Termination

record 'v RuntimeEventEnvelope =
  ev_schema_version :: u32
  ev_sequence :: u64
  ev_event_id :: string
  ev_kind :: RuntimeEventKind
  ev_parent_event_id :: "string option"
  ev_causal_event_id :: "string option"
  ev_recorded_at_ms :: u64
  ev_payload :: 'v
  ev_checksum :: string

type_synonym 'v canonical_event =
  "u32 \<times> u64 \<times> string \<times> RuntimeEventKind \<times> string option \<times> string option \<times> u64 \<times> 'v"

type_synonym 'v digest = "'v canonical_event \<Rightarrow> string"

definition canonical :: "'v RuntimeEventEnvelope \<Rightarrow> 'v canonical_event" where
  "canonical e =
     (ev_schema_version e, ev_sequence e, ev_event_id e, ev_kind e, ev_parent_event_id e, ev_causal_event_id e,
      ev_recorded_at_ms e, ev_payload e)"

definition expected_checksum :: "'v digest \<Rightarrow> 'v RuntimeEventEnvelope \<Rightarrow> string" where
  "expected_checksum digest e = digest (canonical e)"

definition RuntimeEventEnvelope_new ::
  "'v digest \<Rightarrow> u64 \<Rightarrow> string \<Rightarrow> RuntimeEventKind \<Rightarrow> u64 \<Rightarrow> 'v \<Rightarrow> 'v RuntimeEventEnvelope" where
  "RuntimeEventEnvelope_new digest sequence event_id kind recorded_at_ms payload =
     (let event = \<lparr>ev_schema_version = RUNTIME_CONTRACT_SCHEMA_VERSION, ev_sequence = sequence,
            ev_event_id = event_id, ev_kind = kind, ev_parent_event_id = None, ev_causal_event_id = None,
            ev_recorded_at_ms = recorded_at_ms, ev_payload = payload, ev_checksum = []\<rparr>
      in event\<lparr>ev_checksum := expected_checksum digest event\<rparr>)"

definition event_validate :: "'v digest \<Rightarrow> 'v RuntimeEventEnvelope \<Rightarrow> unit str_result" where
  "event_validate digest e =
     (if ev_schema_version e \<noteq> RUNTIME_CONTRACT_SCHEMA_VERSION
      then Inl (''unsupported runtime event schema '' @ show_nat (unat (ev_schema_version e)))
      else if trim (ev_event_id e) = [] then Inl ''runtime event ID cannot be empty''
      else if ev_checksum e \<noteq> expected_checksum digest e
      then Inl (''runtime event '' @ ev_event_id e @ '' checksum mismatch'')
      else Inr ())"

record 'v AppendOnlyRuntimeLedger =
  ledger_events :: "'v RuntimeEventEnvelope list"

definition AppendOnlyRuntimeLedger_default :: "'v AppendOnlyRuntimeLedger" where
  "AppendOnlyRuntimeLedger_default = \<lparr>ledger_events = []\<rparr>"

definition expected_sequence :: "'v AppendOnlyRuntimeLedger \<Rightarrow> u64" where
  "expected_sequence l = (if ledger_events l = [] then 0 else ev_sequence (last (ledger_events l)) + 1)"

definition ledger_append ::
  "'v digest \<Rightarrow> 'v AppendOnlyRuntimeLedger \<Rightarrow> 'v RuntimeEventEnvelope \<Rightarrow>
     'v AppendOnlyRuntimeLedger \<times> unit str_result" where
  "ledger_append digest l e =
     (case event_validate digest e of
        Inl err \<Rightarrow> (l, Inl err)
      | Inr _ \<Rightarrow>
          if ev_sequence e \<noteq> expected_sequence l
          then (l, Inl (''runtime event sequence '' @ show_nat (unat (ev_sequence e)) @ '' does not follow '' @
            show_nat (unat (expected_sequence l))))
          else if list_ex (\<lambda>item. ev_event_id item = ev_event_id e) (ledger_events l)
          then (l, Inl (''duplicate runtime event ID '' @ [CHR 0x60] @ ev_event_id e @ [CHR 0x60]))
          else (l\<lparr>ledger_events := ledger_events l @ [e]\<rparr>, Inr ()))"

definition ledger_range ::
  "'v AppendOnlyRuntimeLedger \<Rightarrow> u64 \<Rightarrow> u64 \<Rightarrow> 'v RuntimeEventEnvelope list" where
  "ledger_range l start end_inclusive =
     filter (\<lambda>e. start \<le> ev_sequence e \<and> ev_sequence e \<le> end_inclusive) (ledger_events l)"

section \<open>Reachable ledgers\<close>

inductive ledger_reachable :: "'v digest \<Rightarrow> 'v AppendOnlyRuntimeLedger \<Rightarrow> bool" for digest where
  empty: "ledger_reachable digest AppendOnlyRuntimeLedger_default"
| append: "ledger_reachable digest l \<Longrightarrow> ledger_reachable digest (fst (ledger_append digest l e))"

definition admits :: "'v digest \<Rightarrow> 'v AppendOnlyRuntimeLedger \<Rightarrow> 'v RuntimeEventEnvelope \<Rightarrow> bool" where
  "admits digest l e \<longleftrightarrow>
     event_validate digest e = Inr () \<and> ev_sequence e = expected_sequence l \<and>
     ev_event_id e \<notin> ev_event_id ` set (ledger_events l)"

lemma ledger_append_eq:
  "fst (ledger_append digest l e) = (if admits digest l e then l\<lparr>ledger_events := ledger_events l @ [e]\<rparr> else l)"
  "snd (ledger_append digest l e) = Inr () \<longleftrightarrow> admits digest l e"
proof -
  have "list_ex (\<lambda>item. ev_event_id item = ev_event_id e) (ledger_events l) \<longleftrightarrow>
      ev_event_id e \<in> ev_event_id ` set (ledger_events l)"
    by (rule list_ex_image)
  then show "fst (ledger_append digest l e) =
      (if admits digest l e then l\<lparr>ledger_events := ledger_events l @ [e]\<rparr> else l)"
    "snd (ledger_append digest l e) = Inr () \<longleftrightarrow> admits digest l e"
    by (simp_all add: ledger_append_def admits_def split: sum.split)
qed

definition ledger_inv :: "'v digest \<Rightarrow> 'v AppendOnlyRuntimeLedger \<Rightarrow> bool" where
  "ledger_inv digest l \<longleftrightarrow>
     (\<forall>i < length (ledger_events l). ev_sequence (ledger_events l ! i) = of_nat i) \<and>
     distinct (map ev_event_id (ledger_events l)) \<and>
     (\<forall>e \<in> set (ledger_events l). event_validate digest e = Inr ())"

lemma inv_expected_sequence:
  assumes "ledger_inv digest l"
  shows "expected_sequence l = of_nat (length (ledger_events l))"
proof (cases "ledger_events l" rule: rev_cases)
  case (snoc es e)
  with assms have "ev_sequence e = of_nat (length es)"
    unfolding ledger_inv_def by (metis length_append_singleton lessI nth_append_length)
  with snoc show ?thesis by (simp add: expected_sequence_def)
qed (simp add: expected_sequence_def)

lemma inv_append:
  assumes "ledger_inv digest l"
  shows "ledger_inv digest (fst (ledger_append digest l e))"
proof (cases "admits digest l e")
  case True
  with assms inv_expected_sequence [OF assms] show ?thesis
    by (auto simp: ledger_append_eq ledger_inv_def admits_def nth_append less_Suc_eq)
qed (simp add: ledger_append_eq assms)

lemma reachable_inv: "ledger_reachable digest l \<Longrightarrow> ledger_inv digest l"
proof (induction rule: ledger_reachable.induct)
  case empty
  show ?case by (simp add: ledger_inv_def AppendOnlyRuntimeLedger_default_def)
qed (rule inv_append)

text \<open>
  C12. Every reachable ledger is a gap-free history: its i-th event carries the sequence number i modulo
  2^64, the event ids are pairwise distinct and every event passes its own validation.
\<close>

theorem ledger_history_sound:
  assumes "ledger_reachable digest l"
  shows "map ev_sequence (ledger_events l) = map of_nat [0..<length (ledger_events l)] \<and>
    distinct (map ev_event_id (ledger_events l)) \<and>
    list_all (\<lambda>e. event_validate digest e = Inr ()) (ledger_events l)"
  using reachable_inv [OF assms] by (auto simp: ledger_inv_def list_all_iff intro: nth_equalityI)

definition id_digest :: "unit digest" where
  "id_digest = (\<lambda>(_, _, event_id, _). event_id)"

definition one_event_ledger :: "unit AppendOnlyRuntimeLedger" where
  "one_event_ledger = fst (ledger_append id_digest AppendOnlyRuntimeLedger_default
     (RuntimeEventEnvelope_new id_digest 0 ''event-0'' UserMessage 1 ()))"

lemma one_event_reachable: "ledger_reachable id_digest one_event_ledger"
  unfolding one_event_ledger_def by (rule ledger_reachable.append [OF ledger_reachable.empty])

lemma one_event_events:
  "ledger_events one_event_ledger = [RuntimeEventEnvelope_new id_digest 0 ''event-0'' UserMessage 1 ()]"
  by code_simp

theorem ledger_history_sound_witness:
  "ledger_events one_event_ledger \<noteq> [] \<and> map ev_sequence (ledger_events one_event_ledger) = [0]"
  using ledger_history_sound [OF one_event_reachable] by (simp add: one_event_events)

text \<open>
  Appending is exact: on a reachable ledger an event is accepted if and only if it validates, carries
  the length of the ledger as its sequence number and has a new id; it is then added behind the
  unchanged events, and a rejected event leaves the ledger as it was.
\<close>

theorem ledger_append_exact:
  assumes "ledger_reachable digest l"
  shows "(snd (ledger_append digest l e) = Inr () \<longleftrightarrow>
      event_validate digest e = Inr () \<and> ev_sequence e = of_nat (length (ledger_events l)) \<and>
      ev_event_id e \<notin> set (map ev_event_id (ledger_events l))) \<and>
    ledger_events (fst (ledger_append digest l e)) =
      ledger_events l @ (if snd (ledger_append digest l e) = Inr () then [e] else [])"
  using inv_expected_sequence [OF reachable_inv [OF assms]]
  by (simp add: ledger_append_eq) (simp add: admits_def)

theorem ledger_append_exact_witness:
  "ledger_events (fst (ledger_append id_digest one_event_ledger
     (RuntimeEventEnvelope_new id_digest 2 ''event-2'' Termination 2 ()))) = ledger_events one_event_ledger"
  using ledger_append_exact [OF one_event_reachable, of "RuntimeEventEnvelope_new id_digest 2 ''event-2'' Termination 2 ()"]
  by (simp add: one_event_events RuntimeEventEnvelope_new_def)

section \<open>Ranges and tampering\<close>

lemma filter_index_range:
  assumes "\<forall>i < length xs. P (xs ! i) \<longleftrightarrow> a \<le> i \<and> i \<le> b"
  shows "filter P xs = drop a (take (Suc b) xs)"
  using assms
proof (induction xs rule: rev_induct)
  case (snoc x xs)
  have "\<forall>i < length xs. P (xs ! i) \<longleftrightarrow> a \<le> i \<and> i \<le> b"
  proof (intro allI impI)
    fix i
    assume "i < length xs"
    with snoc.prems [rule_format, of i] show "P (xs ! i) \<longleftrightarrow> a \<le> i \<and> i \<le> b" by (simp add: nth_append)
  qed
  from snoc.IH [OF this] have IH: "filter P xs = drop a (take (Suc b) xs)" .
  have "P x \<longleftrightarrow> a \<le> length xs \<and> length xs \<le> b"
    using snoc.prems [rule_format, of "length xs"] by simp
  with IH show ?case by (auto simp: take_Cons' not_le)
qed simp

text \<open>
  A range query is the contiguous slice of the history between the two sequence numbers, for every
  reachable ledger of at most 2^64 events.
\<close>

theorem ledger_range_is_slice:
  assumes "ledger_reachable digest l" and "length (ledger_events l) \<le> 2 ^ 64"
  shows "ledger_range l start end_inclusive =
    drop (unat start) (take (Suc (unat end_inclusive)) (ledger_events l))"
  unfolding ledger_range_def
proof (rule filter_index_range, intro allI impI)
  fix i
  assume i: "i < length (ledger_events l)"
  with assms(2) have "unat (of_nat i :: u64) = i" by (simp add: unat_of_nat take_bit_nat_eq_self)
  moreover have "ev_sequence (ledger_events l ! i) = of_nat i"
    using reachable_inv [OF assms(1)] i by (simp add: ledger_inv_def)
  ultimately show "start \<le> ev_sequence (ledger_events l ! i) \<and> ev_sequence (ledger_events l ! i) \<le> end_inclusive \<longleftrightarrow>
      unat start \<le> i \<and> i \<le> unat end_inclusive"
    by (simp add: word_le_nat_alt)
qed

theorem ledger_range_is_slice_witness:
  "ledger_range one_event_ledger 0 5 = ledger_events one_event_ledger \<and>
   ledger_range one_event_ledger 1 5 = []"
  using ledger_range_is_slice [OF one_event_reachable, of 0 5] ledger_range_is_slice [OF one_event_reachable, of 1 5]
  by (simp add: one_event_events)

lemma validated_canonical_inject:
  assumes "event_validate digest e = Inr ()" and "event_validate digest f = Inr ()"
    and "ev_checksum e = ev_checksum f" and "inj_on digest S" and "canonical e \<in> S" and "canonical f \<in> S"
  shows "e = f"
proof -
  have "digest (canonical e) = digest (canonical f)"
    using assms(1-3) by (auto simp: event_validate_def expected_checksum_def split: if_splits)
  with assms(4-6) have "canonical e = canonical f" by (simp add: inj_on_eq_iff)
  with assms(3) show ?thesis by (simp add: canonical_def)
qed

text \<open>
  The checksums determine the history: two reachable ledgers with the same list of checksums hold the
  same events, when the digest does not collide on the events of the two ledgers.
\<close>

theorem checksums_determine_history:
  assumes "ledger_reachable digest l" and "ledger_reachable digest r"
    and "map ev_checksum (ledger_events l) = map ev_checksum (ledger_events r)"
    and "inj_on digest (canonical ` (set (ledger_events l) \<union> set (ledger_events r)))"
  shows "ledger_events l = ledger_events r"
proof (rule nth_equalityI)
  show "length (ledger_events l) = length (ledger_events r)" using assms(3) by (metis length_map)
next
  fix i
  assume i: "i < length (ledger_events l)"
  with assms(3) have j: "i < length (ledger_events r)" by (metis length_map)
  have "ev_checksum (ledger_events l ! i) = ev_checksum (ledger_events r ! i)"
    using assms(3) i j by (metis nth_map)
  moreover have "event_validate digest (ledger_events l ! i) = Inr ()" "event_validate digest (ledger_events r ! i) = Inr ()"
    using reachable_inv [OF assms(1)] reachable_inv [OF assms(2)] i j by (simp_all add: ledger_inv_def)
  ultimately show "ledger_events l ! i = ledger_events r ! i"
    using validated_canonical_inject [OF _ _ _ assms(4)] i j by simp
qed

definition retried_ledger :: "unit AppendOnlyRuntimeLedger" where
  "retried_ledger = fst (ledger_append id_digest one_event_ledger
     (RuntimeEventEnvelope_new id_digest 0 ''event-0'' UserMessage 1 ()))"

lemma retried_checksums:
  "map ev_checksum (ledger_events one_event_ledger) = map ev_checksum (ledger_events retried_ledger)"
  "inj_on id_digest (canonical ` (set (ledger_events one_event_ledger) \<union> set (ledger_events retried_ledger)))"
  by code_simp+

theorem checksums_determine_history_witness:
  "ledger_events one_event_ledger = ledger_events retried_ledger"
proof (rule checksums_determine_history [OF one_event_reachable])
  show "ledger_reachable id_digest retried_ledger"
    unfolding retried_ledger_def by (rule ledger_reachable.append [OF one_event_reachable])
qed (fact retried_checksums)+

end
