(* ===== verification/Rust_Debug.thy ===== *)
theory Rust_Debug
  imports Rust_Str
begin

text \<open>
  The \<open>{:?}\<close> formatter of Rust for the types whose debug text the program compares: numbers, strings with
  their escapes, options, sets, maps and derived enums and structs. Text is a list of bytes; the bytes of
  characters outside ASCII are copied. The locale \<open>debug_code\<close> states what a comparison of debug texts
  relies on: a text determines its value, and where it ends.
\<close>

definition is_ident :: "char \<Rightarrow> bool" where
  "is_ident c \<longleftrightarrow> is_ascii_alphanumeric c \<or> c = CHR ''_''"

definition ends :: "string \<Rightarrow> bool" where
  "ends x \<longleftrightarrow> (case x of [] \<Rightarrow> True | c # _ \<Rightarrow> \<not> is_ident c)"

locale debug_code =
  fixes pr :: "'a \<Rightarrow> string"
  assumes pr_inject: "ends x \<Longrightarrow> ends y \<Longrightarrow> pr a @ x = pr b @ y \<Longrightarrow> a = b \<and> x = y"
    and pr_start: "\<exists>c cs. pr a = c # cs \<and> c \<noteq> CHR ''}''"
begin

lemma inject: "pr a = pr b \<longleftrightarrow> a = b"
  using pr_inject [of "[]" "[]" a b] by (auto simp: ends_def)

lemma inject_append [simp]: "ends x \<Longrightarrow> ends y \<Longrightarrow> pr a @ x = pr b @ y \<longleftrightarrow> a = b \<and> x = y"
  using pr_inject by blast

lemma not_Nil [simp]: "pr a \<noteq> []" "[] \<noteq> pr a"
  using pr_start [of a] by auto

lemma no_brace [simp]: "pr a @ x \<noteq> CHR ''}'' # y" "CHR ''}'' # y \<noteq> pr a @ x"
  using pr_start [of a] by auto

end

section \<open>Numbers and names\<close>

lemma ends_simps [simp]: "ends []" "ends (c # cs) \<longleftrightarrow> \<not> is_ident c"
  by (simp_all add: ends_def)

lemma ident_prefix_unique:
  assumes "list_all is_ident u" and "list_all is_ident v" and "ends x" and "ends y" and "u @ x = v @ y"
  shows "u = v \<and> x = y"
proof -
  have "takeWhile is_ident (w @ z) = w" if "list_all is_ident w" "ends z" for w z
    using that by (cases z) (auto simp: takeWhile_append list_all_iff)
  with assms have "u = v" by metis
  with assms(5) show ?thesis by simp
qed

lemmas ident_simps =
  is_ascii_alphanumeric_def is_ascii_alphabetic_def is_ascii_upper_def is_ascii_lower_def is_ascii_digit_def
  byte_def

lemma debug_code_ident:
  assumes "inj pr" and "\<And>a. list_all is_ident (pr a) \<and> pr a \<noteq> []"
  shows "debug_code pr"
proof
  fix x y a b
  assume "ends x" "ends y" "pr a @ x = pr b @ y"
  with assms(2) ident_prefix_unique have "pr a = pr b \<and> x = y" by metis
  with assms(1) show "a = b \<and> x = y" by (simp add: inj_eq)
next
  fix a
  obtain c cs where "pr a = c # cs" using assms(2) [of a] by (cases "pr a") auto
  moreover from this have "is_ident c" using assms(2) [of a] by simp
  ultimately show "\<exists>c cs. pr a = c # cs \<and> c \<noteq> CHR ''}''" by (auto simp: is_ident_def ident_simps)
qed

lemma digit_ident: "(n :: nat) < 10 \<Longrightarrow> is_ident (char_of (48 + n))"
  by (simp add: is_ident_def ident_simps)

lemma show_nat_ident: "list_all is_ident (show_nat n)"
proof (induction n rule: show_nat.induct)
  case (1 n)
  then show ?case by (simp add: show_nat.simps [of n] digit_ident)
qed

interpretation nat_dbg: debug_code show_nat
  by (rule debug_code_ident) (auto simp: inj_def show_nat_inject show_nat_ident)

definition debug_u32 :: "u32 \<Rightarrow> string" where
  "debug_u32 w = show_nat (unat w)"

definition debug_u64 :: "u64 \<Rightarrow> string" where
  "debug_u64 w = show_nat (unat w)"

interpretation u32_dbg: debug_code debug_u32
  by (rule debug_code_ident) (auto simp: inj_def debug_u32_def show_nat_inject show_nat_ident unsigned_word_eqI)

interpretation u64_dbg: debug_code debug_u64
  by (rule debug_code_ident) (auto simp: inj_def debug_u64_def show_nat_inject show_nat_ident unsigned_word_eqI)

section \<open>Strings\<close>

definition hex_digit :: "nat \<Rightarrow> char" where
  "hex_digit n = (if n < 10 then char_of (48 + n) else char_of (87 + n))"

definition backslash :: char where
  "backslash = CHR 0x5C"

definition dquote :: char where
  "dquote = CHR 0x22"

definition escape_debug :: "char \<Rightarrow> string" where
  "escape_debug c =
     (let n = byte c
      in if n = 0 then [backslash, CHR ''0'']
         else if n = 9 then [backslash, CHR ''t'']
         else if n = 13 then [backslash, CHR ''r'']
         else if n = 10 then [backslash, CHR ''n'']
         else if c = dquote \<or> c = backslash then [backslash, c]
         else if n < 16 then [backslash, CHR ''u'', CHR ''{'', hex_digit n, CHR ''}'']
         else if n < 32 \<or> n = 127 then [backslash, CHR ''u'', CHR ''{'', hex_digit (n div 16), hex_digit (n mod 16), CHR ''}'']
         else [c])"

definition debug_string :: "string \<Rightarrow> string" where
  "debug_string s = dquote # concat (map escape_debug s) @ [dquote]"

text \<open>Reading an escaped character back.\<close>

definition hex_value :: "char \<Rightarrow> nat" where
  "hex_value c = (if byte c < 58 then byte c - 48 else byte c - 87)"

definition unescape :: "string \<Rightarrow> char \<times> string" where
  "unescape s =
     (case s of
        [] \<Rightarrow> (dquote, [])
      | c # r \<Rightarrow>
          if c \<noteq> backslash then (c, r)
          else (case r of
             [] \<Rightarrow> (dquote, [])
           | d # r1 \<Rightarrow>
               if d = CHR ''0'' then (char_of (0 :: nat), r1)
               else if d = CHR ''t'' then (char_of (9 :: nat), r1)
               else if d = CHR ''r'' then (char_of (13 :: nat), r1)
               else if d = CHR ''n'' then (char_of (10 :: nat), r1)
               else if d = CHR ''u'' then
                 (case r1 of _ # h # k # r2 \<Rightarrow>
                     if k = CHR ''}'' then (char_of (hex_value h), r2)
                     else (char_of (16 * hex_value h + hex_value k), tl r2)
                  | _ \<Rightarrow> (dquote, []))
               else (d, r1)))"

lemma hex_value_digit: "n < 16 \<Longrightarrow> hex_value (hex_digit n) = n \<and> hex_digit n \<noteq> CHR ''}''"
  by (auto simp: hex_value_def hex_digit_def byte_def char_of_eq_iff take_bit_nat_def)

lemma unescape_simps:
  "unescape (backslash # CHR ''0'' # r) = (char_of (0 :: nat), r)"
  "unescape (backslash # CHR ''t'' # r) = (char_of (9 :: nat), r)"
  "unescape (backslash # CHR ''r'' # r) = (char_of (13 :: nat), r)"
  "unescape (backslash # CHR ''n'' # r) = (char_of (10 :: nat), r)"
  "unescape (backslash # backslash # r) = (backslash, r)"
  "unescape (backslash # dquote # r) = (dquote, r)"
  "unescape (backslash # CHR ''u'' # b # h # CHR ''}'' # r) = (char_of (hex_value h), r)"
  "k \<noteq> CHR ''}'' \<Longrightarrow>
     unescape (backslash # CHR ''u'' # b # h # k # e # r) = (char_of (16 * hex_value h + hex_value k), r)"
  "c \<noteq> backslash \<Longrightarrow> unescape (c # r) = (c, r)"
  by (simp_all add: unescape_def backslash_def dquote_def)

lemma byte_eqD: "byte c = n \<Longrightarrow> char_of n = c"
  by (auto simp: byte_def)

lemma escape_debug_not_Nil [simp]: "escape_debug c \<noteq> []"
  by (simp add: escape_debug_def Let_def)

lemma escape_debug_hd: "hd (escape_debug c) \<noteq> dquote"
  by (simp add: escape_debug_def Let_def backslash_def dquote_def)

lemma unescape_escape: "unescape (escape_debug c @ r) = (c, r)"
proof -
  have two: "byte c < 32 \<or> byte c = 127 \<Longrightarrow> byte c div 16 < 16" "byte c mod 16 < 16" by auto
  have "char_of (16 * (byte c div 16) + byte c mod 16) = c" "char_of (byte c) = c" by (simp_all add: byte_def)
  with two show ?thesis
    by (simp add: escape_debug_def Let_def unescape_simps byte_eqD hex_value_digit)
qed

lemma escaped_body_inject:
  "concat (map escape_debug s) @ dquote # x = concat (map escape_debug t) @ dquote # y \<Longrightarrow> s = t \<and> x = y"
proof (induction s arbitrary: t)
  case Nil
  then show ?case
    using escape_debug_hd [of "hd t"] by (cases t) (auto dest!: arg_cong [where f = hd])
next
  case (Cons c s)
  show ?case
  proof (cases t)
    case Nil
    with Cons.prems escape_debug_hd [of c] show ?thesis by (auto dest!: arg_cong [where f = hd])
  next
    case (Cons d t')
    with Cons.prems have "unescape (escape_debug c @ concat (map escape_debug s) @ dquote # x) =
        unescape (escape_debug d @ concat (map escape_debug t') @ dquote # y)" by simp
    then have "c = d" "concat (map escape_debug s) @ dquote # x = concat (map escape_debug t') @ dquote # y"
      using unescape_escape by auto
    with Cons.IH Cons show ?thesis by blast
  qed
qed

interpretation str_dbg: debug_code debug_string
proof
  fix x y a b
  assume "debug_string a @ x = debug_string b @ y"
  then show "a = b \<and> x = y" using escaped_body_inject [of a x b y] by (simp add: debug_string_def)
qed (simp add: debug_string_def dquote_def)

section \<open>Options, sets, maps\<close>

definition debug_option :: "('a \<Rightarrow> string) \<Rightarrow> 'a option \<Rightarrow> string" where
  "debug_option pr v = (case v of None \<Rightarrow> ''None'' | Some a \<Rightarrow> ''Some('' @ pr a @ '')'')"

fun debug_items :: "('a \<Rightarrow> string) \<Rightarrow> 'a list \<Rightarrow> string" where
  "debug_items pr [] = ''}''"
| "debug_items pr [a] = pr a @ ''}''"
| "debug_items pr (a # b # xs) = pr a @ '', '' @ debug_items pr (b # xs)"

definition debug_set :: "('a \<Rightarrow> string) \<Rightarrow> 'a list \<Rightarrow> string" where
  "debug_set pr xs = ''{'' @ debug_items pr xs"

definition debug_entry :: "('k \<Rightarrow> string) \<Rightarrow> ('v \<Rightarrow> string) \<Rightarrow> 'k \<times> 'v \<Rightarrow> string" where
  "debug_entry prk prv kv = prk (fst kv) @ '': '' @ prv (snd kv)"

definition debug_map :: "('k \<Rightarrow> string) \<Rightarrow> ('v \<Rightarrow> string) \<Rightarrow> ('k \<times> 'v) list \<Rightarrow> string" where
  "debug_map prk prv xs = debug_set (debug_entry prk prv) xs"

lemma not_ident [simp]:
  "\<not> is_ident CHR '','' " "\<not> is_ident CHR ''}''" "\<not> is_ident CHR '')''" "\<not> is_ident CHR '':''"
  "\<not> is_ident CHR '' ''"
  by (simp_all add: is_ident_def ident_simps)

lemma debug_code_option:
  assumes "debug_code pr"
  shows "debug_code (debug_option pr)"
proof
  fix x y a b
  assume "ends x" "ends y" "debug_option pr a @ x = debug_option pr b @ y"
  then show "a = b \<and> x = y"
    using debug_code.inject_append [OF assms] by (cases a; cases b) (simp_all add: debug_option_def)
next
  show "\<exists>c cs. debug_option pr a = c # cs \<and> c \<noteq> CHR ''}''" for a
    by (cases a) (simp_all add: debug_option_def)
qed

lemma debug_items_Cons:
  "debug_items pr (a # xs) = pr a @ (if xs = [] then ''}'' else '', '' @ debug_items pr xs)"
  by (cases xs) simp_all

lemma debug_items_inject:
  assumes "debug_code pr"
  shows "debug_items pr xs @ x = debug_items pr ys @ y \<Longrightarrow> xs = ys \<and> x = y"
proof (induction xs arbitrary: ys)
  case Nil
  then show ?case
    using debug_code.no_brace [OF assms] by (cases ys) (simp_all add: debug_items_Cons)
next
  case (Cons a xs)
  show ?case
  proof (cases ys)
    case Nil
    with Cons.prems show ?thesis using debug_code.no_brace [OF assms] by (simp add: debug_items_Cons)
  next
    case (Cons b ys')
    let ?u = "(if xs = [] then ''}'' else '', '' @ debug_items pr xs) @ x"
    let ?v = "(if ys' = [] then ''}'' else '', '' @ debug_items pr ys') @ y"
    have "ends ?u" "ends ?v" by simp_all
    moreover have "pr a @ ?u = pr b @ ?v" using Cons.prems Cons by (simp add: debug_items_Cons)
    ultimately have "a = b" "?u = ?v" using debug_code.pr_inject [OF assms, of ?u ?v a b] by blast+
    then show ?thesis using Cons.IH [of ys'] Cons by (auto split: if_splits)
  qed
qed

lemma debug_code_entry:
  assumes "debug_code prk" and "debug_code prv"
  shows "debug_code (debug_entry prk prv)"
proof
  fix x y a b
  assume "ends x" "ends y" "debug_entry prk prv a @ x = debug_entry prk prv b @ y"
  then show "a = b \<and> x = y"
    using debug_code.inject_append [OF assms(1)] debug_code.inject_append [OF assms(2)]
    by (cases a; cases b) (simp add: debug_entry_def)
next
  show "\<exists>c cs. debug_entry prk prv a = c # cs \<and> c \<noteq> CHR ''}''" for a
    using debug_code.pr_start [OF assms(1), of "fst a"] by (auto simp: debug_entry_def)
qed

lemma debug_code_set:
  assumes "debug_code pr"
  shows "debug_code (debug_set pr)"
proof
  fix x y a b
  assume "debug_set pr a @ x = debug_set pr b @ y"
  then show "a = b \<and> x = y" using debug_items_inject [OF assms, of a x b y] by (simp add: debug_set_def)
qed (simp add: debug_set_def)

lemma debug_code_map: "debug_code prk \<Longrightarrow> debug_code prv \<Longrightarrow> debug_code (debug_map prk prv)"
  unfolding debug_map_def by (rule debug_code_set [OF debug_code_entry])

end
