(* ===== verification/Run_Manifest.thy ===== *)
theory Run_Manifest
  imports Runtime_Ledger Rust_Debug "HOL-Library.Char_ord" "HOL-Library.List_Lexorder"
begin

text \<open>
  The run contract (\<open>core/runtime_contract/profile.rs\<close>, \<open>terminal.rs\<close> and \<open>manifest.rs\<close>): tool profiles,
  terminal requests and sessions, run manifests and the comparison a resume makes. A \<open>BTreeSet\<close> is a
  strictly sorted list, a \<open>BTreeMap\<close> an association list sorted by key, a path its text.
\<close>

type_synonym 'a btree_set = "'a list"

definition btree_insert :: "'a :: linorder \<Rightarrow> 'a btree_set \<Rightarrow> 'a btree_set" where
  "btree_insert x xs = insort_insert x xs"

lemma btree_insert_props [simp]:
  "set (btree_insert x xs) = insert x (set xs)"
  "sorted_wrt (<) xs \<Longrightarrow> sorted_wrt (<) (btree_insert x xs)"
  by (simp_all add: btree_insert_def set_insort_insert strict_sorted_iff sorted_insort_insert distinct_insort_insert)

section \<open>Terminals\<close>

datatype TerminalProcessPolicy = Isolated | Stateful | Hybrid

record TerminalSessionIdentity =
  ts_session_id :: string
  ts_host_fingerprint :: string
  ts_cwd :: string
  ts_environment_keys :: "string btree_set"
  ts_shell :: string

datatype TerminalSessionRecovery = Reattached | RestartRequired | Stale | Unsupported

record TerminalBackendCapabilities =
  tb_interactive :: bool
  tb_background :: bool
  tb_tty :: bool
  tb_stateful :: bool
  tb_restart_reattach :: bool

definition TerminalBackendCapabilities_LOCAL :: TerminalBackendCapabilities where
  "TerminalBackendCapabilities_LOCAL =
     \<lparr>tb_interactive = True, tb_background = True, tb_tty = True, tb_stateful = True, tb_restart_reattach = False\<rparr>"

record TerminalRequest =
  tr_policy :: TerminalProcessPolicy
  tr_interactive :: bool
  tr_background :: bool
  tr_tty :: bool
  tr_session_id :: "string option"

definition validate_terminal_request ::
  "TerminalRequest \<Rightarrow> TerminalBackendCapabilities \<Rightarrow> unit str_result" where
  "validate_terminal_request request backend =
     (if tr_interactive request \<and> \<not> tb_interactive backend
      then Inl ''terminal backend does not support interactive input''
      else if tr_background request \<and> \<not> tb_background backend
      then Inl ''terminal backend does not support background processes''
      else if tr_tty request \<and> \<not> tb_tty backend then Inl ''terminal backend does not support a TTY''
      else if tr_policy request = Stateful \<and> \<not> tb_stateful backend
      then Inl ''terminal backend does not support stateful sessions''
      else if tr_session_id request \<noteq> None \<and> tr_policy request = Isolated
      then Inl ''isolated terminal requests cannot name a shared session''
      else Inr ())"

definition recovery_on_host ::
  "TerminalSessionIdentity \<Rightarrow> string \<Rightarrow> string \<Rightarrow> TerminalBackendCapabilities \<Rightarrow> TerminalSessionRecovery" where
  "recovery_on_host s session_id host_fingerprint backend =
     (if \<not> tb_stateful backend then Unsupported
      else if ts_session_id s \<noteq> session_id \<or> ts_host_fingerprint s \<noteq> host_fingerprint then Stale
      else if tb_restart_reattach backend then Reattached
      else RestartRequired)"

section \<open>Profiles\<close>

datatype AgentProfileCandidate = CurrentFull | ConsolidatedCore | SpecializedCore | AdaptiveCore

datatype SemanticCapability =
  CommandExecution | FileRead | FileSearch | FileEdit | ActiveChecklist | TypedTermination |
  VerificationCapability | Delegation | Network | Mcp | Knowledge | Media | Release

fun capability_ordinal :: "SemanticCapability \<Rightarrow> nat" where
  "capability_ordinal CommandExecution = 0"
| "capability_ordinal FileRead = 1"
| "capability_ordinal FileSearch = 2"
| "capability_ordinal FileEdit = 3"
| "capability_ordinal ActiveChecklist = 4"
| "capability_ordinal TypedTermination = 5"
| "capability_ordinal VerificationCapability = 6"
| "capability_ordinal Delegation = 7"
| "capability_ordinal Network = 8"
| "capability_ordinal Mcp = 9"
| "capability_ordinal Knowledge = 10"
| "capability_ordinal Media = 11"
| "capability_ordinal Release = 12"

lemma capability_ordinal_inject: "capability_ordinal a = capability_ordinal b \<longleftrightarrow> a = b"
  by (cases a; cases b) simp_all

instantiation SemanticCapability :: linorder
begin

definition less_eq_SemanticCapability :: "SemanticCapability \<Rightarrow> SemanticCapability \<Rightarrow> bool" where
  "less_eq_SemanticCapability a b \<longleftrightarrow> capability_ordinal a \<le> capability_ordinal b"

definition less_SemanticCapability :: "SemanticCapability \<Rightarrow> SemanticCapability \<Rightarrow> bool" where
  "less_SemanticCapability a b \<longleftrightarrow> capability_ordinal a < capability_ordinal b"

instance
  by standard
    (auto simp: less_eq_SemanticCapability_def less_SemanticCapability_def capability_ordinal_inject [symmetric])

end

datatype ToolActivationPolicy = Static | DeferredSearch | ExplicitCapability | Adaptive

record ToolProfileManifest =
  tp_schema_version :: u32
  tp_candidate :: AgentProfileCandidate
  tp_activation_policy :: ToolActivationPolicy
  tp_terminal_policy :: TerminalProcessPolicy
  tp_capabilities :: "SemanticCapability btree_set"
  tp_active_tools :: "string btree_set"
  tp_deferred_tools :: "string btree_set"
  tp_max_steps :: u32
  tp_max_wall_time_seconds :: "u64 option"

definition ToolProfileManifest_new ::
  "AgentProfileCandidate \<Rightarrow> ToolActivationPolicy \<Rightarrow> TerminalProcessPolicy \<Rightarrow> u32 \<Rightarrow> ToolProfileManifest" where
  "ToolProfileManifest_new candidate activation_policy terminal_policy steps =
     \<lparr>tp_schema_version = RUNTIME_CONTRACT_SCHEMA_VERSION, tp_candidate = candidate,
      tp_activation_policy = activation_policy, tp_terminal_policy = terminal_policy, tp_capabilities = [],
      tp_active_tools = [], tp_deferred_tools = [], tp_max_steps = steps, tp_max_wall_time_seconds = None\<rparr>"

definition with_capability :: "ToolProfileManifest \<Rightarrow> SemanticCapability \<Rightarrow> ToolProfileManifest" where
  "with_capability p capability = p\<lparr>tp_capabilities := btree_insert capability (tp_capabilities p)\<rparr>"

definition with_active_tool :: "ToolProfileManifest \<Rightarrow> string \<Rightarrow> ToolProfileManifest" where
  "with_active_tool p tool = p\<lparr>tp_active_tools := btree_insert tool (tp_active_tools p)\<rparr>"

definition with_deferred_tool :: "ToolProfileManifest \<Rightarrow> string \<Rightarrow> ToolProfileManifest" where
  "with_deferred_tool p tool = p\<lparr>tp_deferred_tools := btree_insert tool (tp_deferred_tools p)\<rparr>"

definition profile_validate :: "ToolProfileManifest \<Rightarrow> unit str_result" where
  "profile_validate p =
     (if tp_schema_version p \<noteq> RUNTIME_CONTRACT_SCHEMA_VERSION
      then Inl (''unsupported runtime profile schema '' @ debug_u32 (tp_schema_version p) @ ''; expected '' @
        debug_u32 RUNTIME_CONTRACT_SCHEMA_VERSION)
      else if tp_max_steps p = 0 then Inl ''runtime profile max_steps must be greater than zero''
      else (case filter (\<lambda>tool. tool \<in> set (tp_deferred_tools p)) (tp_active_tools p) of
          overlap # _ \<Rightarrow> Inl (''tool '' @ [CHR 0x60] @ overlap @ [CHR 0x60] @ '' cannot be both active and deferred'')
        | [] \<Rightarrow>
            if TypedTermination \<notin> set (tp_capabilities p)
            then Inl ''runtime profile must promise typed termination''
            else Inr ()))"

section \<open>The debug text of a profile\<close>

fun debug_TerminalProcessPolicy :: "TerminalProcessPolicy \<Rightarrow> string" where
  "debug_TerminalProcessPolicy Isolated = ''Isolated''"
| "debug_TerminalProcessPolicy Stateful = ''Stateful''"
| "debug_TerminalProcessPolicy Hybrid = ''Hybrid''"

fun debug_AgentProfileCandidate :: "AgentProfileCandidate \<Rightarrow> string" where
  "debug_AgentProfileCandidate CurrentFull = ''CurrentFull''"
| "debug_AgentProfileCandidate ConsolidatedCore = ''ConsolidatedCore''"
| "debug_AgentProfileCandidate SpecializedCore = ''SpecializedCore''"
| "debug_AgentProfileCandidate AdaptiveCore = ''AdaptiveCore''"

fun debug_ToolActivationPolicy :: "ToolActivationPolicy \<Rightarrow> string" where
  "debug_ToolActivationPolicy Static = ''Static''"
| "debug_ToolActivationPolicy DeferredSearch = ''DeferredSearch''"
| "debug_ToolActivationPolicy ExplicitCapability = ''ExplicitCapability''"
| "debug_ToolActivationPolicy Adaptive = ''Adaptive''"

fun debug_SemanticCapability :: "SemanticCapability \<Rightarrow> string" where
  "debug_SemanticCapability CommandExecution = ''CommandExecution''"
| "debug_SemanticCapability FileRead = ''FileRead''"
| "debug_SemanticCapability FileSearch = ''FileSearch''"
| "debug_SemanticCapability FileEdit = ''FileEdit''"
| "debug_SemanticCapability ActiveChecklist = ''ActiveChecklist''"
| "debug_SemanticCapability TypedTermination = ''TypedTermination''"
| "debug_SemanticCapability VerificationCapability = ''Verification''"
| "debug_SemanticCapability Delegation = ''Delegation''"
| "debug_SemanticCapability Network = ''Network''"
| "debug_SemanticCapability Mcp = ''Mcp''"
| "debug_SemanticCapability Knowledge = ''Knowledge''"
| "debug_SemanticCapability Media = ''Media''"
| "debug_SemanticCapability Release = ''Release''"

definition debug_profile :: "ToolProfileManifest \<Rightarrow> string" where
  "debug_profile p =
     ''ToolProfileManifest { schema_version: '' @ debug_u32 (tp_schema_version p) @
     '', candidate: '' @ debug_AgentProfileCandidate (tp_candidate p) @
     '', activation_policy: '' @ debug_ToolActivationPolicy (tp_activation_policy p) @
     '', terminal_policy: '' @ debug_TerminalProcessPolicy (tp_terminal_policy p) @
     '', capabilities: '' @ debug_set debug_SemanticCapability (tp_capabilities p) @
     '', active_tools: '' @ debug_set debug_string (tp_active_tools p) @
     '', deferred_tools: '' @ debug_set debug_string (tp_deferred_tools p) @
     '', max_steps: '' @ debug_u32 (tp_max_steps p) @
     '', max_wall_time_seconds: '' @ debug_option debug_u64 (tp_max_wall_time_seconds p) @ '' }''"

definition debug_hashes :: "(string \<times> string) list \<Rightarrow> string" where
  "debug_hashes hashes = debug_map debug_string debug_string hashes"

interpretation terminal_dbg: debug_code debug_TerminalProcessPolicy
proof (rule debug_code_ident)
  have "a = b" if "debug_TerminalProcessPolicy a = debug_TerminalProcessPolicy b" for a b
    using that by (cases a; cases b) simp_all
  then show "inj debug_TerminalProcessPolicy" by (rule injI)
  show "list_all is_ident (debug_TerminalProcessPolicy a) \<and> debug_TerminalProcessPolicy a \<noteq> []" for a
    by (cases a) (simp_all add: is_ident_def ident_simps)
qed

interpretation candidate_dbg: debug_code debug_AgentProfileCandidate
proof (rule debug_code_ident)
  have "a = b" if "debug_AgentProfileCandidate a = debug_AgentProfileCandidate b" for a b
    using that by (cases a; cases b) simp_all
  then show "inj debug_AgentProfileCandidate" by (rule injI)
  show "list_all is_ident (debug_AgentProfileCandidate a) \<and> debug_AgentProfileCandidate a \<noteq> []" for a
    by (cases a) (simp_all add: is_ident_def ident_simps)
qed

interpretation activation_dbg: debug_code debug_ToolActivationPolicy
proof (rule debug_code_ident)
  have "a = b" if "debug_ToolActivationPolicy a = debug_ToolActivationPolicy b" for a b
    using that by (cases a; cases b) simp_all
  then show "inj debug_ToolActivationPolicy" by (rule injI)
  show "list_all is_ident (debug_ToolActivationPolicy a) \<and> debug_ToolActivationPolicy a \<noteq> []" for a
    by (cases a) (simp_all add: is_ident_def ident_simps)
qed

interpretation capability_dbg: debug_code debug_SemanticCapability
proof (rule debug_code_ident)
  have "a = b" if "debug_SemanticCapability a = debug_SemanticCapability b" for a b
    using that by (cases a; cases b) simp_all
  then show "inj debug_SemanticCapability" by (rule injI)
  show "list_all is_ident (debug_SemanticCapability a) \<and> debug_SemanticCapability a \<noteq> []" for a
    by (cases a) (simp_all add: is_ident_def ident_simps)
qed

interpretation capabilities_dbg: debug_code "debug_set debug_SemanticCapability"
  by (rule debug_code_set) (rule capability_dbg.debug_code_axioms)

interpretation tools_dbg: debug_code "debug_set debug_string"
  by (rule debug_code_set) (rule str_dbg.debug_code_axioms)

interpretation wall_time_dbg: debug_code "debug_option debug_u64"
  by (rule debug_code_option) (rule u64_dbg.debug_code_axioms)

interpretation hashes_dbg: debug_code debug_hashes
proof -
  have "debug_hashes = debug_map debug_string debug_string" by (rule ext) (simp add: debug_hashes_def)
  with debug_code_map [OF str_dbg.debug_code_axioms str_dbg.debug_code_axioms] show "debug_code debug_hashes"
    by simp
qed

lemma debug_profile_inject: "debug_profile p = debug_profile q \<longleftrightarrow> p = q"
proof
  assume "debug_profile p = debug_profile q"
  then show "p = q"
    by (intro ToolProfileManifest.equality) (simp_all add: debug_profile_def wall_time_dbg.inject)
qed simp

section \<open>Run manifests\<close>

record RunContractManifest =
  rm_schema_version :: u32
  rm_binary_version :: string
  rm_source_sha :: "string option"
  rm_dirty_patch_hash :: "string option"
  rm_workspace :: string
  rm_base_revision :: "string option"
  rm_provider :: string
  rm_model :: string
  rm_route :: string
  rm_permission_posture :: string
  rm_sandbox_identity :: string
  rm_network_policy :: string
  rm_prompt_hash :: string
  rm_profile :: ToolProfileManifest
  rm_tool_schema_hashes :: "(string \<times> string) list"

record ManifestMismatch =
  mm_field :: string
  mm_saved :: string
  mm_current :: string

datatype ResumeCompatibility = Compatible | ExplicitMigrationRequired "ManifestMismatch list"

record RunReadiness =
  rr_ready :: bool
  rr_blockers :: "string list"
  rr_warnings :: "string list"

definition required_labels :: "RunContractManifest \<Rightarrow> (string \<times> string) list" where
  "required_labels m =
     [(''binary_version'', rm_binary_version m), (''provider'', rm_provider m), (''model'', rm_model m),
      (''route'', rm_route m), (''permission_posture'', rm_permission_posture m),
      (''sandbox_identity'', rm_sandbox_identity m), (''prompt_hash'', rm_prompt_hash m)]"

definition manifest_validate :: "RunContractManifest \<Rightarrow> unit str_result" where
  "manifest_validate m =
     (if rm_schema_version m \<noteq> RUNTIME_CONTRACT_SCHEMA_VERSION
      then Inl (''unsupported run manifest schema '' @ debug_u32 (rm_schema_version m) @ ''; expected '' @
        debug_u32 RUNTIME_CONTRACT_SCHEMA_VERSION)
      else (case profile_validate (rm_profile m) of
          Inl e \<Rightarrow> Inl e
        | Inr _ \<Rightarrow>
            (case List.find (\<lambda>(label, v). trim v = []) (required_labels m) of
               Some (label, _) \<Rightarrow> Inl (''run manifest '' @ label @ '' cannot be empty'')
             | None \<Rightarrow> Inr ())))"

definition readiness :: "RunContractManifest \<Rightarrow> RunReadiness" where
  "readiness m =
     (let blockers = (case manifest_validate m of Inl error \<Rightarrow> [error] | Inr _ \<Rightarrow> []);
          warnings = (if rm_source_sha m = None then [''source SHA is not available''] else []) @
            (if rm_dirty_patch_hash m = None then [''dirty patch hash is not recorded''] else [])
      in \<lparr>rr_ready = (blockers = []), rr_blockers = blockers, rr_warnings = warnings\<rparr>)"

definition compare_field ::
  "ManifestMismatch list \<Rightarrow> string \<Rightarrow> string \<Rightarrow> string \<Rightarrow> ManifestMismatch list" where
  "compare_field mismatches field saved current =
     (if saved \<noteq> current
      then mismatches @ [\<lparr>mm_field = field, mm_saved = saved, mm_current = current\<rparr>] else mismatches)"

definition resume_mismatches :: "RunContractManifest \<Rightarrow> RunContractManifest \<Rightarrow> ManifestMismatch list" where
  "resume_mismatches saved current =
     (let ms = [];
          ms = compare_field ms ''schema_version''
            (show_nat (unat (rm_schema_version saved))) (show_nat (unat (rm_schema_version current)));
          ms = compare_field ms ''provider'' (rm_provider saved) (rm_provider current);
          ms = compare_field ms ''model'' (rm_model saved) (rm_model current);
          ms = compare_field ms ''route'' (rm_route saved) (rm_route current);
          ms = compare_field ms ''permission_posture'' (rm_permission_posture saved) (rm_permission_posture current);
          ms = compare_field ms ''sandbox_identity'' (rm_sandbox_identity saved) (rm_sandbox_identity current);
          ms = compare_field ms ''prompt_hash'' (rm_prompt_hash saved) (rm_prompt_hash current);
          ms = compare_field ms ''profile'' (debug_profile (rm_profile saved)) (debug_profile (rm_profile current))
      in compare_field ms ''tool_schema_hashes''
           (debug_hashes (rm_tool_schema_hashes saved)) (debug_hashes (rm_tool_schema_hashes current)))"

definition compare_for_resume :: "RunContractManifest \<Rightarrow> RunContractManifest \<Rightarrow> ResumeCompatibility" where
  "compare_for_resume saved current =
     (if resume_mismatches saved current = [] then Compatible
      else ExplicitMigrationRequired (resume_mismatches saved current))"

lemma compare_field_Nil: "compare_field ms f a b = [] \<longleftrightarrow> ms = [] \<and> a = b"
  by (simp add: compare_field_def)

lemma unat_word_eq: "unat (a :: 'w :: len word) = unat b \<longleftrightarrow> a = b"
  by (auto intro: unsigned_word_eqI)


section \<open>Profiles that validate\<close>

lemma profile_validate_iff:
  "profile_validate p = Inr () \<longleftrightarrow>
     tp_schema_version p = RUNTIME_CONTRACT_SCHEMA_VERSION \<and> tp_max_steps p \<noteq> 0 \<and>
     set (tp_active_tools p) \<inter> set (tp_deferred_tools p) = {} \<and> TypedTermination \<in> set (tp_capabilities p)"
proof -
  have "filter (\<lambda>tool. tool \<in> set (tp_deferred_tools p)) (tp_active_tools p) = [] \<longleftrightarrow>
      set (tp_active_tools p) \<inter> set (tp_deferred_tools p) = {}"
    by (auto simp: filter_empty_conv)
  then show ?thesis
    by (auto simp: profile_validate_def split: list.split)
qed

lemma manifest_validate_iff:
  "manifest_validate m = Inr () \<longleftrightarrow>
     rm_schema_version m = RUNTIME_CONTRACT_SCHEMA_VERSION \<and> profile_validate (rm_profile m) = Inr () \<and>
     list_all (\<lambda>(label, v). trim v \<noteq> []) (required_labels m)"
proof -
  have "List.find (\<lambda>(label, v). trim v = []) (required_labels m) = None \<longleftrightarrow>
      list_all (\<lambda>(label, v). trim v \<noteq> []) (required_labels m)"
    by (auto simp: find_None_iff list_all_iff)
  then show ?thesis
    by (cases "List.find (\<lambda>(label, v). trim v = []) (required_labels m)")
      (auto simp: manifest_validate_def split: sum.split)
qed

datatype ProfileStep = Capability SemanticCapability | ActiveTool string | DeferredTool string

definition profile_step :: "ToolProfileManifest \<Rightarrow> ProfileStep \<Rightarrow> ToolProfileManifest" where
  "profile_step p step =
     (case step of
        Capability c \<Rightarrow> with_capability p c
      | ActiveTool t \<Rightarrow> with_active_tool p t
      | DeferredTool t \<Rightarrow> with_deferred_tool p t)"

lemma profile_step_fields:
  "tp_schema_version (profile_step p st) = tp_schema_version p"
  "tp_max_steps (profile_step p st) = tp_max_steps p"
  "set (tp_capabilities (profile_step p st)) = {c. st = Capability c} \<union> set (tp_capabilities p)"
  "set (tp_active_tools (profile_step p st)) = {t. st = ActiveTool t} \<union> set (tp_active_tools p)"
  "set (tp_deferred_tools (profile_step p st)) = {t. st = DeferredTool t} \<union> set (tp_deferred_tools p)"
  by (cases st; simp add: profile_step_def with_capability_def with_active_tool_def with_deferred_tool_def)+

lemma profile_steps_fields:
  "tp_schema_version (foldl profile_step p steps) = tp_schema_version p \<and>
   tp_max_steps (foldl profile_step p steps) = tp_max_steps p \<and>
   set (tp_capabilities (foldl profile_step p steps)) = {c. Capability c \<in> set steps} \<union> set (tp_capabilities p) \<and>
   set (tp_active_tools (foldl profile_step p steps)) = {t. ActiveTool t \<in> set steps} \<union> set (tp_active_tools p) \<and>
   set (tp_deferred_tools (foldl profile_step p steps)) = {t. DeferredTool t \<in> set steps} \<union> set (tp_deferred_tools p)"
  by (induction steps rule: rev_induct) (auto simp: profile_step_fields)

text \<open>
  A profile built from \<open>new\<close> by any sequence of builder calls validates exactly if it has a positive
  step limit, typed termination was promised, and no tool was made both active and deferred; the order of
  the calls is irrelevant.
\<close>

theorem built_profile_validates_iff:
  "profile_validate (foldl profile_step (ToolProfileManifest_new candidate activation terminal steps) calls) = Inr () \<longleftrightarrow>
     steps \<noteq> 0 \<and> Capability TypedTermination \<in> set calls \<and>
     \<not> (\<exists>tool. ActiveTool tool \<in> set calls \<and> DeferredTool tool \<in> set calls)"
  using profile_steps_fields [of "ToolProfileManifest_new candidate activation terminal steps" calls]
  by (auto simp: profile_validate_iff ToolProfileManifest_new_def)

text \<open>
  A run is ready exactly if its manifest has the current schema, a profile with a positive step limit,
  disjoint tool sets and typed termination, and no blank binary version, provider, model, route, permission
  posture, sandbox or prompt hash; a missing source identity only warns.
\<close>

theorem run_ready_iff:
  "rr_ready (readiness m) \<longleftrightarrow>
     rm_schema_version m = 1 \<and> tp_schema_version (rm_profile m) = 1 \<and> tp_max_steps (rm_profile m) \<noteq> 0 \<and>
     set (tp_active_tools (rm_profile m)) \<inter> set (tp_deferred_tools (rm_profile m)) = {} \<and>
     TypedTermination \<in> set (tp_capabilities (rm_profile m)) \<and>
     list_all (\<lambda>v. trim v \<noteq> []) [rm_binary_version m, rm_provider m, rm_model m, rm_route m,
       rm_permission_posture m, rm_sandbox_identity m, rm_prompt_hash m]"
proof -
  have "rr_ready (readiness m) \<longleftrightarrow> manifest_validate m = Inr ()"
    by (simp add: readiness_def Let_def split: sum.split)
  then show ?thesis
    by (simp add: manifest_validate_iff profile_validate_iff required_labels_def RUNTIME_CONTRACT_SCHEMA_VERSION_def)
qed

text \<open>
  A terminal session is only reattached, or restarted in place, for the same session id on the same
  host with a stateful backend, and an accepted request asks for nothing the backend lacks and names no
  session in isolation.
\<close>

theorem terminal_contract_fails_closed:
  "(recovery_on_host s session_id host backend \<in> {Reattached, RestartRequired} \<longleftrightarrow>
      tb_stateful backend \<and> ts_session_id s = session_id \<and> ts_host_fingerprint s = host) \<and>
   (validate_terminal_request request backend = Inr () \<longleftrightarrow>
      (tb_interactive backend \<or> tr_interactive request = False) \<and>
      (tb_background backend \<or> tr_background request = False) \<and> (tb_tty backend \<or> tr_tty request = False) \<and>
      (tb_stateful backend \<or> tr_policy request \<in> {Isolated, Hybrid}) \<and>
      (tr_session_id request = None \<or> tr_policy request \<in> {Stateful, Hybrid}))"
  by (cases "tr_policy request") (auto simp: recovery_on_host_def validate_terminal_request_def)

end
