(* ===== verification/Run_Receipts.thy ===== *)
theory Run_Receipts
  imports Rust_Str
begin

text \<open>
  What a run leaves behind (\<open>core/runtime_contract/termination.rs\<close>, \<open>context.rs\<close> and \<open>work.rs\<close>): the
  terminal reason and its exit code, verification receipts, the record of the context that was loaded or
  condensed, and work events. JSON payloads are opaque; \<open>Value::is_object\<close> is a parameter.
\<close>

section \<open>Termination\<close>

datatype TurnOutcomeStatus = Completed | Interrupted | Failed

datatype ErrorCategory =
  NetworkError | Authentication | Authorization | RateLimit | TimeoutError | InvalidInput | Parse | Tool |
  State | Internal

datatype RunTerminationReason =
  Resolved | Unresolved | Canceled | Stuck | Timeout | BudgetExhausted | ApprovalRequired | ModelError |
  ToolError | InfrastructureError | EvidenceMissing

fun termination_as_str :: "RunTerminationReason \<Rightarrow> string" where
  "termination_as_str Resolved = ''resolved''"
| "termination_as_str Unresolved = ''unresolved''"
| "termination_as_str Canceled = ''canceled''"
| "termination_as_str Stuck = ''stuck''"
| "termination_as_str Timeout = ''timeout''"
| "termination_as_str BudgetExhausted = ''budget_exhausted''"
| "termination_as_str ApprovalRequired = ''approval_required''"
| "termination_as_str ModelError = ''model_error''"
| "termination_as_str ToolError = ''tool_error''"
| "termination_as_str InfrastructureError = ''infrastructure_error''"
| "termination_as_str EvidenceMissing = ''evidence_missing''"

definition is_success :: "RunTerminationReason \<Rightarrow> bool" where
  "is_success r = (r = Resolved)"

fun process_exit_code :: "RunTerminationReason \<Rightarrow> int" where
  "process_exit_code Resolved = 0"
| "process_exit_code Unresolved = 2"
| "process_exit_code EvidenceMissing = 2"
| "process_exit_code ApprovalRequired = 3"
| "process_exit_code Canceled = 130"
| "process_exit_code Stuck = 1"
| "process_exit_code Timeout = 1"
| "process_exit_code BudgetExhausted = 1"
| "process_exit_code ModelError = 1"
| "process_exit_code ToolError = 1"
| "process_exit_code InfrastructureError = 1"

definition classify_turn_termination ::
  "TurnOutcomeStatus \<Rightarrow> ErrorCategory option \<Rightarrow> bool \<Rightarrow> bool \<Rightarrow> RunTerminationReason" where
  "classify_turn_termination status error_category tool_error_seen approval_required =
     (case status of
        Completed \<Rightarrow> Resolved
      | Interrupted \<Rightarrow> Canceled
      | Failed \<Rightarrow>
          if approval_required then ApprovalRequired
          else if tool_error_seen then ToolError
          else (case error_category of
              None \<Rightarrow> Unresolved
            | Some category \<Rightarrow>
                (case category of
                   TimeoutError \<Rightarrow> Timeout
                 | NetworkError \<Rightarrow> ModelError
                 | Authentication \<Rightarrow> ModelError
                 | Authorization \<Rightarrow> ModelError
                 | RateLimit \<Rightarrow> ModelError
                 | InvalidInput \<Rightarrow> ModelError
                 | Parse \<Rightarrow> ModelError
                 | Tool \<Rightarrow> ToolError
                 | State \<Rightarrow> InfrastructureError
                 | Internal \<Rightarrow> InfrastructureError)))"

datatype VerificationOutcome = NotRun | PassedFirstAttempt | PassedAfterRepair | VerificationFailed | Incomplete

record VerificationReceipt =
  vr_command :: string
  vr_outcome :: VerificationOutcome
  vr_attempts :: u32
  vr_duration_ms :: u64
  vr_artifact :: "string option"

record RunReceipt =
  rc_reason :: RunTerminationReason
  rc_summary :: string
  rc_files_changed :: "string list"
  rc_verification :: "VerificationReceipt list"
  rc_remaining_risks :: "string list"

definition receipt_validate :: "RunReceipt \<Rightarrow> unit str_result" where
  "receipt_validate r =
     (if trim (rc_summary r) = [] then Inl ''run receipt summary cannot be empty''
      else if rc_reason r = Resolved \<and> list_ex (\<lambda>receipt. vr_outcome receipt = VerificationFailed) (rc_verification r)
      then Inl ''resolved run cannot contain a failed verification receipt''
      else Inr ())"

definition pass_at_one :: "RunReceipt \<Rightarrow> bool" where
  "pass_at_one r =
     (rc_verification r \<noteq> [] \<and>
      list_all (\<lambda>receipt. vr_outcome receipt = PassedFirstAttempt \<and> vr_attempts receipt = 1) (rc_verification r))"

text \<open>
  The exit code of a turn tells its outcome apart: 0 exactly if the turn completed, 130 exactly if it
  was interrupted, 3 exactly if it failed for want of an approval, 2 exactly if it failed with no evidence
  at all, and 1 for every other failure. In particular no error category and no tool error turns a failed
  turn into a success.
\<close>

theorem turn_exit_code_exact:
  "process_exit_code (classify_turn_termination status category tool_error approval) =
     (if status = Completed then 0 else if status = Interrupted then 130
      else if approval then 3 else if tool_error = False \<and> category = None then 2 else 1)"
  by (cases status; cases category)
    (auto simp: classify_turn_termination_def split: ErrorCategory.split)

text \<open>
  A receipt with a summary that claims a first-attempt pass is accepted, whatever its reason, and an
  accepted receipt that exits with 0 contains no failed verification.
\<close>

theorem accepted_receipts_sound:
  assumes "trim (rc_summary r) \<noteq> []"
  shows "(pass_at_one r \<longrightarrow> receipt_validate r = Inr ()) \<and>
    (receipt_validate r = Inr () \<and> process_exit_code (rc_reason r) = 0 \<longrightarrow>
      VerificationFailed \<notin> vr_outcome ` set (rc_verification r))"
proof -
  have "process_exit_code (rc_reason r) = 0 \<longleftrightarrow> rc_reason r = Resolved" by (cases "rc_reason r") simp_all
  moreover have "list_ex (\<lambda>receipt. vr_outcome receipt = VerificationFailed) (rc_verification r) \<longleftrightarrow>
      VerificationFailed \<in> vr_outcome ` set (rc_verification r)"
    by (rule list_ex_image)
  moreover have "VerificationFailed \<notin> vr_outcome ` set (rc_verification r)" if "pass_at_one r"
    using that by (auto simp: pass_at_one_def list_all_iff)
  ultimately show ?thesis using assms by (simp add: receipt_validate_def)
qed

definition passing_receipt :: RunReceipt where
  "passing_receipt = \<lparr>rc_reason = Resolved, rc_summary = ''fixed'', rc_files_changed = [''src/lib.rs''],
     rc_verification = [\<lparr>vr_command = ''cargo test'', vr_outcome = PassedFirstAttempt, vr_attempts = 1,
       vr_duration_ms = 10, vr_artifact = None\<rparr>], rc_remaining_risks = []\<rparr>"

theorem accepted_receipts_sound_witness:
  "pass_at_one passing_receipt \<and> receipt_validate passing_receipt = Inr ()"
proof -
  have "trim (rc_summary passing_receipt) \<noteq> []" "pass_at_one passing_receipt" by code_simp+
  with accepted_receipts_sound [of passing_receipt] show ?thesis by blast
qed

section \<open>Context receipts\<close>

datatype ContextSourceKind =
  Constitution | RepositoryLaw | ScopedRepositoryLaw | Instruction | Skill | Hook | McpSource | Memory |
  ModelProfile | CapabilityProfile

datatype ContextPriority = Required | High | Normal | Optional

record ContextSourceReceipt =
  cs_id :: string
  cs_kind :: ContextSourceKind
  cs_priority :: ContextPriority
  cs_path :: "string option"
  cs_bytes :: u64
  cs_estimated_tokens :: u64
  cs_content_hash :: string
  cs_included :: bool
  cs_reason :: string

record ResourcesLoadedEvent =
  rl_event_id :: string
  rl_sources :: "ContextSourceReceipt list"
  rl_assembly_ms :: u64
  rl_prompt_tokens :: u64
  rl_schema_tokens :: u64

definition included_tokens :: "ResourcesLoadedEvent \<Rightarrow> u64" where
  "included_tokens e = sum_list (map cs_estimated_tokens (filter cs_included (rl_sources e)))"

definition validate_required_sources :: "ResourcesLoadedEvent \<Rightarrow> string list + unit" where
  "validate_required_sources e =
     (let missing = map cs_id (filter (\<lambda>s. cs_priority s = Required \<and> \<not> cs_included s) (rl_sources e))
      in if missing = [] then Inr () else Inl missing)"

record ContinuitySet =
  constraints :: "string set"
  approvals :: "string set"
  failed_checks :: "string set"
  edited_paths :: "string set"
  pending_work :: "string set"

record CondensationEvent =
  cd_event_id :: string
  cd_source_start_event_id :: string
  cd_source_end_event_id :: string
  cd_summary_hash :: string
  cd_provider :: string
  cd_model :: string
  cd_reason :: string
  cd_continuity :: ContinuitySet
  cd_input_tokens :: u64
  cd_output_tokens :: u64

definition condensation_labels :: "CondensationEvent \<Rightarrow> (string \<times> string) list" where
  "condensation_labels e =
     [(''event_id'', cd_event_id e), (''source_start_event_id'', cd_source_start_event_id e),
      (''source_end_event_id'', cd_source_end_event_id e), (''summary_hash'', cd_summary_hash e),
      (''provider'', cd_provider e), (''model'', cd_model e), (''reason'', cd_reason e)]"

definition condensation_validate :: "CondensationEvent \<Rightarrow> unit str_result" where
  "condensation_validate e =
     (case List.find (\<lambda>(label, v). trim v = []) (condensation_labels e) of
        Some (label, _) \<Rightarrow> Inl (''condensation '' @ label @ '' cannot be empty'')
      | None \<Rightarrow> Inr ())"

lemma included_tokens_exact:
  assumes "sum_list (map (unat \<circ> cs_estimated_tokens) (filter cs_included (rl_sources e))) < 2 ^ 64"
  shows "unat (included_tokens e) = sum_list (map (unat \<circ> cs_estimated_tokens) (filter cs_included (rl_sources e)))"
proof -
  have "unat (sum_list ws :: u64) = sum_list (map unat ws)" if "sum_list (map unat ws) < 2 ^ 64" for ws :: "u64 list"
    using that
  proof (induction ws)
    case (Cons w ws)
    then have "unat w + unat (sum_list ws) < 2 ^ 64" "unat (sum_list ws) = sum_list (map unat ws)" by simp_all
    then show ?case by (simp add: unat_word_ariths)
  qed simp
  from this [of "map cs_estimated_tokens (filter cs_included (rl_sources e))"] assms show ?thesis
    by (simp add: included_tokens_def)
qed

section \<open>Work events\<close>

datatype WorkDomain = Task | Todo | Plan | Workflow

datatype WorkLifecycle = Pending | Active | Waiting | WorkCompleted | WorkFailed | WorkCanceled

record 'v WorkEventEnvelope =
  we_schema_version :: u32
  we_event_id :: string
  we_domain :: WorkDomain
  we_object_id :: string
  we_lifecycle :: WorkLifecycle
  we_parent_id :: "string option"
  we_payload :: 'v

definition work_validate :: "('v \<Rightarrow> bool) \<Rightarrow> 'v WorkEventEnvelope \<Rightarrow> unit str_result" where
  "work_validate is_object e =
     (if we_schema_version e = 0 then Inl ''work event schema version cannot be zero''
      else if trim (we_event_id e) = [] \<or> trim (we_object_id e) = []
      then Inl ''work event and object IDs cannot be empty''
      else if \<not> is_object (we_payload e) then Inl ''work event payload must remain a typed object''
      else Inr ())"

end
