(* ===== verification/Network_Policy.thy ===== *)
theory Network_Policy
  imports Str_Lemmas
begin

unbundle bit_operations_syntax

text \<open>
  The per-domain network policy (\<open>network_policy.rs\<close>): host matching, the decision with its session cache
  and audit trail, and the narrow trust in fake-IP ranges. The interior of the \<open>Mutex\<close> is passed as state
  (a poisoned lock is not modelled); the audit file is the list of the lines appended to it, without the
  timestamp and with every write successful. \<open>host_from_url\<close> only calls the URL parser of another crate.
\<close>

section \<open>Policies and hosts\<close>

datatype Decision = Allow | Deny | Prompt

fun Decision_as_str :: "Decision \<Rightarrow> string" where
  "Decision_as_str Allow = ''Allow''"
| "Decision_as_str Deny = ''Deny''"
| "Decision_as_str Prompt = ''Prompt''"

definition Decision_parse :: "string \<Rightarrow> Decision" where
  "Decision_parse v =
     (let w = to_ascii_lowercase (trim v)
      in if w = ''allow'' then Allow else if w = ''deny'' \<or> w = ''block'' then Deny else Prompt)"

datatype DecisionToml = TomlAllow | TomlDeny | TomlPrompt

fun Decision_from :: "DecisionToml \<Rightarrow> Decision" where
  "Decision_from TomlAllow = Allow"
| "Decision_from TomlDeny = Deny"
| "Decision_from TomlPrompt = Prompt"

fun DecisionToml_from :: "Decision \<Rightarrow> DecisionToml" where
  "DecisionToml_from Allow = TomlAllow"
| "DecisionToml_from Deny = TomlDeny"
| "DecisionToml_from Prompt = TomlPrompt"

record NetworkPolicy =
  np_default :: DecisionToml
  np_allow :: "string list"
  np_deny :: "string list"
  np_proxy :: "string list"
  np_proxy_fake_ip_cidrs :: "string list"
  np_audit :: bool

definition NetworkPolicy_default :: NetworkPolicy where
  "NetworkPolicy_default =
     \<lparr>np_default = TomlPrompt, np_allow = [], np_deny = [], np_proxy = [], np_proxy_fake_ip_cidrs = [],
      np_audit = True\<rparr>"

definition trim_end_matches :: "char \<Rightarrow> string \<Rightarrow> string" where
  "trim_end_matches d s = rev (dropWhile (\<lambda>c. c = d) (rev s))"

definition normalize_host :: "string \<Rightarrow> string" where
  "normalize_host host =
     (let trimmed = to_ascii_lowercase (trim_end_matches (CHR ''.'') (trim host))
      in case strip_prefix trimmed ''*.'' of
           Some rest \<Rightarrow> ''.'' @ rest
         | None \<Rightarrow> trimmed)"

definition host_matches :: "string \<Rightarrow> string \<Rightarrow> bool" where
  "host_matches entry normalized_host =
     (let entry_norm = normalize_host entry
      in case strip_prefix entry_norm ''.'' of
           Some suff \<Rightarrow> if suff = [] then False else ends_with normalized_host (''.'' @ suff)
         | None \<Rightarrow> entry_norm = normalized_host)"

definition network_decide :: "NetworkPolicy \<Rightarrow> string \<Rightarrow> Decision" where
  "network_decide p host =
     (let normalized = normalize_host host
      in if normalized = [] then Decision_from (np_default p)
         else if list_ex (\<lambda>entry. host_matches entry normalized) (np_deny p) then Deny
         else if list_ex (\<lambda>entry. host_matches entry normalized) (np_allow p) then Allow
         else Decision_from (np_default p))"

definition add_allow :: "NetworkPolicy \<Rightarrow> string \<Rightarrow> NetworkPolicy" where
  "add_allow p host =
     (let normalized = normalize_host host
      in if normalized = [] then p
         else if \<not> list_ex (\<lambda>existing. normalize_host existing = normalized) (np_allow p)
         then p\<lparr>np_allow := np_allow p @ [normalized]\<rparr>
         else p)"

definition policy_trusts_proxy_fakeip_host :: "NetworkPolicy \<Rightarrow> string \<Rightarrow> bool" where
  "policy_trusts_proxy_fakeip_host p host =
     (let normalized = normalize_host host
      in if normalized = [] then False
         else if list_ex (\<lambda>entry. host_matches entry normalized) (np_deny p) then False
         else list_ex (\<lambda>entry. host_matches entry normalized) (np_proxy p))"

section \<open>Fake-IP ranges\<close>

type_synonym ipv4 = "u8 \<times> u8 \<times> u8 \<times> u8"

datatype IpAddr = V4 ipv4 | V6 "16 word list"

text \<open>\<open>Ipv4Addr::from_str\<close> and \<open>u8::from_str\<close> of the standard library.\<close>

definition digits_value :: "string \<Rightarrow> nat" where
  "digits_value s = foldl (\<lambda>n c. 10 * n + (byte c - 48)) 0 s"

definition parse_octet :: "string \<Rightarrow> u8 option" where
  "parse_octet s =
     (if s \<noteq> [] \<and> length s \<le> 3 \<and> list_all is_ascii_digit s \<and> (length s = 1 \<or> hd s \<noteq> CHR ''0'') \<and>
         digits_value s \<le> 255
      then Some (of_nat (digits_value s)) else None)"

definition parse_ipv4 :: "string \<Rightarrow> ipv4 option" where
  "parse_ipv4 s =
     (case map parse_octet (split_char (CHR ''.'') s) of
        [Some a, Some b, Some c, Some d] \<Rightarrow> Some (a, b, c, d)
      | _ \<Rightarrow> None)"

definition parse_u8 :: "string \<Rightarrow> u8 option" where
  "parse_u8 s =
     (let digits = (case s of CHR ''+'' # r \<Rightarrow> r | _ \<Rightarrow> s)
      in if digits \<noteq> [] \<and> list_all is_ascii_digit digits \<and> digits_value digits \<le> 255
         then Some (of_nat (digits_value digits)) else None)"

definition parse_ipv4_cidr :: "string \<Rightarrow> (ipv4 \<times> u8) option" where
  "parse_ipv4_cidr cidr =
     (case split_once (CHR ''/'') cidr of
        None \<Rightarrow> None
      | Some (addr, prefix_text) \<Rightarrow>
          (case parse_ipv4 (trim addr) of
             None \<Rightarrow> None
           | Some base \<Rightarrow>
               (case parse_u8 (trim prefix_text) of
                  None \<Rightarrow> None
                | Some prefix_len \<Rightarrow> if 32 < prefix_len then None else Some (base, prefix_len))))"

definition parse_trusted_fakeip_cidr :: "string \<Rightarrow> (ipv4 \<times> u8) option" where
  "parse_trusted_fakeip_cidr cidr =
     (case parse_ipv4_cidr cidr of
        None \<Rightarrow> None
      | Some ((a, b, c, d), prefix_len) \<Rightarrow>
          if 15 \<le> prefix_len \<and> a = 198 \<and> (18 \<le> b \<and> b \<le> 19) then Some ((a, b, c, d), prefix_len) else None)"

definition ipv4_bits :: "ipv4 \<Rightarrow> u32" where
  "ipv4_bits ip =
     (case ip of (a, b, c, d) \<Rightarrow>
        push_bit 24 (ucast a) + push_bit 16 (ucast b) + push_bit 8 (ucast c) + ucast d)"

definition ipv4_in_cidr :: "ipv4 \<Rightarrow> ipv4 \<Rightarrow> u8 \<Rightarrow> bool" where
  "ipv4_in_cidr ip base prefix_len =
     (if prefix_len = 0 then True
      else (let mask = push_bit (unat (32 - prefix_len)) (-1 :: u32)
            in ipv4_bits ip AND mask = ipv4_bits base AND mask))"

section \<open>Audit trail and session cache\<close>

record NetworkAuditor =
  na_path :: string
  na_enabled :: bool

function sanitize_field :: "string \<Rightarrow> string" where
  "sanitize_field [] = []"
| "sanitize_field (c # s) =
     (if ws_len (c # s) = 0 then c # sanitize_field s
      else CHR ''_'' # sanitize_field (drop (ws_len (c # s)) (c # s)))"
  by pat_completeness auto
termination
  by (relation "measure length") auto

definition audit_line :: "string \<Rightarrow> string \<Rightarrow> string \<Rightarrow> string \<Rightarrow> string" where
  "audit_line ts host tool decision_label =
     ts @ '' network '' @ sanitize_field host @ '' '' @ sanitize_field tool @ '' '' @ decision_label"

record NetworkSessionCacheInner =
  nc_approved :: "string set"
  nc_denied :: "string set"

definition NetworkSessionCache_new :: NetworkSessionCacheInner where
  "NetworkSessionCache_new = \<lparr>nc_approved = {}, nc_denied = {}\<rparr>"

definition is_approved :: "NetworkSessionCacheInner \<Rightarrow> string \<Rightarrow> bool" where
  "is_approved c host = (normalize_host host \<in> nc_approved c)"

definition is_denied :: "NetworkSessionCacheInner \<Rightarrow> string \<Rightarrow> bool" where
  "is_denied c host = (normalize_host host \<in> nc_denied c)"

definition cache_approve :: "NetworkSessionCacheInner \<Rightarrow> string \<Rightarrow> NetworkSessionCacheInner" where
  "cache_approve c host =
     (let normalized = normalize_host host
      in c\<lparr>nc_denied := nc_denied c - {normalized}, nc_approved := insert normalized (nc_approved c)\<rparr>)"

definition cache_deny :: "NetworkSessionCacheInner \<Rightarrow> string \<Rightarrow> NetworkSessionCacheInner" where
  "cache_deny c host =
     (let normalized = normalize_host host
      in c\<lparr>nc_approved := nc_approved c - {normalized}, nc_denied := insert normalized (nc_denied c)\<rparr>)"

section \<open>The decider\<close>

record NetworkPolicyDecider =
  nd_policy :: NetworkPolicy
  nd_cache :: NetworkSessionCacheInner
  nd_auditor :: "NetworkAuditor option"
  nd_trusted_fakeip_cidrs :: "(ipv4 \<times> u8) list"
  nd_audit_log :: "(string \<times> string \<times> string) list"

definition NetworkPolicyDecider_new :: "NetworkPolicy \<Rightarrow> NetworkAuditor option \<Rightarrow> NetworkPolicyDecider" where
  "NetworkPolicyDecider_new p auditor =
     \<lparr>nd_policy = p, nd_cache = NetworkSessionCache_new, nd_auditor = auditor,
      nd_trusted_fakeip_cidrs = List.map_filter parse_trusted_fakeip_cidr (np_proxy_fake_ip_cidrs p),
      nd_audit_log = []\<rparr>"

definition with_trusted_fakeip_cidrs :: "NetworkPolicyDecider \<Rightarrow> string list \<Rightarrow> NetworkPolicyDecider" where
  "with_trusted_fakeip_cidrs d cidrs =
     foldl (\<lambda>d cidr. case parse_trusted_fakeip_cidr cidr of
         None \<Rightarrow> d
       | Some parsed \<Rightarrow> d\<lparr>nd_trusted_fakeip_cidrs := nd_trusted_fakeip_cidrs d @ [parsed]\<rparr>) d cidrs"

definition is_trusted_fakeip_addr :: "NetworkPolicyDecider \<Rightarrow> IpAddr \<Rightarrow> bool" where
  "is_trusted_fakeip_addr d ip =
     (case ip of
        V4 v4 \<Rightarrow> list_ex (\<lambda>(base, prefix_len). ipv4_in_cidr v4 base prefix_len) (nd_trusted_fakeip_cidrs d)
      | V6 _ \<Rightarrow> False)"

definition audit_record :: "NetworkPolicyDecider \<Rightarrow> string \<Rightarrow> string \<Rightarrow> string \<Rightarrow> NetworkPolicyDecider" where
  "audit_record d host tool label =
     (case nd_auditor d of
        None \<Rightarrow> d
      | Some auditor \<Rightarrow>
          if \<not> na_enabled auditor then d
          else d\<lparr>nd_audit_log := nd_audit_log d @ [(sanitize_field host, sanitize_field tool, label)]\<rparr>)"

definition network_evaluate ::
  "NetworkPolicyDecider \<Rightarrow> string \<Rightarrow> string \<Rightarrow> NetworkPolicyDecider \<times> Decision" where
  "network_evaluate d host tool =
     (let normalized = normalize_host host
      in if normalized = [] then (d, Decision_from (np_default (nd_policy d)))
         else if is_denied (nd_cache d) normalized then (audit_record d normalized tool ''Deny'', Deny)
         else if is_approved (nd_cache d) normalized then (audit_record d normalized tool ''Allow'', Allow)
         else (case network_decide (nd_policy d) normalized of
             Allow \<Rightarrow> (audit_record d normalized tool ''Allow'', Allow)
           | Deny \<Rightarrow> (audit_record d normalized tool ''Deny'', Deny)
           | Prompt \<Rightarrow> (d, Prompt)))"

definition approve_session :: "NetworkPolicyDecider \<Rightarrow> string \<Rightarrow> string \<Rightarrow> NetworkPolicyDecider" where
  "approve_session d host tool =
     audit_record (d\<lparr>nd_cache := cache_approve (nd_cache d) host\<rparr>) host tool ''Prompt-Approved''"

definition deny_session :: "NetworkPolicyDecider \<Rightarrow> string \<Rightarrow> string \<Rightarrow> NetworkPolicyDecider" where
  "deny_session d host tool =
     audit_record (d\<lparr>nd_cache := cache_deny (nd_cache d) host\<rparr>) host tool ''Prompt-Denied''"

definition approve_persistent :: "NetworkPolicyDecider \<Rightarrow> string \<Rightarrow> string \<Rightarrow> NetworkPolicyDecider" where
  "approve_persistent d host tool =
     audit_record (d\<lparr>nd_policy := add_allow (nd_policy d) host, nd_cache := cache_approve (nd_cache d) host\<rparr>)
       host tool ''Prompt-Approved''"

definition record_trusted_proxy_fakeip_allow ::
  "NetworkPolicyDecider \<Rightarrow> string \<Rightarrow> string \<Rightarrow> NetworkPolicyDecider" where
  "record_trusted_proxy_fakeip_allow d host tool = audit_record d host tool ''TrustedProxyFakeIp-Allow''"

section \<open>Trusted addresses\<close>

lemma top_bits_masked:
  fixes x y :: u32
  assumes "x AND push_bit k (-1) = y AND push_bit k (-1)" and "k \<le> n"
  shows "drop_bit n x = drop_bit n y"
proof (rule bit_eqI)
  fix i
  assume "possible_bit TYPE(32 word) i"
  have "bit (x AND push_bit k (-1)) (n + i) = bit (y AND push_bit k (-1)) (n + i)" using assms(1) by simp
  then show "bit (drop_bit n x) i = bit (drop_bit n y) i"
    using assms(2) by (auto simp: bit_simps dest: bit_imp_le_length)
qed

lemma ipv4_bits_top:
  "unat (drop_bit 17 (ipv4_bits (a, b, c, d))) = unat a * 2 ^ 7 + unat b div 2"
proof -
  have bounds: "unat a < 256" "unat b < 256" "unat c < 256" "unat d < 256"
    using unsigned_less [of a] unsigned_less [of b] unsigned_less [of c] unsigned_less [of d] by simp_all
  let ?v = "unat a * 2 ^ 24 + unat b * 2 ^ 16 + unat c * 2 ^ 8 + unat d"
  have "?v < 2 ^ 32" using bounds by simp
  moreover have "unat (of_nat v :: u32) = v" if "v < 2 ^ 32" for v
    using that by (simp add: unat_of_nat take_bit_nat_eq_self)
  moreover have "ipv4_bits (a, b, c, d) = of_nat ?v" by (simp add: ipv4_bits_def push_bit_eq_mult)
  ultimately have "unat (ipv4_bits (a, b, c, d)) = ?v" by metis
  then have "unat (drop_bit 17 (ipv4_bits (a, b, c, d))) = ?v div 2 ^ 17"
    unfolding unat_drop_bit_eq by (simp only: drop_bit_eq_div)
  also have "\<dots> = unat a * 2 ^ 7 + unat b div 2" using bounds by simp
  finally show ?thesis .
qed

lemma octets_from_top:
  fixes w x :: nat
  assumes "w * 128 + x div 2 = 25353" and "x < 256"
  shows "w = 198 \<and> (x = 18 \<or> x = 19)"
proof -
  have "x div 2 < 128" using assms(2) by simp
  with assms(1) have w: "w = 198" by linarith
  then have "x div 2 = 9" using assms(1) by linarith
  with w show ?thesis by presburger
qed

lemma parse_trusted_Some:
  assumes "parse_trusted_fakeip_cidr cidr = Some (base, n)"
  shows "\<exists>b c d. base = (198, b, c, d) \<and> 18 \<le> b \<and> b \<le> 19 \<and> 15 \<le> n \<and> n \<le> 32"
  using assms
  by (auto simp: parse_trusted_fakeip_cidr_def parse_ipv4_cidr_def not_less split: option.splits if_splits prod.splits)

lemma trusted_cidr_contained:
  assumes "parse_trusted_fakeip_cidr cidr = Some (base, n)" and "ipv4_in_cidr (w, x, y, z) base n"
  shows "w = 198 \<and> (x = 18 \<or> x = 19)"
proof -
  obtain b c d where base: "base = (198, b, c, d)" "18 \<le> b" "b \<le> 19" and n: "15 \<le> n" "n \<le> 32"
    using parse_trusted_Some [OF assms(1)] by blast
  have "15 \<le> unat n" using n(1) by (simp add: word_le_nat_alt)
  then have "n \<noteq> 0" by auto
  have k: "unat (32 - n) \<le> 17" using unat_sub [OF n(2)] \<open>15 \<le> unat n\<close> by simp
  have "ipv4_bits (w, x, y, z) AND push_bit (unat (32 - n)) (-1) = ipv4_bits base AND push_bit (unat (32 - n)) (-1)"
    using assms(2) \<open>n \<noteq> 0\<close> unfolding ipv4_in_cidr_def Let_def by (simp only: if_False)
  from top_bits_masked [OF this k]
  have "drop_bit 17 (ipv4_bits (w, x, y, z)) = drop_bit 17 (ipv4_bits base)" .
  then have "unat w * 2 ^ 7 + unat x div 2 = unat (198 :: u8) * 2 ^ 7 + unat b div 2"
    using ipv4_bits_top [of w x y z] ipv4_bits_top [of 198 b c d] base(1) by simp
  moreover have "unat b div 2 = 9" using base(2,3) by (simp add: word_le_nat_alt)
  moreover have "unat x < 256" using unsigned_less [of x] by simp
  ultimately have "unat w * 128 + unat x div 2 = 25353" "unat x < 256" by simp_all
  then have "unat w = 198" "unat x = 18 \<or> unat x = 19" using octets_from_top by blast+
  then have "w = 198" "x = 18 \<or> x = 19"
    by (auto simp: word_unat_eq_iff)
  then show ?thesis by blast
qed

text \<open>A decider as it is configured: built from any policy, extended with any further ranges.\<close>

lemma with_trusted_ranges:
  "set (nd_trusted_fakeip_cidrs (with_trusted_fakeip_cidrs d cidrs)) =
     set (nd_trusted_fakeip_cidrs d) \<union> {r. \<exists>cidr \<in> set cidrs. parse_trusted_fakeip_cidr cidr = Some r}"
proof (induction cidrs arbitrary: d)
  case (Cons cidr cidrs)
  then show ?case
    by (cases "parse_trusted_fakeip_cidr cidr") (auto simp: with_trusted_fakeip_cidrs_def)
qed (simp add: with_trusted_fakeip_cidrs_def)

lemma new_ranges:
  "set (nd_trusted_fakeip_cidrs (NetworkPolicyDecider_new p auditor)) =
     {r. \<exists>cidr \<in> set (np_proxy_fake_ip_cidrs p). parse_trusted_fakeip_cidr cidr = Some r}"
  by (simp add: NetworkPolicyDecider_new_def set_map_filter_eq)

text \<open>
  Whatever ranges the configuration names, a trusted fake-IP address lies in 198.18.0.0/15: no setting
  makes a loopback, private, link-local, metadata or IPv6 address trusted.
\<close>

theorem trusted_fakeip_contained:
  assumes "is_trusted_fakeip_addr (with_trusted_fakeip_cidrs (NetworkPolicyDecider_new p auditor) cidrs) ip"
  shows "\<exists>b c d. ip = V4 (198, b, c, d) \<and> (b = 18 \<or> b = 19)"
proof -
  obtain w x y z where ip: "ip = V4 (w, x, y, z)"
    using assms by (cases ip) (auto simp: is_trusted_fakeip_addr_def)
  then obtain base n where "(base, n) \<in> set (nd_trusted_fakeip_cidrs
      (with_trusted_fakeip_cidrs (NetworkPolicyDecider_new p auditor) cidrs))" "ipv4_in_cidr (w, x, y, z) base n"
    using assms by (auto simp: is_trusted_fakeip_addr_def list_ex_iff)
  then obtain cidr where "parse_trusted_fakeip_cidr cidr = Some (base, n)" "ipv4_in_cidr (w, x, y, z) base n"
    unfolding with_trusted_ranges new_ranges by blast
  with trusted_cidr_contained ip show ?thesis by blast
qed

definition proxy_policy :: NetworkPolicy where
  "proxy_policy = NetworkPolicy_default\<lparr>np_proxy_fake_ip_cidrs := [''10.0.0.0/8'', ''198.18.0.0/16'']\<rparr>"

theorem trusted_fakeip_contained_witness:
  "\<exists>b c d. V4 (198, 18, 7, 9) = V4 (198, b, c, d) \<and> (b = 18 \<or> b = 19)"
proof (rule trusted_fakeip_contained [where p = proxy_policy and auditor = None and cidrs = "[]"])
  show "is_trusted_fakeip_addr (with_trusted_fakeip_cidrs (NetworkPolicyDecider_new proxy_policy None) [])
      (V4 (198, 18, 7, 9))"
    by code_simp
qed

section \<open>Normalised hosts\<close>

lemma ws_free_appendD: "ws_free (s @ t) \<Longrightarrow> ws_free s \<and> ws_free t"
proof (induction s)
  case (Cons c s)
  then have "ws_len (c # s @ t) = 0" "ws_free s \<and> ws_free t" by simp_all
  with ws_len_append [of "c # s" t] show ?case by force
qed simp

lemma ws_free_dot: "ws_free s \<Longrightarrow> ws_free (CHR ''.'' # s)"
proof -
  have "CHR ''.'' \<notin> set ws_lead" by code_simp
  then have "ws_len (CHR ''.'' # s) = 0" using ws_len_lead by fastforce
  then show "ws_free s \<Longrightarrow> ws_free (CHR ''.'' # s)" by simp
qed

lemma ws_free_lower: "ws_free s \<Longrightarrow> ws_free (to_ascii_lowercase s)"
proof (induction s)
  case (Cons c s)
  then have "ws_len (to_ascii_lowercase (c # s)) = 0" unfolding ws_len_lower by simp
  with Cons show ?case by simp
qed simp

lemma trim_ws_free: "ws_free s \<Longrightarrow> trim s = s"
proof -
  assume s: "ws_free s"
  then have "trim_start s = s" by (simp add: trim_start_id ws_free_ws_len)
  moreover have "trim_end s = s"
    using s by (induction s) (auto simp: trim_start_id simp del: ws_len.simps)
  ultimately show ?thesis by (simp add: trim_def)
qed

lemma trim_end_matches_split: "\<exists>t. s = trim_end_matches d s @ t"
proof -
  have "rev s = takeWhile (\<lambda>c. c = d) (rev s) @ dropWhile (\<lambda>c. c = d) (rev s)" by simp
  then have "s = rev (dropWhile (\<lambda>c. c = d) (rev s)) @ rev (takeWhile (\<lambda>c. c = d) (rev s))"
    by (metis rev_append rev_rev_ident)
  then show ?thesis by (auto simp: trim_end_matches_def)
qed

lemma trim_end_matches_last: "trim_end_matches d s = [] \<or> last (trim_end_matches d s) \<noteq> d"
  using hd_dropWhile [of "\<lambda>c. c = d" "rev s"] by (auto simp: trim_end_matches_def last_rev)

lemma trim_end_matches_id: "s = [] \<or> last s \<noteq> d \<Longrightarrow> trim_end_matches d s = s"
  by (cases s rule: rev_cases) (auto simp: trim_end_matches_def)

lemma lower_dot: "lower_byte c = CHR ''.'' \<longleftrightarrow> c = CHR ''.''"
  by (rule lower_byte_fixed_iff) code_simp+

lemma lower_last: "s \<noteq> [] \<Longrightarrow> last (to_ascii_lowercase s) = lower_byte (last s)"
  by (simp add: to_ascii_lowercase_def last_map)

text \<open>A host without whitespace normalises to a fixed point.\<close>

lemma normalize_host_fixed:
  assumes "ws_free s" and "s = [] \<or> last s \<noteq> CHR ''.''" and "to_ascii_lowercase s = s"
    and "strip_prefix s ''*.'' = None"
  shows "normalize_host s = s"
  using assms by (simp add: normalize_host_def trim_ws_free trim_end_matches_id)

lemma normalize_host_idem:
  assumes "ws_free h"
  shows "normalize_host (normalize_host h) = normalize_host h"
proof -
  define n where "n = to_ascii_lowercase (trim_end_matches (CHR ''.'') h)"
  have free: "ws_free n"
    unfolding n_def using assms trim_end_matches_split [of h "CHR ''.''"] by (metis ws_free_appendD ws_free_lower)
  have last: "n = [] \<or> last n \<noteq> CHR ''.''"
    using trim_end_matches_last [of "CHR ''.''" h] by (auto simp: n_def lower_last lower_dot)
  have low: "to_ascii_lowercase n = n" by (simp add: n_def)
  have nh: "normalize_host h = (case strip_prefix n ''*.'' of Some rest \<Rightarrow> ''.'' @ rest | None \<Rightarrow> n)"
    unfolding normalize_host_def trim_ws_free [OF assms] Let_def n_def ..
  show ?thesis
  proof (cases "strip_prefix n ''*.''")
    case None
    with nh show ?thesis by (simp add: normalize_host_fixed [OF free last low None])
  next
    case (Some rest)
    then have n: "n = ''*.'' @ rest" by (auto simp: strip_prefix_def prefix_def split: if_splits)
    have "normalize_host (''.'' @ rest) = ''.'' @ rest"
    proof (rule normalize_host_fixed)
      show "ws_free (''.'' @ rest)" using free ws_free_appendD [of "''*.''" rest] ws_free_dot [of rest] n by simp
      show "''.'' @ rest = [] \<or> last (''.'' @ rest) \<noteq> CHR ''.''" using last n by (auto split: if_splits)
      show "to_ascii_lowercase (''.'' @ rest) = ''.'' @ rest" using low n by (simp add: lower_dot)
    qed (simp add: strip_prefix_def)
    with nh Some show ?thesis by simp
  qed
qed

section \<open>Sessions\<close>

datatype NetworkStep =
  Approve string string | Refuse string string | ApproveAlways string string | Ask string string

definition network_step :: "NetworkPolicyDecider \<Rightarrow> NetworkStep \<Rightarrow> NetworkPolicyDecider" where
  "network_step d st =
     (case st of
        Approve host tool \<Rightarrow> approve_session d host tool
      | Refuse host tool \<Rightarrow> deny_session d host tool
      | ApproveAlways host tool \<Rightarrow> approve_persistent d host tool
      | Ask host tool \<Rightarrow> fst (network_evaluate d host tool))"

text \<open>The last answer the user gave for a normalised host.\<close>

definition answer :: "string \<Rightarrow> bool option \<Rightarrow> NetworkStep \<Rightarrow> bool option" where
  "answer n old st =
     (case st of
        Approve host _ \<Rightarrow> if normalize_host host = n then Some True else old
      | Refuse host _ \<Rightarrow> if normalize_host host = n then Some False else old
      | ApproveAlways host _ \<Rightarrow> if normalize_host host = n then Some True else old
      | Ask _ _ \<Rightarrow> old)"

definition last_answer :: "NetworkStep list \<Rightarrow> string \<Rightarrow> bool option" where
  "last_answer steps n = foldl (answer n) None steps"

lemma audit_record_fields [simp]:
  "nd_policy (audit_record d h t l) = nd_policy d" "nd_cache (audit_record d h t l) = nd_cache d"
  by (simp_all add: audit_record_def split: option.split)

lemma evaluate_state [simp]:
  "nd_policy (fst (network_evaluate d h t)) = nd_policy d" "nd_cache (fst (network_evaluate d h t)) = nd_cache d"
  by (simp_all add: network_evaluate_def Let_def split: Decision.split)

lemma add_allow_fields [simp]:
  "np_deny (add_allow p h) = np_deny p" "np_default (add_allow p h) = np_default p"
  by (simp_all add: add_allow_def Let_def)

lemma step_policy:
  "np_deny (nd_policy (network_step d st)) = np_deny (nd_policy d)"
  by (simp add: network_step_def approve_session_def deny_session_def approve_persistent_def split: NetworkStep.split)

lemma step_cache:
  assumes "n \<in> nc_approved (nd_cache d) \<longleftrightarrow> old = Some True" and "n \<in> nc_denied (nd_cache d) \<longleftrightarrow> old = Some False"
  shows "(n \<in> nc_approved (nd_cache (network_step d st)) \<longleftrightarrow> answer n old st = Some True) \<and>
    (n \<in> nc_denied (nd_cache (network_step d st)) \<longleftrightarrow> answer n old st = Some False)"
  using assms
  by (cases st)
    (auto simp: network_step_def answer_def approve_session_def deny_session_def approve_persistent_def
      cache_approve_def cache_deny_def Let_def)

lemma session_cache:
  "(n \<in> nc_approved (nd_cache (foldl network_step (NetworkPolicyDecider_new p a) steps)) \<longleftrightarrow>
      last_answer steps n = Some True) \<and>
   (n \<in> nc_denied (nd_cache (foldl network_step (NetworkPolicyDecider_new p a) steps)) \<longleftrightarrow>
      last_answer steps n = Some False) \<and>
   np_deny (nd_policy (foldl network_step (NetworkPolicyDecider_new p a) steps)) = np_deny p"
proof (induction steps rule: rev_induct)
  case Nil
  show ?case by (simp add: NetworkPolicyDecider_new_def NetworkSessionCache_new_def last_answer_def)
next
  case (snoc st steps)
  then show ?case
    using step_cache [of n "foldl network_step (NetworkPolicyDecider_new p a) steps" "last_answer steps n" st]
    by (simp add: last_answer_def step_policy)
qed


definition guarded_policy :: NetworkPolicy where
  "guarded_policy = NetworkPolicy_default\<lparr>np_deny := [''*.Example.com'']\<rparr>"


section \<open>Audit lines\<close>

lemma sanitize_hd:
  assumes "sanitize_field s = b # t" and "b \<noteq> CHR ''_''"
  shows "\<exists>s'. s = b # s' \<and> t = sanitize_field s'"
  using assms by (cases s) (auto split: if_splits)

lemma ws_len_sanitize:
  assumes "ws_len (c # s) = 0"
  shows "ws_len (c # sanitize_field s) = 0"
proof (rule ccontr)
  assume ws: "ws_len (c # sanitize_field s) \<noteq> 0"
  have plain: "CHR ''_'' \<notin> set ws_e280" "CHR ''_'' \<notin> {CHR 0x80, CHR 0x81, CHR 0x85, CHR 0x9A, CHR 0x9F, CHR 0xA0}"
    by code_simp+
  have ascii: "c \<notin> set ascii_ws" using assms by (cases "c # s" rule: ws_len.cases) (auto split: if_splits)
  then obtain b t where bt: "sanitize_field s = b # t" using ws by (cases "sanitize_field s") auto
  have "b \<noteq> CHR ''_''"
  proof
    assume "b = CHR ''_''"
    with ws bt ascii plain show False by (cases t) (auto split: if_splits)
  qed
  then obtain s' where s: "s = b # s'" "t = sanitize_field s'" using sanitize_hd bt by blast
  show False
  proof (cases t)
    case Nil
    with ws bt ascii s assms show False by (cases s') (auto split: if_splits)
  next
    case (Cons e t')
    show False
    proof (cases "e = CHR ''_''")
      case True
      with ws bt ascii plain Cons s assms show False by (cases s') (auto split: if_splits)
    next
      case False
      then obtain s'' where "s' = e # s''" using sanitize_hd s(2) Cons by metis
      with ws bt ascii Cons s assms show False by (auto split: if_splits)
    qed
  qed
qed

lemma sanitize_ws_free: "ws_free (sanitize_field s)"
proof (induction s rule: sanitize_field.induct)
  case (2 c s)
  have "CHR ''_'' \<notin> set ws_lead" by code_simp
  then have "ws_len (CHR ''_'' # r) = 0" for r using ws_len_lead by fastforce
  with 2 ws_len_sanitize [of c s] show ?case by (simp del: ws_len.simps)
qed simp

lemma sanitize_not_Nil: "s \<noteq> [] \<Longrightarrow> sanitize_field s \<noteq> []"
  by (cases s) auto

text \<open>
  An audit line reads back: splitting it at whitespace yields the timestamp, the word \<open>network\<close>, the
  sanitised host and tool and the decision, whatever bytes the host and the tool contain.
\<close>

theorem audit_line_parses:
  assumes "is_token ts" and "host \<noteq> []" and "tool \<noteq> []" and "is_token label"
  shows "split_whitespace (audit_line ts host tool label) =
    [ts, ''network'', sanitize_field host, sanitize_field tool, label]"
proof -
  have "is_token ''network''" by code_simp
  with assms have "\<forall>w \<in> set [ts, ''network'', sanitize_field host, sanitize_field tool, label]. is_token w"
    by (simp add: is_token_def sanitize_ws_free sanitize_not_Nil)
  from split_whitespace_join [OF this] show ?thesis by (simp add: audit_line_def)
qed

theorem audit_line_parses_witness:
  "split_whitespace (audit_line ''2026-01-01T00:00:00Z'' ''a b'' ''fetch'' ''Allow'') =
     [''2026-01-01T00:00:00Z'', ''network'', ''a_b'', ''fetch'', ''Allow'']"
proof -
  have "is_token ''2026-01-01T00:00:00Z''" "is_token ''Allow''" "sanitize_field ''a b'' = ''a_b''"
    "sanitize_field ''fetch'' = ''fetch''" by code_simp+
  with audit_line_parses [of "''2026-01-01T00:00:00Z''" "''a b''" "''fetch''" "''Allow''"] show ?thesis by simp
qed

section \<open>Wildcards\<close>

lemma split_char_suffix:
  "suffix (d # u) h \<longleftrightarrow> (\<exists>pre. pre \<noteq> [] \<and> split_char d h = pre @ split_char d u)"
proof
  assume "suffix (d # u) h"
  then obtain x where "h = x @ d # u" by (auto simp: suffix_def)
  then show "\<exists>pre. pre \<noteq> [] \<and> split_char d h = pre @ split_char d u"
    using split_char_append_sep [of d x u] by auto
next
  assume "\<exists>pre. pre \<noteq> [] \<and> split_char d h = pre @ split_char d u"
  then obtain pre where pre: "pre \<noteq> []" "split_char d h = pre @ split_char d u" by blast
  have "\<exists>x. join [d] (ps @ split_char d u) = x @ d # u" if "ps \<noteq> []" for ps
    using that
  proof (induction ps)
    case (Cons p ps)
    obtain v vs where v: "ps @ split_char d u = v # vs" by (cases "ps @ split_char d u") auto
    show ?case
    proof (cases "ps = []")
      case True
      with v have "join [d] (v # vs) = u" using split_char_join [of d u] by simp
      with True v show ?thesis by auto
    next
      case False
      with Cons.IH obtain x where "join [d] (v # vs) = x @ d # u" using v by auto
      with v have "join [d] ((p # ps) @ split_char d u) = (p @ [d] @ x) @ d # u" by simp
      then show ?thesis by blast
    qed
  qed simp
  with pre show "suffix (d # u) h" using split_char_join [of d h] by (metis suffixI)
qed

text \<open>
  A wildcard entry matches by labels: an entry with leading dot and a non-empty rest matches exactly the
  hosts whose label list ends with the labels of the rest and has at least one label more; the apex and
  names that merely end with the same characters do not match.
\<close>

theorem wildcard_matches_labels:
  assumes "normalize_host entry = CHR ''.'' # u" and "u \<noteq> []"
  shows "host_matches entry host \<longleftrightarrow>
    (\<exists>pre. pre \<noteq> [] \<and> split_char (CHR ''.'') host = pre @ split_char (CHR ''.'') u)"
  using assms split_char_suffix [of "CHR ''.''" u host]
  by (simp add: host_matches_def strip_prefix_def ends_with_def)

theorem wildcard_matches_labels_witness:
  "host_matches ''*.example.com'' ''a.b.example.com'' \<longleftrightarrow>
     (\<exists>pre. pre \<noteq> [] \<and> split_char (CHR ''.'') ''a.b.example.com'' = pre @ split_char (CHR ''.'') ''example.com'')"
proof -
  have "normalize_host ''*.example.com'' = CHR ''.'' # ''example.com''" by code_simp
  then show ?thesis by (rule wildcard_matches_labels) simp
qed

end
