(* ===== verification/Tool_Repair.thy ===== *)
theory Tool_Repair
  imports Rust_Str
begin

text \<open>
  Repair of the persisted tool history (\<open>tool_history_repair.rs\<close>) on the message format of \<open>models.rs\<close>.
  JSON values are opaque. Result ordinals are natural numbers. The reference is the automaton
  \<open>history_accepts\<close>: the call and result pairing a provider demands of a request.
\<close>

section \<open>Messages\<close>

record CacheControl =
  cache_type :: string

record ToolCaller =
  caller_type :: string
  caller_tool_id :: "string option"

record ImageUrlContent =
  image_url :: string

datatype 'v ContentBlock =
    Text string "CacheControl option"
  | ImageUrl ImageUrlContent
  | Thinking string "string option"
  | ToolUse string string 'v "ToolCaller option"
  | ToolResult string string "bool option" "'v list option"
  | ServerToolUse string string 'v
  | ToolSearchToolResult string 'v
  | CodeExecutionToolResult string 'v

record 'v Message =
  msg_role :: string
  msg_content :: "'v ContentBlock list"

definition CRASH_REPAIR_CONTENT :: string where
  "CRASH_REPAIR_CONTENT = ''Tool call interrupted by process exit; terminal status: crashed_and_repaired.''"

record ToolRepairReceipt =
  repaired_call_ids :: "string list"
  duplicate_result_ids :: "string list"
  orphan_result_ids :: "string list"

definition receipt_is_empty :: "ToolRepairReceipt \<Rightarrow> bool" where
  "receipt_is_empty r = (repaired_call_ids r = [] \<and> duplicate_result_ids r = [] \<and> orphan_result_ids r = [])"

definition visible_message :: "ToolRepairReceipt \<Rightarrow> string" where
  "visible_message r =
     ''[tool_history_repair] Repaired '' @ show_nat (length (repaired_call_ids r)) @
     '' crashed tool call(s); quarantined '' @ show_nat (length (duplicate_result_ids r)) @ '' duplicate and '' @
     show_nat (length (orphan_result_ids r)) @ '' orphan terminal result(s).''"

section \<open>The repair\<close>

text \<open>First pass: the message of the first call with each cid, and the ids in order.\<close>

definition note_call ::
  "nat \<Rightarrow> (string \<rightharpoonup> nat) \<times> string list \<Rightarrow> 'v ContentBlock \<Rightarrow> (string \<rightharpoonup> nat) \<times> string list" where
  "note_call message_index acc block =
     (case block of
        ToolUse cid _ _ _ \<Rightarrow>
          if fst acc cid = None then ((fst acc)(cid \<mapsto> message_index), snd acc @ [cid]) else acc
      | _ \<Rightarrow> acc)"

fun collect_calls ::
  "nat \<Rightarrow> 'v Message list \<Rightarrow> (string \<rightharpoonup> nat) \<times> string list \<Rightarrow> (string \<rightharpoonup> nat) \<times> string list" where
  "collect_calls i [] acc = acc"
| "collect_calls i (m # ms) acc =
     collect_calls (Suc i) ms
       (if msg_role m \<noteq> ''assistant'' then acc else foldl (note_call i) acc (msg_content m))"

text \<open>Second pass: which results are kept, by ordinal.\<close>

record repair_scan =
  retained_results :: "string set"
  scan_duplicates :: "string list"
  scan_orphans :: "string list"
  keep_results :: "nat set"
  result_ordinal :: nat
  latest_assistant_message :: "nat option"

definition repair_scan_start :: repair_scan where
  "repair_scan_start =
     \<lparr>retained_results = {}, scan_duplicates = [], scan_orphans = [], keep_results = {}, result_ordinal = 0,
      latest_assistant_message = None\<rparr>"

definition follows_known_call :: "(string \<rightharpoonup> nat) \<Rightarrow> nat \<Rightarrow> repair_scan \<Rightarrow> string \<Rightarrow> bool" where
  "follows_known_call calls message_index st tool_use_id =
     (case calls tool_use_id of
        None \<Rightarrow> False
      | Some call_index \<Rightarrow>
          call_index < message_index \<and> latest_assistant_message st = Some call_index)"

definition scan_block :: "(string \<rightharpoonup> nat) \<Rightarrow> nat \<Rightarrow> repair_scan \<Rightarrow> 'v ContentBlock \<Rightarrow> repair_scan" where
  "scan_block calls message_index st block =
     (case block of
        ToolResult tool_use_id _ _ _ \<Rightarrow>
          (let ordinal = result_ordinal st;
               st' = st\<lparr>result_ordinal := ordinal + 1\<rparr>
           in if \<not> follows_known_call calls message_index st tool_use_id
              then st'\<lparr>scan_orphans := scan_orphans st @ [tool_use_id]\<rparr>
              else if tool_use_id \<in> retained_results st
              then st'\<lparr>scan_duplicates := scan_duplicates st @ [tool_use_id]\<rparr>
              else st'\<lparr>retained_results := insert tool_use_id (retained_results st),
                       keep_results := insert ordinal (keep_results st)\<rparr>)
      | _ \<Rightarrow> st)"

definition enter_message :: "nat \<Rightarrow> 'v Message \<Rightarrow> repair_scan \<Rightarrow> repair_scan" where
  "enter_message i m st = (if msg_role m = ''assistant'' then st\<lparr>latest_assistant_message := Some i\<rparr> else st)"

fun scan_messages :: "(string \<rightharpoonup> nat) \<Rightarrow> nat \<Rightarrow> repair_scan \<Rightarrow> 'v Message list \<Rightarrow> repair_scan" where
  "scan_messages calls i st [] = st"
| "scan_messages calls i st (m # ms) =
     scan_messages calls (Suc i) (foldl (scan_block calls i) (enter_message i m st) (msg_content m)) ms"

text \<open>Third pass: the messages without the results that are not kept, with the synthetic results.\<close>

fun retain_content :: "nat set \<Rightarrow> nat \<Rightarrow> 'v ContentBlock list \<Rightarrow> 'v ContentBlock list \<times> nat" where
  "retain_content keep ordinal [] = ([], ordinal)"
| "retain_content keep ordinal (b # bs) =
     (case b of
        ToolResult _ _ _ _ \<Rightarrow>
          (let (bs', ordinal') = retain_content keep (ordinal + 1) bs
           in (if ordinal \<in> keep then b # bs' else bs', ordinal'))
      | _ \<Rightarrow> (let (bs', ordinal') = retain_content keep ordinal bs in (b # bs', ordinal')))"

definition missing_after_message :: "string set \<Rightarrow> 'v Message \<Rightarrow> string list" where
  "missing_after_message repaired m =
     (if msg_role m = ''assistant''
      then List.map_filter (\<lambda>b. case b of ToolUse cid _ _ _ \<Rightarrow> if cid \<in> repaired then Some cid else None | _ \<Rightarrow> None)
             (msg_content m)
      else [])"

definition crash_result :: "string \<Rightarrow> 'v ContentBlock" where
  "crash_result tool_use_id = ToolResult tool_use_id CRASH_REPAIR_CONTENT (Some True) None"

fun rebuild :: "nat set \<Rightarrow> string set \<Rightarrow> nat \<Rightarrow> 'v Message list \<Rightarrow> 'v Message list" where
  "rebuild keep repaired ordinal [] = []"
| "rebuild keep repaired ordinal (m # ms) =
     (let missing = missing_after_message repaired m;
          (content, ordinal') = retain_content keep ordinal (msg_content m)
      in (if content \<noteq> [] then [m\<lparr>msg_content := content\<rparr>] else []) @
         (if missing \<noteq> [] then [\<lparr>msg_role = ''user'', msg_content = map crash_result missing\<rparr>] else []) @
         rebuild keep repaired ordinal' ms)"

definition repair_tool_call_pairs_inner ::
  "'v Message list \<Rightarrow> bool \<Rightarrow> 'v Message list \<times> ToolRepairReceipt" where
  "repair_tool_call_pairs_inner messages append_visible_receipt =
     (let (calls, call_ids_in_order) = collect_calls 0 messages (Map.empty, []);
          st = scan_messages calls 0 repair_scan_start messages;
          repaired = filter (\<lambda>cid. cid \<notin> retained_results st) call_ids_in_order;
          receipt = \<lparr>repaired_call_ids = repaired, duplicate_result_ids = scan_duplicates st,
                     orphan_result_ids = scan_orphans st\<rparr>
      in if receipt_is_empty receipt then (messages, receipt)
         else
           (rebuild (keep_results st) (set repaired) 0 messages @
            (if append_visible_receipt
             then [\<lparr>msg_role = ''assistant'', msg_content = [Text (visible_message receipt) None]\<rparr>]
             else []),
            receipt))"

definition repair_tool_call_pairs :: "'v Message list \<Rightarrow> 'v Message list \<times> ToolRepairReceipt" where
  "repair_tool_call_pairs messages = repair_tool_call_pairs_inner messages True"

definition repair_tool_call_pairs_for_provider :: "'v Message list \<Rightarrow> 'v Message list \<times> ToolRepairReceipt" where
  "repair_tool_call_pairs_for_provider messages = repair_tool_call_pairs_inner messages False"

section \<open>The pairing a provider demands\<close>

fun block_call :: "'v ContentBlock \<Rightarrow> string option" where
  "block_call (ToolUse cid _ _ _) = Some cid"
| "block_call _ = None"

fun block_result :: "'v ContentBlock \<Rightarrow> string option" where
  "block_result (ToolResult cid _ _ _) = Some cid"
| "block_result _ = None"

definition calls_of :: "'v Message \<Rightarrow> string list" where
  "calls_of m = (if msg_role m = ''assistant'' then List.map_filter block_call (msg_content m) else [])"

definition results_of :: "'v Message \<Rightarrow> string list" where
  "results_of m = List.map_filter block_result (msg_content m)"

definition all_calls :: "'v Message list \<Rightarrow> string list" where
  "all_calls ms = concat (map calls_of ms)"

text \<open>
  The automaton reads a history from left to right and holds the calls that wait for their result: an
  assistant message starts with none waiting and contains no results, every other message answers waiting
  calls, each once.
\<close>

fun history_accepts :: "string set \<Rightarrow> 'v Message list \<Rightarrow> bool" where
  "history_accepts waiting [] = (waiting = {})"
| "history_accepts waiting (m # ms) =
     (if msg_role m = ''assistant''
      then waiting = {} \<and> results_of m = [] \<and> distinct (calls_of m) \<and> history_accepts (set (calls_of m)) ms
      else distinct (results_of m) \<and> set (results_of m) \<subseteq> waiting \<and>
        history_accepts (waiting - set (results_of m)) ms)"

section \<open>First pass\<close>

lemma note_calls:
  assumes "distinct (List.map_filter block_call bs)"
    and "\<forall>x \<in> set (List.map_filter block_call bs). fst acc x = None"
  shows "foldl (note_call i) acc bs =
    (\<lambda>x. if x \<in> set (List.map_filter block_call bs) then Some i else fst acc x,
     snd acc @ List.map_filter block_call bs)"
  using assms
proof (induction bs arbitrary: acc)
  case (Cons b bs)
  show ?case
  proof (cases "block_call b")
    case None
    then have "note_call i acc b = acc" by (cases b) (simp_all add: note_call_def)
    with None Cons show ?thesis by simp
  next
    case (Some cid)
    then have "note_call i acc b = ((fst acc)(cid \<mapsto> i), snd acc @ [cid])"
      using Cons.prems(2) by (cases b) (simp_all add: note_call_def)
    moreover have "\<forall>x \<in> set (List.map_filter block_call bs). ((fst acc)(cid \<mapsto> i)) x = None"
      using Cons.prems Some by auto
    then have "foldl (note_call i) ((fst acc)(cid \<mapsto> i), snd acc @ [cid]) bs =
        (\<lambda>x. if x \<in> set (List.map_filter block_call bs) then Some i else ((fst acc)(cid \<mapsto> i)) x,
         (snd acc @ [cid]) @ List.map_filter block_call bs)"
      using Cons.IH [of "((fst acc)(cid \<mapsto> i), snd acc @ [cid])"] Cons.prems(1) Some by (simp add: fun_eq_iff)
    ultimately show ?thesis using Some by (auto simp: fun_eq_iff)
  qed
qed simp

lemma collect_calls_eq:
  assumes "distinct (all_calls ms)" and "\<forall>x \<in> set (all_calls ms). fst acc x = None"
  shows "snd (collect_calls i ms acc) = snd acc @ all_calls ms \<and>
    (\<forall>x. fst (collect_calls i ms acc) x =
       (if x \<in> set (all_calls ms) then Some (i + length (takeWhile (\<lambda>m. x \<notin> set (calls_of m)) ms)) else fst acc x))"
  using assms
proof (induction ms arbitrary: i acc)
  case (Cons m ms)
  define acc' where "acc' = (if msg_role m \<noteq> ''assistant'' then acc else foldl (note_call i) acc (msg_content m))"
  have acc': "acc' = (\<lambda>x. if x \<in> set (calls_of m) then Some i else fst acc x, snd acc @ calls_of m)"
    using Cons.prems note_calls [of "msg_content m" acc i] by (auto simp: acc'_def calls_of_def all_calls_def)
  have "\<forall>x \<in> set (all_calls ms). fst acc' x = None"
    using Cons.prems by (auto simp: acc' all_calls_def)
  moreover have "distinct (all_calls ms)" using Cons.prems(1) by (simp add: all_calls_def)
  ultimately show ?case
    using Cons.IH [of acc' "Suc i"] Cons.prems by (auto simp: acc' acc'_def [symmetric] all_calls_def)
qed (simp add: all_calls_def)

text \<open>For distinct call ids the map points to the one message that makes the call.\<close>

lemma collected_calls:
  assumes "distinct (all_calls ms)"
  shows "snd (collect_calls 0 ms (Map.empty, [])) = all_calls ms"
    and "fst (collect_calls 0 ms (Map.empty, [])) x = Some i \<longleftrightarrow> i < length ms \<and> x \<in> set (calls_of (ms ! i))"
proof -
  let ?k = "length (takeWhile (\<lambda>m. x \<notin> set (calls_of m)) ms)"
  have eq: "snd (collect_calls 0 ms (Map.empty, [])) = all_calls ms"
    "fst (collect_calls 0 ms (Map.empty, [])) x = (if x \<in> set (all_calls ms) then Some ?k else None)"
    using collect_calls_eq [OF assms, of "(Map.empty, [])" 0] by simp_all
  show "snd (collect_calls 0 ms (Map.empty, [])) = all_calls ms" by (rule eq)
  have hit: "?k < length ms \<and> x \<in> set (calls_of (ms ! ?k))" if "x \<in> set (all_calls ms)"
  proof -
    from that have "takeWhile (\<lambda>m. x \<notin> set (calls_of m)) ms \<noteq> ms"
      by (auto simp: all_calls_def takeWhile_eq_all_conv)
    then have "?k < length ms" by (metis length_takeWhile_le le_neq_implies_less takeWhile_eq_take take_all_iff order_refl)
    then show ?thesis using nth_length_takeWhile by blast
  qed
  have "i = ?k" if "i < length ms" "x \<in> set (calls_of (ms ! i))"
  proof -
    from that have "x \<in> set (all_calls ms)" by (auto simp: all_calls_def)
    from hit [OF this] that show ?thesis
      using distinct_concat_nth [of "map calls_of ms" i ?k x] assms by (simp add: all_calls_def)
  qed
  moreover have "x \<in> set (all_calls ms)" if "i < length ms" "x \<in> set (calls_of (ms ! i))"
    using that by (auto simp: all_calls_def)
  ultimately show "fst (collect_calls 0 ms (Map.empty, [])) x = Some i \<longleftrightarrow> i < length ms \<and> x \<in> set (calls_of (ms ! i))"
    using hit eq(2) by auto
qed

section \<open>Second and third pass\<close>

lemma scan_block_other: "block_result b = None \<Longrightarrow> scan_block calls i st b = st"
  by (cases b) (simp_all add: scan_block_def)

definition keeps :: "(string \<rightharpoonup> nat) \<Rightarrow> nat \<Rightarrow> repair_scan \<Rightarrow> string \<Rightarrow> bool" where
  "keeps calls i st x \<longleftrightarrow> follows_known_call calls i st x \<and> x \<notin> retained_results st"

lemma scan_block_result:
  assumes "block_result b = Some x"
  shows "result_ordinal (scan_block calls i st b) = Suc (result_ordinal st)"
    and "latest_assistant_message (scan_block calls i st b) = latest_assistant_message st"
    and "retained_results (scan_block calls i st b) =
      (if keeps calls i st x then insert x (retained_results st) else retained_results st)"
    and "keep_results (scan_block calls i st b) =
      (if keeps calls i st x then insert (result_ordinal st) (keep_results st) else keep_results st)"
  using assms by (cases b; simp add: scan_block_def keeps_def Let_def)+

lemma scan_block_latest [simp]: "latest_assistant_message (scan_block calls i st b) = latest_assistant_message st"
  by (cases "block_result b") (simp_all add: scan_block_other scan_block_result)

lemma scan_blocks_latest [simp]:
  "latest_assistant_message (foldl (scan_block calls i) st bs) = latest_assistant_message st"
  by (induction bs arbitrary: st) simp_all

text \<open>The content that stays, decided block by block while scanning.\<close>

fun kept_content :: "(string \<rightharpoonup> nat) \<Rightarrow> nat \<Rightarrow> repair_scan \<Rightarrow> 'v ContentBlock list \<Rightarrow> 'v ContentBlock list" where
  "kept_content calls i st [] = []"
| "kept_content calls i st (b # bs) =
     (case block_result b of
        None \<Rightarrow> b # kept_content calls i st bs
      | Some x \<Rightarrow>
          (if keeps calls i st x then [b] else []) @ kept_content calls i (scan_block calls i st b) bs)"

definition ordinals_ok :: "repair_scan \<Rightarrow> bool" where
  "ordinals_ok st \<longleftrightarrow> (\<forall>n \<in> keep_results st. n < result_ordinal st)"

lemma scan_block_ordinals:
  "result_ordinal st \<le> result_ordinal (scan_block calls i st b)"
  "ordinals_ok st \<Longrightarrow> ordinals_ok (scan_block calls i st b)"
  "n < result_ordinal st \<Longrightarrow> n \<in> keep_results (scan_block calls i st b) \<longleftrightarrow> n \<in> keep_results st"
  by (cases "block_result b"; auto simp: scan_block_other scan_block_result ordinals_ok_def)+

lemma scan_blocks_ordinals:
  "result_ordinal st \<le> result_ordinal (foldl (scan_block calls i) st bs) \<and>
   (ordinals_ok st \<longrightarrow> ordinals_ok (foldl (scan_block calls i) st bs)) \<and>
   (\<forall>n < result_ordinal st. n \<in> keep_results (foldl (scan_block calls i) st bs) \<longleftrightarrow> n \<in> keep_results st)"
proof (induction bs arbitrary: st)
  case (Cons b bs)
  then show ?case
    using scan_block_ordinals [where st = st and calls = calls and i = i and b = b]
      Cons.IH [of "scan_block calls i st b"]
    by (auto intro: le_trans dest: less_le_trans)
qed simp

lemma enter_message_fields [simp]:
  "result_ordinal (enter_message i m st) = result_ordinal st" "keep_results (enter_message i m st) = keep_results st"
  "retained_results (enter_message i m st) = retained_results st"
  "ordinals_ok (enter_message i m st) = ordinals_ok st"
  by (simp_all add: enter_message_def ordinals_ok_def)

lemma scan_messages_ordinals:
  "result_ordinal st \<le> result_ordinal (scan_messages calls i st ms) \<and>
   (\<forall>n < result_ordinal st. n \<in> keep_results (scan_messages calls i st ms) \<longleftrightarrow> n \<in> keep_results st)"
proof (induction ms arbitrary: i st)
  case (Cons m ms)
  then show ?case
    using scan_blocks_ordinals [of "enter_message i m st" calls i "msg_content m"]
      Cons.IH [of "foldl (scan_block calls i) (enter_message i m st) (msg_content m)" "Suc i"]
    by (auto intro: le_trans dest: less_le_trans)
qed simp

lemma retain_content_kept:
  assumes "ordinals_ok st"
    and "\<forall>n < result_ordinal (foldl (scan_block calls i) st bs).
      n \<in> K \<longleftrightarrow> n \<in> keep_results (foldl (scan_block calls i) st bs)"
  shows "retain_content K (result_ordinal st) bs =
    (kept_content calls i st bs, result_ordinal (foldl (scan_block calls i) st bs))"
  using assms
proof (induction bs arbitrary: st)
  case (Cons b bs)
  let ?st = "scan_block calls i st b"
  have "ordinals_ok ?st" using Cons.prems(1) by (rule scan_block_ordinals(2))
  then have IH: "retain_content K (result_ordinal ?st) bs =
      (kept_content calls i ?st bs, result_ordinal (foldl (scan_block calls i) ?st bs))"
    using Cons.IH [of ?st] Cons.prems(2) by simp
  show ?case
  proof (cases "block_result b")
    case None
    with IH show ?thesis by (cases b) (simp_all add: scan_block_other)
  next
    case (Some x)
    have lt: "result_ordinal st < result_ordinal ?st" using Some by (simp add: scan_block_result)
    then have "result_ordinal st \<in> K \<longleftrightarrow> result_ordinal st \<in> keep_results ?st"
      using Cons.prems(2) scan_blocks_ordinals [of ?st calls i bs] by (simp add: less_le_trans)
    then have "result_ordinal st \<in> K \<longleftrightarrow> keeps calls i st x"
      using Some Cons.prems(1) by (auto simp: scan_block_result ordinals_ok_def)
    with Some IH show ?thesis by (cases b) (simp_all add: scan_block_result)
  qed
qed simp

lemma kept_results:
  "distinct (List.map_filter block_result (kept_content calls i st bs)) \<and>
   set (List.map_filter block_result (kept_content calls i st bs)) \<inter> retained_results st = {} \<and>
   retained_results (foldl (scan_block calls i) st bs) =
     retained_results st \<union> set (List.map_filter block_result (kept_content calls i st bs)) \<and>
   (\<forall>x \<in> set (List.map_filter block_result (kept_content calls i st bs)). follows_known_call calls i st x)"
proof (induction bs arbitrary: st)
  case (Cons b bs)
  show ?case
  proof (cases "block_result b")
    case None
    with Cons.IH [of st] show ?thesis by (simp add: scan_block_other)
  next
    case (Some x)
    let ?st = "scan_block calls i st b"
    have "follows_known_call calls i ?st = follows_known_call calls i st"
      by (auto simp: follows_known_call_def fun_eq_iff split: option.split)
    with Some Cons.IH [of ?st] show ?thesis
      by (auto simp: scan_block_result keeps_def)
  qed
qed simp

lemma kept_calls: "List.map_filter block_call (kept_content calls i st bs) = List.map_filter block_call bs"
proof (induction bs arbitrary: st)
  case (Cons b bs)
  then show ?case by (cases b) (simp_all split: option.split)
qed simp

section \<open>The repaired history is accepted\<close>

lemma follows_latest:
  "follows_known_call calls i st x \<longleftrightarrow>
     (\<exists>j. calls x = Some j \<and> j < i \<and> latest_assistant_message st = Some j)"
  by (auto simp: follows_known_call_def split: option.split)

lemma enter_message_latest:
  "latest_assistant_message (enter_message i m st) =
     (if msg_role m = ''assistant'' then Some i else latest_assistant_message st)"
  by (simp add: enter_message_def)

text \<open>What one message does to the scan.\<close>

definition scan_message :: "(string \<rightharpoonup> nat) \<Rightarrow> nat \<Rightarrow> repair_scan \<Rightarrow> 'v Message \<Rightarrow> repair_scan" where
  "scan_message calls i st m = foldl (scan_block calls i) (enter_message i m st) (msg_content m)"

definition kept_message :: "(string \<rightharpoonup> nat) \<Rightarrow> nat \<Rightarrow> repair_scan \<Rightarrow> 'v Message \<Rightarrow> 'v Message" where
  "kept_message calls i st m = m\<lparr>msg_content := kept_content calls i (enter_message i m st) (msg_content m)\<rparr>"

lemma scan_messages_Cons [simp]:
  "scan_messages calls i st (m # ms) = scan_messages calls (Suc i) (scan_message calls i st m) ms"
  by (simp add: scan_message_def)

declare scan_messages.simps(2) [simp del]

lemma kept_message_simps [simp]:
  "msg_role (kept_message calls i st m) = msg_role m" "calls_of (kept_message calls i st m) = calls_of m"
  by (simp_all add: kept_message_def calls_of_def kept_calls)

lemma scan_message_facts:
  shows "latest_assistant_message (scan_message calls i st m) =
      (if msg_role m = ''assistant'' then Some i else latest_assistant_message st)"
    and "retained_results (scan_message calls i st m) =
      retained_results st \<union> set (results_of (kept_message calls i st m))"
    and "distinct (results_of (kept_message calls i st m))"
    and "set (results_of (kept_message calls i st m)) \<inter> retained_results st = {}"
    and "x \<in> set (results_of (kept_message calls i st m)) \<Longrightarrow>
      msg_role m \<noteq> ''assistant'' \<and> follows_known_call calls i st x"
proof -
  note kr = kept_results [of calls i "enter_message i m st" "msg_content m"]
  show "latest_assistant_message (scan_message calls i st m) =
      (if msg_role m = ''assistant'' then Some i else latest_assistant_message st)"
    by (simp add: scan_message_def enter_message_latest)
  show "retained_results (scan_message calls i st m) =
      retained_results st \<union> set (results_of (kept_message calls i st m))"
    "distinct (results_of (kept_message calls i st m))"
    "set (results_of (kept_message calls i st m)) \<inter> retained_results st = {}"
    using kr by (simp_all add: scan_message_def results_of_def kept_message_def)
  show "x \<in> set (results_of (kept_message calls i st m)) \<Longrightarrow>
      msg_role m \<noteq> ''assistant'' \<and> follows_known_call calls i st x"
    using kr by (auto simp: results_of_def kept_message_def follows_latest enter_message_latest split: if_splits)
qed

lemma scan_message_ordinals:
  "ordinals_ok st \<Longrightarrow> ordinals_ok (scan_message calls i st m)"
  using scan_blocks_ordinals [of "enter_message i m st" calls i "msg_content m"] by (simp add: scan_message_def)

text \<open>A result that is kept later belongs to the latest call message or to one that is still to come.\<close>

lemma retained_later:
  assumes "x \<in> retained_results (scan_messages calls i st ms)"
  shows "x \<in> retained_results st \<or> (\<exists>j. calls x = Some j \<and> (latest_assistant_message st = Some j \<or> i \<le> j))"
  using assms
proof (induction ms arbitrary: i st)
  case (Cons m ms)
  then consider "x \<in> retained_results (scan_message calls i st m)"
    | j where "calls x = Some j" "latest_assistant_message (scan_message calls i st m) = Some j \<or> Suc i \<le> j"
    using Cons.IH [of "Suc i" "scan_message calls i st m"] by auto
  then show ?case
  proof cases
    case 1
    then show ?thesis
      using scan_message_facts(5) [of x calls i st m] by (auto simp: scan_message_facts(2) follows_latest)
  next
    case (2 j)
    then show ?thesis by (auto simp: scan_message_facts(1) split: if_splits)
  qed
qed simp

lemma retained_mono: "retained_results st \<subseteq> retained_results (scan_messages calls i st ms)"
proof (induction ms arbitrary: i st)
  case (Cons m ms)
  then have "retained_results (scan_message calls i st m) \<subseteq> retained_results (scan_messages calls i st (m # ms))"
    by simp
  then show ?case by (auto simp: scan_message_facts(2))
qed simp

lemma rebuild_step:
  assumes "ordinals_ok st"
    and "\<forall>n < result_ordinal (scan_message calls i st m). n \<in> K \<longleftrightarrow> n \<in> keep_results (scan_message calls i st m)"
  shows "rebuild K repaired (result_ordinal st) (m # ms) =
    (if msg_content (kept_message calls i st m) \<noteq> [] then [kept_message calls i st m] else []) @
    (if missing_after_message repaired m \<noteq> []
     then [\<lparr>msg_role = ''user'', msg_content = map crash_result (missing_after_message repaired m)\<rparr>] else []) @
    rebuild K repaired (result_ordinal (scan_message calls i st m)) ms"
  using assms retain_content_kept [of "enter_message i m st" calls i "msg_content m" K]
  by (simp add: scan_message_def kept_message_def Let_def)

lemma missing_after_eq: "missing_after_message repaired m = filter (\<lambda>x. x \<in> repaired) (calls_of m)"
proof -
  have "List.map_filter (\<lambda>b. case b of ToolUse cid _ _ _ \<Rightarrow> if cid \<in> repaired then Some cid else None | _ \<Rightarrow> None) bs =
      filter (\<lambda>x. x \<in> repaired) (List.map_filter block_call bs)" for bs :: "'a ContentBlock list"
  proof (induction bs)
    case (Cons b bs)
    then show ?case by (cases b) simp_all
  qed simp
  then show ?thesis by (simp add: missing_after_message_def calls_of_def)
qed

lemma results_of_crash [simp]: "results_of \<lparr>msg_role = r, msg_content = map crash_result xs\<rparr> = xs"
  by (induction xs) (simp_all add: results_of_def crash_result_def)

text \<open>
  The part of the history from message \<open>i\<close> on: \<open>calls\<close> maps the ids called there to their message, and
  the calls of the latest assistant message whose result is still to be kept are waiting.
\<close>

definition calls_from :: "(string \<rightharpoonup> nat) \<Rightarrow> nat \<Rightarrow> 'v Message list \<Rightarrow> bool" where
  "calls_from calls i ms \<longleftrightarrow>
     (\<forall>x j. i \<le> j \<longrightarrow> (calls x = Some j \<longleftrightarrow> j < i + length ms \<and> x \<in> set (calls_of (ms ! (j - i)))))"

lemma calls_from_Cons:
  assumes "calls_from calls i (m # ms)"
  shows "calls_from calls (Suc i) ms" and "calls x = Some i \<longleftrightarrow> x \<in> set (calls_of m)"
proof -
  show "calls x = Some i \<longleftrightarrow> x \<in> set (calls_of m)"
    using assms by (auto simp: calls_from_def)
  show "calls_from calls (Suc i) ms"
    unfolding calls_from_def
  proof (intro allI impI)
    fix x j
    assume j: "Suc i \<le> j"
    then have "(m # ms) ! (j - i) = ms ! (j - Suc i)" by (simp add: nth_Cons')
    with assms j show "calls x = Some j \<longleftrightarrow> j < Suc i + length ms \<and> x \<in> set (calls_of (ms ! (j - Suc i)))"
      unfolding calls_from_def by (metis Suc_leD add_Suc_right add_Suc length_Cons)
  qed
qed

definition scan_inv :: "(string \<rightharpoonup> nat) \<Rightarrow> nat \<Rightarrow> repair_scan \<Rightarrow> bool" where
  "scan_inv calls i st \<longleftrightarrow>
     ordinals_ok st \<and> (\<forall>l. latest_assistant_message st = Some l \<longrightarrow> l < i) \<and>
     (\<forall>x \<in> retained_results st. \<exists>j < i. calls x = Some j)"

definition waiting_calls :: "(string \<rightharpoonup> nat) \<Rightarrow> string set \<Rightarrow> repair_scan \<Rightarrow> string set" where
  "waiting_calls calls R st =
     {x. (\<exists>j. latest_assistant_message st = Some j \<and> calls x = Some j) \<and> x \<in> R \<and> x \<notin> retained_results st}"

lemma scan_inv_step:
  assumes "scan_inv calls i st"
  shows "scan_inv calls (Suc i) (scan_message calls i st m)"
proof -
  have "\<exists>j < Suc i. calls x = Some j" if "x \<in> retained_results (scan_message calls i st m)" for x
    using that assms scan_message_facts(5) [of x calls i st m]
    by (auto simp: scan_message_facts(2) follows_latest scan_inv_def less_Suc_eq)
  then show ?thesis
    using assms by (auto simp: scan_inv_def scan_message_ordinals scan_message_facts(1))
qed

lemma waiting_after_assistant:
  assumes "msg_role m = ''assistant''" and "scan_inv calls i st" and "calls_from calls i (m # ms)"
    and "R = retained_results (scan_messages calls (Suc i) (scan_message calls i st m) ms)"
  shows "results_of (kept_message calls i st m) = []" and "waiting_calls calls R st = {}"
    and "waiting_calls calls R (scan_message calls i st m) = {x \<in> set (calls_of m). x \<in> R}"
proof -
  show none: "results_of (kept_message calls i st m) = []"
    using scan_message_facts(5) [of "hd (results_of (kept_message calls i st m))" calls i st m] assms(1)
    by (cases "results_of (kept_message calls i st m)") simp_all
  then have ret: "retained_results (scan_message calls i st m) = retained_results st"
    by (simp add: scan_message_facts(2))
  have latest: "latest_assistant_message (scan_message calls i st m) = Some i"
    by (simp add: scan_message_facts(1) assms(1))
  show "waiting_calls calls R st = {}"
  proof (rule equals0I)
    fix x
    assume "x \<in> waiting_calls calls R st"
    then obtain l where l: "latest_assistant_message st = Some l" "calls x = Some l" "x \<in> R" "x \<notin> retained_results st"
      by (auto simp: waiting_calls_def)
    then have "l < i" using assms(2) by (simp add: scan_inv_def)
    with retained_later [of x calls "Suc i" "scan_message calls i st m" ms] l ret latest assms(4) show False by auto
  qed
  have "x \<notin> retained_results st" if "calls x = Some i" for x
    using that assms(2) by (auto simp: scan_inv_def)
  then show "waiting_calls calls R (scan_message calls i st m) = {x \<in> set (calls_of m). x \<in> R}"
    using calls_from_Cons(2) [OF assms(3)] by (auto simp: waiting_calls_def latest ret)
qed

lemma waiting_after_other:
  assumes "msg_role m \<noteq> ''assistant''"
    and "R = retained_results (scan_messages calls (Suc i) (scan_message calls i st m) ms)"
  shows "set (results_of (kept_message calls i st m)) \<subseteq> waiting_calls calls R st"
    and "waiting_calls calls R (scan_message calls i st m) =
      waiting_calls calls R st - set (results_of (kept_message calls i st m))"
proof -
  have "set (results_of (kept_message calls i st m)) \<subseteq> R"
    using retained_mono [of "scan_message calls i st m" calls "Suc i" ms] assms(2)
    by (auto simp: scan_message_facts(2))
  moreover have "\<exists>j. latest_assistant_message st = Some j \<and> calls x = Some j"
    if "x \<in> set (results_of (kept_message calls i st m))" for x
    using scan_message_facts(5) [OF that] by (auto simp: follows_latest)
  ultimately show "set (results_of (kept_message calls i st m)) \<subseteq> waiting_calls calls R st"
    using scan_message_facts(4) [of calls i st m] by (auto simp: waiting_calls_def)
  show "waiting_calls calls R (scan_message calls i st m) =
      waiting_calls calls R st - set (results_of (kept_message calls i st m))"
    using assms(1) by (auto simp: waiting_calls_def scan_message_facts(1,2))
qed

text \<open>The rebuilt history, with the messages the code drops because nothing of them is kept.\<close>

definition crash_message :: "string list \<Rightarrow> 'v Message list" where
  "crash_message missing =
     (if missing \<noteq> [] then [\<lparr>msg_role = ''user'', msg_content = map crash_result missing\<rparr>] else [])"

fun kept_history ::
  "(string \<rightharpoonup> nat) \<Rightarrow> string set \<Rightarrow> nat \<Rightarrow> repair_scan \<Rightarrow> 'v Message list \<Rightarrow> 'v Message list" where
  "kept_history calls repaired i st [] = []"
| "kept_history calls repaired i st (m # ms) =
     kept_message calls i st m # crash_message (missing_after_message repaired m) @
     kept_history calls repaired (Suc i) (scan_message calls i st m) ms"

lemma rebuild_kept:
  assumes "ordinals_ok st"
    and "\<forall>n < result_ordinal (scan_messages calls i st ms). n \<in> K \<longleftrightarrow> n \<in> keep_results (scan_messages calls i st ms)"
  shows "rebuild K repaired (result_ordinal st) ms =
    filter (\<lambda>m. msg_content m \<noteq> []) (kept_history calls repaired i st ms)"
  using assms
proof (induction ms arbitrary: i st)
  case (Cons m ms)
  let ?st = "scan_message calls i st m"
  have "\<forall>n < result_ordinal ?st. n \<in> K \<longleftrightarrow> n \<in> keep_results ?st"
    using Cons.prems(2) scan_messages_ordinals [of ?st calls "Suc i" ms] by (auto dest: less_le_trans)
  from rebuild_step [OF Cons.prems(1) this, of repaired ms] show ?case
    using Cons.IH [of ?st "Suc i"] Cons.prems(2) scan_message_ordinals [OF Cons.prems(1), of calls i m]
    by (simp add: crash_message_def)
qed simp

lemma kept_history_accepted:
  assumes "calls_from calls i ms" and "distinct (all_calls ms)" and "scan_inv calls i st"
    and "R = retained_results (scan_messages calls i st ms)"
    and "\<forall>x \<in> set (all_calls ms). x \<in> repaired \<longleftrightarrow> x \<notin> R"
  shows "history_accepts (waiting_calls calls R st) (kept_history calls repaired i st ms)"
  using assms
proof (induction ms arbitrary: i st)
  case Nil
  then show ?case by (auto simp: waiting_calls_def)
next
  case (Cons m ms)
  let ?st = "scan_message calls i st m"
  let ?missing = "missing_after_message repaired m"
  have R: "R = retained_results (scan_messages calls (Suc i) ?st ms)" using Cons.prems(4) by simp
  have IH: "history_accepts (waiting_calls calls R ?st) (kept_history calls repaired (Suc i) ?st ms)"
    using Cons.prems calls_from_Cons(1) [OF Cons.prems(1)] scan_inv_step [OF Cons.prems(3)]
    by (intro Cons.IH) (simp_all add: all_calls_def)
  show ?case
  proof (cases "msg_role m = ''assistant''")
    case True
    note w = waiting_after_assistant [OF True Cons.prems(3,1) R]
    have missing: "set ?missing = set (calls_of m) - R" and dist: "distinct (calls_of m)"
      using Cons.prems(2,5) by (auto simp: missing_after_eq all_calls_def)
    have "waiting_calls calls R ?st = set (calls_of m) - set ?missing" using w(3) missing by auto
    moreover have "distinct ?missing" "set ?missing \<subseteq> set (calls_of m)" using dist by (auto simp: missing_after_eq)
    ultimately show ?thesis
      using IH True w(1,2) dist by (cases "?missing = []") (simp_all add: crash_message_def)
  next
    case False
    then have "?missing = []" by (simp add: missing_after_message_def)
    with False show ?thesis
      using IH waiting_after_other [OF False R] scan_message_facts(3) [of calls i st m]
      by (simp add: crash_message_def)
  qed
qed

lemma accepts_without_empty:
  "history_accepts w ms \<Longrightarrow> history_accepts w (filter (\<lambda>m. msg_content m \<noteq> []) ms)"
proof (induction ms arbitrary: w)
  case (Cons m ms)
  have "calls_of m = []" "results_of m = []" if "msg_content m = []"
    using that by (simp_all add: calls_of_def results_of_def)
  with Cons show ?case by (cases "msg_content m = []") (simp_all split: if_splits)
qed simp

lemma accepts_append:
  "history_accepts w ms \<Longrightarrow> history_accepts {} ns \<Longrightarrow> history_accepts w (ms @ ns)"
  by (induction ms arbitrary: w) (auto split: if_splits)

section \<open>An accepted history is left alone\<close>

lemma scan_blocks_accepted:
  assumes "distinct (List.map_filter block_result bs)"
    and "\<forall>x \<in> set (List.map_filter block_result bs). keeps calls i st x"
  shows "scan_orphans (foldl (scan_block calls i) st bs) = scan_orphans st \<and>
    scan_duplicates (foldl (scan_block calls i) st bs) = scan_duplicates st \<and>
    retained_results (foldl (scan_block calls i) st bs) = retained_results st \<union> set (List.map_filter block_result bs)"
  using assms
proof (induction bs arbitrary: st)
  case (Cons b bs)
  show ?case
  proof (cases "block_result b")
    case None
    with Cons show ?thesis by (simp add: scan_block_other)
  next
    case (Some x)
    let ?st = "scan_block calls i st b"
    from Some Cons.prems have x: "keeps calls i st x" by simp
    then have "scan_orphans ?st = scan_orphans st \<and> scan_duplicates ?st = scan_duplicates st"
      using Some by (cases b) (simp_all add: scan_block_def keeps_def Let_def)
    moreover have "\<forall>y \<in> set (List.map_filter block_result bs). keeps calls i ?st y"
      using Cons.prems Some x by (auto simp: keeps_def scan_block_result follows_latest)
    ultimately show ?thesis
      using Cons.IH [of ?st] Cons.prems(1) Some x by (simp add: scan_block_result)
  qed
qed simp

lemma accepted_scan:
  assumes "calls_from calls i ms" and "scan_inv calls i st"
    and "history_accepts (waiting_calls calls UNIV st) ms"
  shows "scan_orphans (scan_messages calls i st ms) = scan_orphans st \<and>
    scan_duplicates (scan_messages calls i st ms) = scan_duplicates st \<and>
    waiting_calls calls UNIV st \<union> set (all_calls ms) \<subseteq> retained_results (scan_messages calls i st ms)"
  using assms
proof (induction ms arbitrary: i st)
  case Nil
  then show ?case by (simp add: all_calls_def)
next
  case (Cons m ms)
  let ?st = "scan_message calls i st m"
  let ?rs = "List.map_filter block_result (msg_content m)"
  have "distinct ?rs" "\<forall>x \<in> set ?rs. keeps calls i (enter_message i m st) x"
    using Cons.prems(2,3)
    by (auto simp: results_of_def keeps_def follows_latest enter_message_latest waiting_calls_def scan_inv_def
        split: if_splits)
  from scan_blocks_accepted [OF this]
  have step: "scan_orphans ?st = scan_orphans st" "scan_duplicates ?st = scan_duplicates st"
    "retained_results ?st = retained_results st \<union> set (results_of m)"
    by (simp_all add: scan_message_def results_of_def enter_message_def)
  have "waiting_calls calls UNIV ?st =
      (if msg_role m = ''assistant'' then set (calls_of m) else waiting_calls calls UNIV st - set (results_of m))"
  proof (cases "msg_role m = ''assistant''")
    case True
    have "x \<notin> retained_results st" if "calls x = Some i" for x
      using that Cons.prems(2) by (auto simp: scan_inv_def)
    with True Cons.prems(3) step(3) show ?thesis
      using calls_from_Cons(2) [OF Cons.prems(1)] by (auto simp: waiting_calls_def scan_message_facts(1))
  next
    case False
    with step(3) show ?thesis by (auto simp: waiting_calls_def scan_message_facts(1))
  qed
  with Cons.prems(3) have acc: "history_accepts (waiting_calls calls UNIV ?st) ms" by (simp split: if_splits)
  have calls: "calls_of m = []" if "msg_role m \<noteq> ''assistant''" using that by (simp add: calls_of_def)
  from Cons.IH [OF calls_from_Cons(1) [OF Cons.prems(1)] scan_inv_step [OF Cons.prems(2)] acc]
    retained_mono [of ?st calls "Suc i" ms]
  show ?case
    using step calls Cons.prems(3) \<open>waiting_calls calls UNIV ?st = _\<close>
    by (auto simp: all_calls_def split: if_splits)
qed

section \<open>The repair as a whole\<close>

lemma calls_from_collected:
  assumes "distinct (all_calls ms)"
  shows "calls_from (fst (collect_calls 0 ms (Map.empty, []))) 0 ms"
  using collected_calls(2) [OF assms] by (simp add: calls_from_def)

lemma scan_inv_start: "scan_inv calls 0 repair_scan_start"
  by (simp add: scan_inv_def repair_scan_start_def ordinals_ok_def)

lemma waiting_start [simp]: "waiting_calls calls R repair_scan_start = {}"
  by (simp add: waiting_calls_def repair_scan_start_def)

lemma accepted_unchanged:
  assumes "distinct (all_calls ms)" and "history_accepts {} ms"
  shows "fst (repair_tool_call_pairs_inner ms visible) = ms \<and>
    receipt_is_empty (snd (repair_tool_call_pairs_inner ms visible))"
proof -
  obtain calls ids where c: "collect_calls 0 ms (Map.empty, []) = (calls, ids)" by force
  then have ids: "ids = all_calls ms" using collected_calls(1) [OF assms(1)] by simp
  let ?st = "scan_messages calls 0 repair_scan_start ms"
  have "scan_orphans ?st = [] \<and> scan_duplicates ?st = [] \<and> set (all_calls ms) \<subseteq> retained_results ?st"
    using accepted_scan [of calls 0 ms repair_scan_start] calls_from_collected [OF assms(1)] assms(2) scan_inv_start
    by (simp add: c) (simp add: repair_scan_start_def)
  then have "scan_orphans ?st = []" "scan_duplicates ?st = []" "filter (\<lambda>cid. cid \<notin> retained_results ?st) ids = []"
    using ids by (auto simp: filter_empty_conv)
  then show ?thesis by (simp add: repair_tool_call_pairs_inner_def c Let_def receipt_is_empty_def)
qed

text \<open>When nothing is reported, nothing was dropped.\<close>

lemma scan_block_reports:
  "length (scan_orphans (scan_block calls i st b)) + length (scan_duplicates (scan_block calls i st b)) =
     length (scan_orphans st) + length (scan_duplicates st) +
     (case block_result b of Some x \<Rightarrow> if keeps calls i st x then 0 else 1 | None \<Rightarrow> 0)"
  by (cases b) (simp_all add: scan_block_def keeps_def Let_def)

definition reports :: "repair_scan \<Rightarrow> nat" where
  "reports st = length (scan_orphans st) + length (scan_duplicates st)"

lemma kept_content_reports:
  "reports st \<le> reports (foldl (scan_block calls i) st bs) \<and>
   (reports (foldl (scan_block calls i) st bs) = reports st \<longrightarrow> kept_content calls i st bs = bs)"
proof (induction bs arbitrary: st)
  case (Cons b bs)
  then show ?case
    using Cons.IH [of "scan_block calls i st b"] scan_block_reports [of calls i st b]
    by (auto simp: reports_def scan_block_other split: option.splits if_splits)
qed simp

lemma kept_history_reports:
  "reports st \<le> reports (scan_messages calls i st ms) \<and>
   (reports (scan_messages calls i st ms) = reports st \<longrightarrow> kept_history calls {} i st ms = ms)"
proof (induction ms arbitrary: i st)
  case (Cons m ms)
  have "missing_after_message {} m = []" by (simp add: missing_after_eq)
  moreover have "reports (enter_message i m st) = reports st" by (simp add: reports_def enter_message_def)
  ultimately show ?case
    using kept_content_reports [of "enter_message i m st" calls i "msg_content m"]
      Cons.IH [of "scan_message calls i st m" "Suc i"]
    by (auto simp: scan_message_def kept_message_def crash_message_def)
qed simp

lemma repaired_accepted:
  assumes "distinct (all_calls ms)"
  shows "history_accepts {} (fst (repair_tool_call_pairs_inner ms visible))"
proof -
  obtain calls ids where c: "collect_calls 0 ms (Map.empty, []) = (calls, ids)" by force
  then have ids: "ids = all_calls ms" using collected_calls(1) [OF assms] by simp
  let ?st = "scan_messages calls 0 repair_scan_start ms"
  let ?repaired = "filter (\<lambda>cid. cid \<notin> retained_results ?st) ids"
  let ?kept = "kept_history calls (set ?repaired) 0 repair_scan_start ms"
  have "calls_from calls 0 ms" using calls_from_collected [OF assms] by (simp add: c)
  then have "history_accepts (waiting_calls calls (retained_results ?st) repair_scan_start) ?kept"
    by (rule kept_history_accepted [OF _ assms scan_inv_start refl]) (simp add: ids)
  then have kept: "history_accepts {} ?kept" by simp
  have "rebuild (keep_results ?st) (set ?repaired) (result_ordinal repair_scan_start) ms =
      filter (\<lambda>m. msg_content m \<noteq> []) ?kept"
    by (rule rebuild_kept) (use scan_inv_start in \<open>simp_all add: scan_inv_def\<close>)
  then have rebuilt: "history_accepts {} (rebuild (keep_results ?st) (set ?repaired) 0 ms)"
    using accepts_without_empty [OF kept] by (simp add: repair_scan_start_def)
  have receipt: "history_accepts {} [\<lparr>msg_role = ''assistant'', msg_content = [Text t None]\<rparr>]" for t
    by (simp add: results_of_def calls_of_def)
  have "history_accepts {} ms" if "?repaired = []" "scan_duplicates ?st = []" "scan_orphans ?st = []"
  proof -
    have "reports repair_scan_start = 0" by (simp add: reports_def repair_scan_start_def)
    then have "kept_history calls {} 0 repair_scan_start ms = ms"
      using kept_history_reports [of repair_scan_start calls 0 ms] that(2,3) by (simp add: reports_def)
    with kept show ?thesis by (simp only: that(1) list.set)
  qed
  with rebuilt accepts_append [OF rebuilt receipt] show ?thesis
    by (simp add: repair_tool_call_pairs_inner_def c Let_def receipt_is_empty_def)
qed

lemma all_calls_simps [simp]:
  "all_calls [] = []" "all_calls (m # ms) = calls_of m @ all_calls ms" "all_calls (ms @ ns) = all_calls ms @ all_calls ns"
  by (simp_all add: all_calls_def)

lemma kept_history_calls: "all_calls (kept_history calls repaired i st ms) = all_calls ms"
  by (induction ms arbitrary: i st) (simp_all add: crash_message_def calls_of_def [of "\<lparr>msg_role = _, msg_content = _\<rparr>"])

lemma nonempty_calls: "all_calls (filter (\<lambda>m. msg_content m \<noteq> []) ms) = all_calls ms"
  by (induction ms) (simp_all add: calls_of_def)

lemma calls_of_text [simp]: "calls_of \<lparr>msg_role = r, msg_content = [Text t None]\<rparr> = []"
  by (simp add: calls_of_def)

lemma repaired_calls: "all_calls (fst (repair_tool_call_pairs_inner ms visible)) = all_calls ms"
proof -
  obtain calls ids where c: "collect_calls 0 ms (Map.empty, []) = (calls, ids)" by force
  let ?st = "scan_messages calls 0 repair_scan_start ms"
  have "rebuild (keep_results ?st) repaired (result_ordinal repair_scan_start) ms =
      filter (\<lambda>m. msg_content m \<noteq> []) (kept_history calls repaired 0 repair_scan_start ms)" for repaired
    by (rule rebuild_kept) (use scan_inv_start in \<open>simp_all add: scan_inv_def\<close>)
  then have "all_calls (rebuild (keep_results ?st) repaired 0 ms) = all_calls ms" for repaired
    by (simp add: repair_scan_start_def nonempty_calls kept_history_calls)
  then show ?thesis by (simp add: repair_tool_call_pairs_inner_def c Let_def)
qed


definition call_message :: "string \<Rightarrow> unit Message" where
  "call_message cid = \<lparr>msg_role = ''assistant'', msg_content = [ToolUse cid ''read_file'' () None]\<rparr>"

definition result_message :: "string \<Rightarrow> unit Message" where
  "result_message cid = \<lparr>msg_role = ''user'', msg_content = [ToolResult cid ''ok'' None None]\<rparr>"

definition crashed_history :: "unit Message list" where
  "crashed_history = [result_message ''z'', call_message ''a'', call_message ''b'', result_message ''a'', result_message ''b'']"


text \<open>
  The repair is idempotent and conservative: a history that is accepted is returned unchanged with an
  empty receipt, and repairing a repaired history changes nothing, when no call id is used twice.
\<close>

theorem repair_idempotent:
  assumes "distinct (all_calls ms)"
  shows "fst (repair_tool_call_pairs (fst (repair_tool_call_pairs ms))) = fst (repair_tool_call_pairs ms) \<and>
    receipt_is_empty (snd (repair_tool_call_pairs (fst (repair_tool_call_pairs ms)))) \<and>
    (history_accepts {} ms \<longleftrightarrow> receipt_is_empty (snd (repair_tool_call_pairs ms)))"
proof -
  let ?out = "fst (repair_tool_call_pairs_inner ms True)"
  have "distinct (all_calls ?out)" using assms by (simp add: repaired_calls)
  then have "fst (repair_tool_call_pairs_inner ?out True) = ?out \<and>
      receipt_is_empty (snd (repair_tool_call_pairs_inner ?out True))"
    using accepted_unchanged repaired_accepted [OF assms] by blast
  moreover have "?out = ms" if "receipt_is_empty (snd (repair_tool_call_pairs_inner ms True))"
    using that by (auto simp: repair_tool_call_pairs_inner_def Let_def split: prod.splits if_splits)
  then have "history_accepts {} ms \<longleftrightarrow> receipt_is_empty (snd (repair_tool_call_pairs_inner ms True))"
    using accepted_unchanged [OF assms, of True] repaired_accepted [OF assms, of True] by auto
  ultimately show ?thesis by (simp add: repair_tool_call_pairs_def)
qed

theorem repair_idempotent_witness:
  "receipt_is_empty (snd (repair_tool_call_pairs (fst (repair_tool_call_pairs crashed_history))))"
proof -
  have "distinct (all_calls crashed_history)" by code_simp
  from repair_idempotent [OF this] show ?thesis by blast
qed

text \<open>
  A reused call id defeats the repair: the history in which two turns use the same call id and each is
  answered is accepted as it is, but the repair drops the second result and leaves the second call
  without one.
\<close>

theorem reused_call_id_breaks_history:
  "history_accepts {} [call_message ''call_0'', result_message ''call_0'', call_message ''call_0'', result_message ''call_0''] \<and>
   fst (repair_tool_call_pairs_for_provider
     [call_message ''call_0'', result_message ''call_0'', call_message ''call_0'', result_message ''call_0'']) =
     [call_message ''call_0'', result_message ''call_0'', call_message ''call_0'']"
  by code_simp

end
