(* ===== verification/BTree_Map.thy ===== *)
theory BTree_Map
  imports Prelude "HOL-Library.Char_ord" "HOL-Library.List_Lexorder" "HOL-Library.Option_ord"
begin

text \<open>
  \<open>BTreeMap\<close> and \<open>BTreeSet\<close> of the Rust standard library: association lists and lists kept strictly
  sorted by key, so that \<open>values()\<close> and \<open>iter()\<close> are the list itself. Strings are ordered by their bytes.
\<close>

type_synonym ('k, 'v) btree_map = "('k \<times> 'v) list"

abbreviation bt_get :: "('k, 'v) btree_map \<Rightarrow> 'k \<Rightarrow> 'v option" where
  "bt_get m k \<equiv> map_of m k"

fun bt_insert :: "'k :: linorder \<Rightarrow> 'v \<Rightarrow> ('k, 'v) btree_map \<Rightarrow> ('k, 'v) btree_map" where
  "bt_insert k v [] = [(k, v)]"
| "bt_insert k v ((l, w) # m) =
     (if k = l then (k, v) # m else if k < l then (k, v) # (l, w) # m else (l, w) # bt_insert k v m)"

definition bt_modify :: "'k \<Rightarrow> ('v \<Rightarrow> 'v) \<Rightarrow> ('k, 'v) btree_map \<Rightarrow> ('k, 'v) btree_map" where
  "bt_modify k f m = map (\<lambda>(l, v). (l, if l = k then f v else v)) m"

definition bt_remove :: "'k \<Rightarrow> ('k, 'v) btree_map \<Rightarrow> ('k, 'v) btree_map" where
  "bt_remove k m = filter (\<lambda>(l, v). l \<noteq> k) m"

definition bt_values :: "('k, 'v) btree_map \<Rightarrow> 'v list" where
  "bt_values m = map snd m"

definition bt_ok :: "('k :: linorder, 'v) btree_map \<Rightarrow> bool" where
  "bt_ok m \<longleftrightarrow> sorted_wrt (<) (map fst m)"

text \<open>\<open>entry(k).or_insert(v)\<close>.\<close>

definition bt_or_insert :: "'k :: linorder \<Rightarrow> 'v \<Rightarrow> ('k, 'v) btree_map \<Rightarrow> ('k, 'v) btree_map" where
  "bt_or_insert k v m = (if bt_get m k = None then bt_insert k v m else m)"

lemma bt_get_insert [simp]: "bt_get (bt_insert k v m) l = (if l = k then Some v else bt_get m l)"
  by (induction m) auto

lemma bt_get_modify [simp]: "bt_get (bt_modify k f m) l = (if l = k then map_option f (bt_get m l) else bt_get m l)"
  by (induction m) (auto simp: bt_modify_def)

lemma bt_get_remove [simp]: "bt_get (bt_remove k m) l = (if l = k then None else bt_get m l)"
  by (induction m) (auto simp: bt_remove_def)

lemma bt_get_or_insert [simp]:
  "bt_get (bt_or_insert k v m) l = (if l = k \<and> bt_get m k = None then Some v else bt_get m l)"
  by (simp add: bt_or_insert_def)

lemma bt_insert_keys: "fst ` set (bt_insert k v m) = insert k (fst ` set m)"
  by (induction k v m rule: bt_insert.induct) (simp_all add: insert_commute)

lemma bt_ok_Nil [simp]: "bt_ok []"
  by (simp add: bt_ok_def)

lemma bt_ok_insert: "bt_ok m \<Longrightarrow> bt_ok (bt_insert k v m)"
proof (induction m)
  case (Cons e m)
  obtain l w where e: "e = (l, w)" by force
  with Cons.prems have l: "\<forall>x \<in> fst ` set m. l < x" "bt_ok m" by (simp_all add: bt_ok_def)
  show ?case
  proof (cases k l rule: linorder_cases)
    case less
    with l show ?thesis using Cons.prems by (auto simp: e bt_ok_def)
  next
    case equal
    with Cons.prems show ?thesis by (simp add: e bt_ok_def)
  next
    case greater
    have "\<forall>x \<in> fst ` set (bt_insert k v m). l < x" using greater l(1) by (auto simp: bt_insert_keys)
    with greater Cons.IH l(2) show ?thesis by (auto simp: e bt_ok_def)
  qed
qed (simp add: bt_ok_def)

lemma bt_modify_keys [simp]: "map fst (bt_modify k f m) = map fst m"
  by (induction m) (auto simp: bt_modify_def)

lemma bt_ok_modify: "bt_ok m \<Longrightarrow> bt_ok (bt_modify k f m)"
  by (simp add: bt_ok_def)

lemma bt_ok_or_insert: "bt_ok m \<Longrightarrow> bt_ok (bt_or_insert k v m)"
  by (simp add: bt_or_insert_def bt_ok_insert)

lemma bt_ok_distinct: "bt_ok m \<Longrightarrow> distinct (map fst m)"
  by (simp add: bt_ok_def strict_sorted_iff)

text \<open>In a well-formed map, what an iteration meets is what a lookup finds.\<close>

lemma bt_member_iff: "bt_ok m \<Longrightarrow> (k, v) \<in> set m \<longleftrightarrow> bt_get m k = Some v"
  using bt_ok_distinct by (metis map_of_eq_Some_iff)

lemma bt_values_iff: "bt_ok m \<Longrightarrow> v \<in> set (bt_values m) \<longleftrightarrow> (\<exists>k. bt_get m k = Some v)"
  by (force simp: bt_values_def bt_member_iff [symmetric])

end
