(* ===== verification/Fleet_Types.thy ===== *)
theory Fleet_Types
  imports BTree_Map
begin

text \<open>
  The protocol types of the fleet (\<open>crates/protocol/src/fleet.rs\<close>) that the ledger and the scheduler use.
  The type variable stands for the data they carry but never read: JSON values, floats, and the fields of
  specifications and receipts that only other components look at (the \<open>body\<close> fields).
\<close>

datatype FleetRunStatus =
  RunPending | RunQueued | RunRunning | RunPaused | RunCompleted | RunFailed | RunCancelled

datatype FleetWorkerStatus = Unknown | Online | Busy | Offline | Unhealthy | Draining | Retired

record FleetSecretRef =
  sr_key :: string
  sr_source :: "string option"

definition FleetSecretRef_new :: "string \<Rightarrow> FleetSecretRef" where
  "FleetSecretRef_new key = \<lparr>sr_key = key, sr_source = None\<rparr>"

record FleetAlertEndpoint =
  ep_url :: "string option"
  ep_url_ref :: "FleetSecretRef option"
  ep_secret_ref :: "FleetSecretRef option"

datatype FleetAlertChannel =
    Slack FleetAlertEndpoint
  | Webhook FleetAlertEndpoint
  | PagerDuty string string

datatype FleetAlertEventClass =
  AlertStale | RestartExhausted | NeedsHuman | BudgetExceeded | VerifierFailed | RunCompletedAlert

record FleetAlertPolicy =
  ap_events :: "FleetAlertEventClass list"
  ap_channels :: "FleetAlertChannel list"
  ap_after_attempts :: "u32 option"
  ap_after_minutes_stale :: "u64 option"

record FleetRetryPolicy =
  rp_max_attempts :: u32
  rp_initial_backoff_seconds :: u64
  rp_max_backoff_seconds :: u64
  rp_backoff_multiplier :: u32

definition FleetRetryPolicy_default :: FleetRetryPolicy where
  "FleetRetryPolicy_default = \<lparr>rp_max_attempts = 3, rp_initial_backoff_seconds = 5,
     rp_max_backoff_seconds = 300, rp_backoff_multiplier = 2\<rparr>"

record 'o FleetTaskSpec =
  ts_id :: string
  ts_retry_policy :: "FleetRetryPolicy option"
  ts_alert_policy :: "FleetAlertPolicy option"
  ts_metadata :: "(string, 'o) btree_map"
  ts_body :: 'o

record SshHost =
  ssh_host :: string
  ssh_port :: "16 word option"
  ssh_user :: "string option"
  ssh_identity :: "string option"
  ssh_known_hosts :: "string option"
  ssh_host_key_fingerprint :: "string option"
  ssh_working_directory :: "string option"
  ssh_env_allowlist :: "string list"
  ssh_nestlone_binary :: "string option"

datatype FleetHostSpec = LocalHost | Ssh SshHost | Docker string "string list"

record 'o FleetWorkerSpec =
  ws_id :: string
  ws_host :: FleetHostSpec
  ws_body :: 'o

record 'o FleetRun =
  fr_id :: string
  fr_max_workers :: "nat option"
  fr_task_specs :: "'o FleetTaskSpec list"
  fr_worker_specs :: "'o FleetWorkerSpec list"
  fr_updated_at :: "string option"
  fr_body :: 'o

record FleetInboxEntry =
  fe_run_id :: string
  fe_task_id :: string
  fe_priority :: int
  fe_enqueued_at :: string
  fe_lease_deadline :: "string option"
  fe_attempts :: u32

record 'o FleetArtifactRef =
  fa_path :: string
  fa_body :: 'o

datatype 'o FleetWorkerEventPayload =
    Queued
  | LeasedEvent "string option"
  | Starting
  | Running
  | ModelWait "string option"
  | RunningTool string "string option"
  | WorkflowEvent string 'o
  | HeartbeatEvent "'o option" "u64 option"
  | Artifact "'o FleetArtifactRef"
  | CompletedEvent "32 word option" "string option"
  | FailedEvent string bool
  | CancelledEvent "string option"
  | Interrupted "string option"
  | Stale "string option"
  | Restarted u32
  | Escalated string "string option"

record 'o FleetWorkerEvent =
  we_seq :: u64
  we_run_id :: string
  we_worker_id :: string
  we_task_id :: string
  we_timestamp :: string
  we_payload :: "'o FleetWorkerEventPayload"
  we_extra :: "(string, 'o) btree_map"

record 'o FleetReceipt =
  fx_run_id :: string
  fx_task_id :: string
  fx_worker_id :: string
  fx_attempt :: "u32 option"
  fx_terminal_seq :: "u64 option"
  fx_body :: 'o

end
