(* ===== verification/Fleet_Ledger.thy ===== *)
theory Fleet_Ledger
  imports Fleet_Types Rust_Str
begin

text \<open>
  The fleet ledger (\<open>fleet/ledger.rs\<close>): an append-only list of records,
  the state replayed from it, and the compare-and-set operations the managers, executors and schedulers
  call. The write lock makes each operation atomic, so an operation is a function from the ledger to the
  new ledger and its result, and concurrent managers are sequences of operations. The type variable
  stands for the data the ledger carries but never reads (run bodies, receipt bodies, JSON values,
  floats). The file is the list of its records; writing, locking and the JSON text are not modelled.
\<close>

section \<open>Records and state\<close>

datatype FleetTaskLedgerStatus = Enqueued | Leased | Completed | Failed | Cancelled

datatype 'o FleetLedgerRecord =
    RunCreated "'o FleetRun"
  | RunStatusChanged string FleetRunStatus string
  | TaskEnqueued FleetInboxEntry
  | TaskLeased string string string string "string option"
  | TaskCompletedOrFailed string string string string FleetTaskLedgerStatus
  | TaskLifecycleCheckpoint string string u64
  | TaskAttemptFinalized "'o FleetWorkerEvent" "FleetTaskLedgerStatus option" "'o FleetReceipt"
  | EventAppended "'o FleetWorkerEvent"
  | EventSequenceCheckpoint string string string u64
  | Heartbeat string string "'o option" "u64 option"
  | ReceiptRecorded "'o FleetReceipt"
  | AlertSent string string string string "string option" "u32 option" "u64 option"

record FleetTaskState =
  ft_entry :: FleetInboxEntry
  ft_status :: FleetTaskLedgerStatus
  ft_lifecycle_seq :: u64
  ft_leased_to :: "string option"
  ft_leased_at :: "string option"
  ft_completed_at :: "string option"

record 'o FleetHeartbeatState =
  fh_timestamp :: string
  fh_cpu_percent :: "'o option"
  fh_memory_mb :: "u64 option"

record FleetLedgerAlert =
  al_run_id :: string
  al_task_id :: string
  al_channel :: string
  al_timestamp :: string
  al_worker_id :: "string option"
  al_attempt :: "u32 option"
  al_seq :: "u64 option"

record FleetEventSequenceOwner =
  so_run_id :: string
  so_worker_id :: string
  so_task_id :: string

type_synonym alert_id = "string \<times> string \<times> u32 option \<times> string"

record 'o FleetLedgerState =
  fs_runs :: "(string, 'o FleetRun) btree_map"
  fs_run_status_overrides :: "(string, FleetRunStatus) btree_map"
  fs_tasks :: "(string, FleetTaskState) btree_map"
  fs_workers :: "(string, FleetWorkerStatus) btree_map"
  fs_heartbeats :: "(string, 'o FleetHeartbeatState) btree_map"
  fs_latest_seq :: "(string, u64) btree_map"
  fs_sequence_owners :: "(string, FleetEventSequenceOwner) btree_map"
  fs_latest_events :: "(string, 'o FleetWorkerEvent) btree_map"
  fs_artifact_events :: "(string, 'o FleetWorkerEvent) btree_map"
  fs_restarted_events :: "(string, 'o FleetWorkerEvent) btree_map"
  fs_escalated_events :: "(string, 'o FleetWorkerEvent) btree_map"
  fs_receipts :: "(string, 'o FleetReceipt) btree_map"
  fs_alerts :: "(alert_id, FleetLedgerAlert) btree_map"

definition FleetLedgerState_default :: "'o FleetLedgerState" where
  "FleetLedgerState_default =
     \<lparr>fs_runs = [], fs_run_status_overrides = [], fs_tasks = [], fs_workers = [], fs_heartbeats = [],
      fs_latest_seq = [], fs_sequence_owners = [], fs_latest_events = [], fs_artifact_events = [],
      fs_restarted_events = [], fs_escalated_events = [], fs_receipts = [], fs_alerts = []\<rparr>"

definition task_key :: "string \<Rightarrow> string \<Rightarrow> string" where
  "task_key run_id task_id = run_id @ '':'' @ task_id"

definition event_key :: "string \<Rightarrow> string \<Rightarrow> string \<Rightarrow> string" where
  "event_key worker_id run_id task_id = worker_id @ '':'' @ run_id @ '':'' @ task_id"

definition artifact_event_key :: "'o FleetWorkerEvent \<Rightarrow> 'o FleetArtifactRef \<Rightarrow> string" where
  "artifact_event_key e a =
     we_worker_id e @ '':'' @ we_run_id e @ '':'' @ we_task_id e @ '':'' @ fa_path a"

definition alert_key :: "string \<Rightarrow> string \<Rightarrow> u32 option \<Rightarrow> string \<Rightarrow> alert_id" where
  "alert_key run_id task_id attempt channel = (run_id, task_id, attempt, channel)"

text \<open>\<open>rsplit_once('#')\<close> and \<open>parse::<usize>()\<close> on the ordinal behind it.\<close>

definition rsplit_once :: "char \<Rightarrow> string \<Rightarrow> (string \<times> string) option" where
  "rsplit_once d s = map_option (\<lambda>(a, b). (rev b, rev a)) (split_once d (rev s))"

definition parses_usize :: "string \<Rightarrow> bool" where
  "parses_usize s =
     (let digits = (case s of CHR ''+'' # r \<Rightarrow> r | _ \<Rightarrow> s)
      in digits \<noteq> [] \<and> list_all is_ascii_digit digits \<and>
         foldl (\<lambda>n c. 10 * n + (byte c - 48)) 0 digits < 2 ^ 64)"

definition alert_channel_label :: "string \<Rightarrow> string" where
  "alert_channel_label channel_key =
     (case rsplit_once (CHR ''#'') channel_key of
        Some (label, ordinal) \<Rightarrow> if parses_usize ordinal then label else channel_key
      | None \<Rightarrow> channel_key)"

definition status_is_terminal :: "FleetTaskLedgerStatus \<Rightarrow> bool" where
  "status_is_terminal s = (case s of Completed \<Rightarrow> True | Failed \<Rightarrow> True | Cancelled \<Rightarrow> True | _ \<Rightarrow> False)"

fun payload_is_terminal :: "'o FleetWorkerEventPayload \<Rightarrow> bool" where
  "payload_is_terminal (CompletedEvent _ _) = True"
| "payload_is_terminal (FailedEvent _ _) = True"
| "payload_is_terminal (CancelledEvent _) = True"
| "payload_is_terminal _ = False"

text \<open>The payloads that must not move a terminal task back.\<close>

fun payload_regresses :: "'o FleetWorkerEventPayload \<Rightarrow> bool" where
  "payload_regresses (LeasedEvent _) = True"
| "payload_regresses (Artifact _) = True"
| "payload_regresses (ModelWait _) = True"
| "payload_regresses (RunningTool _ _) = True"
| "payload_regresses (WorkflowEvent _ _) = True"
| "payload_regresses (HeartbeatEvent _ _) = True"
| "payload_regresses Starting = True"
| "payload_regresses Running = True"
| "payload_regresses (Stale _) = True"
| "payload_regresses (Restarted _) = True"
| "payload_regresses (Interrupted _) = True"
| "payload_regresses _ = False"

section \<open>Replay\<close>

definition terminal_task :: "string \<Rightarrow> string \<Rightarrow> FleetTaskLedgerStatus \<Rightarrow> FleetTaskState \<Rightarrow> FleetTaskState" where
  "terminal_task worker_id timestamp status task =
     task\<lparr>ft_lifecycle_seq :=
            (if ft_status task \<noteq> status then saturating_add (ft_lifecycle_seq task) 1 else ft_lifecycle_seq task),
          ft_status := status,
          ft_leased_to := (if worker_id \<noteq> [] then Some worker_id else ft_leased_to task),
          ft_completed_at := Some timestamp\<rparr>"

definition mark_task_terminal ::
  "'o FleetLedgerState \<Rightarrow> string \<Rightarrow> string \<Rightarrow> string \<Rightarrow> string \<Rightarrow> FleetTaskLedgerStatus \<Rightarrow> 'o FleetLedgerState" where
  "mark_task_terminal st run_id task_id worker_id timestamp status =
     st\<lparr>fs_tasks := bt_modify (task_key run_id task_id) (terminal_task worker_id timestamp status) (fs_tasks st)\<rparr>"

definition leased_task :: "string \<Rightarrow> string \<Rightarrow> string option \<Rightarrow> FleetTaskState \<Rightarrow> FleetTaskState" where
  "leased_task worker_id leased_at lease_expires_at task =
     task\<lparr>ft_lifecycle_seq :=
            (if ft_status task \<noteq> Leased \<or> ft_leased_to task \<noteq> Some worker_id \<or> ft_leased_at task \<noteq> Some leased_at
             then saturating_add (ft_lifecycle_seq task) 1 else ft_lifecycle_seq task),
          ft_status := Leased,
          ft_leased_to := Some worker_id,
          ft_leased_at := Some leased_at,
          ft_entry := (ft_entry task)\<lparr>fe_lease_deadline := lease_expires_at,
            fe_attempts := saturating_add (fe_attempts (ft_entry task)) 1\<rparr>\<rparr>"

definition set_worker :: "string \<Rightarrow> FleetWorkerStatus \<Rightarrow> 'o FleetLedgerState \<Rightarrow> 'o FleetLedgerState" where
  "set_worker worker_id status st = st\<lparr>fs_workers := bt_insert worker_id status (fs_workers st)\<rparr>"

text \<open>The part of an appended event that is recorded whatever the task's status.\<close>

definition index_event :: "'o FleetLedgerState \<Rightarrow> 'o FleetWorkerEvent \<Rightarrow> bool \<Rightarrow> 'o FleetLedgerState" where
  "index_event st e regresses =
     (let key = event_key (we_worker_id e) (we_run_id e) (we_task_id e);
          st = st\<lparr>fs_sequence_owners := bt_insert key
            \<lparr>so_run_id = we_run_id e, so_worker_id = we_worker_id e, so_task_id = we_task_id e\<rparr> (fs_sequence_owners st)\<rparr>;
          st = (if (case bt_get (fs_latest_seq st) key of None \<Rightarrow> True | Some seq \<Rightarrow> seq < we_seq e)
            then st\<lparr>fs_latest_seq := bt_insert key (we_seq e) (fs_latest_seq st),
                    fs_latest_events := (if regresses then fs_latest_events st else bt_insert key e (fs_latest_events st))\<rparr>
            else st);
          st = (case we_payload e of
              Artifact artifact \<Rightarrow>
                st\<lparr>fs_artifact_events := bt_insert (artifact_event_key e artifact) e (fs_artifact_events st)\<rparr>
            | _ \<Rightarrow> st);
          st = (case we_payload e of
              Restarted _ \<Rightarrow> st\<lparr>fs_restarted_events := bt_insert key e (fs_restarted_events st)\<rparr>
            | _ \<Rightarrow> st)
      in (case we_payload e of
            Escalated _ _ \<Rightarrow> st\<lparr>fs_escalated_events := bt_insert key e (fs_escalated_events st)\<rparr>
          | _ \<Rightarrow> st))"

definition project_event :: "'o FleetLedgerState \<Rightarrow> 'o FleetWorkerEvent \<Rightarrow> 'o FleetLedgerState" where
  "project_event st e =
     (let mark = (\<lambda>status. set_worker (we_worker_id e) Online
            (mark_task_terminal st (we_run_id e) (we_task_id e) (we_worker_id e) (we_timestamp e) status))
      in case we_payload e of
           LeasedEvent _ \<Rightarrow> set_worker (we_worker_id e) Busy st
         | Restarted _ \<Rightarrow> set_worker (we_worker_id e) Busy st
         | ModelWait _ \<Rightarrow> set_worker (we_worker_id e) Busy st
         | RunningTool _ _ \<Rightarrow> set_worker (we_worker_id e) Busy st
         | WorkflowEvent _ _ \<Rightarrow> set_worker (we_worker_id e) Busy st
         | HeartbeatEvent _ _ \<Rightarrow> set_worker (we_worker_id e) Busy st
         | Starting \<Rightarrow> set_worker (we_worker_id e) Busy st
         | Running \<Rightarrow> set_worker (we_worker_id e) Busy st
         | Interrupted _ \<Rightarrow> set_worker (we_worker_id e) Draining st
         | Stale _ \<Rightarrow> set_worker (we_worker_id e) Unhealthy st
         | CompletedEvent _ _ \<Rightarrow> mark Completed
         | FailedEvent _ _ \<Rightarrow> mark Failed
         | CancelledEvent _ \<Rightarrow> mark Cancelled
         | _ \<Rightarrow> st)"

definition apply_event :: "'o FleetLedgerState \<Rightarrow> 'o FleetWorkerEvent \<Rightarrow> 'o FleetLedgerState" where
  "apply_event st e =
     (let task_is_terminal =
            (case bt_get (fs_tasks st) (task_key (we_run_id e) (we_task_id e)) of
               None \<Rightarrow> False | Some task \<Rightarrow> status_is_terminal (ft_status task));
          regresses = (task_is_terminal \<and> payload_regresses (we_payload e));
          st = index_event st e regresses
      in if regresses then st else project_event st e)"

definition apply_alert ::
  "'o FleetLedgerState \<Rightarrow> string \<Rightarrow> string \<Rightarrow> string \<Rightarrow> string \<Rightarrow> string option \<Rightarrow> u32 option \<Rightarrow> u64 option \<Rightarrow>
     'o FleetLedgerState" where
  "apply_alert st run_id task_id channel timestamp worker_id attempt seq =
     (let attempt = (case attempt of
            Some a \<Rightarrow> Some a
          | None \<Rightarrow>
              (case bt_get (fs_tasks st) (task_key run_id task_id) of
                 None \<Rightarrow> None
               | Some task \<Rightarrow> if 0 < fe_attempts (ft_entry task) then Some (fe_attempts (ft_entry task)) else None));
          key = alert_key run_id task_id attempt channel;
          is_new = (bt_get (fs_alerts st) key = None);
          st = st\<lparr>fs_alerts := bt_or_insert key
            \<lparr>al_run_id = run_id, al_task_id = task_id, al_channel = channel, al_timestamp = timestamp,
             al_worker_id = worker_id, al_attempt = attempt, al_seq = seq\<rparr> (fs_alerts st)\<rparr>
      in case (worker_id, seq) of
           (Some w, Some s) \<Rightarrow>
             if is_new
             then apply_event st \<lparr>we_seq = s, we_run_id = run_id, we_worker_id = w, we_task_id = task_id,
               we_timestamp = timestamp, we_payload = Escalated (alert_channel_label channel) None, we_extra = []\<rparr>
             else st
         | _ \<Rightarrow> st)"

definition apply_record :: "'o FleetLedgerState \<Rightarrow> 'o FleetLedgerRecord \<Rightarrow> 'o FleetLedgerState" where
  "apply_record st r =
     (case r of
        RunCreated run \<Rightarrow> st\<lparr>fs_runs := bt_insert (fr_id run) run (fs_runs st)\<rparr>
      | RunStatusChanged run_id status _ \<Rightarrow>
          st\<lparr>fs_run_status_overrides := bt_insert run_id status (fs_run_status_overrides st)\<rparr>
      | TaskEnqueued entry \<Rightarrow>
          st\<lparr>fs_tasks := bt_or_insert (task_key (fe_run_id entry) (fe_task_id entry))
            \<lparr>ft_entry = entry, ft_status = Enqueued, ft_lifecycle_seq = 1, ft_leased_to = None,
             ft_leased_at = None, ft_completed_at = None\<rparr> (fs_tasks st)\<rparr>
      | TaskLeased run_id task_id worker_id leased_at lease_expires_at \<Rightarrow>
          st\<lparr>fs_tasks := bt_modify (task_key run_id task_id)
            (leased_task worker_id leased_at lease_expires_at) (fs_tasks st)\<rparr>
      | TaskCompletedOrFailed run_id task_id worker_id timestamp status \<Rightarrow>
          mark_task_terminal st run_id task_id worker_id timestamp status
      | TaskLifecycleCheckpoint run_id task_id lifecycle_seq \<Rightarrow>
          st\<lparr>fs_tasks := bt_modify (task_key run_id task_id)
            (\<lambda>task. task\<lparr>ft_lifecycle_seq := max (ft_lifecycle_seq task) (max lifecycle_seq 1)\<rparr>) (fs_tasks st)\<rparr>
      | TaskAttemptFinalized e final_status receipt \<Rightarrow>
          (let st = apply_event st e;
               st = (case final_status of
                   None \<Rightarrow> st
                 | Some status \<Rightarrow>
                     mark_task_terminal st (we_run_id e) (we_task_id e) (we_worker_id e) (we_timestamp e) status)
           in st\<lparr>fs_receipts := bt_insert (task_key (fx_run_id receipt) (fx_task_id receipt)) receipt (fs_receipts st)\<rparr>)
      | EventAppended e \<Rightarrow> apply_event st e
      | EventSequenceCheckpoint run_id worker_id task_id seq \<Rightarrow>
          (let key = event_key worker_id run_id task_id
           in st\<lparr>fs_sequence_owners := bt_insert key
                   \<lparr>so_run_id = run_id, so_worker_id = worker_id, so_task_id = task_id\<rparr> (fs_sequence_owners st),
                 fs_latest_seq := (case bt_get (fs_latest_seq st) key of
                     None \<Rightarrow> bt_insert key seq (fs_latest_seq st)
                   | Some current \<Rightarrow> bt_insert key (max current seq) (fs_latest_seq st))\<rparr>)
      | Heartbeat worker_id timestamp cpu_percent memory_mb \<Rightarrow>
          (let st = st\<lparr>fs_heartbeats := bt_insert worker_id
                 \<lparr>fh_timestamp = timestamp, fh_cpu_percent = cpu_percent, fh_memory_mb = memory_mb\<rparr> (fs_heartbeats st)\<rparr>
           in if (case bt_get (fs_workers st) worker_id of Some status \<Rightarrow> status | None \<Rightarrow> Unknown) \<noteq> Busy
              then set_worker worker_id Online st else st)
      | ReceiptRecorded receipt \<Rightarrow>
          st\<lparr>fs_receipts := bt_insert (task_key (fx_run_id receipt) (fx_task_id receipt)) receipt (fs_receipts st)\<rparr>
      | AlertSent run_id task_id channel timestamp worker_id attempt seq \<Rightarrow>
          apply_alert st run_id task_id channel timestamp worker_id attempt seq)"

definition rebuild_state :: "'o FleetLedgerRecord list \<Rightarrow> 'o FleetLedgerState" where
  "rebuild_state records = foldl apply_record FleetLedgerState_default records"

section \<open>Operations\<close>

text \<open>
  An operation takes the records of the ledger file and gives the records afterwards and its result; an
  error is a left value. The callbacks that persist a launch are given by their outcome. \<open>rebuild_state_unlocked\<close>
  and \<open>append_records_unlocked\<close> are \<^const>\<open>rebuild_state\<close> and list append.
\<close>

type_synonym 'o ledger = "'o FleetLedgerRecord list"

abbreviation task_of :: "'o FleetLedgerState \<Rightarrow> string \<Rightarrow> string \<Rightarrow> FleetTaskState option" where
  "task_of st run_id task_id \<equiv> bt_get (fs_tasks st) (task_key run_id task_id)"

definition redact_endpoint :: "FleetAlertEndpoint \<Rightarrow> FleetAlertEndpoint" where
  "redact_endpoint endpoint =
     \<lparr>ep_url = map_option (\<lambda>_. ''<redacted>'') (ep_url endpoint),
      ep_url_ref = map_option (\<lambda>_. FleetSecretRef_new ''<redacted>'') (ep_url_ref endpoint),
      ep_secret_ref = map_option (\<lambda>_. FleetSecretRef_new ''<redacted>'') (ep_secret_ref endpoint)\<rparr>"

fun redact_channel :: "FleetAlertChannel \<Rightarrow> FleetAlertChannel" where
  "redact_channel (Slack webhook) = Slack (webhook\<lparr>ep_url := map_option (\<lambda>_. ''<redacted>'') (ep_url webhook)\<rparr>)"
| "redact_channel (Webhook endpoint) = Webhook (redact_endpoint endpoint)"
| "redact_channel (PagerDuty _ severity) = PagerDuty ''<redacted>'' severity"

definition sanitize_run_for_ledger :: "'o FleetRun \<Rightarrow> 'o FleetRun" where
  "sanitize_run_for_ledger run =
     run\<lparr>fr_task_specs := map (\<lambda>task. task\<lparr>ts_alert_policy :=
       map_option (\<lambda>policy. policy\<lparr>ap_channels := map redact_channel (ap_channels policy)\<rparr>) (ts_alert_policy task)\<rparr>)
       (fr_task_specs run)\<rparr>"

definition create_run :: "'o ledger \<Rightarrow> 'o FleetRun \<Rightarrow> 'o ledger" where
  "create_run L run = L @ [RunCreated (sanitize_run_for_ledger run)]"

definition update_run_status :: "'o ledger \<Rightarrow> string \<Rightarrow> FleetRunStatus \<Rightarrow> string \<Rightarrow> 'o ledger" where
  "update_run_status L run_id status timestamp = L @ [RunStatusChanged run_id status timestamp]"

definition enqueue :: "'o ledger \<Rightarrow> FleetInboxEntry \<Rightarrow> 'o ledger" where
  "enqueue L entry = L @ [TaskEnqueued entry]"

definition leased_by :: "string \<Rightarrow> FleetTaskState \<Rightarrow> bool" where
  "leased_by worker_id task \<longleftrightarrow> ft_status task = Leased \<and> ft_leased_to task = Some worker_id"

definition latest_event_seq :: "'o FleetLedgerState \<Rightarrow> string \<Rightarrow> string \<Rightarrow> string \<Rightarrow> u64" where
  "latest_event_seq st worker_id run_id task_id =
     (case bt_get (fs_latest_seq st) (event_key worker_id run_id task_id) of Some seq \<Rightarrow> seq | None \<Rightarrow> 0)"

definition heartbeat_at :: "'o FleetLedgerState \<Rightarrow> string \<Rightarrow> string option" where
  "heartbeat_at st worker_id = map_option fh_timestamp (bt_get (fs_heartbeats st) worker_id)"

definition worker_event ::
  "u64 \<Rightarrow> string \<Rightarrow> string \<Rightarrow> string \<Rightarrow> string \<Rightarrow> 'o FleetWorkerEventPayload \<Rightarrow> 'o FleetWorkerEvent" where
  "worker_event seq run_id worker_id task_id timestamp payload =
     \<lparr>we_seq = seq, we_run_id = run_id, we_worker_id = worker_id, we_task_id = task_id,
      we_timestamp = timestamp, we_payload = payload, we_extra = []\<rparr>"

definition next_worker_event ::
  "'o FleetLedgerState \<Rightarrow> string \<Rightarrow> string \<Rightarrow> string \<Rightarrow> string \<Rightarrow> 'o FleetWorkerEventPayload \<Rightarrow> 'o FleetWorkerEvent" where
  "next_worker_event st run_id worker_id task_id timestamp payload =
     worker_event (latest_event_seq st worker_id run_id task_id + 1) run_id worker_id task_id timestamp payload"

text \<open>The events that accompany a launch, with consecutive sequence numbers.\<close>

fun initial_event_records ::
  "u64 \<Rightarrow> string \<Rightarrow> string \<Rightarrow> string \<Rightarrow> string \<Rightarrow> 'o FleetWorkerEventPayload list \<Rightarrow> 'o FleetLedgerRecord list" where
  "initial_event_records next_seq run_id worker_id task_id leased_at [] = []"
| "initial_event_records next_seq run_id worker_id task_id leased_at (payload # payloads) =
     EventAppended (worker_event next_seq run_id worker_id task_id leased_at payload) #
     initial_event_records (saturating_add next_seq 1) run_id worker_id task_id leased_at payloads"

definition active_for_run :: "'o FleetLedgerState \<Rightarrow> string \<Rightarrow> nat" where
  "active_for_run st run_id =
     length (filter (\<lambda>task. ft_status task = Leased)
       (filter (\<lambda>task. fe_run_id (ft_entry task) = run_id) (bt_values (fs_tasks st))))"

definition lease_task_if_enqueued_with_events ::
  "'o ledger \<Rightarrow> string \<Rightarrow> string \<Rightarrow> string \<Rightarrow> string \<Rightarrow> string option \<Rightarrow> nat option \<Rightarrow>
     'o FleetWorkerEventPayload list \<Rightarrow> bool \<Rightarrow> string + unit \<Rightarrow> 'o ledger \<times> (string + bool)" where
  "lease_task_if_enqueued_with_events L run_id task_id worker_id leased_at lease_expires_at max_active_for_run
     initial_events record_heartbeat on_started =
     (let st = rebuild_state L
      in case task_of st run_id task_id of
           None \<Rightarrow> (L, Inr False)
         | Some task \<Rightarrow>
             if ft_status task \<noteq> Enqueued then (L, Inr False)
             else if list_ex (leased_by worker_id) (bt_values (fs_tasks st)) then (L, Inr False)
             else if (case max_active_for_run of None \<Rightarrow> False | Some m \<Rightarrow> m \<le> active_for_run st run_id)
             then (L, Inr False)
             else case on_started of
                 Inl err \<Rightarrow> (L, Inl err)
               | Inr _ \<Rightarrow>
                   (L @ [TaskLeased run_id task_id worker_id leased_at lease_expires_at] @
                      initial_event_records (latest_event_seq st worker_id run_id task_id + 1)
                        run_id worker_id task_id leased_at initial_events @
                      (if record_heartbeat then [Heartbeat worker_id leased_at None None] else []), Inr True))"

definition lease_task_if_enqueued ::
  "'o ledger \<Rightarrow> string \<Rightarrow> string \<Rightarrow> string \<Rightarrow> string \<Rightarrow> string option \<Rightarrow> nat option \<Rightarrow> 'o ledger \<times> (string + bool)" where
  "lease_task_if_enqueued L run_id task_id worker_id leased_at lease_expires_at max_active_for_run =
     lease_task_if_enqueued_with_events L run_id task_id worker_id leased_at lease_expires_at max_active_for_run
       [] False (Inr ())"

definition start_task_if_enqueued ::
  "'o ledger \<Rightarrow> string \<Rightarrow> string \<Rightarrow> string \<Rightarrow> string \<Rightarrow> string option \<Rightarrow> nat option \<Rightarrow>
     'o FleetWorkerEventPayload list \<Rightarrow> string + unit \<Rightarrow> 'o ledger \<times> (string + bool)" where
  "start_task_if_enqueued L run_id task_id worker_id leased_at lease_expires_at max_active_for_run
     initial_events on_started =
     lease_task_if_enqueued_with_events L run_id task_id worker_id leased_at lease_expires_at max_active_for_run
       initial_events True on_started"

definition mark_task_terminal_status_if_unchanged ::
  "'o ledger \<Rightarrow> string \<Rightarrow> string \<Rightarrow> string \<Rightarrow> FleetTaskLedgerStatus \<Rightarrow> u32 \<Rightarrow> u64 \<Rightarrow> string \<Rightarrow>
     FleetTaskLedgerStatus \<Rightarrow> 'o ledger \<times> bool" where
  "mark_task_terminal_status_if_unchanged L run_id task_id worker_id expected_status expected_attempts
     expected_latest_seq timestamp status =
     (let st = rebuild_state L
      in case task_of st run_id task_id of
           None \<Rightarrow> (L, False)
         | Some task \<Rightarrow>
             if ft_status task \<noteq> expected_status \<or> ft_leased_to task \<noteq> Some worker_id \<or>
                fe_attempts (ft_entry task) \<noteq> expected_attempts \<or>
                latest_event_seq st worker_id run_id task_id \<noteq> expected_latest_seq
             then (L, False)
             else (L @ [TaskCompletedOrFailed run_id task_id worker_id timestamp status], True))"

definition append_event :: "'o ledger \<Rightarrow> 'o FleetWorkerEvent \<Rightarrow> 'o ledger" where
  "append_event L e = L @ [EventAppended e]"

definition append_event_next_seq ::
  "'o ledger \<Rightarrow> string \<Rightarrow> string \<Rightarrow> string \<Rightarrow> string \<Rightarrow> 'o FleetWorkerEventPayload \<Rightarrow> 'o ledger \<times> 'o FleetWorkerEvent" where
  "append_event_next_seq L run_id worker_id task_id timestamp payload =
     (let e = next_worker_event (rebuild_state L) run_id worker_id task_id timestamp payload
      in (L @ [EventAppended e], e))"

text \<open>The lease an executor believes to hold, and the version of it a scheduler has looked at.\<close>

definition lease_is_live :: "FleetTaskState \<Rightarrow> string \<Rightarrow> u32 \<Rightarrow> bool" where
  "lease_is_live task worker_id expected_attempts \<longleftrightarrow>
     \<not> (ft_status task \<noteq> Leased \<or> ft_leased_to task \<noteq> Some worker_id \<or> fe_attempts (ft_entry task) \<noteq> expected_attempts)"

definition lease_is_unchanged ::
  "'o FleetLedgerState \<Rightarrow> FleetTaskState \<Rightarrow> string \<Rightarrow> string \<Rightarrow> string \<Rightarrow> u32 \<Rightarrow> u64 \<Rightarrow> string option \<Rightarrow> bool" where
  "lease_is_unchanged st task run_id worker_id task_id expected_attempts expected_latest_seq expected_heartbeat_at \<longleftrightarrow>
     \<not> (ft_status task \<noteq> Leased \<or> ft_leased_to task \<noteq> Some worker_id \<or>
        fe_attempts (ft_entry task) \<noteq> expected_attempts \<or>
        latest_event_seq st worker_id run_id task_id \<noteq> expected_latest_seq \<or>
        heartbeat_at st worker_id \<noteq> expected_heartbeat_at)"

definition append_event_if_leased ::
  "'o ledger \<Rightarrow> string \<Rightarrow> string \<Rightarrow> string \<Rightarrow> u32 \<Rightarrow> string \<Rightarrow> 'o FleetWorkerEventPayload \<Rightarrow>
     'o ledger \<times> (string + 'o FleetWorkerEvent option)" where
  "append_event_if_leased L run_id worker_id task_id expected_attempts timestamp payload =
     (if payload_is_terminal payload
      then (L, Inl ''conditional progress append does not accept terminal worker events'')
      else let st = rebuild_state L
        in case task_of st run_id task_id of
             None \<Rightarrow> (L, Inr None)
           | Some task \<Rightarrow>
               if \<not> lease_is_live task worker_id expected_attempts then (L, Inr None)
               else let e = next_worker_event st run_id worker_id task_id timestamp payload
                 in (L @ [EventAppended e], Inr (Some e)))"

definition append_event_if_lease_unchanged ::
  "'o ledger \<Rightarrow> string \<Rightarrow> string \<Rightarrow> string \<Rightarrow> u32 \<Rightarrow> u64 \<Rightarrow> string option \<Rightarrow> string \<Rightarrow> 'o FleetWorkerEventPayload \<Rightarrow>
     'o ledger \<times> (string + 'o FleetWorkerEvent option)" where
  "append_event_if_lease_unchanged L run_id worker_id task_id expected_attempts expected_latest_seq
     expected_heartbeat_at timestamp payload =
     (if payload_is_terminal payload
      then (L, Inl ''conditional progress append does not accept terminal worker events'')
      else let st = rebuild_state L
        in case task_of st run_id task_id of
             None \<Rightarrow> (L, Inr None)
           | Some task \<Rightarrow>
               if \<not> lease_is_unchanged st task run_id worker_id task_id expected_attempts expected_latest_seq
                 expected_heartbeat_at then (L, Inr None)
               else let e = next_worker_event st run_id worker_id task_id timestamp payload
                 in (L @ [EventAppended e], Inr (Some e)))"

definition append_terminal_event_if_leased ::
  "'o ledger \<Rightarrow> string \<Rightarrow> string \<Rightarrow> string \<Rightarrow> u32 \<Rightarrow> string \<Rightarrow> 'o FleetWorkerEventPayload \<Rightarrow>
     'o ledger \<times> (string + 'o FleetWorkerEvent option)" where
  "append_terminal_event_if_leased L run_id worker_id task_id expected_attempts timestamp payload =
     (if \<not> payload_is_terminal payload
      then (L, Inl ''conditional terminal append requires a terminal worker event'')
      else let st = rebuild_state L
        in case task_of st run_id task_id of
             None \<Rightarrow> (L, Inr None)
           | Some task \<Rightarrow>
               if \<not> lease_is_live task worker_id expected_attempts then (L, Inr None)
               else let e = next_worker_event st run_id worker_id task_id timestamp payload
                 in (L @ [EventAppended e], Inr (Some e)))"

definition finalize_task_attempt_if_leased ::
  "'o ledger \<Rightarrow> string \<Rightarrow> string \<Rightarrow> string \<Rightarrow> u32 \<Rightarrow> string \<Rightarrow> 'o FleetWorkerEventPayload \<Rightarrow>
     FleetTaskLedgerStatus option \<Rightarrow> 'o FleetReceipt \<Rightarrow> 'o ledger \<times> (string + 'o FleetWorkerEvent option)" where
  "finalize_task_attempt_if_leased L run_id worker_id task_id expected_attempts timestamp payload final_status receipt =
     (if \<not> payload_is_terminal payload then (L, Inl ''attempt finalization requires a terminal worker event'')
      else if (case final_status of None \<Rightarrow> False | Some status \<Rightarrow> \<not> status_is_terminal status)
      then (L, Inl ''attempt finalization status must be terminal'')
      else if fx_run_id receipt \<noteq> run_id \<or> fx_task_id receipt \<noteq> task_id \<or> fx_worker_id receipt \<noteq> worker_id
      then (L, Inl ''attempt receipt identity does not match its terminal event'')
      else if (case fx_attempt receipt of None \<Rightarrow> False | Some attempt \<Rightarrow> attempt \<noteq> expected_attempts)
      then (L, Inl ''attempt receipt generation does not match its lease'')
      else let st = rebuild_state L
        in case task_of st run_id task_id of
             None \<Rightarrow> (L, Inr None)
           | Some task \<Rightarrow>
               if \<not> lease_is_live task worker_id expected_attempts then (L, Inr None)
               else let e = next_worker_event st run_id worker_id task_id timestamp payload;
                        receipt = receipt\<lparr>fx_attempt := Some expected_attempts, fx_terminal_seq := Some (we_seq e)\<rparr>
                 in (L @ [TaskAttemptFinalized e final_status receipt], Inr (Some e)))"

definition append_terminal_event_if_lease_unchanged ::
  "'o ledger \<Rightarrow> string \<Rightarrow> string \<Rightarrow> string \<Rightarrow> u32 \<Rightarrow> u64 \<Rightarrow> string option \<Rightarrow> string \<Rightarrow> 'o FleetWorkerEventPayload \<Rightarrow>
     'o ledger \<times> (string + 'o FleetWorkerEvent option)" where
  "append_terminal_event_if_lease_unchanged L run_id worker_id task_id expected_attempts expected_latest_seq
     expected_heartbeat_at timestamp payload =
     (if \<not> payload_is_terminal payload
      then (L, Inl ''conditional terminal append requires a terminal worker event'')
      else let st = rebuild_state L
        in case task_of st run_id task_id of
             None \<Rightarrow> (L, Inr None)
           | Some task \<Rightarrow>
               if \<not> lease_is_unchanged st task run_id worker_id task_id expected_attempts expected_latest_seq
                 expected_heartbeat_at then (L, Inr None)
               else let e = next_worker_event st run_id worker_id task_id timestamp payload
                 in (L @ [EventAppended e], Inr (Some e)))"

definition restart_task_if_unchanged_with_callback ::
  "'o ledger \<Rightarrow> string \<Rightarrow> string \<Rightarrow> string \<Rightarrow> FleetTaskLedgerStatus \<Rightarrow> u32 \<Rightarrow> u64 \<Rightarrow> string option \<Rightarrow> string \<Rightarrow>
     string option \<Rightarrow> u32 \<Rightarrow> string + unit \<Rightarrow> 'o ledger \<times> (string + bool)" where
  "restart_task_if_unchanged_with_callback L run_id task_id worker_id expected_status expected_attempts
     expected_latest_seq expected_heartbeat_at leased_at lease_expires_at restart_count on_restarted =
     (let st = rebuild_state L
      in case task_of st run_id task_id of
           None \<Rightarrow> (L, Inr False)
         | Some task \<Rightarrow>
             if ft_status task \<noteq> expected_status \<or> ft_leased_to task \<noteq> Some worker_id \<or>
                fe_attempts (ft_entry task) \<noteq> expected_attempts \<or>
                latest_event_seq st worker_id run_id task_id \<noteq> expected_latest_seq \<or>
                heartbeat_at st worker_id \<noteq> expected_heartbeat_at
             then (L, Inr False)
             else if list_ex (\<lambda>(key, candidate). key \<noteq> task_key run_id task_id \<and> leased_by worker_id candidate) (fs_tasks st)
             then (L, Inr False)
             else case on_restarted of
                 Inl err \<Rightarrow> (L, Inl err)
               | Inr _ \<Rightarrow>
                   (let seq = saturating_add (latest_event_seq st worker_id run_id task_id) 1
                    in (L @ [TaskLeased run_id task_id worker_id leased_at lease_expires_at,
                          EventAppended (worker_event seq run_id worker_id task_id leased_at (Restarted restart_count)),
                          EventAppended (worker_event (saturating_add seq 1) run_id worker_id task_id leased_at Running),
                          Heartbeat worker_id leased_at None None], Inr True)))"

definition restart_task_if_unchanged ::
  "'o ledger \<Rightarrow> string \<Rightarrow> string \<Rightarrow> string \<Rightarrow> FleetTaskLedgerStatus \<Rightarrow> u32 \<Rightarrow> u64 \<Rightarrow> string option \<Rightarrow> string \<Rightarrow>
     string option \<Rightarrow> u32 \<Rightarrow> 'o ledger \<times> (string + bool)" where
  "restart_task_if_unchanged L run_id task_id worker_id expected_status expected_attempts expected_latest_seq
     expected_heartbeat_at leased_at lease_expires_at restart_count =
     restart_task_if_unchanged_with_callback L run_id task_id worker_id expected_status expected_attempts
       expected_latest_seq expected_heartbeat_at leased_at lease_expires_at restart_count (Inr ())"

definition cancel_task_if_active ::
  "'o ledger \<Rightarrow> string \<Rightarrow> string \<Rightarrow> string option \<Rightarrow> string \<Rightarrow> string option \<Rightarrow> string option \<Rightarrow> 'o ledger \<times> bool" where
  "cancel_task_if_active L run_id task_id expected_worker_id timestamp signal cancelled_by =
     (let st = rebuild_state L
      in case task_of st run_id task_id of
           None \<Rightarrow> (L, False)
         | Some task \<Rightarrow>
             if ft_status task \<notin> {Enqueued, Leased} then (L, False)
             else if (case expected_worker_id of
                 None \<Rightarrow> False
               | Some expected \<Rightarrow> ft_status task \<noteq> Leased \<or> ft_leased_to task \<noteq> Some expected)
             then (L, False)
             else case ft_leased_to task of
                 Some worker_id \<Rightarrow>
                   (let first_seq = latest_event_seq st worker_id run_id task_id + 1
                    in (L @ (case signal of
                          Some sig \<Rightarrow>
                            [EventAppended (worker_event first_seq run_id worker_id task_id timestamp (Interrupted (Some sig))),
                             EventAppended (worker_event (first_seq + 1) run_id worker_id task_id timestamp (CancelledEvent cancelled_by))]
                        | None \<Rightarrow>
                            [EventAppended (worker_event first_seq run_id worker_id task_id timestamp (CancelledEvent cancelled_by))]),
                        True))
               | None \<Rightarrow> (L @ [TaskCompletedOrFailed run_id task_id [] timestamp Cancelled], True))"

definition heartbeat :: "'o ledger \<Rightarrow> string \<Rightarrow> string \<Rightarrow> 'o option \<Rightarrow> u64 option \<Rightarrow> 'o ledger" where
  "heartbeat L worker_id timestamp cpu_percent memory_mb = L @ [Heartbeat worker_id timestamp cpu_percent memory_mb]"

definition record_receipt :: "'o ledger \<Rightarrow> 'o FleetReceipt \<Rightarrow> 'o ledger" where
  "record_receipt L receipt = L @ [ReceiptRecorded receipt]"

definition record_alert :: "'o ledger \<Rightarrow> string \<Rightarrow> string \<Rightarrow> string \<Rightarrow> string \<Rightarrow> 'o ledger" where
  "record_alert L run_id task_id channel timestamp = L @ [AlertSent run_id task_id channel timestamp None None None]"

definition record_failed_attempt_alert_once ::
  "'o ledger \<Rightarrow> string \<Rightarrow> string \<Rightarrow> string \<Rightarrow> u32 \<Rightarrow> string \<Rightarrow> string \<Rightarrow> string \<Rightarrow> 'o ledger \<times> bool" where
  "record_failed_attempt_alert_once L run_id task_id worker_id expected_attempts channel_label channel_key timestamp =
     (let st = rebuild_state L
      in case task_of st run_id task_id of
           None \<Rightarrow> (L, False)
         | Some task \<Rightarrow>
             if ft_status task \<noteq> Failed \<or> ft_leased_to task \<noteq> Some worker_id \<or>
                fe_attempts (ft_entry task) \<noteq> expected_attempts
             then (L, False)
             else if bt_get (fs_alerts st) (alert_key run_id task_id (Some expected_attempts) channel_key) \<noteq> None \<or>
                     bt_get (fs_alerts st) (alert_key run_id task_id (Some expected_attempts) channel_label) \<noteq> None
             then (L, False)
             else (L @ [AlertSent run_id task_id channel_key timestamp (Some worker_id) (Some expected_attempts)
                     (Some (saturating_add (latest_event_seq st worker_id run_id task_id) 1))], True))"

text \<open>\<open>min_by_key\<close>: the first entry with the least key.\<close>

definition claim_order :: "FleetInboxEntry \<Rightarrow> int \<times> string" where
  "claim_order e = (fe_priority e, fe_enqueued_at e)"

fun min_by_key :: "('a \<Rightarrow> 'k :: linorder) \<Rightarrow> 'a list \<Rightarrow> 'a option" where
  "min_by_key f [] = None"
| "min_by_key f (x # xs) = Some (foldl (\<lambda>best y. if f y < f best then y else best) x xs)"

definition claim_next :: "'o ledger \<Rightarrow> string \<Rightarrow> string \<Rightarrow> 'o ledger \<times> FleetInboxEntry option" where
  "claim_next L worker_id timestamp =
     (let st = rebuild_state L
      in if list_ex (leased_by worker_id) (bt_values (fs_tasks st)) then (L, None)
         else case min_by_key claim_order
             (map ft_entry (filter (\<lambda>task. ft_status task = Enqueued) (bt_values (fs_tasks st)))) of
             None \<Rightarrow> (L, None)
           | Some entry \<Rightarrow>
               (L @ [TaskLeased (fe_run_id entry) (fe_task_id entry) worker_id timestamp None], Some entry))"

section \<open>Compaction\<close>

definition compact_event_key :: "'o FleetWorkerEvent \<Rightarrow> string" where
  "compact_event_key e = we_worker_id e @ '':'' @ we_run_id e @ '':'' @ we_task_id e @ '':'' @ show_nat (unat (we_seq e))"

definition event_order :: "'o FleetWorkerEvent \<Rightarrow> string \<times> string \<times> string \<times> u64" where
  "event_order e = (we_worker_id e, we_run_id e, we_task_id e, we_seq e)"

definition compacted_events :: "'o FleetLedgerState \<Rightarrow> 'o FleetWorkerEvent list" where
  "compacted_events st =
     sort_key event_order (bt_values (foldl (\<lambda>m e. bt_insert (compact_event_key e) e m) []
       (bt_values (fs_latest_events st) @ bt_values (fs_artifact_events st) @
        bt_values (fs_restarted_events st) @ bt_values (fs_escalated_events st))))"

definition compact_run :: "'o FleetLedgerState \<Rightarrow> 'o FleetRun \<Rightarrow> 'o ledger" where
  "compact_run st run =
     RunCreated run #
     (case bt_get (fs_run_status_overrides st) (fr_id run) of
        None \<Rightarrow> []
      | Some status \<Rightarrow> [RunStatusChanged (fr_id run) status (case fr_updated_at run of Some at \<Rightarrow> at | None \<Rightarrow> [])])"

definition compact_task :: "FleetTaskState \<Rightarrow> 'o ledger" where
  "compact_task task =
     (let entry = ft_entry task
      in case ft_leased_to task of
           None \<Rightarrow> [TaskEnqueued entry]
         | Some worker \<Rightarrow>
             [TaskEnqueued (entry\<lparr>fe_attempts := saturating_sub (fe_attempts entry) 1, fe_lease_deadline := None\<rparr>),
              TaskLeased (fe_run_id entry) (fe_task_id entry) worker
                (case ft_leased_at task of Some at \<Rightarrow> at | None \<Rightarrow> []) (fe_lease_deadline entry)])"

definition compact_terminal :: "FleetTaskState \<Rightarrow> 'o ledger" where
  "compact_terminal task =
     (if status_is_terminal (ft_status task)
      then [TaskCompletedOrFailed (fe_run_id (ft_entry task)) (fe_task_id (ft_entry task))
        (case ft_leased_to task of Some worker \<Rightarrow> worker | None \<Rightarrow> [])
        (case ft_completed_at task of Some at \<Rightarrow> at | None \<Rightarrow> []) (ft_status task)]
      else [])"

definition compact_lifecycle :: "FleetTaskState \<Rightarrow> 'o FleetLedgerRecord" where
  "compact_lifecycle task =
     TaskLifecycleCheckpoint (fe_run_id (ft_entry task)) (fe_task_id (ft_entry task)) (ft_lifecycle_seq task)"

definition compact_alert :: "FleetLedgerAlert \<Rightarrow> 'o FleetLedgerRecord" where
  "compact_alert a = AlertSent (al_run_id a) (al_task_id a) (al_channel a) (al_timestamp a) (al_worker_id a)
     (al_attempt a) (al_seq a)"

definition compact_checkpoint :: "'o FleetLedgerState \<Rightarrow> string \<times> u64 \<Rightarrow> 'o ledger" where
  "compact_checkpoint st ks =
     (case bt_get (fs_sequence_owners st) (fst ks) of
        None \<Rightarrow> []
      | Some owner \<Rightarrow> [EventSequenceCheckpoint (so_run_id owner) (so_worker_id owner) (so_task_id owner) (snd ks)])"

definition compact_heartbeat :: "string \<times> 'o FleetHeartbeatState \<Rightarrow> 'o FleetLedgerRecord" where
  "compact_heartbeat wh = Heartbeat (fst wh) (fh_timestamp (snd wh)) (fh_cpu_percent (snd wh)) (fh_memory_mb (snd wh))"

definition compact :: "'o ledger \<Rightarrow> 'o ledger" where
  "compact L =
     (let st = rebuild_state L; tasks = bt_values (fs_tasks st)
      in concat (map (compact_run st) (bt_values (fs_runs st))) @
         concat (map compact_task tasks) @
         map compact_alert (bt_values (fs_alerts st)) @
         map EventAppended (compacted_events st) @
         concat (map (compact_checkpoint st) (fs_latest_seq st)) @
         map compact_heartbeat (fs_heartbeats st) @
         concat (map compact_terminal tasks) @
         map compact_lifecycle tasks @
         map ReceiptRecorded (bt_values (fs_receipts st)))"

end
