(* ===== verification/Fleet_Ledger_Props.thy ===== *)
theory Fleet_Ledger_Props
  imports Fleet_Ledger
begin

text \<open>
  What the fleet ledger guarantees under every interleaving of its operations. The operations append
  records, and which records they append is all the proofs need: \<open>admissible\<close> states what the guards
  establish about a record, and the two locales lift a fact that every admissible record keeps to all
  sequences of operations.
\<close>

section \<open>What a record does to the tasks\<close>

fun event_status :: "'o FleetWorkerEventPayload \<Rightarrow> FleetTaskLedgerStatus option" where
  "event_status (CompletedEvent _ _) = Some Completed"
| "event_status (FailedEvent _ _) = Some Failed"
| "event_status (CancelledEvent _) = Some Cancelled"
| "event_status _ = None"

definition event_tasks ::
  "'o FleetWorkerEvent \<Rightarrow> (string, FleetTaskState) btree_map \<Rightarrow> (string, FleetTaskState) btree_map" where
  "event_tasks e m =
     (case event_status (we_payload e) of
        None \<Rightarrow> m
      | Some status \<Rightarrow> bt_modify (task_key (we_run_id e) (we_task_id e)) (terminal_task (we_worker_id e) (we_timestamp e) status) m)"

lemma event_status_terminal: "event_status p = Some s \<Longrightarrow> status_is_terminal s"
  by (cases p) (auto simp: status_is_terminal_def)

lemma payload_terminal_status: "payload_is_terminal p \<longleftrightarrow> event_status p \<noteq> None"
  by (cases p) auto

lemma index_event_tasks [simp]: "fs_tasks (index_event st e b) = fs_tasks st"
  by (cases "we_payload e") (simp_all add: index_event_def Let_def)

lemma set_worker_tasks [simp]: "fs_tasks (set_worker w s st) = fs_tasks st"
  by (simp add: set_worker_def)

lemma apply_event_tasks: "fs_tasks (apply_event st e) = event_tasks e (fs_tasks st)"
  by (cases "we_payload e")
    (simp_all add: apply_event_def Let_def event_tasks_def project_event_def mark_task_terminal_def)

lemma apply_alert_tasks [simp]: "fs_tasks (apply_alert st r t c ts w a s) = fs_tasks st"
  by (simp add: apply_alert_def Let_def apply_event_tasks event_tasks_def split: option.split)

lemma apply_record_tasks:
  "fs_tasks (apply_record st r) =
     (case r of
        TaskEnqueued entry \<Rightarrow> bt_or_insert (task_key (fe_run_id entry) (fe_task_id entry))
          \<lparr>ft_entry = entry, ft_status = Enqueued, ft_lifecycle_seq = 1, ft_leased_to = None,
           ft_leased_at = None, ft_completed_at = None\<rparr> (fs_tasks st)
      | TaskLeased run_id task_id w at x \<Rightarrow> bt_modify (task_key run_id task_id) (leased_task w at x) (fs_tasks st)
      | TaskCompletedOrFailed run_id task_id w ts status \<Rightarrow>
          bt_modify (task_key run_id task_id) (terminal_task w ts status) (fs_tasks st)
      | TaskLifecycleCheckpoint run_id task_id n \<Rightarrow> bt_modify (task_key run_id task_id)
          (\<lambda>task. task\<lparr>ft_lifecycle_seq := max (ft_lifecycle_seq task) (max n 1)\<rparr>) (fs_tasks st)
      | TaskAttemptFinalized e final_status receipt \<Rightarrow>
          (case final_status of
             None \<Rightarrow> event_tasks e (fs_tasks st)
           | Some status \<Rightarrow> bt_modify (task_key (we_run_id e) (we_task_id e))
               (terminal_task (we_worker_id e) (we_timestamp e) status) (event_tasks e (fs_tasks st)))
      | EventAppended e \<Rightarrow> event_tasks e (fs_tasks st)
      | _ \<Rightarrow> fs_tasks st)"
  by (cases r) (simp_all add: apply_record_def Let_def apply_event_tasks mark_task_terminal_def split: option.split)

lemma rebuild_snoc [simp]: "rebuild_state (L @ [r]) = apply_record (rebuild_state L) r"
  by (simp add: rebuild_state_def)

lemma rebuild_append: "rebuild_state (L @ rs) = foldl apply_record (rebuild_state L) rs"
  by (simp add: rebuild_state_def)

lemma rebuild_Nil [simp]: "rebuild_state [] = FleetLedgerState_default"
  by (simp add: rebuild_state_def)

text \<open>The task map stays sorted, whatever the records.\<close>

lemma event_tasks_ok: "bt_ok m \<Longrightarrow> bt_ok (event_tasks e m)"
  by (simp add: event_tasks_def bt_ok_modify split: option.split)

lemma apply_record_ok: "bt_ok (fs_tasks st) \<Longrightarrow> bt_ok (fs_tasks (apply_record st r))"
  by (cases r) (simp_all add: apply_record_tasks bt_ok_or_insert bt_ok_modify event_tasks_ok split: option.split)

lemma rebuild_ok: "bt_ok (fs_tasks (rebuild_state L))"
  by (induction L rule: rev_induct) (simp_all add: apply_record_ok FleetLedgerState_default_def)

section \<open>Sequences of operations\<close>

text \<open>A run whose alert channels hold no URL, signing secret or routing key in clear text.\<close>

fun channel_redacted :: "FleetAlertChannel \<Rightarrow> bool" where
  "channel_redacted (Slack webhook) \<longleftrightarrow> ep_url webhook \<in> {None, Some ''<redacted>''}"
| "channel_redacted (Webhook endpoint) \<longleftrightarrow> redact_endpoint endpoint = endpoint"
| "channel_redacted (PagerDuty routing_key _) \<longleftrightarrow> routing_key = ''<redacted>''"

definition run_redacted :: "'o FleetRun \<Rightarrow> bool" where
  "run_redacted run \<longleftrightarrow>
     list_all (\<lambda>task. case ts_alert_policy task of None \<Rightarrow> True | Some p \<Rightarrow> list_all channel_redacted (ap_channels p))
       (fr_task_specs run)"

definition admissible :: "'o FleetLedgerState \<Rightarrow> 'o FleetLedgerRecord \<Rightarrow> bool" where
  "admissible st r =
     (case r of
        RunCreated run \<Rightarrow> run_redacted run
      | TaskLeased run_id task_id worker_id _ _ \<Rightarrow>
          (\<forall>key task. bt_get (fs_tasks st) key = Some task \<and> leased_by worker_id task \<longrightarrow> key = task_key run_id task_id)
      | TaskCompletedOrFailed _ _ _ _ status \<Rightarrow> status_is_terminal status
      | TaskAttemptFinalized _ (Some status) _ \<Rightarrow> status_is_terminal status
      | _ \<Rightarrow> True)"

fun admissible_all :: "'o FleetLedgerState \<Rightarrow> 'o FleetLedgerRecord list \<Rightarrow> bool" where
  "admissible_all st [] \<longleftrightarrow> True"
| "admissible_all st (r # rs) \<longleftrightarrow> admissible st r \<and> admissible_all (apply_record st r) rs"

text \<open>
  One step of some manager, executor or scheduler. The status that a verifier sets is a terminal one
  (the name and the documentation of the operation say so; its code does not check it).
\<close>

inductive fleet_step :: "'o ledger \<Rightarrow> 'o ledger \<Rightarrow> bool" where
  step_create: "fleet_step L (create_run L run)"
| step_status: "fleet_step L (update_run_status L run_id status timestamp)"
| step_enqueue: "fleet_step L (enqueue L entry)"
| step_lease: "fleet_step L (fst (lease_task_if_enqueued L run_id task_id worker_id leased_at expires max_active))"
| step_start: "fleet_step L (fst (start_task_if_enqueued L run_id task_id worker_id leased_at expires max_active evs started))"
| step_mark: "status_is_terminal status \<Longrightarrow>
    fleet_step L (fst (mark_task_terminal_status_if_unchanged L run_id task_id worker_id old a n timestamp status))"
| step_event: "fleet_step L (append_event L e)"
| step_next: "fleet_step L (fst (append_event_next_seq L run_id worker_id task_id timestamp payload))"
| step_progress: "fleet_step L (fst (append_event_if_leased L run_id worker_id task_id a timestamp payload))"
| step_scheduler: "fleet_step L (fst (append_event_if_lease_unchanged L run_id worker_id task_id a n hb timestamp payload))"
| step_terminal: "fleet_step L (fst (append_terminal_event_if_leased L run_id worker_id task_id a timestamp payload))"
| step_finalize: "fleet_step L (fst (finalize_task_attempt_if_leased L run_id worker_id task_id a timestamp payload final receipt))"
| step_fail: "fleet_step L (fst (append_terminal_event_if_lease_unchanged L run_id worker_id task_id a n hb timestamp payload))"
| step_restart: "fleet_step L (fst (restart_task_if_unchanged_with_callback L run_id task_id worker_id old a n hb leased_at expires count restarted))"
| step_cancel: "fleet_step L (fst (cancel_task_if_active L run_id task_id worker timestamp signal by))"
| step_heartbeat: "fleet_step L (heartbeat L worker_id timestamp cpu memory)"
| step_receipt: "fleet_step L (record_receipt L receipt)"
| step_alert: "fleet_step L (record_alert L run_id task_id channel timestamp)"
| step_alert_once: "fleet_step L (fst (record_failed_attempt_alert_once L run_id task_id worker_id a label key timestamp))"
| step_claim: "fleet_step L (fst (claim_next L worker_id timestamp))"

definition extends :: "'o ledger \<Rightarrow> 'o ledger \<Rightarrow> bool" where
  "extends L L' \<longleftrightarrow> (\<exists>rs. L' = L @ rs \<and> admissible_all (rebuild_state L) rs)"

lemma extends_refl [simp]: "extends L L"
  by (simp add: extends_def)

lemma extends_records: "admissible_all (rebuild_state L) rs \<Longrightarrow> extends L (L @ rs)"
  by (auto simp: extends_def)

lemma extends_one: "admissible (rebuild_state L) r \<Longrightarrow> extends L (L @ [r])"
  by (simp add: extends_records)

lemma admissible_other [simp]:
  "admissible st (EventAppended e)" "admissible st (Heartbeat w ts cpu mem)" "admissible st (TaskEnqueued entry)"
  "admissible st (RunStatusChanged r s ts)" "admissible st (ReceiptRecorded receipt)"
  "admissible st (AlertSent r t c ts w' a n)"
  by (simp_all add: admissible_def)

lemma admissible_terminal [simp]:
  "admissible st (TaskCompletedOrFailed r t w ts status) \<longleftrightarrow> status_is_terminal status"
  "admissible st (TaskAttemptFinalized e final receipt) \<longleftrightarrow> (case final of None \<Rightarrow> True | Some status \<Rightarrow> status_is_terminal status)"
  by (simp_all add: admissible_def split: option.split)

lemma admissible_initial_events: "admissible_all st (initial_event_records n r w t at ps)"
  by (induction n r w t at ps arbitrary: st rule: initial_event_records.induct) simp_all

lemma admissible_initial: "admissible_all st (initial_event_records n r w t at ps @ rs) \<longleftrightarrow>
    admissible_all (foldl apply_record st (initial_event_records n r w t at ps)) rs"
  by (induction n r w t at ps arbitrary: st rule: initial_event_records.induct) simp_all

lemma bt_get_value: "bt_get m k = Some v \<Longrightarrow> v \<in> set (bt_values m)"
  by (force simp: bt_values_def dest: map_of_SomeD)

lemma idle_admissible:
  "\<not> list_ex (leased_by w) (bt_values (fs_tasks st)) \<Longrightarrow> admissible st (TaskLeased r t w at x)"
  by (auto simp: admissible_def list_ex_iff dest: bt_get_value)

lemma restart_admissible:
  "\<not> list_ex (\<lambda>(key, candidate). key \<noteq> task_key r t \<and> leased_by w candidate) (fs_tasks st) \<Longrightarrow>
     admissible st (TaskLeased r t w at x)"
  by (auto simp: admissible_def list_ex_iff dest: map_of_SomeD)

lemma channel_redacted [simp]: "channel_redacted (redact_channel c)"
  by (cases c) (auto simp: redact_endpoint_def option.map_comp comp_def FleetSecretRef_new_def)

lemma sanitized_redacted: "run_redacted (sanitize_run_for_ledger run)"
  by (simp add: run_redacted_def sanitize_run_for_ledger_def list_all_iff split: option.split)

text \<open>Every operation extends the ledger by admissible records.\<close>

lemma lease_extends:
  "extends L (fst (lease_task_if_enqueued_with_events L r t w at x m evs hb started))"
  by (auto simp: lease_task_if_enqueued_with_events_def Let_def admissible_initial admissible_initial_events idle_admissible
      intro!: extends_records split: option.split sum.split)

lemma restart_extends:
  "extends L (fst (restart_task_if_unchanged_with_callback L r t w old a n hb at x c started))"
  by (auto simp: restart_task_if_unchanged_with_callback_def Let_def restart_admissible
      intro!: extends_records split: option.split sum.split)

lemma claim_extends: "extends L (fst (claim_next L w ts))"
  by (auto simp: claim_next_def Let_def intro!: extends_one idle_admissible split: option.split)

lemma cancel_extends: "extends L (fst (cancel_task_if_active L r t w ts sig by'))"
  by (auto simp: cancel_task_if_active_def Let_def status_is_terminal_def
      intro!: extends_one extends_records split: option.split)

lemma finalize_extends: "extends L (fst (finalize_task_attempt_if_leased L r w t a ts p final receipt))"
  by (auto simp: finalize_task_attempt_if_leased_def Let_def intro!: extends_one split: option.split)

lemma guarded_event_extends:
  "extends L (fst (append_event_if_leased L r w t a ts p))"
  "extends L (fst (append_event_if_lease_unchanged L r w t a n hb ts p))"
  "extends L (fst (append_terminal_event_if_leased L r w t a ts p))"
  "extends L (fst (append_terminal_event_if_lease_unchanged L r w t a n hb ts p))"
  by (auto simp: append_event_if_leased_def append_event_if_lease_unchanged_def append_terminal_event_if_leased_def
      append_terminal_event_if_lease_unchanged_def Let_def intro!: extends_one split: option.split)

lemma step_extends: "fleet_step L L' \<Longrightarrow> extends L L'"
  by (cases rule: fleet_step.cases, assumption)
    (auto simp: create_run_def update_run_status_def enqueue_def lease_task_if_enqueued_def start_task_if_enqueued_def
      mark_task_terminal_status_if_unchanged_def append_event_def append_event_next_seq_def heartbeat_def
      record_receipt_def record_alert_def record_failed_attempt_alert_once_def Let_def admissible_def sanitized_redacted
      lease_extends restart_extends claim_extends cancel_extends finalize_extends guarded_event_extends
      intro!: extends_one split: option.split)

text \<open>A fact that every admissible record keeps survives every sequence of operations.\<close>

locale replay_stable =
  fixes P :: "'o FleetLedgerState \<Rightarrow> bool"
  assumes stable: "admissible st r \<Longrightarrow> P st \<Longrightarrow> P (apply_record st r)"
begin

lemma stable_records: "admissible_all st rs \<Longrightarrow> P st \<Longrightarrow> P (foldl apply_record st rs)"
  by (induction rs arbitrary: st) (simp_all add: stable)

lemma stable_step: "fleet_step L L' \<Longrightarrow> P (rebuild_state L) \<Longrightarrow> P (rebuild_state L')"
  using step_extends [of L L'] stable_records [of "rebuild_state L"] by (auto simp: extends_def rebuild_append)

lemma stable_steps: "fleet_step\<^sup>*\<^sup>* L L' \<Longrightarrow> P (rebuild_state L) \<Longrightarrow> P (rebuild_state L')"
  by (induction rule: rtranclp_induct) (blast dest: stable_step)+

end

locale replay_invariant = replay_stable +
  assumes start: "P FleetLedgerState_default"
begin

lemma reachable: "fleet_step\<^sup>*\<^sup>* [] L \<Longrightarrow> P (rebuild_state L)"
  using stable_steps start by fastforce

end

section \<open>Leases and attempts\<close>

text \<open>An attempt is closed when a newer attempt has been leased or the attempt itself has ended.\<close>

definition attempt_closed :: "'o FleetLedgerState \<Rightarrow> string \<Rightarrow> string \<Rightarrow> u32 \<Rightarrow> bool" where
  "attempt_closed st run_id task_id a \<longleftrightarrow>
     (case task_of st run_id task_id of
        None \<Rightarrow> False
      | Some task \<Rightarrow> a < fe_attempts (ft_entry task) \<or> a = fe_attempts (ft_entry task) \<and> status_is_terminal (ft_status task))"

definition one_lease :: "'o FleetLedgerState \<Rightarrow> bool" where
  "one_lease st \<longleftrightarrow>
     (\<forall>j k task other w. bt_get (fs_tasks st) j = Some task \<longrightarrow> bt_get (fs_tasks st) k = Some other \<longrightarrow>
        leased_by w task \<longrightarrow> leased_by w other \<longrightarrow> j = k)"

text \<open>
  What one admissible record can do to one task: add it to the queue, keep its status and lease, end its
  attempt, or lease it.
\<close>

definition keeps_lease :: "FleetTaskState \<Rightarrow> FleetTaskState \<Rightarrow> bool" where
  "keeps_lease old new \<longleftrightarrow> ft_status new = ft_status old \<and> ft_leased_to new = ft_leased_to old \<and>
     ft_entry new = ft_entry old \<and> ft_lifecycle_seq old \<le> ft_lifecycle_seq new"

definition ends_attempt :: "FleetTaskState \<Rightarrow> FleetTaskState \<Rightarrow> bool" where
  "ends_attempt old new \<longleftrightarrow> status_is_terminal (ft_status new) \<and> ft_entry new = ft_entry old \<and>
     ft_lifecycle_seq old \<le> ft_lifecycle_seq new"

lemma keeps_lease_refl [simp, intro]: "keeps_lease task task"
  by (simp add: keeps_lease_def)

lemma terminal_task_ends: "status_is_terminal s \<Longrightarrow> ends_attempt task (terminal_task w ts s task)"
  by (simp add: ends_attempt_def terminal_task_def saturating_add_ge)

lemma terminal_task_twice: "status_is_terminal s \<Longrightarrow> ends_attempt old task \<Longrightarrow> ends_attempt old (terminal_task w ts s task)"
  using order_trans [OF _ saturating_add_ge [of "ft_lifecycle_seq task" 1]] by (auto simp: ends_attempt_def terminal_task_def)

lemma event_task_change:
  assumes "bt_get (event_tasks e m) k = Some new"
  shows "\<exists>old. bt_get m k = Some old \<and> (new = old \<or> ends_attempt old new)"
  using assms terminal_task_ends event_status_terminal
  by (fastforce simp: event_tasks_def split: option.splits if_splits)

inductive task_change :: "'o FleetLedgerRecord \<Rightarrow> string \<Rightarrow> FleetTaskState option \<Rightarrow> FleetTaskState \<Rightarrow> bool" where
  queued: "ft_status new = Enqueued \<Longrightarrow> ft_leased_to new = None \<Longrightarrow>
    k = task_key (fe_run_id (ft_entry new)) (fe_task_id (ft_entry new)) \<Longrightarrow> task_change r k None new"
| kept: "keeps_lease old new \<Longrightarrow> task_change r k (Some old) new"
| ended: "ends_attempt old new \<Longrightarrow> task_change r k (Some old) new"
| leased: "task_change (TaskLeased run_id task_id w at x) (task_key run_id task_id) (Some old) (leased_task w at x old)"

lemma unchanged_task [simp, intro!]: "task_change r k (Some task) task"
  by (rule kept) simp

lemma event_tasks_change: "bt_get (event_tasks e m) k = Some new \<Longrightarrow> task_change r k (bt_get m k) new"
  using event_task_change [of e m k new] by (auto intro: kept ended)

lemma final_change:
  assumes "status_is_terminal s" and "bt_get (bt_modify j (terminal_task w ts s) (event_tasks e m)) k = Some new"
  shows "task_change r k (bt_get m k) new"
proof (cases "k = j")
  case True
  with assms obtain task where "bt_get (event_tasks e m) k = Some task" "new = terminal_task w ts s task" by auto
  with event_task_change [of e m k task] obtain old where "bt_get m k = Some old" "ends_attempt old new"
    using assms(1) terminal_task_ends terminal_task_twice by blast
  then show ?thesis by (simp add: ended)
qed (use assms(2) event_tasks_change in simp)

lemma checkpoint_keeps: "keeps_lease old (old\<lparr>ft_lifecycle_seq := max (ft_lifecycle_seq old) n\<rparr>)"
  by (simp add: keeps_lease_def)

lemma record_change:
  assumes "admissible st r" and "bt_get (fs_tasks (apply_record st r)) k = Some new"
  shows "task_change r k (bt_get (fs_tasks st) k) new"
proof (cases r)
  case (TaskEnqueued entry)
  then show ?thesis using assms(2) by (auto simp: apply_record_tasks split: if_splits intro: queued kept)
next
  case (TaskLeased run_id task_id w at x)
  then show ?thesis using assms(2) by (auto simp: apply_record_tasks split: if_splits intro: leased kept)
next
  case (TaskCompletedOrFailed run_id task_id w ts s)
  then show ?thesis using assms
    by (auto simp: apply_record_tasks split: if_splits intro: kept intro!: ended [OF terminal_task_ends])
next
  case (TaskLifecycleCheckpoint run_id task_id n)
  then show ?thesis using assms(2) by (auto simp: apply_record_tasks split: if_splits intro!: kept [OF checkpoint_keeps])
next
  case (TaskAttemptFinalized e final receipt)
  then show ?thesis using assms by (cases final) (auto simp: apply_record_tasks intro: event_tasks_change final_change)
next
  case (EventAppended e)
  then show ?thesis using assms(2) by (auto simp: apply_record_tasks intro: event_tasks_change)
qed (use assms(2) in \<open>simp_all add: apply_record_tasks kept\<close>)

lemma record_keeps_tasks: "bt_get (fs_tasks st) k = Some old \<Longrightarrow> \<exists>new. bt_get (fs_tasks (apply_record st r)) k = Some new"
  by (cases r) (auto simp: apply_record_tasks event_tasks_def split: option.split)

lemma terminal_not_leased: "status_is_terminal s \<Longrightarrow> s \<noteq> Leased"
  by (auto simp: status_is_terminal_def)

inductive_cases task_changeE: "task_change r k old new"

text \<open>Only a lease record makes a task leased, and only to the worker it names.\<close>

lemma leased_origin:
  assumes "task_change r k old new" and "leased_by w new"
  shows "(\<exists>task. old = Some task \<and> leased_by w task) \<or>
    (\<exists>run_id task_id at x. r = TaskLeased run_id task_id w at x \<and> k = task_key run_id task_id)"
  using assms by (auto elim!: task_changeE simp: leased_by_def keeps_lease_def ends_attempt_def leased_task_def
    dest: terminal_not_leased)

lemma one_lease_record:
  assumes adm: "admissible st r" and one: "one_lease st"
  shows "one_lease (apply_record st r)"
  unfolding one_lease_def
proof (intro allI impI)
  fix j k task other w
  assume t: "bt_get (fs_tasks (apply_record st r)) j = Some task" "leased_by w task"
    and o: "bt_get (fs_tasks (apply_record st r)) k = Some other" "leased_by w other"
  note leased_origin [OF record_change [OF adm t(1)] t(2)] leased_origin [OF record_change [OF adm o(1)] o(2)]
  then show "j = k" using one adm unfolding one_lease_def admissible_def by (elim disjE exE conjE) (simp_all, blast)
qed

interpretation lease: replay_invariant one_lease
  by unfold_locales (simp_all add: one_lease_record, simp add: one_lease_def FleetLedgerState_default_def)

text \<open>The lifecycle sequence of a task never runs backwards.\<close>

lemma change_lifecycle:
  "task_change r k (Some old) new \<Longrightarrow> ft_lifecycle_seq old \<le> ft_lifecycle_seq new \<and>
     fe_attempts (ft_entry old) \<le> fe_attempts (ft_entry new)"
  by (erule task_changeE) (simp_all add: keeps_lease_def ends_attempt_def leased_task_def saturating_add_ge)

lemma change_closed:
  assumes "task_change r k (Some old) new" and "a \<noteq> - 1"
    and "a < fe_attempts (ft_entry old) \<or> a = fe_attempts (ft_entry old) \<and> status_is_terminal (ft_status old)"
  shows "a < fe_attempts (ft_entry new) \<or> a = fe_attempts (ft_entry new) \<and> status_is_terminal (ft_status new)"
  using assms
proof (cases rule: task_change.cases)
  case (leased run_id task_id w at x)
  then have n: "fe_attempts (ft_entry new) = saturating_add (fe_attempts (ft_entry old)) 1" by (simp add: leased_task_def)
  show ?thesis
  proof (cases "a < fe_attempts (ft_entry old)")
    case True
    then show ?thesis using less_le_trans [OF _ saturating_add_ge [of "fe_attempts (ft_entry old)" 1]] n by simp
  next
    case False
    with assms(2,3) saturating_add_one(2) [of a] n show ?thesis by auto
  qed
qed (auto simp: keeps_lease_def ends_attempt_def)

definition closed_attempt :: "string \<Rightarrow> string \<Rightarrow> u32 \<Rightarrow> 'o FleetLedgerState \<Rightarrow> bool" where
  "closed_attempt run_id task_id a st \<longleftrightarrow> a \<noteq> - 1 \<and> attempt_closed st run_id task_id a"

lemma closed_record:
  assumes "admissible st r" and "closed_attempt run_id task_id a st"
  shows "closed_attempt run_id task_id a (apply_record st r)"
proof -
  obtain old where old: "task_of st run_id task_id = Some old" using assms(2)
    by (auto simp: closed_attempt_def attempt_closed_def split: option.splits)
  then obtain new where new: "task_of (apply_record st r) run_id task_id = Some new" using record_keeps_tasks by blast
  show ?thesis using change_closed [of r "task_key run_id task_id" old new a] record_change [OF assms(1) new] assms(2)
    by (simp add: closed_attempt_def attempt_closed_def old new)
qed

interpretation fence: replay_stable "closed_attempt run_id task_id a" for run_id task_id a
  by unfold_locales (rule closed_record)

definition leases_owned :: "'o FleetLedgerState \<Rightarrow> bool" where
  "leases_owned st \<longleftrightarrow>
     (\<forall>k task. bt_get (fs_tasks st) k = Some task \<longrightarrow>
        (ft_status task = Leased \<longrightarrow> ft_leased_to task \<noteq> None) \<and> (ft_status task = Enqueued \<longrightarrow> ft_leased_to task = None))"

lemma change_owned:
  assumes "task_change r k old new"
    and "\<And>task. old = Some task \<Longrightarrow>
      (ft_status task = Leased \<longrightarrow> ft_leased_to task \<noteq> None) \<and> (ft_status task = Enqueued \<longrightarrow> ft_leased_to task = None)"
  shows "(ft_status new = Leased \<longrightarrow> ft_leased_to new \<noteq> None) \<and> (ft_status new = Enqueued \<longrightarrow> ft_leased_to new = None)"
  using assms by (cases rule: task_change.cases)
    (auto simp: keeps_lease_def ends_attempt_def leased_task_def status_is_terminal_def)

interpretation owner: replay_invariant leases_owned
proof
  fix st :: "'o FleetLedgerState" and r
  assume a: "admissible st r" "leases_owned st"
  show "leases_owned (apply_record st r)"
    unfolding leases_owned_def
    using change_owned [OF record_change [OF a(1)]] a(2) by (auto simp: leases_owned_def)
qed (simp add: leases_owned_def FleetLedgerState_default_def)

text \<open>Every task is stored under the key of its own entry.\<close>

definition keyed :: "'o FleetLedgerState \<Rightarrow> bool" where
  "keyed st \<longleftrightarrow>
     (\<forall>k task. bt_get (fs_tasks st) k = Some task \<longrightarrow> k = task_key (fe_run_id (ft_entry task)) (fe_task_id (ft_entry task)))"

lemma change_keyed:
  assumes "task_change r k old new"
    and "\<And>task. old = Some task \<Longrightarrow> k = task_key (fe_run_id (ft_entry task)) (fe_task_id (ft_entry task))"
  shows "k = task_key (fe_run_id (ft_entry new)) (fe_task_id (ft_entry new))"
  using assms by (cases rule: task_change.cases) (auto simp: keeps_lease_def ends_attempt_def leased_task_def)

interpretation key: replay_invariant keyed
proof
  fix st :: "'o FleetLedgerState" and r
  assume a: "admissible st r" "keyed st"
  show "keyed (apply_record st r)"
    unfolding keyed_def using change_keyed [OF record_change [OF a(1)]] a(2) by (auto simp: keyed_def)
qed (simp add: keyed_def FleetLedgerState_default_def)

text \<open>
  C15. A worker never holds two leases: however managers, executors and schedulers interleave their
  operations, two leased tasks of the ledger are leased to different workers, and every leased task has one.
\<close>

theorem one_lease_per_worker:
  assumes "fleet_step\<^sup>*\<^sup>* [] L"
    and "bt_get (fs_tasks (rebuild_state L)) j = Some task" and "ft_status task = Leased"
    and "bt_get (fs_tasks (rebuild_state L)) k = Some other" and "ft_status other = Leased"
    and "j \<noteq> k"
  shows "\<exists>v w. ft_leased_to task = Some v \<and> ft_leased_to other = Some w \<and> v \<noteq> w"
proof -
  note inv = lease.reachable [OF assms(1)] owner.reachable [OF assms(1)]
  obtain v w where "ft_leased_to task = Some v" "ft_leased_to other = Some w"
    using inv(2) assms(2-5) by (fastforce simp: leases_owned_def)
  moreover from this have "v \<noteq> w"
    using inv(1) assms(2-6) unfolding one_lease_def leased_by_def by blast
  ultimately show ?thesis by blast
qed

lemma closed_not_live:
  assumes "attempt_closed st r t a" and "task_of st r t = Some task"
  shows "\<not> lease_is_live task w a" and "\<not> lease_is_unchanged st task r w t a n hb"
  using assms by (auto simp: attempt_closed_def lease_is_live_def lease_is_unchanged_def status_is_terminal_def)

text \<open>
  C16. A closed attempt stays closed: once an attempt of a task has ended or a newer one has been leased,
  no later interleaving of operations lets that attempt write again. Progress, terminal and scheduler
  events that carry its number and its finalisation are refused and leave the ledger as it is. The bound
  excludes the attempt number at which the counter saturates.
\<close>

theorem closed_attempt_never_writes:
  assumes "attempt_closed (rebuild_state L) run_id task_id a" and "a \<noteq> - 1" and "fleet_step\<^sup>*\<^sup>* L L'"
  shows "fst (append_event_if_leased L' run_id w task_id a ts p) = L' \<and>
    fst (append_event_if_lease_unchanged L' run_id w task_id a n hb ts p) = L' \<and>
    fst (append_terminal_event_if_leased L' run_id w task_id a ts p) = L' \<and>
    fst (append_terminal_event_if_lease_unchanged L' run_id w task_id a n hb ts p) = L' \<and>
    fst (finalize_task_attempt_if_leased L' run_id w task_id a ts p final receipt) = L'"
proof -
  have "closed_attempt run_id task_id a (rebuild_state L')"
    by (rule fence.stable_steps [OF assms(3)]) (simp add: closed_attempt_def assms)
  then have c: "attempt_closed (rebuild_state L') run_id task_id a" by (simp add: closed_attempt_def)
  note live = closed_not_live [OF c]
  show ?thesis
    by (intro conjI)
      (auto simp: append_event_if_leased_def append_event_if_lease_unchanged_def append_terminal_event_if_leased_def
        append_terminal_event_if_lease_unchanged_def finalize_task_attempt_if_leased_def Let_def live split: option.split)
qed

section \<open>A small fleet\<close>

definition demo_entry :: "string \<Rightarrow> FleetInboxEntry" where
  "demo_entry task_id = \<lparr>fe_run_id = ''run'', fe_task_id = task_id, fe_priority = 0, fe_enqueued_at = ''08:00'',
     fe_lease_deadline = None, fe_attempts = 0\<rparr>"

definition demo_queue :: "unit ledger" where
  "demo_queue = enqueue (enqueue [] (demo_entry ''a'')) (demo_entry ''b'')"

definition demo_one :: "unit ledger" where
  "demo_one = fst (start_task_if_enqueued demo_queue ''run'' ''a'' ''w1'' ''08:01'' None (Some 2) [Starting, Running] (Inr ()))"

definition demo_two :: "unit ledger" where
  "demo_two = fst (lease_task_if_enqueued demo_one ''run'' ''b'' ''w2'' ''08:02'' None (Some 2))"

definition demo_receipt :: "unit FleetReceipt" where
  "demo_receipt = \<lparr>fx_run_id = ''run'', fx_task_id = ''a'', fx_worker_id = ''w1'', fx_attempt = None,
     fx_terminal_seq = None, fx_body = ()\<rparr>"

definition demo_done :: "unit ledger" where
  "demo_done = fst (finalize_task_attempt_if_leased demo_two ''run'' ''w1'' ''a'' 1 ''08:03''
     (FailedEvent ''exit'' False) None demo_receipt)"

definition demo_restarted :: "unit ledger" where
  "demo_restarted = fst (restart_task_if_unchanged_with_callback demo_done ''run'' ''a'' ''w1'' Failed 1 3
     (Some ''08:01'') ''08:04'' None 1 (Inr ()))"

lemma demo_reachable:
  "fleet_step\<^sup>*\<^sup>* [] demo_two" "fleet_step\<^sup>*\<^sup>* demo_done demo_restarted"
proof -
  have q: "fleet_step\<^sup>*\<^sup>* [] demo_queue"
    unfolding demo_queue_def by (rule rtranclp.rtrancl_into_rtrancl [OF r_into_rtranclp], rule step_enqueue, rule step_enqueue)
  have one: "fleet_step demo_queue demo_one" unfolding demo_one_def by (rule step_start)
  have two: "fleet_step demo_one demo_two" unfolding demo_two_def by (rule step_lease)
  from q one two show "fleet_step\<^sup>*\<^sup>* [] demo_two" by simp
  show "fleet_step\<^sup>*\<^sup>* demo_done demo_restarted" unfolding demo_restarted_def by (rule r_into_rtranclp, rule step_restart)
qed

theorem one_lease_per_worker_witness:
  "\<exists>v w. map_option ft_leased_to (task_of (rebuild_state demo_two) ''run'' ''a'') = Some (Some v) \<and>
     map_option ft_leased_to (task_of (rebuild_state demo_two) ''run'' ''b'') = Some (Some w) \<and> v \<noteq> w"
proof -
  have s: "map_option ft_status (task_of (rebuild_state demo_two) ''run'' ''a'') = Some Leased"
    "map_option ft_status (task_of (rebuild_state demo_two) ''run'' ''b'') = Some Leased"
    "task_key ''run'' ''a'' \<noteq> task_key ''run'' ''b''" by code_simp+
  then obtain task other where t: "task_of (rebuild_state demo_two) ''run'' ''a'' = Some task"
    "task_of (rebuild_state demo_two) ''run'' ''b'' = Some other" "ft_status task = Leased" "ft_status other = Leased"
    by auto
  from one_lease_per_worker [OF demo_reachable(1) t(1,3) t(2,4) s(3)] t show ?thesis by simp
qed

theorem closed_attempt_never_writes_witness:
  "map_option (\<lambda>task. (ft_status task, fe_attempts (ft_entry task)))
     (task_of (rebuild_state demo_restarted) ''run'' ''a'') = Some (Leased, 2) \<and>
   fst (finalize_task_attempt_if_leased demo_restarted ''run'' ''w1'' ''a'' 1 ''08:05''
     (CompletedEvent None None) None demo_receipt) = demo_restarted"
proof
  show "map_option (\<lambda>task. (ft_status task, fe_attempts (ft_entry task)))
     (task_of (rebuild_state demo_restarted) ''run'' ''a'') = Some (Leased, 2)" by code_simp
  have "attempt_closed (rebuild_state demo_done) ''run'' ''a'' 1" "(1 :: u32) \<noteq> - 1" by code_simp+
  from closed_attempt_never_writes [OF this demo_reachable(2)]
  show "fst (finalize_task_attempt_if_leased demo_restarted ''run'' ''w1'' ''a'' 1 ''08:05''
     (CompletedEvent None None) None demo_receipt) = demo_restarted" by blast
qed

section \<open>Finalisation\<close>

definition finalizable ::
  "'o FleetLedgerState \<Rightarrow> string \<Rightarrow> string \<Rightarrow> string \<Rightarrow> u32 \<Rightarrow> 'o FleetWorkerEventPayload \<Rightarrow>
     FleetTaskLedgerStatus option \<Rightarrow> 'o FleetReceipt \<Rightarrow> bool" where
  "finalizable st run_id worker_id task_id a payload final receipt \<longleftrightarrow>
     event_status payload \<noteq> None \<and> final \<notin> {Some Enqueued, Some Leased} \<and>
     fx_run_id receipt = run_id \<and> fx_task_id receipt = task_id \<and> fx_worker_id receipt = worker_id \<and>
     fx_attempt receipt \<in> {None, Some a} \<and>
     (\<exists>task. task_of st run_id task_id = Some task \<and> leased_by worker_id task \<and> fe_attempts (ft_entry task) = a)"

lemma nonterminal_final:
  "(case final of None \<Rightarrow> False | Some status \<Rightarrow> \<not> status_is_terminal status) \<longleftrightarrow> final \<in> {Some Enqueued, Some Leased}"
  by (auto simp: status_is_terminal_def split: option.splits FleetTaskLedgerStatus.splits)

lemma finalize_cases:
  "finalize_task_attempt_if_leased L r w t a ts p final receipt =
     (if finalizable (rebuild_state L) r w t a p final receipt
      then let e = next_worker_event (rebuild_state L) r w t ts p
        in (L @ [TaskAttemptFinalized e final (receipt\<lparr>fx_attempt := Some a, fx_terminal_seq := Some (we_seq e)\<rparr>)], Inr (Some e))
      else (L, snd (finalize_task_attempt_if_leased L r w t a ts p final receipt)))"
  by (auto simp: finalize_task_attempt_if_leased_def finalizable_def nonterminal_final payload_terminal_status
      lease_is_live_def leased_by_def Let_def split: option.splits)

lemma finalize_refused:
  assumes "\<not> finalizable (rebuild_state L) r w t a p final receipt"
  shows "snd (finalize_task_attempt_if_leased L r w t a ts p final receipt) \<noteq> Inr (Some e)"
  using assms by (auto simp: finalize_task_attempt_if_leased_def finalizable_def nonterminal_final payload_terminal_status
      lease_is_live_def leased_by_def Let_def split: option.splits)

lemma finalized_state:
  "we_run_id (next_worker_event st r w t ts p) = r" "we_task_id (next_worker_event st r w t ts p) = t"
  "we_worker_id (next_worker_event st r w t ts p) = w" "we_payload (next_worker_event st r w t ts p) = p"
  "we_timestamp (next_worker_event st r w t ts p) = ts"
  by (simp_all add: next_worker_event_def worker_event_def)

text \<open>
  C17. Finalising an attempt is one atomic transition. It succeeds exactly if the payload and the status are
  terminal, the receipt belongs to the attempt and the worker holds the live lease of that attempt; then the
  task has the verified status (or the one of the event), keeps its attempt number and its worker, and the
  stored receipt names the attempt and the event. Otherwise the ledger does not change.
\<close>

theorem finalize_is_atomic:
  assumes "finalize_task_attempt_if_leased L run_id w task_id a ts p final receipt = (L', res)"
  shows "if finalizable (rebuild_state L) run_id w task_id a p final receipt
    then (\<exists>e task. res = Inr (Some e) \<and> task_of (rebuild_state L') run_id task_id = Some task \<and>
      Some (ft_status task) = option_or final (event_status p) \<and> fe_attempts (ft_entry task) = a \<and>
      ft_leased_to task = Some w \<and> ft_completed_at task = Some ts \<and>
      bt_get (fs_receipts (rebuild_state L')) (task_key run_id task_id) =
        Some (receipt\<lparr>fx_attempt := Some a, fx_terminal_seq := Some (we_seq e)\<rparr>))
    else L' = L \<and> (\<forall>e. res \<noteq> Inr (Some e))"
proof (cases "finalizable (rebuild_state L) run_id w task_id a p final receipt")
  case True
  then obtain old status where old: "task_of (rebuild_state L) run_id task_id = Some old" "leased_by w old"
    "fe_attempts (ft_entry old) = a" and status: "event_status p = Some status"
    and rc: "fx_run_id receipt = run_id" "fx_task_id receipt = task_id"
    by (auto simp: finalizable_def)
  let ?e = "next_worker_event (rebuild_state L) run_id w task_id ts p"
  let ?r = "receipt\<lparr>fx_attempt := Some a, fx_terminal_seq := Some (we_seq ?e)\<rparr>"
  have out: "L' = L @ [TaskAttemptFinalized ?e final ?r]" "res = Inr (Some ?e)"
    using assms finalize_cases [of L run_id w task_id a ts p final receipt] True by (simp_all add: Let_def)
  have "task_of (rebuild_state L') run_id task_id =
      Some ((case final of None \<Rightarrow> id | Some s \<Rightarrow> terminal_task w ts s) (terminal_task w ts status old))"
    by (simp add: out apply_record_tasks event_tasks_def finalized_state status old split: option.split)
  moreover have "bt_get (fs_receipts (rebuild_state L')) (task_key run_id task_id) = Some ?r"
    using rc by (simp add: out apply_record_def Let_def split: option.split)
  ultimately show ?thesis using True out old
    by (simp add: terminal_task_def leased_by_def status option_or_def split: option.split)
next
  case False
  with assms finalize_cases [of L run_id w task_id a ts p final receipt] finalize_refused [OF False, of ts]
  show ?thesis by (metis fst_conv snd_conv)
qed

theorem finalize_is_atomic_witness:
  "map_option ft_status (task_of (rebuild_state demo_done) ''run'' ''a'') = Some Failed \<and>
   map_option fx_attempt (bt_get (fs_receipts (rebuild_state demo_done)) (task_key ''run'' ''a'')) = Some (Some 1)"
proof -
  let ?fin = "finalize_task_attempt_if_leased demo_two ''run'' ''w1'' ''a'' 1 ''08:03'' (FailedEvent ''exit'' False) None demo_receipt"
  have "event_status (FailedEvent ''exit'' False :: unit FleetWorkerEventPayload) = Some Failed" by simp
  moreover have "map_option (\<lambda>task. (leased_by ''w1'' task, fe_attempts (ft_entry task)))
      (task_of (rebuild_state demo_two) ''run'' ''a'') = Some (True, 1)" by code_simp
  ultimately have "finalizable (rebuild_state demo_two) ''run'' ''w1'' ''a'' 1 (FailedEvent ''exit'' False) None demo_receipt"
    by (auto simp: finalizable_def demo_receipt_def)
  with finalize_is_atomic [of demo_two "''run''" "''w1''" "''a''" 1 "''08:03''" "FailedEvent ''exit'' False" None
      demo_receipt demo_done "snd ?fin"]
  show ?thesis by (auto simp: demo_done_def option_or_def)
qed

section \<open>Event numbers\<close>

fun record_events :: "'o FleetLedgerRecord \<Rightarrow> 'o FleetWorkerEvent list" where
  "record_events (EventAppended e) = [e]"
| "record_events (TaskAttemptFinalized e _ _) = [e]"
| "record_events _ = []"

definition seq_covers :: "'o FleetLedgerState \<Rightarrow> string \<Rightarrow> u64 \<Rightarrow> bool" where
  "seq_covers st key n \<longleftrightarrow> (case bt_get (fs_latest_seq st) key of None \<Rightarrow> False | Some s \<Rightarrow> n \<le> s)"

lemma index_event_seq:
  "bt_get (fs_latest_seq (index_event st e b)) key =
     (if key = event_key (we_worker_id e) (we_run_id e) (we_task_id e)
      then Some (case bt_get (fs_latest_seq st) key of None \<Rightarrow> we_seq e | Some s \<Rightarrow> max s (we_seq e))
      else bt_get (fs_latest_seq st) key)"
  by (cases "we_payload e") (auto simp: index_event_def Let_def max_def split: option.split)

lemma project_event_seq [simp]: "fs_latest_seq (project_event st e) = fs_latest_seq st"
  by (cases "we_payload e") (simp_all add: project_event_def mark_task_terminal_def set_worker_def)

lemma apply_event_seq:
  "bt_get (fs_latest_seq (apply_event st e)) key =
     (if key = event_key (we_worker_id e) (we_run_id e) (we_task_id e)
      then Some (case bt_get (fs_latest_seq st) key of None \<Rightarrow> we_seq e | Some s \<Rightarrow> max s (we_seq e))
      else bt_get (fs_latest_seq st) key)"
  by (simp add: apply_event_def Let_def index_event_seq)

lemma apply_event_covers:
  "seq_covers st key n \<Longrightarrow> seq_covers (apply_event st e) key n"
  "seq_covers (apply_event st e) (event_key (we_worker_id e) (we_run_id e) (we_task_id e)) (we_seq e)"
  by (auto simp: seq_covers_def apply_event_seq max_def split: option.splits)

lemma seq_covers_update [simp]:
  "seq_covers (st\<lparr>fs_alerts := x\<rparr>) key n = seq_covers st key n"
  "seq_covers (st\<lparr>fs_receipts := y\<rparr>) key n = seq_covers st key n"
  "seq_covers (mark_task_terminal st run_id task_id w ts status) key n = seq_covers st key n"
  by (simp_all add: seq_covers_def mark_task_terminal_def)

lemma apply_alert_covers: "seq_covers st key n \<Longrightarrow> seq_covers (apply_alert st r t c ts w a s) key n"
  by (simp add: apply_alert_def Let_def apply_event_covers split: option.split)

lemma apply_record_covers: "seq_covers st key n \<Longrightarrow> seq_covers (apply_record st r) key n"
proof (cases r)
  case (EventSequenceCheckpoint run_id worker_id task_id m)
  assume "seq_covers st key n"
  then show ?thesis by (auto simp: EventSequenceCheckpoint apply_record_def Let_def seq_covers_def max_def split: option.splits)
next
  case (TaskAttemptFinalized e final receipt)
  assume "seq_covers st key n"
  then show ?thesis by (simp add: TaskAttemptFinalized apply_record_def Let_def apply_event_covers split: option.split)
qed (simp_all add: apply_record_def Let_def apply_event_covers apply_alert_covers,
  simp_all add: seq_covers_def set_worker_def mark_task_terminal_def)

lemma record_event_covered:
  "e \<in> set (record_events r) \<Longrightarrow>
     seq_covers (apply_record st r) (event_key (we_worker_id e) (we_run_id e) (we_task_id e)) (we_seq e)"
  by (cases r) (auto simp: apply_record_def Let_def apply_event_covers split: option.split)

lemma events_covered:
  "e \<in> set (concat (map record_events L)) \<Longrightarrow>
     seq_covers (rebuild_state L) (event_key (we_worker_id e) (we_run_id e) (we_task_id e)) (we_seq e)"
  by (induction L rule: rev_induct) (auto intro: apply_record_covers record_event_covered)

text \<open>
  Event numbers are fresh: the event that an operation builds for a worker and a task has a larger
  sequence number than every earlier event of that worker and task in the ledger, whatever records the
  ledger holds, unless the 64-bit counter is exhausted.
\<close>

theorem event_numbers_fresh:
  assumes "append_event_next_seq L run_id worker_id task_id timestamp payload = (L', e)"
    and "latest_event_seq (rebuild_state L) worker_id run_id task_id \<noteq> - 1"
    and "earlier \<in> set (concat (map record_events L))"
    and "we_worker_id earlier = worker_id" and "we_run_id earlier = run_id" and "we_task_id earlier = task_id"
  shows "we_seq earlier < we_seq e"
proof -
  let ?n = "latest_event_seq (rebuild_state L) worker_id run_id task_id"
  have "we_seq earlier \<le> ?n" using events_covered [OF assms(3)] assms(4-6)
    by (simp add: seq_covers_def latest_event_seq_def split: option.splits)
  also have "?n < ?n + 1" using saturating_add_one [OF assms(2)] by simp
  also have "?n + 1 = we_seq e" using assms(1)
    by (auto simp: append_event_next_seq_def Let_def next_worker_event_def worker_event_def)
  finally show ?thesis .
qed

theorem event_numbers_fresh_witness:
  "we_seq (worker_event 2 ''run'' ''w1'' ''a'' ''08:01'' Running :: unit FleetWorkerEvent) <
     we_seq (snd (append_event_next_seq demo_two ''run'' ''w1'' ''a'' ''08:09'' Running))"
proof -
  let ?e = "worker_event 2 ''run'' ''w1'' ''a'' ''08:01'' Running :: unit FleetWorkerEvent"
  have "latest_event_seq (rebuild_state demo_two) ''w1'' ''run'' ''a'' = 2" by code_simp
  then have n: "latest_event_seq (rebuild_state demo_two) ''w1'' ''run'' ''a'' \<noteq> - 1" by simp
  have "?e \<in> set (concat (map record_events demo_two))" by code_simp
  from event_numbers_fresh [OF prod.collapse [symmetric] n this]
  show ?thesis by (simp add: worker_event_def)
qed

section \<open>Alerts, capacity and secrets\<close>

definition alerted :: "alert_id \<Rightarrow> 'o FleetLedgerState \<Rightarrow> bool" where
  "alerted key st \<longleftrightarrow> bt_get (fs_alerts st) key \<noteq> None"

lemma index_event_alerts [simp]: "fs_alerts (index_event st e b) = fs_alerts st"
  by (cases "we_payload e") (simp_all add: index_event_def Let_def)

lemma apply_event_alerts [simp]: "fs_alerts (apply_event st e) = fs_alerts st"
  by (cases "we_payload e") (simp_all add: apply_event_def Let_def project_event_def mark_task_terminal_def set_worker_def)

lemma apply_alert_kept: "alerted key st \<Longrightarrow> alerted key (apply_alert st r t c ts w a s)"
  by (simp add: alerted_def apply_alert_def Let_def split: option.split)

lemma apply_record_alerted: "alerted key st \<Longrightarrow> alerted key (apply_record st r)"
  by (cases r) (simp_all add: apply_record_def Let_def apply_alert_kept, simp_all add: alerted_def mark_task_terminal_def
    set_worker_def split: option.split)

interpretation alert: replay_stable "alerted key" for key
  by unfold_locales (rule apply_record_alerted)

text \<open>
  An alert for a failed attempt is sent once: after it has been recorded on a channel, no interleaving
  of operations makes the ledger accept the same attempt on that channel again.
\<close>

theorem alert_recorded_once:
  assumes "record_failed_attempt_alert_once L run_id task_id worker_id a label key timestamp = (L', True)"
    and "fleet_step\<^sup>*\<^sup>* L' L''"
  shows "record_failed_attempt_alert_once L'' run_id task_id other a label' key timestamp' = (L'', False)"
proof -
  have "L' = L @ [AlertSent run_id task_id key timestamp (Some worker_id) (Some a)
      (Some (saturating_add (latest_event_seq (rebuild_state L) worker_id run_id task_id) 1))]"
    using assms(1) by (auto simp: record_failed_attempt_alert_once_def Let_def split: option.splits if_splits)
  then have "alerted (alert_key run_id task_id (Some a) key) (rebuild_state L')"
    by (simp add: alerted_def apply_record_def apply_alert_def Let_def)
  then have "alerted (alert_key run_id task_id (Some a) key) (rebuild_state L'')"
    by (rule alert.stable_steps [OF assms(2)])
  then show ?thesis by (auto simp: record_failed_attempt_alert_once_def Let_def alerted_def split: option.split)
qed

theorem alert_recorded_once_witness:
  "snd (record_failed_attempt_alert_once demo_done ''run'' ''a'' ''w1'' 1 ''slack'' ''slack#0'' ''08:04'') \<and>
   \<not> snd (record_failed_attempt_alert_once
     (fst (record_failed_attempt_alert_once demo_done ''run'' ''a'' ''w1'' 1 ''slack'' ''slack#0'' ''08:04''))
     ''run'' ''a'' ''w1'' 1 ''pager'' ''slack#0'' ''08:05'')"
proof -
  let ?op = "record_failed_attempt_alert_once demo_done ''run'' ''a'' ''w1'' 1 ''slack'' ''slack#0'' ''08:04''"
  have s: "snd ?op" by code_simp
  then have "?op = (fst ?op, True)" by (simp add: prod_eq_iff)
  from alert_recorded_once [OF this rtranclp.rtrancl_refl] s show ?thesis by simp
qed

text \<open>Counting the values of a sorted map that satisfy a predicate, after one of them has changed.\<close>

definition count_values :: "('v \<Rightarrow> bool) \<Rightarrow> ('k, 'v) btree_map \<Rightarrow> nat" where
  "count_values P m = length (filter P (bt_values m))"

lemma count_modify_other: "k \<notin> fst ` set m \<Longrightarrow> count_values P (bt_modify k f m) = count_values P m"
  by (induction m) (auto simp: count_values_def bt_values_def bt_modify_def)

lemma count_modify:
  "distinct (map fst m) \<Longrightarrow> count_values P (bt_modify k f m) \<le> count_values P m + 1"
proof (induction m)
  case (Cons e m)
  then show ?case using count_modify_other [of k m P f]
    by (cases "fst e = k") (auto simp: count_values_def bt_values_def bt_modify_def split: prod.splits)
qed (simp add: count_values_def bt_values_def bt_modify_def)

lemma count_modify_false:
  "(\<And>v. \<not> P (f v)) \<Longrightarrow> count_values P (bt_modify k f m) \<le> count_values P m"
  by (induction m) (auto simp: count_values_def bt_values_def bt_modify_def split: if_splits)

lemma active_count:
  "active_for_run st r = count_values (\<lambda>task. fe_run_id (ft_entry task) = r \<and> ft_status task = Leased) (fs_tasks st)"
  by (simp add: active_for_run_def count_values_def conj_commute)

lemma active_event: "active_for_run (apply_record st (EventAppended e)) r \<le> active_for_run st r"
  using terminal_not_leased [OF event_status_terminal, of "we_payload e"]
  by (auto simp: active_count apply_record_tasks event_tasks_def terminal_task_def intro!: count_modify_false split: option.split)

lemma active_initial:
  "active_for_run (foldl apply_record st (initial_event_records n r w t at ps)) q \<le> active_for_run st q"
proof (induction n r w t at ps arbitrary: st rule: initial_event_records.induct)
  case (2 n r w t at p ps)
  then show ?case using active_event order_trans by (simp, blast)
qed simp

text \<open>
  A launch respects the capacity of its run: when a queued task has been started under a limit, at
  most that many tasks of the run are leased afterwards, and the task was queued before.
\<close>

theorem launch_respects_capacity:
  assumes "start_task_if_enqueued L run_id task_id worker_id leased_at expires (Some m) evs started = (L', Inr True)"
  shows "active_for_run (rebuild_state L') run_id \<le> m \<and>
    map_option ft_status (task_of (rebuild_state L) run_id task_id) = Some Enqueued"
proof -
  let ?st = "rebuild_state L"
  let ?evs = "initial_event_records (latest_event_seq ?st worker_id run_id task_id + 1) run_id worker_id task_id leased_at evs"
  from assms have L': "L' = L @ [TaskLeased run_id task_id worker_id leased_at expires] @ ?evs @ [Heartbeat worker_id leased_at None None]"
    and less: "active_for_run ?st run_id < m" and q: "map_option ft_status (task_of ?st run_id task_id) = Some Enqueued"
    by (auto simp: start_task_if_enqueued_def lease_task_if_enqueued_with_events_def Let_def
        split: option.splits if_splits sum.splits)
  let ?leased = "apply_record ?st (TaskLeased run_id task_id worker_id leased_at expires)"
  have "active_for_run (rebuild_state L') run_id = active_for_run (foldl apply_record ?leased ?evs) run_id"
    by (simp add: L' rebuild_append active_count apply_record_tasks)
  also have "\<dots> \<le> active_for_run ?leased run_id" by (rule active_initial)
  also have "\<dots> \<le> active_for_run ?st run_id + 1"
    using count_modify [OF bt_ok_distinct [OF rebuild_ok]] by (simp add: active_count apply_record_tasks)
  finally show ?thesis using less q by simp
qed

theorem launch_respects_capacity_witness:
  "active_for_run (rebuild_state demo_one) ''run'' \<le> 2"
proof -
  let ?op = "start_task_if_enqueued demo_queue ''run'' ''a'' ''w1'' ''08:01'' None (Some 2) [Starting, Running] (Inr ())"
  have "snd ?op = Inr True" by code_simp
  then have "?op = (demo_one, Inr True)" by (simp add: demo_one_def prod_eq_iff)
  from launch_respects_capacity [OF this] show ?thesis by blast
qed

lemma admissible_runs: "admissible_all st rs \<Longrightarrow> RunCreated run \<in> set rs \<Longrightarrow> run_redacted run"
  by (induction st rs rule: admissible_all.induct) (auto simp: admissible_def)

text \<open>
  No alert secret reaches the ledger file: in every record of a created run, inline URLs, the
  references of webhooks and pager routing keys are redacted.
\<close>

theorem ledger_runs_redacted:
  assumes "fleet_step\<^sup>*\<^sup>* [] L" and "RunCreated run \<in> set L"
  shows "run_redacted run"
  using assms
proof (induction arbitrary: run rule: rtranclp_induct)
  case (step K L)
  obtain rs where "L = K @ rs" "admissible_all (rebuild_state K) rs" using step_extends [OF step(2)] by (auto simp: extends_def)
  then show ?case using step.IH step.prems admissible_runs by auto
qed simp

definition demo_run :: "unit FleetRun" where
  "demo_run = \<lparr>fr_id = ''run'', fr_max_workers = None, fr_task_specs = [\<lparr>ts_id = ''a'', ts_retry_policy = None,
     ts_alert_policy = Some \<lparr>ap_events = [], ap_channels = [PagerDuty ''key'' ''high''], ap_after_attempts = None,
       ap_after_minutes_stale = None\<rparr>, ts_metadata = [], ts_body = ()\<rparr>],
     fr_worker_specs = [], fr_updated_at = None, fr_body = ()\<rparr>"

theorem ledger_runs_redacted_witness:
  "\<not> run_redacted demo_run \<and> run_redacted (sanitize_run_for_ledger demo_run)"
proof
  show "\<not> run_redacted demo_run" by code_simp
  have "fleet_step\<^sup>*\<^sup>* [] (create_run [] demo_run)" by (rule r_into_rtranclp, rule step_create)
  from ledger_runs_redacted [OF this] show "run_redacted (sanitize_run_for_ledger demo_run)" by (simp add: create_run_def)
qed

section \<open>Compaction and worker status\<close>

definition demo_busy :: "unit ledger" where
  "demo_busy =
     (let L = fst (start_task_if_enqueued demo_queue ''run'' ''b'' ''w1'' ''08:01'' None None [Running] (Inr ()));
          L = fst (append_terminal_event_if_leased L ''run'' ''w1'' ''b'' 1 ''08:02'' (CompletedEvent None None))
      in fst (start_task_if_enqueued L ''run'' ''a'' ''w1'' ''08:03'' None None [Running] (Inr ())))"

text \<open>
  Compaction keeps the tasks of this ledger but loses that its worker is busy: the retained events are
  replayed in the order of their task ids, so the end of an earlier task follows the progress of the
  current one.
\<close>

theorem compaction_loses_busy_worker:
  "fs_tasks (rebuild_state (compact demo_busy)) = fs_tasks (rebuild_state demo_busy) \<and>
   bt_get (fs_workers (rebuild_state demo_busy)) ''w1'' = Some Busy \<and>
   bt_get (fs_workers (rebuild_state (compact demo_busy))) ''w1'' = Some Online"
  by code_simp

end
