(* ===== verification/Fleet_Scheduler.thy ===== *)
theory Fleet_Scheduler
  imports Fleet_Ledger_Props
begin

text \<open>
  The fleet scheduler (\<open>fleet/scheduler.rs\<close>): selection of the next launch under the per-run, per-host and
  per-class limits, staleness, the retry decision, cancellation of a run and its status. Instants are
  nanoseconds since the epoch; parsing and printing of RFC 3339 texts (\<open>chrono\<close>) and \<open>Value::as_str\<close> are
  parameters. The snapshot a function works on and the ledger it writes to are separate arguments where
  other managers can write in between.
\<close>

record FleetSchedulerPolicy =
  sp_max_workers_per_run :: nat
  sp_max_workers_per_host :: nat
  sp_max_workers_per_task_class :: nat
  sp_lease_seconds :: u64
  sp_heartbeat_timeout :: int

definition FleetSchedulerPolicy_default :: FleetSchedulerPolicy where
  "FleetSchedulerPolicy_default = \<lparr>sp_max_workers_per_run = 4, sp_max_workers_per_host = 4,
     sp_max_workers_per_task_class = 4, sp_lease_seconds = 300, sp_heartbeat_timeout = 120 * 1000000000\<rparr>"

record FleetSchedulerReport =
  fq_launched :: nat
  fq_heartbeats :: nat
  fq_marked_stale :: nat
  fq_restarted :: nat
  fq_failed :: nat
  fq_cancelled :: nat
  fq_alerts :: nat

definition FleetSchedulerReport_default :: FleetSchedulerReport where
  "FleetSchedulerReport_default = \<lparr>fq_launched = 0, fq_heartbeats = 0, fq_marked_stale = 0, fq_restarted = 0,
     fq_failed = 0, fq_cancelled = 0, fq_alerts = 0\<rparr>"

record FleetScheduler =
  sc_policy :: FleetSchedulerPolicy
  sc_now :: int

text \<open>The time library: \<open>DateTime::parse_from_rfc3339\<close> and \<open>to_rfc3339_opts(Secs)\<close>.\<close>

record time_api =
  parse_from_rfc3339 :: "string \<Rightarrow> int option"
  to_rfc3339_opts :: "int \<Rightarrow> string"

definition scheduler_timestamp :: "time_api \<Rightarrow> FleetScheduler \<Rightarrow> string" where
  "scheduler_timestamp api s = to_rfc3339_opts api (sc_now s)"

definition scheduler_lease_expires_at :: "time_api \<Rightarrow> FleetScheduler \<Rightarrow> string" where
  "scheduler_lease_expires_at api s =
     to_rfc3339_opts api (sc_now s + sint (sp_lease_seconds (sc_policy s)) * 1000000000)"

section \<open>Selection\<close>

definition active_tasks_for_run :: "'o FleetLedgerState \<Rightarrow> string \<Rightarrow> FleetTaskState list" where
  "active_tasks_for_run st run_id =
     filter (\<lambda>task. fe_run_id (ft_entry task) = run_id \<and> ft_status task = Leased) (bt_values (fs_tasks st))"

definition task_spec_for :: "'o FleetLedgerState \<Rightarrow> FleetTaskState \<Rightarrow> 'o FleetTaskSpec option" where
  "task_spec_for st task =
     (case bt_get (fs_runs st) (fe_run_id (ft_entry task)) of
        None \<Rightarrow> None
      | Some run \<Rightarrow> List.find (\<lambda>spec. ts_id spec = fe_task_id (ft_entry task)) (fr_task_specs run))"

fun host_key_of :: "FleetHostSpec \<Rightarrow> string" where
  "host_key_of LocalHost = ''local''"
| "host_key_of (Ssh ssh) = ''ssh:'' @ ssh_host ssh"
| "host_key_of (Docker img _) = ''docker:'' @ img"

definition host_key :: "'o FleetWorkerSpec \<Rightarrow> string" where
  "host_key worker = host_key_of (ws_host worker)"

definition task_class :: "('o \<Rightarrow> string option) \<Rightarrow> 'o FleetTaskSpec \<Rightarrow> string" where
  "task_class as_str task =
     (case Option.bind (bt_get (ts_metadata task) ''class'') as_str of
        Some value \<Rightarrow> if trim value \<noteq> [] then value else ''default''
      | None \<Rightarrow> ''default'')"

record ActiveCounts =
  by_host :: "(string, nat) btree_map"
  by_task_class :: "(string, nat) btree_map"

definition bump :: "string \<Rightarrow> (string, nat) btree_map \<Rightarrow> (string, nat) btree_map" where
  "bump key m = bt_insert key ((case bt_get m key of Some n \<Rightarrow> n | None \<Rightarrow> 0) + 1) m"

definition count_task :: "('o \<Rightarrow> string option) \<Rightarrow> 'o FleetRun \<Rightarrow> ActiveCounts \<Rightarrow> FleetTaskState \<Rightarrow> ActiveCounts" where
  "count_task as_str run counts task =
     (let counts = (case Option.bind (ft_leased_to task) (\<lambda>w. List.find (\<lambda>worker. ws_id worker = w) (fr_worker_specs run)) of
            None \<Rightarrow> counts
          | Some worker \<Rightarrow> counts\<lparr>by_host := bump (host_key worker) (by_host counts)\<rparr>)
      in case List.find (\<lambda>spec. ts_id spec = fe_task_id (ft_entry task)) (fr_task_specs run) of
           None \<Rightarrow> counts
         | Some spec \<Rightarrow> counts\<lparr>by_task_class := bump (task_class as_str spec) (by_task_class counts)\<rparr>)"

definition active_counts :: "('o \<Rightarrow> string option) \<Rightarrow> 'o FleetLedgerState \<Rightarrow> 'o FleetRun \<Rightarrow> ActiveCounts" where
  "active_counts as_str st run =
     foldl (count_task as_str run) \<lparr>by_host = [], by_task_class = []\<rparr> (active_tasks_for_run st (fr_id run))"

definition count_of :: "(string, nat) btree_map \<Rightarrow> string \<Rightarrow> nat" where
  "count_of m key = (case bt_get m key of Some n \<Rightarrow> n | None \<Rightarrow> 0)"

definition queue_order :: "FleetTaskState \<Rightarrow> int \<times> string \<times> string" where
  "queue_order task = (fe_priority (ft_entry task), fe_enqueued_at (ft_entry task), fe_task_id (ft_entry task))"

definition queued_tasks :: "'o FleetLedgerState \<Rightarrow> string \<Rightarrow> FleetTaskState list" where
  "queued_tasks st run_id =
     sort_key queue_order
       (filter (\<lambda>task. fe_run_id (ft_entry task) = run_id \<and> ft_status task = Enqueued) (bt_values (fs_tasks st)))"

text \<open>A worker that has no active task of the run and whose host has room.\<close>

definition worker_is_free ::
  "FleetScheduler \<Rightarrow> ActiveCounts \<Rightarrow> string list \<Rightarrow> 'o FleetWorkerSpec \<Rightarrow> bool" where
  "worker_is_free s counts active_workers worker \<longleftrightarrow>
     ws_id worker \<notin> set active_workers \<and>
     \<not> sp_max_workers_per_host (sc_policy s) \<le> count_of (by_host counts) (host_key worker)"

fun launch_scan ::
  "('o \<Rightarrow> string option) \<Rightarrow> FleetScheduler \<Rightarrow> 'o FleetRun \<Rightarrow> ActiveCounts \<Rightarrow> string list \<Rightarrow> FleetTaskState list \<Rightarrow>
     (string \<times> FleetTaskState) option" where
  "launch_scan as_str s run counts active_workers [] = None"
| "launch_scan as_str s run counts active_workers (task # queued) =
     (case List.find (\<lambda>spec. ts_id spec = fe_task_id (ft_entry task)) (fr_task_specs run) of
        None \<Rightarrow> None
      | Some spec \<Rightarrow>
          if sp_max_workers_per_task_class (sc_policy s) \<le> count_of (by_task_class counts) (task_class as_str spec)
          then launch_scan as_str s run counts active_workers queued
          else case List.find (worker_is_free s counts active_workers) (fr_worker_specs run) of
              Some worker \<Rightarrow> Some (ws_id worker, task)
            | None \<Rightarrow> launch_scan as_str s run counts active_workers queued)"

definition next_launch ::
  "('o \<Rightarrow> string option) \<Rightarrow> FleetScheduler \<Rightarrow> 'o FleetRun \<Rightarrow> 'o FleetLedgerState \<Rightarrow> ActiveCounts \<Rightarrow>
     (string \<times> FleetTaskState) option" where
  "next_launch as_str s run st counts =
     launch_scan as_str s run counts (List.map_filter ft_leased_to (active_tasks_for_run st (fr_id run)))
       (queued_tasks st (fr_id run))"

section \<open>Launching\<close>

text \<open>
  The launch loop reads the ledger, picks a launch and tries to start it; when the start is refused it
  reads again. Nothing bounds the number of rounds, so the loop is a partial function.
\<close>

definition launch_payloads :: "string \<Rightarrow> 'o FleetWorkerEventPayload list" where
  "launch_payloads lease_expires_at = [LeasedEvent (Some lease_expires_at), Starting, Running]"

text \<open>One round: the loop is left with a result (left) or goes on with the ledger and the report (right).\<close>

definition launch_round ::
  "time_api \<Rightarrow> ('o \<Rightarrow> string option) \<Rightarrow> FleetScheduler \<Rightarrow> string \<Rightarrow> 'o ledger \<Rightarrow> FleetSchedulerReport \<Rightarrow>
     ('o ledger \<times> (string + FleetSchedulerReport)) + ('o ledger \<times> FleetSchedulerReport)" where
  "launch_round api as_str s run_id L report =
     (let st = rebuild_state L
      in case bt_get (fs_runs st) run_id of
           None \<Rightarrow> Inl (L, Inl (''fleet run '' @ run_id @ '' does not exist''))
         | Some run \<Rightarrow>
             if sp_max_workers_per_run (sc_policy s) \<le> length (active_tasks_for_run st run_id)
             then Inl (L, Inr report)
             else case next_launch as_str s run st (active_counts as_str st run) of
                 None \<Rightarrow> Inl (L, Inr report)
               | Some (worker_id, task) \<Rightarrow>
                   (let expires = scheduler_lease_expires_at api s;
                        out = start_task_if_enqueued L (fe_run_id (ft_entry task)) (fe_task_id (ft_entry task)) worker_id
                          (scheduler_timestamp api s) (Some expires) (Some (sp_max_workers_per_run (sc_policy s)))
                          (launch_payloads expires) (Inr ())
                    in case snd out of
                         Inl err \<Rightarrow> Inl (fst out, Inl err)
                       | Inr False \<Rightarrow> Inr (fst out, report)
                       | Inr True \<Rightarrow> Inr (fst out, report\<lparr>fq_launched := fq_launched report + 1,
                           fq_heartbeats := fq_heartbeats report + 1\<rparr>)))"

partial_function (option) launch_queued_work ::
  "time_api \<Rightarrow> ('o \<Rightarrow> string option) \<Rightarrow> FleetScheduler \<Rightarrow> string \<Rightarrow> 'o ledger \<Rightarrow> FleetSchedulerReport \<Rightarrow>
     ('o ledger \<times> (string + FleetSchedulerReport)) option" where
  "launch_queued_work api as_str s run_id L report =
     (case launch_round api as_str s run_id L report of
        Inl out \<Rightarrow> Some out
      | Inr next \<Rightarrow> launch_queued_work api as_str s run_id (fst next) (snd next))"

section \<open>Staleness and recovery\<close>

definition task_is_stale :: "time_api \<Rightarrow> FleetScheduler \<Rightarrow> FleetTaskState \<Rightarrow> 'o FleetLedgerState \<Rightarrow> bool" where
  "task_is_stale api s task st =
     (case Option.bind (Option.bind (ft_leased_to task) (bt_get (fs_heartbeats st)))
         (\<lambda>heartbeat. parse_from_rfc3339 api (fh_timestamp heartbeat)) of
        Some beat \<Rightarrow> (let age = sc_now s - beat in age < 0 \<or> sp_heartbeat_timeout (sc_policy s) < age)
      | None \<Rightarrow>
          (case Option.bind (fe_lease_deadline (ft_entry task)) (parse_from_rfc3339 api) of
             Some deadline \<Rightarrow> deadline < sc_now s
           | None \<Rightarrow> True))"

fun channel_label :: "FleetAlertChannel \<Rightarrow> string" where
  "channel_label (Slack _) = ''slack''"
| "channel_label (Webhook _) = ''webhook''"
| "channel_label (PagerDuty _ _) = ''pagerduty''"

definition alert_policy_matches :: "FleetAlertPolicy \<Rightarrow> FleetAlertEventClass \<Rightarrow> bool" where
  "alert_policy_matches policy cls \<longleftrightarrow> ap_events policy = [] \<or> cls \<in> set (ap_events policy)"

definition channel_key :: "nat \<Rightarrow> FleetAlertChannel \<Rightarrow> string" where
  "channel_key index channel = channel_label channel @ ''#'' @ show_nat index"

fun alert_channels ::
  "time_api \<Rightarrow> FleetScheduler \<Rightarrow> string \<Rightarrow> string \<Rightarrow> string \<Rightarrow> u32 \<Rightarrow> nat \<Rightarrow> FleetAlertChannel list \<Rightarrow>
     'o ledger \<Rightarrow> nat \<Rightarrow> 'o ledger \<times> nat" where
  "alert_channels api s run_id task_id worker_id attempts index [] L n = (L, n)"
| "alert_channels api s run_id task_id worker_id attempts index (channel # channels) L n =
     (let out = record_failed_attempt_alert_once L run_id task_id worker_id attempts (channel_label channel)
            (channel_key index channel) (scheduler_timestamp api s)
      in alert_channels api s run_id task_id worker_id attempts (index + 1) channels (fst out)
           (if snd out then n + 1 else n))"

definition record_alerts ::
  "time_api \<Rightarrow> FleetScheduler \<Rightarrow> 'o ledger \<Rightarrow> string \<Rightarrow> string \<Rightarrow> string \<Rightarrow> u32 \<Rightarrow> 'o FleetTaskSpec \<Rightarrow>
     FleetAlertEventClass \<Rightarrow> 'o ledger \<times> nat" where
  "record_alerts api s L run_id task_id worker_id expected_attempts task_spec event_class =
     (case ts_alert_policy task_spec of
        None \<Rightarrow> (L, 0)
      | Some policy \<Rightarrow>
          if \<not> alert_policy_matches policy event_class then (L, 0)
          else alert_channels api s run_id task_id worker_id expected_attempts 0 (ap_channels policy) L 0)"

text \<open>The callback that persists the replacement launch is a function with its outcome.\<close>

type_synonym 'o restart_callback =
  "'o FleetLedgerState \<Rightarrow> FleetTaskState \<Rightarrow> 'o FleetTaskSpec \<Rightarrow> string \<Rightarrow> string + unit"

definition retry_or_fail ::
  "time_api \<Rightarrow> 'o restart_callback \<Rightarrow> FleetScheduler \<Rightarrow> 'o ledger \<Rightarrow> 'o FleetLedgerState \<Rightarrow> FleetTaskState \<Rightarrow>
     'o FleetTaskSpec \<Rightarrow> string \<Rightarrow> u64 \<Rightarrow> string option \<Rightarrow> FleetSchedulerReport \<Rightarrow>
     'o ledger \<times> (string + FleetSchedulerReport)" where
  "retry_or_fail api on_restarting s L st task task_spec worker_id expected_latest_seq expected_heartbeat_at report =
     (let run_id = fe_run_id (ft_entry task); task_id = fe_task_id (ft_entry task);
          attempts = fe_attempts (ft_entry task);
          retry_policy = (case ts_retry_policy task_spec of Some p \<Rightarrow> p | None \<Rightarrow> FleetRetryPolicy_default);
          alerts = (\<lambda>L report. let out = record_alerts api s L run_id task_id worker_id attempts task_spec RestartExhausted
            in (fst out, Inr (report\<lparr>fq_alerts := fq_alerts report + snd out\<rparr>)))
      in if attempts < rp_max_attempts retry_policy
         then let out = restart_task_if_unchanged_with_callback L run_id task_id worker_id (ft_status task) attempts
                expected_latest_seq expected_heartbeat_at (scheduler_timestamp api s)
                (Some (scheduler_lease_expires_at api s)) attempts (on_restarting st task task_spec worker_id)
           in (fst out, case snd out of
                 Inl err \<Rightarrow> Inl err
               | Inr False \<Rightarrow> Inr report
               | Inr True \<Rightarrow> Inr (report\<lparr>fq_restarted := fq_restarted report + 1\<rparr>))
         else if ft_status task = Failed then alerts L report
         else let out = append_terminal_event_if_lease_unchanged L run_id worker_id task_id attempts expected_latest_seq
                expected_heartbeat_at (scheduler_timestamp api s)
                (FailedEvent (''retry attempts exhausted after '' @ show_nat (unat attempts) @ '' attempt(s)'') False)
           in case snd out of
                Inl err \<Rightarrow> (fst out, Inl err)
              | Inr None \<Rightarrow> (fst out, Inr report)
              | Inr (Some _) \<Rightarrow> alerts (fst out) (report\<lparr>fq_failed := fq_failed report + 1\<rparr>))"

definition lease_owner :: "FleetTaskState \<Rightarrow> string" where
  "lease_owner task = (case ft_leased_to task of Some w \<Rightarrow> w | None \<Rightarrow> ''fleet-scheduler'')"

text \<open>The stale branch: mark the lease stale if it has not changed, then retry or fail it.\<close>

definition recover_stale_task ::
  "time_api \<Rightarrow> 'o restart_callback \<Rightarrow> FleetScheduler \<Rightarrow> string \<Rightarrow> 'o FleetLedgerState \<Rightarrow> FleetTaskState \<Rightarrow>
     'o FleetTaskSpec \<Rightarrow> 'o ledger \<Rightarrow> FleetSchedulerReport \<Rightarrow> 'o ledger \<times> (string + FleetSchedulerReport)" where
  "recover_stale_task api on_restarting s label st task task_spec L report =
     (let run_id = fe_run_id (ft_entry task); task_id = fe_task_id (ft_entry task);
          worker_id = lease_owner task; hb = heartbeat_at st worker_id;
          out = append_event_if_lease_unchanged L run_id worker_id task_id (fe_attempts (ft_entry task))
            (latest_event_seq st worker_id run_id task_id) hb (scheduler_timestamp api s) (Stale hb)
      in case snd out of
           Inl err \<Rightarrow> (fst out, Inl err)
         | Inr None \<Rightarrow> (fst out, Inr report)
         | Inr (Some stale_event) \<Rightarrow>
             (let res = retry_or_fail api on_restarting s (fst out) st task task_spec worker_id (we_seq stale_event) hb
                    (report\<lparr>fq_marked_stale := fq_marked_stale report + 1\<rparr>)
              in (fst res, case snd res of Inl _ \<Rightarrow> Inl (label @ task_id) | Inr report \<Rightarrow> Inr report)))"

definition reconcile_task ::
  "time_api \<Rightarrow> 'o restart_callback \<Rightarrow> FleetScheduler \<Rightarrow> 'o FleetLedgerState \<Rightarrow> FleetTaskState \<Rightarrow> 'o ledger \<Rightarrow>
     FleetSchedulerReport \<Rightarrow> 'o ledger \<times> (string + FleetSchedulerReport)" where
  "reconcile_task api on_restarting s st task L report =
     (if ft_status task \<noteq> Leased \<or> \<not> task_is_stale api s task st then (L, Inr report)
      else case task_spec_for st task of
          None \<Rightarrow> (L, Inr report)
        | Some task_spec \<Rightarrow> recover_stale_task api on_restarting s ''resuming stale task '' st task task_spec L report)"

definition recover_task ::
  "time_api \<Rightarrow> 'o restart_callback \<Rightarrow> FleetScheduler \<Rightarrow> 'o FleetLedgerState \<Rightarrow> FleetTaskState \<Rightarrow> 'o ledger \<Rightarrow>
     FleetSchedulerReport \<Rightarrow> 'o ledger \<times> (string + FleetSchedulerReport)" where
  "recover_task api on_restarting s st task L report =
     (case task_spec_for st task of
        None \<Rightarrow> (L, Inr report)
      | Some task_spec \<Rightarrow>
          if ft_status task = Leased \<and> task_is_stale api s task st
          then recover_stale_task api on_restarting s ''recovering stale task '' st task task_spec L report
          else if ft_status task = Failed
          then let worker_id = lease_owner task;
                   res = retry_or_fail api on_restarting s L st task task_spec worker_id
                     (latest_event_seq st worker_id (fe_run_id (ft_entry task)) (fe_task_id (ft_entry task)))
                     (heartbeat_at st worker_id) report
            in (fst res, case snd res of
                  Inl _ \<Rightarrow> Inl (''recovering failed task '' @ fe_task_id (ft_entry task))
                | Inr report \<Rightarrow> Inr report)
          else (L, Inr report))"

text \<open>The \<open>for\<close> loops over the tasks of a run, left at the first error.\<close>

fun for_tasks ::
  "(FleetTaskState \<Rightarrow> 'o ledger \<Rightarrow> FleetSchedulerReport \<Rightarrow> 'o ledger \<times> (string + FleetSchedulerReport)) \<Rightarrow>
     FleetTaskState list \<Rightarrow> 'o ledger \<Rightarrow> FleetSchedulerReport \<Rightarrow> 'o ledger \<times> (string + FleetSchedulerReport)" where
  "for_tasks body [] L report = (L, Inr report)"
| "for_tasks body (task # tasks) L report =
     (let res = body task L report
      in case snd res of Inl err \<Rightarrow> (fst res, Inl err) | Inr report \<Rightarrow> for_tasks body tasks (fst res) report)"

definition run_tasks :: "'o FleetLedgerState \<Rightarrow> string \<Rightarrow> FleetTaskState list" where
  "run_tasks st run_id = filter (\<lambda>task. fe_run_id (ft_entry task) = run_id) (bt_values (fs_tasks st))"

definition reconcile_stale_leases ::
  "time_api \<Rightarrow> 'o restart_callback \<Rightarrow> FleetScheduler \<Rightarrow> string \<Rightarrow> 'o ledger \<Rightarrow> FleetSchedulerReport \<Rightarrow>
     'o ledger \<times> (string + FleetSchedulerReport)" where
  "reconcile_stale_leases api on_restarting s run_id L report =
     (let st = rebuild_state L in for_tasks (reconcile_task api on_restarting s st) (run_tasks st run_id) L report)"

definition recover_unhealthy_work ::
  "time_api \<Rightarrow> 'o restart_callback \<Rightarrow> FleetScheduler \<Rightarrow> string \<Rightarrow> 'o ledger \<Rightarrow> FleetSchedulerReport \<Rightarrow>
     'o ledger \<times> (string + FleetSchedulerReport)" where
  "recover_unhealthy_work api on_restarting s run_id L report =
     (let st = rebuild_state L in for_tasks (recover_task api on_restarting s st) (run_tasks st run_id) L report)"

section \<open>Status and cancellation\<close>

definition run_status_of :: "FleetTaskState list \<Rightarrow> FleetRunStatus" where
  "run_status_of tasks =
     (let has_open = list_ex (\<lambda>task. ft_status task \<in> {Enqueued, Leased}) tasks;
          has_failed = list_ex (\<lambda>task. ft_status task = Failed) tasks;
          has_cancelled = list_ex (\<lambda>task. ft_status task = Cancelled) tasks
      in if has_open then RunRunning else if has_failed then RunFailed
         else if has_cancelled then RunCancelled else RunCompleted)"

definition refresh_run_status :: "time_api \<Rightarrow> FleetScheduler \<Rightarrow> string \<Rightarrow> 'o ledger \<Rightarrow> 'o ledger" where
  "refresh_run_status api s run_id L =
     update_run_status L run_id (run_status_of (run_tasks (rebuild_state L) run_id)) (scheduler_timestamp api s)"

definition resume_run_with_restart_callback ::
  "time_api \<Rightarrow> 'o restart_callback \<Rightarrow> FleetScheduler \<Rightarrow> string \<Rightarrow> 'o ledger \<Rightarrow>
     'o ledger \<times> (string + FleetSchedulerReport)" where
  "resume_run_with_restart_callback api on_restarting s run_id L =
     (let res = reconcile_stale_leases api on_restarting s run_id L FleetSchedulerReport_default
      in case snd res of
           Inl err \<Rightarrow> (fst res, Inl err)
         | Inr report \<Rightarrow> (refresh_run_status api s run_id (fst res), Inr report))"

definition cancel_one ::
  "time_api \<Rightarrow> FleetScheduler \<Rightarrow> string \<Rightarrow> FleetTaskState \<Rightarrow> 'o ledger \<Rightarrow> FleetSchedulerReport \<Rightarrow>
     'o ledger \<times> (string + FleetSchedulerReport)" where
  "cancel_one api s reason task L report =
     (if ft_status task \<notin> {Enqueued, Leased} then (L, Inr report)
      else let out = cancel_task_if_active L (fe_run_id (ft_entry task)) (fe_task_id (ft_entry task)) None
             (scheduler_timestamp api s) (Some reason) (Some ''scheduler'')
        in (fst out, Inr (if snd out then report\<lparr>fq_cancelled := fq_cancelled report + 1\<rparr> else report)))"

definition cancel_run ::
  "time_api \<Rightarrow> FleetScheduler \<Rightarrow> string \<Rightarrow> string \<Rightarrow> 'o ledger \<Rightarrow> 'o ledger \<times> (string + FleetSchedulerReport)" where
  "cancel_run api s run_id reason L =
     (let res = for_tasks (cancel_one api s reason) (run_tasks (rebuild_state L) run_id) L FleetSchedulerReport_default
      in case snd res of
           Inl err \<Rightarrow> (fst res, Inl err)
         | Inr report \<Rightarrow> (update_run_status (fst res) run_id RunCancelled (scheduler_timestamp api s), Inr report))"

end
