(* ===== verification/Fleet_Scheduler_Props.thy ===== *)
theory Fleet_Scheduler_Props
  imports Fleet_Scheduler
begin

text \<open>
  What the scheduler guarantees: it only takes steps of the ledger, its launches respect the limits it
  counts, a retry never exceeds the budget of the task whatever other managers write in between,
  cancelling a run ends all its tasks, and when its launch loop returns.
\<close>

section \<open>The scheduler takes ledger steps\<close>

abbreviation fleet_steps :: "'o ledger \<Rightarrow> 'o ledger \<Rightarrow> bool" where
  "fleet_steps \<equiv> fleet_step\<^sup>*\<^sup>*"

lemma alert_channels_steps: "fleet_steps L (fst (alert_channels api s r t w a i cs L n))"
proof (induction cs arbitrary: i L n)
  case (Cons c cs)
  show ?case by (simp add: Let_def converse_rtranclp_into_rtranclp [OF step_alert_once Cons.IH])
qed simp

lemma record_alerts_steps: "fleet_steps L (fst (record_alerts api s L r t w a spec cls))"
  by (simp add: record_alerts_def alert_channels_steps split: option.split)

lemma retry_or_fail_steps: "fleet_steps L (fst (retry_or_fail api cb s L st task spec w n hb report))"
proof -
  have "fleet_step L (fst (append_terminal_event_if_lease_unchanged L r v t a n hb ts p))" for r v t a n hb ts and p :: "'a FleetWorkerEventPayload"
    by (rule step_fail)
  then have "fleet_steps L (fst (record_alerts api s (fst (append_terminal_event_if_lease_unchanged L r v t a n hb ts p)) r' t' v' a' spec cls))"
    for r v t a n hb ts r' t' v' a' cls and p :: "'a FleetWorkerEventPayload"
    using record_alerts_steps converse_rtranclp_into_rtranclp by metis
  then show ?thesis
    by (auto simp: retry_or_fail_def Let_def record_alerts_steps step_restart step_fail r_into_rtranclp
        split: sum.split option.split)
qed

lemma recover_stale_steps: "fleet_steps L (fst (recover_stale_task api cb s label st task spec L report))"
proof -
  let ?out = "append_event_if_lease_unchanged L (fe_run_id (ft_entry task)) (lease_owner task) (fe_task_id (ft_entry task))
    (fe_attempts (ft_entry task)) (latest_event_seq st (lease_owner task) (fe_run_id (ft_entry task)) (fe_task_id (ft_entry task)))
    (heartbeat_at st (lease_owner task)) (scheduler_timestamp api s) (Stale (heartbeat_at st (lease_owner task)))"
  have "fleet_step L (fst ?out)" by (rule step_scheduler)
  moreover from this have "fleet_steps L (fst (retry_or_fail api cb s (fst ?out) st task spec w n hb rep))" for w n hb rep
    using retry_or_fail_steps converse_rtranclp_into_rtranclp by metis
  ultimately show ?thesis by (auto simp: recover_stale_task_def Let_def split: sum.split option.split)
qed

lemma for_tasks_steps:
  assumes "\<And>task L report. fleet_steps L (fst (body task L report))"
  shows "fleet_steps L (fst (for_tasks body tasks L report))"
proof (induction tasks arbitrary: L report)
  case (Cons task tasks)
  show ?case
  proof (cases "snd (body task L report)")
    case (Inr r)
    from rtranclp_trans [OF assms Cons.IH] show ?thesis by (simp add: Inr)
  qed (simp add: assms)
qed simp

lemma reconcile_steps: "fleet_steps L (fst (reconcile_stale_leases api cb s run_id L report))"
  unfolding reconcile_stale_leases_def Let_def
  by (rule for_tasks_steps) (simp add: reconcile_task_def recover_stale_steps split: option.split)

lemma recover_steps: "fleet_steps L (fst (recover_unhealthy_work api cb s run_id L report))"
  unfolding recover_unhealthy_work_def Let_def
  by (rule for_tasks_steps) (simp add: recover_task_def recover_stale_steps retry_or_fail_steps Let_def split: option.split)

lemma refresh_step: "fleet_step L (refresh_run_status api s run_id L)"
  unfolding refresh_run_status_def by (rule step_status)

lemma resume_steps: "fleet_steps L (fst (resume_run_with_restart_callback api cb s run_id L))"
  by (simp add: resume_run_with_restart_callback_def Let_def reconcile_steps
      rtranclp.rtrancl_into_rtrancl [OF reconcile_steps refresh_step] split: sum.split)

lemma cancel_loop_steps: "fleet_steps L (fst (for_tasks (cancel_one api s reason) tasks L report))"
  by (rule for_tasks_steps) (simp add: cancel_one_def Let_def step_cancel r_into_rtranclp)

lemma launch_round_steps:
  "launch_round api as_str s run_id L report = Inl (L', res) \<Longrightarrow> fleet_steps L L'"
  "launch_round api as_str s run_id L report = Inr (L', report') \<Longrightarrow> fleet_steps L L'"
  by (auto simp: launch_round_def Let_def step_start split: option.splits if_splits sum.splits bool.splits
      intro!: r_into_rtranclp)

lemma launch_steps:
  assumes "launch_queued_work api as_str s run_id L report = Some out"
  shows "fleet_steps L (fst out)"
proof (rule launch_queued_work.raw_induct
    [where P = "\<lambda>api as_str s run_id L report out. fleet_steps L (fst out)", OF _ assms])
  fix launch api as_str s run_id and L :: "'a ledger" and report out
  assume IH: "\<And>api as_str s run_id L report out. launch api as_str s run_id L report = Some out \<Longrightarrow> fleet_steps L (fst out)"
    and body: "(case launch_round api as_str s run_id L report of
      Inl out \<Rightarrow> Some out | Inr next \<Rightarrow> launch api as_str s run_id (fst next) (snd next)) = Some out"
  show "fleet_steps L (fst out)"
  proof (cases "launch_round api as_str s run_id L report")
    case (Inl a)
    with body show ?thesis by (cases a) (auto dest: launch_round_steps(1))
  next
    case (Inr rest)
    then have "fleet_steps L (fst rest)" by (cases rest) (auto dest: launch_round_steps(2))
    moreover have "fleet_steps (fst rest) (fst out)" using IH body Inr by simp
    ultimately show ?thesis by (rule rtranclp_trans)
  qed
qed

section \<open>Retry budget\<close>

definition attempts_of :: "'o ledger \<Rightarrow> string \<Rightarrow> string \<Rightarrow> u32" where
  "attempts_of L run_id task_id =
     (case task_of (rebuild_state L) run_id task_id of Some task \<Rightarrow> fe_attempts (ft_entry task) | None \<Rightarrow> 0)"

lemma alert_tasks [simp]: "fs_tasks (apply_record st (AlertSent r t c ts w a n)) = fs_tasks st"
  by (simp add: apply_record_tasks)

lemma alert_once_tasks [simp]:
  "fs_tasks (rebuild_state (fst (record_failed_attempt_alert_once L r t w a label key ts))) = fs_tasks (rebuild_state L)"
  by (simp add: record_failed_attempt_alert_once_def Let_def split: option.split)

lemma alert_channels_tasks [simp]:
  "fs_tasks (rebuild_state (fst (alert_channels api s r t w a i cs L n))) = fs_tasks (rebuild_state L)"
  by (induction cs arbitrary: i L n) (simp_all add: Let_def)

lemma record_alerts_tasks [simp]:
  "fs_tasks (rebuild_state (fst (record_alerts api s L r t w a spec cls))) = fs_tasks (rebuild_state L)"
  by (simp add: record_alerts_def split: option.split)

lemma record_alerts_attempts [simp]:
  "attempts_of (fst (record_alerts api s L r t w a spec cls)) r' t' = attempts_of L r' t'"
  by (simp add: attempts_of_def)

lemma terminal_task_entry [simp]: "ft_entry (terminal_task w ts status task) = ft_entry task"
  by (simp add: terminal_task_def)

lemma event_tasks_attempts:
  "map_option ft_entry (bt_get (event_tasks e m) k) = map_option ft_entry (bt_get m k)"
  by (simp add: event_tasks_def option.map_comp comp_def split: option.split)

lemma terminal_append_attempts:
  "attempts_of (fst (append_terminal_event_if_lease_unchanged L r w t a n hb ts p)) r' t' = attempts_of L r' t'"
proof -
  have *: "map_option ft_entry (task_of (rebuild_state (L @ [EventAppended e])) r' t') =
      map_option ft_entry (task_of (rebuild_state L) r' t')" for e
    by (simp add: apply_record_tasks event_tasks_attempts)
  have "attempts_of (L @ [EventAppended e]) r' t' = attempts_of L r' t'" for e
    using * [of e] by (auto simp: attempts_of_def split: option.split)
  then show ?thesis by (simp add: append_terminal_event_if_lease_unchanged_def Let_def split: option.split)
qed

lemma restart_attempts:
  assumes "a < m"
  shows "attempts_of (fst (restart_task_if_unchanged_with_callback L r t w old a n hb at x c cb)) r t \<le>
    max (attempts_of L r t) m"
proof (cases "snd (restart_task_if_unchanged_with_callback L r t w old a n hb at x c cb) = Inr True")
  case False
  then have "fst (restart_task_if_unchanged_with_callback L r t w old a n hb at x c cb) = L"
    by (auto simp: restart_task_if_unchanged_with_callback_def Let_def split: option.splits sum.splits if_splits)
  then show ?thesis by simp
next
  case True
  then obtain task where task: "task_of (rebuild_state L) r t = Some task" "fe_attempts (ft_entry task) = a"
    by (auto simp: restart_task_if_unchanged_with_callback_def Let_def split: option.splits if_splits)
  from True have "attempts_of (fst (restart_task_if_unchanged_with_callback L r t w old a n hb at x c cb)) r t = saturating_add a 1"
    using task
    by (auto simp: restart_task_if_unchanged_with_callback_def Let_def attempts_of_def rebuild_append apply_record_tasks
        event_tasks_def worker_event_def leased_task_def split: if_splits sum.splits)
  moreover have "saturating_add a 1 \<le> m"
  proof -
    have "a \<noteq> - 1" using assms word_order.extremum_strict by blast
    then show ?thesis using saturating_add_one(1) [of a] assms by (simp add: inc_le)
  qed
  ultimately show ?thesis by (simp add: le_max_iff_disj)
qed

text \<open>
  Recovery respects the retry budget whatever other managers write between its snapshot and its write:
  it never leases a task beyond the larger of its current attempt number and the limit of its retry policy.
\<close>

theorem retry_respects_budget:
  "attempts_of (fst (retry_or_fail api cb s L st task spec w n hb report)) (fe_run_id (ft_entry task)) (fe_task_id (ft_entry task))
     \<le> max (attempts_of L (fe_run_id (ft_entry task)) (fe_task_id (ft_entry task)))
         (rp_max_attempts (case ts_retry_policy spec of Some p \<Rightarrow> p | None \<Rightarrow> FleetRetryPolicy_default))"
  by (simp add: retry_or_fail_def Let_def restart_attempts terminal_append_attempts split: option.split sum.split)

section \<open>Cancelling a run\<close>

lemma cancel_tasks:
  "fs_tasks (rebuild_state (fst (cancel_task_if_active L r t None ts sig by'))) =
     (case task_of (rebuild_state L) r t of
        Some task \<Rightarrow>
          if ft_status task \<in> {Enqueued, Leased}
          then bt_modify (task_key r t) (terminal_task (case ft_leased_to task of Some w \<Rightarrow> w | None \<Rightarrow> []) ts Cancelled)
            (fs_tasks (rebuild_state L))
          else fs_tasks (rebuild_state L)
      | None \<Rightarrow> fs_tasks (rebuild_state L))"
  by (simp add: cancel_task_if_active_def Let_def rebuild_append apply_record_tasks event_tasks_def worker_event_def
      split: option.split)

definition task_ended :: "'o ledger \<Rightarrow> FleetTaskState \<Rightarrow> bool" where
  "task_ended L task \<longleftrightarrow>
     (case task_of (rebuild_state L) (fe_run_id (ft_entry task)) (fe_task_id (ft_entry task)) of
        None \<Rightarrow> False | Some cur \<Rightarrow> status_is_terminal (ft_status cur))"

definition task_known :: "'o ledger \<Rightarrow> FleetTaskState \<Rightarrow> bool" where
  "task_known L task \<longleftrightarrow> task_of (rebuild_state L) (fe_run_id (ft_entry task)) (fe_task_id (ft_entry task)) \<noteq> None"

lemma terminal_task_status [simp]: "ft_status (terminal_task w ts status task) = status"
  by (simp add: terminal_task_def)

lemma cancelled_terminal [simp]: "status_is_terminal Cancelled"
  by (simp add: status_is_terminal_def)

lemma not_open_terminal: "s \<notin> {Enqueued, Leased} \<Longrightarrow> status_is_terminal s"
  by (cases s) (simp_all add: status_is_terminal_def)

lemma cancel_one_ended:
  "task_known L task \<Longrightarrow> (status_is_terminal (ft_status task) \<Longrightarrow> task_ended L task) \<Longrightarrow>
     task_ended (fst (cancel_one api s reason task L report)) task"
  using not_open_terminal
  by (auto simp: cancel_one_def Let_def task_ended_def task_known_def cancel_tasks split: option.split)

lemma cancel_one_keeps:
  "task_ended L task \<Longrightarrow> task_ended (fst (cancel_one api s reason other L report)) task"
  "task_known L task \<Longrightarrow> task_known (fst (cancel_one api s reason other L report)) task"
  by (auto simp: cancel_one_def Let_def task_ended_def task_known_def cancel_tasks split: option.splits)

lemma cancel_one_entries:
  "bt_get (fs_tasks (rebuild_state (fst (cancel_one api s reason task L report)))) k = Some new \<Longrightarrow>
     \<exists>old. bt_get (fs_tasks (rebuild_state L)) k = Some old \<and> ft_entry new = ft_entry old"
  by (auto simp: cancel_one_def Let_def cancel_tasks split: option.splits if_splits)

lemma cancel_one_result: "\<exists>rep. snd (cancel_one api s reason task L report) = Inr rep"
  by (simp add: cancel_one_def Let_def)

lemma cancel_loop:
  assumes "\<forall>task \<in> set tasks. task_known L task \<and> (status_is_terminal (ft_status task) \<longrightarrow> task_ended L task)"
  shows "(\<forall>task \<in> set tasks. task_ended (fst (for_tasks (cancel_one api s reason) tasks L report)) task) \<and>
    (\<forall>task. task_ended L task \<longrightarrow> task_ended (fst (for_tasks (cancel_one api s reason) tasks L report)) task) \<and>
    (\<exists>rep. snd (for_tasks (cancel_one api s reason) tasks L report) = Inr rep)"
  using assms
proof (induction tasks arbitrary: L report)
  case (Cons task tasks)
  obtain rep where rep: "snd (cancel_one api s reason task L report) = Inr rep" using cancel_one_result by blast
  let ?L = "fst (cancel_one api s reason task L report)"
  have "\<forall>task \<in> set tasks. task_known ?L task \<and> (status_is_terminal (ft_status task) \<longrightarrow> task_ended ?L task)"
    using Cons.prems by (simp add: cancel_one_keeps)
  note IH = Cons.IH [OF this, of rep]
  have "task_ended ?L task" using Cons.prems by (simp add: cancel_one_ended)
  with IH rep show ?case by (simp add: cancel_one_keeps)
qed simp

lemma cancel_loop_entries:
  "bt_get (fs_tasks (rebuild_state (fst (for_tasks (cancel_one api s reason) tasks L report)))) k = Some new \<Longrightarrow>
     \<exists>old. bt_get (fs_tasks (rebuild_state L)) k = Some old \<and> ft_entry new = ft_entry old"
proof (induction tasks arbitrary: L report)
  case (Cons task tasks)
  obtain rep where rep: "snd (cancel_one api s reason task L report) = Inr rep" using cancel_one_result by blast
  from Cons.prems rep have "bt_get (fs_tasks (rebuild_state (fst (for_tasks (cancel_one api s reason) tasks
      (fst (cancel_one api s reason task L report)) rep)))) k = Some new" by simp
  from Cons.IH [OF this] show ?case using cancel_one_entries [of api s reason task L report k] by fastforce
qed auto

lemma run_tasks_iff:
  "task \<in> set (run_tasks st r) \<longleftrightarrow> fe_run_id (ft_entry task) = r \<and> task \<in> set (bt_values (fs_tasks st))"
  by (auto simp: run_tasks_def)

text \<open>
  C18. Cancelling a run ends it: on a ledger that the operations built, when nobody writes in between,
  every task of the run is completed, failed or cancelled afterwards and the run has the status cancelled.
\<close>

theorem cancel_run_ends_all_tasks:
  assumes "fleet_steps [] L" and "cancel_run api s run_id reason L = (L', res)"
  shows "(\<exists>report. res = Inr report) \<and>
    list_all (\<lambda>task. status_is_terminal (ft_status task)) (run_tasks (rebuild_state L') run_id) \<and>
    bt_get (fs_run_status_overrides (rebuild_state L')) run_id = Some RunCancelled"
proof -
  let ?tasks = "run_tasks (rebuild_state L) run_id"
  let ?loop = "for_tasks (cancel_one api s reason) ?tasks L FleetSchedulerReport_default"
  have in_map: "task_of (rebuild_state L) (fe_run_id (ft_entry task)) (fe_task_id (ft_entry task)) = Some task"
    if "task \<in> set (bt_values (fs_tasks (rebuild_state L)))" for task
    using that key.reachable [OF assms(1)] bt_values_iff [OF rebuild_ok, of task L] by (auto simp: keyed_def)
  have "task_known L task \<and> (status_is_terminal (ft_status task) \<longrightarrow> task_ended L task)" if "task \<in> set ?tasks" for task
  proof -
    have "task \<in> set (bt_values (fs_tasks (rebuild_state L)))" using that by (simp add: run_tasks_iff)
    from in_map [OF this] show ?thesis by (simp add: task_known_def task_ended_def)
  qed
  then have "\<forall>task \<in> set ?tasks. task_known L task \<and> (status_is_terminal (ft_status task) \<longrightarrow> task_ended L task)"
    by blast
  from cancel_loop [OF this] obtain rep where rep: "snd ?loop = Inr rep"
    and ended: "\<forall>task \<in> set ?tasks. task_ended (fst ?loop) task" by blast
  have L': "L' = update_run_status (fst ?loop) run_id RunCancelled (scheduler_timestamp api s)" "res = Inr rep"
    using assms(2) rep by (simp_all add: cancel_run_def)
  have tasks: "fs_tasks (rebuild_state L') = fs_tasks (rebuild_state (fst ?loop))"
    by (simp add: L' update_run_status_def apply_record_tasks)
  have reach: "fleet_steps [] (fst ?loop)" using rtranclp_trans [OF assms(1) cancel_loop_steps] .
  have "status_is_terminal (ft_status task)" if t: "task \<in> set (run_tasks (rebuild_state L') run_id)" for task
  proof -
    from t have run: "fe_run_id (ft_entry task) = run_id" and "task \<in> set (bt_values (fs_tasks (rebuild_state (fst ?loop))))"
      by (simp_all add: run_tasks_iff tasks)
    then obtain k where k: "bt_get (fs_tasks (rebuild_state (fst ?loop))) k = Some task"
      using bt_values_iff [OF rebuild_ok] by blast
    from cancel_loop_entries [OF k] obtain old where old: "bt_get (fs_tasks (rebuild_state L)) k = Some old"
      "ft_entry task = ft_entry old" by blast
    then have "old \<in> set ?tasks" using run bt_values_iff [OF rebuild_ok, of old L] by (auto simp: run_tasks_iff)
    with ended have "task_ended (fst ?loop) old" by blast
    moreover have "k = task_key (fe_run_id (ft_entry task)) (fe_task_id (ft_entry task))"
      using key.reachable [OF reach] k by (simp add: keyed_def)
    ultimately show ?thesis using k old(2) by (simp add: task_ended_def)
  qed
  then show ?thesis using L' by (simp add: list_all_iff update_run_status_def apply_record_def)
qed

section \<open>Selection respects the limits\<close>

definition task_host :: "'o FleetRun \<Rightarrow> FleetTaskState \<Rightarrow> string option" where
  "task_host run task =
     map_option host_key (Option.bind (ft_leased_to task) (\<lambda>w. List.find (\<lambda>worker. ws_id worker = w) (fr_worker_specs run)))"

definition class_of :: "('o \<Rightarrow> string option) \<Rightarrow> 'o FleetRun \<Rightarrow> FleetTaskState \<Rightarrow> string option" where
  "class_of as_str run task =
     map_option (task_class as_str) (List.find (\<lambda>spec. ts_id spec = fe_task_id (ft_entry task)) (fr_task_specs run))"

definition on_host :: "'o FleetRun \<Rightarrow> 'o FleetLedgerState \<Rightarrow> string \<Rightarrow> nat" where
  "on_host run st host = length (filter (\<lambda>task. task_host run task = Some host) (active_tasks_for_run st (fr_id run)))"

definition in_class :: "('o \<Rightarrow> string option) \<Rightarrow> 'o FleetRun \<Rightarrow> 'o FleetLedgerState \<Rightarrow> string \<Rightarrow> nat" where
  "in_class as_str run st cls =
     length (filter (\<lambda>task. class_of as_str run task = Some cls) (active_tasks_for_run st (fr_id run)))"

lemma count_of_Nil [simp]: "count_of [] k = 0"
  by (simp add: count_of_def)

lemma count_bump: "count_of (bump key m) k = count_of m k + (if k = key then 1 else 0)"
  by (simp add: count_of_def bump_def split: option.split)

lemma count_task_counts:
  "count_of (by_host (count_task as_str run c task)) h = count_of (by_host c) h + (if task_host run task = Some h then 1 else 0)"
  "count_of (by_task_class (count_task as_str run c task)) h =
     count_of (by_task_class c) h + (if class_of as_str run task = Some h then 1 else 0)"
  by (auto simp: count_task_def Let_def task_host_def class_of_def count_bump split: option.split)

lemma fold_counts:
  "count_of (by_host (foldl (count_task as_str run) c ts)) h =
     count_of (by_host c) h + length (filter (\<lambda>task. task_host run task = Some h) ts)"
  "count_of (by_task_class (foldl (count_task as_str run) c ts)) h =
     count_of (by_task_class c) h + length (filter (\<lambda>task. class_of as_str run task = Some h) ts)"
  by (induction ts arbitrary: c) (simp_all add: count_task_counts)

lemma active_counts_exact:
  "count_of (by_host (active_counts as_str st run)) h = on_host run st h"
  "count_of (by_task_class (active_counts as_str st run)) h = in_class as_str run st h"
  by (simp_all add: active_counts_def fold_counts on_host_def in_class_def)

lemma launch_scan_Some:
  assumes "launch_scan as_str s run counts active queued = Some (w, task)"
  shows "\<exists>pre post worker cls. queued = pre @ task # post \<and> worker \<in> set (fr_worker_specs run) \<and> ws_id worker = w \<and>
    worker_is_free s counts active worker \<and> class_of as_str run task = Some cls \<and>
    count_of (by_task_class counts) cls < sp_max_workers_per_task_class (sc_policy s) \<and>
    list_all (\<lambda>other. \<exists>c. class_of as_str run other = Some c \<and>
      sp_max_workers_per_task_class (sc_policy s) \<le> count_of (by_task_class counts) c) pre"
  using assms
proof (induction queued)
  case (Cons t queued)
  from Cons.prems obtain spec where spec: "List.find (\<lambda>spec. ts_id spec = fe_task_id (ft_entry t)) (fr_task_specs run) = Some spec"
    by (auto split: option.splits)
  then have cls: "class_of as_str run t = Some (task_class as_str spec)" by (simp add: class_of_def)
  show ?case
  proof (cases "sp_max_workers_per_task_class (sc_policy s) \<le> count_of (by_task_class counts) (task_class as_str spec)")
    case True
    with Cons.prems spec have "launch_scan as_str s run counts active queued = Some (w, task)" by simp
    from Cons.IH [OF this] obtain pre post worker c where "queued = pre @ task # post"
      "worker \<in> set (fr_worker_specs run) \<and> ws_id worker = w \<and> worker_is_free s counts active worker \<and>
       class_of as_str run task = Some c \<and> count_of (by_task_class counts) c < sp_max_workers_per_task_class (sc_policy s)"
      "list_all (\<lambda>other. \<exists>c. class_of as_str run other = Some c \<and>
        sp_max_workers_per_task_class (sc_policy s) \<le> count_of (by_task_class counts) c) pre" by blast
    with True cls show ?thesis
      by (intro exI [of _ "t # pre"] exI [of _ post] exI [of _ worker] exI [of _ c]) auto
  next
    case False
    have "launch_scan as_str s run counts active queued \<noteq> Some (w, task)"
      if "List.find (worker_is_free s counts active) (fr_worker_specs run) = None"
      using that Cons.IH by (metis find_None_iff)
    then obtain worker where "List.find (worker_is_free s counts active) (fr_worker_specs run) = Some worker"
      using Cons.prems spec False by (auto split: option.splits)
    moreover from this have "worker \<in> set (fr_worker_specs run)" "worker_is_free s counts active worker"
      by (auto simp: find_Some_iff)
    ultimately show ?thesis using Cons.prems spec False cls
      by (intro exI [of _ "[]"] exI [of _ queued] exI [of _ worker] exI [of _ "task_class as_str spec"]) auto
  qed
qed simp

lemma sorted_prefix:
  fixes f :: "'a \<Rightarrow> 'k :: linorder"
  assumes "sorted (map f (pre @ x # post))" and "y \<in> set (pre @ x # post)" and "f y < f x"
  shows "y \<in> set pre"
  using assms by (auto simp: sorted_append)

text \<open>
  A launch is chosen within all limits and in queue order: the worker belongs to the run and has no
  active task of it, the active tasks on its host and of the task's class are below their limits, and every
  queued task that comes earlier in the order of priority, time and id has a class at its limit.
\<close>

theorem next_launch_within_limits:
  assumes "next_launch as_str s run st (active_counts as_str st run) = Some (w, task)"
  shows "(\<exists>worker cls. worker \<in> set (fr_worker_specs run) \<and> ws_id worker = w \<and> class_of as_str run task = Some cls \<and>
      on_host run st (host_key worker) < sp_max_workers_per_host (sc_policy s) \<and>
      in_class as_str run st cls < sp_max_workers_per_task_class (sc_policy s)) \<and>
    list_all (\<lambda>t. ft_leased_to t \<noteq> Some w) (active_tasks_for_run st (fr_id run)) \<and>
    task \<in> set (queued_tasks st (fr_id run)) \<and>
    list_all (\<lambda>other. queue_order other < queue_order task \<longrightarrow>
      (\<exists>c. class_of as_str run other = Some c \<and> sp_max_workers_per_task_class (sc_policy s) \<le> in_class as_str run st c))
      (queued_tasks st (fr_id run))"
proof -
  from launch_scan_Some [OF assms [unfolded next_launch_def]] obtain pre post worker cls where
    q: "queued_tasks st (fr_id run) = pre @ task # post" and
    w: "worker \<in> set (fr_worker_specs run)" "ws_id worker = w"
      "worker_is_free s (active_counts as_str st run) (List.map_filter ft_leased_to (active_tasks_for_run st (fr_id run))) worker" and
    c: "class_of as_str run task = Some cls"
      "count_of (by_task_class (active_counts as_str st run)) cls < sp_max_workers_per_task_class (sc_policy s)" and
    pre: "list_all (\<lambda>other. \<exists>c. class_of as_str run other = Some c \<and>
      sp_max_workers_per_task_class (sc_policy s) \<le> in_class as_str run st c) pre"
    by (auto simp: active_counts_exact)
  have idle: "list_all (\<lambda>t. ft_leased_to t \<noteq> Some w) (active_tasks_for_run st (fr_id run))"
    using w(2,3) by (auto simp: worker_is_free_def list_all_iff set_map_filter_eq)
  have "sorted (map queue_order (queued_tasks st (fr_id run)))" by (simp add: queued_tasks_def)
  then have "other \<in> set pre" if "other \<in> set (queued_tasks st (fr_id run))" "queue_order other < queue_order task" for other
    using that unfolding q by (rule sorted_prefix)
  then have "list_all (\<lambda>other. queue_order other < queue_order task \<longrightarrow>
      (\<exists>c. class_of as_str run other = Some c \<and> sp_max_workers_per_task_class (sc_policy s) \<le> in_class as_str run st c))
      (queued_tasks st (fr_id run))"
    using pre by (auto simp: list_all_iff)
  with w c idle show ?thesis by (auto simp: q active_counts_exact worker_is_free_def)
qed

section \<open>The launch loop\<close>

lemma index_event_runs [simp]: "fs_runs (index_event st e b) = fs_runs st"
  by (cases "we_payload e") (simp_all add: index_event_def Let_def)

lemma apply_event_runs [simp]: "fs_runs (apply_event st e) = fs_runs st"
  by (cases "we_payload e") (simp_all add: apply_event_def Let_def project_event_def mark_task_terminal_def set_worker_def)

text \<open>A launch leases the task and changes nothing else of the task table and the runs.\<close>

lemma start_effect:
  assumes "start_task_if_enqueued L r t w at x m (launch_payloads y) (Inr ()) = (L', Inr True)"
  shows "fs_tasks (rebuild_state L') = bt_modify (task_key r t) (leased_task w at x) (fs_tasks (rebuild_state L)) \<and>
    fs_runs (rebuild_state L') = fs_runs (rebuild_state L)"
proof -
  from assms have "L' = L @ [TaskLeased r t w at x] @
      initial_event_records (latest_event_seq (rebuild_state L) w r t + 1) r w t at (launch_payloads y) @
      [Heartbeat w at None None]"
    by (auto simp: start_task_if_enqueued_def lease_task_if_enqueued_with_events_def Let_def
        split: option.splits if_splits)
  then show ?thesis
    by (simp add: rebuild_append launch_payloads_def apply_record_tasks event_tasks_def worker_event_def,
      simp add: apply_record_def Let_def set_worker_def)
qed

definition unshared :: "'o ledger \<Rightarrow> 'o FleetRun \<Rightarrow> bool" where
  "unshared L run \<longleftrightarrow>
     (\<forall>worker \<in> set (fr_worker_specs run). \<forall>task \<in> set (bt_values (fs_tasks (rebuild_state L))).
        leased_by (ws_id worker) task \<longrightarrow> fe_run_id (ft_entry task) = fr_id run)"

lemma start_succeeds:
  assumes "task_of (rebuild_state L) r t = Some task" and "ft_status task = Enqueued"
    and "\<not> list_ex (leased_by w) (bt_values (fs_tasks (rebuild_state L)))" and "active_for_run (rebuild_state L) r < m"
  shows "snd (start_task_if_enqueued L r t w at x (Some m) evs (Inr ())) = Inr True"
  using assms by (simp add: start_task_if_enqueued_def lease_task_if_enqueued_with_events_def Let_def)

definition queued_count :: "'o ledger \<Rightarrow> nat" where
  "queued_count L = count_values (\<lambda>task. ft_status task = Enqueued) (fs_tasks (rebuild_state L))"

lemma count_modify_less:
  assumes "bt_get m k = Some v" and "P v" and "\<And>v. \<not> P (f v)"
  shows "count_values P (bt_modify k f m) < count_values P m"
  using assms(1,2)
proof (induction m)
  case (Cons e m)
  show ?case
  proof (cases "fst e = k")
    case True
    with Cons.prems assms(3) count_modify_false [of P f k m] show ?thesis
      by (cases e) (simp add: count_values_def bt_values_def bt_modify_def)
  next
    case False
    with Cons show ?thesis by (cases e) (auto simp: count_values_def bt_values_def bt_modify_def)
  qed
qed simp

lemma round_progress:
  assumes reach: "fleet_steps [] L" and run: "bt_get (fs_runs (rebuild_state L)) run_id = Some run" "fr_id run = run_id"
    and free: "unshared L run" and cont: "launch_round api as_str s run_id L report = Inr (L', report')"
  shows "queued_count L' < queued_count L \<and> unshared L' run \<and> bt_get (fs_runs (rebuild_state L')) run_id = Some run"
proof -
  let ?st = "rebuild_state L" and ?at = "scheduler_timestamp api s" and ?x = "scheduler_lease_expires_at api s"
    and ?m = "sp_max_workers_per_run (sc_policy s)"
  obtain w task where cap: "length (active_tasks_for_run ?st run_id) < ?m"
    and pick: "next_launch as_str s run ?st (active_counts as_str ?st run) = Some (w, task)"
    and out: "L' = fst (start_task_if_enqueued L (fe_run_id (ft_entry task)) (fe_task_id (ft_entry task)) w ?at (Some ?x)
      (Some ?m) (launch_payloads ?x) (Inr ()))"
    using cont by (auto simp: launch_round_def Let_def run split: option.splits if_splits sum.splits bool.splits)
  let ?r = "fe_run_id (ft_entry task)" and ?t = "fe_task_id (ft_entry task)"
  obtain pre post worker where q: "queued_tasks ?st run_id = pre @ task # post"
    and w: "worker \<in> set (fr_worker_specs run)" "ws_id worker = w"
    and idle: "w \<notin> set (List.map_filter ft_leased_to (active_tasks_for_run ?st run_id))"
    using launch_scan_Some [OF pick [unfolded next_launch_def]] run(2) by (auto simp: worker_is_free_def)
  have "task \<in> set (queued_tasks ?st run_id)" by (simp add: q)
  then have task: "task \<in> set (bt_values (fs_tasks ?st))" "?r = run_id" "ft_status task = Enqueued"
    by (auto simp: queued_tasks_def)
  then have at_key: "task_of ?st ?r ?t = Some task"
    using key.reachable [OF reach] bt_values_iff [OF rebuild_ok, of task L] by (auto simp: keyed_def)
  have "\<not> list_ex (leased_by w) (bt_values (fs_tasks ?st))"
  proof
    assume "list_ex (leased_by w) (bt_values (fs_tasks ?st))"
    then obtain t where "t \<in> set (bt_values (fs_tasks ?st))" "leased_by w t" by (auto simp: list_ex_iff)
    with free w run(2) have "t \<in> set (active_tasks_for_run ?st run_id)" "ft_leased_to t = Some w"
      by (auto simp: unshared_def active_tasks_for_run_def leased_by_def)
    with idle show False by (auto simp: set_map_filter_eq)
  qed
  moreover have "active_for_run ?st ?r < ?m"
    using cap task(2) by (simp add: active_for_run_def active_tasks_for_run_def conj_commute)
  ultimately have "snd (start_task_if_enqueued L ?r ?t w ?at (Some ?x) (Some ?m) (launch_payloads ?x) (Inr ())) = Inr True"
    using at_key task(3) by (intro start_succeeds)
  then have eff: "fs_tasks (rebuild_state L') = bt_modify (task_key ?r ?t) (leased_task w ?at (Some ?x)) (fs_tasks ?st)"
    "fs_runs (rebuild_state L') = fs_runs ?st"
    using start_effect [of L ?r ?t w ?at "Some ?x" "Some ?m" ?x L'] out by (simp_all add: prod_eq_iff)
  have "queued_count L' < queued_count L"
    unfolding queued_count_def eff(1)
    using count_modify_less [OF at_key, of "\<lambda>task. ft_status task = Enqueued"] task(3) by (simp add: leased_task_def)
  moreover have "unshared L' run"
    unfolding unshared_def
  proof (intro ballI impI)
    fix v t assume v: "v \<in> set (fr_worker_specs run)" "leased_by (ws_id v) t"
      and "t \<in> set (bt_values (fs_tasks (rebuild_state L')))"
    then obtain k where k: "bt_get (fs_tasks (rebuild_state L')) k = Some t" using bt_values_iff [OF rebuild_ok] by blast
    show "fe_run_id (ft_entry t) = fr_id run"
    proof (cases "k = task_key ?r ?t")
      case True
      with k at_key task(2) run(2) show ?thesis by (auto simp: eff(1) leased_task_def)
    next
      case False
      with k have "t \<in> set (bt_values (fs_tasks ?st))" using bt_get_value by (fastforce simp: eff(1))
      with free v show ?thesis by (simp add: unshared_def)
    qed
  qed
  ultimately show ?thesis using run eff(2) by simp
qed

text \<open>
  The launch loop returns: on a ledger that the operations built, if no worker of the run holds a lease
  of another run, every round starts a queued task, so the loop ends with a result.
\<close>

theorem launch_loop_returns:
  assumes "fleet_steps [] L" and "bt_get (fs_runs (rebuild_state L)) run_id = Some run" and "fr_id run = run_id"
    and "unshared L run"
  shows "\<exists>out. launch_queued_work api as_str s run_id L report = Some out"
  using assms
proof (induction "queued_count L" arbitrary: L report rule: less_induct)
  case less
  show ?case
  proof (cases "launch_round api as_str s run_id L report")
    case (Inl out)
    then show ?thesis by (subst launch_queued_work.simps) simp
  next
    case (Inr rest)
    obtain L' report' where rest: "rest = (L', report')" by force
    have "fleet_steps [] L'" using less.prems(1) launch_round_steps(2) [OF Inr [unfolded rest]] by (rule rtranclp_trans)
    from less.hyps [OF _ this] obtain out where "launch_queued_work api as_str s run_id L' report' = Some out"
      using round_progress [OF less.prems Inr [unfolded rest]] less.prems(3) by blast
    with Inr show ?thesis by (subst launch_queued_work.simps) (simp add: rest)
  qed
qed

section \<open>Two runs with one worker\<close>

definition demo_time :: time_api where
  "demo_time = \<lparr>parse_from_rfc3339 = \<lambda>_. None, to_rfc3339_opts = \<lambda>_. ''09:00''\<rparr>"

definition demo_scheduler :: FleetScheduler where
  "demo_scheduler = \<lparr>sc_policy = FleetSchedulerPolicy_default, sc_now = 0\<rparr>"

definition small_run :: "string \<Rightarrow> string \<Rightarrow> unit FleetRun" where
  "small_run run_id task_id = \<lparr>fr_id = run_id, fr_max_workers = None,
     fr_task_specs = [\<lparr>ts_id = task_id, ts_retry_policy = None, ts_alert_policy = None, ts_metadata = [], ts_body = ()\<rparr>],
     fr_worker_specs = [\<lparr>ws_id = ''w1'', ws_host = LocalHost, ws_body = ()\<rparr>], fr_updated_at = None, fr_body = ()\<rparr>"

definition add_run :: "unit ledger \<Rightarrow> string \<Rightarrow> string \<Rightarrow> unit ledger" where
  "add_run L run_id task_id = enqueue (create_run L (small_run run_id task_id)) ((demo_entry task_id)\<lparr>fe_run_id := run_id\<rparr>)"

definition single_run :: "unit ledger" where
  "single_run = add_run [] ''r1'' ''a''"

definition shared_worker :: "unit ledger" where
  "shared_worker = fst (start_task_if_enqueued (add_run single_run ''r2'' ''b'') ''r1'' ''a'' ''w1'' ''08:00'' None None [] (Inr ()))"

lemma add_run_steps: "fleet_steps L (add_run L run_id task_id)"
  unfolding add_run_def by (rule rtranclp.rtrancl_into_rtrancl [OF r_into_rtranclp]) (rule step_create step_enqueue)+

lemma demo_runs_reachable: "fleet_steps [] single_run" "fleet_steps [] shared_worker"
proof -
  show r: "fleet_steps [] single_run" unfolding single_run_def by (rule add_run_steps)
  have "fleet_step (add_run single_run ''r2'' ''b'') shared_worker" unfolding shared_worker_def by (rule step_start)
  with rtranclp_trans [OF r add_run_steps] show "fleet_steps [] shared_worker" by (rule rtranclp.rtrancl_into_rtrancl)
qed

theorem launch_loop_returns_witness:
  "\<exists>out. launch_queued_work demo_time (\<lambda>_. None) demo_scheduler ''r1'' single_run FleetSchedulerReport_default = Some out"
proof (rule launch_loop_returns [OF demo_runs_reachable(1)])
  show "bt_get (fs_runs (rebuild_state single_run)) ''r1'' = Some (small_run ''r1'' ''a'')" by code_simp
  show "fr_id (small_run ''r1'' ''a'') = ''r1''" by (simp add: small_run_def)
  show "unshared single_run (small_run ''r1'' ''a'')" by code_simp
qed

theorem cancel_run_ends_all_tasks_witness:
  "map_option ft_status (task_of (rebuild_state shared_worker) ''r1'' ''a'') = Some Leased \<and>
   list_all (\<lambda>task. status_is_terminal (ft_status task))
     (run_tasks (rebuild_state (fst (cancel_run demo_time demo_scheduler ''r1'' ''stop'' shared_worker))) ''r1'')"
proof
  show "map_option ft_status (task_of (rebuild_state shared_worker) ''r1'' ''a'') = Some Leased" by code_simp
  from cancel_run_ends_all_tasks [OF demo_runs_reachable(2) prod.collapse [symmetric], of demo_time demo_scheduler "''r1''" "''stop''"]
  show "list_all (\<lambda>task. status_is_terminal (ft_status task))
     (run_tasks (rebuild_state (fst (cancel_run demo_time demo_scheduler ''r1'' ''stop'' shared_worker))) ''r1'')" by blast
qed

theorem next_launch_within_limits_witness:
  "list_all (\<lambda>t. ft_leased_to t \<noteq> Some ''w1'') (active_tasks_for_run (rebuild_state single_run) ''r1'')"
proof -
  let ?run = "small_run ''r1'' ''a''" and ?st = "rebuild_state single_run"
  have "map_option fst (next_launch (\<lambda>_. None) demo_scheduler ?run ?st (active_counts (\<lambda>_. None) ?st ?run)) = Some ''w1''"
    by code_simp
  then obtain task where "next_launch (\<lambda>_. None) demo_scheduler ?run ?st (active_counts (\<lambda>_. None) ?st ?run) = Some (''w1'', task)"
    by auto
  from next_launch_within_limits [OF this] show ?thesis by (simp add: small_run_def)
qed

text \<open>
  The launch loop can spin: when the only worker of a run is busy with another run, the loop picks it
  again and again, every start is refused, and the loop never returns.
\<close>

theorem launch_loop_spins:
  "launch_queued_work demo_time (\<lambda>_. None) demo_scheduler ''r2'' shared_worker FleetSchedulerReport_default = None"
proof (rule ccontr)
  let ?spin = "(demo_time, \<lambda>_ :: unit. None :: string option, demo_scheduler, ''r2'', shared_worker, FleetSchedulerReport_default)"
  have round: "launch_round demo_time (\<lambda>_. None) demo_scheduler ''r2'' shared_worker FleetSchedulerReport_default =
      Inr (shared_worker, FleetSchedulerReport_default)" by code_simp
  assume "launch_queued_work demo_time (\<lambda>_. None) demo_scheduler ''r2'' shared_worker FleetSchedulerReport_default \<noteq> None"
  then obtain out where out: "launch_queued_work demo_time (\<lambda>_. None) demo_scheduler ''r2'' shared_worker
      FleetSchedulerReport_default = Some out" by blast
  have "?spin \<noteq> ?spin"
  proof (rule launch_queued_work.raw_induct
      [where P = "\<lambda>api as_str s run_id L report out. (api, as_str, s, run_id, L, report) \<noteq> ?spin", OF _ out])
    fix launch api as_str s run_id L report out
    assume IH: "\<And>api as_str s run_id L report out. launch api as_str s run_id L report = Some out \<Longrightarrow>
        (api, as_str, s, run_id, L, report) \<noteq> ?spin"
      and body: "(case launch_round api as_str s run_id L report of
        Inl out \<Rightarrow> Some out | Inr next \<Rightarrow> launch api as_str s run_id (fst next) (snd next)) = Some out"
    show "(api, as_str, s, run_id, L, report) \<noteq> ?spin"
    proof
      assume eq: "(api, as_str, s, run_id, L, report) = ?spin"
      with body round have "launch api as_str s run_id L report = Some out" by simp
      from IH [OF this] eq show False by blast
    qed
  qed
  then show False by simp
qed

section \<open>Run status\<close>

text \<open>
  The status of a run reflects all its tasks: it is completed exactly if every task is completed,
  running exactly if some task is queued or leased, and otherwise failed exactly if some task has failed.
\<close>

theorem run_status_exact:
  "bt_get (fs_run_status_overrides (rebuild_state (refresh_run_status api s run_id L))) run_id =
     Some (run_status_of (run_tasks (rebuild_state L) run_id)) \<and>
   (run_status_of tasks = RunCompleted \<longleftrightarrow> list_all (\<lambda>task. ft_status task = Completed) tasks) \<and>
   (run_status_of tasks = RunRunning \<longleftrightarrow> list_ex (\<lambda>task. ft_status task = Enqueued \<or> ft_status task = Leased) tasks) \<and>
   (run_status_of tasks = RunFailed \<longleftrightarrow> list_all (\<lambda>task. status_is_terminal (ft_status task)) tasks \<and>
      list_ex (\<lambda>task. ft_status task = Failed) tasks)"
proof -
  have c: "x = Completed \<longleftrightarrow> x \<noteq> Enqueued \<and> x \<noteq> Leased \<and> x \<noteq> Failed \<and> x \<noteq> Cancelled" for x by (cases x) simp_all
  have t: "status_is_terminal x \<longleftrightarrow> x \<noteq> Enqueued \<and> x \<noteq> Leased" for x by (cases x) (simp_all add: status_is_terminal_def)
  have "run_status_of tasks = RunCompleted \<longleftrightarrow> list_all (\<lambda>task. ft_status task = Completed) tasks"
    unfolding c by (auto simp: run_status_of_def Let_def list_ex_iff list_all_iff)
  moreover have "run_status_of tasks = RunRunning \<longleftrightarrow> list_ex (\<lambda>task. ft_status task = Enqueued \<or> ft_status task = Leased) tasks"
    by (auto simp: run_status_of_def Let_def list_ex_iff)
  moreover have "run_status_of tasks = RunFailed \<longleftrightarrow> list_all (\<lambda>task. status_is_terminal (ft_status task)) tasks \<and>
      list_ex (\<lambda>task. ft_status task = Failed) tasks"
    unfolding t by (auto simp: run_status_of_def Let_def list_ex_iff list_all_iff)
  ultimately show ?thesis by (simp add: refresh_run_status_def update_run_status_def apply_record_def)
qed

end
