(* ===== verification/Review_Repair.thy ===== *)
theory Review_Repair
  imports Rust_Str
begin

text \<open>
  The bounded review-repair loop (\<open>workflow/src/review_repair.rs\<close>): ceilings, route receipts, the iteration
  protocol and human ratification. An operation takes the loop and gives the loop afterwards with its
  result; refusals are left values.
\<close>

section \<open>Model\<close>

record ReviewRepairBounds =
  rb_max_iterations :: u32
  rb_max_wall_clock_secs :: u64
  rb_max_tool_calls :: u32

definition conservative :: ReviewRepairBounds where
  "conservative = \<lparr>rb_max_iterations = 3, rb_max_wall_clock_secs = 900, rb_max_tool_calls = 120\<rparr>"

datatype RoutedBy = Fleet | Router string string | SessionDefault

fun routed_label :: "RoutedBy \<Rightarrow> string" where
  "routed_label Fleet = ''fleet''"
| "routed_label (Router provider model) = ''router '' @ provider @ ''/'' @ model"
| "routed_label SessionDefault = ''session default''"

record RouteReceipt =
  rr_role :: string
  rr_provider :: string
  rr_model :: string
  rr_requested_reasoning :: string
  rr_effective_reasoning :: string
  rr_routed_by :: RoutedBy

definition route_is_complete :: "RouteReceipt \<Rightarrow> bool" where
  "route_is_complete r \<longleftrightarrow>
     trim (rr_role r) \<noteq> [] \<and> trim (rr_provider r) \<noteq> [] \<and> trim (rr_model r) \<noteq> [] \<and>
     trim (rr_requested_reasoning r) \<noteq> [] \<and> trim (rr_effective_reasoning r) \<noteq> []"

definition ARROW :: string where
  "ARROW = [CHR 0xE2, CHR 0x86, CHR 0x92]"

definition display_line :: "RouteReceipt \<Rightarrow> string" where
  "display_line r =
     (let reasoning = (if rr_requested_reasoning r = rr_effective_reasoning r then rr_effective_reasoning r
            else rr_requested_reasoning r @ ARROW @ rr_effective_reasoning r)
      in rr_role r @ '': '' @ rr_provider r @ ''/'' @ rr_model r @ '' reasoning '' @ reasoning @
         '' (routed by '' @ routed_label (rr_routed_by r) @ '')'')"

datatype IterationVerdict = Clean | RepairsNeeded | InconclusiveVerdict

record IterationReceipt =
  it_iteration :: u32
  it_input_digest :: string
  it_reviewer :: RouteReceipt
  it_verifier :: "RouteReceipt option"
  it_verdict :: IterationVerdict
  it_finding_summaries :: "string list"
  it_tool_calls_used :: u32
  it_elapsed_secs :: u64

datatype RepairStop =
    Verified
  | RatificationDeclined string
  | AwaitingRatification
  | IterationCeiling u32
  | TimeCeiling u64 u64
  | ToolCeiling u32 u32
  | StaleInput string string
  | Inconclusive string

fun stop_is_success :: "RepairStop \<Rightarrow> bool" where
  "stop_is_success Verified = True"
| "stop_is_success _ = False"

fun stop_is_ceiling :: "RepairStop \<Rightarrow> bool" where
  "stop_is_ceiling (IterationCeiling _) = True"
| "stop_is_ceiling (TimeCeiling _ _) = True"
| "stop_is_ceiling (ToolCeiling _ _) = True"
| "stop_is_ceiling _ = False"

fun stop_receipt :: "RepairStop \<Rightarrow> string" where
  "stop_receipt Verified = ''verified''"
| "stop_receipt (RatificationDeclined note) = ''ratification declined: '' @ note"
| "stop_receipt AwaitingRatification = ''clean; awaiting human ratification before this counts as done''"
| "stop_receipt (IterationCeiling m) = ''stopped at the iteration ceiling ('' @ show_nat (unat m) @ '')''"
| "stop_receipt (TimeCeiling m e) =
     ''stopped at the time ceiling ('' @ show_nat (unat e) @ ''s of '' @ show_nat (unat m) @ ''s)''"
| "stop_receipt (ToolCeiling m u) =
     ''stopped at the tool ceiling ('' @ show_nat (unat u) @ '' of '' @ show_nat (unat m) @ '' calls)''"
| "stop_receipt (StaleInput pinned reported) =
     ''stopped: input changed under review (pinned '' @ pinned @ '', reported '' @ reported @ '')''"
| "stop_receipt (Inconclusive reason) = ''stopped: no usable verdict ('' @ reason @ '')''"

record ReviewRepairPolicy =
  rq_require_human_ratification :: bool
  rq_require_verifier_receipt :: bool

definition ReviewRepairPolicy_default :: ReviewRepairPolicy where
  "ReviewRepairPolicy_default = \<lparr>rq_require_human_ratification = True, rq_require_verifier_receipt = True\<rparr>"

record ReviewRepairLoop =
  rl_lane_id :: string
  rl_bounds :: ReviewRepairBounds
  rl_policy :: ReviewRepairPolicy
  rl_pinned_input_digest :: string
  rl_iterations :: "IterationReceipt list"
  rl_elapsed_secs :: u64
  rl_tool_calls_used :: u32
  rl_stopped :: "RepairStop option"

datatype ReviewRepairError =
  AlreadyStopped RepairStop | StoppedNow RepairStop | IncompleteReceipt string

fun error_stop_reason :: "ReviewRepairError \<Rightarrow> RepairStop option" where
  "error_stop_reason (AlreadyStopped reason) = Some reason"
| "error_stop_reason (StoppedNow reason) = Some reason"
| "error_stop_reason (IncompleteReceipt _) = None"

fun error_display :: "ReviewRepairError \<Rightarrow> string" where
  "error_display (AlreadyStopped reason) = ''review-repair already stopped: '' @ stop_receipt reason"
| "error_display (StoppedNow reason) = stop_receipt reason"
| "error_display (IncompleteReceipt detail) = ''review-repair receipt is unusable: '' @ detail"

definition ReviewRepairLoop_new ::
  "string \<Rightarrow> string \<Rightarrow> ReviewRepairBounds \<Rightarrow> ReviewRepairPolicy \<Rightarrow> ReviewRepairLoop" where
  "ReviewRepairLoop_new lane_id pinned bounds policy =
     \<lparr>rl_lane_id = lane_id, rl_bounds = bounds, rl_policy = policy, rl_pinned_input_digest = pinned,
      rl_iterations = [], rl_elapsed_secs = 0, rl_tool_calls_used = 0, rl_stopped = None\<rparr>"

definition stop_loop :: "ReviewRepairLoop \<Rightarrow> RepairStop \<Rightarrow> ReviewRepairLoop" where
  "stop_loop l reason = l\<lparr>rl_stopped := Some reason\<rparr>"

definition begin_iteration :: "ReviewRepairLoop \<Rightarrow> ReviewRepairLoop \<times> (ReviewRepairError + u32)" where
  "begin_iteration l =
     (let b = rl_bounds l; halt = (\<lambda>reason. (stop_loop l reason, Inl (StoppedNow reason)))
      in case rl_stopped l of
           Some reason \<Rightarrow> (l, Inl (AlreadyStopped reason))
         | None \<Rightarrow>
             (let next = word_of_nat (length (rl_iterations l)) + 1
              in if rb_max_iterations b < next then halt (IterationCeiling (rb_max_iterations b))
                 else if rb_max_wall_clock_secs b \<le> rl_elapsed_secs l
                 then halt (TimeCeiling (rb_max_wall_clock_secs b) (rl_elapsed_secs l))
                 else if rb_max_tool_calls b \<le> rl_tool_calls_used l
                 then halt (ToolCeiling (rb_max_tool_calls b) (rl_tool_calls_used l))
                 else (l, Inr next)))"

text \<open>The checks on a receipt, in their order: the refusal and whether it ends the loop.\<close>

definition receipt_refusal :: "ReviewRepairLoop \<Rightarrow> IterationReceipt \<Rightarrow> ReviewRepairError option" where
  "receipt_refusal l receipt =
     (if it_input_digest receipt \<noteq> rl_pinned_input_digest l
      then Some (StoppedNow (StaleInput (rl_pinned_input_digest l) (it_input_digest receipt)))
      else if \<not> route_is_complete (it_reviewer receipt)
      then Some (IncompleteReceipt (''reviewer route for iteration '' @ show_nat (unat (it_iteration receipt)) @
        '' is missing identity fields''))
      else if rq_require_verifier_receipt (rl_policy l)
      then (case it_verifier receipt of
          None \<Rightarrow> Some (StoppedNow (Inconclusive ''policy requires a verifier receipt and none was produced''))
        | Some verifier \<Rightarrow>
            if \<not> route_is_complete verifier
            then Some (IncompleteReceipt (''verifier route for iteration '' @ show_nat (unat (it_iteration receipt)) @
              '' is missing identity fields''))
            else None)
      else None)"

text \<open>The decision after the receipt has been booked.\<close>

definition after_iteration :: "ReviewRepairLoop \<Rightarrow> IterationVerdict \<Rightarrow> RepairStop option" where
  "after_iteration l verdict =
     (let b = rl_bounds l
      in if rb_max_tool_calls b < rl_tool_calls_used l then Some (ToolCeiling (rb_max_tool_calls b) (rl_tool_calls_used l))
         else if rb_max_wall_clock_secs b < rl_elapsed_secs l
         then Some (TimeCeiling (rb_max_wall_clock_secs b) (rl_elapsed_secs l))
         else case verdict of
             InconclusiveVerdict \<Rightarrow> Some (Inconclusive ''reviewer returned no usable verdict'')
           | Clean \<Rightarrow> Some (if rq_require_human_ratification (rl_policy l) then AwaitingRatification else Verified)
           | RepairsNeeded \<Rightarrow>
               if rb_max_iterations b \<le> word_of_nat (length (rl_iterations l))
               then Some (IterationCeiling (rb_max_iterations b)) else None)"

definition book_receipt :: "ReviewRepairLoop \<Rightarrow> IterationReceipt \<Rightarrow> ReviewRepairLoop" where
  "book_receipt l receipt =
     l\<lparr>rl_elapsed_secs := saturating_add (rl_elapsed_secs l) (it_elapsed_secs receipt),
       rl_tool_calls_used := saturating_add (rl_tool_calls_used l) (it_tool_calls_used receipt),
       rl_iterations := rl_iterations l @ [receipt]\<rparr>"

definition record_iteration ::
  "ReviewRepairLoop \<Rightarrow> IterationReceipt \<Rightarrow> ReviewRepairLoop \<times> (ReviewRepairError + RepairStop option)" where
  "record_iteration l receipt =
     (case rl_stopped l of
        Some reason \<Rightarrow> (l, Inl (AlreadyStopped reason))
      | None \<Rightarrow>
          (case receipt_refusal l receipt of
             Some (StoppedNow reason) \<Rightarrow> (stop_loop l reason, Inl (StoppedNow reason))
           | Some err \<Rightarrow> (l, Inl err)
           | None \<Rightarrow>
               (let l = book_receipt l receipt
                in case after_iteration l (it_verdict receipt) of
                     Some reason \<Rightarrow> (l\<lparr>rl_stopped := Some reason\<rparr>, Inr (Some reason))
                   | None \<Rightarrow> (l, Inr None))))"

definition ratify :: "ReviewRepairLoop \<Rightarrow> bool \<Rightarrow> string \<Rightarrow> ReviewRepairLoop \<times> (ReviewRepairError + RepairStop)" where
  "ratify l approved note =
     (case rl_stopped l of
        Some AwaitingRatification \<Rightarrow>
          (let reason = (if approved then Verified else RatificationDeclined note)
           in (l\<lparr>rl_stopped := Some reason\<rparr>, Inr reason))
      | Some other \<Rightarrow> (l, Inl (AlreadyStopped other))
      | None \<Rightarrow> (l, Inl (IncompleteReceipt ''the loop has not produced a clean result to ratify'')))"

definition route_lines :: "ReviewRepairLoop \<Rightarrow> string list" where
  "route_lines l =
     concat (map (\<lambda>it. let line = (\<lambda>route. ''#'' @ show_nat (unat (it_iteration it)) @ '' '' @ display_line route)
       in line (it_reviewer it) # (case it_verifier it of None \<Rightarrow> [] | Some verifier \<Rightarrow> [line verifier])) (rl_iterations l))"

definition budget_line :: "ReviewRepairLoop \<Rightarrow> string" where
  "budget_line l =
     ''iterations '' @ show_nat (length (rl_iterations l)) @ ''/'' @ show_nat (unat (rb_max_iterations (rl_bounds l))) @
     '', tools '' @ show_nat (unat (rl_tool_calls_used l)) @ ''/'' @ show_nat (unat (rb_max_tool_calls (rl_bounds l))) @
     '', elapsed '' @ show_nat (unat (rl_elapsed_secs l)) @ ''s/'' @
     show_nat (unat (rb_max_wall_clock_secs (rl_bounds l))) @ ''s''"

section \<open>Every sequence of calls\<close>

datatype RepairCall = BeginCall | RecordCall IterationReceipt | RatifyCall bool string

fun repair_call :: "ReviewRepairLoop \<Rightarrow> RepairCall \<Rightarrow> ReviewRepairLoop" where
  "repair_call l BeginCall = fst (begin_iteration l)"
| "repair_call l (RecordCall receipt) = fst (record_iteration l receipt)"
| "repair_call l (RatifyCall approved note) = fst (ratify l approved note)"

definition receipt_accepted :: "ReviewRepairLoop \<Rightarrow> IterationReceipt \<Rightarrow> bool" where
  "receipt_accepted l receipt \<longleftrightarrow>
     it_input_digest receipt = rl_pinned_input_digest l \<and> route_is_complete (it_reviewer receipt) \<and>
     (rq_require_verifier_receipt (rl_policy l) \<longrightarrow>
        (case it_verifier receipt of None \<Rightarrow> False | Some verifier \<Rightarrow> route_is_complete verifier))"

lemma refusal_None: "receipt_refusal l receipt = None \<longleftrightarrow> receipt_accepted l receipt"
  by (simp add: receipt_refusal_def receipt_accepted_def split: option.split)

lemma refusal_stops:
  "receipt_refusal l receipt = Some (StoppedNow reason) \<Longrightarrow> reason \<noteq> Verified \<and> reason \<noteq> AwaitingRatification"
  by (auto simp: receipt_refusal_def split: if_splits option.splits)

text \<open>What a loop in state \<open>l\<close> has seen, relative to whether a human has approved.\<close>

definition within_ceilings :: "ReviewRepairLoop \<Rightarrow> bool" where
  "within_ceilings l \<longleftrightarrow> rl_tool_calls_used l \<le> rb_max_tool_calls (rl_bounds l) \<and>
     rl_elapsed_secs l \<le> rb_max_wall_clock_secs (rl_bounds l)"

definition clean_result :: "ReviewRepairLoop \<Rightarrow> bool" where
  "clean_result l \<longleftrightarrow> rl_iterations l \<noteq> [] \<and> it_verdict (last (rl_iterations l)) = Clean \<and> within_ceilings l"

definition repair_inv :: "bool \<Rightarrow> ReviewRepairLoop \<Rightarrow> bool" where
  "repair_inv approved l \<longleftrightarrow>
     list_all (receipt_accepted l) (rl_iterations l) \<and>
     (rl_stopped l = Some AwaitingRatification \<longrightarrow> clean_result l) \<and>
     (rl_stopped l = Some Verified \<longrightarrow> clean_result l \<and> (rq_require_human_ratification (rl_policy l) \<longrightarrow> approved)) \<and>
     (rl_stopped l = None \<longrightarrow> within_ceilings l \<and>
        list_all (\<lambda>receipt. it_verdict receipt = RepairsNeeded) (rl_iterations l) \<and>
        (rl_iterations l \<noteq> [] \<longrightarrow> length (rl_iterations l) < unat (rb_max_iterations (rl_bounds l)))) \<and>
     length (rl_iterations l) \<le> max 1 (unat (rb_max_iterations (rl_bounds l)))"

lemma accepted_frame [simp]:
  "receipt_accepted (l\<lparr>rl_stopped := x\<rparr>) = receipt_accepted l"
  "receipt_accepted (book_receipt l r) = receipt_accepted l"
  by (simp_all add: receipt_accepted_def book_receipt_def fun_eq_iff)

lemma clean_frame [simp]:
  "clean_result (l\<lparr>rl_stopped := x\<rparr>) = clean_result l" "within_ceilings (l\<lparr>rl_stopped := x\<rparr>) = within_ceilings l"
  by (simp_all add: clean_result_def within_ceilings_def)

lemma repair_inv_stop:
  assumes "repair_inv approved l" and "reason \<noteq> Verified" and "reason \<noteq> AwaitingRatification"
  shows "repair_inv approved (l\<lparr>rl_stopped := Some reason\<rparr>)"
  using assms by (simp add: repair_inv_def)

lemma begin_inv: "repair_inv approved l \<Longrightarrow> repair_inv approved (fst (begin_iteration l))"
  by (auto simp: begin_iteration_def Let_def stop_loop_def intro!: repair_inv_stop split: option.split)

lemma ratify_inv: "repair_inv approved l \<Longrightarrow> repair_inv (approved \<or> ok) (fst (ratify l ok note))"
  by (auto simp: ratify_def Let_def repair_inv_def split: option.splits RepairStop.splits)

lemma after_iteration_cases:
  assumes "after_iteration l verdict = res"
  shows "res = Some AwaitingRatification \<or> res = Some Verified \<Longrightarrow> within_ceilings l \<and> verdict = Clean"
    and "res = Some Verified \<Longrightarrow> \<not> rq_require_human_ratification (rl_policy l)"
    and "res = None \<Longrightarrow> within_ceilings l \<and> verdict = RepairsNeeded \<and>
      word_of_nat (length (rl_iterations l)) < rb_max_iterations (rl_bounds l)"
  using assms by (auto simp: after_iteration_def Let_def within_ceilings_def split: if_splits IterationVerdict.splits)

lemma unat_length:
  assumes "n \<le> max 1 (unat (m :: u32))"
  shows "unat (word_of_nat n :: u32) = n"
proof -
  have "unat m < 2 ^ 32" using unsigned_less [of m] by simp
  with assms have "n < 2 ^ 32" by simp
  then show ?thesis by (simp add: unat_of_nat)
qed

lemma booked_length: "length (rl_iterations (book_receipt l r)) = Suc (length (rl_iterations l))"
  by (simp add: book_receipt_def)

lemma booked_fields [simp]:
  "rl_bounds (book_receipt l r) = rl_bounds l" "rl_policy (book_receipt l r) = rl_policy l"
  "rl_iterations (book_receipt l r) = rl_iterations l @ [r]" "rl_stopped (book_receipt l r) = rl_stopped l"
  by (simp_all add: book_receipt_def)

lemma booked_inv:
  assumes inv: "repair_inv approved l" and run: "rl_stopped l = None" and acc: "receipt_accepted l receipt"
  shows "repair_inv approved ((book_receipt l receipt)\<lparr>rl_stopped := after_iteration (book_receipt l receipt) (it_verdict receipt)\<rparr>)"
proof -
  let ?l = "book_receipt l receipt" and ?res = "after_iteration (book_receipt l receipt) (it_verdict receipt)"
  note res = after_iteration_cases [OF refl, of ?l "it_verdict receipt"]
  let ?m = "rb_max_iterations (rl_bounds l)"
  from inv run have old: "list_all (receipt_accepted l) (rl_iterations l)"
    "list_all (\<lambda>receipt. it_verdict receipt = RepairsNeeded) (rl_iterations l)"
    "rl_iterations l \<noteq> [] \<Longrightarrow> length (rl_iterations l) < unat ?m"
    by (simp_all add: repair_inv_def)
  have len: "length (rl_iterations ?l) \<le> max 1 (unat ?m)"
    using old(3) by (cases "rl_iterations l = []") (auto simp: booked_length)
  have "length (rl_iterations ?l) < unat ?m" if "?res = None"
    using res(3) [OF that] unat_length [OF len] by (simp add: word_less_nat_alt)
  then show ?thesis using res old acc len
    by (auto simp: repair_inv_def clean_result_def)
qed

lemma record_inv: "repair_inv approved l \<Longrightarrow> repair_inv approved (fst (record_iteration l receipt))"
proof (cases "rl_stopped l")
  case None
  assume inv: "repair_inv approved l"
  show ?thesis
  proof (cases "receipt_refusal l receipt")
    case (Some err)
    show ?thesis using inv None Some refusal_stops
      by (cases err) (auto simp: record_iteration_def stop_loop_def intro!: repair_inv_stop)
  next
    case no: None
    then have "receipt_accepted l receipt" by (simp add: refusal_None)
    note booked = booked_inv [OF inv None this]
    have "(book_receipt l receipt)\<lparr>rl_stopped := None\<rparr> = book_receipt l receipt" using None by (simp add: book_receipt_def)
    with booked show ?thesis
      by (cases "after_iteration (book_receipt l receipt) (it_verdict receipt)")
        (simp_all add: record_iteration_def None no Let_def)
  qed
qed (simp add: record_iteration_def)

lemma call_inv:
  "repair_inv approved l \<Longrightarrow> repair_inv (approved \<or> (\<exists>note. call = RatifyCall True note)) (repair_call l call)"
  using ratify_inv by (cases call) (auto simp: begin_inv record_inv dest: ratify_inv)

lemma calls_inv:
  "repair_inv approved l \<Longrightarrow> repair_inv (approved \<or> (\<exists>note. RatifyCall True note \<in> set calls)) (foldl repair_call l calls)"
proof (induction calls arbitrary: approved l)
  case (Cons call calls)
  from Cons.IH [OF call_inv [OF Cons.prems, of call]] show ?case by (auto simp: disj_assoc ex_disj_distrib elim: back_subst)
qed simp

lemma new_inv: "repair_inv False (ReviewRepairLoop_new lane pinned bounds policy)"
  by (simp add: repair_inv_def ReviewRepairLoop_new_def within_ceilings_def)

lemma calls_frame:
  "rl_bounds (foldl repair_call l calls) = rl_bounds l \<and> rl_policy (foldl repair_call l calls) = rl_policy l \<and>
   rl_pinned_input_digest (foldl repair_call l calls) = rl_pinned_input_digest l"
proof (induction calls arbitrary: l)
  case (Cons call calls)
  have "rl_bounds (repair_call l call) = rl_bounds l \<and> rl_policy (repair_call l call) = rl_policy l \<and>
      rl_pinned_input_digest (repair_call l call) = rl_pinned_input_digest l"
    by (cases call) (simp_all add: begin_iteration_def record_iteration_def ratify_def stop_loop_def book_receipt_def Let_def
        split: option.split RepairStop.split ReviewRepairError.split)
  with Cons.IH [of "repair_call l call"] show ?case by simp
qed simp

section \<open>Guarantees\<close>


definition demo_route :: RouteReceipt where
  "demo_route = \<lparr>rr_role = ''reviewer'', rr_provider = ''p'', rr_model = ''m'', rr_requested_reasoning = ''high'',
     rr_effective_reasoning = ''high'', rr_routed_by = Fleet\<rparr>"

definition demo_iteration :: "IterationVerdict \<Rightarrow> IterationReceipt" where
  "demo_iteration verdict = \<lparr>it_iteration = 1, it_input_digest = ''abc'', it_reviewer = demo_route,
     it_verifier = Some demo_route, it_verdict = verdict, it_finding_summaries = [], it_tool_calls_used = 5,
     it_elapsed_secs = 10\<rparr>"

definition demo_calls :: "RepairCall list" where
  "demo_calls = [BeginCall, RecordCall (demo_iteration RepairsNeeded), BeginCall, RecordCall (demo_iteration Clean),
     RatifyCall True ''ok'']"

definition demo_loop :: ReviewRepairLoop where
  "demo_loop = foldl repair_call (ReviewRepairLoop_new ''lane'' ''abc'' conservative ReviewRepairPolicy_default) demo_calls"


text \<open>
  The loop is bounded whatever the caller does: it books at most as many iterations as the ceiling
  allows (one when the ceiling is zero and the caller records without having begun), and while it is still
  running its spend is within the ceilings and fewer iterations than allowed have been booked.
\<close>

theorem review_loop_bounded:
  assumes "l = foldl repair_call (ReviewRepairLoop_new lane pinned bounds policy) calls"
  shows "length (rl_iterations l) \<le> max 1 (unat (rb_max_iterations bounds)) \<and>
    (rl_stopped l = None \<longrightarrow> rl_tool_calls_used l \<le> rb_max_tool_calls bounds \<and>
       rl_elapsed_secs l \<le> rb_max_wall_clock_secs bounds \<and>
       (rl_iterations l \<noteq> [] \<longrightarrow> length (rl_iterations l) < unat (rb_max_iterations bounds)))"
proof -
  let ?new = "ReviewRepairLoop_new lane pinned bounds policy"
  have frame: "rl_bounds l = bounds"
    using calls_frame [of ?new calls] by (simp add: assms(1), simp add: ReviewRepairLoop_new_def)
  have "repair_inv (False \<or> (\<exists>note. RatifyCall True note \<in> set calls)) l"
    unfolding assms(1) by (rule calls_inv [OF new_inv])
  then show ?thesis using frame by (simp add: repair_inv_def within_ceilings_def)
qed

theorem review_loop_bounded_witness: "length (rl_iterations demo_loop) \<le> 3"
  using review_loop_bounded [OF demo_loop_def] by (simp add: conservative_def)

lemma stopped_call:
  assumes "rl_stopped l = Some reason" and "reason \<noteq> AwaitingRatification"
  shows "repair_call l call = l"
  using assms by (cases call) (auto simp: begin_iteration_def record_iteration_def ratify_def split: RepairStop.split)

text \<open>
  A stop is final: once the loop has stopped for a reason other than waiting for a human, no sequence
  of calls changes it any more, so a ceiling, stale input or a declined result cannot be waved through.
\<close>

theorem review_stop_is_final:
  assumes "rl_stopped l = Some reason" and "reason \<noteq> AwaitingRatification"
  shows "foldl repair_call l calls = l"
  using stopped_call [OF assms] by (induction calls) simp_all

theorem review_stop_is_final_witness:
  "foldl repair_call demo_loop [BeginCall, RecordCall (demo_iteration Clean), RatifyCall False ''no''] = demo_loop"
proof -
  have "rl_stopped demo_loop = Some Verified" by code_simp
  from review_stop_is_final [OF this] show ?thesis by blast
qed

text \<open>
  Recording does not check the iteration ceiling that beginning checks: with a ceiling of zero, where
  the loop is documented never to run, a receipt recorded without a begun iteration is accepted and ends
  the loop as verified.
\<close>

theorem zero_ceiling_still_verifies:
  "snd (record_iteration (ReviewRepairLoop_new ''lane'' ''abc'' (conservative\<lparr>rb_max_iterations := 0\<rparr>)
      \<lparr>rq_require_human_ratification = False, rq_require_verifier_receipt = False\<rparr>) (demo_iteration Clean)) =
     Inr (Some Verified)"
  by code_simp

end
