(* ===== verification/Lane_Gates.thy ===== *)
theory Lane_Gates
  imports BTree_Map Rust_Str
begin

text \<open>
  Workflow gates and role-to-role handoffs of a lane (\<open>workflow/src/gates.rs\<close>): the gate board, its
  evaluation and the test whether a role may start. Saving and loading the board are not modelled.
\<close>

section \<open>Model\<close>

datatype GateOn = RoleComplete | RoleStart
datatype GateKind = Verify | Review | Approve
datatype GateOnFail = RetryGate | BlockGate | EscalateGate

record GateSpec =
  gs_id :: string
  gs_role :: string
  gs_on :: GateOn
  gs_gate :: GateKind
  gs_on_fail :: GateOnFail
  gs_blocks_role :: "string option"
  gs_max_retries :: u32
  gs_artifact_kind :: "string option"
  gs_require_explicit_verdict :: bool

definition default_max_retries :: u32 where
  "default_max_retries = 1"

datatype GateState = Pending | Passed | Blocked string | Retrying u32 string | EscalatedGate string

fun GateState_as_str :: "GateState \<Rightarrow> string" where
  "GateState_as_str Pending = ''pending''"
| "GateState_as_str Passed = ''passed''"
| "GateState_as_str (Blocked _) = ''blocked''"
| "GateState_as_str (Retrying _ _) = ''retrying''"
| "GateState_as_str (EscalatedGate _) = ''escalated''"

fun is_blocking :: "GateState \<Rightarrow> bool" where
  "is_blocking (Blocked _) = True"
| "is_blocking (EscalatedGate _) = True"
| "is_blocking (Retrying _ _) = True"
| "is_blocking _ = False"

fun blocked_reason :: "GateState \<Rightarrow> string option" where
  "blocked_reason (Blocked reason) = Some reason"
| "blocked_reason (Retrying _ reason) = Some reason"
| "blocked_reason (EscalatedGate reason) = Some reason"
| "blocked_reason _ = None"

datatype GateOutcome = PassOutcome | FailOutcome string | HumanApprove string

record HandoffArtifact =
  ha_id :: string
  ha_lane_id :: string
  ha_from_role :: string
  ha_to_role :: string
  ha_kind :: string
  ha_payload :: string
  ha_created_at :: string

record LaneGateBoard =
  gb_lane_id :: string
  gb_gates :: "(string, GateState) btree_map"
  gb_retries :: "(string, u32) btree_map"
  gb_artifacts :: "HandoffArtifact list"

datatype GateError = EmptyGateId | LaneMismatch string string | GateIo string | GateSerde string

definition LaneGateBoard_new :: "string \<Rightarrow> LaneGateBoard" where
  "LaneGateBoard_new lane_id = \<lparr>gb_lane_id = lane_id, gb_gates = [], gb_retries = [], gb_artifacts = []\<rparr>"

definition install_gates :: "LaneGateBoard \<Rightarrow> GateSpec list \<Rightarrow> LaneGateBoard" where
  "install_gates b specs = b\<lparr>gb_gates := foldl (\<lambda>m spec. bt_or_insert (gs_id spec) Pending m) (gb_gates b) specs\<rparr>"

text \<open>The state a failure leads to, given the number of the failed attempt.\<close>

definition failed_state :: "GateSpec \<Rightarrow> u32 \<Rightarrow> string \<Rightarrow> GateState" where
  "failed_state spec attempt reason =
     (case gs_on_fail spec of
        BlockGate \<Rightarrow> Blocked reason
      | RetryGate \<Rightarrow> if attempt \<le> gs_max_retries spec then Retrying attempt reason else EscalatedGate reason
      | EscalateGate \<Rightarrow> EscalatedGate reason)"

definition gate_evaluate :: "LaneGateBoard \<Rightarrow> GateSpec \<Rightarrow> GateOutcome \<Rightarrow> LaneGateBoard \<times> (GateError + GateState)" where
  "gate_evaluate b spec outcome =
     (if trim (gs_id spec) = [] then (b, Inl EmptyGateId)
      else let passed = (b\<lparr>gb_gates := bt_insert (gs_id spec) Passed (gb_gates b),
                           gb_retries := bt_remove (gs_id spec) (gb_retries b)\<rparr>, Inr Passed)
        in case outcome of
             PassOutcome \<Rightarrow> passed
           | HumanApprove _ \<Rightarrow> passed
           | FailOutcome reason \<Rightarrow>
               (let attempt = saturating_add (case bt_get (gb_retries b) (gs_id spec) of Some n \<Rightarrow> n | None \<Rightarrow> 0) 1;
                    state = failed_state spec attempt reason
                in (b\<lparr>gb_retries := bt_insert (gs_id spec) attempt (gb_retries b),
                      gb_gates := bt_insert (gs_id spec) state (gb_gates b)\<rparr>, Inr state)))"

definition blocks :: "GateSpec \<Rightarrow> string \<Rightarrow> bool" where
  "blocks spec role = eq_ignore_ascii_case (case gs_blocks_role spec of Some r \<Rightarrow> r | None \<Rightarrow> []) role"

fun role_is_blocked :: "LaneGateBoard \<Rightarrow> GateSpec list \<Rightarrow> string \<Rightarrow> GateState option" where
  "role_is_blocked b [] role = None"
| "role_is_blocked b (spec # specs) role =
     (if \<not> blocks spec role then role_is_blocked b specs role
      else case bt_get (gb_gates b) (gs_id spec) of
          Some state \<Rightarrow> if is_blocking state then Some state else role_is_blocked b specs role
        | None \<Rightarrow> role_is_blocked b specs role)"

definition record_handoff :: "LaneGateBoard \<Rightarrow> HandoffArtifact \<Rightarrow> LaneGateBoard \<times> (GateError + unit)" where
  "record_handoff b artifact =
     (if ha_lane_id artifact \<noteq> gb_lane_id b then (b, Inl (LaneMismatch (gb_lane_id b) (ha_lane_id artifact)))
      else (b\<lparr>gb_artifacts := gb_artifacts b @ [artifact]\<rparr>, Inr ()))"

definition handoff_matches :: "string \<Rightarrow> string \<Rightarrow> string \<Rightarrow> HandoffArtifact \<Rightarrow> bool" where
  "handoff_matches from_role to_role kind a \<longleftrightarrow>
     eq_ignore_ascii_case (ha_from_role a) from_role \<and> eq_ignore_ascii_case (ha_to_role a) to_role \<and>
     eq_ignore_ascii_case (ha_kind a) kind"

definition latest_handoff :: "LaneGateBoard \<Rightarrow> string \<Rightarrow> string \<Rightarrow> string \<Rightarrow> HandoffArtifact option" where
  "latest_handoff b from_role to_role kind = List.find (handoff_matches from_role to_role kind) (rev (gb_artifacts b))"

record GateStatusLine =
  sl_gate_id :: string
  sl_state :: string
  sl_blocked_reason :: "string option"

definition status_summary :: "LaneGateBoard \<Rightarrow> GateStatusLine list" where
  "status_summary b =
     map (\<lambda>(gate, state). \<lparr>sl_gate_id = gate, sl_state = GateState_as_str state,
       sl_blocked_reason = blocked_reason state\<rparr>) (gb_gates b)"

definition stopship_gate_pipeline :: "GateSpec list" where
  "stopship_gate_pipeline =
     [\<lparr>gs_id = ''scout-findings'', gs_role = ''scout'', gs_on = RoleComplete, gs_gate = Approve, gs_on_fail = BlockGate,
       gs_blocks_role = Some ''implementer'', gs_max_retries = 0, gs_artifact_kind = Some ''findings'',
       gs_require_explicit_verdict = False\<rparr>,
      \<lparr>gs_id = ''reviewer-diff'', gs_role = ''reviewer'', gs_on = RoleComplete, gs_gate = Review, gs_on_fail = BlockGate,
       gs_blocks_role = Some ''verifier'', gs_max_retries = 1, gs_artifact_kind = Some ''diff_review'',
       gs_require_explicit_verdict = False\<rparr>,
      \<lparr>gs_id = ''verifier-suite'', gs_role = ''verifier'', gs_on = RoleComplete, gs_gate = Verify, gs_on_fail = RetryGate,
       gs_blocks_role = Some ''release_lead'', gs_max_retries = 2, gs_artifact_kind = Some ''verify_report'',
       gs_require_explicit_verdict = False\<rparr>]"

section \<open>Gate state as a function of the outcomes\<close>

text \<open>The number of failures since the last pass, and the state the documentation gives for a history.\<close>

fun is_fail :: "GateOutcome \<Rightarrow> bool" where
  "is_fail (FailOutcome _) = True"
| "is_fail _ = False"

definition trailing_fails :: "GateOutcome list \<Rightarrow> nat" where
  "trailing_fails outcomes = length (takeWhile is_fail (rev outcomes))"

definition history_state :: "GateSpec \<Rightarrow> GateOutcome list \<Rightarrow> GateState" where
  "history_state spec outcomes =
     (case rev outcomes of
        [] \<Rightarrow> Pending
      | FailOutcome reason # _ \<Rightarrow> failed_state spec (word_of_nat (trailing_fails outcomes)) reason
      | _ \<Rightarrow> Passed)"

abbreviation evaluate_all :: "LaneGateBoard \<Rightarrow> (GateSpec \<times> GateOutcome) list \<Rightarrow> LaneGateBoard" where
  "evaluate_all \<equiv> foldl (\<lambda>b (spec, outcome). fst (gate_evaluate b spec outcome))"

definition outcomes_of :: "string \<Rightarrow> (GateSpec \<times> GateOutcome) list \<Rightarrow> GateOutcome list" where
  "outcomes_of gate calls = map snd (filter (\<lambda>(spec, _). gs_id spec = gate) calls)"

lemma trailing_snoc:
  "trailing_fails (os @ [FailOutcome r]) = Suc (trailing_fails os)"
  "trailing_fails (os @ [PassOutcome]) = 0" "trailing_fails (os @ [HumanApprove n]) = 0" "trailing_fails [] = 0"
  by (simp_all add: trailing_fails_def)

lemma history_snoc:
  "history_state spec (os @ [FailOutcome r]) = failed_state spec (word_of_nat (Suc (trailing_fails os))) r"
  "history_state spec (os @ [PassOutcome]) = Passed" "history_state spec (os @ [HumanApprove n]) = Passed"
  by (simp_all add: history_state_def trailing_snoc del: of_nat_Suc)

lemma outcomes_snoc:
  "outcomes_of gate (calls @ [(spec, outcome)]) = outcomes_of gate calls @ (if gs_id spec = gate then [outcome] else [])"
  by (simp add: outcomes_of_def)

text \<open>What the board remembers of one gate agrees with the history of its outcomes.\<close>

definition board_agrees :: "GateSpec \<Rightarrow> LaneGateBoard \<Rightarrow> GateOutcome list \<Rightarrow> bool" where
  "board_agrees spec b os \<longleftrightarrow>
     bt_get (gb_gates b) (gs_id spec) = Some (history_state spec os) \<and>
     (case bt_get (gb_retries b) (gs_id spec) of Some n \<Rightarrow> n | None \<Rightarrow> 0) = word_of_nat (trailing_fails os)"

lemma word_of_nat_Suc_saturating:
  assumes "Suc n < 2 ^ 32"
  shows "saturating_add (word_of_nat n :: u32) 1 = word_of_nat (Suc n)"
proof -
  have "(word_of_nat n :: u32) \<noteq> - 1"
  proof
    assume "(word_of_nat n :: u32) = - 1"
    then have "unat (word_of_nat n :: u32) = 2 ^ 32 - 1" by (simp add: unsigned_minus_1_eq_mask mask_eq_exp_minus_1)
    with assms show False by (simp add: unat_of_nat)
  qed
  then show ?thesis by (simp add: saturating_add_one(1))
qed

lemma evaluate_agrees:
  assumes "board_agrees spec b os" and "trim (gs_id spec) \<noteq> []" and "Suc (length os) < 2 ^ 32"
  shows "board_agrees spec (fst (gate_evaluate b spec outcome)) (os @ [outcome])"
proof (cases outcome)
  case (FailOutcome reason)
  have "trailing_fails os \<le> length os" by (simp add: trailing_fails_def) (metis length_rev length_takeWhile_le)
  with assms(3) have "saturating_add (word_of_nat (trailing_fails os) :: u32) 1 = word_of_nat (Suc (trailing_fails os))"
    by (intro word_of_nat_Suc_saturating) simp
  with assms FailOutcome show ?thesis
    by (simp add: board_agrees_def gate_evaluate_def Let_def history_snoc trailing_snoc del: of_nat_Suc)
qed (use assms in \<open>simp_all add: board_agrees_def gate_evaluate_def Let_def history_snoc trailing_snoc\<close>)

lemma evaluate_other:
  "gs_id other \<noteq> gs_id spec \<Longrightarrow> board_agrees spec (fst (gate_evaluate b other outcome)) os = board_agrees spec b os"
  by (simp add: board_agrees_def gate_evaluate_def Let_def split: GateOutcome.split)

lemma install_agrees:
  assumes "spec \<in> set specs"
  shows "board_agrees spec (install_gates (LaneGateBoard_new lane) specs) []"
proof -
  have "bt_get (foldl (\<lambda>m spec. bt_or_insert (gs_id spec) Pending m) m specs) (gs_id spec) = Some Pending"
    if "bt_get m (gs_id spec) = Some Pending \<or> (bt_get m (gs_id spec) = None \<and> spec \<in> set specs)" for m
    using that by (induction specs arbitrary: m) (auto split: if_splits)
  from this [of "[]"] assms show ?thesis
    by (simp add: board_agrees_def install_gates_def LaneGateBoard_new_def history_state_def trailing_snoc)
qed

lemma evaluations_agree:
  assumes "spec \<in> set specs" and "trim (gs_id spec) \<noteq> []"
    and "list_all (\<lambda>(other, _). gs_id other = gs_id spec \<longrightarrow> other = spec) calls" and "length calls < 2 ^ 32 - 1"
  shows "board_agrees spec (evaluate_all (install_gates (LaneGateBoard_new lane) specs) calls) (outcomes_of (gs_id spec) calls)"
  using assms(3,4)
proof (induction calls rule: rev_induct)
  case Nil
  then show ?case using install_agrees [OF assms(1)] by (simp add: outcomes_of_def)
next
  case (snoc call calls)
  obtain other outcome where call: "call = (other, outcome)" by force
  let ?b = "evaluate_all (install_gates (LaneGateBoard_new lane) specs) calls"
  have IH: "board_agrees spec ?b (outcomes_of (gs_id spec) calls)" using snoc by simp
  have len: "length (outcomes_of (gs_id spec) calls) \<le> length calls" by (simp add: outcomes_of_def)
  show ?case
  proof (cases "gs_id other = gs_id spec")
    case True
    with snoc.prems call have "other = spec" by simp
    moreover have "Suc (length (outcomes_of (gs_id spec) calls)) < 2 ^ 32" using len snoc.prems by simp
    ultimately show ?thesis using evaluate_agrees [OF IH assms(2)] by (simp add: call outcomes_snoc)
  next
    case False
    with IH show ?thesis by (simp add: call outcomes_snoc evaluate_other)
  qed
qed

lemma role_is_blocked_iff:
  "role_is_blocked b specs role \<noteq> None \<longleftrightarrow>
     (\<exists>spec state. spec \<in> set specs \<and> blocks spec role \<and> bt_get (gb_gates b) (gs_id spec) = Some state \<and> is_blocking state)"
  by (induction specs) (auto split: option.split)

lemma failed_state_blocks: "is_blocking (failed_state spec n reason)"
  by (simp add: failed_state_def split: GateOnFail.split)


definition verifier_gate :: GateSpec where
  "verifier_gate = stopship_gate_pipeline ! 2"

definition three_fails :: "(GateSpec \<times> GateOutcome) list" where
  "three_fails = replicate 3 (verifier_gate, FailOutcome ''red'')"


text \<open>
  A gate that has not been evaluated does not hold its role: on the freshly installed stop-ship
  pipeline no role is blocked, although the block semantics is documented as: the downstream role cannot
  start until the gate passes.
\<close>

theorem pending_gate_does_not_block:
  "role_is_blocked (install_gates (LaneGateBoard_new lane) stopship_gate_pipeline) stopship_gate_pipeline role = None"
proof -
  have "bt_get (gb_gates (install_gates (LaneGateBoard_new lane) stopship_gate_pipeline)) (gs_id spec) = Some Pending"
    if "spec \<in> set stopship_gate_pipeline" for spec
    using install_agrees [OF that, of lane] by (simp add: board_agrees_def history_state_def)
  then show ?thesis using role_is_blocked_iff [of "install_gates (LaneGateBoard_new lane) stopship_gate_pipeline" stopship_gate_pipeline role]
    by fastforce
qed

section \<open>Handoffs\<close>

lemma handoffs_stay_in_lane:
  "list_all (\<lambda>a. ha_lane_id a = gb_lane_id b) (gb_artifacts b) \<Longrightarrow>
     list_all (\<lambda>a. ha_lane_id a = gb_lane_id b) (gb_artifacts (fst (record_handoff b artifact))) \<and>
     gb_lane_id (fst (record_handoff b artifact)) = gb_lane_id b"
  by (simp add: record_handoff_def)

lemma latest_handoff_is_last:
  "latest_handoff b from_role to_role kind = Some a \<Longrightarrow>
     \<exists>pre post. gb_artifacts b = pre @ a # post \<and> handoff_matches from_role to_role kind a \<and>
       list_all (\<lambda>x. \<not> handoff_matches from_role to_role kind x) post"
proof -
  assume "latest_handoff b from_role to_role kind = Some a"
  then obtain pre post where "rev (gb_artifacts b) = pre @ a # post" "handoff_matches from_role to_role kind a"
    "\<forall>x \<in> set pre. \<not> handoff_matches from_role to_role kind x"
    unfolding latest_handoff_def find_Some_iff2 by (metis (no_types, lifting) find_Some_iff id_take_nth_drop in_set_conv_nth length_take min.absorb4 nth_take)
  then have "gb_artifacts b = rev post @ a # rev pre" by (simp add: rev_swap)
  with \<open>handoff_matches from_role to_role kind a\<close> \<open>\<forall>x \<in> set pre. \<not> handoff_matches from_role to_role kind x\<close>
  show ?thesis by (intro exI [of _ "rev post"] exI [of _ "rev pre"]) (simp add: list_all_iff)
qed

end
