(* ===== verification/Lane_Registry.thy ===== *)
theory Lane_Registry
  imports Prelude
begin

text \<open>
  The durable lane registry (\<open>lane/src/registry.rs\<close>). The directory of records is a map from lane ids to
  records; the per-lane lock makes each operation atomic. The outcome of each write, the callbacks and the
  clock are arguments, and an operation also returns which backend callbacks it ran, so that it is visible
  that a refused transition touches no backend. The JSON text and the directory listing are not modelled.
\<close>

section \<open>Model\<close>

datatype LaneStatus = LanePending | LaneRunning | LaneStopped | LaneFailed | LaneCompleted

fun LaneStatus_as_str :: "LaneStatus \<Rightarrow> string" where
  "LaneStatus_as_str LanePending = ''pending''"
| "LaneStatus_as_str LaneRunning = ''running''"
| "LaneStatus_as_str LaneStopped = ''stopped''"
| "LaneStatus_as_str LaneFailed = ''failed''"
| "LaneStatus_as_str LaneCompleted = ''completed''"

definition lane_is_active :: "LaneStatus \<Rightarrow> bool" where
  "lane_is_active status \<longleftrightarrow> status = LanePending \<or> status = LaneRunning"

datatype TerminalTransition = Transitioned | AlreadyTerminal | FenceMismatch u64

definition transitioned :: "TerminalTransition \<Rightarrow> bool" where
  "transitioned t \<longleftrightarrow> t = Transitioned"

datatype RuntimeBackendKind = Tmux | Inline | Vm | Ci

record LaneRecord =
  lr_id :: string
  lr_workflow :: "string option"
  lr_fleet :: "string option"
  lr_issue :: "string option"
  lr_goal :: "string option"
  lr_runtime :: RuntimeBackendKind
  lr_status :: LaneStatus
  lr_lifecycle_seq :: u64
  lr_worktree_path :: "string option"
  lr_branch :: "string option"
  lr_tmux_session :: "string option"
  lr_tmux_socket :: "string option"
  lr_log_path :: string
  lr_started_at :: string
  lr_stopped_at :: "string option"
  lr_attach_target :: "string option"
  lr_worktree_ttl_secs :: "u64 option"

type_synonym lane_store = "string \<rightharpoonup> LaneRecord"

datatype LaneEffect = BackendStart | BackendRollback | BackendTeardown

type_synonym outcome = "string + unit"

definition log_path_for :: "string \<Rightarrow> string \<Rightarrow> string" where
  "log_path_for root lane_id = root @ ''/logs/'' @ lane_id @ ''.ndjson''"

definition lane_save :: "lane_store \<Rightarrow> LaneRecord \<Rightarrow> outcome \<Rightarrow> lane_store \<times> outcome" where
  "lane_save S record res = (case res of Inl err \<Rightarrow> (S, Inl err) | Inr _ \<Rightarrow> (S(lr_id record \<mapsto> record), Inr ()))"

definition lane_load :: "lane_store \<Rightarrow> string \<Rightarrow> string + LaneRecord" where
  "lane_load S lane_id = (case S lane_id of None \<Rightarrow> Inl (''read lane record '' @ lane_id) | Some record \<Rightarrow> Inr record)"

definition create_pending ::
  "lane_store \<Rightarrow> string \<Rightarrow> string \<Rightarrow> string \<Rightarrow> string option \<Rightarrow> string option \<Rightarrow> string option \<Rightarrow> string option \<Rightarrow>
     RuntimeBackendKind \<Rightarrow> u64 option \<Rightarrow> outcome \<Rightarrow> lane_store \<times> (string + LaneRecord)" where
  "create_pending S root new_id now workflow fleet issue goal runtime ttl saved =
     (let record = \<lparr>lr_id = new_id, lr_workflow = workflow, lr_fleet = fleet, lr_issue = issue, lr_goal = goal,
            lr_runtime = runtime, lr_status = LanePending, lr_lifecycle_seq = 1, lr_worktree_path = None,
            lr_branch = None, lr_tmux_session = None, lr_tmux_socket = None, lr_log_path = log_path_for root new_id,
            lr_started_at = now, lr_stopped_at = None, lr_attach_target = None, lr_worktree_ttl_secs = ttl\<rparr>;
          out = lane_save S record saved
      in (fst out, case snd out of Inl err \<Rightarrow> Inl err | Inr _ \<Rightarrow> Inr record))"

text \<open>
  Promotion to running: the caller's record with the backend metadata is saved as pending, the backend is
  started, and the record is saved as running; a failed last save rolls the backend back.
\<close>

definition mark_running_if_pending_with ::
  "lane_store \<Rightarrow> LaneRecord \<Rightarrow> outcome \<Rightarrow> outcome \<Rightarrow> outcome \<Rightarrow> outcome \<Rightarrow>
     lane_store \<times> LaneRecord \<times> LaneEffect list \<times> (string + bool)" where
  "mark_running_if_pending_with S record before_transition rollback save_pending save_running =
     (case lane_load S (lr_id record) of
        Inl err \<Rightarrow> (S, record, [], Inl err)
      | Inr current \<Rightarrow>
          if lr_status current \<noteq> LanePending then (S, current, [], Inr False)
          else let record = record\<lparr>lr_lifecycle_seq := max (lr_lifecycle_seq current) 1, lr_status := LanePending,
                     lr_stopped_at := None\<rparr>;
                   out = lane_save S record save_pending
            in case snd out of
                 Inl err \<Rightarrow> (fst out, record, [], Inl err)
               | Inr _ \<Rightarrow>
                   (case before_transition of
                      Inl err \<Rightarrow> (fst out, record, [BackendStart], Inl err)
                    | Inr _ \<Rightarrow>
                        (let running = record\<lparr>lr_status := LaneRunning,
                               lr_lifecycle_seq := saturating_add (lr_lifecycle_seq record) 1, lr_stopped_at := None\<rparr>;
                             fin = lane_save (fst out) running save_running
                         in case snd fin of
                              Inr _ \<Rightarrow> (fst fin, running, [BackendStart], Inr True)
                            | Inl err \<Rightarrow>
                                (fst fin, running\<lparr>lr_status := LanePending,
                                   lr_lifecycle_seq := max (lr_lifecycle_seq current) 1\<rparr>, [BackendStart, BackendRollback],
                                 Inl (case rollback of
                                     Inl rerr \<Rightarrow> ''persist running Lane; backend rollback also failed: '' @ rerr
                                   | Inr _ \<Rightarrow> ''persist running Lane after backend launch'')))))"

definition mark_running_if_pending ::
  "lane_store \<Rightarrow> LaneRecord \<Rightarrow> outcome \<Rightarrow> outcome \<Rightarrow> lane_store \<times> LaneRecord \<times> LaneEffect list \<times> (string + bool)" where
  "mark_running_if_pending S record save_pending save_running =
     mark_running_if_pending_with S record (Inr ()) (Inr ()) save_pending save_running"

definition mark_terminal_if_active_fenced ::
  "lane_store \<Rightarrow> LaneRecord \<Rightarrow> LaneStatus \<Rightarrow> u64 option \<Rightarrow> (LaneRecord \<Rightarrow> outcome) \<Rightarrow> string \<Rightarrow> outcome \<Rightarrow>
     lane_store \<times> LaneRecord \<times> LaneEffect list \<times> (string + TerminalTransition)" where
  "mark_terminal_if_active_fenced S record status expected_lifecycle_seq before_transition now saved =
     (if lane_is_active status then (S, record, [], Inl ''terminal lane transition requires a terminal status'')
      else case lane_load S (lr_id record) of
          Inl err \<Rightarrow> (S, record, [], Inl err)
        | Inr current \<Rightarrow>
            if (case expected_lifecycle_seq of None \<Rightarrow> False | Some expected \<Rightarrow> expected \<noteq> lr_lifecycle_seq current)
            then (S, current, [], Inr (FenceMismatch (lr_lifecycle_seq current)))
            else if \<not> lane_is_active (lr_status current) then (S, current, [], Inr AlreadyTerminal)
            else case before_transition current of
                Inl err \<Rightarrow> (S, record, [BackendTeardown], Inl err)
              | Inr _ \<Rightarrow>
                  (let current = current\<lparr>lr_lifecycle_seq := saturating_add (max (lr_lifecycle_seq current) 1) 1,
                         lr_status := status, lr_stopped_at := Some now, lr_attach_target := None\<rparr>;
                       out = lane_save S current saved
                   in case snd out of
                        Inl err \<Rightarrow> (fst out, record, [BackendTeardown], Inl err)
                      | Inr _ \<Rightarrow> (fst out, current, [BackendTeardown], Inr Transitioned)))"

definition mark_terminal_if_active_with ::
  "lane_store \<Rightarrow> LaneRecord \<Rightarrow> LaneStatus \<Rightarrow> (LaneRecord \<Rightarrow> outcome) \<Rightarrow> string \<Rightarrow> outcome \<Rightarrow>
     lane_store \<times> LaneRecord \<times> LaneEffect list \<times> (string + bool)" where
  "mark_terminal_if_active_with S record status before_transition now saved =
     (let (S', record', effects, res) = mark_terminal_if_active_fenced S record status None before_transition now saved
      in (S', record', effects, case res of Inl err \<Rightarrow> Inl err | Inr t \<Rightarrow> Inr (transitioned t)))"

definition mark_terminal_if_active ::
  "lane_store \<Rightarrow> LaneRecord \<Rightarrow> LaneStatus \<Rightarrow> string \<Rightarrow> outcome \<Rightarrow> lane_store \<times> LaneRecord \<times> LaneEffect list \<times> (string + bool)" where
  "mark_terminal_if_active S record status now saved =
     mark_terminal_if_active_with S record status (\<lambda>_. Inr ()) now saved"

section \<open>Steps of concurrent processes\<close>

text \<open>
  One operation of some process. A new id is one that is not yet used (the ids are the beginnings of
  random UUIDs), and the second result tells which callbacks ran for which lane.
\<close>

inductive lane_step :: "lane_store \<Rightarrow> string \<times> LaneEffect list \<Rightarrow> lane_store \<Rightarrow> bool" where
  lane_create: "S new_id = None \<Longrightarrow>
    lane_step S (new_id, []) (fst (create_pending S root new_id now workflow fleet issue goal runtime ttl saved))"
| lane_run: "mark_running_if_pending_with S record before rb save1 save2 = (S', record', effects, res) \<Longrightarrow>
    lane_step S (lr_id record, effects) S'"
| lane_end: "mark_terminal_if_active_fenced S record status expected before now saved = (S', record', effects, res) \<Longrightarrow>
    lane_step S (lr_id record, effects) S'"

inductive_cases lane_stepE: "lane_step S ev S'"

text \<open>Records are stored under their own id.\<close>

definition store_ok :: "lane_store \<Rightarrow> bool" where
  "store_ok S \<longleftrightarrow> (\<forall>i record. S i = Some record \<longrightarrow> lr_id record = i)"

definition lane_order :: "LaneRecord \<Rightarrow> LaneRecord \<Rightarrow> bool" where
  "lane_order old new \<longleftrightarrow>
     old = new \<or>
     (lr_status old = LanePending \<and> lr_status new = LanePending \<and> lr_lifecycle_seq new = max (lr_lifecycle_seq old) 1) \<or>
     (lr_status old = LanePending \<and> lr_status new = LaneRunning \<and>
        lr_lifecycle_seq new = saturating_add (max (lr_lifecycle_seq old) 1) 1) \<or>
     (lane_is_active (lr_status old) \<and> \<not> lane_is_active (lr_status new) \<and>
        lr_lifecycle_seq new = saturating_add (max (lr_lifecycle_seq old) 1) 1)"

lemma lane_order_refl [simp]: "lane_order r r"
  by (simp add: lane_order_def)

lemma run_effect:
  assumes "mark_running_if_pending_with S record before rb save1 save2 = (S', record', effects, res)"
  shows "(i \<noteq> lr_id record \<longrightarrow> S' i = S i) \<and>
    (case S (lr_id record) of
       None \<Rightarrow> S' = S \<and> effects = []
     | Some old \<Rightarrow> (\<exists>new. S' (lr_id record) = Some new \<and> lane_order old new) \<and>
         (lr_status old \<noteq> LanePending \<longrightarrow> S' = S \<and> effects = []))"
  using assms
  by (auto simp: mark_running_if_pending_with_def lane_load_def lane_save_def Let_def lane_order_def
      split: option.splits sum.splits if_splits)

lemma end_effect:
  assumes "mark_terminal_if_active_fenced S record status expected before now saved = (S', record', effects, res)"
    and "store_ok S"
  shows "(i \<noteq> lr_id record \<longrightarrow> S' i = S i) \<and>
    (case S (lr_id record) of
       None \<Rightarrow> S' = S \<and> effects = []
     | Some old \<Rightarrow> (\<exists>new. S' (lr_id record) = Some new \<and> lane_order old new) \<and>
         (\<not> lane_is_active (lr_status old) \<longrightarrow> S' = S \<and> effects = []))"
proof (cases "S (lr_id record)")
  case (Some old)
  then have "lr_id old = lr_id record" using assms(2) by (simp add: store_ok_def)
  with Some assms(1) show ?thesis
    by (auto simp: mark_terminal_if_active_fenced_def lane_load_def lane_save_def Let_def lane_order_def
        split: option.splits sum.splits if_splits)
qed (use assms(1) in \<open>auto simp: mark_terminal_if_active_fenced_def lane_load_def split: if_splits\<close>)

text \<open>One step, seen from one lane.\<close>

lemma step_effect:
  assumes "lane_step S ev S'" and "store_ok S" and "S i = Some old"
  shows "(\<exists>new. S' i = Some new \<and> lane_order old new) \<and>
    (\<not> lane_is_active (lr_status old) \<longrightarrow> S' i = S i \<and> (fst ev = i \<longrightarrow> snd ev = []))"
  using assms(1)
proof (cases rule: lane_step.cases)
  case (lane_create new_id root now workflow fleet issue goal runtime ttl saved)
  with assms(3) show ?thesis by (auto simp: create_pending_def lane_save_def Let_def split: sum.splits)
next
  case (lane_run lane before rb save1 save2 lane' effects res)
  from run_effect [OF lane_run(2), of i] assms(3) lane_run(1) show ?thesis
    by (cases "i = lr_id lane") (auto simp: lane_is_active_def)
next
  case (lane_end lane status expected before now saved lane' effects res)
  from end_effect [OF lane_end(2) assms(2), of i] assms(3) lane_end(1) show ?thesis
    by (cases "i = lr_id lane") auto
qed

lemma store_ok_update: "store_ok S \<Longrightarrow> store_ok (S(lr_id r \<mapsto> r))"
  by (simp add: store_ok_def)

lemma store_ok_save: "store_ok S \<Longrightarrow> store_ok (fst (lane_save S r res))"
  by (simp add: lane_save_def store_ok_update split: sum.split)

lemma run_store_ok:
  assumes "store_ok S"
  shows "store_ok (fst (mark_running_if_pending_with S record before rb save1 save2))"
  by (simp add: mark_running_if_pending_with_def lane_save_def Let_def assms split: sum.split)
    (use assms in \<open>auto simp: store_ok_def\<close>)

lemma end_store_ok:
  assumes "store_ok S"
  shows "store_ok (fst (mark_terminal_if_active_fenced S r status expected before now saved))"
  by (simp add: mark_terminal_if_active_fenced_def lane_load_def lane_save_def Let_def assms split: option.split sum.split)
    (use assms in \<open>auto simp: store_ok_def\<close>)

lemma step_store_ok:
  assumes "lane_step S ev S'" and ok: "store_ok S"
  shows "store_ok S'"
  using assms(1)
proof (cases rule: lane_step.cases)
  case lane_create
  then show ?thesis using ok by (simp add: create_pending_def Let_def store_ok_save)
next
  case (lane_run lane before rb save1 save2 lane' effects res)
  then show ?thesis using run_store_ok [OF ok, of lane before rb save1 save2] by simp
next
  case (lane_end lane status expected before now saved lane' effects res)
  then show ?thesis using end_store_ok [OF ok, of lane status expected before now saved] by simp
qed

inductive lane_trace :: "lane_store \<Rightarrow> (string \<times> LaneEffect list) list \<Rightarrow> lane_store \<Rightarrow> bool" where
  trace_Nil: "lane_trace S [] S"
| trace_Cons: "lane_step S ev S' \<Longrightarrow> lane_trace S' evs S'' \<Longrightarrow> lane_trace S (ev # evs) S''"

text \<open>
  C38. A lane ends once: after a lane has reached a terminal status, no sequence of operations of any
  process changes its record again or runs a backend callback for it.
\<close>

theorem lane_terminal_is_final:
  assumes "lane_trace S evs S'" and "store_ok S" and "S i = Some record" and "\<not> lane_is_active (lr_status record)"
  shows "S' i = Some record \<and> list_all (\<lambda>ev. fst ev = i \<longrightarrow> snd ev = []) evs"
  using assms
proof (induction rule: lane_trace.induct)
  case (trace_Cons S ev S' evs S'')
  from step_effect [OF trace_Cons(1,4,5)] trace_Cons(6) have "S' i = Some record" "fst ev = i \<longrightarrow> snd ev = []"
    using trace_Cons(5) by auto
  with trace_Cons.IH [OF step_store_ok [OF trace_Cons(1,4)]] trace_Cons(6) show ?case by simp
qed simp

definition demo_lane :: LaneRecord where
  "demo_lane = \<lparr>lr_id = ''lane-1'', lr_workflow = None, lr_fleet = None, lr_issue = None, lr_goal = None, lr_runtime = Tmux,
     lr_status = LaneRunning, lr_lifecycle_seq = 2, lr_worktree_path = None, lr_branch = None, lr_tmux_session = Some ''s'',
     lr_tmux_socket = None, lr_log_path = ''log'', lr_started_at = ''08:00'', lr_stopped_at = None,
     lr_attach_target = None, lr_worktree_ttl_secs = None\<rparr>"

definition stopped_lane :: LaneRecord where
  "stopped_lane = demo_lane\<lparr>lr_status := LaneStopped\<rparr>"

theorem lane_terminal_is_final_witness:
  "fst (mark_terminal_if_active_fenced [''lane-1'' \<mapsto> stopped_lane] demo_lane LaneFailed None (\<lambda>_. Inr ()) ''09:00'' (Inr ()))
     ''lane-1'' = Some stopped_lane"
proof -
  let ?S = "[''lane-1'' \<mapsto> stopped_lane]"
  obtain S' r' effects res where out: "mark_terminal_if_active_fenced ?S demo_lane LaneFailed None (\<lambda>_. Inr ()) ''09:00'' (Inr ()) =
      (S', r', effects, res)" by (metis prod.collapse)
  have "lane_trace ?S [(lr_id demo_lane, effects)] S'" using lane_end [OF out] by (blast intro: trace_Nil trace_Cons)
  from lane_terminal_is_final [OF this, of "''lane-1''" stopped_lane] out show ?thesis
    by (simp add: store_ok_def stopped_lane_def demo_lane_def lane_is_active_def)
qed

lemma lane_order_seq:
  assumes "lane_order old new"
  shows "lr_lifecycle_seq old \<le> lr_lifecycle_seq new \<and>
    (lr_status old \<noteq> lr_status new \<and> lr_lifecycle_seq old \<noteq> - 1 \<longrightarrow> lr_lifecycle_seq old < lr_lifecycle_seq new)"
proof -
  let ?m = "max (lr_lifecycle_seq old) 1"
  have "lr_lifecycle_seq old \<le> ?m" "?m \<le> saturating_add ?m 1" by (simp_all add: saturating_add_ge)
  moreover have "?m < saturating_add ?m 1" if "lr_lifecycle_seq old \<noteq> - 1"
    using that by (intro saturating_add_one(2)) (simp add: max_def)
  ultimately show ?thesis using assms by (auto simp: lane_order_def)
qed

text \<open>
  The lifecycle sequence of a lane is a version: it never decreases under any sequence of operations,
  and it has grown whenever the status is a different one (until it saturates).
\<close>

theorem lane_lifecycle_is_version:
  assumes "lane_trace S evs S'" and "store_ok S" and "S i = Some old"
  shows "\<exists>new. S' i = Some new \<and> lr_lifecycle_seq old \<le> lr_lifecycle_seq new \<and>
    (lr_status old \<noteq> lr_status new \<and> lr_lifecycle_seq old \<noteq> - 1 \<longrightarrow> lr_lifecycle_seq old < lr_lifecycle_seq new)"
  using assms
proof (induction arbitrary: old rule: lane_trace.induct)
  case (trace_Cons S ev S' evs S'')
  from step_effect [OF trace_Cons(1,4,5)] obtain mid where mid: "S' i = Some mid" "lane_order old mid" by blast
  from trace_Cons.IH [OF step_store_ok [OF trace_Cons(1,4)] mid(1)]
  obtain new where new: "S'' i = Some new" "lr_lifecycle_seq mid \<le> lr_lifecycle_seq new"
    "lr_status mid \<noteq> lr_status new \<and> lr_lifecycle_seq mid \<noteq> - 1 \<longrightarrow> lr_lifecycle_seq mid < lr_lifecycle_seq new" by blast
  note old = lane_order_seq [OF mid(2)]
  have "lr_lifecycle_seq old < lr_lifecycle_seq new" if "lr_status old \<noteq> lr_status new" "lr_lifecycle_seq old \<noteq> - 1"
  proof (cases "lr_lifecycle_seq old < lr_lifecycle_seq mid")
    case False
    with old that have "lr_status mid \<noteq> lr_status new" "lr_lifecycle_seq mid = lr_lifecycle_seq old" by auto
    with new(3) that show ?thesis by simp
  qed (use new(2) in simp)
  moreover have "lr_lifecycle_seq old \<le> lr_lifecycle_seq new" using old new(2) order_trans by blast
  ultimately show ?case using new(1) by simp
qed auto

theorem lane_lifecycle_is_version_witness:
  "map_option lr_lifecycle_seq (fst (mark_terminal_if_active_fenced [''lane-1'' \<mapsto> demo_lane] demo_lane LaneStopped (Some 2)
     (\<lambda>_. Inr ()) ''09:00'' (Inr ())) ''lane-1'') \<noteq> Some 1"
proof -
  let ?S = "[''lane-1'' \<mapsto> demo_lane]"
  obtain S' r' effects res where out: "mark_terminal_if_active_fenced ?S demo_lane LaneStopped (Some 2) (\<lambda>_. Inr ()) ''09:00'' (Inr ()) =
      (S', r', effects, res)" by (metis prod.collapse)
  have "lane_trace ?S [(lr_id demo_lane, effects)] S'" using lane_end [OF out] by (blast intro: trace_Nil trace_Cons)
  moreover have "store_ok ?S" by (simp add: store_ok_def demo_lane_def)
  moreover have "?S ''lane-1'' = Some demo_lane" by simp
  ultimately obtain new where "S' ''lane-1'' = Some new" "lr_lifecycle_seq demo_lane \<le> lr_lifecycle_seq new"
    using lane_lifecycle_is_version by blast
  moreover have "\<not> lr_lifecycle_seq demo_lane \<le> 1" by (simp add: demo_lane_def word_le_nat_alt)
  ultimately show ?thesis using out by auto
qed

text \<open>
  Stopping is fenced and honest: a terminal transition is reported exactly if the requested status is
  terminal, the fence matches the stored generation, the stored lane is active, the teardown succeeded and
  the record was written; the backend is torn down only when the fence matches and the lane is active; and
  whenever the transition is not reported the stored record is the old one.
\<close>

theorem lane_stop_is_fenced:
  assumes "mark_terminal_if_active_fenced S record status expected before now saved = (S', record', effects, res)"
    and "S (lr_id record) = Some current" and "lr_id current = lr_id record"
  shows "(res = Inr Transitioned \<longleftrightarrow> \<not> lane_is_active status \<and> expected \<in> {None, Some (lr_lifecycle_seq current)} \<and>
      lane_is_active (lr_status current) \<and> before current = Inr () \<and> saved = Inr ()) \<and>
    (effects \<noteq> [] \<longrightarrow> lane_is_active (lr_status current) \<and> expected \<in> {None, Some (lr_lifecycle_seq current)}) \<and>
    (if res = Inr Transitioned
     then S' = S(lr_id record \<mapsto> record') \<and> lr_status record' = status \<and> lr_stopped_at record' = Some now
     else S' = S)"
  using assms
  by (auto simp: mark_terminal_if_active_fenced_def lane_load_def lane_save_def Let_def split: option.splits sum.splits if_splits)

theorem lane_stop_is_fenced_witness:
  "snd (snd (snd (mark_terminal_if_active_fenced [''lane-1'' \<mapsto> demo_lane] demo_lane LaneStopped (Some 1) (\<lambda>_. Inr ()) ''09:00'' (Inr ()))))
     \<noteq> Inr Transitioned"
proof -
  let ?op = "mark_terminal_if_active_fenced [''lane-1'' \<mapsto> demo_lane] demo_lane LaneStopped (Some 1) (\<lambda>_. Inr ()) ''09:00'' (Inr ())"
  obtain S' r' effects res where out: "?op = (S', r', effects, res)" by (metis prod.collapse)
  from lane_stop_is_fenced [OF out, of demo_lane] out show ?thesis by (simp add: demo_lane_def)
qed

end
