(* ===== verification/Workflow_Types.thy ===== *)
theory Workflow_Types
  imports BTree_Map Rust_Str
begin

text \<open>
  The vocabulary of the workflow crate (\<open>workflow/src/lib.rs\<close>): the declarative phase configuration, the
  limits and permissions of a node, and the results of a run. A \<open>Result\<close> is a sum with the error on the
  left; \<open>try_bind\<close> is the \<open>?\<close> operator, \<open>try_each\<close> and \<open>try_map\<close> are loops whose body may return early.
\<close>

section \<open>Results\<close>

definition try_bind :: "'e + 'a \<Rightarrow> ('a \<Rightarrow> 'e + 'b) \<Rightarrow> 'e + 'b" where
  "try_bind r f = (case r of Inl e \<Rightarrow> Inl e | Inr a \<Rightarrow> f a)"

fun try_each :: "('a \<Rightarrow> 'e + unit) \<Rightarrow> 'a list \<Rightarrow> 'e + unit" where
  "try_each f [] = Inr ()"
| "try_each f (x # xs) = try_bind (f x) (\<lambda>_. try_each f xs)"

fun try_map :: "('a \<Rightarrow> 'e + 'b) \<Rightarrow> 'a list \<Rightarrow> 'e + 'b list" where
  "try_map f [] = Inr []"
| "try_map f (x # xs) = try_bind (f x) (\<lambda>y. try_bind (try_map f xs) (\<lambda>ys. Inr (y # ys)))"

definition refuse_if :: "bool \<Rightarrow> 'e \<Rightarrow> 'e + unit" where
  "refuse_if b e = (if b then Inl e else Inr ())"

lemma try_bind_simps [simp]: "try_bind (Inl e) f = Inl e" "try_bind (Inr a) f = f a"
  by (simp_all add: try_bind_def)

lemma try_bind_Inr: "try_bind r f = Inr b \<longleftrightarrow> (\<exists>a. r = Inr a \<and> f a = Inr b)"
  by (cases r) auto

lemma try_bind_Inl: "try_bind r f = Inl e \<longleftrightarrow> r = Inl e \<or> (\<exists>a. r = Inr a \<and> f a = Inl e)"
  by (cases r) auto

lemma try_bind_cong [fundef_cong]:
  "r = r' \<Longrightarrow> (\<And>a. r' = Inr a \<Longrightarrow> f a = f' a) \<Longrightarrow> try_bind r f = try_bind r' f'"
  by (cases r') auto

lemma try_each_Inr: "try_each f xs = Inr u \<longleftrightarrow> (\<forall>x \<in> set xs. f x = Inr ())"
  by (induction xs) (auto simp: try_bind_Inr)

lemma try_each_Inl: "try_each f xs = Inl e \<Longrightarrow> \<exists>x \<in> set xs. f x = Inl e"
  by (induction xs) (auto simp: try_bind_Inl)

lemma try_map_Inr:
  "try_map f xs = Inr ys \<longleftrightarrow> length ys = length xs \<and> (\<forall>i < length xs. f (xs ! i) = Inr (ys ! i))"
proof (induction xs arbitrary: ys)
  case (Cons x xs)
  show ?case by (cases ys) (auto simp: try_bind_Inr Cons.IH less_Suc_eq_0_disj)
qed auto

lemma try_map_Inl: "try_map f xs = Inl e \<Longrightarrow> \<exists>x \<in> set xs. f x = Inl e"
  by (induction xs) (auto simp: try_bind_Inl)

lemma refuse_if_Inr [simp]: "refuse_if b e = Inr u \<longleftrightarrow> \<not> b"
  by (simp add: refuse_if_def)

lemma refuse_if_Inl [simp]: "refuse_if b e = Inl e' \<longleftrightarrow> b \<and> e' = e"
  by (auto simp: refuse_if_def)

section \<open>Collecting into a map\<close>

definition bt_collect :: "('k :: linorder \<times> 'v) list \<Rightarrow> ('k, 'v) btree_map" where
  "bt_collect es = foldl (\<lambda>m (k, v). bt_insert k v m) [] es"

lemma bt_collect_foldl: "bt_get (foldl (\<lambda>m (k, v). bt_insert k v m) m es) = map_of (rev es @ m)"
proof (induction es arbitrary: m)
  case (Cons e es)
  show ?case
  proof (rule ext)
    fix l
    show "bt_get (foldl (\<lambda>m (k, v). bt_insert k v m) m (e # es)) l = map_of (rev (e # es) @ m) l"
      by (cases e) (simp add: Cons.IH map_add_def split: option.split)
  qed
qed simp

lemma bt_get_collect: "bt_get (bt_collect es) = map_of (rev es)"
  by (simp add: bt_collect_def bt_collect_foldl)

lemma bt_get_collect_distinct: "distinct (map fst es) \<Longrightarrow> bt_get (bt_collect es) = map_of es"
  by (simp add: bt_get_collect map_of_inject_set rev_map [symmetric])

section \<open>Enumerations\<close>

datatype AgentType = General | Explore | Plan | Review | Implementer | Verifier
datatype TaskMode = ReadOnly | ReadWrite
datatype IsolationMode = Auto | Shared | Worktree
datatype FailurePolicy = SkipContinue | Abort

datatype WorkflowRunStatus =
  Pending | Running | Succeeded | Failed | Cancelled | BudgetExceeded | ReplayDiverged

datatype ControlNodeKind =
  BranchSetKind | LeafKind | SequenceKind | ReduceKind | TeacherReviewKind | LoopUntilKind | CondKind | ExpandKind

definition IsolationMode_resolve :: "IsolationMode \<Rightarrow> bool \<Rightarrow> IsolationMode" where
  "IsolationMode_resolve mode parallel_write =
     (case mode of Auto \<Rightarrow> if parallel_write then Worktree else Shared | other \<Rightarrow> other)"

definition wants_worktree :: "IsolationMode \<Rightarrow> bool \<Rightarrow> bool" where
  "wants_worktree mode parallel_write = (IsolationMode_resolve mode parallel_write = Worktree)"

section \<open>Phases and tasks\<close>

record Task =
  tk_id :: string
  tk_prompt :: string
  tk_agent_type :: AgentType
  tk_mode :: TaskMode
  tk_isolation :: IsolationMode
  tk_file_scope :: "string list"
  tk_depends_on_results :: "string list"
  tk_max_steps :: "u32 option"
  tk_timeout_secs :: "u64 option"

record Phase =
  ph_name :: string
  ph_description :: "string option"
  ph_depends_on :: "string list"
  ph_parallel :: bool
  ph_on_failure :: FailurePolicy
  ph_tasks :: "Task list"

record WorkflowConfig =
  wc_goal :: string
  wc_max_concurrent :: u8
  wc_description :: "string option"
  wc_phases :: "Phase list"

record PhasePlan =
  pp_name :: string
  pp_parallel :: bool
  pp_on_failure :: FailurePolicy
  pp_tasks :: "Task list"

record WorkflowPlan =
  pl_goal :: string
  pl_max_concurrent :: u8
  pl_phases :: "PhasePlan list"

definition default_max_concurrent :: u8 where
  "default_max_concurrent = 4"

datatype WorkflowValidationError =
    EmptyField string
  | EmptyWorkflow
  | EmptyPhase string
  | InvalidMaxConcurrent u8
  | DuplicatePhase string
  | DuplicateTask string
  | InvalidPhaseDependency string string
  | PhaseDependencyCycle string
  | InvalidTaskResultDependency string string
  | UnavailableTaskResultDependency string string string string
  | MissingParallelWriteScope string
  | OverlappingParallelWriteScope string string

section \<open>Limits and permissions of a node\<close>

record BudgetSpec =
  bu_max_steps :: "u32 option"
  bu_timeout_secs :: "u64 option"
  bu_max_parallel :: "u8 option"
  bu_max_tokens :: "u64 option"

record PermissionSpec =
  pe_allow_write :: bool
  pe_allow_network :: bool
  pe_deny_all_tools :: bool
  pe_allowed_tools :: "string list"
  pe_file_scope :: "string list"

record ModelPolicy =
  mp_provider :: "string option"
  mp_model :: "string option"
  mp_fallback_models :: "string list"

section \<open>Usage\<close>

record WorkflowUsage =
  us_input_tokens :: "u64 option"
  us_output_tokens :: "u64 option"
  us_cost_microusd :: "u64 option"

record WorkflowMemoUsage =
  mu_armh_hits :: u64
  mu_armh_misses :: u64
  mu_armh_saved_estimated_tokens :: u64
  mu_provider_prompt_cache_hits :: u64
  mu_provider_prompt_cache_misses :: u64

definition WorkflowUsage_default :: WorkflowUsage where
  "WorkflowUsage_default = \<lparr>us_input_tokens = None, us_output_tokens = None, us_cost_microusd = None\<rparr>"

definition WorkflowMemoUsage_default :: WorkflowMemoUsage where
  "WorkflowMemoUsage_default = \<lparr>mu_armh_hits = 0, mu_armh_misses = 0, mu_armh_saved_estimated_tokens = 0,
     mu_provider_prompt_cache_hits = 0, mu_provider_prompt_cache_misses = 0\<rparr>"

definition sum_reported :: "u64 option \<Rightarrow> u64 option \<Rightarrow> u64 option" where
  "sum_reported left right =
     (case (left, right) of (Some a, Some b) \<Rightarrow> Some (saturating_add a b) | _ \<Rightarrow> None)"

definition total_tokens :: "WorkflowUsage \<Rightarrow> u64 option" where
  "total_tokens u = sum_reported (us_input_tokens u) (us_output_tokens u)"

definition usage_add :: "WorkflowUsage \<Rightarrow> WorkflowUsage \<Rightarrow> WorkflowUsage" where
  "usage_add a b =
     \<lparr>us_input_tokens = sum_reported (us_input_tokens a) (us_input_tokens b),
      us_output_tokens = sum_reported (us_output_tokens a) (us_output_tokens b),
      us_cost_microusd = sum_reported (us_cost_microusd a) (us_cost_microusd b)\<rparr>"

definition memo_usage_add :: "WorkflowMemoUsage \<Rightarrow> WorkflowMemoUsage \<Rightarrow> WorkflowMemoUsage" where
  "memo_usage_add a b =
     \<lparr>mu_armh_hits = saturating_add (mu_armh_hits a) (mu_armh_hits b),
      mu_armh_misses = saturating_add (mu_armh_misses a) (mu_armh_misses b),
      mu_armh_saved_estimated_tokens =
        saturating_add (mu_armh_saved_estimated_tokens a) (mu_armh_saved_estimated_tokens b),
      mu_provider_prompt_cache_hits =
        saturating_add (mu_provider_prompt_cache_hits a) (mu_provider_prompt_cache_hits b),
      mu_provider_prompt_cache_misses =
        saturating_add (mu_provider_prompt_cache_misses a) (mu_provider_prompt_cache_misses b)\<rparr>"

section \<open>Results of a run\<close>

record LeafResult =
  le_leaf_id :: string
  le_task_id :: string
  le_role :: "string option"
  le_profile :: "string option"
  le_status :: WorkflowRunStatus
  le_usage :: WorkflowUsage
  le_memo_usage :: WorkflowMemoUsage
  le_output :: "string option"
  le_artifacts :: "string list"
  le_schema_error :: "string option"

record BranchResult =
  br_branch_id :: string
  br_task_id :: string
  br_status :: WorkflowRunStatus
  br_usage :: WorkflowUsage
  br_memo_usage :: WorkflowMemoUsage
  br_artifacts :: "string list"
  br_notes :: "string option"

record ControlNodeResult =
  cr_node_id :: string
  cr_kind :: ControlNodeKind
  cr_status :: WorkflowRunStatus
  cr_selected_children :: "string list"
  cr_summary :: "string option"

record WorkflowExecution =
  ex_status :: WorkflowRunStatus
  ex_usage :: WorkflowUsage
  ex_memo_usage :: WorkflowMemoUsage
  ex_leaf_results :: "LeafResult list"
  ex_branch_results :: "BranchResult list"
  ex_control_node_results :: "ControlNodeResult list"

definition WorkflowExecution_default :: WorkflowExecution where
  "WorkflowExecution_default =
     \<lparr>ex_status = Succeeded, ex_usage = WorkflowUsage_default, ex_memo_usage = WorkflowMemoUsage_default,
      ex_leaf_results = [], ex_branch_results = [], ex_control_node_results = []\<rparr>"

definition mark :: "WorkflowRunStatus \<Rightarrow> WorkflowExecution \<Rightarrow> WorkflowExecution" where
  "mark status x = x\<lparr>ex_status := status\<rparr>"

definition push_control :: "ControlNodeResult \<Rightarrow> WorkflowExecution \<Rightarrow> WorkflowExecution" where
  "push_control r x = x\<lparr>ex_control_node_results := ex_control_node_results x @ [r]\<rparr>"

text \<open>The usage of several leaves: the first one's, with the others added.\<close>

definition usage_total :: "LeafResult list \<Rightarrow> WorkflowUsage" where
  "usage_total rs =
     (case rs of [] \<Rightarrow> WorkflowUsage_default
      | r # rs \<Rightarrow> foldl (\<lambda>u r. usage_add u (le_usage r)) (le_usage r) rs)"

definition memo_usage_total :: "LeafResult list \<Rightarrow> WorkflowMemoUsage" where
  "memo_usage_total rs = foldl (\<lambda>u r. memo_usage_add u (le_memo_usage r)) WorkflowMemoUsage_default rs"

end
