(* ===== verification/Workflow_Plan.thy ===== *)
theory Workflow_Plan
  imports Workflow_Types
begin

text \<open>
  Compilation of a declarative workflow (\<open>WorkflowPlan::from_config\<close> of \<open>workflow/src/lib.rs\<close>): the checks of
  phases, tasks and parallel write scopes, the depth-first ordering of the phases and the check that a
  task only uses results of earlier phases. Indexing a map with a missing key panics in Rust; it is the
  fault \<open>IndexPanic\<close> here, and the development shows that it never happens.
\<close>

section \<open>File scopes\<close>

definition STAR :: char where "STAR = CHR 0x2A"
definition PATH_SEP :: char where "PATH_SEP = CHR 0x2F"

fun trim_start_dot_slash :: "string \<Rightarrow> string" where
  "trim_start_dot_slash (a # b # s) =
     (if a = CHR ''.'' \<and> b = PATH_SEP then trim_start_dot_slash s else a # b # s)"
| "trim_start_dot_slash s = s"

definition trim_end_sep :: "string \<Rightarrow> string" where
  "trim_end_sep s = rev (trim_start_matches [PATH_SEP] (rev s))"

definition strip_suffix :: "string \<Rightarrow> string \<Rightarrow> string option" where
  "strip_suffix s p = (if suffix p s then Some (take (length s - length p) s) else None)"

definition normalize_file_scope_root :: "string \<Rightarrow> string" where
  "normalize_file_scope_root scope =
     (let trimmed = trim_end_sep (trim_start_dot_slash (trim scope))
      in case option_or (strip_suffix trimmed [PATH_SEP, STAR, STAR]) (strip_suffix trimmed [PATH_SEP, STAR]) of
           Some root \<Rightarrow> root
         | None \<Rightarrow> trimmed)"

definition glob_prefix :: "string \<Rightarrow> string" where
  "glob_prefix scope = trim_end_sep (hd (split_char STAR scope))"

text \<open>
  The components of a Unix \<open>Path\<close>: a leading separator is the root, empty components and every
  \<open>.\<close> but a leading one are skipped.
\<close>

datatype path_component = RootDir | CurDir | PathName string

definition plain_components :: "string list \<Rightarrow> path_component list" where
  "plain_components cs = map PathName (filter (\<lambda>c. c \<noteq> [] \<and> c \<noteq> ''.'') cs)"

definition path_components :: "string \<Rightarrow> path_component list" where
  "path_components p =
     (case split_char PATH_SEP p of
        [] \<Rightarrow> []
      | c # cs \<Rightarrow>
          if c = [] \<and> cs \<noteq> [] then RootDir # plain_components cs
          else if c = ''.'' then CurDir # plain_components cs
          else plain_components (c # cs))"

definition path_starts_with :: "string \<Rightarrow> string \<Rightarrow> bool" where
  "path_starts_with p base = prefix (path_components base) (path_components p)"

definition scope_overlaps :: "string \<Rightarrow> string \<Rightarrow> bool" where
  "scope_overlaps l r =
     (let left = normalize_file_scope_root l;
          right = normalize_file_scope_root r
      in if left = right \<or> left = ''.'' \<or> right = ''.'' then True
         else if contains_char left STAR \<or> contains_char right STAR then glob_prefix left = glob_prefix right
         else path_starts_with left right \<or> path_starts_with right left)"

definition scopes_overlap :: "string list \<Rightarrow> string list \<Rightarrow> bool" where
  "scopes_overlap left right = list_ex (\<lambda>l. list_ex (scope_overlaps l) right) left"

section \<open>The checks\<close>

datatype PlanFault = Refused WorkflowValidationError | IndexPanic string

definition validate_non_empty :: "string \<Rightarrow> string \<Rightarrow> PlanFault + unit" where
  "validate_non_empty field v = refuse_if (trim v = []) (Refused (EmptyField field))"

record plan_tables =
  pt_phase_indices :: "(string, nat) btree_map"
  pt_all_tasks :: "(string, Task) btree_map"
  pt_task_phase :: "(string, string) btree_map"

definition collect_task :: "string \<Rightarrow> Task \<Rightarrow> plan_tables \<Rightarrow> PlanFault + plan_tables" where
  "collect_task phase task t =
     try_bind (validate_non_empty ''task id'' (tk_id task)) (\<lambda>_.
     try_bind (validate_non_empty ''task prompt'' (tk_prompt task)) (\<lambda>_.
     try_bind (refuse_if (bt_get (pt_all_tasks t) (tk_id task) \<noteq> None) (Refused (DuplicateTask (tk_id task)))) (\<lambda>_.
     Inr (t\<lparr>pt_all_tasks := bt_insert (tk_id task) task (pt_all_tasks t),
            pt_task_phase := bt_insert (tk_id task) phase (pt_task_phase t)\<rparr>))))"

fun collect_tasks :: "string \<Rightarrow> Task list \<Rightarrow> plan_tables \<Rightarrow> PlanFault + plan_tables" where
  "collect_tasks phase [] t = Inr t"
| "collect_tasks phase (task # tasks) t = try_bind (collect_task phase task t) (collect_tasks phase tasks)"

definition collect_phase :: "nat \<Rightarrow> Phase \<Rightarrow> plan_tables \<Rightarrow> PlanFault + plan_tables" where
  "collect_phase i phase t =
     try_bind (validate_non_empty ''phase name'' (ph_name phase)) (\<lambda>_.
     try_bind (refuse_if (ph_tasks phase = []) (Refused (EmptyPhase (ph_name phase)))) (\<lambda>_.
     try_bind (refuse_if (bt_get (pt_phase_indices t) (ph_name phase) \<noteq> None)
                 (Refused (DuplicatePhase (ph_name phase)))) (\<lambda>_.
     collect_tasks (ph_name phase) (ph_tasks phase)
       (t\<lparr>pt_phase_indices := bt_insert (ph_name phase) i (pt_phase_indices t)\<rparr>))))"

fun collect_phases :: "nat \<Rightarrow> Phase list \<Rightarrow> plan_tables \<Rightarrow> PlanFault + plan_tables" where
  "collect_phases i [] t = Inr t"
| "collect_phases i (phase # phases) t = try_bind (collect_phase i phase t) (collect_phases (i + 1) phases)"

fun overlapping_pair :: "Task list \<Rightarrow> (string \<times> string) option" where
  "overlapping_pair [] = None"
| "overlapping_pair (left # rest) =
     (case List.find (\<lambda>right. scopes_overlap (tk_file_scope left) (tk_file_scope right)) rest of
        Some right \<Rightarrow> Some (tk_id left, tk_id right)
      | None \<Rightarrow> overlapping_pair rest)"

definition write_tasks :: "Task list \<Rightarrow> Task list" where
  "write_tasks tasks = filter (\<lambda>task. tk_mode task = ReadWrite) tasks"

definition validate_parallel_write_scope :: "Phase \<Rightarrow> PlanFault + unit" where
  "validate_parallel_write_scope phase =
     (if \<not> ph_parallel phase then Inr ()
      else try_bind (try_each (\<lambda>task. refuse_if (tk_file_scope task = []) (Refused (MissingParallelWriteScope (tk_id task))))
                       (write_tasks (ph_tasks phase))) (\<lambda>_.
        case overlapping_pair (write_tasks (ph_tasks phase)) of
          Some (left, right) \<Rightarrow> Inl (Refused (OverlappingParallelWriteScope left right))
        | None \<Rightarrow> Inr ()))"

definition check_phase :: "(string, nat) btree_map \<Rightarrow> Phase \<Rightarrow> PlanFault + unit" where
  "check_phase indices phase =
     try_bind (try_each (\<lambda>dependency.
         refuse_if (dependency = ph_name phase \<or> bt_get indices dependency = None)
           (Refused (InvalidPhaseDependency (ph_name phase) dependency))) (ph_depends_on phase)) (\<lambda>_.
     validate_parallel_write_scope phase)"

section \<open>Ordering the phases\<close>

definition phase_named :: "Phase list \<Rightarrow> (string, nat) btree_map \<Rightarrow> string \<Rightarrow> Phase option" where
  "phase_named phases indices name = Option.bind (bt_get indices name) (nth_opt phases)"

text \<open>
  \<open>visit_phase\<close> on a list of names in order, which is both the loop over the phases and the loop over the
  dependencies of a phase. The set of phases being visited is extended for the dependencies and
  restored after them, so it is passed down; the visited set and the order are threaded through.
\<close>

type_synonym visit_state = "string set \<times> string list"

function visit_phases ::
  "Phase list \<Rightarrow> (string, nat) btree_map \<Rightarrow> string list \<Rightarrow> string set \<Rightarrow> visit_state \<Rightarrow> PlanFault + visit_state" where
  "visit_phases phases indices [] visiting st = Inr st"
| "visit_phases phases indices (name # names) visiting st =
     try_bind
       (if name \<in> fst st then Inr st
        else if name \<in> visiting then Inl (Refused (PhaseDependencyCycle name))
        else case phase_named phases indices name of
            None \<Rightarrow> Inl (IndexPanic name)
          | Some phase \<Rightarrow>
              try_bind (visit_phases phases indices (ph_depends_on phase) (insert name visiting) st)
                (\<lambda>(visited, ordered). Inr (insert name visited, ordered @ [name])))
       (\<lambda>st. visit_phases phases indices names visiting st)"
  by pat_completeness auto
termination
proof (relation "measures [\<lambda>(phases, indices, names, visiting, st). card (fst ` set indices - visiting),
    \<lambda>(phases, indices, names, visiting, st). length names]", goal_cases)
  case (2 phases indices name names visiting st phase)
  then have "name \<in> fst ` set indices - visiting"
    by (auto simp: phase_named_def dest: map_of_SomeD split: Option.bind_splits) (force dest: map_of_SomeD)
  then have "card (fst ` set indices - insert name visiting) < card (fst ` set indices - visiting)"
    by (intro psubset_card_mono) auto
  then show ?case by simp
qed simp_all

definition ordered_phases :: "Phase list \<Rightarrow> (string, nat) btree_map \<Rightarrow> PlanFault + string list" where
  "ordered_phases phases indices =
     try_bind (visit_phases phases indices (map ph_name phases) {} ({}, [])) (\<lambda>st. Inr (snd st))"

section \<open>Compilation\<close>

definition check_result_dependency ::
  "(string, string) btree_map \<Rightarrow> (string, nat) btree_map \<Rightarrow> string \<Rightarrow> string \<Rightarrow> string \<Rightarrow> PlanFault + unit" where
  "check_result_dependency task_phase phase_order phase task dependency =
     (case bt_get task_phase dependency of
        None \<Rightarrow> Inl (Refused (InvalidTaskResultDependency task dependency))
      | Some dependency_phase \<Rightarrow>
          (case (bt_get phase_order dependency_phase, bt_get phase_order phase) of
             (Some i, Some j) \<Rightarrow>
               refuse_if (j \<le> i)
                 (Refused (UnavailableTaskResultDependency task dependency dependency_phase phase))
           | _ \<Rightarrow> Inl (IndexPanic phase)))"

definition check_results ::
  "(string, string) btree_map \<Rightarrow> (string, nat) btree_map \<Rightarrow> Phase \<Rightarrow> PlanFault + unit" where
  "check_results task_phase phase_order phase =
     try_each (\<lambda>task.
         try_each (check_result_dependency task_phase phase_order (ph_name phase) (tk_id task))
           (tk_depends_on_results task)) (ph_tasks phase)"

definition phase_plan :: "Phase \<Rightarrow> PhasePlan" where
  "phase_plan phase = \<lparr>pp_name = ph_name phase, pp_parallel = ph_parallel phase,
     pp_on_failure = ph_on_failure phase, pp_tasks = ph_tasks phase\<rparr>"

definition from_config :: "WorkflowConfig \<Rightarrow> PlanFault + WorkflowPlan" where
  "from_config config =
     try_bind (validate_non_empty ''workflow goal'' (wc_goal config)) (\<lambda>_.
     try_bind (refuse_if (wc_max_concurrent config < 1 \<or> 20 < wc_max_concurrent config)
       (Refused (InvalidMaxConcurrent (wc_max_concurrent config)))) (\<lambda>_.
     try_bind (refuse_if (wc_phases config = []) (Refused EmptyWorkflow)) (\<lambda>_.
     try_bind (collect_phases 0 (wc_phases config)
       \<lparr>pt_phase_indices = [], pt_all_tasks = [], pt_task_phase = []\<rparr>) (\<lambda>t.
     try_bind (try_each (check_phase (pt_phase_indices t)) (wc_phases config)) (\<lambda>_.
     try_bind (ordered_phases (wc_phases config) (pt_phase_indices t)) (\<lambda>names.
     try_bind (try_each (check_results (pt_task_phase t) (bt_collect (zip names [0..<length names])))
       (wc_phases config)) (\<lambda>_.
     try_bind (try_map (\<lambda>name.
         case phase_named (wc_phases config) (pt_phase_indices t) name of
           None \<Rightarrow> Inl (IndexPanic name) | Some phase \<Rightarrow> Inr (phase_plan phase)) names) (\<lambda>phases.
     Inr \<lparr>pl_goal = wc_goal config, pl_max_concurrent = wc_max_concurrent config, pl_phases = phases\<rparr>))))))))"

definition config_validate :: "WorkflowConfig \<Rightarrow> PlanFault + unit" where
  "config_validate config = try_bind (from_config config) (\<lambda>_. Inr ())"

definition phase_names :: "WorkflowPlan \<Rightarrow> string list" where
  "phase_names plan = map pp_name (pl_phases plan)"

end
