(* ===== verification/Workflow_Plan_Props.thy ===== *)
theory Workflow_Plan_Props
  imports Workflow_Plan "HOL-Library.Multiset"
begin

text \<open>
  What compiling a workflow guarantees: the plan holds each phase of the configuration once, in an order
  in which every phase follows the phases it depends on and every task follows the tasks whose results it
  uses; parallel writers have scopes that do not overlap; and a configuration is refused for a cycle
  exactly when its dependencies have one.
\<close>

section \<open>Tables\<close>

lemma collect_task_Inr:
  assumes "collect_task phase task t = Inr t'"
  shows "pt_phase_indices t' = pt_phase_indices t"
    and "bt_get (pt_task_phase t') d = (if d = tk_id task then Some phase else bt_get (pt_task_phase t) d)"
  using assms by (auto simp: collect_task_def try_bind_Inr)

lemma collect_tasks_Inr:
  assumes "collect_tasks phase tasks t = Inr t'"
  shows "pt_phase_indices t' = pt_phase_indices t"
    and "bt_get (pt_task_phase t') d =
      (if d \<in> tk_id ` set tasks then Some phase else bt_get (pt_task_phase t) d)"
  using assms
  by (induction tasks arbitrary: t)
    (auto simp: try_bind_Inr collect_task_Inr)

lemma collect_phase_Inr:
  assumes "collect_phase i phase t = Inr t'"
  shows "bt_get (pt_phase_indices t) (ph_name phase) = None"
    and "bt_get (pt_phase_indices t') n = (if n = ph_name phase then Some i else bt_get (pt_phase_indices t) n)"
    and "bt_get (pt_task_phase t') d =
      (if d \<in> tk_id ` set (ph_tasks phase) then Some (ph_name phase) else bt_get (pt_task_phase t) d)"
  using assms by (auto simp: collect_phase_def try_bind_Inr collect_tasks_Inr)

lemma collect_phases_Inr:
  assumes "collect_phases i phases t = Inr t'"
  shows "distinct (map ph_name phases)"
    and "\<forall>n \<in> ph_name ` set phases. bt_get (pt_phase_indices t) n = None"
    and "\<forall>k < length phases. bt_get (pt_phase_indices t') (ph_name (phases ! k)) = Some (i + k)"
    and "\<forall>n. n \<notin> ph_name ` set phases \<longrightarrow> bt_get (pt_phase_indices t') n = bt_get (pt_phase_indices t) n"
    and "\<forall>d n. bt_get (pt_task_phase t') d = Some n \<longrightarrow>
      bt_get (pt_task_phase t) d = Some n \<or>
      (\<exists>phase \<in> set phases. ph_name phase = n \<and> d \<in> tk_id ` set (ph_tasks phase))"
proof -
  have "distinct (map ph_name phases) \<and>
    (\<forall>n \<in> ph_name ` set phases. bt_get (pt_phase_indices t) n = None) \<and>
    (\<forall>k < length phases. bt_get (pt_phase_indices t') (ph_name (phases ! k)) = Some (i + k)) \<and>
    (\<forall>n. n \<notin> ph_name ` set phases \<longrightarrow> bt_get (pt_phase_indices t') n = bt_get (pt_phase_indices t) n) \<and>
    (\<forall>d n. bt_get (pt_task_phase t') d = Some n \<longrightarrow>
      bt_get (pt_task_phase t) d = Some n \<or>
      (\<exists>phase \<in> set phases. ph_name phase = n \<and> d \<in> tk_id ` set (ph_tasks phase)))"
    using assms
  proof (induction phases arbitrary: i t)
    case (Cons phase phases)
    from Cons.prems obtain u where u: "collect_phase i phase t = Inr u" "collect_phases (i + 1) phases u = Inr t'"
      by (auto simp: try_bind_Inr)
    note IH = Cons.IH [OF u(2)] and step = collect_phase_Inr [OF u(1)]
    have fresh: "ph_name phase \<notin> ph_name ` set phases"
      using IH step(2) [of "ph_name phase"] by force
    have "bt_get (pt_phase_indices t') (ph_name ((phase # phases) ! k)) = Some (i + k)"
      if "k < length (phase # phases)" for k
      using that IH fresh step(2) [of "ph_name phase"] by (cases k) auto
    moreover have "bt_get (pt_task_phase t) d = Some n \<or>
        (\<exists>q \<in> set (phase # phases). ph_name q = n \<and> d \<in> tk_id ` set (ph_tasks q))"
      if "bt_get (pt_task_phase t') d = Some n" for d n
    proof -
      have "bt_get (pt_task_phase u) d = Some n \<or>
          (\<exists>q \<in> set phases. ph_name q = n \<and> d \<in> tk_id ` set (ph_tasks q))"
        using IH that by blast
      with step(3) [of d] show ?thesis by (auto split: if_splits)
    qed
    moreover have "\<forall>n \<in> ph_name ` set (phase # phases). bt_get (pt_phase_indices t) n = None"
      using IH step(1) step(2) by (metis (no_types, lifting) image_iff option.distinct(1) set_ConsD)
    ultimately show ?case using IH fresh step(2) by auto
  qed simp
  then show "distinct (map ph_name phases)"
    and "\<forall>n \<in> ph_name ` set phases. bt_get (pt_phase_indices t) n = None"
    and "\<forall>k < length phases. bt_get (pt_phase_indices t') (ph_name (phases ! k)) = Some (i + k)"
    and "\<forall>n. n \<notin> ph_name ` set phases \<longrightarrow> bt_get (pt_phase_indices t') n = bt_get (pt_phase_indices t) n"
    and "\<forall>d n. bt_get (pt_task_phase t') d = Some n \<longrightarrow>
      bt_get (pt_task_phase t) d = Some n \<or>
      (\<exists>phase \<in> set phases. ph_name phase = n \<and> d \<in> tk_id ` set (ph_tasks phase))"
    by simp_all
qed

text \<open>Looking a name up gives the phase of that name.\<close>

definition lookup_ok :: "Phase list \<Rightarrow> (string, nat) btree_map \<Rightarrow> bool" where
  "lookup_ok phases indices \<longleftrightarrow>
     (\<forall>n p. phase_named phases indices n = Some p \<longleftrightarrow> p \<in> set phases \<and> ph_name p = n)"

lemma collect_lookup_ok:
  assumes "collect_phases 0 phases \<lparr>pt_phase_indices = [], pt_all_tasks = [], pt_task_phase = []\<rparr> = Inr t"
  shows "lookup_ok phases (pt_phase_indices t)"
    and "bt_get (pt_phase_indices t) n = None \<longleftrightarrow> n \<notin> ph_name ` set phases"
proof -
  note c = collect_phases_Inr [OF assms]
  have at: "bt_get (pt_phase_indices t) (ph_name (phases ! k)) = Some k" if "k < length phases" for k
    using c(3) that by simp
  show none: "bt_get (pt_phase_indices t) n = None \<longleftrightarrow> n \<notin> ph_name ` set phases" for n
    using c(4) at by (auto simp: in_set_conv_nth)
  show "lookup_ok phases (pt_phase_indices t)" unfolding lookup_ok_def
  proof (intro allI iffI)
    fix n p
    assume n: "phase_named phases (pt_phase_indices t) n = Some p"
    then obtain k where k: "bt_get (pt_phase_indices t) n = Some k" "k < length phases" "phases ! k = p"
      by (auto simp: phase_named_def nth_opt_Some split: Option.bind_splits)
    with none [of n] obtain j where j: "j < length phases" "ph_name (phases ! j) = n"
      by (auto simp: in_set_conv_nth)
    with at [OF j(1)] k show "p \<in> set phases \<and> ph_name p = n" by auto
  next
    fix n p
    assume "p \<in> set phases \<and> ph_name p = n"
    then obtain k where "k < length phases" "phases ! k = p" "ph_name (phases ! k) = n"
      by (auto simp: in_set_conv_nth)
    with at [of k] show "phase_named phases (pt_phase_indices t) n = Some p"
      by (simp add: phase_named_def nth_opt_Some)
  qed
qed

section \<open>The depth-first ordering\<close>

definition phase_deps :: "Phase list \<Rightarrow> (string \<times> string) set" where
  "phase_deps phases = {(ph_name p, d) |p d. p \<in> set phases \<and> d \<in> set (ph_depends_on p)}"

definition dependency_ordered :: "Phase list \<Rightarrow> string list \<Rightarrow> bool" where
  "dependency_ordered phases names \<longleftrightarrow>
     distinct names \<and> (\<forall>i < length names. phase_deps phases `` {names ! i} \<subseteq> set (take i names))"

definition visit_inv :: "Phase list \<Rightarrow> string set \<Rightarrow> visit_state \<Rightarrow> bool" where
  "visit_inv phases visiting st \<longleftrightarrow>
     set (snd st) = fst st \<and> fst st \<inter> visiting = {} \<and> fst st \<subseteq> ph_name ` set phases \<and>
     dependency_ordered phases (snd st)"

lemma dependency_ordered_snoc:
  assumes "dependency_ordered phases names" and "n \<notin> set names" and "phase_deps phases `` {n} \<subseteq> set names"
  shows "dependency_ordered phases (names @ [n])"
  using assms by (auto simp: dependency_ordered_def nth_append less_Suc_eq)

lemma lookup_deps:
  assumes "lookup_ok phases indices" and "distinct (map ph_name phases)"
    and "phase_named phases indices n = Some p"
  shows "phase_deps phases `` {n} = set (ph_depends_on p)"
proof -
  have p: "p \<in> set phases" "ph_name p = n" using assms(1,3) by (auto simp: lookup_ok_def)
  then have "q = p" if "q \<in> set phases" "ph_name q = n" for q
    using that p assms(2) by (auto simp: distinct_map dest: inj_onD)
  with p show ?thesis unfolding phase_deps_def by blast
qed

lemma visit_phases_inv:
  assumes "lookup_ok phases indices" and "distinct (map ph_name phases)"
    and "visit_phases phases indices names visiting st = Inr st'" and "visit_inv phases visiting st"
  shows "visit_inv phases visiting st' \<and> fst st \<union> set names \<subseteq> fst st'"
  using assms
proof (induction phases indices names visiting st arbitrary: st' rule: visit_phases.induct)
  case (2 phases indices name names visiting st)
  from "2.prems"(3) obtain st1 where rest: "visit_phases phases indices names visiting st1 = Inr st'"
    and first: "(if name \<in> fst st then Inr st
        else if name \<in> visiting then Inl (Refused (PhaseDependencyCycle name))
        else case phase_named phases indices name of
            None \<Rightarrow> Inl (IndexPanic name)
          | Some phase \<Rightarrow>
              try_bind (visit_phases phases indices (ph_depends_on phase) (insert name visiting) st)
                (\<lambda>(visited, ordered). Inr (insert name visited, ordered @ [name]))) = Inr st1"
    by (auto simp only: visit_phases.simps try_bind_Inr)
  have "visit_inv phases visiting st1 \<and> insert name (fst st) \<subseteq> fst st1"
  proof (cases "name \<in> fst st")
    case True
    with first "2.prems"(4) show ?thesis by auto
  next
    case False
    with first obtain phase st0 where phase: "name \<notin> visiting" "phase_named phases indices name = Some phase"
      and st0: "visit_phases phases indices (ph_depends_on phase) (insert name visiting) st = Inr st0"
      and st1: "st1 = (insert name (fst st0), snd st0 @ [name])"
      by (auto simp: try_bind_Inr split: if_splits option.splits)
    have inv: "visit_inv phases (insert name visiting) st" using "2.prems"(4) False by (auto simp: visit_inv_def)
    note IH = "2.IH"(1) [OF False phase "2.prems"(1,2) st0 inv]
    have deps: "phase_deps phases `` {name} \<subseteq> set (snd st0)"
      using lookup_deps [OF "2.prems"(1,2) phase(2)] IH by (auto simp: visit_inv_def)
    have fresh: "name \<notin> set (snd st0)" using IH by (auto simp: visit_inv_def)
    have known: "name \<in> ph_name ` set phases" using phase(2) "2.prems"(1) by (auto simp: lookup_ok_def)
    show ?thesis using IH dependency_ordered_snoc [OF _ fresh deps] fresh phase(1) known
      by (auto simp: st1 visit_inv_def)
  qed
  with "2.IH"(2) [OF first "2.prems"(1,2) rest] show ?case by auto
qed (simp add: visit_inv_def)

lemma visit_phases_fault:
  assumes "lookup_ok phases indices" and "distinct (map ph_name phases)"
    and "phase_deps phases `` UNIV \<subseteq> ph_name ` set phases" and "set names \<subseteq> ph_name ` set phases"
    and "\<forall>v \<in> visiting. \<forall>n \<in> set names. (v, n) \<in> (phase_deps phases)\<^sup>+"
    and "visit_phases phases indices names visiting st = Inl f"
  shows "\<exists>p. f = Refused (PhaseDependencyCycle p) \<and> (p, p) \<in> (phase_deps phases)\<^sup>+"
  using assms
proof (induction phases indices names visiting st arbitrary: f rule: visit_phases.induct)
  case (2 phases indices name names visiting st)
  let ?R = "phase_deps phases"
  let ?first = "if name \<in> fst st then Inr st
        else if name \<in> visiting then Inl (Refused (PhaseDependencyCycle name))
        else case phase_named phases indices name of
            None \<Rightarrow> Inl (IndexPanic name)
          | Some phase \<Rightarrow>
              try_bind (visit_phases phases indices (ph_depends_on phase) (insert name visiting) st)
                (\<lambda>(visited, ordered). Inr (insert name visited, ordered @ [name]))"
  from "2.prems"(6) consider
      (first) "?first = Inl f"
    | (rest) st1 where "?first = Inr st1" "visit_phases phases indices names visiting st1 = Inl f"
    by (auto simp only: visit_phases.simps try_bind_Inl)
  then show ?case
  proof cases
    case first
    obtain phase where phase: "phase_named phases indices name = Some phase"
      using "2.prems"(1,4) by (auto simp: lookup_ok_def)
    note deps = lookup_deps [OF "2.prems"(1,2) phase]
    from first consider "name \<in> visiting" "f = Refused (PhaseDependencyCycle name)"
      | "name \<notin> fst st" "name \<notin> visiting"
        "visit_phases phases indices (ph_depends_on phase) (insert name visiting) st = Inl f"
      by (auto simp: phase try_bind_Inl split: if_splits)
    then show ?thesis
    proof cases
      case 1
      with "2.prems"(5) show ?thesis by auto
    next
      case 2
      have edge: "(name, d) \<in> ?R" if "d \<in> set (ph_depends_on phase)" for d using that deps by auto
      have "(v, d) \<in> ?R\<^sup>+" if "v \<in> insert name visiting" "d \<in> set (ph_depends_on phase)" for v d
        using that "2.prems"(5) edge [OF that(2)]
        by (metis insertE list.set_intros(1) r_into_trancl trancl_into_trancl)
      moreover have "set (ph_depends_on phase) \<subseteq> ph_name ` set phases"
        using "2.prems"(3) edge by (auto simp: Image_def)
      ultimately show ?thesis using "2.IH"(1) [OF 2(1,2) phase "2.prems"(1-3) _ _ 2(3)] by blast
    qed
  next
    case rest
    show ?thesis by (rule "2.IH"(2) [OF rest(1) "2.prems"(1-3) _ _ rest(2)])
        (use "2.prems"(4,5) in auto)
  qed
qed simp

lemma dependency_ordered_acyclic:
  assumes "dependency_ordered phases names" and "ph_name ` set phases \<subseteq> set names"
  shows "acyclic (phase_deps phases)"
proof (rule acyclicI_order)
  fix a b
  assume e: "(a, b) \<in> phase_deps phases"
  then have "a \<in> set names" using assms(2) by (auto simp: phase_deps_def)
  then obtain i where i: "i < length names" "names ! i = a" by (auto simp: in_set_conv_nth)
  with e assms(1) have "b \<in> set (take i names)" by (auto simp: dependency_ordered_def)
  then obtain j where j: "j < i" "j < length names" "names ! j = b" by (auto simp: in_set_conv_nth)
  have "the_inv_into {..<length names} ((!) names) (names ! k) = k" if "k < length names" for k
    using that assms(1)
    by (intro the_inv_into_f_f) (auto simp: dependency_ordered_def inj_on_def nth_eq_iff_index_eq)
  with i j show "the_inv_into {..<length names} ((!) names) b < the_inv_into {..<length names} ((!) names) a"
    by metis
qed

text \<open>The order of the phases: a permutation in which dependencies come first, or a cycle.\<close>

lemma ordered_phases_Inr:
  assumes "lookup_ok phases indices" and "distinct (map ph_name phases)"
    and "ordered_phases phases indices = Inr names"
  shows "dependency_ordered phases names" and "set names = ph_name ` set phases"
proof -
  obtain st where st: "visit_phases phases indices (map ph_name phases) {} ({}, []) = Inr st" "names = snd st"
    using assms(3) by (auto simp: ordered_phases_def try_bind_Inr)
  have "visit_inv phases {} ({}, [])" by (simp add: visit_inv_def dependency_ordered_def)
  note inv = visit_phases_inv [OF assms(1,2) st(1) this]
  from inv show "dependency_ordered phases names" "set names = ph_name ` set phases"
    by (auto simp: visit_inv_def st(2))
qed

lemma ordered_phases_Inl:
  assumes "lookup_ok phases indices" and "distinct (map ph_name phases)"
    and "phase_deps phases `` UNIV \<subseteq> ph_name ` set phases" and "ordered_phases phases indices = Inl f"
  shows "\<exists>p. f = Refused (PhaseDependencyCycle p) \<and> (p, p) \<in> (phase_deps phases)\<^sup>+"
proof -
  have "visit_phases phases indices (map ph_name phases) {} ({}, []) = Inl f"
    using assms(4) by (simp add: ordered_phases_def try_bind_Inl)
  then show ?thesis by (rule visit_phases_fault [OF assms(1-3), rotated -1]) simp_all
qed

section \<open>Parallel writers\<close>

lemma overlapping_pair_None:
  "overlapping_pair ts = None \<longleftrightarrow>
     sorted_wrt (\<lambda>a b. \<not> scopes_overlap (tk_file_scope a) (tk_file_scope b)) ts"
  by (induction ts) (auto simp: find_None_iff dest: find_Some_set split: option.split)

definition writers_apart :: "Task list \<Rightarrow> bool" where
  "writers_apart ts \<longleftrightarrow>
     (\<forall>t \<in> set (write_tasks ts). tk_file_scope t \<noteq> []) \<and>
     sorted_wrt (\<lambda>a b. \<not> scopes_overlap (tk_file_scope a) (tk_file_scope b)) (write_tasks ts)"

lemma validate_parallel_write_scope_Inr:
  "validate_parallel_write_scope phase = Inr u \<longleftrightarrow> (ph_parallel phase \<longrightarrow> writers_apart (ph_tasks phase))"
  using overlapping_pair_None [of "write_tasks (ph_tasks phase)"]
  by (cases "overlapping_pair (write_tasks (ph_tasks phase))")
    (auto simp: validate_parallel_write_scope_def try_bind_Inr try_each_Inr writers_apart_def)

lemma validate_parallel_write_scope_Inl:
  "validate_parallel_write_scope phase = Inl f \<Longrightarrow>
     (\<exists>t. f = Refused (MissingParallelWriteScope t)) \<or> (\<exists>l r. f = Refused (OverlappingParallelWriteScope l r))"
  by (auto simp: validate_parallel_write_scope_def try_bind_Inl dest: try_each_Inl split: if_splits option.splits)

text \<open>Without globs, scopes that do not overlap have no path in common.\<close>

theorem disjoint_scopes_share_no_path:
  assumes "\<not> scope_overlaps l r"
    and "STAR \<notin> set (normalize_file_scope_root l)" and "STAR \<notin> set (normalize_file_scope_root r)"
  shows "\<not> (path_starts_with p (normalize_file_scope_root l) \<and> path_starts_with p (normalize_file_scope_root r))"
  using assms prefix_same_cases
  by (fastforce simp: scope_overlaps_def path_starts_with_def contains_char_def Let_def split: if_splits)

section \<open>The compiled plan\<close>

text \<open>What the successful checks of the compiler leave behind.\<close>

definition compiled :: "WorkflowConfig \<Rightarrow> WorkflowPlan \<Rightarrow> plan_tables \<Rightarrow> string list \<Rightarrow> bool" where
  "compiled config plan t names \<longleftrightarrow>
     1 \<le> pl_max_concurrent plan \<and> pl_max_concurrent plan \<le> 20 \<and>
     distinct (map ph_name (wc_phases config)) \<and>
     (\<forall>d n. bt_get (pt_task_phase t) d = Some n \<longrightarrow>
       (\<exists>phase \<in> set (wc_phases config). ph_name phase = n \<and> d \<in> tk_id ` set (ph_tasks phase))) \<and>
     (\<forall>phase \<in> set (wc_phases config). ph_parallel phase \<longrightarrow> writers_apart (ph_tasks phase)) \<and>
     dependency_ordered (wc_phases config) names \<and> set names = ph_name ` set (wc_phases config) \<and>
     (\<forall>phase \<in> set (wc_phases config).
       check_results (pt_task_phase t) (bt_collect (zip names [0..<length names])) phase = Inr ()) \<and>
     length (pl_phases plan) = length names \<and>
     (\<forall>i < length names. \<exists>phase \<in> set (wc_phases config).
       ph_name phase = names ! i \<and> pl_phases plan ! i = phase_plan phase)"

lemma from_config_compiled:
  assumes "from_config config = Inr plan"
  shows "\<exists>t names. compiled config plan t names"
proof -
  from assms obtain t names phases where
    c: "collect_phases 0 (wc_phases config) \<lparr>pt_phase_indices = [], pt_all_tasks = [], pt_task_phase = []\<rparr> = Inr t"
    and checks: "try_each (check_phase (pt_phase_indices t)) (wc_phases config) = Inr ()"
    and names: "ordered_phases (wc_phases config) (pt_phase_indices t) = Inr names"
    and results: "try_each (check_results (pt_task_phase t) (bt_collect (zip names [0..<length names])))
       (wc_phases config) = Inr ()"
    and phases: "try_map (\<lambda>name.
         case phase_named (wc_phases config) (pt_phase_indices t) name of
           None \<Rightarrow> Inl (IndexPanic name) | Some phase \<Rightarrow> Inr (phase_plan phase)) names = Inr phases"
    and plan: "plan = \<lparr>pl_goal = wc_goal config, pl_max_concurrent = wc_max_concurrent config, pl_phases = phases\<rparr>"
      "\<not> (wc_max_concurrent config < 1 \<or> 20 < wc_max_concurrent config)"
    by (auto simp: from_config_def try_bind_Inr)
  note cp = collect_phases_Inr [OF c] and look = collect_lookup_ok [OF c]
  note ord = ordered_phases_Inr [OF look(1) cp(1) names]
  have "\<exists>phase \<in> set (wc_phases config). ph_name phase = names ! i \<and> phases ! i = phase_plan phase"
    if "i < length names" for i
    using that phases look(1) unfolding try_map_Inr lookup_ok_def
    by (fastforce split: option.splits)
  moreover have "1 \<le> wc_max_concurrent config" "wc_max_concurrent config \<le> 20"
    using plan(2) by (simp_all only: de_Morgan_disj not_less)
  ultimately have "compiled config plan t names"
    using plan(1) cp(1,5) ord checks results phases
    by (simp add: compiled_def try_each_Inr check_phase_def try_bind_Inr validate_parallel_write_scope_Inr
        try_map_Inr)
  then show ?thesis by blast
qed

lemma phase_name_inj:
  "distinct (map ph_name phases) \<Longrightarrow> p \<in> set phases \<Longrightarrow> q \<in> set phases \<Longrightarrow> ph_name p = ph_name q \<Longrightarrow> q = p"
  by (auto simp: distinct_map dest: inj_onD)

lemma compiled_names:
  assumes "compiled config plan t names"
  shows "phase_names plan = names"
  using assms by (auto simp: compiled_def phase_names_def phase_plan_def intro!: nth_equalityI)

lemma compiled_permutes:
  assumes c: "compiled config plan t names"
  shows "mset (pl_phases plan) = mset (map phase_plan (wc_phases config))"
proof -
  let ?phases = "wc_phases config"
  have dist: "distinct (map ph_name ?phases)" and len: "length (pl_phases plan) = length names"
    and at: "\<forall>i < length names. \<exists>phase \<in> set ?phases. ph_name phase = names ! i \<and> pl_phases plan ! i = phase_plan phase"
    and ord: "distinct names" "set names = ph_name ` set ?phases"
    using c by (auto simp: compiled_def dependency_ordered_def)
  have "phase_plan p \<in> set (pl_phases plan)" if p: "p \<in> set ?phases" for p
  proof -
    have "ph_name p \<in> set names" using p ord(2) by blast
    then obtain i where i: "i < length names" "names ! i = ph_name p" by (metis in_set_conv_nth)
    with at obtain q where q: "q \<in> set ?phases" "ph_name q = ph_name p" "pl_phases plan ! i = phase_plan q"
      by auto
    have "q = p" using phase_name_inj [OF dist p q(1)] q(2) by simp
    with q(3) i(1) len show ?thesis using nth_mem [of i "pl_phases plan"] by simp
  qed
  moreover have "set (pl_phases plan) \<subseteq> phase_plan ` set ?phases"
    using at len by (fastforce simp: in_set_conv_nth)
  ultimately have "set (pl_phases plan) = set (map phase_plan ?phases)" by auto
  moreover have "distinct (pl_phases plan)"
    using compiled_names [OF c] ord(1) by (metis distinct_map phase_names_def)
  moreover have "map pp_name (map phase_plan ?phases) = map ph_name ?phases" by (simp add: phase_plan_def)
  then have "distinct (map phase_plan ?phases)" using dist by (metis distinct_map)
  ultimately show ?thesis by (simp only: set_eq_iff_mset_eq_distinct)
qed

lemma position_in_order:
  assumes "distinct names" and "i < length names"
  shows "bt_get (bt_collect (zip names [0..<length names])) (names ! i) = Some i"
proof -
  have "bt_get (bt_collect (zip names [0..<length names])) = map_of (zip names [0..<length names])"
    using assms(1) by (simp add: bt_get_collect_distinct)
  moreover have "(names ! i, i) \<in> set (zip names [0..<length names])"
    using assms(2) by (force simp: in_set_zip)
  ultimately show ?thesis using assms(1) by (simp add: map_of_eq_Some_iff)
qed

lemma order_position:
  "bt_get (bt_collect (zip names [0..<length names])) n = Some i \<Longrightarrow> i < length names \<and> names ! i = n"
  by (auto simp: bt_get_collect in_set_zip dest!: map_of_SomeD)

lemma compiled_results:
  assumes c: "compiled config plan t names" and i: "i < length names"
    and task: "task \<in> set (pp_tasks (pl_phases plan ! i))" and d: "d \<in> set (tk_depends_on_results task)"
  shows "\<exists>j < i. d \<in> tk_id ` set (pp_tasks (pl_phases plan ! j))"
proof -
  let ?phases = "wc_phases config" and ?order = "bt_collect (zip names [0..<length names])"
  have dist: "distinct (map ph_name ?phases)" "distinct names"
    and at: "\<forall>i < length names. \<exists>phase \<in> set ?phases. ph_name phase = names ! i \<and> pl_phases plan ! i = phase_plan phase"
    using c by (auto simp: compiled_def dependency_ordered_def)
  obtain p where p: "p \<in> set ?phases" "ph_name p = names ! i" "pl_phases plan ! i = phase_plan p" using at i by blast
  have "check_results (pt_task_phase t) ?order p = Inr ()" using c p(1) by (simp add: compiled_def)
  then have "check_result_dependency (pt_task_phase t) ?order (names ! i) (tk_id task) d = Inr ()"
    using p task d by (simp add: check_results_def try_each_Inr phase_plan_def)
  then obtain q j where q: "bt_get (pt_task_phase t) d = Some q" and j: "bt_get ?order q = Some j" "j < i"
    using position_in_order [OF dist(2) i]
    by (auto simp: check_result_dependency_def not_le split: option.splits)
  obtain r where r: "r \<in> set ?phases" "ph_name r = q" "d \<in> tk_id ` set (ph_tasks r)"
    using c q unfolding compiled_def by blast
  obtain s where s: "s \<in> set ?phases" "ph_name s = q" "pl_phases plan ! j = phase_plan s"
    using order_position [OF j(1)] at by blast
  have "r = s" using phase_name_inj [OF dist(1) s(1) r(1)] r(2) s(2) by simp
  with r(3) s(3) j(2) show ?thesis by (auto simp: phase_plan_def)
qed


definition sample_task :: "string \<Rightarrow> string list \<Rightarrow> Task" where
  "sample_task n uses = \<lparr>tk_id = n, tk_prompt = ''do'', tk_agent_type = General, tk_mode = ReadWrite,
     tk_isolation = Auto, tk_file_scope = [''src'' @ [PATH_SEP] @ n], tk_depends_on_results = uses, tk_max_steps = None,
     tk_timeout_secs = None\<rparr>"

definition sample_phase :: "string \<Rightarrow> string list \<Rightarrow> Task list \<Rightarrow> Phase" where
  "sample_phase n deps tasks = \<lparr>ph_name = n, ph_description = None, ph_depends_on = deps, ph_parallel = True,
     ph_on_failure = Abort, ph_tasks = tasks\<rparr>"

definition sample_config :: "Phase list \<Rightarrow> WorkflowConfig" where
  "sample_config phases = \<lparr>wc_goal = ''goal'', wc_max_concurrent = 4, wc_description = None, wc_phases = phases\<rparr>"

definition sample_phases :: "Phase list" where
  "sample_phases = [sample_phase ''test'' [''build''] [sample_task ''t'' [''a'']],
     sample_phase ''build'' [] [sample_task ''a'' [], sample_task ''b'' []]]"

lemma sample_compiles:
  "from_config (sample_config sample_phases) =
     Inr \<lparr>pl_goal = ''goal'', pl_max_concurrent = 4,
       pl_phases = map phase_plan (rev sample_phases)\<rparr>"
  by code_simp


section \<open>Refusals\<close>

lemma collect_tasks_Inl: "collect_tasks phase tasks t = Inl f \<Longrightarrow> \<exists>e. f = Refused e \<and> (\<forall>p. e \<noteq> PhaseDependencyCycle p)"
  by (induction tasks arbitrary: t) (auto simp: try_bind_Inl collect_task_def validate_non_empty_def)

lemma collect_phases_Inl: "collect_phases i phases t = Inl f \<Longrightarrow> \<exists>e. f = Refused e \<and> (\<forall>p. e \<noteq> PhaseDependencyCycle p)"
  by (induction phases arbitrary: i t)
    (auto simp: try_bind_Inl collect_phase_def validate_non_empty_def dest: collect_tasks_Inl)

lemma check_phase_Inl: "check_phase indices phase = Inl f \<Longrightarrow> \<exists>e. f = Refused e \<and> (\<forall>p. e \<noteq> PhaseDependencyCycle p)"
  by (auto simp: check_phase_def try_bind_Inl dest: try_each_Inl validate_parallel_write_scope_Inl)

text \<open>With every phase in the order, the checks of result dependencies find all the positions they look up.\<close>

lemma check_results_Inl:
  assumes "\<forall>d n. bt_get task_phase d = Some n \<longrightarrow> n \<in> set names" and "distinct names" and "ph_name phase \<in> set names"
    and "check_results task_phase (bt_collect (zip names [0..<length names])) phase = Inl f"
  shows "\<exists>e. f = Refused e \<and> (\<forall>p. e \<noteq> PhaseDependencyCycle p)"
proof -
  have at: "\<exists>i. bt_get (bt_collect (zip names [0..<length names])) n = Some i" if "n \<in> set names" for n
    using that position_in_order [OF assms(2)] by (metis in_set_conv_nth)
  obtain task :: Task and d where "check_result_dependency task_phase (bt_collect (zip names [0..<length names]))
      (ph_name phase) (tk_id task) d = Inl f"
    using assms(4) by (auto simp: check_results_def dest!: try_each_Inl)
  moreover obtain i where "bt_get (bt_collect (zip names [0..<length names])) (ph_name phase) = Some i"
    using at [OF assms(3)] by blast
  moreover have "bt_get task_phase d = Some n \<Longrightarrow> bt_get (bt_collect (zip names [0..<length names])) n \<noteq> None" for n
    using at assms(1) by fastforce
  ultimately show ?thesis
    by (auto simp: check_result_dependency_def split: option.splits)
qed

lemma from_config_Inl:
  assumes "from_config config = Inl f"
  shows "(\<exists>e. f = Refused e \<and> (\<forall>p. e \<noteq> PhaseDependencyCycle p)) \<or>
    (\<exists>p. f = Refused (PhaseDependencyCycle p) \<and> (p, p) \<in> (phase_deps (wc_phases config))\<^sup>+)"
proof -
  let ?phases = "wc_phases config"
  let ?t0 = "\<lparr>pt_phase_indices = [], pt_all_tasks = [], pt_task_phase = []\<rparr>"
  show ?thesis
  proof (cases "collect_phases 0 ?phases ?t0")
    case (Inl g)
    with assms show ?thesis
      by (auto simp: from_config_def try_bind_Inl validate_non_empty_def dest: collect_phases_Inl)
  next
    case (Inr t)
    note cp = collect_phases_Inr [OF Inr] and look = collect_lookup_ok [OF Inr]
    consider
        (early) "\<exists>e. f = Refused e \<and> (\<forall>p. e \<noteq> PhaseDependencyCycle p)"
      | (order) "\<forall>phase \<in> set ?phases. check_phase (pt_phase_indices t) phase = Inr ()"
          "ordered_phases ?phases (pt_phase_indices t) = Inl f"
      | (late) names and phase :: Phase where "ordered_phases ?phases (pt_phase_indices t) = Inr names"
          "phase \<in> set ?phases"
          "check_results (pt_task_phase t) (bt_collect (zip names [0..<length names])) phase = Inl f"
      | (build) names where "ordered_phases ?phases (pt_phase_indices t) = Inr names"
          "try_map (\<lambda>name. case phase_named ?phases (pt_phase_indices t) name of
             None \<Rightarrow> Inl (IndexPanic name) | Some phase \<Rightarrow> Inr (phase_plan phase)) names = Inl f"
      using assms Inr
      by (auto simp: from_config_def try_bind_Inl try_bind_Inr try_each_Inr validate_non_empty_def
          dest: check_phase_Inl dest!: try_each_Inl)
    then show ?thesis
    proof cases
      case order
      have "phase_deps ?phases `` UNIV \<subseteq> ph_name ` set ?phases"
        using order(1) look(2) by (fastforce simp: check_phase_def try_bind_Inr try_each_Inr phase_deps_def)
      from ordered_phases_Inl [OF look(1) cp(1) this order(2)] show ?thesis by blast
    next
      case late
      note ord = ordered_phases_Inr [OF look(1) cp(1) late(1)]
      have "\<forall>d n. bt_get (pt_task_phase t) d = Some n \<longrightarrow> n \<in> set names" using cp(5) ord(2) by fastforce
      moreover have "distinct names" "ph_name phase \<in> set names"
        using ord late(2) by (auto simp: dependency_ordered_def)
      ultimately show ?thesis using check_results_Inl late(3) by blast
    next
      case build
      from try_map_Inl [OF build(2)] obtain name where name: "name \<in> set names"
        "(case phase_named ?phases (pt_phase_indices t) name of
           None \<Rightarrow> Inl (IndexPanic name) | Some phase \<Rightarrow> Inr (phase_plan phase)) = Inl f"
        by blast
      have "name \<in> ph_name ` set ?phases"
        using name(1) ordered_phases_Inr(2) [OF look(1) cp(1) build(1)] by (simp only:)
      then obtain p where "p \<in> set ?phases" "ph_name p = name" by (elim imageE) simp
      then have "phase_named ?phases (pt_phase_indices t) name = Some p" using look(1) by (simp add: lookup_ok_def)
      with name(2) show ?thesis by simp
    qed blast
  qed
qed

text \<open>
  C20. Compiling never indexes a table with a missing key, so it never panics; a refusal for a dependency
  cycle names a phase that depends on itself through the declared dependencies; and when the configuration
  compiles, the dependencies have no cycle at all.
\<close>

theorem cycle_refusal_exact:
  "(\<forall>name. from_config config \<noteq> Inl (IndexPanic name)) \<and>
   (\<forall>p. from_config config = Inl (Refused (PhaseDependencyCycle p)) \<longrightarrow> (p, p) \<in> (phase_deps (wc_phases config))\<^sup>+) \<and>
   (\<forall>plan. from_config config = Inr plan \<longrightarrow> acyclic (phase_deps (wc_phases config)))"
proof (intro conjI allI impI)
  fix name
  show "from_config config \<noteq> Inl (IndexPanic name)" using from_config_Inl by fastforce
next
  fix p
  assume "from_config config = Inl (Refused (PhaseDependencyCycle p))"
  from from_config_Inl [OF this] show "(p, p) \<in> (phase_deps (wc_phases config))\<^sup>+" by auto
next
  fix plan
  assume "from_config config = Inr plan"
  from from_config_compiled [OF this] obtain t names where "compiled config plan t names" by blast
  then show "acyclic (phase_deps (wc_phases config))"
    by (intro dependency_ordered_acyclic [of _ names]) (simp_all add: compiled_def)
qed

definition cyclic_phases :: "Phase list" where
  "cyclic_phases = [sample_phase ''a'' [''b''] [sample_task ''t'' []], sample_phase ''b'' [''a''] [sample_task ''u'' []]]"

theorem cycle_refusal_exact_witness:
  "from_config (sample_config cyclic_phases) = Inl (Refused (PhaseDependencyCycle ''a'')) \<and>
   (''a'', ''a'') \<in> (phase_deps (wc_phases (sample_config cyclic_phases)))\<^sup>+"
proof -
  have "from_config (sample_config cyclic_phases) = Inl (Refused (PhaseDependencyCycle ''a''))" by code_simp
  with cycle_refusal_exact [of "sample_config cyclic_phases"] show ?thesis by blast
qed

text \<open>
  The glob test compares the text before the first star only: a glob and a file below it are taken for
  disjoint, and two parallel tasks that write the same file are accepted.
\<close>

definition glob_writer :: "string \<Rightarrow> string \<Rightarrow> Task" where
  "glob_writer n scope = (sample_task n [])\<lparr>tk_file_scope := [scope]\<rparr>"

theorem glob_scopes_escape:
  "scope_overlaps (''src'' @ [PATH_SEP, STAR] @ ''.rs'') (''src'' @ [PATH_SEP] @ ''main.rs'') = False \<and>
   (\<exists>plan. from_config (sample_config [sample_phase ''p'' []
     [glob_writer ''a'' (''src'' @ [PATH_SEP, STAR] @ ''.rs''), glob_writer ''b'' (''src'' @ [PATH_SEP] @ ''main.rs'')]]) = Inr plan)"
proof -
  let ?c = "sample_config [sample_phase ''p'' []
     [glob_writer ''a'' (''src'' @ [PATH_SEP, STAR] @ ''.rs''), glob_writer ''b'' (''src'' @ [PATH_SEP] @ ''main.rs'')]]"
  have "\<not> isl (from_config ?c)" by code_simp
  then have "\<exists>plan. from_config ?c = Inr plan" by (cases "from_config ?c") simp_all
  moreover have "\<not> scope_overlaps (''src'' @ [PATH_SEP, STAR] @ ''.rs'') (''src'' @ [PATH_SEP] @ ''main.rs'')"
    by code_simp
  ultimately show ?thesis by blast
qed

end
