(* ===== verification/Workflow_Nodes.thy ===== *)
theory Workflow_Nodes
  imports Workflow_Types Lane_Gates Str_Lemmas
begin

text \<open>
  The node language of workflows (\<open>workflow/src/lib.rs\<close>): the tree of nodes, its validation and the estimate
  of the agents a workflow may launch, and the resolution of roles to profiles (\<open>role_resolve.rs\<close>). The
  children of a node are arguments of its constructor next to the record of its other fields.
\<close>

section \<open>Roles\<close>

definition forbidden_token_chars :: "char list" where
  "forbidden_token_chars = [CHR 0x22, CHR 0x27, CHR 0x60, CHR ''='']"

definition token_text_ok :: "string \<Rightarrow> bool" where
  "token_text_ok s \<longleftrightarrow> ws_free s \<and> list_all (\<lambda>c. c \<notin> set forbidden_token_chars) s"

definition normalize_token :: "string \<Rightarrow> string option" where
  "normalize_token raw =
     (let trimmed = trim raw
      in if trimmed = [] then None
         else if \<not> token_text_ok trimmed then None
         else Some (to_ascii_lowercase trimmed))"

datatype FleetRoleResolveError =
    EmptyRole | EmptyProfile | UnknownRole string string | MissingRoleOrProfile | InvalidRoleToken string

type_synonym FleetRoleMap = "(string, string) btree_map"

definition role_insert :: "FleetRoleMap \<Rightarrow> string \<Rightarrow> string \<Rightarrow> FleetRoleResolveError + FleetRoleMap" where
  "role_insert m role profile =
     (case normalize_token role of
        None \<Rightarrow> Inl EmptyRole
      | Some r \<Rightarrow>
          (case normalize_token profile of
             None \<Rightarrow> Inl EmptyProfile
           | Some p \<Rightarrow> Inr (bt_insert r p m)))"

fun role_insert_all :: "FleetRoleMap \<Rightarrow> (string \<times> string) list \<Rightarrow> FleetRoleResolveError + FleetRoleMap" where
  "role_insert_all m [] = Inr m"
| "role_insert_all m ((r, p) # ps) = try_bind (role_insert m r p) (\<lambda>m. role_insert_all m ps)"

definition role_from_pairs :: "(string \<times> string) list \<Rightarrow> FleetRoleResolveError + FleetRoleMap" where
  "role_from_pairs ps = role_insert_all [] ps"

definition role_get :: "FleetRoleMap \<Rightarrow> string \<Rightarrow> string option" where
  "role_get m role = Option.bind (normalize_token role) (bt_get m)"

record ResolvedWorkflowAgent =
  ra_resolved_role :: "string option"
  ra_resolved_profile :: string
  ra_route_source :: string

definition validate_role_token :: "string \<Rightarrow> FleetRoleResolveError + string" where
  "validate_role_token role = (case normalize_token role of None \<Rightarrow> Inl (InvalidRoleToken role) | Some t \<Rightarrow> Inr t)"

definition validate_optional_token :: "string option \<Rightarrow> FleetRoleResolveError + string option" where
  "validate_optional_token raw =
     (case raw of None \<Rightarrow> Inr None | Some r \<Rightarrow> try_bind (validate_role_token r) (\<lambda>t. Inr (Some t)))"

definition resolve_workflow_agent ::
  "string option \<Rightarrow> string option \<Rightarrow> FleetRoleMap \<Rightarrow> bool \<Rightarrow> FleetRoleResolveError + ResolvedWorkflowAgent" where
  "resolve_workflow_agent role profile fleet require_known_role =
     try_bind (validate_optional_token role) (\<lambda>role_norm.
     try_bind (validate_optional_token profile) (\<lambda>profile_norm.
     case profile_norm of
       Some p \<Rightarrow> Inr \<lparr>ra_resolved_role = role_norm, ra_resolved_profile = p, ra_route_source = ''explicit_profile''\<rparr>
     | None \<Rightarrow>
         (case role_norm of
            None \<Rightarrow> Inl MissingRoleOrProfile
          | Some role_name \<Rightarrow>
              (case role_get fleet role_name of
                 Some mapped \<Rightarrow>
                   Inr \<lparr>ra_resolved_role = Some role_name, ra_resolved_profile = mapped, ra_route_source = ''fleet_role''\<rparr>
               | None \<Rightarrow>
                   if require_known_role
                   then Inl (UnknownRole role_name
                     (if fleet = [] then ''(none)'' else join '', '' (map fst fleet)))
                   else Inr \<lparr>ra_resolved_role = Some role_name, ra_resolved_profile = role_name,
                     ra_route_source = ''role_as_profile''\<rparr>))))"

section \<open>Nodes\<close>

datatype PromotionStrategy = AllBranches | FirstSuccess | BestScore | TeacherSelected

record PromotionGate =
  pg_min_score_delta :: "32 word"
  pg_max_cost_delta_microusd :: "64 word option"
  pg_require_all_tests_pass :: bool
  pg_reject_policy_violations :: bool
  pg_reject_stale_replay :: bool

record PromotionPolicy =
  pr_strategy :: PromotionStrategy
  pr_require_teacher_review :: bool
  pr_min_successful_branches :: "u32 option"
  pr_promotion_gate :: PromotionGate

record LeafSpec =
  lf_id :: string
  lf_prompt :: string
  lf_agent_type :: AgentType
  lf_role :: "string option"
  lf_profile :: "string option"
  lf_mode :: TaskMode
  lf_isolation :: IsolationMode
  lf_file_scope :: "string list"
  lf_depends_on_results :: "string list"
  lf_budget :: BudgetSpec
  lf_permissions :: PermissionSpec
  lf_model_policy :: ModelPolicy

record BranchSpec =
  bs_id :: string
  bs_description :: "string option"
  bs_parallel :: bool
  bs_budget :: BudgetSpec
  bs_permissions :: PermissionSpec
  bs_model_policy :: ModelPolicy

record ReduceSpec =
  rd_id :: string
  rd_inputs :: "string list"
  rd_prompt :: string
  rd_model_policy :: ModelPolicy

record TeacherReviewSpec =
  te_id :: string
  te_candidates :: "string list"
  te_promotion_policy :: PromotionPolicy

record LoopUntilSpec =
  lu_id :: string
  lu_condition :: string
  lu_max_iterations :: "u32 option"

record CondSpec =
  co_id :: string
  co_condition :: string

record ExpandSpec =
  xp_id :: string
  xp_source :: string
  xp_max_children :: "u64 option"

datatype WorkflowNode =
    BranchSet BranchSpec "WorkflowNode list"
  | Leaf LeafSpec
  | Sequence string "WorkflowNode list"
  | Reduce ReduceSpec
  | TeacherReview TeacherReviewSpec
  | LoopUntil LoopUntilSpec "WorkflowNode list"
  | Cond CondSpec "WorkflowNode list" "WorkflowNode list"
  | Expand ExpandSpec "WorkflowNode option"

record WorkflowSpec =
  ws_id :: "string option"
  ws_goal :: string
  ws_description :: "string option"
  ws_budget :: BudgetSpec
  ws_permissions :: PermissionSpec
  ws_model_policy :: ModelPolicy
  ws_promotion_policy :: PromotionPolicy
  ws_gates :: "GateSpec list"
  ws_nodes :: "WorkflowNode list"

definition leaf_is_write_capable :: "LeafSpec \<Rightarrow> bool" where
  "leaf_is_write_capable l \<longleftrightarrow> lf_mode l = ReadWrite \<or> pe_allow_write (lf_permissions l)"

definition leaf_wants_worktree :: "LeafSpec \<Rightarrow> bool \<Rightarrow> bool" where
  "leaf_wants_worktree l in_parallel = wants_worktree (lf_isolation l) (in_parallel \<and> leaf_is_write_capable l)"

fun node_id :: "WorkflowNode \<Rightarrow> string" where
  "node_id (BranchSet s _) = bs_id s"
| "node_id (Leaf s) = lf_id s"
| "node_id (Sequence i _) = i"
| "node_id (Reduce s) = rd_id s"
| "node_id (TeacherReview s) = te_id s"
| "node_id (LoopUntil s _) = lu_id s"
| "node_id (Cond s _ _) = co_id s"
| "node_id (Expand s _) = xp_id s"

fun control_kind_name :: "WorkflowNode \<Rightarrow> string" where
  "control_kind_name (BranchSet _ _) = ''branch_set''"
| "control_kind_name (Leaf _) = ''leaf''"
| "control_kind_name (Sequence _ _) = ''sequence''"
| "control_kind_name (Reduce _) = ''reduce''"
| "control_kind_name (TeacherReview _) = ''teacher_review''"
| "control_kind_name (LoopUntil _ _) = ''loop_until''"
| "control_kind_name (Cond _ _ _) = ''cond''"
| "control_kind_name (Expand _ _) = ''expand''"

section \<open>Validation\<close>

datatype WorkflowExecutionError =
    EmptyNodeId string
  | EmptyLeafPrompt string
  | InvalidLeafProfile string string
  | InvalidLeafRole string string
  | DuplicateNodeId string
  | UnknownNodeReference string string string

definition validate_leaf_profile :: "string \<Rightarrow> string \<Rightarrow> WorkflowExecutionError + unit" where
  "validate_leaf_profile leaf profile =
     refuse_if (profile = [] \<or> \<not> token_text_ok profile) (InvalidLeafProfile leaf profile)"

definition validate_leaf_role :: "string \<Rightarrow> string \<Rightarrow> WorkflowExecutionError + unit" where
  "validate_leaf_role leaf role = refuse_if (isl (validate_role_token role)) (InvalidLeafRole leaf role)"

definition validate_leaf :: "LeafSpec \<Rightarrow> WorkflowExecutionError + unit" where
  "validate_leaf l =
     try_bind (refuse_if (trim (lf_prompt l) = []) (EmptyLeafPrompt (lf_id l))) (\<lambda>_.
     try_bind (case lf_role l of None \<Rightarrow> Inr () | Some role \<Rightarrow> validate_leaf_role (lf_id l) role) (\<lambda>_.
     case lf_profile l of None \<Rightarrow> Inr () | Some profile \<Rightarrow> validate_leaf_profile (lf_id l) profile))"

definition validate_node_id :: "WorkflowNode \<Rightarrow> string set \<Rightarrow> WorkflowExecutionError + string set" where
  "validate_node_id node seen =
     try_bind (refuse_if (trim (node_id node) = []) (EmptyNodeId (control_kind_name node))) (\<lambda>_.
     try_bind (refuse_if (node_id node \<in> seen) (DuplicateNodeId (node_id node))) (\<lambda>_.
     Inr (insert (node_id node) seen)))"

fun validate_workflow_nodes_inner :: "WorkflowNode list \<Rightarrow> string set \<Rightarrow> WorkflowExecutionError + string set" where
  "validate_workflow_nodes_inner [] seen = Inr seen"
| "validate_workflow_nodes_inner (node # nodes) seen =
     try_bind (validate_node_id node seen) (\<lambda>seen.
     try_bind
       (case node of
          BranchSet _ children \<Rightarrow> validate_workflow_nodes_inner children seen
        | Leaf l \<Rightarrow> try_bind (validate_leaf l) (\<lambda>_. Inr seen)
        | Sequence _ children \<Rightarrow> validate_workflow_nodes_inner children seen
        | LoopUntil _ children \<Rightarrow> validate_workflow_nodes_inner children seen
        | Cond _ then_nodes else_nodes \<Rightarrow>
            try_bind (validate_workflow_nodes_inner then_nodes seen) (\<lambda>seen.
              validate_workflow_nodes_inner else_nodes seen)
        | _ \<Rightarrow> Inr seen)
       (\<lambda>seen. validate_workflow_nodes_inner nodes seen))"

definition validate_known_references ::
  "string \<Rightarrow> string \<Rightarrow> string list \<Rightarrow> string set \<Rightarrow> WorkflowExecutionError + unit" where
  "validate_known_references node field references known_ids =
     try_each (\<lambda>reference. refuse_if (reference \<notin> known_ids) (UnknownNodeReference node field reference)) references"

fun validate_workflow_references :: "WorkflowNode list \<Rightarrow> string set \<Rightarrow> WorkflowExecutionError + unit" where
  "validate_workflow_references [] known = Inr ()"
| "validate_workflow_references (node # nodes) known =
     try_bind
       (case node of
          BranchSet _ children \<Rightarrow> validate_workflow_references children known
        | Leaf l \<Rightarrow> validate_known_references (lf_id l) ''depends_on_results'' (lf_depends_on_results l) known
        | Sequence _ children \<Rightarrow> validate_workflow_references children known
        | Reduce r \<Rightarrow> validate_known_references (rd_id r) ''inputs'' (rd_inputs r) known
        | TeacherReview t \<Rightarrow> validate_known_references (te_id t) ''candidates'' (te_candidates t) known
        | LoopUntil _ children \<Rightarrow> validate_workflow_references children known
        | Cond _ then_nodes else_nodes \<Rightarrow>
            try_bind (validate_workflow_references then_nodes known) (\<lambda>_.
              validate_workflow_references else_nodes known)
        | Expand _ _ \<Rightarrow> Inr ())
       (\<lambda>_. validate_workflow_references nodes known)"

definition validate_workflow_nodes :: "WorkflowNode list \<Rightarrow> WorkflowExecutionError + unit" where
  "validate_workflow_nodes nodes =
     try_bind (validate_workflow_nodes_inner nodes {}) (validate_workflow_references nodes)"

definition validate_workflow_node_shapes :: "WorkflowNode list \<Rightarrow> WorkflowExecutionError + unit" where
  "validate_workflow_node_shapes nodes = try_bind (validate_workflow_nodes_inner nodes {}) (\<lambda>_. Inr ())"

section \<open>The size of a fleet\<close>

definition saturating_mul :: "'w::len word \<Rightarrow> 'w word \<Rightarrow> 'w word" where
  "saturating_mul a b = (if uint a * uint b < 2 ^ LENGTH('w) then a * b else - 1)"

record WorkflowFleetShape =
  wf_total_agents :: u64
  wf_max_depth :: u64

record WorkflowFleetLimits =
  wl_max_total_agents :: u64
  wl_max_depth :: u64

definition WorkflowFleetLimits_default :: WorkflowFleetLimits where
  "WorkflowFleetLimits_default = \<lparr>wl_max_total_agents = 1000, wl_max_depth = 5\<rparr>"

datatype WorkflowFleetLimitError =
    InvalidWorkflow WorkflowExecutionError
  | TooManyAgents u64 u64
  | RecursionTooDeep u64 u64
  | UnboundedExpand string
  | MissingExpandTemplate string
  | UnboundedLoop string

definition shape_default :: WorkflowFleetShape where
  "shape_default = \<lparr>wf_total_agents = 0, wf_max_depth = 0\<rparr>"

definition shape_add :: "WorkflowFleetShape \<Rightarrow> WorkflowFleetShape \<Rightarrow> WorkflowFleetShape" where
  "shape_add a b = \<lparr>wf_total_agents = saturating_add (wf_total_agents a) (wf_total_agents b),
     wf_max_depth = max (wf_max_depth a) (wf_max_depth b)\<rparr>"

definition shape_repeat :: "WorkflowFleetShape \<Rightarrow> u64 \<Rightarrow> WorkflowFleetShape" where
  "shape_repeat a n = a\<lparr>wf_total_agents := saturating_mul (wf_total_agents a) n\<rparr>"

definition invalid_for_fleet :: "WorkflowExecutionError + 'a \<Rightarrow> WorkflowFleetLimitError + 'a" where
  "invalid_for_fleet r = (case r of Inl e \<Rightarrow> Inl (InvalidWorkflow e) | Inr a \<Rightarrow> Inr a)"

fun estimate_node_fleet_shape :: "WorkflowNode \<Rightarrow> u64 \<Rightarrow> WorkflowFleetLimitError + WorkflowFleetShape"
  and estimate_fold :: "WorkflowNode list \<Rightarrow> u64 \<Rightarrow> WorkflowFleetShape \<Rightarrow> WorkflowFleetLimitError + WorkflowFleetShape" where
  "estimate_node_fleet_shape (Leaf _) depth = Inr \<lparr>wf_total_agents = 1, wf_max_depth = depth\<rparr>"
| "estimate_node_fleet_shape (BranchSet _ children) depth = estimate_fold children (depth + 1) shape_default"
| "estimate_node_fleet_shape (Sequence _ children) depth = estimate_fold children depth shape_default"
| "estimate_node_fleet_shape (Reduce _) depth = Inr shape_default"
| "estimate_node_fleet_shape (TeacherReview _) depth = Inr shape_default"
| "estimate_node_fleet_shape (LoopUntil s children) depth =
     (case lu_max_iterations s of
        None \<Rightarrow> Inl (UnboundedLoop (lu_id s))
      | Some iterations \<Rightarrow>
          try_bind (estimate_fold children depth shape_default) (\<lambda>shape.
            Inr (shape_repeat shape (max (ucast iterations) 1))))"
| "estimate_node_fleet_shape (Cond _ then_nodes else_nodes) depth =
     try_bind (estimate_fold then_nodes depth shape_default) (\<lambda>a.
     try_bind (estimate_fold else_nodes depth shape_default) (\<lambda>b. Inr (shape_add a b)))"
| "estimate_node_fleet_shape (Expand s template) depth =
     (case xp_max_children s of
        None \<Rightarrow> Inl (UnboundedExpand (xp_id s))
      | Some max_children \<Rightarrow>
          (case template of
             None \<Rightarrow> Inl (MissingExpandTemplate (xp_id s))
           | Some t \<Rightarrow>
               try_bind (invalid_for_fleet (validate_workflow_node_shapes [t])) (\<lambda>_.
               try_bind (estimate_node_fleet_shape t depth) (\<lambda>shape. Inr (shape_repeat shape max_children)))))"
| "estimate_fold [] depth shape = Inr shape"
| "estimate_fold (node # nodes) depth shape =
     try_bind (estimate_node_fleet_shape node depth) (\<lambda>s. estimate_fold nodes depth (shape_add shape s))"

definition estimate_fleet_shape :: "WorkflowNode list \<Rightarrow> WorkflowFleetLimitError + WorkflowFleetShape" where
  "estimate_fleet_shape nodes = estimate_fold nodes 1 shape_default"

definition validate_for_fleet_with_limits ::
  "WorkflowSpec \<Rightarrow> WorkflowFleetLimits \<Rightarrow> WorkflowFleetLimitError + WorkflowFleetShape" where
  "validate_for_fleet_with_limits spec limits =
     try_bind (invalid_for_fleet (validate_workflow_nodes (ws_nodes spec))) (\<lambda>_.
     try_bind (estimate_fleet_shape (ws_nodes spec)) (\<lambda>shape.
     try_bind (refuse_if (wl_max_total_agents limits < wf_total_agents shape)
       (TooManyAgents (wf_total_agents shape) (wl_max_total_agents limits))) (\<lambda>_.
     try_bind (refuse_if (wl_max_depth limits < wf_max_depth shape)
       (RecursionTooDeep (wf_max_depth shape) (wl_max_depth limits))) (\<lambda>_.
     Inr shape))))"

definition validate_for_fleet :: "WorkflowSpec \<Rightarrow> WorkflowFleetLimitError + WorkflowFleetShape" where
  "validate_for_fleet spec = validate_for_fleet_with_limits spec WorkflowFleetLimits_default"

end
