(* ===== verification/Workflow_Exec.thy ===== *)
theory Workflow_Exec
  imports Workflow_Nodes
begin

text \<open>
  The deterministic executor of workflows (\<open>MockWorkflowExecutor\<close> of \<open>workflow/src/lib.rs\<close>): leaf outcomes,
  predicate results and generated nodes come from tables that are consumed as the run goes on. The
  recursion through children, loop iterations and generated nodes is a \<open>partial_function\<close>; that it always
  returns is a theorem, because every expansion removes its entry from the table of generated nodes.
\<close>

section \<open>Results that may not be returned\<close>

definition try_run :: "('e + 'a) option \<Rightarrow> ('a \<Rightarrow> ('e + 'b) option) \<Rightarrow> ('e + 'b) option" where
  "try_run r f = Option.bind r (\<lambda>x. case x of Inl e \<Rightarrow> Some (Inl e) | Inr a \<Rightarrow> f a)"

lemma try_run_simps [simp]:
  "try_run None f = None" "try_run (Some (Inl e)) f = Some (Inl e)" "try_run (Some (Inr a)) f = f a"
  by (simp_all add: try_run_def)

lemma try_run_Some_Inr: "try_run r f = Some (Inr b) \<longleftrightarrow> (\<exists>a. r = Some (Inr a) \<and> f a = Some (Inr b))"
  by (cases r) (auto simp: try_run_def split: sum.splits)

lemma try_run_mono [partial_function_mono]:
  assumes "mono_option B" and "\<And>y. mono_option (\<lambda>f. C y f)"
  shows "mono_option (\<lambda>f. try_run (B f) (\<lambda>y. C y f))"
  unfolding try_run_def
proof (rule bind_mono [OF assms(1)], goal_cases)
  case (1 x)
  show ?case using assms(2) by (cases x) (simp_all add: option.const_mono)
qed

section \<open>State\<close>

record MockLeafOutcome =
  mo_status :: WorkflowRunStatus
  mo_usage :: WorkflowUsage
  mo_memo_usage :: WorkflowMemoUsage
  mo_output :: "string option"
  mo_artifacts :: "string list"

definition outcome_of :: "WorkflowRunStatus \<Rightarrow> string \<Rightarrow> MockLeafOutcome" where
  "outcome_of status output = \<lparr>mo_status = status, mo_usage = WorkflowUsage_default,
     mo_memo_usage = WorkflowMemoUsage_default, mo_output = Some output, mo_artifacts = []\<rparr>"

record MockWorkflowExecutor =
  mx_leaf_outcomes :: "(string, MockLeafOutcome) btree_map"
  mx_predicate_results :: "(string, bool list) btree_map"
  mx_generated_nodes :: "(string, WorkflowNode list) btree_map"
  mx_cancelled :: bool
  mx_max_leaf_steps :: "u32 option"
  mx_leaf_steps_executed :: u32
  mx_max_leaf_tokens :: "u64 option"
  mx_leaf_tokens_used :: u64

definition MockWorkflowExecutor_new :: MockWorkflowExecutor where
  "MockWorkflowExecutor_new = \<lparr>mx_leaf_outcomes = [], mx_predicate_results = [], mx_generated_nodes = [],
     mx_cancelled = False, mx_max_leaf_steps = None, mx_leaf_steps_executed = 0, mx_max_leaf_tokens = None,
     mx_leaf_tokens_used = 0\<rparr>"

type_synonym mock_state = "MockWorkflowExecutor \<times> WorkflowExecution"

definition stopped :: "WorkflowExecution \<Rightarrow> bool" where
  "stopped x \<longleftrightarrow> ex_status x = Cancelled \<or> ex_status x = BudgetExceeded"

fun mark_execution_for_status :: "WorkflowRunStatus \<Rightarrow> WorkflowExecution \<Rightarrow> WorkflowExecution" where
  "mark_execution_for_status Failed x = mark Failed x"
| "mark_execution_for_status Cancelled x = mark Cancelled x"
| "mark_execution_for_status BudgetExceeded x = mark BudgetExceeded x"
| "mark_execution_for_status ReplayDiverged x = mark ReplayDiverged x"
| "mark_execution_for_status _ x = x"

definition aggregate_mock_status :: "LeafResult list \<Rightarrow> WorkflowRunStatus" where
  "aggregate_mock_status rs =
     (if list_ex (\<lambda>r. le_status r = Cancelled) rs then Cancelled
      else if list_ex (\<lambda>r. le_status r = BudgetExceeded) rs then BudgetExceeded
      else if list_ex (\<lambda>r. le_status r \<noteq> Succeeded) rs then Failed
      else Succeeded)"

section \<open>Leaves and predicates\<close>

definition zero_usage :: WorkflowUsage where
  "zero_usage = \<lparr>us_input_tokens = Some 0, us_output_tokens = Some 0, us_cost_microusd = Some 0\<rparr>"

definition rejected_leaf :: "WorkflowRunStatus \<Rightarrow> string \<Rightarrow> MockLeafOutcome" where
  "rejected_leaf status output = \<lparr>mo_status = status, mo_usage = zero_usage,
     mo_memo_usage = WorkflowMemoUsage_default, mo_output = Some output, mo_artifacts = []\<rparr>"

definition mock_leaf_outcome :: "MockWorkflowExecutor \<Rightarrow> LeafSpec \<Rightarrow> MockWorkflowExecutor \<times> MockLeafOutcome" where
  "mock_leaf_outcome m l =
     (if mx_cancelled m then (m, rejected_leaf Cancelled ''mock workflow cancelled before leaf execution'')
      else if mx_max_leaf_steps m = Some (mx_leaf_steps_executed m) \<or> bu_max_steps (lf_budget l) = Some 0
      then (m, rejected_leaf BudgetExceeded ''mock workflow leaf step budget exhausted'')
      else if (case mx_max_leaf_tokens m of None \<Rightarrow> False | Some mx \<Rightarrow> mx \<le> mx_leaf_tokens_used m) \<or>
          bu_max_tokens (lf_budget l) = Some 0
      then (m, rejected_leaf BudgetExceeded ''mock workflow leaf token budget exhausted'')
      else
        let m = m\<lparr>mx_leaf_steps_executed := saturating_add (mx_leaf_steps_executed m) 1\<rparr>;
            outcome = (case bt_get (mx_leaf_outcomes m) (lf_id l) of
                Some outcome \<Rightarrow> outcome
              | None \<Rightarrow> outcome_of Succeeded (''mock leaf '' @ lf_id l));
            m = m\<lparr>mx_leaf_outcomes := bt_remove (lf_id l) (mx_leaf_outcomes m)\<rparr>
        in case total_tokens (mo_usage outcome) of
             None \<Rightarrow> (m, outcome)
           | Some tokens \<Rightarrow>
               (case bu_max_tokens (lf_budget l) of
                  Some cap \<Rightarrow>
                    if cap < tokens
                    then (m, outcome\<lparr>mo_status := BudgetExceeded,
                      mo_output := Some (''mock workflow leaf token budget exhausted ('' @ show_nat (unat tokens) @ '' > '' @
                        show_nat (unat cap) @ '')'')\<rparr>)
                    else (m\<lparr>mx_leaf_tokens_used := saturating_add (mx_leaf_tokens_used m) tokens\<rparr>, outcome)
                | None \<Rightarrow> (m\<lparr>mx_leaf_tokens_used := saturating_add (mx_leaf_tokens_used m) tokens\<rparr>, outcome)))"

definition push_leaf :: "LeafResult \<Rightarrow> WorkflowExecution \<Rightarrow> WorkflowExecution" where
  "push_leaf r x =
     x\<lparr>ex_usage := (if ex_leaf_results x = [] then le_usage r else usage_add (ex_usage x) (le_usage r)),
       ex_memo_usage := memo_usage_add (ex_memo_usage x) (le_memo_usage r),
       ex_leaf_results := ex_leaf_results x @ [r]\<rparr>"

definition execute_leaf :: "LeafSpec \<Rightarrow> mock_state \<Rightarrow> mock_state" where
  "execute_leaf l st =
     (case mock_leaf_outcome (fst st) l of
        (m, outcome) \<Rightarrow>
          (m, push_leaf
            \<lparr>le_leaf_id = lf_id l, le_task_id = lf_id l, le_role = lf_role l, le_profile = lf_profile l,
             le_status = mo_status outcome, le_usage = mo_usage outcome, le_memo_usage = mo_memo_usage outcome,
             le_output = mo_output outcome, le_artifacts = mo_artifacts outcome, le_schema_error = None\<rparr>
            (mark_execution_for_status (mo_status outcome) (snd st))))"

definition next_predicate_result :: "MockWorkflowExecutor \<Rightarrow> string \<Rightarrow> MockWorkflowExecutor \<times> bool" where
  "next_predicate_result m i =
     (case bt_get (mx_predicate_results m) i of
        Some (b # bs) \<Rightarrow> (m\<lparr>mx_predicate_results := bt_insert i bs (mx_predicate_results m)\<rparr>, b)
      | _ \<Rightarrow> (m, False))"

section \<open>The results of control nodes\<close>

definition finish_control ::
  "string \<Rightarrow> ControlNodeKind \<Rightarrow> WorkflowRunStatus \<Rightarrow> string list \<Rightarrow> string \<Rightarrow> mock_state \<Rightarrow> mock_state" where
  "finish_control i kind status selected summary st =
     (fst st, push_control \<lparr>cr_node_id = i, cr_kind = kind, cr_status = status,
        cr_selected_children = selected, cr_summary = Some summary\<rparr> (snd st))"

definition finish_branch :: "BranchSpec \<Rightarrow> WorkflowNode list \<Rightarrow> nat \<Rightarrow> mock_state \<Rightarrow> mock_state" where
  "finish_branch s children before st =
     (let results = drop before (ex_leaf_results (snd st));
          status = aggregate_mock_status results;
          x = mark_execution_for_status status (snd st);
          x = x\<lparr>ex_branch_results := ex_branch_results x @
            [\<lparr>br_branch_id = bs_id s, br_task_id = bs_id s, br_status = status, br_usage = usage_total results,
              br_memo_usage = memo_usage_total results, br_artifacts = [],
              br_notes = Some ''mock branch set executed without runtime fanout''\<rparr>]\<rparr>
      in finish_control (bs_id s) BranchSetKind status (map node_id children)
           ''branch set scaffold executed children deterministically'' (fst st, x))"

definition status_or_stopped :: "WorkflowRunStatus \<Rightarrow> WorkflowExecution \<Rightarrow> WorkflowRunStatus" where
  "status_or_stopped status x = (if stopped x then ex_status x else status)"

definition finish_loop :: "LoopUntilSpec \<Rightarrow> WorkflowNode list \<Rightarrow> u32 \<Rightarrow> bool \<Rightarrow> mock_state \<Rightarrow> mock_state" where
  "finish_loop s children iterations passed st =
     (let status = status_or_stopped (if passed then Succeeded else Failed) (snd st)
      in finish_control (lu_id s) LoopUntilKind status (map node_id children)
           (''loop_until iterations='' @ show_nat (unat iterations))
           (fst st, mark_execution_for_status status (snd st)))"

definition loop_limit :: "LoopUntilSpec \<Rightarrow> u32" where
  "loop_limit s = max (case lu_max_iterations s of Some n \<Rightarrow> n | None \<Rightarrow> 1) 1"

definition finish_selected ::
  "string \<Rightarrow> ControlNodeKind \<Rightarrow> WorkflowNode list \<Rightarrow> string \<Rightarrow> mock_state \<Rightarrow> mock_state" where
  "finish_selected i kind nodes summary st =
     finish_control i kind (status_or_stopped Succeeded (snd st)) (map node_id nodes) summary st"

definition take_generated :: "ExpandSpec \<Rightarrow> MockWorkflowExecutor \<Rightarrow> MockWorkflowExecutor \<times> WorkflowNode list" where
  "take_generated s m =
     (let nodes = (case bt_get (mx_generated_nodes m) (xp_id s) of Some ns \<Rightarrow> ns | None \<Rightarrow> []);
          nodes = (case xp_max_children s of Some n \<Rightarrow> take (unat n) nodes | None \<Rightarrow> nodes)
      in (m\<lparr>mx_generated_nodes := bt_remove (xp_id s) (mx_generated_nodes m)\<rparr>, nodes))"

section \<open>The executor\<close>

text \<open>What is left to run: a list of nodes, or a loop node with the iterations done so far.\<close>

datatype mock_work = Nodes "WorkflowNode list" | LoopFrom LoopUntilSpec "WorkflowNode list" u32

type_synonym mock_result = "(WorkflowExecutionError + mock_state) option"

text \<open>One round of a loop and one node, given the executor \<open>exec\<close> they recurse to.\<close>

definition execute_loop_until ::
  "(mock_work \<Rightarrow> mock_state \<Rightarrow> mock_result) \<Rightarrow> LoopUntilSpec \<Rightarrow> WorkflowNode list \<Rightarrow> u32 \<Rightarrow> mock_state \<Rightarrow> mock_result" where
  "execute_loop_until exec s children iterations st =
     (if iterations < loop_limit s \<and> \<not> stopped (snd st)
      then try_run (exec (Nodes children) st) (\<lambda>st'.
        if stopped (snd st') then Some (Inr (finish_loop s children (iterations + 1) False st'))
        else (case next_predicate_result (fst st') (lu_id s) of
            (m, passed) \<Rightarrow>
              if passed then Some (Inr (finish_loop s children (iterations + 1) True (m, snd st')))
              else exec (LoopFrom s children (iterations + 1)) (m, snd st')))
      else Some (Inr (finish_loop s children iterations False st)))"

definition execute_cond ::
  "(mock_work \<Rightarrow> mock_state \<Rightarrow> mock_result) \<Rightarrow> CondSpec \<Rightarrow> WorkflowNode list \<Rightarrow> WorkflowNode list \<Rightarrow> mock_state \<Rightarrow> mock_result" where
  "execute_cond exec s then_nodes else_nodes st =
     (case next_predicate_result (fst st) (co_id s) of
        (m, passed) \<Rightarrow>
          try_run (exec (Nodes (if passed then then_nodes else else_nodes)) (m, snd st))
            (\<lambda>st'. Some (Inr (finish_selected (co_id s) CondKind (if passed then then_nodes else else_nodes)
              (''predicate_result='' @ (if passed then ''true'' else ''false'')) st'))))"

definition execute_expand ::
  "(mock_work \<Rightarrow> mock_state \<Rightarrow> mock_result) \<Rightarrow> ExpandSpec \<Rightarrow> mock_state \<Rightarrow> mock_result" where
  "execute_expand exec s st =
     (case take_generated s (fst st) of
        (m, generated) \<Rightarrow>
          (case validate_workflow_node_shapes generated of
             Inl e \<Rightarrow> Some (Inl e)
           | Inr _ \<Rightarrow>
               try_run (exec (Nodes generated) (m, snd st))
                 (\<lambda>st'. Some (Inr (finish_selected (xp_id s) ExpandKind generated
                   (''expanded_from='' @ xp_source s) st')))))"

definition execute_node ::
  "(mock_work \<Rightarrow> mock_state \<Rightarrow> mock_result) \<Rightarrow> WorkflowNode \<Rightarrow> mock_state \<Rightarrow> mock_result" where
  "execute_node exec node st =
     (case node of
        BranchSet s children \<Rightarrow>
          try_run (exec (Nodes children) st)
            (\<lambda>st'. Some (Inr (finish_branch s children (length (ex_leaf_results (snd st))) st')))
      | Leaf l \<Rightarrow> Some (Inr (execute_leaf l st))
      | Sequence i children \<Rightarrow>
          try_run (exec (Nodes children) st)
            (\<lambda>st'. Some (Inr (finish_control i SequenceKind (ex_status (snd st')) (map node_id children)
              ''sequence executed in declaration order'' st')))
      | Reduce s \<Rightarrow> Some (Inr (finish_control (rd_id s) ReduceKind Succeeded (rd_inputs s) (rd_prompt s) st))
      | TeacherReview s \<Rightarrow>
          Some (Inr (finish_control (te_id s) TeacherReviewKind Succeeded (te_candidates s)
            ''teacher review scaffold selected declared candidates'' st))
      | LoopUntil s children \<Rightarrow> exec (LoopFrom s children 0) st
      | Cond s then_nodes else_nodes \<Rightarrow> execute_cond exec s then_nodes else_nodes st
      | Expand s template \<Rightarrow> execute_expand exec s st)"

text \<open>All of them are monotone in the executor.\<close>

lemma execute_loop_until_mono [partial_function_mono]:
  assumes mono: "\<And>w s. mono_option (\<lambda>f. E f w s)"
  shows "mono_option (\<lambda>f. execute_loop_until (E f) u children i st)"
proof -
  have "mono_option (\<lambda>f. if stopped (snd st') then Some (Inr (finish_loop u children (i + 1) False st'))
        else (case next_predicate_result (fst st') (lu_id u) of
            (m, passed) \<Rightarrow>
              if passed then Some (Inr (finish_loop u children (i + 1) True (m, snd st')))
              else E f (LoopFrom u children (i + 1)) (m, snd st')))" for st'
    by (cases "next_predicate_result (fst st') (lu_id u)"; cases "stopped (snd st')"; cases "snd (next_predicate_result (fst st') (lu_id u))")
      (simp_all add: mono option.const_mono)
  then show ?thesis
    unfolding execute_loop_until_def
    by (cases "i < loop_limit u \<and> \<not> stopped (snd st)") (auto intro!: try_run_mono mono option.const_mono)
qed

lemma execute_cond_mono:
  assumes mono: "\<And>w s. mono_option (\<lambda>f. E f w s)"
  shows "mono_option (\<lambda>f. execute_cond (E f) s then_nodes else_nodes st)"
  unfolding execute_cond_def by (cases "next_predicate_result (fst st) (co_id s)") (auto intro!: try_run_mono mono option.const_mono)

lemma execute_expand_mono:
  assumes mono: "\<And>w s. mono_option (\<lambda>f. E f w s)"
  shows "mono_option (\<lambda>f. execute_expand (E f) s st)"
  unfolding execute_expand_def
  by (cases "take_generated s (fst st)"; cases "validate_workflow_node_shapes (snd (take_generated s (fst st)))")
    (auto intro!: try_run_mono mono option.const_mono)

lemma execute_node_mono [partial_function_mono]:
  assumes mono: "\<And>w s. mono_option (\<lambda>f. E f w s)"
  shows "mono_option (\<lambda>f. execute_node (E f) node st)"
  unfolding execute_node_def by (cases node) (auto intro!: try_run_mono mono option.const_mono execute_cond_mono execute_expand_mono)

partial_function (option) mock_execute :: "mock_work \<Rightarrow> mock_state \<Rightarrow> mock_result" where
  "mock_execute work st =
     (case work of
        Nodes nodes \<Rightarrow>
          (case nodes of
             [] \<Rightarrow> Some (Inr st)
           | node # rest \<Rightarrow>
               if stopped (snd st) then Some (Inr st)
               else try_run (execute_node mock_execute node st) (\<lambda>st'. mock_execute (Nodes rest) st'))
      | LoopFrom s children iterations \<Rightarrow> execute_loop_until mock_execute s children iterations st)"

definition mock_run :: "MockWorkflowExecutor \<Rightarrow> WorkflowSpec \<Rightarrow> (WorkflowExecutionError + mock_state) option" where
  "mock_run m spec =
     (case validate_workflow_nodes (ws_nodes spec) of
        Inl e \<Rightarrow> Some (Inl e)
      | Inr _ \<Rightarrow> mock_execute (Nodes (ws_nodes spec)) (m, WorkflowExecution_default))"

end
