(* ===== verification/Workflow_Replay.thy ===== *)
theory Workflow_Replay
  imports Workflow_Exec
begin

text \<open>
  Replay of a recorded workflow run (\<open>workflow/src/replay.rs\<close>). The hash of a leaf's input (SHA-256 over
  the JSON of the workflow id and goal, the leaf and its resolved inputs) is the parameter \<open>input_hash\<close>; it is
  fallible, because serialisation is. The nodes generated for an expansion come from the record of its id,
  and the record stays in the table, so the recursion is a \<open>partial_function\<close>.
\<close>

section \<open>Traces\<close>

record ReplayLeafRecord =
  rl_trace_id :: string
  rl_leaf_id :: string
  rl_input_hash :: string
  rl_result :: LeafResult

record ReplayControlRecord =
  rc_trace_id :: string
  rc_node_id :: string
  rc_kind :: ControlNodeKind
  rc_result :: ControlNodeResult
  rc_generated_nodes :: "WorkflowNode list"

record WorkflowReplayTrace =
  rt_trace_id :: string
  rt_leaf_records :: "ReplayLeafRecord list"
  rt_control_records :: "ReplayControlRecord list"

text \<open>
  The two maps of the executor are only looked up by key, never iterated; they are association lists in
  which the last record of a key wins, as when a \<open>BTreeMap\<close> is collected.
\<close>

record WorkflowReplayExecutor =
  re_trace_id :: string
  re_allow_live_replay :: bool
  re_leaf_records :: "((string \<times> string \<times> string) \<times> LeafResult) list"
  re_control_records :: "((string \<times> string \<times> ControlNodeKind) \<times> ReplayControlRecord) list"
  re_resolved_outputs :: "(string, string option) btree_map"

definition with_options :: "WorkflowReplayTrace \<Rightarrow> bool \<Rightarrow> WorkflowReplayExecutor" where
  "with_options trace allow_live_replay =
     \<lparr>re_trace_id = rt_trace_id trace, re_allow_live_replay = allow_live_replay,
      re_leaf_records = rev (map (\<lambda>r. ((rl_trace_id r, rl_leaf_id r, rl_input_hash r), rl_result r)) (rt_leaf_records trace)),
      re_control_records = rev (map (\<lambda>r. ((rc_trace_id r, rc_node_id r, rc_kind r), r)) (rt_control_records trace)),
      re_resolved_outputs = []\<rparr>"

definition WorkflowReplayExecutor_new :: "WorkflowReplayTrace \<Rightarrow> WorkflowReplayExecutor" where
  "WorkflowReplayExecutor_new trace = with_options trace False"

datatype WorkflowReplayError =
    Validation WorkflowExecutionError
  | LiveReplayUnavailable string
  | InputHash string

type_synonym replay_state = "WorkflowReplayExecutor \<times> WorkflowExecution"
type_synonym replay_result = "(WorkflowReplayError + replay_state) option"
type_synonym input_hash =
  "string option \<Rightarrow> string \<Rightarrow> LeafSpec \<Rightarrow> (string, string option) btree_map \<Rightarrow> string + string"

section \<open>Leaves and control records\<close>

definition compute_leaf_input_hash ::
  "input_hash \<Rightarrow> WorkflowSpec \<Rightarrow> LeafSpec \<Rightarrow> (string, string option) btree_map \<Rightarrow> WorkflowReplayError + string" where
  "compute_leaf_input_hash hash spec l inputs =
     (case hash (ws_id spec) (ws_goal spec) l inputs of Inl reason \<Rightarrow> Inl (InputHash reason) | Inr h \<Rightarrow> Inr h)"

definition resolved_inputs_for_leaf ::
  "LeafSpec \<Rightarrow> (string, string option) btree_map \<Rightarrow> (string, string option) btree_map" where
  "resolved_inputs_for_leaf l outputs =
     bt_collect (map (\<lambda>d. (d, case bt_get outputs d of Some v \<Rightarrow> v | None \<Rightarrow> None)) (lf_depends_on_results l))"

definition branch_status :: "LeafResult list \<Rightarrow> WorkflowRunStatus" where
  "branch_status rs =
     (if list_ex (\<lambda>r. le_status r = ReplayDiverged) rs then ReplayDiverged
      else if list_ex (\<lambda>r. le_status r \<noteq> Succeeded) rs then Failed
      else Succeeded)"

definition select_nodes :: "WorkflowNode list \<Rightarrow> string list \<Rightarrow> WorkflowNode list" where
  "select_nodes nodes selected =
     List.map_filter (map_of (rev (map (\<lambda>n. (node_id n, n)) nodes))) selected"

text \<open>A replayed status marks the execution only when it is a divergence or a failure.\<close>

definition mark_replayed :: "WorkflowRunStatus \<Rightarrow> WorkflowExecution \<Rightarrow> WorkflowExecution" where
  "mark_replayed status x =
     (if status = ReplayDiverged then mark ReplayDiverged x
      else if status = Failed then mark Failed x else x)"

definition diverged_leaf :: "LeafSpec \<Rightarrow> LeafResult" where
  "diverged_leaf l = \<lparr>le_leaf_id = lf_id l, le_task_id = lf_id l, le_role = lf_role l, le_profile = lf_profile l,
     le_status = ReplayDiverged, le_usage = WorkflowUsage_default, le_memo_usage = WorkflowMemoUsage_default,
     le_output = None, le_artifacts = [], le_schema_error = None\<rparr>"

definition resolve_output :: "string \<Rightarrow> string option \<Rightarrow> WorkflowReplayExecutor \<Rightarrow> WorkflowReplayExecutor" where
  "resolve_output i out e = e\<lparr>re_resolved_outputs := bt_insert i out (re_resolved_outputs e)\<rparr>"

text \<open>The usage of a leaf that diverged is added like any other; its memo usage is not.\<close>

definition push_diverged :: "LeafResult \<Rightarrow> WorkflowExecution \<Rightarrow> WorkflowExecution" where
  "push_diverged r x =
     x\<lparr>ex_usage := (if ex_leaf_results x = [] then le_usage r else usage_add (ex_usage x) (le_usage r)),
       ex_leaf_results := ex_leaf_results x @ [r]\<rparr>"

definition replay_leaf :: "input_hash \<Rightarrow> WorkflowSpec \<Rightarrow> LeafSpec \<Rightarrow> replay_state \<Rightarrow> WorkflowReplayError + replay_state" where
  "replay_leaf hash spec l st =
     (let e = fst st; x = snd st
      in try_bind (compute_leaf_input_hash hash spec l (resolved_inputs_for_leaf l (re_resolved_outputs e))) (\<lambda>h.
        case map_of (re_leaf_records e) (re_trace_id e, lf_id l, h) of
          None \<Rightarrow>
            if re_allow_live_replay e then Inl (LiveReplayUnavailable (lf_id l))
            else Inr (resolve_output (lf_id l) None e, push_diverged (diverged_leaf l) (mark ReplayDiverged x))
        | Some r \<Rightarrow> Inr (resolve_output (lf_id l) (le_output r) e, push_leaf r (mark_replayed (le_status r) x))))"

definition control_record :: "WorkflowReplayExecutor \<Rightarrow> string \<Rightarrow> ControlNodeKind \<Rightarrow> ReplayControlRecord option" where
  "control_record e i kind = map_of (re_control_records e) (re_trace_id e, i, kind)"

definition push_control_or_diverge ::
  "string \<Rightarrow> ControlNodeKind \<Rightarrow> ReplayControlRecord option \<Rightarrow> string list \<Rightarrow> string \<Rightarrow> replay_state \<Rightarrow> replay_state" where
  "push_control_or_diverge i kind record_opt children summary st =
     (case record_opt of
        None \<Rightarrow> (fst st, push_control \<lparr>cr_node_id = i, cr_kind = kind, cr_status = ReplayDiverged,
          cr_selected_children = children, cr_summary = Some summary\<rparr> (mark ReplayDiverged (snd st)))
      | Some r \<Rightarrow> (fst st, push_control (rc_result r) (mark_replayed (cr_status (rc_result r)) (snd st))))"

definition replay_recorded_control ::
  "string \<Rightarrow> ControlNodeKind \<Rightarrow> string list \<Rightarrow> string \<Rightarrow> replay_state \<Rightarrow> replay_state" where
  "replay_recorded_control i kind children summary st =
     push_control_or_diverge i kind (control_record (fst st) i kind) children summary st"

definition finish_replayed_branch :: "BranchSpec \<Rightarrow> WorkflowNode list \<Rightarrow> nat \<Rightarrow> replay_state \<Rightarrow> replay_state" where
  "finish_replayed_branch s children before st =
     (let results = drop before (ex_leaf_results (snd st));
          status = branch_status results;
          x = mark_replayed status (snd st);
          x = x\<lparr>ex_branch_results := ex_branch_results x @
            [\<lparr>br_branch_id = bs_id s, br_task_id = bs_id s, br_status = status, br_usage = usage_total results,
              br_memo_usage = memo_usage_total results, br_artifacts = [],
              br_notes = Some ''replay branch set evaluated from recorded leaf results''\<rparr>]\<rparr>
      in replay_recorded_control (bs_id s) BranchSetKind (map node_id children)
           ''branch set replayed declared children'' (fst st, x))"

section \<open>The executor\<close>

text \<open>One node, given the executor \<open>exec\<close> of node lists it recurses to.\<close>

definition selected_or :: "ReplayControlRecord option \<Rightarrow> string list \<Rightarrow> string list" where
  "selected_or record_opt fallback =
     (case record_opt of Some r \<Rightarrow> cr_selected_children (rc_result r) | None \<Rightarrow> fallback)"

definition replay_expand ::
  "(WorkflowNode list \<Rightarrow> replay_state \<Rightarrow> replay_result) \<Rightarrow> ExpandSpec \<Rightarrow> replay_state \<Rightarrow> replay_result" where
  "replay_expand exec s st =
     (let r = control_record (fst st) (xp_id s) ExpandKind;
          generated = (case r of Some r \<Rightarrow> rc_generated_nodes r | None \<Rightarrow> [])
      in case validate_workflow_node_shapes generated of
           Inl e \<Rightarrow> Some (Inl (Validation e))
         | Inr _ \<Rightarrow>
             try_run (exec generated st)
               (\<lambda>st'. Some (Inr (push_control_or_diverge (xp_id s) ExpandKind r
                 (selected_or r (map node_id generated)) (''expand replayed recorded nodes from '' @ xp_source s) st'))))"

definition replay_node ::
  "input_hash \<Rightarrow> WorkflowSpec \<Rightarrow> (WorkflowNode list \<Rightarrow> replay_state \<Rightarrow> replay_result) \<Rightarrow> WorkflowNode \<Rightarrow> replay_state \<Rightarrow> replay_result" where
  "replay_node hash spec exec node st =
     (case node of
        BranchSet s children \<Rightarrow>
          try_run (exec children st)
            (\<lambda>st'. Some (Inr (finish_replayed_branch s children (length (ex_leaf_results (snd st))) st')))
      | Leaf l \<Rightarrow> Some (replay_leaf hash spec l st)
      | Sequence i children \<Rightarrow>
          try_run (exec children st)
            (\<lambda>st'. Some (Inr (replay_recorded_control i SequenceKind (map node_id children)
              ''sequence replayed in declaration order'' st')))
      | Reduce s \<Rightarrow> Some (Inr (replay_recorded_control (rd_id s) ReduceKind (rd_inputs s) (rd_prompt s) st))
      | TeacherReview s \<Rightarrow>
          Some (Inr (replay_recorded_control (te_id s) TeacherReviewKind (te_candidates s)
            ''teacher review replayed from recorded candidates'' st))
      | LoopUntil s children \<Rightarrow>
          (let r = control_record (fst st) (lu_id s) LoopUntilKind;
               selected = selected_or r (map node_id children)
           in try_run (exec (select_nodes children selected) st)
                (\<lambda>st'. Some (Inr (push_control_or_diverge (lu_id s) LoopUntilKind r selected
                  ''loop_until replayed recorded child selection'' st'))))
      | Cond s then_nodes else_nodes \<Rightarrow>
          (let r = control_record (fst st) (co_id s) CondKind;
               selected = selected_or r []
           in try_run (exec (select_nodes (then_nodes @ else_nodes) selected) st)
                (\<lambda>st'. Some (Inr (push_control_or_diverge (co_id s) CondKind r selected
                  ''cond replayed recorded branch selection'' st'))))
      | Expand s template \<Rightarrow> replay_expand exec s st)"

text \<open>Both are monotone in the executor.\<close>

lemma replay_expand_mono:
  assumes mono: "\<And>w s. mono_option (\<lambda>f. E f w s)"
  shows "mono_option (\<lambda>f. replay_expand (E f) s st)"
  unfolding replay_expand_def Let_def
  by (cases "validate_workflow_node_shapes
      (case control_record (fst st) (xp_id s) ExpandKind of Some r \<Rightarrow> rc_generated_nodes r | None \<Rightarrow> [])")
    (auto intro!: try_run_mono mono option.const_mono)

lemma replay_node_mono [partial_function_mono]:
  assumes mono: "\<And>w s. mono_option (\<lambda>f. E f w s)"
  shows "mono_option (\<lambda>f. replay_node hash spec (E f) node st)"
  unfolding replay_node_def Let_def
  by (cases node) (auto intro!: try_run_mono mono option.const_mono replay_expand_mono)

partial_function (option) replay_nodes ::
  "input_hash \<Rightarrow> WorkflowSpec \<Rightarrow> WorkflowNode list \<Rightarrow> replay_state \<Rightarrow> replay_result" where
  "replay_nodes hash spec nodes st =
     (case nodes of
        [] \<Rightarrow> Some (Inr st)
      | node # rest \<Rightarrow>
          try_run (replay_node hash spec (replay_nodes hash spec) node st) (\<lambda>st'. replay_nodes hash spec rest st'))"

definition replay_run :: "input_hash \<Rightarrow> WorkflowReplayExecutor \<Rightarrow> WorkflowSpec \<Rightarrow> replay_result" where
  "replay_run hash e spec =
     (case validate_workflow_nodes (ws_nodes spec) of
        Inl err \<Rightarrow> Some (Inl (Validation err))
      | Inr _ \<Rightarrow> replay_nodes hash spec (ws_nodes spec) (e, WorkflowExecution_default))"

end
