(* ===== verification/Workflow_Exec_Props.thy ===== *)
theory Workflow_Exec_Props
  imports Workflow_Exec
begin

text \<open>
  What a workflow run guarantees. The executor is related to a big-step semantics, in which the results
  are proved by rule induction: every run returns, the step budget bounds the leaves that are run, a stop
  is final, and a workflow that passes the fleet limits launches no more agents than was estimated.
\<close>

section \<open>Big steps\<close>

inductive mock_big :: "mock_work \<Rightarrow> mock_state \<Rightarrow> mock_state \<Rightarrow> bool" where
  nil: "mock_big (Nodes []) st st"
| halted: "stopped (snd st) \<Longrightarrow> mock_big (Nodes (node # rest)) st st"
| branch: "\<not> stopped (snd st) \<Longrightarrow> mock_big (Nodes children) st st1 \<Longrightarrow>
    mock_big (Nodes rest) (finish_branch s children (length (ex_leaf_results (snd st))) st1) st' \<Longrightarrow>
    mock_big (Nodes (BranchSet s children # rest)) st st'"
| leaf: "\<not> stopped (snd st) \<Longrightarrow> mock_big (Nodes rest) (execute_leaf l st) st' \<Longrightarrow>
    mock_big (Nodes (Leaf l # rest)) st st'"
| seq: "\<not> stopped (snd st) \<Longrightarrow> mock_big (Nodes children) st st1 \<Longrightarrow>
    mock_big (Nodes rest) (finish_control i SequenceKind (ex_status (snd st1)) (map node_id children)
      ''sequence executed in declaration order'' st1) st' \<Longrightarrow>
    mock_big (Nodes (Sequence i children # rest)) st st'"
| reduce: "\<not> stopped (snd st) \<Longrightarrow>
    mock_big (Nodes rest) (finish_control (rd_id r) ReduceKind Succeeded (rd_inputs r) (rd_prompt r) st) st' \<Longrightarrow>
    mock_big (Nodes (Reduce r # rest)) st st'"
| teacher: "\<not> stopped (snd st) \<Longrightarrow>
    mock_big (Nodes rest) (finish_control (te_id t) TeacherReviewKind Succeeded (te_candidates t)
      ''teacher review scaffold selected declared candidates'' st) st' \<Longrightarrow>
    mock_big (Nodes (TeacherReview t # rest)) st st'"
| loop: "\<not> stopped (snd st) \<Longrightarrow> mock_big (LoopFrom u children 0) st st1 \<Longrightarrow> mock_big (Nodes rest) st1 st' \<Longrightarrow>
    mock_big (Nodes (LoopUntil u children # rest)) st st'"
| cond: "\<not> stopped (snd st) \<Longrightarrow> next_predicate_result (fst st) (co_id c) = (m, passed) \<Longrightarrow>
    chosen = (if passed then then_nodes else else_nodes) \<Longrightarrow> mock_big (Nodes chosen) (m, snd st) st1 \<Longrightarrow>
    mock_big (Nodes rest) (finish_selected (co_id c) CondKind chosen
      (''predicate_result='' @ (if passed then ''true'' else ''false'')) st1) st' \<Longrightarrow>
    mock_big (Nodes (Cond c then_nodes else_nodes # rest)) st st'"
| expand: "\<not> stopped (snd st) \<Longrightarrow> take_generated e (fst st) = (m, generated) \<Longrightarrow>
    validate_workflow_node_shapes generated = Inr () \<Longrightarrow> mock_big (Nodes generated) (m, snd st) st1 \<Longrightarrow>
    mock_big (Nodes rest) (finish_selected (xp_id e) ExpandKind generated (''expanded_from='' @ xp_source e) st1) st' \<Longrightarrow>
    mock_big (Nodes (Expand e template # rest)) st st'"
| loop_end: "\<not> (iterations < loop_limit u \<and> \<not> stopped (snd st)) \<Longrightarrow>
    mock_big (LoopFrom u children iterations) st (finish_loop u children iterations False st)"
| loop_stop: "iterations < loop_limit u \<Longrightarrow> \<not> stopped (snd st) \<Longrightarrow> mock_big (Nodes children) st st1 \<Longrightarrow>
    stopped (snd st1) \<Longrightarrow>
    mock_big (LoopFrom u children iterations) st (finish_loop u children (iterations + 1) False st1)"
| loop_pass: "iterations < loop_limit u \<Longrightarrow> \<not> stopped (snd st) \<Longrightarrow> mock_big (Nodes children) st st1 \<Longrightarrow>
    \<not> stopped (snd st1) \<Longrightarrow> next_predicate_result (fst st1) (lu_id u) = (m, True) \<Longrightarrow>
    mock_big (LoopFrom u children iterations) st (finish_loop u children (iterations + 1) True (m, snd st1))"
| loop_again: "iterations < loop_limit u \<Longrightarrow> \<not> stopped (snd st) \<Longrightarrow> mock_big (Nodes children) st st1 \<Longrightarrow>
    \<not> stopped (snd st1) \<Longrightarrow> next_predicate_result (fst st1) (lu_id u) = (m, False) \<Longrightarrow>
    mock_big (LoopFrom u children (iterations + 1)) (m, snd st1) st' \<Longrightarrow>
    mock_big (LoopFrom u children iterations) st st'"

lemma try_run_finish:
  "try_run (try_run r (\<lambda>a. Some (Inr (f a)))) g = Some (Inr b) \<longleftrightarrow> (\<exists>a. r = Some (Inr a) \<and> g (f a) = Some (Inr b))"
  by (auto simp: try_run_Some_Inr)

text \<open>What one round of a loop and one node do, if the executor they recurse to takes big steps.\<close>

lemma execute_loop_until_big:
  assumes IH: "\<And>work st st'. exec work st = Some (Inr st') \<Longrightarrow> mock_big work st st'"
    and step: "execute_loop_until exec u children i st = Some (Inr st')"
  shows "mock_big (LoopFrom u children i) st st'"
proof (cases "i < loop_limit u \<and> \<not> stopped (snd st)")
  case False
  with step show ?thesis by (auto simp: execute_loop_until_def intro: mock_big.loop_end)
next
  case True
  with step obtain st1 where st1: "exec (Nodes children) st = Some (Inr st1)"
    by (auto simp: execute_loop_until_def try_run_Some_Inr)
  obtain m passed where nxt: "next_predicate_result (fst st1) (lu_id u) = (m, passed)" by force
  note eqs = execute_loop_until_def st1 nxt True and start = conjunct1 [OF True] conjunct2 [OF True] IH [OF st1]
  consider (stop) "stopped (snd st1)" | (pass) "\<not> stopped (snd st1)" "passed" | (again) "\<not> stopped (snd st1)" "\<not> passed"
    by blast
  then show ?thesis
  proof cases
    case stop
    with step show ?thesis using mock_big.loop_stop [OF start stop] by (simp add: eqs)
  next
    case pass
    with step show ?thesis using mock_big.loop_pass [OF start pass(1)] nxt by (simp add: eqs)
  next
    case again
    with step have "exec (LoopFrom u children (i + 1)) (m, snd st1) = Some (Inr st')" by (simp add: eqs)
    from mock_big.loop_again [OF start again(1) _ IH [OF this]] show ?thesis using again(2) nxt by simp
  qed
qed

lemma execute_node_big:
  assumes IH: "\<And>work st st'. exec work st = Some (Inr st') \<Longrightarrow> mock_big work st st'"
    and run: "\<not> stopped (snd st)"
    and step: "try_run (execute_node exec node st) (\<lambda>st'. exec (Nodes rest) st') = Some (Inr st')"
  shows "mock_big (Nodes (node # rest)) st st'"
proof (cases node)
  case (BranchSet s children)
  from step show ?thesis unfolding BranchSet execute_node_def WorkflowNode.case try_run_finish
    using mock_big.branch [OF run IH IH] by blast
next
  case (Leaf l)
  from step show ?thesis unfolding Leaf execute_node_def WorkflowNode.case try_run_simps
    by (intro mock_big.leaf [OF run] IH)
next
  case (Sequence n children)
  from step show ?thesis unfolding Sequence execute_node_def WorkflowNode.case try_run_finish
    using mock_big.seq [OF run IH IH] by blast
next
  case (Reduce d)
  from step show ?thesis unfolding Reduce execute_node_def WorkflowNode.case try_run_simps
    by (intro mock_big.reduce [OF run] IH)
next
  case (TeacherReview t)
  from step show ?thesis unfolding TeacherReview execute_node_def WorkflowNode.case try_run_simps
    by (intro mock_big.teacher [OF run] IH)
next
  case (LoopUntil u children)
  from step show ?thesis unfolding LoopUntil execute_node_def WorkflowNode.case try_run_Some_Inr
    using mock_big.loop [OF run IH IH] by blast
next
  case (Cond c then_nodes else_nodes)
  obtain m passed where nxt: "next_predicate_result (fst st) (co_id c) = (m, passed)" by force
  from step show ?thesis unfolding Cond execute_node_def WorkflowNode.case execute_cond_def nxt prod.case try_run_finish
    using mock_big.cond [OF run nxt refl IH IH] by blast
next
  case (Expand e template)
  obtain m generated where taken: "take_generated e (fst st) = (m, generated)" by force
  from step have valid: "validate_workflow_node_shapes generated = Inr ()"
    by (auto simp: Expand execute_node_def execute_expand_def taken split: sum.splits)
  from step show ?thesis
    unfolding Expand execute_node_def WorkflowNode.case execute_expand_def taken prod.case valid sum.case try_run_finish
    using mock_big.expand [OF run taken valid IH IH] by blast
qed

lemma mock_execute_result:
  assumes "mock_execute work st = Some r"
  shows "\<forall>st'. r = Inr st' \<longrightarrow> mock_big work st st'"
proof (rule mock_execute.raw_induct [where P = "\<lambda>work st r. \<forall>st'. r = Inr st' \<longrightarrow> mock_big work st st'",
    OF _ assms], goal_cases)
  case (1 exec work st r)
  from 1(1) have IH: "mock_big work st st'" if "exec work st = Some (Inr st')" for work st st' using that by blast
  from 1(2) show ?case
    by (auto split: mock_work.splits list.splits if_splits
        intro: mock_big.nil mock_big.halted execute_node_big [OF IH] execute_loop_until_big [OF IH])
qed

lemmas mock_execute_big = mock_execute_result [rule_format, OF _ refl]

lemma mock_big_execute: "mock_big work st st' \<Longrightarrow> mock_execute work st = Some (Inr st')"
  by (induction rule: mock_big.induct) (auto simp: mock_execute.simps execute_node_def execute_cond_def execute_expand_def execute_loop_until_def)

section \<open>What the pieces of a run leave alone\<close>

lemma mark_results [simp]: "ex_leaf_results (mark_execution_for_status status x) = ex_leaf_results x"
  by (cases status) (simp_all add: mark_def)

lemma finish_simps [simp]:
  "fst (finish_control i kind status sel sm st) = fst st"
  "ex_status (snd (finish_control i kind status sel sm st)) = ex_status (snd st)"
  "ex_leaf_results (snd (finish_control i kind status sel sm st)) = ex_leaf_results (snd st)"
  "fst (finish_branch b children before st) = fst st"
  "ex_leaf_results (snd (finish_branch b children before st)) = ex_leaf_results (snd st)"
  "fst (finish_loop u children n passed st) = fst st"
  "ex_leaf_results (snd (finish_loop u children n passed st)) = ex_leaf_results (snd st)"
  "fst (finish_selected i kind nodes sm st) = fst st"
  "ex_status (snd (finish_selected i kind nodes sm st)) = ex_status (snd st)"
  "ex_leaf_results (snd (finish_selected i kind nodes sm st)) = ex_leaf_results (snd st)"
  by (simp_all add: finish_control_def push_control_def finish_branch_def finish_loop_def finish_selected_def Let_def)

definition stops :: "WorkflowRunStatus \<Rightarrow> bool" where
  "stops status \<longleftrightarrow> status = Cancelled \<or> status = BudgetExceeded"

lemma stopped_stops: "stopped x \<longleftrightarrow> stops (ex_status x)"
  by (simp add: stopped_def stops_def)

lemma status_after_mark:
  "stops (ex_status (mark_execution_for_status status x)) \<longleftrightarrow>
     stops status \<or> (status \<in> {Succeeded, WorkflowRunStatus.Pending, Running} \<and> stops (ex_status x))"
  by (cases status) (auto simp: mark_def stops_def)

lemma aggregate_stops: "stops (aggregate_mock_status rs) \<longleftrightarrow> (\<exists>r \<in> set rs. stops (le_status r))"
  by (auto simp: aggregate_mock_status_def stops_def list_ex_iff)

lemma aggregate_status: "aggregate_mock_status rs \<in> {Cancelled, BudgetExceeded, Failed, Succeeded}"
  by (simp add: aggregate_mock_status_def)

lemma stops_finish_branch:
  "stops (ex_status (snd (finish_branch b children before st))) \<longleftrightarrow>
     (\<exists>r \<in> set (drop before (ex_leaf_results (snd st))). stops (le_status r)) \<or>
     (aggregate_mock_status (drop before (ex_leaf_results (snd st))) = Succeeded \<and> stops (ex_status (snd st)))"
  using aggregate_status [of "drop before (ex_leaf_results (snd st))"]
  by (auto simp: finish_branch_def finish_control_def push_control_def Let_def status_after_mark aggregate_stops)

lemma stops_finish_loop: "stops (ex_status (snd (finish_loop u children n passed st))) = stops (ex_status (snd st))"
  by (auto simp: finish_loop_def finish_control_def push_control_def Let_def status_after_mark
      status_or_stopped_def stopped_stops) (simp_all add: stops_def)

lemma execute_leaf_results:
  "\<exists>r. ex_leaf_results (snd (execute_leaf l st)) = ex_leaf_results (snd st) @ [r] \<and>
     (\<not> stopped (snd st) \<longrightarrow> (stopped (snd (execute_leaf l st)) \<longleftrightarrow> stops (le_status r))) \<and>
     mx_generated_nodes (fst (execute_leaf l st)) = mx_generated_nodes (fst st)"
proof -
  obtain m outcome where out: "mock_leaf_outcome (fst st) l = (m, outcome)" by force
  then have "mx_generated_nodes m = mx_generated_nodes (fst st)"
    by (auto simp: mock_leaf_outcome_def Let_def split: if_splits option.splits)
  then show ?thesis
    by (auto simp: execute_leaf_def out push_leaf_def stopped_stops status_after_mark)
qed

lemma next_predicate_simps:
  assumes "next_predicate_result m i = (m', passed)"
  shows "mx_generated_nodes m' = mx_generated_nodes m" and "mx_max_leaf_steps m' = mx_max_leaf_steps m"
    and "mx_leaf_steps_executed m' = mx_leaf_steps_executed m"
  using assms by (auto simp: next_predicate_result_def split: option.splits list.splits)

lemma take_generated_less:
  assumes "take_generated s m = (m', nodes)" and "nodes \<noteq> []"
  shows "length (mx_generated_nodes m') < length (mx_generated_nodes m)"
proof -
  from assms obtain ns where "bt_get (mx_generated_nodes m) (xp_id s) = Some ns"
    by (auto simp: take_generated_def Let_def split: option.splits)
  then have "(xp_id s, ns) \<in> set (mx_generated_nodes m)" by (rule map_of_SomeD)
  then have "length (bt_remove (xp_id s) (mx_generated_nodes m)) < length (mx_generated_nodes m)"
    unfolding bt_remove_def by (rule length_filter_less) simp
  with assms(1) show ?thesis by (auto simp: take_generated_def Let_def)
qed

lemma take_generated_simps:
  assumes "take_generated s m = (m', nodes)"
  shows "length (mx_generated_nodes m') \<le> length (mx_generated_nodes m)"
    and "mx_max_leaf_steps m' = mx_max_leaf_steps m" and "mx_leaf_steps_executed m' = mx_leaf_steps_executed m"
  using assms by (auto simp: take_generated_def Let_def bt_remove_def)

section \<open>Every run returns\<close>

lemma mock_big_generated:
  "mock_big work st st' \<Longrightarrow> length (mx_generated_nodes (fst st')) \<le> length (mx_generated_nodes (fst st))"
proof (induction rule: mock_big.induct)
  case (leaf st rest l st')
  then show ?case using execute_leaf_results [of l st] by auto
qed (auto dest: next_predicate_simps(1) take_generated_simps(1))

fun weight :: "mock_work \<Rightarrow> nat" where
  "weight (Nodes nodes) = 2 * size_list size nodes"
| "weight (LoopFrom _ children _) = 2 * size_list size children + 1"

fun remaining :: "mock_work \<Rightarrow> nat" where
  "remaining (Nodes _) = 0"
| "remaining (LoopFrom u _ i) = unat (loop_limit u) - unat i"

definition run_order :: "mock_work \<Rightarrow> mock_state \<Rightarrow> nat \<times> nat \<times> nat" where
  "run_order work st = (length (mx_generated_nodes (fst st)), weight work, remaining work)"

lemma try_run_returns: "\<exists>r. x = Some r \<Longrightarrow> (\<And>a. x = Some (Inr a) \<Longrightarrow> \<exists>r. f a = Some r) \<Longrightarrow> \<exists>r. try_run x f = Some r"
  by (auto simp: try_run_def split: sum.split)

lemma execute_loop_until_returns:
  assumes IH: "\<And>work' st'. run_order work' st' < run_order (LoopFrom u children i) st \<Longrightarrow> \<exists>r. mock_execute work' st' = Some r"
  shows "\<exists>r. execute_loop_until mock_execute u children i st = Some r"
proof (cases "i < loop_limit u \<and> \<not> stopped (snd st)")
  case True
  have again: "\<exists>r. mock_execute (LoopFrom u children (i + 1)) (m, snd st1) = Some r"
    if "mock_execute (Nodes children) st = Some (Inr st1)" "next_predicate_result (fst st1) (lu_id u) = (m, passed)" for st1 m passed
  proof (rule IH)
    have "length (mx_generated_nodes m) \<le> length (mx_generated_nodes (fst st))"
      using mock_big_generated [OF mock_execute_big [OF that(1)]] next_predicate_simps(1) [OF that(2)] by simp
    moreover have "unat i < unat (loop_limit u)" "unat (i + 1) = Suc (unat i)"
      using True unat_Suc_below by (auto simp: word_less_nat_alt)
    ultimately show "run_order (LoopFrom u children (i + 1)) (m, snd st1) < run_order (LoopFrom u children i) st"
      by (auto simp: run_order_def)
  qed
  have "\<exists>r. mock_execute (Nodes children) st = Some r" by (rule IH) (simp add: run_order_def)
  with True again show ?thesis unfolding execute_loop_until_def
    by (auto intro!: try_run_returns split: prod.split)
qed (auto simp: execute_loop_until_def)

lemma execute_node_returns:
  assumes IH: "\<And>work' st'. run_order work' st' < run_order (Nodes (node # rest)) st \<Longrightarrow> \<exists>r. mock_execute work' st' = Some r"
  shows "\<exists>r. execute_node mock_execute node st = Some r"
proof (cases node)
  case (Cond c then_nodes else_nodes)
  obtain m passed where nxt: "next_predicate_result (fst st) (co_id c) = (m, passed)" by force
  have "\<exists>r. mock_execute (Nodes (if passed then then_nodes else else_nodes)) (m, snd st) = Some r"
    by (rule IH) (use next_predicate_simps(1) [OF nxt] in \<open>simp add: run_order_def Cond\<close>)
  then show ?thesis by (auto simp: Cond execute_node_def execute_cond_def nxt intro!: try_run_returns)
next
  case (Expand e template)
  obtain m generated where taken: "take_generated e (fst st) = (m, generated)" by force
  have "\<exists>r. mock_execute (Nodes generated) (m, snd st) = Some r"
  proof (cases "generated = []")
    case True
    then show ?thesis by (simp add: mock_execute.simps)
  next
    case False
    show ?thesis by (rule IH) (use take_generated_less [OF taken False] in \<open>simp add: run_order_def\<close>)
  qed
  then show ?thesis
    by (cases "validate_workflow_node_shapes generated")
      (auto simp: Expand execute_node_def execute_expand_def taken intro!: try_run_returns)
qed (auto simp: execute_node_def run_order_def intro!: try_run_returns IH)

lemma mock_execute_returns: "\<exists>r. mock_execute work st = Some r"
proof (induction "run_order work st" arbitrary: work st rule: less_induct)
  case less
  show ?case
  proof (cases work)
    case (LoopFrom u children i)
    with less execute_loop_until_returns show ?thesis by (subst mock_execute.simps) auto
  next
    case (Nodes nodes)
    show ?thesis
    proof (cases nodes)
      case (Cons node rest)
      have "\<exists>r. mock_execute (Nodes rest) st1 = Some r"
        if node: "execute_node mock_execute node st = Some (Inr st1)" and run: "\<not> stopped (snd st)" for st1
      proof (rule less)
        have "try_run (execute_node mock_execute node st) (\<lambda>st'. mock_execute (Nodes []) st') = Some (Inr st1)"
          by (simp add: node mock_execute.simps [of "Nodes []"])
        from mock_big_generated [OF execute_node_big [OF mock_execute_big run this]]
        show "run_order (Nodes rest) st1 < run_order work st" by (auto simp: run_order_def Nodes Cons)
      qed
      moreover have "\<exists>r. execute_node mock_execute node st = Some r"
        using execute_node_returns less Nodes Cons by blast
      ultimately show ?thesis
        by (subst mock_execute.simps) (auto simp: Nodes Cons intro!: try_run_returns)
    qed (simp add: Nodes mock_execute.simps)
  qed
qed

text \<open>
  C23. Running a workflow always returns, with a validation error or an execution, whatever the tables of
  outcomes, predicates and generated nodes are: loops are bounded by their limit, and an expansion uses up
  its generated nodes, so nodes that generate nodes of the same name cannot keep the run going.
\<close>

theorem mock_run_returns: "\<exists>r. mock_run m spec = Some r"
  by (cases "validate_workflow_nodes (ws_nodes spec)") (simp_all add: mock_run_def mock_execute_returns)

section \<open>Stops and the step budget\<close>

text \<open>
  A run only appends leaf results, and from a state that has not stopped it stops exactly if one of the
  new leaves was cancelled or out of budget.
\<close>

definition appends :: "mock_state \<Rightarrow> mock_state \<Rightarrow> LeafResult list \<Rightarrow> bool" where
  "appends st st' new \<longleftrightarrow> ex_leaf_results (snd st') = ex_leaf_results (snd st) @ new \<and>
     (if stopped (snd st) then stopped (snd st') \<and> new = []
      else (stopped (snd st') \<longleftrightarrow> (\<exists>r \<in> set new. stops (le_status r))))"

lemma appends_refl: "appends st st []"
  by (simp add: appends_def)

lemma appends_trans:
  "appends st st1 new \<Longrightarrow> appends st1 st2 new' \<Longrightarrow> appends st st2 (new @ new')"
  by (auto simp: appends_def split: if_splits)

lemma appends_finish:
  "appends st st1 new \<Longrightarrow> ex_leaf_results (snd st2) = ex_leaf_results (snd st1) \<Longrightarrow>
     stops (ex_status (snd st2)) = stops (ex_status (snd st1)) \<Longrightarrow> appends st st2 new"
  by (auto simp: appends_def stopped_stops split: if_splits)

lemma appends_through:
  assumes "\<exists>new. appends st st1 new" and "\<exists>new. appends st2 st' new"
    and "ex_leaf_results (snd st2) = ex_leaf_results (snd st1)"
    and "stops (ex_status (snd st2)) = stops (ex_status (snd st1))"
  shows "\<exists>new. appends st st' new"
  using assms appends_finish appends_trans by blast

lemma appends_branch:
  assumes "\<not> stopped (snd st)" and "appends st st1 new"
  shows "appends st (finish_branch b children (length (ex_leaf_results (snd st))) st1) new"
  using assms by (auto simp: appends_def stopped_stops stops_finish_branch)

lemma appends_snd: "appends (m, snd st) st' new \<longleftrightarrow> appends st st' new"
  by (simp add: appends_def)

lemma mock_big_appends: "mock_big work st st' \<Longrightarrow> \<exists>new. appends st st' new"
proof (induction rule: mock_big.induct)
  case (branch st children st1 rest s st')
  then show ?case using appends_trans appends_branch by blast
next
  case (leaf st rest l st')
  then obtain new where "appends (execute_leaf l st) st' new" by blast
  moreover from execute_leaf_results [of l st] leaf(1) have "\<exists>r. appends st (execute_leaf l st) [r]"
    by (auto simp: appends_def)
  ultimately show ?case using appends_trans by blast
next
  case (seq st children st1 rest i st')
  show ?case by (rule appends_through [OF seq.IH]) simp_all
next
  case (reduce st rest r st')
  show ?case by (rule appends_through [OF _ reduce.IH]) (auto intro: appends_refl)
next
  case (teacher st rest t st')
  show ?case by (rule appends_through [OF _ teacher.IH]) (auto intro: appends_refl)
next
  case (loop st u children st1 rest st')
  show ?case by (rule appends_through [OF loop.IH]) simp_all
next
  case (cond st c m passed chosen then_nodes else_nodes st1 rest st')
  show ?case by (rule appends_through [OF cond.IH [unfolded appends_snd]]) simp_all
next
  case (expand st e m generated st1 rest st' template)
  show ?case by (rule appends_through [OF expand.IH [unfolded appends_snd]]) simp_all
next
  case (loop_end iterations u st children)
  show ?case by (rule exI, rule appends_finish [OF appends_refl]) (simp_all add: stops_finish_loop)
next
  case (loop_stop iterations u st children st1)
  show ?case by (rule appends_through [OF loop_stop.IH, of "finish_loop u children (iterations + 1) False st1"])
      (auto simp: stops_finish_loop intro: appends_refl)
next
  case (loop_pass iterations u st children st1 m)
  show ?case by (rule appends_through [OF loop_pass.IH, of "finish_loop u children (iterations + 1) True (m, snd st1)"])
      (auto simp: stops_finish_loop intro: appends_refl)
next
  case (loop_again iterations u st children st1 m st')
  show ?case by (rule appends_through [OF loop_again.IH(1) loop_again.IH(2)]) simp_all
qed (auto intro: appends_refl)

text \<open>The step budget: every leaf is counted, except the one whose refusal stops the run.\<close>

definition within_steps :: "u32 \<Rightarrow> mock_state \<Rightarrow> bool" where
  "within_steps k st \<longleftrightarrow> mx_max_leaf_steps (fst st) = Some k \<and> mx_leaf_steps_executed (fst st) \<le> k \<and>
     length (ex_leaf_results (snd st)) \<le> unat (mx_leaf_steps_executed (fst st)) + of_bool (stopped (snd st))"

lemma within_steps_finish:
  "within_steps k st \<Longrightarrow> mx_max_leaf_steps (fst st') = mx_max_leaf_steps (fst st) \<Longrightarrow>
     mx_leaf_steps_executed (fst st') = mx_leaf_steps_executed (fst st) \<Longrightarrow>
     ex_leaf_results (snd st') = ex_leaf_results (snd st) \<Longrightarrow> stopped (snd st') = stopped (snd st) \<Longrightarrow> within_steps k st'"
  by (simp add: within_steps_def)

lemma within_steps_leaf:
  assumes "within_steps k st" and "\<not> stopped (snd st)"
  shows "within_steps k (execute_leaf l st)"
proof -
  obtain m outcome where out: "mock_leaf_outcome (fst st) l = (m, outcome)" by force
  let ?n = "mx_leaf_steps_executed (fst st)"
  have k: "mx_max_leaf_steps (fst st) = Some k" "?n \<le> k" using assms(1) by (simp_all add: within_steps_def)
  obtain r where r: "ex_leaf_results (snd (execute_leaf l st)) = ex_leaf_results (snd st) @ [r]"
      "stopped (snd (execute_leaf l st)) = stops (le_status r)" "fst (execute_leaf l st) = m"
      "le_status r = mo_status outcome"
    using assms(2) by (simp add: execute_leaf_def out push_leaf_def stopped_stops status_after_mark)
  have "mx_max_leaf_steps m = Some k \<and>
      (mx_leaf_steps_executed m = ?n \<and> stops (mo_status outcome) \<or>
       ?n \<noteq> k \<and> mx_leaf_steps_executed m = saturating_add ?n 1)"
    using out k(1)
    by (auto simp: mock_leaf_outcome_def rejected_leaf_def stops_def Let_def split: if_splits option.splits)
  moreover have "unat (saturating_add ?n 1) = Suc (unat ?n)" "saturating_add ?n 1 \<le> k" if "?n \<noteq> k"
  proof -
    have lt: "?n < k" using k(2) that by simp
    then have "?n \<noteq> - 1" by (metis word_order.extremum_strict)
    then have "saturating_add ?n 1 = ?n + 1" by (rule saturating_add_one)
    then show "unat (saturating_add ?n 1) = Suc (unat ?n)" "saturating_add ?n 1 \<le> k"
      using unat_Suc_below [OF lt] lt by (simp_all add: word_le_nat_alt word_less_nat_alt)
  qed
  ultimately show ?thesis using assms r by (auto simp: within_steps_def)
qed

lemma stopped_finish_branch:
  assumes "\<not> stopped (snd st)" and "mock_big (Nodes children) st st1"
  shows "stopped (snd (finish_branch b children (length (ex_leaf_results (snd st))) st1)) = stopped (snd st1)"
proof -
  obtain new where "appends st st1 new" using mock_big_appends [OF assms(2)] by blast
  with appends_branch [OF assms(1) this] assms(1) show ?thesis by (auto simp: appends_def)
qed

lemma stopped_finish [simp]:
  "stopped (snd (finish_control i kind status sel sm st)) = stopped (snd st)"
  "stopped (snd (finish_selected i kind nodes sm st)) = stopped (snd st)"
  "stopped (snd (finish_loop u children n passed st)) = stopped (snd st)"
  by (simp_all add: stopped_stops stops_finish_loop)

lemma mock_big_within_steps: "mock_big work st st' \<Longrightarrow> within_steps k st \<Longrightarrow> within_steps k st'"
proof (induction rule: mock_big.induct)
  case (branch st children st1 rest s st')
  then show ?case using within_steps_finish [OF branch.IH(1) [OF branch.prems]] stopped_finish_branch by simp
next
  case (leaf st rest l st')
  then show ?case using within_steps_leaf by blast
next
  case (cond st c m passed chosen then_nodes else_nodes st1 rest st')
  then show ?case using next_predicate_simps [OF cond(2)] by (simp add: within_steps_def)
next
  case (expand st e m generated st1 rest st' template)
  then show ?case using take_generated_simps [OF expand(2)] by (simp add: within_steps_def)
next
  case (loop_pass iterations u st children st1 m)
  then show ?case using next_predicate_simps [OF loop_pass(5)] by (simp add: within_steps_def)
next
  case (loop_again iterations u st children st1 m st')
  then show ?case using next_predicate_simps [OF loop_again(5)] by (simp add: within_steps_def)
qed (simp_all add: within_steps_def)

lemma mock_run_big:
  "mock_run m spec = Some (Inr (m', x)) \<Longrightarrow>
     validate_workflow_nodes (ws_nodes spec) = Inr () \<and> mock_big (Nodes (ws_nodes spec)) (m, WorkflowExecution_default) (m', x)"
  by (auto simp: mock_run_def dest: mock_execute_big split: sum.splits)

text \<open>
  C22. With a step budget of \<open>k\<close> a fresh executor runs at most \<open>k\<close> leaves, through loops, conditions and
  generated nodes; one more leaf may be recorded, the one that was refused, and then the execution has
  stopped. A stopped execution has a leaf that was cancelled or over budget, and an execution that has not
  stopped has none.
\<close>

theorem step_budget_holds:
  assumes "mock_run m spec = Some (Inr (m', x))"
    and "mx_max_leaf_steps m = Some k" and "mx_leaf_steps_executed m = 0"
  shows "mx_leaf_steps_executed m' \<le> k \<and>
    length (ex_leaf_results x) \<le> unat k + of_bool (stopped x) \<and>
    (stopped x \<longleftrightarrow> (\<exists>r \<in> set (ex_leaf_results x). stops (le_status r)))"
proof -
  have big: "mock_big (Nodes (ws_nodes spec)) (m, WorkflowExecution_default) (m', x)"
    using mock_run_big [OF assms(1)] by simp
  have "within_steps k (m, WorkflowExecution_default)"
    using assms(2,3) by (simp add: within_steps_def WorkflowExecution_default_def)
  then have "within_steps k (m', x)" by (rule mock_big_within_steps [OF big])
  moreover obtain new where "appends (m, WorkflowExecution_default) (m', x) new" using mock_big_appends [OF big] by blast
  ultimately show ?thesis
    by (auto simp: within_steps_def appends_def WorkflowExecution_default_def stopped_def word_le_nat_alt split: if_splits)
qed

section \<open>The fleet estimate\<close>

text \<open>A word that counts at least \<open>c\<close>, unless it is saturated.\<close>

definition covers :: "u64 \<Rightarrow> nat \<Rightarrow> bool" where
  "covers a c \<longleftrightarrow> a = - 1 \<or> c \<le> unat a"

lemma unat_max_word: "unat (- 1 :: u64) = 2 ^ 64 - 1"
  by (simp add: unsigned_minus_1_eq_mask mask_eq_exp_minus_1)

lemma covers_add:
  assumes "covers a c" and "covers b d"
  shows "covers (saturating_add a b) (c + d)"
proof (cases "saturating_add a b = - 1")
  case False
  then have le: "a \<le> a + b" and eq: "saturating_add a b = a + b" and ne: "a + b \<noteq> - 1"
    by (auto simp: saturating_add_def split: if_splits)
  from le have sum: "unat (a + b) = unat a + unat b" by (simp add: unat_plus_simple)
  have "unat (a + b) \<noteq> 2 ^ 64 - 1" using ne unat_max_word by (metis word_unat_eq_iff)
  moreover have "unat (a + b) < 2 ^ 64" using unsigned_less [where w = "a + b" and 'a = nat] by simp
  ultimately have "a \<noteq> - 1" "b \<noteq> - 1" using sum unat_max_word by auto
  with assms show ?thesis by (simp add: covers_def eq sum)
qed (simp add: covers_def)

lemma covers_mul:
  assumes "covers a c" and "1 \<le> n"
  shows "covers (saturating_mul a n) (unat n * c)"
proof (cases "saturating_mul a n = - 1")
  case False
  then have "uint a * uint n < 2 ^ 64" and eq: "saturating_mul a n = a * n" and ne: "a * n \<noteq> - 1"
    by (auto simp: saturating_mul_def split: if_splits)
  then have "int (unat a * unat n) < int (2 ^ 64)" by simp
  then have lt: "unat a * unat n < 2 ^ 64" by (simp only: of_nat_less_iff)
  have prod: "unat (a * n) = unat a * unat n" using lt by (simp add: unat_word_ariths)
  have "a \<noteq> - 1"
  proof
    assume a: "a = - 1"
    have "1 \<le> unat n" using assms(2) by (simp add: word_le_nat_alt)
    moreover have "(2 ^ 64 - 1) * unat n < 2 ^ 64" using lt unfolding a unat_max_word .
    ultimately have "unat n = 1" by simp
    then have "n = 1" by (metis unat_1 word_unat_eq_iff)
    with ne a show False by simp
  qed
  with assms(1) show ?thesis by (simp add: covers_def eq prod mult.commute)
qed (simp add: covers_def)

lemma covers_zero [simp]: "covers a 0"
  by (simp add: covers_def)

lemma estimate_fold_covers:
  "estimate_fold nodes d sh0 = Inr sh \<Longrightarrow> covers (wf_total_agents sh0) c \<Longrightarrow> covers (wf_total_agents sh) c"
proof (induction nodes arbitrary: sh0)
  case (Cons node nodes)
  then obtain s where "estimate_fold nodes d (shape_add sh0 s) = Inr sh" by (auto simp: try_bind_Inr)
  from Cons.IH [OF this] covers_add [OF Cons.prems(2) covers_zero, of "wf_total_agents s"] show ?case
    by (simp add: shape_add_def)
qed simp

fun fits :: "mock_work \<Rightarrow> nat \<Rightarrow> bool" where
  "fits (Nodes nodes) k \<longleftrightarrow> (\<forall>d sh0 sh c. estimate_fold nodes d sh0 = Inr sh \<longrightarrow>
     covers (wf_total_agents sh0) c \<longrightarrow> covers (wf_total_agents sh) (c + k))"
| "fits (LoopFrom u children i) k \<longleftrightarrow> (\<forall>d sh. estimate_fold children d shape_default = Inr sh \<longrightarrow>
     wf_total_agents sh = - 1 \<or> k \<le> (unat (loop_limit u) - unat i) * unat (wf_total_agents sh))"

lemma estimate_fold_prefix:
  assumes "estimate_fold (node # nodes) d sh0 = Inr sh"
  obtains s where "estimate_node_fleet_shape node d = Inr s" "estimate_fold nodes d (shape_add sh0 s) = Inr sh"
  using assms by (auto simp: try_bind_Inr)

text \<open>One node whose estimate covers its leaves, followed by the rest.\<close>

lemma fits_Cons:
  assumes "\<And>d s. estimate_node_fleet_shape node d = Inr s \<Longrightarrow> covers (wf_total_agents s) k" and "fits (Nodes rest) l"
  shows "fits (Nodes (node # rest)) (k + l)"
  unfolding fits.simps
proof (intro allI impI)
  fix d sh0 sh c
  assume "estimate_fold (node # rest) d sh0 = Inr sh" and c: "covers (wf_total_agents sh0) c"
  then obtain s where s: "estimate_node_fleet_shape node d = Inr s" "estimate_fold rest d (shape_add sh0 s) = Inr sh"
    by (elim estimate_fold_prefix)
  have "covers (wf_total_agents (shape_add sh0 s)) (c + k)"
    using covers_add [OF c assms(1) [OF s(1)]] by (simp add: shape_add_def)
  with assms(2) s(2) show "covers (wf_total_agents sh) (c + (k + l))" by (simp add: add.assoc [symmetric])
qed

lemma fits_Nodes_covers: "fits (Nodes nodes) k \<Longrightarrow> estimate_fold nodes d shape_default = Inr sh \<Longrightarrow> covers (wf_total_agents sh) k"
  using covers_zero [of "wf_total_agents shape_default"] by (metis add_0 fits.simps(1))

lemma loop_limit_estimate:
  "lu_max_iterations u = Some n \<Longrightarrow> unat (max (ucast n) 1 :: u64) = unat (loop_limit u)"
proof -
  have "unat (ucast n :: u64) = unat n"
    using unsigned_less [where w = n and 'a = nat] by (simp add: unsigned_ucast_eq take_bit_nat_eq_self_iff)
  then show "unat (max (ucast n) 1 :: u64) = unat (loop_limit u)" if "lu_max_iterations u = Some n"
    using that by (simp add: loop_limit_def max_def word_le_nat_alt)
qed

lemma covers_loop:
  assumes "estimate_node_fleet_shape (LoopUntil u children) d = Inr s" and "fits (LoopFrom u children 0) k"
  shows "covers (wf_total_agents s) k"
proof -
  from assms(1) obtain n sh where n: "lu_max_iterations u = Some n" "estimate_fold children d shape_default = Inr sh"
    "s = shape_repeat sh (max (ucast n) 1)"
    by (auto simp: try_bind_Inr split: option.splits)
  let ?n = "max (ucast n) 1 :: u64"
  from assms(2) n(2) have "wf_total_agents sh = - 1 \<or> k \<le> unat (loop_limit u) * unat (wf_total_agents sh)" by auto
  then have "wf_total_agents sh = - 1 \<or> k \<le> unat ?n * unat (wf_total_agents sh)"
    by (simp add: loop_limit_estimate [OF n(1)])
  then have "\<exists>c. covers (wf_total_agents sh) c \<and> k \<le> unat ?n * c"
  proof
    assume "wf_total_agents sh = - 1"
    moreover have "1 \<le> unat ?n" using word_le_nat_alt [of 1 ?n] by simp
    ultimately show ?thesis by (intro exI [of _ k]) (simp add: covers_def)
  qed (auto simp: covers_def)
  then obtain c where c: "covers (wf_total_agents sh) c" "k \<le> unat ?n * c" by blast
  have "covers (saturating_mul (wf_total_agents sh) ?n) (unat ?n * c)" by (rule covers_mul [OF c(1)]) simp
  with c(2) show ?thesis by (auto simp: n(3) shape_repeat_def covers_def)
qed

definition grows :: "mock_state \<Rightarrow> mock_state \<Rightarrow> nat \<Rightarrow> bool" where
  "grows st st' k \<longleftrightarrow> length (ex_leaf_results (snd st')) = length (ex_leaf_results (snd st)) + k"

lemma fits_node:
  assumes "\<exists>k. grows st st1 k \<and> (\<forall>d s. estimate_node_fleet_shape node d = Inr s \<longrightarrow> covers (wf_total_agents s) k)"
    and "\<exists>l. grows st2 st' l \<and> fits (Nodes rest) l"
    and "ex_leaf_results (snd st2) = ex_leaf_results (snd st1)"
  shows "\<exists>k. grows st st' k \<and> fits (Nodes (node # rest)) k"
proof -
  obtain k where k: "grows st st1 k" "\<forall>d s. estimate_node_fleet_shape node d = Inr s \<longrightarrow> covers (wf_total_agents s) k"
    using assms(1) by blast
  obtain l where l: "grows st2 st' l" "fits (Nodes rest) l" using assms(2) by blast
  have "grows st st' (k + l)" using k(1) l(1) assms(3) by (simp add: grows_def)
  moreover have "fits (Nodes (node # rest)) (k + l)" using fits_Cons k(2) l(2) by blast
  ultimately show ?thesis by blast
qed

lemma fits_children:
  assumes "\<exists>k. grows st st1 k \<and> fits (Nodes children) k"
    and "\<And>d. \<exists>d'. estimate_node_fleet_shape node d = estimate_fold children d' shape_default"
  shows "\<exists>k. grows st st1 k \<and> (\<forall>d s. estimate_node_fleet_shape node d = Inr s \<longrightarrow> covers (wf_total_agents s) k)"
proof -
  obtain k where k: "grows st st1 k" "fits (Nodes children) k" using assms(1) by blast
  have "covers (wf_total_agents s) k" if "estimate_node_fleet_shape node d = Inr s" for d s
    using assms(2) [of d] that fits_Nodes_covers [OF k(2)] by metis
  with k(1) show ?thesis by blast
qed

lemma fits_loop_round:
  assumes "i < loop_limit u" and "fits (Nodes children) k" and "fits (LoopFrom u children (i + 1)) l"
  shows "fits (LoopFrom u children i) (k + l)"
proof -
  have i: "unat (loop_limit u) - unat i = Suc (unat (loop_limit u) - unat (i + 1))"
    using assms(1) unat_Suc_below [OF assms(1)] by (simp add: word_less_nat_alt)
  have "wf_total_agents sh = - 1 \<or> k + l \<le> (unat (loop_limit u) - unat i) * unat (wf_total_agents sh)"
    if "estimate_fold children d shape_default = Inr sh" for d sh
  proof -
    have "wf_total_agents sh = - 1 \<or> l \<le> (unat (loop_limit u) - unat (i + 1)) * unat (wf_total_agents sh)"
      using assms(3) that by simp
    with fits_Nodes_covers [OF assms(2) that] show ?thesis by (auto simp: covers_def i intro: add_mono)
  qed
  then show ?thesis by simp
qed

lemma fits_loop_more: "i < loop_limit u \<Longrightarrow> fits (Nodes children) k \<Longrightarrow> fits (LoopFrom u children i) k"
  using fits_loop_round [of i u children k 0] by simp

lemma covers_cond:
  assumes "estimate_node_fleet_shape (Cond c then_nodes else_nodes) d = Inr sh"
    and "fits (Nodes (if passed then then_nodes else else_nodes)) k"
  shows "covers (wf_total_agents sh) k"
proof -
  from assms(1) obtain a b where ab: "estimate_fold then_nodes d shape_default = Inr a"
    "estimate_fold else_nodes d shape_default = Inr b" "sh = shape_add a b"
    by (auto simp: try_bind_Inr)
  then have "covers (wf_total_agents (if passed then a else b)) k"
    using fits_Nodes_covers [OF assms(2)] by (auto split: if_splits)
  then show ?thesis
    using covers_add [of "wf_total_agents a" k "wf_total_agents b" 0] covers_add [of "wf_total_agents a" 0 "wf_total_agents b" k]
    by (auto simp: ab(3) shape_add_def split: if_splits)
qed

text \<open>Without generated nodes the estimate covers the leaves of every run.\<close>

lemma mock_big_fits:
  assumes "mock_big work st st'" and "mx_generated_nodes (fst st) = []"
  shows "\<exists>k. grows st st' k \<and> fits work k"
  using assms
proof (induction rule: mock_big.induct)
  case (halted st node rest)
  show ?case by (intro exI [of _ 0]) (auto simp: grows_def estimate_fold_covers simp del: estimate_fold.simps)
next
  case (branch st children st1 rest s st')
  have "\<exists>k. grows st st1 k \<and> (\<forall>d sh. estimate_node_fleet_shape (BranchSet s children) d = Inr sh \<longrightarrow> covers (wf_total_agents sh) k)"
    by (rule fits_children [OF branch.IH(1) [OF branch.prems]]) auto
  then show ?case
    by (rule fits_node [OF _ branch.IH(2)]) (use mock_big_generated [OF branch(2)] branch.prems in simp_all)
next
  case (leaf st rest l st')
  obtain r where r: "ex_leaf_results (snd (execute_leaf l st)) = ex_leaf_results (snd st) @ [r]"
    "mx_generated_nodes (fst (execute_leaf l st)) = []"
    using execute_leaf_results [of l st] leaf.prems by auto
  then have "\<exists>k. grows st (execute_leaf l st) k \<and> (\<forall>d s. estimate_node_fleet_shape (Leaf l) d = Inr s \<longrightarrow> covers (wf_total_agents s) k)"
    by (intro exI [of _ 1]) (auto simp: grows_def covers_def)
  then show ?case using leaf.IH [OF r(2)] by (rule fits_node) simp
next
  case (seq st children st1 rest i st')
  have "\<exists>k. grows st st1 k \<and> (\<forall>d sh. estimate_node_fleet_shape (Sequence i children) d = Inr sh \<longrightarrow> covers (wf_total_agents sh) k)"
    by (rule fits_children [OF seq.IH(1) [OF seq.prems]]) auto
  then show ?case
    by (rule fits_node [OF _ seq.IH(2)]) (use mock_big_generated [OF seq(2)] seq.prems in simp_all)
next
  case (reduce st rest r st')
  then show ?case by (intro fits_node [of st st]) (auto simp: grows_def intro!: exI [of _ 0])
next
  case (teacher st rest t st')
  then show ?case by (intro fits_node [of st st]) (auto simp: grows_def intro!: exI [of _ 0])
next
  case (loop st u children st1 rest st')
  have "\<exists>k. grows st st1 k \<and> (\<forall>d sh. estimate_node_fleet_shape (LoopUntil u children) d = Inr sh \<longrightarrow> covers (wf_total_agents sh) k)"
    using loop.IH(1) [OF loop.prems] covers_loop by blast
  then show ?case
    by (rule fits_node [OF _ loop.IH(2)]) (use mock_big_generated [OF loop(2)] loop.prems in simp_all)
next
  case (cond st c m passed chosen then_nodes else_nodes st1 rest st')
  have m: "mx_generated_nodes m = []" using next_predicate_simps(1) [OF cond(2)] cond.prems by simp
  then obtain k where k: "grows st st1 k" "fits (Nodes chosen) k" using cond.IH(1) by (auto simp: grows_def)
  then have "covers (wf_total_agents sh) k" if "estimate_node_fleet_shape (Cond c then_nodes else_nodes) d = Inr sh" for d sh
    using covers_cond [OF that, of passed] cond(3) by simp
  then have "\<exists>k. grows st st1 k \<and> (\<forall>d sh. estimate_node_fleet_shape (Cond c then_nodes else_nodes) d = Inr sh \<longrightarrow> covers (wf_total_agents sh) k)"
    using k(1) by blast
  then show ?case by (rule fits_node [OF _ cond.IH(2)]) (use mock_big_generated [OF cond(4)] m in simp_all)
next
  case (expand st e m generated st1 rest st' template)
  have gen: "generated = []" "mx_generated_nodes m = []"
    using expand(2) expand.prems by (auto simp: take_generated_def Let_def bt_remove_def split: option.splits)
  from expand(4) have "st1 = (m, snd st)" unfolding gen(1) by (auto elim: mock_big.cases)
  then have "\<exists>k. grows st st1 k \<and> (\<forall>d sh. estimate_node_fleet_shape (Expand e template) d = Inr sh \<longrightarrow> covers (wf_total_agents sh) k)"
    by (intro exI [of _ 0]) (simp add: grows_def)
  then show ?case by (rule fits_node [OF _ expand.IH(2)]) (simp_all add: gen(2) \<open>st1 = (m, snd st)\<close>)
next
  case (loop_end iterations u st children)
  show ?case by (intro exI [of _ 0]) (simp add: grows_def)
next
  case (loop_stop iterations u st children st1)
  then show ?case using fits_loop_more by (auto simp: grows_def)
next
  case (loop_pass iterations u st children st1 m)
  then show ?case using fits_loop_more by (auto simp: grows_def)
next
  case (loop_again iterations u st children st1 m st')
  have "mx_generated_nodes m = []"
    using next_predicate_simps(1) [OF loop_again(5)] mock_big_generated [OF loop_again(3)] loop_again.prems by simp
  then obtain k l where "grows st st1 k" "fits (Nodes children) k" "grows (m, snd st1) st' l"
    "fits (LoopFrom u children (iterations + 1)) l"
    using loop_again.IH loop_again.prems by auto
  then show ?case using fits_loop_round [OF loop_again(1)] by (intro exI [of _ "k + l"]) (auto simp: grows_def)
qed (auto simp: grows_def)

text \<open>
  C21. A workflow that passes the fleet limits runs at most the estimated number of leaves, and that is
  within the limit, whatever its outcomes and predicates are, as long as no nodes are generated and the
  limit is not the largest 64-bit number: loops are counted with all their iterations, both branches of a
  condition are counted, and the saturating sums never lose an agent.
\<close>

theorem fleet_estimate_bounds_run:
  assumes "validate_for_fleet_with_limits spec limits = Inr shape" and "wl_max_total_agents limits \<noteq> - 1"
    and "mx_generated_nodes m = []" and "mock_run m spec = Some (Inr (m', x))"
  shows "length (ex_leaf_results x) \<le> unat (wf_total_agents shape) \<and>
    wf_total_agents shape \<le> wl_max_total_agents limits \<and> wf_max_depth shape \<le> wl_max_depth limits"
proof -
  have est: "estimate_fold (ws_nodes spec) 1 shape_default = Inr shape"
    and le: "wf_total_agents shape \<le> wl_max_total_agents limits" "wf_max_depth shape \<le> wl_max_depth limits"
    using assms(1) by (auto simp: validate_for_fleet_with_limits_def estimate_fleet_shape_def try_bind_Inr not_less)
  obtain k where k: "grows (m, WorkflowExecution_default) (m', x) k" "fits (Nodes (ws_nodes spec)) k"
    using mock_big_fits [OF conjunct2 [OF mock_run_big [OF assms(4)]]] assms(3) by auto
  have "wf_total_agents shape \<noteq> - 1" using le(1) assms(2) by (metis word_order.extremum_uniqueI)
  with fits_Nodes_covers [OF k(2) est] have "k \<le> unat (wf_total_agents shape)" by (simp add: covers_def)
  with k(1) le show ?thesis by (simp add: grows_def WorkflowExecution_default_def)
qed

section \<open>Concrete runs\<close>

definition plain_budget :: BudgetSpec where
  "plain_budget = \<lparr>bu_max_steps = None, bu_timeout_secs = None, bu_max_parallel = None, bu_max_tokens = None\<rparr>"

definition plain_permissions :: PermissionSpec where
  "plain_permissions = \<lparr>pe_allow_write = False, pe_allow_network = False, pe_deny_all_tools = False,
     pe_allowed_tools = [], pe_file_scope = []\<rparr>"

definition plain_policy :: ModelPolicy where
  "plain_policy = \<lparr>mp_provider = None, mp_model = None, mp_fallback_models = []\<rparr>"

definition plain_promotion :: PromotionPolicy where
  "plain_promotion = \<lparr>pr_strategy = AllBranches, pr_require_teacher_review = False, pr_min_successful_branches = None,
     pr_promotion_gate = \<lparr>pg_min_score_delta = 1, pg_max_cost_delta_microusd = None, pg_require_all_tests_pass = True,
       pg_reject_policy_violations = True, pg_reject_stale_replay = True\<rparr>\<rparr>"

definition plain_leaf :: "string \<Rightarrow> LeafSpec" where
  "plain_leaf i = \<lparr>lf_id = i, lf_prompt = ''do'', lf_agent_type = General, lf_role = None, lf_profile = None,
     lf_mode = ReadOnly, lf_isolation = Auto, lf_file_scope = [], lf_depends_on_results = [], lf_budget = plain_budget,
     lf_permissions = plain_permissions, lf_model_policy = plain_policy\<rparr>"

definition plain_spec :: "WorkflowNode list \<Rightarrow> WorkflowSpec" where
  "plain_spec nodes = \<lparr>ws_id = None, ws_goal = ''goal'', ws_description = None, ws_budget = plain_budget,
     ws_permissions = plain_permissions, ws_model_policy = plain_policy, ws_promotion_policy = plain_promotion,
     ws_gates = [], ws_nodes = nodes\<rparr>"

definition looping_nodes :: "WorkflowNode list" where
  "looping_nodes = [LoopUntil \<lparr>lu_id = ''loop'', lu_condition = ''done'', lu_max_iterations = Some 2\<rparr> [Leaf (plain_leaf ''a'')]]"

definition looping_executor :: MockWorkflowExecutor where
  "looping_executor = MockWorkflowExecutor_new\<lparr>mx_max_leaf_steps := Some 3\<rparr>"

definition run_summary :: "(WorkflowExecutionError + mock_state) option \<Rightarrow> (u32 \<times> nat \<times> WorkflowRunStatus) option" where
  "run_summary r = (case r of Some (Inr (m, x)) \<Rightarrow> Some (mx_leaf_steps_executed m, length (ex_leaf_results x), ex_status x) | _ \<Rightarrow> None)"

lemma run_summary_Some:
  "run_summary r = Some (n, l, s) \<Longrightarrow>
     \<exists>m x. r = Some (Inr (m, x)) \<and> mx_leaf_steps_executed m = n \<and> length (ex_leaf_results x) = l \<and> ex_status x = s"
  by (auto simp: run_summary_def split: option.splits sum.splits)

declare mock_execute.simps [code]

lemma looping_run: "run_summary (mock_run looping_executor (plain_spec looping_nodes)) = Some (2, 2, Failed)"
  by code_simp

theorem step_budget_holds_witness:
  "\<exists>m' x. mock_run looping_executor (plain_spec looping_nodes) = Some (Inr (m', x)) \<and>
     length (ex_leaf_results x) = 2 \<and> length (ex_leaf_results x) \<le> 3 + of_bool (stopped x)"
proof -
  obtain m' x where run: "mock_run looping_executor (plain_spec looping_nodes) = Some (Inr (m', x))"
    "length (ex_leaf_results x) = 2"
    using run_summary_Some [OF looping_run] by blast
  have "mx_max_leaf_steps looping_executor = Some 3" "mx_leaf_steps_executed looping_executor = 0"
    by (simp_all add: looping_executor_def MockWorkflowExecutor_new_def)
  from step_budget_holds [OF run(1) this] run show ?thesis by auto
qed

theorem fleet_estimate_bounds_run_witness:
  "\<exists>m' x. mock_run looping_executor (plain_spec looping_nodes) = Some (Inr (m', x)) \<and>
     validate_for_fleet (plain_spec looping_nodes) = Inr \<lparr>wf_total_agents = 2, wf_max_depth = 1\<rparr> \<and>
     length (ex_leaf_results x) \<le> unat (2 :: u64)"
proof -
  obtain m' x where run: "mock_run looping_executor (plain_spec looping_nodes) = Some (Inr (m', x))"
    using run_summary_Some [OF looping_run] by blast
  have v: "validate_for_fleet_with_limits (plain_spec looping_nodes) WorkflowFleetLimits_default =
      Inr \<lparr>wf_total_agents = 2, wf_max_depth = 1\<rparr>" by code_simp
  have "wl_max_total_agents WorkflowFleetLimits_default \<noteq> - 1" "mx_generated_nodes looping_executor = []"
    by (simp_all add: WorkflowFleetLimits_default_def looping_executor_def MockWorkflowExecutor_new_def)
  from fleet_estimate_bounds_run [OF v this run] run v show ?thesis by (auto simp: validate_for_fleet_def)
qed

text \<open>
  Generated nodes are not held to the template that was counted: a workflow estimated at one agent runs
  two when the expansion generates a sequence.
\<close>

definition expanding_nodes :: "WorkflowNode list" where
  "expanding_nodes = [Expand \<lparr>xp_id = ''e'', xp_source = ''src'', xp_max_children = Some 1\<rparr> (Some (Leaf (plain_leaf ''t'')))]"

definition expanding_executor :: MockWorkflowExecutor where
  "expanding_executor = MockWorkflowExecutor_new\<lparr>mx_generated_nodes :=
     [(''e'', [Sequence ''s'' [Leaf (plain_leaf ''a''), Leaf (plain_leaf ''b'')]])]\<rparr>"

text \<open>
  Validation for a fleet with a limit of one agent accepts a workflow whose only node expands into one
  templated leaf, but the run executes every leaf of the nodes that are generated for it, here two.
\<close>

theorem generated_nodes_escape_estimate:
  "validate_for_fleet_with_limits (plain_spec expanding_nodes) \<lparr>wl_max_total_agents = 1, wl_max_depth = 5\<rparr> =
     Inr \<lparr>wf_total_agents = 1, wf_max_depth = 1\<rparr> \<and>
   run_summary (mock_run expanding_executor (plain_spec expanding_nodes)) = Some (2, 2, Succeeded)"
proof
  show "validate_for_fleet_with_limits (plain_spec expanding_nodes) \<lparr>wl_max_total_agents = 1, wl_max_depth = 5\<rparr> =
     Inr \<lparr>wf_total_agents = 1, wf_max_depth = 1\<rparr>" by code_simp
  show "run_summary (mock_run expanding_executor (plain_spec expanding_nodes)) = Some (2, 2, Succeeded)" by code_simp
qed

section \<open>Validated trees\<close>

text \<open>The nodes of a tree in the order of the check; the template of an expansion is not one of them.\<close>

fun tree_nodes :: "WorkflowNode \<Rightarrow> WorkflowNode list" where
  "tree_nodes (BranchSet s children) = BranchSet s children # concat (map tree_nodes children)"
| "tree_nodes (Sequence i children) = Sequence i children # concat (map tree_nodes children)"
| "tree_nodes (LoopUntil u children) = LoopUntil u children # concat (map tree_nodes children)"
| "tree_nodes (Cond c then_nodes else_nodes) =
     Cond c then_nodes else_nodes # concat (map tree_nodes then_nodes) @ concat (map tree_nodes else_nodes)"
| "tree_nodes node = [node]"

definition forest :: "WorkflowNode list \<Rightarrow> WorkflowNode list" where
  "forest nodes = concat (map tree_nodes nodes)"

fun node_ok :: "WorkflowNode \<Rightarrow> bool" where
  "node_ok (Leaf l) \<longleftrightarrow> trim (lf_id l) \<noteq> [] \<and> validate_leaf l = Inr ()"
| "node_ok node \<longleftrightarrow> trim (node_id node) \<noteq> []"

fun node_refs :: "WorkflowNode \<Rightarrow> string set" where
  "node_refs (Leaf l) = set (lf_depends_on_results l)"
| "node_refs (Reduce r) = set (rd_inputs r)"
| "node_refs (TeacherReview t) = set (te_candidates t)"
| "node_refs _ = {}"

lemma forest_simps [simp]:
  "forest [] = []"
  "forest (node # nodes) = tree_nodes node @ forest nodes"
  by (simp_all add: forest_def)

definition shapes_ok :: "WorkflowNode list \<Rightarrow> string set \<Rightarrow> bool" where
  "shapes_ok ns seen \<longleftrightarrow> distinct (map node_id ns) \<and> set (map node_id ns) \<inter> seen = {} \<and> (\<forall>n \<in> set ns. node_ok n)"

lemma shapes_ok_append:
  "shapes_ok (ms @ ns) seen \<longleftrightarrow> shapes_ok ms seen \<and> shapes_ok ns (set (map node_id ms) \<union> seen)"
  by (auto simp: shapes_ok_def)

lemma shapes_ok_Cons:
  "shapes_ok (n # ns) seen \<longleftrightarrow> node_id n \<notin> seen \<and> node_ok n \<and> shapes_ok ns (insert (node_id n) seen)"
  by (auto simp: shapes_ok_def)

lemma validate_node_id_Inr:
  "validate_node_id node seen = Inr s \<longleftrightarrow> trim (node_id node) \<noteq> [] \<and> node_id node \<notin> seen \<and> s = insert (node_id node) seen"
  by (auto simp: validate_node_id_def try_bind_Inr)

lemma validate_inner_Inr:
  "validate_workflow_nodes_inner nodes seen = Inr s \<longleftrightarrow>
     shapes_ok (forest nodes) seen \<and> s = set (map node_id (forest nodes)) \<union> seen"
proof (induction nodes seen arbitrary: s rule: validate_workflow_nodes_inner.induct)
  case (2 node nodes seen)
  then show ?case
    by (cases node)
      (auto simp: try_bind_Inr validate_node_id_Inr shapes_ok_append shapes_ok_Cons forest_def [symmetric] Un_assoc)
qed (auto simp: shapes_ok_def)

lemma validate_references_Inr:
  "validate_workflow_references nodes known = Inr () \<longleftrightarrow> (\<forall>n \<in> set (forest nodes). node_refs n \<subseteq> known)"
proof (induction nodes known rule: validate_workflow_references.induct)
  case (2 node nodes known)
  then show ?case
    by (cases node)
      (auto simp: try_bind_Inr validate_known_references_def try_each_Inr forest_def [symmetric])
qed simp

text \<open>
  A workflow is accepted exactly if the ids of all its nodes are distinct and not blank, every leaf has
  a prompt and well-formed role and profile names, and every result a leaf, a reduction or a review refers
  to is the id of a node of the workflow. The check stops at an expansion: its template is not part of it.
\<close>

theorem workflow_accepted_iff:
  "validate_workflow_nodes nodes = Inr () \<longleftrightarrow>
     distinct (map node_id (forest nodes)) \<and> (\<forall>n \<in> set (forest nodes). node_ok n) \<and>
     (\<forall>n \<in> set (forest nodes). node_refs n \<subseteq> node_id ` set (forest nodes))"
  by (auto simp: validate_workflow_nodes_def try_bind_Inr validate_inner_Inr validate_references_Inr shapes_ok_def)

theorem workflow_accepted_iff_witness:
  "validate_workflow_nodes looping_nodes = Inr () \<and> distinct (map node_id (forest looping_nodes))"
proof -
  have "validate_workflow_nodes looping_nodes = Inr ()" by code_simp
  with workflow_accepted_iff [of looping_nodes] show ?thesis by simp
qed

end
