(* ===== verification/Workflow_Replay_Props.thy ===== *)
theory Workflow_Replay_Props
  imports Workflow_Replay Workflow_Exec_Props
begin

text \<open>
  What a replay guarantees. The locale \<open>replay_relation\<close> is the contract of a relation between the states
  before and after: closed under replaying one leaf, finishing one control node and finishing a branch, it
  holds for every replay that returns. It is interpreted for where the leaf results come from and for what
  the final status says about them.
\<close>

section \<open>Relations kept by a replay\<close>

locale replay_relation =
  fixes hash :: input_hash and spec :: WorkflowSpec and Q :: "replay_state \<Rightarrow> replay_state \<Rightarrow> bool"
  assumes refl: "Q st st"
    and trans: "Q st st1 \<Longrightarrow> Q st1 st2 \<Longrightarrow> Q st st2"
    and leaf: "replay_leaf hash spec l st = Inr st' \<Longrightarrow> Q st st'"
    and control: "record_opt = control_record (fst st) i kind \<Longrightarrow>
      Q st (push_control_or_diverge i kind record_opt selected summary st)"
    and fixed: "Q st st1 \<Longrightarrow> control_record (fst st1) = control_record (fst st)"
    and branch: "Q st st1 \<Longrightarrow> Q st (finish_replayed_branch b nodes (length (ex_leaf_results (snd st))) st1)"
begin

lemma node_step:
  assumes IH: "\<And>nodes st st'. exec nodes st = Some (Inr st') \<Longrightarrow> Q st st'"
    and "replay_node hash spec exec node st = Some (Inr st')"
  shows "Q st st'"
proof -
  have finish: "Q st (push_control_or_diverge i kind (control_record (fst st) i kind) sel sm st1)"
    if "exec nodes st = Some (Inr st1)" for nodes st1 i kind sel sm
    using trans [OF IH [OF that] control] fixed [OF IH [OF that]] by simp
  show ?thesis
  proof (cases node)
    case (BranchSet b children)
    with assms(2) show ?thesis by (auto simp: replay_node_def try_run_Some_Inr intro: branch IH)
  next
    case (Leaf l)
    with assms(2) show ?thesis by (auto simp: replay_node_def intro: leaf)
  next
    case (Sequence i children)
    with assms(2) obtain st1 where st1: "exec children st = Some (Inr st1)"
      "st' = replay_recorded_control i SequenceKind (map node_id children) ''sequence replayed in declaration order'' st1"
      by (auto simp: replay_node_def try_run_Some_Inr)
    then show ?thesis using trans [OF IH control] by (simp add: replay_recorded_control_def)
  next
    case (Reduce r)
    with assms(2) show ?thesis by (auto simp: replay_node_def replay_recorded_control_def intro: control)
  next
    case (TeacherReview t)
    with assms(2) show ?thesis by (auto simp: replay_node_def replay_recorded_control_def intro: control)
  next
    case (LoopUntil u children)
    with assms(2) show ?thesis by (auto simp: replay_node_def try_run_Some_Inr Let_def intro: finish)
  next
    case (Cond c then_nodes else_nodes)
    with assms(2) show ?thesis by (auto simp: replay_node_def try_run_Some_Inr Let_def intro: finish)
  next
    case (Expand e template)
    with assms(2) show ?thesis
      by (auto simp: replay_node_def replay_expand_def try_run_Some_Inr Let_def intro: finish split: sum.splits)
  qed
qed

lemma nodes_step:
  assumes "replay_nodes hash spec nodes st = Some r"
  shows "\<forall>st'. r = Inr st' \<longrightarrow> Q st st'"
proof (rule replay_nodes.raw_induct [where P = "\<lambda>h s nodes st r. h = hash \<and> s = spec \<longrightarrow> (\<forall>st'. r = Inr st' \<longrightarrow> Q st st')",
      OF _ assms, THEN mp, OF _ conjI [OF HOL.refl HOL.refl]], goal_cases)
  case (1 exec h s nodes st r)
  show ?case
  proof (intro impI allI)
    fix st'
    assume hs: "h = hash \<and> s = spec" and r: "r = Inr st'"
    have IH: "Q st st'" if "exec h s nodes st = Some (Inr st')" for nodes st st'
      using 1(1) [OF that] hs by blast
    show "Q st st'"
    proof (cases nodes)
      case Nil
      with 1(2) r show ?thesis by (simp add: refl)
    next
      case (Cons node rest)
      with 1(2) obtain st1 where a: "replay_node hash spec (exec h s) node st = Some (Inr st1)"
        and b: "exec h s rest st1 = Some (Inr st')"
        using hs unfolding r by (auto simp: try_run_Some_Inr)
      have "Q st st1" by (rule node_step [OF IH a])
      then show ?thesis by (rule trans [OF _ IH [OF b]])
    qed
  qed
qed

lemma run_step: "replay_run hash e spec = Some (Inr st') \<Longrightarrow> Q (e, WorkflowExecution_default) st'"
  by (auto simp: replay_run_def split: sum.splits dest: nodes_step [rule_format, OF _ HOL.refl])

end

section \<open>Where the results come from\<close>

definition same_trace :: "WorkflowReplayExecutor \<Rightarrow> WorkflowReplayExecutor \<Rightarrow> bool" where
  "same_trace e e' \<longleftrightarrow> re_trace_id e' = re_trace_id e \<and> re_allow_live_replay e' = re_allow_live_replay e \<and>
     re_leaf_records e' = re_leaf_records e \<and> re_control_records e' = re_control_records e"

definition recorded_or_diverged :: "WorkflowReplayExecutor \<Rightarrow> LeafResult \<Rightarrow> bool" where
  "recorded_or_diverged e r \<longleftrightarrow>
     (\<exists>i h. map_of (re_leaf_records e) (re_trace_id e, i, h) = Some r) \<or>
     \<not> re_allow_live_replay e \<and> (\<exists>l. r = diverged_leaf l)"

definition sourced :: "replay_state \<Rightarrow> replay_state \<Rightarrow> bool" where
  "sourced st st' \<longleftrightarrow> same_trace (fst st) (fst st') \<and>
     (\<exists>new. ex_leaf_results (snd st') = ex_leaf_results (snd st) @ new \<and> (\<forall>r \<in> set new. recorded_or_diverged (fst st) r))"

lemma control_fst [simp]: "fst (push_control_or_diverge i kind r sel sm st) = fst st"
  by (simp add: push_control_or_diverge_def split: option.split)

lemma control_results [simp]:
  "ex_leaf_results (snd (push_control_or_diverge i kind r sel sm st)) = ex_leaf_results (snd st)"
  by (simp add: push_control_or_diverge_def push_control_def mark_replayed_def mark_def split: option.split)

lemma branch_results [simp]:
  "fst (finish_replayed_branch b nodes n st) = fst st"
  "ex_leaf_results (snd (finish_replayed_branch b nodes n st)) = ex_leaf_results (snd st)"
  by (simp_all add: finish_replayed_branch_def replay_recorded_control_def mark_replayed_def mark_def Let_def)

lemma replay_leaf_Inr:
  assumes "replay_leaf hash spec l st = Inr st'"
  obtains (recorded) h r where "map_of (re_leaf_records (fst st)) (re_trace_id (fst st), lf_id l, h) = Some r"
      "fst st' = resolve_output (lf_id l) (le_output r) (fst st)" "snd st' = push_leaf r (mark_replayed (le_status r) (snd st))"
  | (diverged) "\<not> re_allow_live_replay (fst st)" "fst st' = resolve_output (lf_id l) None (fst st)"
      "snd st' = push_diverged (diverged_leaf l) (mark ReplayDiverged (snd st))"
  using assms by (auto simp: replay_leaf_def Let_def try_bind_Inr split: option.splits if_splits)

interpretation source: replay_relation hash spec sourced for hash spec
proof (unfold_locales, goal_cases)
  case (1 st)
  show ?case by (simp add: sourced_def same_trace_def)
next
  case (2 st st1 st2)
  then obtain a b where "ex_leaf_results (snd st1) = ex_leaf_results (snd st) @ a" "\<forall>r \<in> set a. recorded_or_diverged (fst st) r"
    "ex_leaf_results (snd st2) = ex_leaf_results (snd st1) @ b" "\<forall>r \<in> set b. recorded_or_diverged (fst st1) r"
    by (auto simp: sourced_def)
  moreover have "same_trace (fst st) (fst st1)" "same_trace (fst st1) (fst st2)" using 2 by (simp_all add: sourced_def)
  ultimately show ?case
    by (auto simp: sourced_def same_trace_def recorded_or_diverged_def intro!: exI [of _ "a @ b"])
next
  case (3 l st st')
  then show ?case
  proof (cases rule: replay_leaf_Inr)
    case (recorded h r)
    then show ?thesis
      by (auto simp: sourced_def same_trace_def resolve_output_def push_leaf_def mark_replayed_def mark_def recorded_or_diverged_def)
  next
    case diverged
    then show ?thesis
      by (auto simp: sourced_def same_trace_def resolve_output_def push_diverged_def mark_def recorded_or_diverged_def)
  qed
next
  case (5 st st1)
  then show ?case by (intro ext) (simp add: sourced_def same_trace_def control_record_def)
qed (auto simp: sourced_def same_trace_def)

section \<open>What the status says\<close>

definition flagged :: "WorkflowRunStatus \<Rightarrow> bool" where
  "flagged s \<longleftrightarrow> s = ReplayDiverged \<or> s = Failed"

definition statuses :: "WorkflowExecution \<Rightarrow> WorkflowRunStatus set" where
  "statuses x = le_status ` set (ex_leaf_results x) \<union> br_status ` set (ex_branch_results x) \<union>
     cr_status ` set (ex_control_node_results x)"

definition status_sound :: "WorkflowExecution \<Rightarrow> bool" where
  "status_sound x \<longleftrightarrow> (if \<exists>s \<in> statuses x. flagged s then flagged (ex_status x) else ex_status x = Succeeded)"

lemma status_sound_mark:
  assumes "status_sound x" and "ex_status y = ex_status (mark_replayed s x)" and "statuses y = insert s (statuses x)"
  shows "status_sound y"
proof (cases "flagged s")
  case True
  then have "ex_status y = s" using assms(2) by (auto simp: flagged_def mark_replayed_def mark_def)
  then show ?thesis using True assms(3) by (simp add: status_sound_def)
next
  case False
  then have "ex_status y = ex_status x" using assms(2) by (simp add: flagged_def mark_replayed_def)
  then show ?thesis using False assms(1,3) by (simp add: status_sound_def)
qed

definition keeps_status :: "replay_state \<Rightarrow> replay_state \<Rightarrow> bool" where
  "keeps_status st st' \<longleftrightarrow> control_record (fst st') = control_record (fst st) \<and> (status_sound (snd st) \<longrightarrow> status_sound (snd st'))"

lemma control_record_resolve [simp]: "control_record (resolve_output i out e) = control_record e"
  by (intro ext) (simp add: control_record_def resolve_output_def)

lemma status_sound_control:
  "status_sound (snd st) \<Longrightarrow> status_sound (snd (push_control_or_diverge i kind r sel sm st))"
  by (rule status_sound_mark [where s = "case r of None \<Rightarrow> ReplayDiverged | Some r \<Rightarrow> cr_status (rc_result r)"])
    (auto simp: push_control_or_diverge_def push_control_def mark_replayed_def mark_def statuses_def split: option.split)

lemma status_sound_branch:
  assumes "status_sound (snd st)"
  shows "status_sound (snd (finish_replayed_branch b nodes n st))"
  unfolding finish_replayed_branch_def replay_recorded_control_def Let_def
  by (rule status_sound_control, rule status_sound_mark [OF assms, where s = "branch_status (drop n (ex_leaf_results (snd st)))"])
    (auto simp: mark_replayed_def mark_def statuses_def)

interpretation status: replay_relation hash spec keeps_status for hash spec
proof (unfold_locales, goal_cases)
  case (3 l st st')
  then show ?case
  proof (cases rule: replay_leaf_Inr)
    case (recorded h r)
    have "status_sound (push_leaf r (mark_replayed (le_status r) (snd st)))" if "status_sound (snd st)"
      by (rule status_sound_mark [OF that, where s = "le_status r"])
        (simp_all add: push_leaf_def mark_replayed_def mark_def statuses_def)
    with recorded show ?thesis by (simp add: keeps_status_def)
  next
    case diverged
    have "status_sound (push_diverged (diverged_leaf l) (mark ReplayDiverged (snd st)))" if "status_sound (snd st)"
      by (rule status_sound_mark [OF that, where s = ReplayDiverged])
        (simp_all add: push_diverged_def mark_replayed_def mark_def statuses_def diverged_leaf_def)
    with diverged show ?thesis by (simp add: keeps_status_def)
  qed
qed (auto simp: keeps_status_def status_sound_control status_sound_branch)



section \<open>When a replay returns\<close>

text \<open>
  A rank of the expansions that decreases from an expansion to the ones among the nodes recorded for it.
\<close>

definition below_rank :: "(string \<Rightarrow> nat) \<Rightarrow> nat \<Rightarrow> WorkflowNode list \<Rightarrow> bool" where
  "below_rank rank n nodes \<longleftrightarrow> (\<forall>s t. Expand s t \<in> set (forest nodes) \<longrightarrow> rank (xp_id s) < n)"

definition records_ranked :: "(string \<Rightarrow> nat) \<Rightarrow> WorkflowReplayExecutor \<Rightarrow> bool" where
  "records_ranked rank e \<longleftrightarrow> (\<forall>i r. control_record e i ExpandKind = Some r \<longrightarrow> below_rank rank (rank i) (rc_generated_nodes r))"

lemma below_rank_subset: "below_rank rank n nodes \<Longrightarrow> set (forest nodes') \<subseteq> set (forest nodes) \<Longrightarrow> below_rank rank n nodes'"
  by (auto simp: below_rank_def)

lemma map_filter_Some: "y \<in> set (List.map_filter f xs) \<Longrightarrow> \<exists>x. f x = Some y"
  by (auto simp: map_filter_def)

lemma select_nodes_subset: "set (select_nodes nodes selected) \<subseteq> set nodes"
proof
  fix c
  assume "c \<in> set (select_nodes nodes selected)"
  then obtain i where "map_of (rev (map (\<lambda>n. (node_id n, n)) nodes)) i = Some c"
    using map_filter_Some by (fastforce simp: select_nodes_def)
  from map_of_SomeD [OF this] show "c \<in> set nodes" by auto
qed

lemma forest_select: "set (forest (select_nodes nodes selected)) \<subseteq> set (forest nodes)"
  using select_nodes_subset by (fastforce simp: forest_def)

lemma forest_append [simp]: "forest (ms @ ns) = forest ms @ forest ns"
  by (simp add: forest_def)

lemma child_size:
  "c \<in> set children \<Longrightarrow> size c < size (BranchSet b children)"
  "c \<in> set children \<Longrightarrow> size c < size (Sequence i children)"
  "c \<in> set children \<Longrightarrow> size c < size (LoopUntil u children)"
  "c \<in> set children \<Longrightarrow> size c < size (Cond k children others)"
  "c \<in> set children \<Longrightarrow> size c < size (Cond k others children)"
  using size_list_estimation' [of c children "size c" size] by auto

lemma replay_node_returns:
  assumes generated: "\<And>m nodes. below_rank rank m nodes \<Longrightarrow> m < n \<Longrightarrow> \<exists>r. exec nodes st = Some r"
    and children: "\<And>nodes. below_rank rank n nodes \<Longrightarrow> \<forall>c \<in> set nodes. size c < size node \<Longrightarrow> \<exists>r. exec nodes st = Some r"
    and node: "below_rank rank n [node]" and ranked: "records_ranked rank (fst st)"
  shows "\<exists>r. replay_node hash spec exec node st = Some r"
proof (cases node)
  case (Expand s t)
  have "rank (xp_id s) < n" using node by (auto simp: below_rank_def Expand)
  moreover have "below_rank rank (rank (xp_id s))
      (case control_record (fst st) (xp_id s) ExpandKind of Some r \<Rightarrow> rc_generated_nodes r | None \<Rightarrow> [])"
    using ranked by (auto simp: records_ranked_def below_rank_def split: option.split)
  ultimately have "\<exists>r. exec (case control_record (fst st) (xp_id s) ExpandKind of Some r \<Rightarrow> rc_generated_nodes r | None \<Rightarrow> []) st = Some r"
    using generated by blast
  then show ?thesis
    by (auto simp: Expand replay_node_def replay_expand_def Let_def split: sum.split intro!: try_run_returns)
next
  case (Cond c then_nodes else_nodes)
  have "\<exists>r. exec (select_nodes (then_nodes @ else_nodes) sel) st = Some r" for sel
  proof (rule children)
    show "below_rank rank n (select_nodes (then_nodes @ else_nodes) sel)"
      by (rule below_rank_subset [OF node]) (use forest_select [of "then_nodes @ else_nodes"] in \<open>auto simp: Cond forest_def\<close>)
    show "\<forall>c \<in> set (select_nodes (then_nodes @ else_nodes) sel). size c < size node"
      using select_nodes_subset [of "then_nodes @ else_nodes" sel] child_size(4,5) by (auto simp: Cond simp del: WorkflowNode.size)
  qed
  then show ?thesis by (auto simp: Cond replay_node_def Let_def intro!: try_run_returns)
next
  case (LoopUntil u cs)
  have "\<exists>r. exec (select_nodes cs sel) st = Some r" for sel
  proof (rule children)
    show "below_rank rank n (select_nodes cs sel)"
      by (rule below_rank_subset [OF node]) (use forest_select [of cs] in \<open>auto simp: LoopUntil forest_def\<close>)
    show "\<forall>c \<in> set (select_nodes cs sel). size c < size node"
      using select_nodes_subset [of cs sel] child_size(3) by (auto simp: LoopUntil simp del: WorkflowNode.size)
  qed
  then show ?thesis by (auto simp: LoopUntil replay_node_def Let_def intro!: try_run_returns)
next
  case (BranchSet b cs)
  have "\<exists>r. exec cs st = Some r"
  proof (rule children)
    show "below_rank rank n cs" by (rule below_rank_subset [OF node]) (auto simp: BranchSet forest_def)
    show "\<forall>c \<in> set cs. size c < size node" using child_size(1) by (simp add: BranchSet del: WorkflowNode.size)
  qed
  then show ?thesis by (auto simp: BranchSet replay_node_def intro!: try_run_returns)
next
  case (Sequence i cs)
  have "\<exists>r. exec cs st = Some r"
  proof (rule children)
    show "below_rank rank n cs" by (rule below_rank_subset [OF node]) (auto simp: Sequence forest_def)
    show "\<forall>c \<in> set cs. size c < size node" using child_size(2) by (simp add: Sequence del: WorkflowNode.size)
  qed
  then show ?thesis by (auto simp: Sequence replay_node_def intro!: try_run_returns)
qed (simp_all add: replay_node_def)

text \<open>Nodes of a size below \<open>k\<close>, given that the ones of a lower rank return.\<close>

lemma replay_sized_returns:
  assumes lower: "\<And>m nodes st. m < n \<Longrightarrow> below_rank rank m nodes \<Longrightarrow> records_ranked rank (fst st) \<Longrightarrow>
      \<exists>r. replay_nodes hash spec nodes st = Some r"
  shows "\<forall>c \<in> set nodes. size c < k \<Longrightarrow> below_rank rank n nodes \<Longrightarrow> records_ranked rank (fst st) \<Longrightarrow>
    \<exists>r. replay_nodes hash spec nodes st = Some r"
proof (induction k arbitrary: nodes st)
  case 0
  then show ?case by (cases nodes) (auto simp: replay_nodes.simps)
next
  case (Suc k)
  from Suc.prems show ?case
  proof (induction nodes arbitrary: st)
    case Nil
    then show ?case by (simp add: replay_nodes.simps)
  next
    case (Cons node rest)
    have "\<exists>r. replay_node hash spec (replay_nodes hash spec) node st = Some r"
    proof (rule replay_node_returns [where rank = rank and n = n])
      show "\<exists>r. replay_nodes hash spec nodes st = Some r" if "below_rank rank m nodes" "m < n" for m nodes
        by (rule lower [OF that(2,1) Cons.prems(3)])
      show "\<exists>r. replay_nodes hash spec nodes st = Some r" if "below_rank rank n nodes" "\<forall>c \<in> set nodes. size c < size node" for nodes
        by (rule Suc.IH [OF _ that(1) Cons.prems(3)]) (use that(2) Cons.prems(1) in fastforce)
      show "below_rank rank n [node]" by (rule below_rank_subset [OF Cons.prems(2)]) simp
    qed (rule Cons.prems(3))
    moreover have "\<exists>r. replay_nodes hash spec rest st1 = Some r"
      if "replay_node hash spec (replay_nodes hash spec) node st = Some (Inr st1)" for st1
    proof (rule Cons.IH)
      have "keeps_status st st1"
        by (rule status.node_step [OF _ that]) (use status.nodes_step in blast)
      with Cons.prems(3) show "records_ranked rank (fst st1)" by (simp add: keeps_status_def records_ranked_def)
      show "below_rank rank n rest" by (rule below_rank_subset [OF Cons.prems(2)]) simp
    qed (use Cons.prems(1) in simp)
    ultimately show ?case by (subst replay_nodes.simps) (auto intro!: try_run_returns)
  qed
qed

lemma replay_ranked_returns:
  "below_rank rank n nodes \<Longrightarrow> records_ranked rank (fst st) \<Longrightarrow> \<exists>r. replay_nodes hash spec nodes st = Some r"
proof (induction n arbitrary: nodes st rule: less_induct)
  case (less n)
  obtain k where "\<forall>c \<in> set nodes. size c < k"
    using finite_nat_set_iff_bounded [of "size ` set nodes"] by auto
  from replay_sized_returns [OF less.IH this less.prems] show ?case .
qed

lemma rank_bound: "\<exists>n. below_rank rank n nodes"
proof -
  obtain n where "\<forall>c \<in> (\<lambda>c. case c of Expand s t \<Rightarrow> rank (xp_id s) | _ \<Rightarrow> 0) ` set (forest nodes). c < n"
    using finite_nat_set_iff_bounded [of "(\<lambda>c. case c of Expand s t \<Rightarrow> rank (xp_id s) | _ \<Rightarrow> 0) ` set (forest nodes)"] by auto
  then have "below_rank rank n nodes" by (fastforce simp: below_rank_def)
  then show ?thesis ..
qed

text \<open>
  A replay returns, with an execution or an error, whenever the expansions recorded in the trace can be
  ranked: every expansion among the nodes recorded for an expansion has a lower rank than that expansion.
\<close>

theorem replay_returns:
  assumes "records_ranked rank e"
  shows "\<exists>r. replay_run hash e spec = Some r"
proof -
  obtain n where "below_rank rank n (ws_nodes spec)" using rank_bound by blast
  from replay_ranked_returns [OF this, of "(e, WorkflowExecution_default)"] assms show ?thesis
    by (auto simp: replay_run_def split: sum.split)
qed

section \<open>A record that generates its own expansion\<close>

definition self_generating :: "ExpandSpec \<Rightarrow> WorkflowNode option \<Rightarrow> WorkflowReplayExecutor \<Rightarrow> bool" where
  "self_generating s t e \<longleftrightarrow> trim (xp_id s) \<noteq> [] \<and>
     (\<exists>c. control_record e (xp_id s) ExpandKind = Some c \<and> rc_generated_nodes c = [Expand s t])"

lemma validate_expand:
  assumes "trim (xp_id s) \<noteq> []"
  shows "validate_workflow_nodes [Expand s t] = Inr ()" "validate_workflow_node_shapes [Expand s t] = Inr ()"
  using assms
  by (simp_all add: validate_workflow_nodes_def validate_workflow_node_shapes_def validate_node_id_def try_bind_def refuse_if_def)

lemma self_generating_never_returns:
  assumes "replay_nodes hash spec nodes st = Some r"
  shows "\<not> (self_generating s t (fst st) \<and> nodes = [Expand s t])"
proof (rule replay_nodes.raw_induct [where P = "\<lambda>hash spec nodes st r. \<not> (self_generating s t (fst st) \<and> nodes = [Expand s t])",
      OF _ assms], goal_cases)
  case (1 exec hash spec nodes st r)
  show ?case
  proof
    assume h: "self_generating s t (fst st) \<and> nodes = [Expand s t]"
    then have "exec hash spec [Expand s t] st \<noteq> Some r'" for r' using 1(1) by blast
    then have "exec hash spec [Expand s t] st = None" using not_None_eq by blast
    with h 1(2) show False
      by (auto simp: self_generating_def replay_node_def replay_expand_def validate_expand try_run_def Let_def)
  qed
qed

text \<open>
  The condition cannot be dropped: when the nodes recorded for an expansion are that expansion again, the
  replay of a workflow that consists of it never returns, because a record stays in the table after its use.
\<close>

theorem replay_spins:
  assumes "ws_nodes spec = [Expand s t]" and "self_generating s t e"
  shows "replay_run hash e spec = None"
proof -
  have "replay_nodes hash spec [Expand s t] (e, WorkflowExecution_default) \<noteq> Some r" for r
    using self_generating_never_returns [of hash spec "[Expand s t]" "(e, WorkflowExecution_default)" r s t] assms(2) by auto
  then have "replay_nodes hash spec [Expand s t] (e, WorkflowExecution_default) = None" using not_None_eq by blast
  then show ?thesis using validate_expand(1) [of s t] assms by (simp add: replay_run_def self_generating_def)
qed

text \<open>A recorded stop at the top of a workflow does not reach the status of the replayed execution.\<close>

theorem replay_hides_stop:
  assumes "ws_nodes spec = [Leaf l]" and "validate_workflow_nodes [Leaf l] = Inr ()"
    and "compute_leaf_input_hash hash spec l (resolved_inputs_for_leaf l (re_resolved_outputs e)) = Inr h"
    and "map_of (re_leaf_records e) (re_trace_id e, lf_id l, h) = Some r"
    and "le_status r = Cancelled \<or> le_status r = BudgetExceeded"
  shows "\<exists>e' x. replay_run hash e spec = Some (Inr (e', x)) \<and> ex_leaf_results x = [r] \<and> ex_status x = Succeeded"
proof -
  have "replay_leaf hash spec l (e, WorkflowExecution_default) =
      Inr (resolve_output (lf_id l) (le_output r) e, push_leaf r WorkflowExecution_default)"
    using assms(3-5) by (auto simp: replay_leaf_def mark_replayed_def Let_def)
  then show ?thesis using assms(1,2)
    by (auto simp: replay_run_def replay_nodes.simps replay_node_def push_leaf_def WorkflowExecution_default_def)
qed

section \<open>A recorded run\<close>

definition recorded_leaf :: LeafResult where
  "recorded_leaf = (diverged_leaf (plain_leaf ''a''))\<lparr>le_status := Succeeded, le_output := Some ''out''\<rparr>"

definition grow :: ExpandSpec where
  "grow = \<lparr>xp_id = ''grow'', xp_source = ''items'', xp_max_children = None\<rparr>"

definition expand_record :: "WorkflowNode list \<Rightarrow> ReplayControlRecord" where
  "expand_record nodes = \<lparr>rc_trace_id = ''t'', rc_node_id = ''grow'', rc_kind = ExpandKind,
     rc_result = \<lparr>cr_node_id = ''grow'', cr_kind = ExpandKind, cr_status = Succeeded, cr_selected_children = map node_id nodes,
       cr_summary = None\<rparr>,
     rc_generated_nodes = nodes\<rparr>"

definition recorded_trace :: "WorkflowNode list \<Rightarrow> WorkflowReplayTrace" where
  "recorded_trace nodes = \<lparr>rt_trace_id = ''t'',
     rt_leaf_records = [\<lparr>rl_trace_id = ''t'', rl_leaf_id = ''a'', rl_input_hash = ''a-0'', rl_result = recorded_leaf\<rparr>],
     rt_control_records = [expand_record nodes]\<rparr>"

text \<open>A hash that distinguishes leaves by their id and the number of their inputs.\<close>

definition count_hash :: input_hash where
  "count_hash i goal l inputs = Inr (lf_id l @ (if inputs = [] then ''-0'' else ''-1''))"

definition replay_summary :: "replay_result \<Rightarrow> (LeafResult list \<times> WorkflowRunStatus) option" where
  "replay_summary r = (case r of Some (Inr (e, x)) \<Rightarrow> Some (ex_leaf_results x, ex_status x) | _ \<Rightarrow> None)"

declare replay_nodes.simps [code]

lemma recorded_run:
  "replay_summary (replay_run count_hash (WorkflowReplayExecutor_new (recorded_trace [Leaf (plain_leaf ''a'')]))
     (plain_spec [Expand grow None])) = Some ([recorded_leaf], Succeeded)"
  by code_simp


theorem replay_returns_witness:
  "\<exists>r. replay_run count_hash (WorkflowReplayExecutor_new (recorded_trace [Leaf (plain_leaf ''a'')])) (plain_spec [Expand grow None]) = Some r"
proof (rule replay_returns)
  show "records_ranked (\<lambda>_. 0) (WorkflowReplayExecutor_new (recorded_trace [Leaf (plain_leaf ''a'')]))"
    by (auto simp: records_ranked_def below_rank_def control_record_def WorkflowReplayExecutor_new_def with_options_def
        recorded_trace_def expand_record_def split: if_splits)
qed

theorem replay_spins_witness:
  "replay_run count_hash (WorkflowReplayExecutor_new (recorded_trace [Expand grow None])) (plain_spec [Expand grow None]) = None"
proof (rule replay_spins)
  show "ws_nodes (plain_spec [Expand grow None]) = [Expand grow None]" by (simp add: plain_spec_def)
  have "trim (xp_id grow) \<noteq> []" by code_simp
  then show "self_generating grow None (WorkflowReplayExecutor_new (recorded_trace [Expand grow None]))"
    by (simp add: self_generating_def control_record_def WorkflowReplayExecutor_new_def with_options_def recorded_trace_def
        expand_record_def grow_def)
qed

end
