(* ===== verification/Workflow_Elevation.thy ===== *)
theory Workflow_Elevation
  imports Workflow_Nodes
begin

text \<open>
  The assessment of a workflow plan for the approval card (\<open>workflow/src/elevation.rs\<close>): what the plan may
  write, run, fetch and read, where it wants worktrees, and whether an operator has to approve it. The
  mutable flags that the walk shares are one record.
\<close>

section \<open>Tools\<close>

definition is_write_tool :: "string \<Rightarrow> bool" where
  "is_write_tool tool \<longleftrightarrow> trim tool \<in>
     set [''Edit'', ''write_file'', ''edit_file'', ''apply_patch'', ''checklist_write'', ''todo_write'']"

definition is_shell_tool :: "string \<Rightarrow> bool" where
  "is_shell_tool tool \<longleftrightarrow> trim tool \<in>
     set [''exec_shell'', ''exec_shell_wait'', ''exec_shell_interact'', ''exec_wait'', ''exec_interact'',
       ''task_shell_start'', ''task_shell_wait'']"

definition is_network_tool :: "string \<Rightarrow> bool" where
  "is_network_tool tool \<longleftrightarrow>
     tool \<in> set [''web_search'', ''web_run'', ''fetch_url'', ''wait_for_dev_server''] \<or> starts_with tool ''mcp_''"

definition is_secret_tool :: "string \<Rightarrow> bool" where
  "is_secret_tool tool \<longleftrightarrow>
     (let lower = to_ascii_lowercase tool
      in contains lower ''secret'' \<or> contains lower ''credential'' \<or> contains lower ''password'' \<or>
         lower = ''read_env'' \<or> lower = ''env'')"

section \<open>The walk\<close>

record plan_flags =
  fl_child_ids :: "string list"
  fl_writes :: bool
  fl_shell :: bool
  fl_network :: bool
  fl_secrets :: bool
  fl_worktree :: bool

definition plan_flags_init :: plan_flags where
  "plan_flags_init = \<lparr>fl_child_ids = [], fl_writes = False, fl_shell = False, fl_network = False, fl_secrets = False,
     fl_worktree = False\<rparr>"

definition merge_tool :: "string \<Rightarrow> plan_flags \<Rightarrow> plan_flags" where
  "merge_tool tool f =
     (let name = trim tool;
          f = (if is_write_tool name then f\<lparr>fl_writes := True\<rparr> else f);
          f = (if is_shell_tool name then f\<lparr>fl_shell := True\<rparr> else f);
          f = (if is_network_tool name then f\<lparr>fl_network := True\<rparr> else f)
      in if is_secret_tool name then f\<lparr>fl_secrets := True\<rparr> else f)"

definition merge_permissions :: "PermissionSpec \<Rightarrow> plan_flags \<Rightarrow> plan_flags" where
  "merge_permissions p f =
     (let f = (if pe_allow_write p then f\<lparr>fl_writes := True\<rparr> else f);
          f = (if pe_allow_network p then f\<lparr>fl_network := True\<rparr> else f)
      in fold merge_tool (pe_allowed_tools p) f)"

definition inspect_leaf :: "LeafSpec \<Rightarrow> bool \<Rightarrow> plan_flags \<Rightarrow> plan_flags" where
  "inspect_leaf l in_parallel f =
     (let f = f\<lparr>fl_child_ids := fl_child_ids f @ [lf_id l]\<rparr>;
          f = (if leaf_is_write_capable l then f\<lparr>fl_writes := True\<rparr> else f);
          f = merge_permissions (lf_permissions l) f;
          f = (if leaf_wants_worktree l in_parallel \<or> lf_isolation l = Worktree then f\<lparr>fl_worktree := True\<rparr> else f)
      in if lf_mode l = ReadWrite \<and> pe_allowed_tools (lf_permissions l) = [] \<and>
            (lf_agent_type l = Implementer \<or> lf_agent_type l = General)
         then f\<lparr>fl_shell := True\<rparr> else f)"

fun walk_nodes :: "WorkflowNode list \<Rightarrow> bool \<Rightarrow> plan_flags \<Rightarrow> plan_flags" where
  "walk_nodes [] in_parallel f = f"
| "walk_nodes (node # nodes) in_parallel f =
     walk_nodes nodes in_parallel
       (case node of
          Leaf l \<Rightarrow> inspect_leaf l in_parallel f
        | BranchSet s children \<Rightarrow>
            walk_nodes children (bs_parallel s \<or> in_parallel) (merge_permissions (bs_permissions s) f)
        | Sequence _ children \<Rightarrow> walk_nodes children in_parallel f
        | LoopUntil _ children \<Rightarrow> walk_nodes children in_parallel f
        | Cond _ then_nodes else_nodes \<Rightarrow> walk_nodes else_nodes in_parallel (walk_nodes then_nodes in_parallel f)
        | Expand _ template \<Rightarrow> (case template of Some t \<Rightarrow> walk_nodes [t] in_parallel f | None \<Rightarrow> f)
        | Reduce _ \<Rightarrow> f
        | TeacherReview _ \<Rightarrow> f)"

section \<open>The declared risk\<close>

datatype PlanRiskHint = HintReadOnly | HintWrites | HintShell | HintNetwork | HintElevated

definition elevates :: "PlanRiskHint \<Rightarrow> bool" where
  "elevates hint \<longleftrightarrow> hint \<noteq> HintReadOnly"

text \<open>\<open>risk.map(str::trim).filter(|s| !s.is_empty())\<close>.\<close>

definition trimmed_non_empty :: "string option \<Rightarrow> string option" where
  "trimmed_non_empty v = (case v of Some s \<Rightarrow> if trim s = [] then None else Some (trim s) | None \<Rightarrow> None)"

definition assess_plan_risk_string :: "string option \<Rightarrow> PlanRiskHint" where
  "assess_plan_risk_string risk =
     (case trimmed_non_empty risk of
        None \<Rightarrow> HintReadOnly
      | Some s \<Rightarrow>
          if s \<in> set [''read_only'', ''readonly'', ''low'', ''safe''] then HintReadOnly
          else if s \<in> set [''writes'', ''write'', ''read_write'', ''readwrite'', ''medium''] then HintWrites
          else if s = ''shell'' then HintShell
          else if s = ''network'' then HintNetwork
          else HintElevated)"

definition apply_plan_risk_hint :: "string option \<Rightarrow> plan_flags \<Rightarrow> plan_flags" where
  "apply_plan_risk_hint risk f =
     (case assess_plan_risk_string risk of
        HintReadOnly \<Rightarrow> f
      | HintWrites \<Rightarrow> f\<lparr>fl_writes := True\<rparr>
      | HintShell \<Rightarrow> f\<lparr>fl_shell := True, fl_writes := True\<rparr>
      | HintNetwork \<Rightarrow> f\<lparr>fl_network := True\<rparr>
      | HintElevated \<Rightarrow> f\<lparr>fl_writes := True, fl_shell := True, fl_network := True\<rparr>)"

definition embedded_plan_risk_hint :: "string option \<Rightarrow> string option" where
  "embedded_plan_risk_hint description =
     (case trimmed_non_empty description of
        None \<Rightarrow> None
      | Some s \<Rightarrow>
          if s \<in> set [''read_only'', ''readonly'', ''low'', ''safe'', ''writes'', ''write'', ''read_write'', ''readwrite'',
            ''medium'', ''shell'', ''network'', ''elevated'', ''high''] then Some s else None)"

section \<open>The card\<close>

record ElevationOptions =
  eo_token_budget :: "u64 option"
  eo_high_budget_threshold :: u64
  eo_parent_allows_write :: bool
  eo_parent_allows_network :: bool

definition DEFAULT_HIGH_BUDGET_THRESHOLD :: u64 where
  "DEFAULT_HIGH_BUDGET_THRESHOLD = 120000"

definition ElevationOptions_default :: ElevationOptions where
  "ElevationOptions_default = \<lparr>eo_token_budget = None, eo_high_budget_threshold = DEFAULT_HIGH_BUDGET_THRESHOLD,
     eo_parent_allows_write = True, eo_parent_allows_network = True\<rparr>"

record WorkflowPlanElevation =
  we_elevated :: bool
  we_goal :: string
  we_child_count :: nat
  we_child_summary :: string
  we_writes :: bool
  we_shell :: bool
  we_network :: bool
  we_secrets :: bool
  we_worktree :: bool
  we_high_budget :: bool
  we_broader_authority :: bool
  we_budget_label :: string
  we_reasons :: "string list"

definition yes_no :: "bool \<Rightarrow> string" where
  "yes_no flag = (if flag then ''yes'' else ''no'')"

definition card_fields :: "WorkflowPlanElevation \<Rightarrow> (string \<times> string) list" where
  "card_fields e =
     [(''Goal'', we_goal e), (''Children'', we_child_summary e), (''Writes'', yes_no (we_writes e)),
      (''Shell'', yes_no (we_shell e)), (''Network'', yes_no (we_network e)), (''Budget'', we_budget_label e)]"

definition is_read_only_envelope :: "WorkflowPlanElevation \<Rightarrow> bool" where
  "is_read_only_envelope e \<longleftrightarrow>
     \<not> we_elevated e \<and> \<not> we_writes e \<and> \<not> we_shell e \<and> \<not> we_network e \<and> \<not> we_secrets e \<and> \<not> we_worktree e \<and>
     \<not> we_high_budget e \<and> \<not> we_broader_authority e"

definition ellipsis :: string where
  "ellipsis = [CHR 0xE2, CHR 0x80, CHR 0xA6]"

definition child_summary :: "string list \<Rightarrow> string" where
  "child_summary ids =
     (if ids = [] then ''0 children''
      else if length ids \<le> 4
      then show_nat (length ids) @ '' child'' @ (if length ids = 1 then '''' else ''ren'') @ '': '' @ join '', '' ids
      else show_nat (length ids) @ '' children: '' @ ids ! 0 @ '', '' @ ids ! 1 @ ellipsis @
        '' (+'' @ show_nat (length ids - 2) @ '')'')"

definition format_budget_label :: "u64 option \<Rightarrow> BudgetSpec \<Rightarrow> bool \<Rightarrow> string" where
  "format_budget_label effective_tokens budget high_budget =
     (let parts =
        (case effective_tokens of Some t \<Rightarrow> [show_nat (unat t) @ '' tokens''] | None \<Rightarrow> []) @
        (case bu_max_steps budget of Some s \<Rightarrow> [''max_steps='' @ show_nat (unat s)] | None \<Rightarrow> []) @
        (case bu_timeout_secs budget of Some t \<Rightarrow> [''timeout='' @ show_nat (unat t) @ ''s''] | None \<Rightarrow> []) @
        (case bu_max_parallel budget of Some p \<Rightarrow> [''max_parallel='' @ show_nat (unat p)] | None \<Rightarrow> [])
      in if parts = [] then ''default''
         else if high_budget then join '', '' parts @ '' (high)''
         else join '', '' parts)"

definition plan_tokens :: "WorkflowSpec \<Rightarrow> ElevationOptions \<Rightarrow> u64 option" where
  "plan_tokens spec options =
     (case option_or (eo_token_budget options) (bu_max_tokens (ws_budget spec)) of
        Some n \<Rightarrow> if n > 0 then Some n else None
      | None \<Rightarrow> None)"

text \<open>The flags of the whole plan: its nodes, its own permissions, and the risk its description declares.\<close>

definition assess_flags :: "WorkflowSpec \<Rightarrow> plan_flags" where
  "assess_flags spec =
     (let f = walk_nodes (ws_nodes spec) False plan_flags_init;
          f = merge_permissions (ws_permissions spec) f
      in case embedded_plan_risk_hint (ws_description spec) of
           Some risk \<Rightarrow> apply_plan_risk_hint (Some risk) f
         | None \<Rightarrow> f)"

definition assess_workflow_elevation :: "WorkflowSpec \<Rightarrow> ElevationOptions \<Rightarrow> WorkflowPlanElevation" where
  "assess_workflow_elevation spec options =
     (let f = assess_flags spec;
          effective_tokens = plan_tokens spec options;
          high_budget = (case effective_tokens of Some n \<Rightarrow> n > eo_high_budget_threshold options | None \<Rightarrow> False);
          broader_authority =
            (\<not> eo_parent_allows_write options \<and> fl_writes f \<or> \<not> eo_parent_allows_network options \<and> fl_network f);
          reasons =
            (if fl_writes f then [''writes''] else []) @ (if fl_shell f then [''shell''] else []) @
            (if fl_network f then [''network''] else []) @ (if fl_secrets f then [''secrets''] else []) @
            (if fl_worktree f then [''worktree''] else []) @ (if high_budget then [''high_budget''] else []) @
            (if broader_authority then [''broader_authority''] else [])
      in \<lparr>we_elevated = (reasons \<noteq> []), we_goal = ws_goal spec, we_child_count = length (fl_child_ids f),
          we_child_summary = child_summary (fl_child_ids f), we_writes = fl_writes f, we_shell = fl_shell f,
          we_network = fl_network f, we_secrets = fl_secrets f, we_worktree = fl_worktree f,
          we_high_budget = high_budget, we_broader_authority = broader_authority,
          we_budget_label = format_budget_label effective_tokens (ws_budget spec) high_budget, we_reasons = reasons\<rparr>)"

end
