(* ===== verification/Workflow_Elevation_Props.thy ===== *)
theory Workflow_Elevation_Props
  imports Workflow_Elevation Workflow_Exec_Props
begin

text \<open>
  What an approval card says about a plan and about its runs. The locale \<open>plan_flag\<close> is the contract of one flag
  of the walk: what a leaf and what a set of permissions add to it. It is interpreted for the five flags,
  so that each is characterised by the leaves and permissions of the whole tree.
\<close>

section \<open>The leaves and permissions of a tree\<close>

text \<open>The leaves with the information whether a parallel branch set encloses them, templates included.\<close>

fun plan_leaves :: "bool \<Rightarrow> WorkflowNode \<Rightarrow> (LeafSpec \<times> bool) list" where
  "plan_leaves par (Leaf l) = [(l, par)]"
| "plan_leaves par (BranchSet s children) = concat (map (plan_leaves (bs_parallel s \<or> par)) children)"
| "plan_leaves par (Sequence i children) = concat (map (plan_leaves par) children)"
| "plan_leaves par (LoopUntil u children) = concat (map (plan_leaves par) children)"
| "plan_leaves par (Cond c then_nodes else_nodes) =
     concat (map (plan_leaves par) then_nodes) @ concat (map (plan_leaves par) else_nodes)"
| "plan_leaves par (Expand e template) = (case template of Some t \<Rightarrow> plan_leaves par t | None \<Rightarrow> [])"
| "plan_leaves par (Reduce r) = []"
| "plan_leaves par (TeacherReview t) = []"

fun branch_permissions :: "WorkflowNode \<Rightarrow> PermissionSpec list" where
  "branch_permissions (BranchSet s children) = bs_permissions s # concat (map branch_permissions children)"
| "branch_permissions (Sequence i children) = concat (map branch_permissions children)"
| "branch_permissions (LoopUntil u children) = concat (map branch_permissions children)"
| "branch_permissions (Cond c then_nodes else_nodes) =
     concat (map branch_permissions then_nodes) @ concat (map branch_permissions else_nodes)"
| "branch_permissions (Expand e template) = (case template of Some t \<Rightarrow> branch_permissions t | None \<Rightarrow> [])"
| "branch_permissions node = []"

definition all_leaves :: "WorkflowNode list \<Rightarrow> bool \<Rightarrow> (LeafSpec \<times> bool) list" where
  "all_leaves nodes par = concat (map (plan_leaves par) nodes)"

definition inner_permissions :: "WorkflowNode list \<Rightarrow> PermissionSpec list" where
  "inner_permissions nodes = concat (map branch_permissions nodes)"

lemma all_leaves_simps [simp]:
  "all_leaves [] par = []"
  "all_leaves (Leaf l # nodes) par = (l, par) # all_leaves nodes par"
  "all_leaves (BranchSet s children # nodes) par = all_leaves children (bs_parallel s \<or> par) @ all_leaves nodes par"
  "all_leaves (Sequence i children # nodes) par = all_leaves children par @ all_leaves nodes par"
  "all_leaves (LoopUntil u children # nodes) par = all_leaves children par @ all_leaves nodes par"
  "all_leaves (Cond c then_nodes else_nodes # nodes) par =
     all_leaves then_nodes par @ all_leaves else_nodes par @ all_leaves nodes par"
  "all_leaves (Expand e (Some t) # nodes) par = all_leaves [t] par @ all_leaves nodes par"
  "all_leaves (Expand e None # nodes) par = all_leaves nodes par"
  "all_leaves (Reduce r # nodes) par = all_leaves nodes par"
  "all_leaves (TeacherReview w # nodes) par = all_leaves nodes par"
  by (simp_all add: all_leaves_def)

lemma inner_permissions_simps [simp]:
  "inner_permissions [] = []"
  "inner_permissions (Leaf l # nodes) = inner_permissions nodes"
  "inner_permissions (BranchSet s children # nodes) = bs_permissions s # inner_permissions children @ inner_permissions nodes"
  "inner_permissions (Sequence i children # nodes) = inner_permissions children @ inner_permissions nodes"
  "inner_permissions (LoopUntil u children # nodes) = inner_permissions children @ inner_permissions nodes"
  "inner_permissions (Cond c then_nodes else_nodes # nodes) =
     inner_permissions then_nodes @ inner_permissions else_nodes @ inner_permissions nodes"
  "inner_permissions (Expand e (Some t) # nodes) = inner_permissions [t] @ inner_permissions nodes"
  "inner_permissions (Expand e None # nodes) = inner_permissions nodes"
  "inner_permissions (Reduce r # nodes) = inner_permissions nodes"
  "inner_permissions (TeacherReview w # nodes) = inner_permissions nodes"
  by (simp_all add: inner_permissions_def)

section \<open>Flags\<close>

locale plan_flag =
  fixes flag :: "plan_flags \<Rightarrow> bool" and by_leaf :: "LeafSpec \<Rightarrow> bool \<Rightarrow> bool" and by_permission :: "PermissionSpec \<Rightarrow> bool"
  assumes inspect: "flag (inspect_leaf l par f) \<longleftrightarrow> flag f \<or> by_leaf l par \<or> by_permission (lf_permissions l)"
    and merge: "flag (merge_permissions p f) \<longleftrightarrow> flag f \<or> by_permission p"
begin

lemma walk:
  "flag (walk_nodes nodes par f) \<longleftrightarrow>
     flag f \<or> list_ex (\<lambda>x. by_leaf (fst x) (snd x) \<or> by_permission (lf_permissions (fst x))) (all_leaves nodes par) \<or>
     list_ex by_permission (inner_permissions nodes)"
proof (induction nodes par f rule: walk_nodes.induct)
  case (2 node nodes par f)
  show ?case
  proof (cases node)
    case (Expand e t)
    with 2 show ?thesis by (cases t) (simp_all add: disj_ac)
  qed (use 2 in \<open>simp_all add: inspect merge disj_ac\<close>)
qed simp

end

definition grants :: "(PermissionSpec \<Rightarrow> bool) \<Rightarrow> (string \<Rightarrow> bool) \<Rightarrow> PermissionSpec \<Rightarrow> bool" where
  "grants ok tool p \<longleftrightarrow> ok p \<or> (\<exists>t \<in> set (pe_allowed_tools p). tool (trim t))"

lemma fold_merge_tool:
  "fl_writes (fold merge_tool tools f) \<longleftrightarrow> fl_writes f \<or> (\<exists>t \<in> set tools. is_write_tool (trim t))"
  "fl_shell (fold merge_tool tools f) \<longleftrightarrow> fl_shell f \<or> (\<exists>t \<in> set tools. is_shell_tool (trim t))"
  "fl_network (fold merge_tool tools f) \<longleftrightarrow> fl_network f \<or> (\<exists>t \<in> set tools. is_network_tool (trim t))"
  "fl_secrets (fold merge_tool tools f) \<longleftrightarrow> fl_secrets f \<or> (\<exists>t \<in> set tools. is_secret_tool (trim t))"
  "fl_worktree (fold merge_tool tools f) \<longleftrightarrow> fl_worktree f"
  "fl_child_ids (fold merge_tool tools f) = fl_child_ids f"
  by (induction tools arbitrary: f) (auto simp: merge_tool_def Let_def)

lemmas flag_simps = fold_merge_tool grants_def merge_permissions_def inspect_leaf_def Let_def

definition runs_shell :: "LeafSpec \<Rightarrow> bool" where
  "runs_shell l \<longleftrightarrow> lf_mode l = ReadWrite \<and> pe_allowed_tools (lf_permissions l) = [] \<and>
     (lf_agent_type l = Implementer \<or> lf_agent_type l = General)"

definition isolated :: "LeafSpec \<Rightarrow> bool \<Rightarrow> bool" where
  "isolated l par \<longleftrightarrow> leaf_wants_worktree l par \<or> lf_isolation l = Worktree"

interpretation writes: plan_flag fl_writes "\<lambda>l _. leaf_is_write_capable l" "grants pe_allow_write is_write_tool"
  by unfold_locales (auto simp: flag_simps)

interpretation shell: plan_flag fl_shell "\<lambda>l _. runs_shell l" "grants (\<lambda>_. False) is_shell_tool"
  by unfold_locales (auto simp: flag_simps runs_shell_def)

interpretation network: plan_flag fl_network "\<lambda>_ _. False" "grants pe_allow_network is_network_tool"
  by unfold_locales (auto simp: flag_simps)

interpretation secrets: plan_flag fl_secrets "\<lambda>_ _. False" "grants (\<lambda>_. False) is_secret_tool"
  by unfold_locales (auto simp: flag_simps)

interpretation worktree: plan_flag fl_worktree isolated "\<lambda>_. False"
  by unfold_locales (auto simp: flag_simps isolated_def)

lemma walk_child_ids: "fl_child_ids (walk_nodes nodes par f) = fl_child_ids f @ map (lf_id \<circ> fst) (all_leaves nodes par)"
proof (induction nodes par f rule: walk_nodes.induct)
  case (2 node nodes par f)
  show ?case
  proof (cases node)
    case (Expand e t)
    with 2 show ?thesis by (cases t) simp_all
  qed (use 2 in \<open>simp_all add: flag_simps\<close>)
qed simp

section \<open>The card\<close>

definition declared :: "PlanRiskHint set \<Rightarrow> WorkflowSpec \<Rightarrow> bool" where
  "declared hints spec \<longleftrightarrow> (\<exists>risk. embedded_plan_risk_hint (ws_description spec) = Some risk \<and> assess_plan_risk_string (Some risk) \<in> hints)"

definition plan_permissions :: "WorkflowSpec \<Rightarrow> PermissionSpec set" where
  "plan_permissions spec = insert (ws_permissions spec)
     (set (inner_permissions (ws_nodes spec)) \<union> (\<lambda>x. lf_permissions (fst x)) ` set (all_leaves (ws_nodes spec) False))"

lemma assess_flags_exact:
  "fl_writes (assess_flags spec) \<longleftrightarrow> (\<exists>(l, _) \<in> set (all_leaves (ws_nodes spec) False). leaf_is_write_capable l) \<or>
     (\<exists>p \<in> plan_permissions spec. grants pe_allow_write is_write_tool p) \<or> declared {HintWrites, HintShell, HintElevated} spec"
  "fl_shell (assess_flags spec) \<longleftrightarrow> (\<exists>(l, _) \<in> set (all_leaves (ws_nodes spec) False). runs_shell l) \<or>
     (\<exists>p \<in> plan_permissions spec. grants (\<lambda>_. False) is_shell_tool p) \<or> declared {HintShell, HintElevated} spec"
  "fl_network (assess_flags spec) \<longleftrightarrow>
     (\<exists>p \<in> plan_permissions spec. grants pe_allow_network is_network_tool p) \<or> declared {HintNetwork, HintElevated} spec"
  "fl_secrets (assess_flags spec) \<longleftrightarrow> (\<exists>p \<in> plan_permissions spec. grants (\<lambda>_. False) is_secret_tool p)"
  "fl_worktree (assess_flags spec) \<longleftrightarrow> (\<exists>(l, par) \<in> set (all_leaves (ws_nodes spec) False). isolated l par)"
  "fl_child_ids (assess_flags spec) = map (lf_id \<circ> fst) (all_leaves (ws_nodes spec) False)"

proof -
  let ?f = "merge_permissions (ws_permissions spec) (walk_nodes (ws_nodes spec) False plan_flags_init)"
  have init: "\<not> fl_writes plan_flags_init" "\<not> fl_shell plan_flags_init" "\<not> fl_network plan_flags_init"
    "\<not> fl_secrets plan_flags_init" "\<not> fl_worktree plan_flags_init" "fl_child_ids plan_flags_init = []"
    by (simp_all add: plan_flags_init_def)
  have flags: "assess_flags spec = (case embedded_plan_risk_hint (ws_description spec) of
      Some risk \<Rightarrow> apply_plan_risk_hint (Some risk) ?f | None \<Rightarrow> ?f)"
    by (simp add: assess_flags_def Let_def)
  have w: "fl_writes (assess_flags spec) \<longleftrightarrow> fl_writes ?f \<or> declared {HintWrites, HintShell, HintElevated} spec"
    by (auto simp: flags declared_def apply_plan_risk_hint_def split: option.split PlanRiskHint.split)
  have s: "fl_shell (assess_flags spec) \<longleftrightarrow> fl_shell ?f \<or> declared {HintShell, HintElevated} spec"
    by (auto simp: flags declared_def apply_plan_risk_hint_def split: option.split PlanRiskHint.split)
  have n: "fl_network (assess_flags spec) \<longleftrightarrow> fl_network ?f \<or> declared {HintNetwork, HintElevated} spec"
    by (auto simp: flags declared_def apply_plan_risk_hint_def split: option.split PlanRiskHint.split)
  have rest: "fl_secrets (assess_flags spec) \<longleftrightarrow> fl_secrets ?f" "fl_worktree (assess_flags spec) \<longleftrightarrow> fl_worktree ?f"
    "fl_child_ids (assess_flags spec) = fl_child_ids ?f"
    by (auto simp: flags apply_plan_risk_hint_def split: option.split PlanRiskHint.split)
  note perms = plan_permissions_def bex_simps(3) bex_Un image_iff
  show "fl_writes (assess_flags spec) \<longleftrightarrow> (\<exists>(l, _) \<in> set (all_leaves (ws_nodes spec) False). leaf_is_write_capable l) \<or>
     (\<exists>p \<in> plan_permissions spec. grants pe_allow_write is_write_tool p) \<or> declared {HintWrites, HintShell, HintElevated} spec"
    unfolding w writes.merge writes.walk list_ex_iff perms using init by fastforce
  show "fl_shell (assess_flags spec) \<longleftrightarrow> (\<exists>(l, _) \<in> set (all_leaves (ws_nodes spec) False). runs_shell l) \<or>
     (\<exists>p \<in> plan_permissions spec. grants (\<lambda>_. False) is_shell_tool p) \<or> declared {HintShell, HintElevated} spec"
    unfolding s shell.merge shell.walk list_ex_iff perms using init by fastforce
  show "fl_network (assess_flags spec) \<longleftrightarrow>
     (\<exists>p \<in> plan_permissions spec. grants pe_allow_network is_network_tool p) \<or> declared {HintNetwork, HintElevated} spec"
    unfolding n network.merge network.walk list_ex_iff perms using init by fastforce
  show "fl_secrets (assess_flags spec) \<longleftrightarrow> (\<exists>p \<in> plan_permissions spec. grants (\<lambda>_. False) is_secret_tool p)"
    unfolding rest secrets.merge secrets.walk list_ex_iff perms using init by fastforce
  show "fl_worktree (assess_flags spec) \<longleftrightarrow> (\<exists>(l, par) \<in> set (all_leaves (ws_nodes spec) False). isolated l par)"
    unfolding rest worktree.merge worktree.walk list_ex_iff using init by fastforce
  show "fl_child_ids (assess_flags spec) = map (lf_id \<circ> fst) (all_leaves (ws_nodes spec) False)"
    unfolding rest using init by (simp add: merge_permissions_def Let_def fold_merge_tool walk_child_ids)
qed

lemma assess_fields:
  "we_writes (assess_workflow_elevation spec options) = fl_writes (assess_flags spec)"
  "we_shell (assess_workflow_elevation spec options) = fl_shell (assess_flags spec)"
  "we_network (assess_workflow_elevation spec options) = fl_network (assess_flags spec)"
  "we_secrets (assess_workflow_elevation spec options) = fl_secrets (assess_flags spec)"
  "we_worktree (assess_workflow_elevation spec options) = fl_worktree (assess_flags spec)"
  "we_child_count (assess_workflow_elevation spec options) = length (fl_child_ids (assess_flags spec))"
  by (simp_all add: assess_workflow_elevation_def Let_def)

lemma high_budget_iff:
  "we_high_budget (assess_workflow_elevation spec options) \<longleftrightarrow>
     (\<exists>n. option_or (eo_token_budget options) (bu_max_tokens (ws_budget spec)) = Some n \<and> n > eo_high_budget_threshold options)"
proof -
  have "n > 0" if "n > eo_high_budget_threshold options" for n
    using that by (metis word_gt_0 word_not_simps(1))
  then show ?thesis by (auto simp: assess_workflow_elevation_def plan_tokens_def Let_def split: option.split)
qed

lemma elevated_iff:
  "we_elevated (assess_workflow_elevation spec options) \<longleftrightarrow>
     fl_writes (assess_flags spec) \<or> fl_shell (assess_flags spec) \<or> fl_network (assess_flags spec) \<or>
     fl_secrets (assess_flags spec) \<or> fl_worktree (assess_flags spec) \<or> we_high_budget (assess_workflow_elevation spec options)"
  by (auto simp: assess_workflow_elevation_def Let_def)

text \<open>
  A plan needs approval exactly if one of its leaves can write, may run a shell or wants its own worktree, a
  set of permissions of the plan, of a branch or of a leaf grants writing, shell, network or a tool for
  secrets, its description declares such a risk, or its token budget is above the threshold; a budget that is
  not a positive number counts as none. The card counts every leaf, those of templates included.
\<close>

theorem elevation_exact:
  "(we_elevated (assess_workflow_elevation spec options) \<longleftrightarrow>
      (\<exists>(l, par) \<in> set (all_leaves (ws_nodes spec) False). leaf_is_write_capable l \<or> runs_shell l \<or> isolated l par) \<or>
      (\<exists>p \<in> plan_permissions spec. grants pe_allow_write is_write_tool p \<or> grants pe_allow_network is_network_tool p \<or>
         grants (\<lambda>_. False) is_shell_tool p \<or> grants (\<lambda>_. False) is_secret_tool p) \<or>
      declared {HintWrites, HintShell, HintNetwork, HintElevated} spec \<or>
      (\<exists>n. option_or (eo_token_budget options) (bu_max_tokens (ws_budget spec)) = Some n \<and> n > eo_high_budget_threshold options)) \<and>
   (is_read_only_envelope (assess_workflow_elevation spec options) \<longleftrightarrow> \<not> we_elevated (assess_workflow_elevation spec options)) \<and>
   we_child_count (assess_workflow_elevation spec options) = length (all_leaves (ws_nodes spec) False)"
proof (intro conjI)
  have hints: "declared {HintWrites, HintShell, HintNetwork, HintElevated} spec \<longleftrightarrow>
      declared {HintWrites, HintShell, HintElevated} spec \<or> declared {HintShell, HintElevated} spec \<or>
      declared {HintNetwork, HintElevated} spec"
    by (auto simp: declared_def)
  show "we_elevated (assess_workflow_elevation spec options) \<longleftrightarrow>
      (\<exists>(l, par) \<in> set (all_leaves (ws_nodes spec) False). leaf_is_write_capable l \<or> runs_shell l \<or> isolated l par) \<or>
      (\<exists>p \<in> plan_permissions spec. grants pe_allow_write is_write_tool p \<or> grants pe_allow_network is_network_tool p \<or>
         grants (\<lambda>_. False) is_shell_tool p \<or> grants (\<lambda>_. False) is_secret_tool p) \<or>
      declared {HintWrites, HintShell, HintNetwork, HintElevated} spec \<or>
      (\<exists>n. option_or (eo_token_budget options) (bu_max_tokens (ws_budget spec)) = Some n \<and> n > eo_high_budget_threshold options)"
    unfolding elevated_iff assess_flags_exact high_budget_iff hints by fast
  show "is_read_only_envelope (assess_workflow_elevation spec options) \<longleftrightarrow> \<not> we_elevated (assess_workflow_elevation spec options)"
    by (auto simp: is_read_only_envelope_def assess_workflow_elevation_def Let_def)
qed (simp add: assess_fields assess_flags_exact)

section \<open>The card and the run\<close>

fun listed_ids :: "mock_work \<Rightarrow> string set" where
  "listed_ids (Nodes nodes) = (lf_id \<circ> fst) ` set (all_leaves nodes False)"
| "listed_ids (LoopFrom u children n) = (lf_id \<circ> fst) ` set (all_leaves children False)"

definition run_ids :: "mock_state \<Rightarrow> string set" where
  "run_ids st = le_leaf_id ` set (ex_leaf_results (snd st))"

lemma concat_fst:
  "(\<And>c. c \<in> set cs \<Longrightarrow> fst ` set (f c) = fst ` set (g c)) \<Longrightarrow> fst ` set (concat (map f cs)) = fst ` set (concat (map g cs))"
  by (simp add: image_UN)

lemma plan_leaves_fst: "fst ` set (plan_leaves par node) = fst ` set (plan_leaves par' node)"
proof (induction node arbitrary: par par')
  case (Expand e t)
  show ?case
  proof (cases t)
    case (Some n)
    then show ?thesis using Expand.IH [of n par par'] by simp
  qed simp
next
  case (Cond c ts es)
  show ?case unfolding plan_leaves.simps set_append image_Un
    by (intro arg_cong2 [where f = union] concat_fst Cond.IH)
next
  case (BranchSet b cs)
  show ?case unfolding plan_leaves.simps by (rule concat_fst) (rule BranchSet.IH)
next
  case (Sequence i cs)
  show ?case unfolding plan_leaves.simps by (rule concat_fst) (rule Sequence.IH)
next
  case (LoopUntil u cs)
  show ?case unfolding plan_leaves.simps by (rule concat_fst) (rule LoopUntil.IH)
qed simp_all

lemma all_leaves_fst: "fst ` set (all_leaves nodes par) = fst ` set (all_leaves nodes False)"
  unfolding all_leaves_def by (rule concat_fst) (rule plan_leaves_fst)

lemma all_leaves_ids: "(lf_id \<circ> fst) ` set (all_leaves nodes par) = (lf_id \<circ> fst) ` set (all_leaves nodes False)"
  by (simp only: image_comp [symmetric] all_leaves_fst [of nodes par])

lemma execute_leaf_ids: "run_ids (execute_leaf l st) = insert (lf_id l) (run_ids st)"
  by (auto simp: run_ids_def execute_leaf_def push_leaf_def split: prod.split)

lemma run_ids_simps [simp]:
  "run_ids (finish_branch s children n st) = run_ids st"
  "run_ids (finish_control i k status cs sm st) = run_ids st"
  "run_ids (finish_loop u children c passed st) = run_ids st"
  "run_ids (finish_selected i k nodes sm st) = run_ids st"
  "run_ids (m, snd st) = run_ids st"
  by (simp_all add: run_ids_def)

text \<open>Without generated nodes, a run only executes leaves that the walk has listed.\<close>

lemma mock_big_listed:
  "mock_big work st st' \<Longrightarrow> mx_generated_nodes (fst st) = [] \<Longrightarrow> run_ids st' \<subseteq> run_ids st \<union> listed_ids work"
proof (induction rule: mock_big.induct)
  case (branch st children st1 rest s st')
  have "mx_generated_nodes (fst st1) = []" using mock_big_generated [OF branch.hyps(2)] branch.prems by simp
  with branch.IH branch.prems show ?case using all_leaves_ids [of children "bs_parallel s \<or> False"]
    by (simp add: image_Un) blast
next
  case (leaf st rest l st')
  then show ?case using execute_leaf_results [of l st] by (auto simp: execute_leaf_ids)
next
  case (seq st children st1 rest i st')
  then show ?case using mock_big_generated [OF seq.hyps(2)] by auto
next
  case (loop st u children st1 rest st')
  then show ?case using mock_big_generated [OF loop.hyps(2)] by auto
next
  case (cond st c m passed chosen then_nodes else_nodes st1 rest st')
  have m: "mx_generated_nodes m = []" using next_predicate_simps(1) [OF cond.hyps(2)] cond.prems by simp
  moreover have "mx_generated_nodes (fst st1) = []" using mock_big_generated [OF cond.hyps(4)] m by simp
  ultimately show ?case using cond.IH cond.hyps(3) by (auto split: if_splits)
next
  case (expand st e m generated st1 rest st' template)
  have gen: "generated = [] \<and> mx_generated_nodes m = []"
    using expand.hyps(2) expand.prems take_generated_less [OF expand.hyps(2)] take_generated_simps(1) [OF expand.hyps(2)] by auto
  moreover have "mx_generated_nodes (fst st1) = []" using mock_big_generated [OF expand.hyps(4)] gen by simp
  ultimately show ?case using expand.IH by (cases template) auto
next
  case (loop_again iterations u st children st1 m st')
  have "mx_generated_nodes m = []"
    using mock_big_generated [OF loop_again.hyps(3)] next_predicate_simps(1) [OF loop_again.hyps(5)] loop_again.prems by simp
  with loop_again.IH loop_again.prems show ?case by auto
qed (auto simp: run_ids_def)

text \<open>A leaf that stays inside the envelope of a read-only session.\<close>

definition read_only_leaf :: "LeafSpec \<Rightarrow> bool" where
  "read_only_leaf l \<longleftrightarrow> lf_mode l = ReadOnly \<and> \<not> pe_allow_write (lf_permissions l) \<and> \<not> pe_allow_network (lf_permissions l) \<and>
     lf_isolation l \<noteq> Worktree \<and>
     (\<forall>t \<in> set (pe_allowed_tools (lf_permissions l)). \<not> is_write_tool t \<and> \<not> is_shell_tool t \<and> \<not> is_network_tool (trim t) \<and>
        \<not> is_secret_tool (trim t))"

text \<open>
  C25. When a plan needs no approval, every leaf that a run of it executes is a leaf of the plan that is read-only
  in its mode, its permissions and its tools and asks for no worktree; only nodes generated for an
  expansion while it runs are outside the assessment.
\<close>

theorem unapproved_run_is_read_only:
  assumes "\<not> we_elevated (assess_workflow_elevation spec options)"
    and "mock_run m spec = Some (Inr (m', x))" and "mx_generated_nodes m = []"
  shows "\<forall>r \<in> set (ex_leaf_results x). \<exists>l par. (l, par) \<in> set (all_leaves (ws_nodes spec) False) \<and>
    lf_id l = le_leaf_id r \<and> read_only_leaf l"
proof
  fix r
  assume "r \<in> set (ex_leaf_results x)"
  then have "le_leaf_id r \<in> run_ids (m', x)" by (simp add: run_ids_def)
  moreover have "mock_big (Nodes (ws_nodes spec)) (m, WorkflowExecution_default) (m', x)" using mock_run_big [OF assms(2)] by blast
  from mock_big_listed [OF this] assms(3)
  have "run_ids (m', x) \<subseteq> run_ids (m, WorkflowExecution_default) \<union> listed_ids (Nodes (ws_nodes spec))" by simp
  moreover have "run_ids (m, WorkflowExecution_default) = {}" by (simp add: run_ids_def WorkflowExecution_default_def)
  ultimately obtain l par where l: "(l, par) \<in> set (all_leaves (ws_nodes spec) False)" "lf_id l = le_leaf_id r" by auto
  note flags = assms(1) [unfolded elevated_iff assess_flags_exact]
  have "\<not> leaf_is_write_capable l \<and> \<not> isolated l par" using flags l(1) by fast
  moreover have "lf_permissions l \<in> plan_permissions spec" using l(1) by (force simp: plan_permissions_def)
  then have "\<not> grants pe_allow_write is_write_tool (lf_permissions l) \<and> \<not> grants pe_allow_network is_network_tool (lf_permissions l) \<and>
      \<not> grants (\<lambda>_. False) is_shell_tool (lf_permissions l) \<and> \<not> grants (\<lambda>_. False) is_secret_tool (lf_permissions l)"
    using flags by blast
  ultimately have "read_only_leaf l"
    by (cases "lf_mode l")
      (auto simp: read_only_leaf_def leaf_is_write_capable_def isolated_def grants_def is_write_tool_def is_shell_tool_def trim_idem)
  with l show "\<exists>l par. (l, par) \<in> set (all_leaves (ws_nodes spec) False) \<and> lf_id l = le_leaf_id r \<and> read_only_leaf l" by blast
qed

theorem unapproved_run_is_read_only_witness:
  "\<exists>m' x. mock_run looping_executor (plain_spec looping_nodes) = Some (Inr (m', x)) \<and> length (ex_leaf_results x) = 2 \<and>
     (\<exists>l par. (l, par) \<in> set (all_leaves looping_nodes False) \<and> lf_id l = ''a'' \<and> read_only_leaf l)"
proof -
  obtain m' x where run: "mock_run looping_executor (plain_spec looping_nodes) = Some (Inr (m', x))"
    and len: "length (ex_leaf_results x) = 2"
    using run_summary_Some [OF looping_run] by blast
  have "\<not> we_elevated (assess_workflow_elevation (plain_spec looping_nodes) ElevationOptions_default)" by code_simp
  moreover have "mx_generated_nodes looping_executor = []" by (simp add: looping_executor_def MockWorkflowExecutor_new_def)
  moreover obtain r where "r \<in> set (ex_leaf_results x)" using len by (cases "ex_leaf_results x") auto
  ultimately obtain l par where "(l, par) \<in> set (all_leaves looping_nodes False)" "read_only_leaf l"
    using unapproved_run_is_read_only [OF _ run] by (fastforce simp: plain_spec_def)
  moreover have "all_leaves looping_nodes False = [(plain_leaf ''a'', False)]" by (simp add: looping_nodes_def)
  ultimately show ?thesis using run len by (auto simp: plain_leaf_def)
qed

end
