(* ===== verification/Rust_Chars.thy ===== *)
theory Rust_Chars
  imports Rust_Str
begin

text \<open>
  The characters of a \<open>str\<close>: a byte that is no continuation byte starts a scalar. \<open>chars()\<close> is the list of the
  encodings of the scalars.
\<close>

definition is_continuation :: "char \<Rightarrow> bool" where
  "is_continuation c \<longleftrightarrow> 128 \<le> byte c \<and> byte c < 192"

function str_chars :: "string \<Rightarrow> string list" where
  "str_chars [] = []"
| "str_chars (c # s) = (c # takeWhile is_continuation s) # str_chars (dropWhile is_continuation s)"
  by pat_completeness auto

termination
  by (relation "measure length") (auto simp: less_Suc_eq_le length_dropWhile_le)

text \<open>\<open>trim_end_matches\<close> with an array of characters.\<close>

definition trim_end_chars :: "char list \<Rightarrow> string \<Rightarrow> string" where
  "trim_end_chars cs s = rev (trim_start_matches cs (rev s))"

text \<open>A string starts a scalar if it is empty or its first byte is no continuation byte.\<close>

definition starts_scalar :: "string \<Rightarrow> bool" where
  "starts_scalar s \<longleftrightarrow> s = [] \<or> \<not> is_continuation (hd s)"

lemma takeWhile_scalar:
  "\<forall>c \<in> set a. is_continuation c \<Longrightarrow> starts_scalar b \<Longrightarrow>
     takeWhile is_continuation (a @ b) = a \<and> dropWhile is_continuation (a @ b) = b"
  by (cases b) (auto simp: starts_scalar_def)

lemma starts_scalar_take: "starts_scalar s \<Longrightarrow> starts_scalar r \<Longrightarrow> starts_scalar (concat (take n (str_chars s)) @ r)"
  by (cases s; cases n) (auto simp: starts_scalar_def)

lemma str_chars_take:
  "starts_scalar r \<Longrightarrow> str_chars (concat (take n (str_chars s)) @ r) = take n (str_chars s) @ str_chars r"
proof (induction s arbitrary: n rule: str_chars.induct)
  case (2 c s)
  show ?case
  proof (cases n)
    case (Suc k)
    let ?rest = "concat (take k (str_chars (dropWhile is_continuation s))) @ r"
    have "starts_scalar (dropWhile is_continuation s)"
      using hd_dropWhile [of is_continuation s] by (auto simp: starts_scalar_def)
    then have "starts_scalar ?rest" using "2.prems" by (rule starts_scalar_take)
    moreover have "\<forall>c \<in> set (takeWhile is_continuation s). is_continuation c" by (auto dest: set_takeWhileD)
    ultimately have "takeWhile is_continuation (takeWhile is_continuation s @ ?rest) = takeWhile is_continuation s \<and>
      dropWhile is_continuation (takeWhile is_continuation s @ ?rest) = ?rest"
      by (intro takeWhile_scalar)
    then show ?thesis using "2.IH" [OF "2.prems", of k] by (simp add: Suc)
  qed simp
qed simp

end
