(* ===== verification/Workflow_Select.thy ===== *)
theory Workflow_Select
  imports Workflow_Nodes Rust_Chars "HOL-Library.Product_Lexorder"
begin

text \<open>
  What happens to the results of a workflow (\<open>workflow/src/lib.rs\<close>): the candidates a teacher review proposes
  from an execution, the promotion gate that judges a candidate by its last student replay, the tournament
  that picks one branch and the Pareto frontier that keeps several. Scores are \<open>i32\<close> and \<open>u32\<close>, costs \<open>u64\<close> and
  their differences \<open>i64\<close>, all kept as words; a signed word is read with \<open>sint\<close>.
\<close>

section \<open>Signed saturation and formatting\<close>

text \<open>\<open>i32::saturating_sub\<close>.\<close>

definition saturating_sub_i32 :: "32 word \<Rightarrow> 32 word \<Rightarrow> 32 word" where
  "saturating_sub_i32 a b = word_of_int (max (- (2 ^ 31)) (min (2 ^ 31 - 1) (sint a - sint b)))"

text \<open>\<open>i64::try_from(n).unwrap_or(i64::MAX)\<close> for an \<open>n\<close> of type \<open>u64\<close>.\<close>

definition i64_or_max :: "u64 \<Rightarrow> 64 word" where
  "i64_or_max n = (if n < 2 ^ 63 then n else 2 ^ 63 - 1)"

definition signed_u64_delta :: "u64 \<Rightarrow> u64 \<Rightarrow> 64 word" where
  "signed_u64_delta candidate baseline =
     (if candidate \<ge> baseline then i64_or_max (candidate - baseline) else - i64_or_max (baseline - candidate))"

definition show_int :: "int \<Rightarrow> string" where
  "show_int i = (if i < 0 then CHR ''-'' # show_nat (nat (- i)) else show_nat (nat i))"

definition MAX_EVIDENCE_CHARS :: nat where
  "MAX_EVIDENCE_CHARS = 240"

definition truncate_evidence :: "string \<Rightarrow> string" where
  "truncate_evidence value =
     (if length (str_chars value) \<le> MAX_EVIDENCE_CHARS then value
      else concat (take (MAX_EVIDENCE_CHARS - 1) (str_chars value)) @ ''...'')"

fun debug_status :: "WorkflowRunStatus \<Rightarrow> string" where
  "debug_status WorkflowRunStatus.Pending = ''Pending''"
| "debug_status Running = ''Running''"
| "debug_status Succeeded = ''Succeeded''"
| "debug_status Failed = ''Failed''"
| "debug_status Cancelled = ''Cancelled''"
| "debug_status BudgetExceeded = ''BudgetExceeded''"
| "debug_status ReplayDiverged = ''ReplayDiverged''"

fun debug_kind :: "ControlNodeKind \<Rightarrow> string" where
  "debug_kind BranchSetKind = ''BranchSet''"
| "debug_kind LeafKind = ''Leaf''"
| "debug_kind SequenceKind = ''Sequence''"
| "debug_kind ReduceKind = ''Reduce''"
| "debug_kind TeacherReviewKind = ''TeacherReview''"
| "debug_kind LoopUntilKind = ''LoopUntil''"
| "debug_kind CondKind = ''Cond''"
| "debug_kind ExpandKind = ''Expand''"

section \<open>Candidates\<close>

datatype TeacherCandidateKind =
  Note | WorkflowRecipe | SkillPatch | RegressionTest | CachePolicyPatch | BranchHeuristic | AuthoringPromptPatch

datatype TeacherCandidateStatus = Proposed | Accepted | Rejected | Promoted

record StudentReplayMetrics =
  sm_score :: "32 word"
  sm_cost_microusd :: u64

record StudentReplayTestResult =
  sr_name :: string
  sr_passed :: bool

record StudentReplayResult =
  sp_trace_id :: string
  sp_candidate_id :: string
  sp_baseline :: StudentReplayMetrics
  sp_candidate :: StudentReplayMetrics
  sp_required_tests :: "StudentReplayTestResult list"
  sp_policy_violations :: "string list"
  sp_stale :: bool
  sp_notes :: "string option"

record TeacherCandidate =
  tc_candidate_id :: string
  tc_kind :: TeacherCandidateKind
  tc_status :: TeacherCandidateStatus
  tc_source_node_id :: string
  tc_source_branch_id :: "string option"
  tc_summary :: string
  tc_evidence :: "string list"
  tc_replay_results :: "StudentReplayResult list"

record PromotionGateDecision =
  pd_candidate_id :: string
  pd_status :: TeacherCandidateStatus
  pd_score_delta :: "32 word"
  pd_cost_delta_microusd :: "64 word"
  pd_reasons :: "string list"

definition score_delta :: "StudentReplayResult \<Rightarrow> 32 word" where
  "score_delta r = saturating_sub_i32 (sm_score (sp_candidate r)) (sm_score (sp_baseline r))"

definition cost_delta_microusd :: "StudentReplayResult \<Rightarrow> 64 word" where
  "cost_delta_microusd r = signed_u64_delta (sm_cost_microusd (sp_candidate r)) (sm_cost_microusd (sp_baseline r))"

definition PromotionGate_default :: PromotionGate where
  "PromotionGate_default = \<lparr>pg_min_score_delta = 1, pg_max_cost_delta_microusd = None, pg_require_all_tests_pass = True,
     pg_reject_policy_violations = True, pg_reject_stale_replay = True\<rparr>"

definition evaluate_replay :: "PromotionGate \<Rightarrow> string \<Rightarrow> StudentReplayResult \<Rightarrow> PromotionGateDecision" where
  "evaluate_replay gate candidate_id replay =
     (let sd = score_delta replay;
          cd = cost_delta_microusd replay;
          reasons =
            (if sint sd < sint (pg_min_score_delta gate)
             then [''score delta '' @ show_int (sint sd) @ '' is below required '' @ show_int (sint (pg_min_score_delta gate))]
             else []) @
            (case pg_max_cost_delta_microusd gate of
               Some most \<Rightarrow>
                 if sint cd > sint most
                 then [''cost delta '' @ show_int (sint cd) @ '' exceeds allowed '' @ show_int (sint most)] else []
             | None \<Rightarrow> []) @
            (if pg_require_all_tests_pass gate
             then map (\<lambda>t. ''required test `'' @ sr_name t @ ''` failed'') (filter (\<lambda>t. \<not> sr_passed t) (sp_required_tests replay))
             else []) @
            (if pg_reject_policy_violations gate
             then map (\<lambda>v. ''policy violation: '' @ v) (sp_policy_violations replay) else []) @
            (if pg_reject_stale_replay gate \<and> sp_stale replay then [''student replay result is stale''] else [])
      in \<lparr>pd_candidate_id = candidate_id, pd_status = (if reasons = [] then Promoted else Rejected),
          pd_score_delta = sd, pd_cost_delta_microusd = cd, pd_reasons = reasons\<rparr>)"

definition evaluate_candidate :: "PromotionGate \<Rightarrow> TeacherCandidate \<Rightarrow> PromotionGateDecision" where
  "evaluate_candidate gate candidate =
     (if tc_replay_results candidate = []
      then \<lparr>pd_candidate_id = tc_candidate_id candidate, pd_status = Rejected, pd_score_delta = 0,
        pd_cost_delta_microusd = 0, pd_reasons = [''no student replay result recorded'']\<rparr>
      else evaluate_replay gate (tc_candidate_id candidate) (last (tc_replay_results candidate)))"

definition promoted :: "PromotionGateDecision \<Rightarrow> bool" where
  "promoted d \<longleftrightarrow> pd_status d = Promoted"

section \<open>The teacher review\<close>

definition has_memo_hits :: "WorkflowMemoUsage \<Rightarrow> bool" where
  "has_memo_hits u \<longleftrightarrow> mu_armh_hits u > 0 \<or> mu_provider_prompt_cache_hits u > 0"

definition or_unknown :: "u64 option \<Rightarrow> string" where
  "or_unknown v = (case v of Some n \<Rightarrow> show_nat (unat n) | None \<Rightarrow> ''unknown'')"

definition reported_positive :: "u64 option \<Rightarrow> bool" where
  "reported_positive v = (case v of Some n \<Rightarrow> n > 0 | None \<Rightarrow> False)"

definition teacher_candidate_from_branch :: "TeacherReviewSpec \<Rightarrow> BranchResult \<Rightarrow> TeacherCandidate" where
  "teacher_candidate_from_branch review b =
     \<lparr>tc_candidate_id = te_id review @ '':'' @ br_branch_id b,
      tc_kind = (if has_memo_hits (br_memo_usage b) then CachePolicyPatch
        else if br_status b = Succeeded then WorkflowRecipe else BranchHeuristic),
      tc_status = Proposed, tc_source_node_id = br_task_id b, tc_source_branch_id = Some (br_branch_id b),
      tc_summary = ''TeacherReview candidate from branch `'' @ br_branch_id b @ ''` with '' @ debug_status (br_status b) @ '' status.'',
      tc_evidence =
        [''status='' @ debug_status (br_status b)] @
        (if reported_positive (total_tokens (br_usage b)) \<or> reported_positive (us_cost_microusd (br_usage b))
         then [''tokens='' @ or_unknown (total_tokens (br_usage b)) @ '', cost_microusd='' @ or_unknown (us_cost_microusd (br_usage b))]
         else []) @
        (if has_memo_hits (br_memo_usage b)
         then [''armh_hits='' @ show_nat (unat (mu_armh_hits (br_memo_usage b))) @ '', provider_prompt_cache_hits='' @
           show_nat (unat (mu_provider_prompt_cache_hits (br_memo_usage b)))]
         else []) @
        (case br_notes b of Some notes \<Rightarrow> [''notes='' @ notes] | None \<Rightarrow> []),
      tc_replay_results = []\<rparr>"

definition teacher_candidate_from_leaf :: "TeacherReviewSpec \<Rightarrow> LeafResult \<Rightarrow> TeacherCandidate" where
  "teacher_candidate_from_leaf review l =
     \<lparr>tc_candidate_id = te_id review @ '':'' @ le_leaf_id l,
      tc_kind = (if le_status l = Failed then RegressionTest
        else if has_memo_hits (le_memo_usage l) then CachePolicyPatch else Note),
      tc_status = Proposed, tc_source_node_id = le_leaf_id l, tc_source_branch_id = None,
      tc_summary = ''TeacherReview candidate from leaf `'' @ le_leaf_id l @ ''` with '' @ debug_status (le_status l) @ '' status.'',
      tc_evidence = [''status='' @ debug_status (le_status l)] @
        (case le_output l of Some out \<Rightarrow> [''output='' @ truncate_evidence out] | None \<Rightarrow> []),
      tc_replay_results = []\<rparr>"

definition teacher_candidate_from_control :: "TeacherReviewSpec \<Rightarrow> ControlNodeResult \<Rightarrow> TeacherCandidate" where
  "teacher_candidate_from_control review c =
     \<lparr>tc_candidate_id = te_id review @ '':'' @ cr_node_id c, tc_kind = AuthoringPromptPatch,
      tc_status = Proposed, tc_source_node_id = cr_node_id c, tc_source_branch_id = None,
      tc_summary = ''TeacherReview candidate from control node `'' @ cr_node_id c @ ''` ('' @ debug_kind (cr_kind c) @ '').'',
      tc_evidence = [''status='' @ debug_status (cr_status c)] @
        (if cr_selected_children c \<noteq> [] then [''selected_children='' @ join '','' (cr_selected_children c)] else []) @
        (case cr_summary c of Some s \<Rightarrow> [''summary='' @ truncate_evidence s] | None \<Rightarrow> []),
      tc_replay_results = []\<rparr>"

definition candidate_of_source :: "TeacherReviewSpec \<Rightarrow> WorkflowExecution \<Rightarrow> string \<Rightarrow> TeacherCandidate option" where
  "candidate_of_source review x source =
     (case find (\<lambda>b. br_branch_id b = source \<or> br_task_id b = source) (ex_branch_results x) of
        Some b \<Rightarrow> Some (teacher_candidate_from_branch review b)
      | None \<Rightarrow>
          (case find (\<lambda>l. le_leaf_id l = source \<or> le_task_id l = source) (ex_leaf_results x) of
             Some l \<Rightarrow> Some (teacher_candidate_from_leaf review l)
           | None \<Rightarrow>
               map_option (teacher_candidate_from_control review)
                 (find (\<lambda>c. cr_node_id c = source) (ex_control_node_results x))))"

definition teacher_candidates_from_execution :: "TeacherReviewSpec \<Rightarrow> WorkflowExecution \<Rightarrow> TeacherCandidate list" where
  "teacher_candidates_from_execution review x = List.map_filter (candidate_of_source review x) (te_candidates review)"

record TeacherReviewReport =
  tp_review_node_id :: string
  tp_candidates :: "TeacherCandidate list"

definition report_from_execution :: "TeacherReviewSpec \<Rightarrow> WorkflowExecution \<Rightarrow> TeacherReviewReport" where
  "report_from_execution review x =
     \<lparr>tp_review_node_id = te_id review, tp_candidates = teacher_candidates_from_execution review x\<rparr>"

section \<open>Choosing branches\<close>

record BranchCandidate =
  bc_branch_id :: string
  bc_status :: WorkflowRunStatus
  bc_score :: u32
  bc_cost :: u64
  bc_diversity_key :: "string option"

text \<open>\<open>Iterator::min_by_key\<close> returns the first of several minimal elements.\<close>

fun first_min_by :: "('a \<Rightarrow> 'k::linorder) \<Rightarrow> 'a list \<Rightarrow> 'a option" where
  "first_min_by f [] = None"
| "first_min_by f (x # xs) =
     (case first_min_by f xs of
        None \<Rightarrow> Some x
      | Some y \<Rightarrow> if f y < f x then Some y else Some x)"

text \<open>The order of \<open>std::cmp::Reverse(score)\<close> is that of the negated score.\<close>

definition reverse_score :: "BranchCandidate \<Rightarrow> int" where
  "reverse_score c = - uint (bc_score c)"

definition tournament_select :: "u32 \<Rightarrow> BranchCandidate list \<Rightarrow> BranchCandidate option" where
  "tournament_select min_score candidates =
     first_min_by (\<lambda>c. (uint (bc_cost c), reverse_score c))
       (filter (\<lambda>c. bc_status c = Succeeded \<and> bc_score c \<ge> min_score) candidates)"

definition default_frontier_limit :: nat where
  "default_frontier_limit = 8"

definition dominates :: "BranchCandidate \<Rightarrow> BranchCandidate \<Rightarrow> bool" where
  "dominates other c \<longleftrightarrow> bc_status other = Succeeded \<and> bc_score other \<ge> bc_score c \<and> bc_cost other \<le> bc_cost c \<and>
     (bc_score other > bc_score c \<or> bc_cost other < bc_cost c)"

text \<open>\<open>sort_by_key\<close> is stable, as \<open>sort_key\<close> is.\<close>

definition frontier_select :: "nat \<Rightarrow> BranchCandidate list \<Rightarrow> BranchCandidate list" where
  "frontier_select max_items candidates =
     take (max max_items 1)
       (sort_key (\<lambda>c. (reverse_score c, uint (bc_cost c)))
         (filter (\<lambda>c. \<not> list_ex (\<lambda>other. dominates other c) candidates)
           (filter (\<lambda>c. bc_status c = Succeeded) candidates)))"

end
