(* ===== verification/Workflow_Select_Props.thy ===== *)
theory Workflow_Select_Props
  imports Workflow_Select "HOL-Library.Multiset"
begin

text \<open>
  What the choice among results guarantees: the gate promotes exactly the candidates whose last replay
  meets its conditions, the tournament picks a cheapest eligible branch, and the Pareto frontier holds
  undominated branches that together dominate every successful one.
\<close>

section \<open>Differences\<close>

lemma sint_of_int_32: "- (2 ^ 31) \<le> i \<Longrightarrow> i < 2 ^ 31 \<Longrightarrow> sint (word_of_int i :: 32 word) = i"
  by (simp add: signed_of_int signed_take_bit_int_eq_self)

lemma sint_of_int_64: "- (2 ^ 63) \<le> i \<Longrightarrow> i < 2 ^ 63 \<Longrightarrow> sint (word_of_int i :: 64 word) = i"
  by (simp add: signed_of_int signed_take_bit_int_eq_self)

lemma sint_saturating_sub_i32: "sint (saturating_sub_i32 a b) = max (- (2 ^ 31)) (min (2 ^ 31 - 1) (sint a - sint b))"
  unfolding saturating_sub_i32_def by (rule sint_of_int_32) auto

lemma i64_or_max_int: "i64_or_max n = word_of_int (min (2 ^ 63 - 1) (uint n))"
proof (cases "n < 2 ^ 63")
  case True
  then have "uint n < 2 ^ 63" by (simp add: word_less_def)
  then have "min (2 ^ 63 - 1) (uint n) = uint n" by simp
  with True show ?thesis by (simp add: i64_or_max_def)
next
  case False
  then have "2 ^ 63 \<le> uint n" by (simp add: word_less_def)
  then have "min (2 ^ 63 - 1) (uint n) = 2 ^ 63 - 1" by simp
  with False show ?thesis by (simp add: i64_or_max_def)
qed

lemma sint_i64_or_max:
  "sint (i64_or_max n) = min (2 ^ 63 - 1) (uint n)"
  "sint (- i64_or_max n) = - min (2 ^ 63 - 1) (uint n)"
proof -
  have range: "0 \<le> min (2 ^ 63 - 1) (uint n)" "min (2 ^ 63 - 1) (uint n) < 2 ^ 63" by auto
  then show "sint (i64_or_max n) = min (2 ^ 63 - 1) (uint n)"
    unfolding i64_or_max_int by (intro sint_of_int_64) linarith+
  show "sint (- i64_or_max n) = - min (2 ^ 63 - 1) (uint n)"
    unfolding i64_or_max_int wi_hom_neg using range by (intro sint_of_int_64) linarith+
qed

text \<open>The difference of two costs, cut off at the largest \<open>i64\<close> and its negative.\<close>

lemma sint_signed_u64_delta:
  "sint (signed_u64_delta a b) = max (- (2 ^ 63 - 1)) (min (2 ^ 63 - 1) (uint a - uint b))"
proof (cases "a \<ge> b")
  case True
  then have "uint b \<le> uint a" by (simp add: word_le_def)
  moreover from this have "uint (a - b) = uint a - uint b" by (simp add: uint_sub_lem)
  ultimately show ?thesis using True by (simp add: signed_u64_delta_def sint_i64_or_max)
next
  case False
  then have "uint a \<le> uint b" by (simp add: word_le_def)
  moreover from this have "uint (b - a) = uint b - uint a" by (simp add: uint_sub_lem)
  ultimately show ?thesis using False by (auto simp: signed_u64_delta_def sint_i64_or_max)
qed

section \<open>The gate\<close>

text \<open>
  A candidate is promoted exactly if a student replay of it is recorded and the last one meets the gate:
  the score rises by at least the required amount, the cost by at most the allowed one, and the required
  tests, policy violations and staleness are as the gate asks. The saturating differences decide as the exact
  ones do, as long as the limits are not the extreme values of their types.
\<close>

theorem promotion_exact:
  assumes "sint (pg_min_score_delta gate) \<noteq> - (2 ^ 31)"
    and "case pg_max_cost_delta_microusd gate of None \<Rightarrow> True | Some most \<Rightarrow> \<bar>sint most\<bar> < 2 ^ 63 - 1"
  shows "promoted (evaluate_candidate gate c) \<longleftrightarrow>
    (\<exists>earlier r. tc_replay_results c = earlier @ [r] \<and>
       sint (sm_score (sp_candidate r)) - sint (sm_score (sp_baseline r)) \<ge> sint (pg_min_score_delta gate) \<and>
       (case pg_max_cost_delta_microusd gate of None \<Rightarrow> True
        | Some most \<Rightarrow> uint (sm_cost_microusd (sp_candidate r)) - uint (sm_cost_microusd (sp_baseline r)) \<le> sint most) \<and>
       (pg_require_all_tests_pass gate \<longrightarrow> list_all sr_passed (sp_required_tests r)) \<and>
       (pg_reject_policy_violations gate \<longrightarrow> sp_policy_violations r = []) \<and>
       (pg_reject_stale_replay gate \<longrightarrow> \<not> sp_stale r))"
proof (cases "tc_replay_results c" rule: rev_cases)
  case Nil
  then show ?thesis by (simp add: evaluate_candidate_def promoted_def)
next
  case (snoc earlier r)
  let ?ds = "sint (sm_score (sp_candidate r)) - sint (sm_score (sp_baseline r))"
  let ?dc = "uint (sm_cost_microusd (sp_candidate r)) - uint (sm_cost_microusd (sp_baseline r))"
  have "- (2 ^ 31) \<le> sint (pg_min_score_delta gate)" "sint (pg_min_score_delta gate) < 2 ^ 31"
    using sint_ge [of "pg_min_score_delta gate"] sint_lt [of "pg_min_score_delta gate"] by simp_all
  then have score: "sint (score_delta r) < sint (pg_min_score_delta gate) \<longleftrightarrow> ?ds < sint (pg_min_score_delta gate)"
    using assms(1) unfolding score_delta_def sint_saturating_sub_i32 by linarith
  have cost: "sint (cost_delta_microusd r) > sint most \<longleftrightarrow> ?dc > sint most"
    if "pg_max_cost_delta_microusd gate = Some most" for most
  proof -
    have "\<bar>sint most\<bar> < 2 ^ 63 - 1" using assms(2) that by simp
    then show ?thesis unfolding cost_delta_microusd_def sint_signed_u64_delta by linarith
  qed
  have "promoted (evaluate_candidate gate c) \<longleftrightarrow>
      \<not> sint (score_delta r) < sint (pg_min_score_delta gate) \<and>
      (case pg_max_cost_delta_microusd gate of None \<Rightarrow> True | Some most \<Rightarrow> \<not> sint (cost_delta_microusd r) > sint most) \<and>
      (pg_require_all_tests_pass gate \<longrightarrow> list_all sr_passed (sp_required_tests r)) \<and>
      (pg_reject_policy_violations gate \<longrightarrow> sp_policy_violations r = []) \<and> (pg_reject_stale_replay gate \<longrightarrow> \<not> sp_stale r)"
    by (auto simp: snoc evaluate_candidate_def evaluate_replay_def promoted_def Let_def filter_empty_conv list_all_iff
        split: option.split)
  then show ?thesis using score cost by (auto simp: snoc not_less split: option.split)
qed

section \<open>The tournament\<close>

lemma first_min_by_None: "first_min_by f xs = None \<longleftrightarrow> xs = []"
  by (cases xs) (auto split: option.split)

lemma first_min_by_Some:
  "first_min_by f xs = Some y \<Longrightarrow>
     \<exists>before after. xs = before @ y # after \<and> (\<forall>x \<in> set before. f y < f x) \<and> (\<forall>x \<in> set after. f y \<le> f x)"
proof (induction xs arbitrary: y)
  case (Cons x xs)
  show ?case
  proof (cases "first_min_by f xs")
    case None
    then have "xs = []" by (simp add: first_min_by_None)
    then show ?thesis using Cons.prems by (intro exI [of _ "[]"]) simp
  next
    case (Some z)
    then obtain before after where z: "xs = before @ z # after" "\<forall>x \<in> set before. f z < f x" "\<forall>x \<in> set after. f z \<le> f x"
      using Cons.IH by blast
    show ?thesis
    proof (cases "f z < f x")
      case True
      then show ?thesis using Cons.prems Some z by (intro exI [of _ "x # before"] exI [of _ after]) auto
    next
      case False
      then have "y = x" "\<forall>x' \<in> set xs. f x \<le> f x'" using Cons.prems Some z by fastforce+
      then show ?thesis by (intro exI [of _ "[]"] exI [of _ xs]) simp
    qed
  qed
qed simp

lemma cost_first:
  "(uint (bc_cost w), reverse_score w) < (uint (bc_cost c), reverse_score c) \<longleftrightarrow>
     bc_cost w < bc_cost c \<or> bc_cost w = bc_cost c \<and> bc_score c < bc_score w"
  "(uint (bc_cost w), reverse_score w) \<le> (uint (bc_cost c), reverse_score c) \<longleftrightarrow>
     bc_cost w < bc_cost c \<or> bc_cost w = bc_cost c \<and> bc_score c \<le> bc_score w"
proof -
  have "uint (bc_cost w) \<le> uint (bc_cost c) \<longleftrightarrow> bc_cost w < bc_cost c \<or> bc_cost w = bc_cost c"
    unfolding word_le_def [symmetric] by (rule order.order_iff_strict)
  then show "(uint (bc_cost w), reverse_score w) < (uint (bc_cost c), reverse_score c) \<longleftrightarrow>
     bc_cost w < bc_cost c \<or> bc_cost w = bc_cost c \<and> bc_score c < bc_score w"
   "(uint (bc_cost w), reverse_score w) \<le> (uint (bc_cost c), reverse_score c) \<longleftrightarrow>
     bc_cost w < bc_cost c \<or> bc_cost w = bc_cost c \<and> bc_score c \<le> bc_score w"
    unfolding less_prod_simp less_eq_prod_simp reverse_score_def word_less_def word_le_def by auto
qed

text \<open>
  The winner of a tournament is eligible, no eligible branch is cheaper, none at the same cost scores higher,
  and of several such branches it is the first; there is a winner exactly if a branch is eligible.
\<close>

theorem tournament_winner:
  "(tournament_select min_score cs = None \<longleftrightarrow> \<not> list_ex (\<lambda>c. bc_status c = Succeeded \<and> bc_score c \<ge> min_score) cs) \<and>
   (\<forall>w. tournament_select min_score cs = Some w \<longrightarrow>
      (\<exists>before after. filter (\<lambda>c. bc_status c = Succeeded \<and> bc_score c \<ge> min_score) cs = before @ w # after \<and>
         (\<forall>c \<in> set before. bc_cost w < bc_cost c \<or> bc_cost w = bc_cost c \<and> bc_score c < bc_score w) \<and>
         (\<forall>c \<in> set after. bc_cost w < bc_cost c \<or> bc_cost w = bc_cost c \<and> bc_score c \<le> bc_score w)))"
proof (intro conjI allI impI)
  show "tournament_select min_score cs = None \<longleftrightarrow> \<not> list_ex (\<lambda>c. bc_status c = Succeeded \<and> bc_score c \<ge> min_score) cs"
    by (simp add: tournament_select_def first_min_by_None filter_empty_conv list_ex_iff)
next
  fix w
  assume "tournament_select min_score cs = Some w"
  from first_min_by_Some [OF this [unfolded tournament_select_def], unfolded cost_first]
  show "\<exists>before after. filter (\<lambda>c. bc_status c = Succeeded \<and> bc_score c \<ge> min_score) cs = before @ w # after \<and>
      (\<forall>c \<in> set before. bc_cost w < bc_cost c \<or> bc_cost w = bc_cost c \<and> bc_score c < bc_score w) \<and>
      (\<forall>c \<in> set after. bc_cost w < bc_cost c \<or> bc_cost w = bc_cost c \<and> bc_score c \<le> bc_score w)"
    by blast
qed

section \<open>The frontier\<close>

definition weakly_dominates :: "BranchCandidate \<Rightarrow> BranchCandidate \<Rightarrow> bool" where
  "weakly_dominates d c \<longleftrightarrow> bc_score d \<ge> bc_score c \<and> bc_cost d \<le> bc_cost c"

definition undominated :: "BranchCandidate list \<Rightarrow> BranchCandidate list" where
  "undominated cs = filter (\<lambda>c. \<not> list_ex (\<lambda>other. dominates other c) cs) (filter (\<lambda>c. bc_status c = Succeeded) cs)"

lemma dominates_increases: "dominates d c \<Longrightarrow> uint (bc_score c) - uint (bc_cost c) < uint (bc_score d) - uint (bc_cost d)"
  by (auto simp: dominates_def word_less_def word_le_def)

lemma undominated_covers:
  assumes "c \<in> set cs" "bc_status c = Succeeded"
  shows "\<exists>d \<in> set (undominated cs). weakly_dominates d c"
proof -
  let ?S = "{d \<in> set cs. bc_status d = Succeeded \<and> weakly_dominates d c}"
  let ?m = "\<lambda>d. uint (bc_score d) - uint (bc_cost d)"
  have fin: "finite (?m ` ?S)" and "c \<in> ?S" using assms by (simp_all add: weakly_dominates_def)
  then have "Max (?m ` ?S) \<in> ?m ` ?S" by (intro Max_in) blast+
  then obtain d where d: "d \<in> ?S" "?m d = Max (?m ` ?S)" by fastforce
  have max: "?m e \<le> ?m d" if "e \<in> ?S" for e
    unfolding d(2) using that by (intro Max_ge [OF fin]) blast
  have "\<not> dominates e d" if "e \<in> set cs" for e
  proof
    assume dom: "dominates e d"
    then have "e \<in> ?S" using d(1) that by (auto simp: dominates_def weakly_dominates_def)
    from max [OF this] dominates_increases [OF dom] show False by simp
  qed
  then have "d \<in> set (undominated cs)" using d(1) by (auto simp: undominated_def list_ex_iff)
  with d(1) show ?thesis by blast
qed

lemma score_first:
  "(reverse_score a, uint (bc_cost a)) \<le> (reverse_score b, uint (bc_cost b)) \<longleftrightarrow>
     bc_score b < bc_score a \<or> bc_score a = bc_score b \<and> bc_cost a \<le> bc_cost b"
proof -
  have "uint (bc_score b) \<le> uint (bc_score a) \<longleftrightarrow> bc_score b < bc_score a \<or> bc_score b = bc_score a"
    unfolding word_le_def [symmetric] by (rule order.order_iff_strict)
  then show ?thesis unfolding less_eq_prod_simp reverse_score_def word_less_def word_le_def by auto
qed

text \<open>
  The frontier holds successful branches that no successful branch dominates, in the order of falling
  scores, at most \<open>max_items\<close> of them (but at least one when a branch has succeeded). When nothing is cut off
  it covers every successful branch: one in the frontier scores as well at no higher cost. What is cut off
  scores no higher than what is kept.
\<close>

theorem frontier_exact:
  "let front = frontier_select max_items cs in
     set front \<subseteq> set (undominated cs) \<and>
     length front = min (max max_items 1) (length (undominated cs)) \<and>
     (front = [] \<longleftrightarrow> \<not> list_ex (\<lambda>c. bc_status c = Succeeded) cs) \<and>
     sorted_wrt (\<lambda>a b. bc_score b < bc_score a \<or> bc_score a = bc_score b \<and> bc_cost a \<le> bc_cost b) front \<and>
     (length (undominated cs) \<le> max max_items 1 \<longrightarrow>
        (\<forall>c \<in> set cs. bc_status c = Succeeded \<longrightarrow> (\<exists>d \<in> set front. weakly_dominates d c))) \<and>
     (\<forall>c \<in># mset (undominated cs) - mset front. \<forall>d \<in> set front. bc_score c \<le> bc_score d)"
proof -
  let ?key = "\<lambda>c. (reverse_score c, uint (bc_cost c))"
  let ?s = "sort_key ?key (undominated cs)"
  let ?n = "max max_items 1"
  have front: "frontier_select max_items cs = take ?n ?s" by (simp add: frontier_select_def undominated_def)
  have sorted: "sorted_wrt (\<lambda>a b. bc_score b < bc_score a \<or> bc_score a = bc_score b \<and> bc_cost a \<le> bc_cost b) ?s"
    using sorted_sort_key [of ?key "undominated cs"] unfolding sorted_wrt_map score_first .
  have "mset (undominated cs) = mset (take ?n ?s) + mset (drop ?n ?s)" by (simp flip: mset_append)
  then have split: "mset (undominated cs) - mset (take ?n ?s) = mset (drop ?n ?s)" by simp
  have "(undominated cs = []) \<longleftrightarrow> \<not> list_ex (\<lambda>c. bc_status c = Succeeded) cs"
  proof
    assume "undominated cs = []"
    then show "\<not> list_ex (\<lambda>c. bc_status c = Succeeded) cs" using undominated_covers by (fastforce simp: list_ex_iff)
  qed (auto simp: undominated_def list_ex_iff filter_empty_conv)
  moreover have "?s = [] \<longleftrightarrow> undominated cs = []" by (simp flip: length_0_conv)
  moreover have "?n \<noteq> 0" by simp
  ultimately have empty: "take ?n ?s = [] \<longleftrightarrow> \<not> list_ex (\<lambda>c. bc_status c = Succeeded) cs"
    unfolding take_eq_Nil by blast
  have cut: "bc_score c \<le> bc_score d" if "c \<in> set (drop ?n ?s)" "d \<in> set (take ?n ?s)" for c d
  proof -
    have "sorted_wrt (\<lambda>a b. bc_score b < bc_score a \<or> bc_score a = bc_score b \<and> bc_cost a \<le> bc_cost b) (take ?n ?s @ drop ?n ?s)"
      using sorted by simp
    with that have "bc_score c < bc_score d \<or> bc_score d = bc_score c" unfolding sorted_wrt_append by blast
    then show ?thesis by auto
  qed
  have cover: "\<exists>d \<in> set (take ?n ?s). weakly_dominates d c"
    if "length (undominated cs) \<le> ?n" "c \<in> set cs" "bc_status c = Succeeded" for c
    using undominated_covers [OF that(2,3)] that(1) by simp
  show ?thesis unfolding Let_def front split
  proof (intro conjI)
    show "set (take ?n ?s) \<subseteq> set (undominated cs)" by (metis set_sort set_take_subset)
    show "sorted_wrt (\<lambda>a b. bc_score b < bc_score a \<or> bc_score a = bc_score b \<and> bc_cost a \<le> bc_cost b) (take ?n ?s)"
      using sorted by (rule sorted_wrt_take)
  qed (use empty cut cover in \<open>auto simp: min.commute\<close>)
qed

section \<open>Evidence\<close>

text \<open>A text that is cut off ends up two scalars longer than the bound it is cut off for.\<close>

theorem truncated_evidence_exceeds_bound:
  assumes "length (str_chars value) > MAX_EVIDENCE_CHARS"
  shows "length (str_chars (truncate_evidence value)) = MAX_EVIDENCE_CHARS + 2"
proof -
  have dots: "starts_scalar ''...''" "length (str_chars ''...'') = 3" by code_simp+
  have "str_chars (truncate_evidence value) = take (MAX_EVIDENCE_CHARS - 1) (str_chars value) @ str_chars ''...''"
    using assms str_chars_take [OF dots(1)] by (simp add: truncate_evidence_def)
  then show ?thesis using assms dots(2) by (simp add: MAX_EVIDENCE_CHARS_def)
qed

section \<open>Concrete choices\<close>

definition branch_at :: "string \<Rightarrow> u32 \<Rightarrow> u64 \<Rightarrow> BranchCandidate" where
  "branch_at i score cost = \<lparr>bc_branch_id = i, bc_status = Succeeded, bc_score = score, bc_cost = cost, bc_diversity_key = None\<rparr>"

definition three_branches :: "BranchCandidate list" where
  "three_branches = [branch_at ''a'' 5 10, branch_at ''b'' 9 20, branch_at ''c'' 5 30]"

theorem frontier_exact_witness:
  "frontier_select 8 three_branches = [branch_at ''b'' 9 20, branch_at ''a'' 5 10] \<and>
   (\<exists>d \<in> set (frontier_select 8 three_branches). weakly_dominates d (branch_at ''c'' 5 30))"
proof
  show eq: "frontier_select 8 three_branches = [branch_at ''b'' 9 20, branch_at ''a'' 5 10]" by code_simp
  have "length (undominated three_branches) \<le> max 8 1" by code_simp
  moreover have "branch_at ''c'' 5 30 \<in> set three_branches" "bc_status (branch_at ''c'' 5 30) = Succeeded"
    by (simp_all add: three_branches_def branch_at_def)
  ultimately show "\<exists>d \<in> set (frontier_select 8 three_branches). weakly_dominates d (branch_at ''c'' 5 30)"
    using frontier_exact [of 8 three_branches] unfolding Let_def by blast
qed

definition replayed_candidate :: "u64 \<Rightarrow> TeacherCandidate" where
  "replayed_candidate cost = \<lparr>tc_candidate_id = ''t:a'', tc_kind = Note, tc_status = Proposed, tc_source_node_id = ''a'',
     tc_source_branch_id = None, tc_summary = [], tc_evidence = [],
     tc_replay_results = [\<lparr>sp_trace_id = ''t'', sp_candidate_id = ''t:a'',
       sp_baseline = \<lparr>sm_score = 3, sm_cost_microusd = 100\<rparr>, sp_candidate = \<lparr>sm_score = 5, sm_cost_microusd = cost\<rparr>,
       sp_required_tests = [\<lparr>sr_name = ''unit'', sr_passed = True\<rparr>], sp_policy_violations = [], sp_stale = False, sp_notes = None\<rparr>]\<rparr>"

definition strict_gate :: PromotionGate where
  "strict_gate = PromotionGate_default\<lparr>pg_max_cost_delta_microusd := Some 50\<rparr>"

theorem promotion_exact_witness:
  "promoted (evaluate_candidate strict_gate (replayed_candidate 150)) \<and>
   \<not> promoted (evaluate_candidate strict_gate (replayed_candidate 151))"
proof -
  have g: "sint (pg_min_score_delta strict_gate) \<noteq> - (2 ^ 31)"
    "case pg_max_cost_delta_microusd strict_gate of None \<Rightarrow> True | Some most \<Rightarrow> \<bar>sint most\<bar> < 2 ^ 63 - 1"
    by (auto simp: strict_gate_def PromotionGate_default_def)
  show ?thesis
    unfolding promotion_exact [OF g]
    by (auto simp: strict_gate_def PromotionGate_default_def replayed_candidate_def)
qed

end
