(* ===== verification/Redaction.thy ===== *)
theory Redaction
  imports Rust_Chars BTree_Map
begin

text \<open>
  The redaction of text that leaves the process (\<open>workflow/src/redaction.rs\<close>): paths, credentials and
  assignments to secret names are replaced token by token, and the kinds of what was removed are recorded.
  One piece of state crosses tokens, how strongly the tokens before announce a credential.
\<close>

section \<open>Tables\<close>

definition SECRET_NAME_MARKERS :: "string list" where
  "SECRET_NAME_MARKERS =
     [''api_key'', ''apikey'', ''secret'', ''token'', ''password'', ''passwd'', ''credential'', ''authorization'',
      ''auth_token'', ''access_key'', ''private_key'', ''session_key'']"

definition SECRET_VALUE_PREFIXES :: "string list" where
  "SECRET_VALUE_PREFIXES =
     [''sk-'', ''sk_'', ''ghp_'', ''gho_'', ''ghs_'', ''github_pat_'', ''xoxb-'', ''xoxp-'', ''xapp-'']"

definition AUTH_SCHEMES :: "string list" where
  "AUTH_SCHEMES = [''Bearer'', ''Basic'', ''Digest'', ''Token'']"

definition SELF_EVIDENT_AUTH_SCHEME :: string where
  "SELF_EVIDENT_AUTH_SCHEME = ''Bearer''"

definition AWS_KEY_ID_PREFIXES :: "string list" where
  "AWS_KEY_ID_PREFIXES =
     [''AKIA'', ''ASIA'', ''AGPA'', ''AIDA'', ''AROA'', ''ANPA'', ''ANVA'', ''ASCA'', ''ABIA'', ''ACCA'']"

definition REDACTION_ABSOLUTE_PATH :: string where
  "REDACTION_ABSOLUTE_PATH = ''absolute_path''"

definition REDACTION_RELATIVE_PATH :: string where
  "REDACTION_RELATIVE_PATH = ''relative_path''"

definition REDACTION_SECRET :: string where
  "REDACTION_SECRET = ''secret''"

definition PATH_PLACEHOLDER :: string where
  "PATH_PLACEHOLDER = ''<path>''"

definition SECRET_PLACEHOLDER :: string where
  "SECRET_PLACEHOLDER = ''<redacted>''"

definition AWS_KEY_ID_LEN :: nat where
  "AWS_KEY_ID_LEN = 20"

definition CREDENTIAL_VALUE_MIN_LEN :: nat where
  "CREDENTIAL_VALUE_MIN_LEN = 16"

section \<open>Shapes of tokens\<close>

definition dquote_char :: char where
  "dquote_char = CHR 0x22"

definition backslash_char :: char where
  "backslash_char = CHR 0x5C"

definition unwrap_token :: "string \<Rightarrow> string" where
  "unwrap_token token =
     trim_end_chars [CHR '','', CHR ''.'', CHR '';'', CHR '':'', CHR '')'', CHR '']'', dquote_char, CHR 0x27, CHR ''>'',
         CHR ''!'', CHR ''?'']
       (trim_start_matches [CHR ''('', CHR ''['', dquote_char, CHR 0x27, CHR ''<''] token)"

definition is_auth_scheme :: "string \<Rightarrow> bool" where
  "is_auth_scheme token \<longleftrightarrow>
     (let word = unwrap_token token
      in word \<noteq> [] \<and> list_all is_ascii_alphabetic word \<and> list_ex (\<lambda>scheme. eq_ignore_ascii_case scheme word) AUTH_SCHEMES)"

definition is_canonical_auth_scheme :: "string \<Rightarrow> bool" where
  "is_canonical_auth_scheme token \<longleftrightarrow> unwrap_token token \<in> set AUTH_SCHEMES"

text \<open>A character outside ASCII fails the test on each of its bytes.\<close>

definition credential_char :: "char \<Rightarrow> bool" where
  "credential_char ch \<longleftrightarrow> is_ascii_digit ch \<or> is_ascii_alphabetic ch \<or>
     ch \<in> {CHR ''-'', CHR ''_'', CHR ''.'', CHR ''='', CHR ''+'', CHR ''/'', CHR ''~''}"

definition looks_like_credential_value :: "string \<Rightarrow> bool" where
  "looks_like_credential_value token \<longleftrightarrow>
     (let value = unwrap_token token
      in CREDENTIAL_VALUE_MIN_LEN \<le> length (str_chars value) \<and> list_all credential_char value \<and>
         list_ex is_ascii_digit value \<and> list_ex is_ascii_alphabetic value)"

definition looks_like_aws_access_key :: "string \<Rightarrow> bool" where
  "looks_like_aws_access_key token \<longleftrightarrow>
     (let value = unwrap_token token
      in AWS_KEY_ID_LEN \<le> length value \<and> list_ex (starts_with value) AWS_KEY_ID_PREFIXES \<and>
         list_all (\<lambda>ch. is_ascii_upper ch \<or> is_ascii_digit ch) value)"

definition drive_prefix :: "string \<Rightarrow> bool" where
  "drive_prefix s = (case s of
       drive # colon # sep # _ \<Rightarrow>
         is_ascii_alphabetic drive \<and> colon = CHR '':'' \<and> (sep = backslash_char \<or> sep = CHR ''/'')
     | _ \<Rightarrow> False)"

definition looks_absolute :: "string \<Rightarrow> bool" where
  "looks_absolute token =
     (let trimmed = trim_start_matches [CHR ''('', CHR ''['', dquote_char, CHR 0x27] token
      in if length trimmed < 2 then False
         else case strip_prefix trimmed ''/'' of
           Some rest \<Rightarrow>
             (case rest of c # _ \<Rightarrow> is_ascii_alphanumeric c \<or> c = CHR ''.'' \<or> c = CHR ''_'' | [] \<Rightarrow> False)
         | None \<Rightarrow>
             starts_with trimmed ''~/'' \<or> starts_with trimmed [CHR ''~'', backslash_char] \<or>
             starts_with trimmed [backslash_char, backslash_char] \<or> drive_prefix trimmed)"

definition trim_path_punctuation :: "string \<Rightarrow> string" where
  "trim_path_punctuation token =
     trim_end_chars [CHR '','', CHR '';'', CHR '':'', CHR ''.'', CHR '')'', CHR '']'', CHR ''}'', dquote_char, CHR 0x27,
         CHR ''>'', CHR 0x60, CHR ''!'', CHR ''?'']
       (trim_start_matches [CHR ''('', CHR ''['', CHR ''{'', dquote_char, CHR 0x27, CHR ''<'', CHR 0x60] token)"

fun unescape_path :: "string \<Rightarrow> string" where
  "unescape_path [] = []"
| "unescape_path [ch] = [ch]"
| "unescape_path (ch # d # s) =
     (if ch \<noteq> backslash_char then ch # unescape_path (d # s)
      else if d = CHR ''/'' then CHR ''/'' # unescape_path s
      else if d = backslash_char then backslash_char # unescape_path s
      else if d = dquote_char \<or> d = CHR 0x27 then unescape_path s
      else backslash_char # unescape_path (d # s))"

definition last_segment_is_file :: "string \<Rightarrow> bool" where
  "last_segment_is_file segment =
     (case split_once (CHR ''.'') (rev segment) of
        None \<Rightarrow> False
      | Some (extension, stem) \<Rightarrow>
          stem \<noteq> [] \<and> length (str_chars (rev extension)) \<in> {1..8} \<and> list_all is_ascii_alphabetic extension)"

definition looks_relative :: "string \<Rightarrow> bool" where
  "looks_relative candidate =
     (if \<not> list_ex (\<lambda>c. c = CHR ''/'' \<or> c = backslash_char) candidate then False
      else if list_ex (starts_with candidate)
          [''./'', ''../'', [CHR ''.'', backslash_char], [CHR ''.'', CHR ''.'', backslash_char]] then True
      else
        let trimmed = trim_end_chars [CHR ''/'', backslash_char] candidate;
            segments = split_char (CHR ''/'') (replace_chars [backslash_char] (CHR ''/'') trimmed)
        in if length segments < 2 \<or> list_ex (\<lambda>s. s = []) segments then False
           else last_segment_is_file (last segments))"

definition classify_path :: "string \<Rightarrow> string option" where
  "classify_path token =
     (let raw = trim_path_punctuation token;
          candidate = trim_path_punctuation (unescape_path raw)
      in if contains candidate ''://'' then None
         else if looks_absolute raw \<or> looks_absolute candidate then Some REDACTION_ABSOLUTE_PATH
         else if looks_relative candidate then Some REDACTION_RELATIVE_PATH
         else None)"

section \<open>One token\<close>

datatype CredentialArm = Unarmed | IfShaped | Certain

record TokenOutcome =
  to_text :: "string option"
  to_arm :: CredentialArm

definition keep_and_arm :: "CredentialArm \<Rightarrow> TokenOutcome" where
  "keep_and_arm arm = \<lparr>to_text = None, to_arm = arm\<rparr>"

definition keep_token :: TokenOutcome where
  "keep_token = \<lparr>to_text = None, to_arm = Unarmed\<rparr>"

definition replace_token :: "string \<Rightarrow> TokenOutcome" where
  "replace_token text = \<lparr>to_text = Some text, to_arm = Unarmed\<rparr>"

definition secret_name :: "string \<Rightarrow> bool" where
  "secret_name name \<longleftrightarrow> list_ex (contains (to_ascii_lowercase name)) SECRET_NAME_MARKERS"

text \<open>The body of the loop over the separators; \<open>None\<close> goes on with the next one.\<close>

definition redact_assignment ::
  "char \<Rightarrow> string \<Rightarrow> string option \<Rightarrow> string list \<Rightarrow> (TokenOutcome \<times> string list) option" where
  "redact_assignment separator token nxt kinds =
     (case split_once separator token of
        None \<Rightarrow> None
      | Some (name, value) \<Rightarrow>
          if secret_name name then
            if is_auth_scheme value
            then Some (keep_and_arm (if is_canonical_auth_scheme value then Certain else IfShaped), kinds)
            else if value = [] then
              Some (case nxt of
                  Some n \<Rightarrow> if is_auth_scheme n \<or> looks_like_credential_value n then keep_and_arm IfShaped else keep_token
                | None \<Rightarrow> keep_token, kinds)
            else Some (replace_token (name @ separator # SECRET_PLACEHOLDER), insort_insert REDACTION_SECRET kinds)
          else
            (case classify_path value of
               Some kind \<Rightarrow> Some (replace_token (name @ separator # PATH_PLACEHOLDER), insort_insert kind kinds)
             | None \<Rightarrow> None))"

definition redact_word :: "string \<Rightarrow> string option \<Rightarrow> string list \<Rightarrow> TokenOutcome \<times> string list" where
  "redact_word token nxt kinds =
     (if unwrap_token token = SELF_EVIDENT_AUTH_SCHEME then (keep_and_arm Certain, kinds)
      else if is_auth_scheme token \<and> (case nxt of Some n \<Rightarrow> looks_like_credential_value n | None \<Rightarrow> False)
      then (keep_and_arm IfShaped, kinds)
      else if list_ex (starts_with (to_ascii_lowercase token)) SECRET_VALUE_PREFIXES \<or> looks_like_aws_access_key token
      then (replace_token SECRET_PLACEHOLDER, insort_insert REDACTION_SECRET kinds)
      else case classify_path token of
          Some kind \<Rightarrow> (replace_token PATH_PLACEHOLDER, insort_insert kind kinds)
        | None \<Rightarrow> (keep_token, kinds))"

definition redact_token :: "string \<Rightarrow> string option \<Rightarrow> string list \<Rightarrow> TokenOutcome \<times> string list" where
  "redact_token token nxt kinds =
     (case redact_assignment (CHR ''='') token nxt kinds of
        Some r \<Rightarrow> r
      | None \<Rightarrow>
          (case redact_assignment (CHR '':'') token nxt kinds of
             Some r \<Rightarrow> r
           | None \<Rightarrow> redact_word token nxt kinds))"

section \<open>A text\<close>

record RedactionResult =
  rx_text :: string
  rx_kinds :: "string list"

definition redacted :: "RedactionResult \<Rightarrow> bool" where
  "redacted r \<longleftrightarrow> rx_kinds r \<noteq> []"

definition next_token :: "string list \<Rightarrow> string option" where
  "next_token tokens = find (\<lambda>candidate. candidate \<noteq> []) tokens"

fun redact_tokens :: "string list \<Rightarrow> CredentialArm \<Rightarrow> string list \<Rightarrow> string list \<times> string list" where
  "redact_tokens [] arm kinds = ([], kinds)"
| "redact_tokens (token # tokens) arm kinds =
     (if token = [] then
        (case redact_tokens tokens arm kinds of (out, ks) \<Rightarrow> ([] # out, ks))
      else if arm \<noteq> Unarmed \<and> is_auth_scheme token then
        (case redact_tokens tokens (if is_canonical_auth_scheme token then Certain else arm) kinds of
           (out, ks) \<Rightarrow> (token # out, ks))
      else if arm \<noteq> Unarmed \<and> (arm = Certain \<or> looks_like_credential_value token) then
        (case redact_tokens tokens Unarmed (insort_insert REDACTION_SECRET kinds) of
           (out, ks) \<Rightarrow> (SECRET_PLACEHOLDER # out, ks))
      else
        (case redact_token token (next_token tokens) kinds of
           (outcome, kinds) \<Rightarrow>
             (case redact_tokens tokens (to_arm outcome) kinds of
                (out, ks) \<Rightarrow> ((case to_text outcome of Some t \<Rightarrow> t | None \<Rightarrow> token) # out, ks))))"

definition redact_for_disclosure :: "string \<Rightarrow> RedactionResult" where
  "redact_for_disclosure input =
     (case redact_tokens (split_char (CHR '' '') input) Unarmed [] of
        (out, kinds) \<Rightarrow> \<lparr>rx_text = join '' '' out, rx_kinds = kinds\<rparr>)"

end
