(* ===== verification/Redaction_Props.thy ===== *)
theory Redaction_Props
  imports Redaction Str_Lemmas
begin

text \<open>
  What a redacted text discloses. The locale \<open>token_relation\<close> is the contract of a relation between a token, what
  it becomes and the kinds recorded before and after: if it holds for the four ways a token is treated, it
  holds along the whole text. It is interpreted for what may be disclosed and for what is recorded.
\<close>

section \<open>Relations along a text\<close>

locale token_relation =
  fixes R :: "string \<Rightarrow> string \<Rightarrow> string list \<Rightarrow> string list \<Rightarrow> bool"
  assumes blank: "R [] [] kinds kinds"
    and scheme: "is_auth_scheme token \<Longrightarrow> R token token kinds kinds"
    and secret: "R token SECRET_PLACEHOLDER kinds (insort_insert REDACTION_SECRET kinds)"
    and single: "redact_token token nxt kinds = (outcome, kinds') \<Longrightarrow>
      R token (case to_text outcome of Some t \<Rightarrow> t | None \<Rightarrow> token) kinds kinds'"
begin

inductive along :: "string list \<Rightarrow> string list \<Rightarrow> string list \<Rightarrow> string list \<Rightarrow> bool" where
  stop: "along [] [] kinds kinds"
| step: "R token out kinds kinds' \<Longrightarrow> along tokens outs kinds' kinds'' \<Longrightarrow> along (token # tokens) (out # outs) kinds kinds''"

lemma tokens_along: "redact_tokens tokens arm kinds = (outs, kinds') \<Longrightarrow> along tokens outs kinds kinds'"
proof (induction tokens arm kinds arbitrary: outs kinds' rule: redact_tokens.induct)
  case (2 token tokens arm kinds)
  consider "token = []" | "token \<noteq> []" "arm \<noteq> Unarmed" "is_auth_scheme token"
    | "token \<noteq> []" "arm \<noteq> Unarmed" "\<not> is_auth_scheme token" "arm = Certain \<or> looks_like_credential_value token"
    | "token \<noteq> []" "\<not> (arm \<noteq> Unarmed \<and> is_auth_scheme token)"
      "\<not> (arm \<noteq> Unarmed \<and> (arm = Certain \<or> looks_like_credential_value token))"
    by blast
  then show ?case
  proof cases
    case 1
    with "2.prems" "2.IH"(1) show ?thesis by (auto split: prod.splits intro: along.step blank)
  next
    case 2
    with "2.prems" "2.IH"(2) show ?thesis by (auto split: prod.splits intro: along.step scheme)
  next
    case 3
    with "2.prems" "2.IH"(3) show ?thesis by (auto split: prod.splits intro: along.step secret)
  next
    case 4
    obtain outcome ks where tok: "redact_token token (next_token tokens) kinds = (outcome, ks)" by force
    obtain outs' where rest: "redact_tokens tokens (to_arm outcome) ks = (outs', kinds')"
      and outs: "outs = (case to_text outcome of Some t \<Rightarrow> t | None \<Rightarrow> token) # outs'"
      using "2.prems" 4 by (auto simp: tok split: prod.splits)
    have "along tokens outs' ks kinds'" using "2.IH"(4) [OF 4 tok [symmetric] rest] .
    then show ?thesis unfolding outs by (rule along.step [OF single [OF tok]])
  qed
qed (auto intro: along.stop)

end

section \<open>What may be disclosed\<close>

definition credential_prefix :: "string \<Rightarrow> bool" where
  "credential_prefix token \<longleftrightarrow> list_ex (starts_with (to_ascii_lowercase token)) SECRET_VALUE_PREFIXES"

definition assignment_separators :: "char set" where
  "assignment_separators = {CHR ''='', CHR '':''}"

text \<open>The tokens that are kept: scheme words, names of an empty or scheme value, and words without a secret.\<close>

definition clean_word :: "string \<Rightarrow> bool" where
  "clean_word t \<longleftrightarrow> \<not> credential_prefix t \<and> \<not> looks_like_aws_access_key t \<and> classify_path t = None"

definition clean_assignments :: "string \<Rightarrow> bool" where
  "clean_assignments t \<longleftrightarrow> (\<forall>sep \<in> assignment_separators. \<forall>name value. split_once sep t = Some (name, value) \<longrightarrow>
     \<not> secret_name name \<and> classify_path value = None)"

definition introduces :: "string \<Rightarrow> bool" where
  "introduces t \<longleftrightarrow> (\<exists>sep \<in> assignment_separators. \<exists>name value. split_once sep t = Some (name, value) \<and>
     secret_name name \<and> (value = [] \<or> is_auth_scheme value))"

definition kept :: "string \<Rightarrow> bool" where
  "kept t \<longleftrightarrow> t = [] \<or> is_auth_scheme t \<or> introduces t \<or> clean_word t \<and> clean_assignments t"

definition disclosed :: "string \<Rightarrow> string \<Rightarrow> bool" where
  "disclosed t out \<longleftrightarrow> out = t \<and> kept t \<or> out = SECRET_PLACEHOLDER \<or> out = PATH_PLACEHOLDER \<or>
     (\<exists>sep \<in> assignment_separators. \<exists>name value. split_once sep t = Some (name, value) \<and>
        (out = name @ sep # SECRET_PLACEHOLDER \<or> out = name @ sep # PATH_PLACEHOLDER))"

lemma bearer_scheme: "unwrap_token t = SELF_EVIDENT_AUTH_SCHEME \<Longrightarrow> is_auth_scheme t"
proof -
  have "SELF_EVIDENT_AUTH_SCHEME \<noteq> [] \<and> list_all is_ascii_alphabetic SELF_EVIDENT_AUTH_SCHEME \<and>
      list_ex (\<lambda>scheme. eq_ignore_ascii_case scheme SELF_EVIDENT_AUTH_SCHEME) AUTH_SCHEMES"
    by code_simp
  then show "unwrap_token t = SELF_EVIDENT_AUTH_SCHEME \<Longrightarrow> is_auth_scheme t"
    by (simp add: is_auth_scheme_def Let_def)
qed

lemma assignment_disclosed:
  assumes "redact_assignment sep t nxt kinds = Some (outcome, kinds')" and "sep \<in> assignment_separators"
  shows "disclosed t (case to_text outcome of Some o' \<Rightarrow> o' | None \<Rightarrow> t)"
proof -
  obtain name v where split: "split_once sep t = Some (name, v)"
    using assms(1) by (auto simp: redact_assignment_def split: option.splits)
  show ?thesis
  proof (cases "secret_name name \<and> (v = [] \<or> is_auth_scheme v)")
    case True
    then have "introduces t" using split assms(2) by (auto simp: introduces_def)
    moreover have "to_text outcome = None" using assms(1) True split
      by (auto simp: redact_assignment_def keep_and_arm_def keep_token_def split: if_splits option.splits)
    ultimately show ?thesis by (simp add: disclosed_def kept_def)
  next
    case False
    then have "to_text outcome = Some (name @ sep # SECRET_PLACEHOLDER) \<or> to_text outcome = Some (name @ sep # PATH_PLACEHOLDER)"
      using assms(1) split by (auto simp: redact_assignment_def replace_token_def split: if_splits option.splits)
    then show ?thesis using split assms(2) unfolding disclosed_def by (elim disjE) (simp, blast)+
  qed
qed

lemma assignment_None:
  "redact_assignment sep t nxt kinds = None \<longleftrightarrow>
     (\<forall>name value. split_once sep t = Some (name, value) \<longrightarrow> \<not> secret_name name \<and> classify_path value = None)"
  by (auto simp: redact_assignment_def split: option.splits if_splits)

lemma token_disclosed:
  assumes "redact_token t nxt kinds = (outcome, kinds')"
  shows "disclosed t (case to_text outcome of Some o' \<Rightarrow> o' | None \<Rightarrow> t)"
proof (cases "redact_assignment (CHR ''='') t nxt kinds")
  case (Some r)
  then show ?thesis using assms assignment_disclosed [of "CHR ''=''"] by (auto simp: redact_token_def assignment_separators_def)
next
  case eq: None
  show ?thesis
  proof (cases "redact_assignment (CHR '':'') t nxt kinds")
    case (Some r)
    then show ?thesis using eq assms assignment_disclosed [of "CHR '':''"] by (auto simp: redact_token_def assignment_separators_def)
  next
    case None
    then have "clean_assignments t"
      using eq unfolding clean_assignments_def assignment_separators_def assignment_None by blast
    moreover have "redact_word t nxt kinds = (outcome, kinds')" using assms eq None by (simp add: redact_token_def)
    ultimately show ?thesis using bearer_scheme [of t]
      by (auto simp: redact_word_def keep_and_arm_def keep_token_def replace_token_def disclosed_def kept_def clean_word_def
          credential_prefix_def split: if_splits option.splits)
  qed
qed

interpretation disclosure: token_relation "\<lambda>t out _ _. disclosed t out"
  by unfold_locales (rule token_disclosed | simp add: disclosed_def kept_def)+

section \<open>What is recorded\<close>

definition kind_labels :: "string set" where
  "kind_labels = {REDACTION_ABSOLUTE_PATH, REDACTION_RELATIVE_PATH, REDACTION_SECRET}"

definition recorded :: "string \<Rightarrow> string \<Rightarrow> string list \<Rightarrow> string list \<Rightarrow> bool" where
  "recorded t out kinds kinds' \<longleftrightarrow>
     (out = t \<and> kinds' = kinds \<or> (\<exists>kind \<in> kind_labels. kinds' = insort_insert kind kinds))"

lemma classify_label: "classify_path t = Some kind \<Longrightarrow> kind \<in> kind_labels"
  by (auto simp: classify_path_def kind_labels_def Let_def split: if_splits)

lemma token_recorded:
  assumes "redact_token t nxt kinds = (outcome, kinds')"
  shows "recorded t (case to_text outcome of Some o' \<Rightarrow> o' | None \<Rightarrow> t) kinds kinds'"
proof -
  have same: "recorded t t kinds kinds" by (simp add: recorded_def)
  have label: "recorded t out kinds (insort_insert kind kinds)" if "kind \<in> kind_labels" for out kind
    using that by (auto simp: recorded_def)
  have secret: "recorded t out kinds (insort_insert REDACTION_SECRET kinds)" for out
    by (rule label) (simp add: kind_labels_def)
  have assignment: "recorded t (case to_text o1 of Some o' \<Rightarrow> o' | None \<Rightarrow> t) kinds k1"
    if "redact_assignment sep t nxt kinds = Some (o1, k1)" for sep o1 k1
    using that same secret label [OF classify_label]
    by (auto simp: redact_assignment_def keep_and_arm_def keep_token_def replace_token_def split: option.splits if_splits)
  have word: "recorded t (case to_text o1 of Some o' \<Rightarrow> o' | None \<Rightarrow> t) kinds k1"
    if "redact_word t nxt kinds = (o1, k1)" for o1 k1
    using that same secret label [OF classify_label]
    by (auto simp: redact_word_def keep_and_arm_def keep_token_def replace_token_def split: option.splits if_splits)
  have "redact_assignment (CHR ''='') t nxt kinds = Some (outcome, kinds') \<or>
      redact_assignment (CHR '':'') t nxt kinds = Some (outcome, kinds') \<or> redact_word t nxt kinds = (outcome, kinds')"
    using assms by (auto simp: redact_token_def split: option.splits)
  then show ?thesis using assignment word by blast
qed

interpretation record_kinds: token_relation recorded
  by unfold_locales (rule token_recorded | simp add: recorded_def kind_labels_def)+

lemma insort_insert_not_Nil [simp]: "insort_insert k ks \<noteq> []"
  using set_insort_insert [of k ks] by force

lemma recorded_along:
  "record_kinds.along tokens outs kinds kinds' \<Longrightarrow> sorted kinds \<and> distinct kinds \<and> set kinds \<subseteq> kind_labels \<Longrightarrow>
     (sorted kinds' \<and> distinct kinds' \<and> set kinds \<subseteq> set kinds' \<and> set kinds' \<subseteq> kind_labels) \<and> (kinds' = [] \<longrightarrow> outs = tokens)"
proof (induction rule: record_kinds.along.induct)
  case (step token out kinds kinds' tokens outs kinds'')
  have "sorted kinds' \<and> distinct kinds' \<and> set kinds \<subseteq> set kinds' \<and> set kinds' \<subseteq> kind_labels \<and> (kinds' = [] \<longrightarrow> out = token)"
    using step.hyps(1) step.prems
    by (auto simp: recorded_def sorted_insort_insert distinct_insort_insert set_insort_insert)
  with step.IH show ?case by auto
qed auto

lemma kinds_grow: "record_kinds.along tokens outs kinds kinds' \<Longrightarrow> set kinds \<subseteq> set kinds'"
  by (induction rule: record_kinds.along.induct) (auto simp: recorded_def set_insort_insert)

section \<open>The text\<close>

lemma along_outs: "disclosure.along tokens outs kinds kinds' \<Longrightarrow> list_all2 disclosed tokens outs"
  by (induction rule: disclosure.along.induct) auto

lemma split_once_subset: "split_once d t = Some (a, b) \<Longrightarrow> set a \<subseteq> set t"
  by (induction t arbitrary: a) (auto split: if_splits)

lemma placeholders_blank_free: "CHR '' '' \<notin> set SECRET_PLACEHOLDER" "CHR '' '' \<notin> set PATH_PLACEHOLDER"
  by (simp_all add: SECRET_PLACEHOLDER_def PATH_PLACEHOLDER_def)

lemma disclosed_blank_free: "disclosed t out \<Longrightarrow> CHR '' '' \<notin> set t \<Longrightarrow> CHR '' '' \<notin> set out"
  using placeholders_blank_free split_once_subset
  by (fastforce simp: disclosed_def assignment_separators_def)

lemma split_join: "outs \<noteq> [] \<Longrightarrow> \<forall>w \<in> set outs. d \<notin> set w \<Longrightarrow> split_char d (join [d] outs) = outs"
proof (induction outs)
  case (Cons w outs)
  then show ?case by (cases outs) (simp_all add: split_char_no_sep split_char_append_sep)
qed simp

lemma redacted_tokens:
  obtains outs kinds where "redact_tokens (split_char (CHR '' '') input) Unarmed [] = (outs, kinds)"
    "rx_kinds (redact_for_disclosure input) = kinds" "rx_text (redact_for_disclosure input) = join '' '' outs"
    "split_char (CHR '' '') (rx_text (redact_for_disclosure input)) = outs"
    "list_all2 disclosed (split_char (CHR '' '') input) outs"
proof -
  obtain outs kinds where run: "redact_tokens (split_char (CHR '' '') input) Unarmed [] = (outs, kinds)" by force
  have rel: "list_all2 disclosed (split_char (CHR '' '') input) outs"
    by (rule along_outs [OF disclosure.tokens_along [OF run]])
  then have "outs \<noteq> []" by auto
  moreover have "\<forall>w \<in> set outs. CHR '' '' \<notin> set w"
  proof
    fix w
    assume "w \<in> set outs"
    then obtain i where "i < length outs" "w = outs ! i" by (auto simp: in_set_conv_nth)
    then obtain t where "t \<in> set (split_char (CHR '' '') input)" "disclosed t w"
      using rel by (metis list_all2_conv_all_nth nth_mem)
    then show "CHR '' '' \<notin> set w" using disclosed_blank_free split_char_pieces by blast
  qed
  ultimately have "split_char (CHR '' '') (join '' '' outs) = outs" by (rule split_join)
  with run rel that show thesis by (simp add: redact_for_disclosure_def)
qed


text \<open>
  Nothing is removed silently: a text that differs from the input has at least one kind recorded, and the
  recorded kinds are labels of the three classes, each once and in order.
\<close>

theorem redaction_recorded:
  "(rx_text (redact_for_disclosure input) \<noteq> input \<longrightarrow> redacted (redact_for_disclosure input)) \<and>
   sorted (rx_kinds (redact_for_disclosure input)) \<and> distinct (rx_kinds (redact_for_disclosure input)) \<and>
   set (rx_kinds (redact_for_disclosure input)) \<subseteq> {REDACTION_ABSOLUTE_PATH, REDACTION_RELATIVE_PATH, REDACTION_SECRET}"
proof -
  obtain outs kinds where run: "redact_tokens (split_char (CHR '' '') input) Unarmed [] = (outs, kinds)"
    and r: "rx_kinds (redact_for_disclosure input) = kinds" "rx_text (redact_for_disclosure input) = join '' '' outs"
    by (rule redacted_tokens)
  from recorded_along [OF record_kinds.tokens_along [OF run]]
  have "sorted kinds \<and> distinct kinds \<and> set kinds \<subseteq> kind_labels" "kinds = [] \<longrightarrow> outs = split_char (CHR '' '') input"
    by simp_all
  with r show ?thesis by (auto simp: redacted_def kind_labels_def split_char_join)
qed

section \<open>Bearer tokens\<close>

lemma redact_step:
  "\<exists>out arm' kinds1 outs kinds'. redact_tokens (t # tokens) arm kinds = (out # outs, kinds') \<and>
     redact_tokens tokens arm' kinds1 = (outs, kinds') \<and>
     (t = SELF_EVIDENT_AUTH_SCHEME \<longrightarrow> arm' = Certain) \<and> (t = [] \<longrightarrow> arm' = arm) \<and>
     (arm = Certain \<and> t \<noteq> [] \<and> \<not> is_auth_scheme t \<longrightarrow> out = SECRET_PLACEHOLDER \<and> REDACTION_SECRET \<in> set kinds1)"
proof -
  have bearer: "SELF_EVIDENT_AUTH_SCHEME \<noteq> []" "is_auth_scheme SELF_EVIDENT_AUTH_SCHEME"
    "is_canonical_auth_scheme SELF_EVIDENT_AUTH_SCHEME" "redact_token SELF_EVIDENT_AUTH_SCHEME nxt kinds = (keep_and_arm Certain, kinds)" for nxt
  proof -
    show "SELF_EVIDENT_AUTH_SCHEME \<noteq> []" "is_auth_scheme SELF_EVIDENT_AUTH_SCHEME"
      "is_canonical_auth_scheme SELF_EVIDENT_AUTH_SCHEME" by code_simp+
    have "split_once (CHR ''='') SELF_EVIDENT_AUTH_SCHEME = None" "split_once (CHR '':'') SELF_EVIDENT_AUTH_SCHEME = None"
      "unwrap_token SELF_EVIDENT_AUTH_SCHEME = SELF_EVIDENT_AUTH_SCHEME"
      by code_simp+
    then show "redact_token SELF_EVIDENT_AUTH_SCHEME nxt kinds = (keep_and_arm Certain, kinds)"
      by (simp add: redact_token_def redact_assignment_def redact_word_def)
  qed
  show ?thesis
  proof (cases "t = SELF_EVIDENT_AUTH_SCHEME")
    case True
    then show ?thesis using bearer by (cases arm) (auto simp: keep_and_arm_def split: prod.split)
  next
    case False
    have kinds: "REDACTION_SECRET \<in> set (insort_insert REDACTION_SECRET kinds)" by (simp add: set_insort_insert)
    show ?thesis
    proof (cases "t = [] \<or> is_auth_scheme t")
      case True
      with False show ?thesis by (cases arm) (auto split: prod.split)
    next
      case no: False
      show ?thesis
      proof (cases "arm = Certain")
        case True
        obtain outs kinds' where "redact_tokens tokens Unarmed (insort_insert REDACTION_SECRET kinds) = (outs, kinds')" by force
        with True no False kinds show ?thesis
          by (intro exI [of _ SECRET_PLACEHOLDER] exI [of _ Unarmed] exI [of _ "insort_insert REDACTION_SECRET kinds"]
              exI [of _ outs] exI [of _ kinds']) simp
      next
        case not_certain: False
        with no False show ?thesis by (cases arm) (auto split: prod.split)
      qed
    qed
  qed
qed

lemma blanks_keep_arm:
  assumes "v \<noteq> []" "\<not> is_auth_scheme v"
  shows "redact_tokens (replicate n [] @ v # post) Certain kinds = (outs, kinds') \<Longrightarrow>
    outs ! n = SECRET_PLACEHOLDER \<and> REDACTION_SECRET \<in> set kinds'"
proof (induction n arbitrary: outs)
  case 0
  obtain out arm' kinds1 outs' where s: "outs = out # outs'" "redact_tokens post arm' kinds1 = (outs', kinds')"
    "out = SECRET_PLACEHOLDER" "REDACTION_SECRET \<in> set kinds1"
    using redact_step [of v post Certain kinds] 0 assms by auto
  then show ?case using kinds_grow [OF record_kinds.tokens_along [OF s(2)]] by auto
next
  case (Suc n)
  then obtain outs' where "outs = [] # outs'" "redact_tokens (replicate n [] @ v # post) Certain kinds = (outs', kinds')"
    by (auto split: prod.splits)
  with Suc.IH show ?case by simp
qed

lemma bearer_armed:
  assumes "v \<noteq> []" "\<not> is_auth_scheme v"
  shows "redact_tokens (pre @ SELF_EVIDENT_AUTH_SCHEME # replicate n [] @ v # post) arm kinds = (outs, kinds') \<Longrightarrow>
    outs ! (length pre + 1 + n) = SECRET_PLACEHOLDER \<and> REDACTION_SECRET \<in> set kinds'"
proof (induction pre arbitrary: arm kinds outs)
  case Nil
  obtain out kinds1 outs' where "outs = out # outs'"
    "redact_tokens (replicate n [] @ v # post) Certain kinds1 = (outs', kinds')"
    using redact_step [of SELF_EVIDENT_AUTH_SCHEME "replicate n [] @ v # post" arm kinds] Nil by auto
  then show ?case using blanks_keep_arm [OF assms] by simp
next
  case (Cons t pre)
  obtain out arm' kinds1 outs' where "outs = out # outs'"
    "redact_tokens (pre @ SELF_EVIDENT_AUTH_SCHEME # replicate n [] @ v # post) arm' kinds1 = (outs', kinds')"
    using redact_step [of t "pre @ SELF_EVIDENT_AUTH_SCHEME # replicate n [] @ v # post" arm kinds] Cons.prems by auto
  then show ?case using Cons.IH by simp
qed

text \<open>
  Whatever stands before it, the first token after the word Bearer is removed and recorded as a secret, also
  across several blanks, unless it is itself a scheme word.
\<close>

theorem bearer_value_redacted:
  assumes "split_char (CHR '' '') input = pre @ ''Bearer'' # replicate n [] @ v # post"
    and "v \<noteq> []" and "\<not> is_auth_scheme v"
  shows "split_char (CHR '' '') (rx_text (redact_for_disclosure input)) ! (length pre + 1 + n) = ''<redacted>'' \<and>
    ''secret'' \<in> set (rx_kinds (redact_for_disclosure input))"
proof -
  obtain outs kinds where run: "redact_tokens (split_char (CHR '' '') input) Unarmed [] = (outs, kinds)"
    and r: "rx_kinds (redact_for_disclosure input) = kinds"
      "split_char (CHR '' '') (rx_text (redact_for_disclosure input)) = outs"
    by (rule redacted_tokens)
  from bearer_armed [OF assms(2,3), of pre n post Unarmed "[]" outs kinds] run assms(1) r show ?thesis
    by (simp add: SELF_EVIDENT_AUTH_SCHEME_def SECRET_PLACEHOLDER_def REDACTION_SECRET_def)
qed

theorem bearer_value_redacted_witness:
  "split_char (CHR '' '') (rx_text (redact_for_disclosure ''curl Authorization: Bearer qqq now'')) ! 3 = ''<redacted>''"
proof -
  have tokens: "split_char (CHR '' '') ''curl Authorization: Bearer qqq now'' =
      [''curl'', ''Authorization:''] @ ''Bearer'' # replicate 0 [] @ ''qqq'' # [''now'']" by code_simp
  have plain: "''qqq'' \<noteq> []" "\<not> is_auth_scheme ''qqq''" by code_simp+
  from bearer_value_redacted [OF tokens plain] show ?thesis by (simp add: numeral_3_eq_3)
qed

section \<open>Concrete texts\<close>


theorem redaction_recorded_witness:
  "redacted (redact_for_disclosure ''see crates/tui/src/main.rs'')"
proof -
  have "rx_text (redact_for_disclosure ''see crates/tui/src/main.rs'') \<noteq> ''see crates/tui/src/main.rs''" by code_simp
  with redaction_recorded [of "''see crates/tui/src/main.rs''"] show ?thesis by blast
qed

text \<open>
  A path in front of a separator is kept: in a volume mount or a search path only the part after the first
  colon is judged, a file whose path contains a secret marker keeps its path in front of a line number, and
  with an empty value nothing is removed or recorded at all.
\<close>

theorem path_before_separator_survives:
  "rx_text (redact_for_disclosure ''/home/alice/src:/work'') = ''/home/alice/src:<path>''"
  "rx_text (redact_for_disclosure ''/home/alice/tokenizer.rs:12'') = ''/home/alice/tokenizer.rs:<redacted>''"
  "rx_text (redact_for_disclosure ''/home/alice/tokenizer.rs: bad'') = ''/home/alice/tokenizer.rs: bad''"
  "\<not> redacted (redact_for_disclosure ''/home/alice/tokenizer.rs: bad'')"
  "classify_path ''/home/alice/tokenizer.rs:'' = Some REDACTION_ABSOLUTE_PATH"
  by code_simp+

text \<open>So does a prefixed credential in front of a path.\<close>

theorem credential_before_path_survives:
  "rx_text (redact_for_disclosure ''sk-live-1:/tmp/x'') = ''sk-live-1:<path>''"
  by code_simp

end
