(* ===== verification/Model_Policy.thy ===== *)
theory Model_Policy
  imports Workflow_Plan
begin

text \<open>
  Model policies (\<open>workflow/src/model_policy.rs\<close>): which configured model a role runs on, and the single repair
  pass over the JSON text a model answers. The JSON parser of \<open>serde_json\<close> is a parameter; it is only asked
  whether it accepts a text, or for the value and the message of its refusal.
\<close>

section \<open>Models\<close>

datatype ModelRole = Planner | LeafReasoner | Implementer | Reviewer | Teacher | Student | JsonExtractor

text \<open>The derived order is that of the declaration.\<close>

fun role_rank :: "ModelRole \<Rightarrow> nat" where
  "role_rank Planner = 0"
| "role_rank LeafReasoner = 1"
| "role_rank Implementer = 2"
| "role_rank Reviewer = 3"
| "role_rank Teacher = 4"
| "role_rank Student = 5"
| "role_rank JsonExtractor = 6"

lemma role_rank_inject: "role_rank a = role_rank b \<longleftrightarrow> a = b"
  by (cases a; cases b) simp_all

instantiation ModelRole :: linorder
begin

definition less_eq_ModelRole :: "ModelRole \<Rightarrow> ModelRole \<Rightarrow> bool" where
  "less_eq_ModelRole a b \<longleftrightarrow> role_rank a \<le> role_rank b"

definition less_ModelRole :: "ModelRole \<Rightarrow> ModelRole \<Rightarrow> bool" where
  "less_ModelRole a b \<longleftrightarrow> role_rank a < role_rank b"

instance
  by standard (auto simp: less_eq_ModelRole_def less_ModelRole_def simp flip: role_rank_inject)

end

fun role_of_agent :: "AgentType \<Rightarrow> ModelRole" where
  "role_of_agent AgentType.General = LeafReasoner"
| "role_of_agent AgentType.Explore = LeafReasoner"
| "role_of_agent AgentType.Plan = Planner"
| "role_of_agent AgentType.Review = Reviewer"
| "role_of_agent AgentType.Verifier = Reviewer"
| "role_of_agent AgentType.Implementer = Implementer"

record ModelCapabilities =
  mc_tool_calls :: bool
  mc_json_mode :: bool
  mc_prompt_cache :: bool
  mc_large_context :: bool
  mc_streaming :: bool

definition satisfies :: "ModelCapabilities \<Rightarrow> ModelCapabilities \<Rightarrow> bool" where
  "satisfies c required \<longleftrightarrow>
     (\<not> mc_tool_calls required \<or> mc_tool_calls c) \<and> (\<not> mc_json_mode required \<or> mc_json_mode c) \<and>
     (\<not> mc_prompt_cache required \<or> mc_prompt_cache c) \<and> (\<not> mc_large_context required \<or> mc_large_context c) \<and>
     (\<not> mc_streaming required \<or> mc_streaming c)"

record ProviderModel =
  pm_provider :: string
  pm_model :: string
  pm_capabilities :: ModelCapabilities

datatype ModelSelectionSource = Primary | Fallback | RoleDefault

record ResolvedModel =
  rm_role :: ModelRole
  rm_provider :: string
  rm_model :: string
  rm_capabilities :: ModelCapabilities
  rm_source :: ModelSelectionSource

record ProviderRegistry =
  rg_models :: "(string, ProviderModel) btree_map"
  rg_role_policies :: "(ModelRole, ModelPolicy) btree_map"

datatype ModelPolicyError =
    MissingPolicy ModelRole
  | MissingModel
  | MissingFallbackProvider string
  | NoCapableModel ModelRole "string list"

definition model_key :: "string \<Rightarrow> string \<Rightarrow> string" where
  "model_key provider model = provider @ ''/'' @ model"

definition registry_new :: ProviderRegistry where
  "registry_new = \<lparr>rg_models = [], rg_role_policies = []\<rparr>"

definition insert_model :: "ProviderModel \<Rightarrow> ProviderRegistry \<Rightarrow> ProviderRegistry" where
  "insert_model m r = r\<lparr>rg_models := bt_insert (model_key (pm_provider m) (pm_model m)) m (rg_models r)\<rparr>"

definition with_role_policy :: "ModelRole \<Rightarrow> ModelPolicy \<Rightarrow> ProviderRegistry \<Rightarrow> ProviderRegistry" where
  "with_role_policy role policy r = r\<lparr>rg_role_policies := bt_insert role policy (rg_role_policies r)\<rparr>"

section \<open>Resolution\<close>

text \<open>A candidate is its provider and its model.\<close>

definition candidate_from_model :: "string option \<Rightarrow> string \<Rightarrow> ModelPolicyError + string \<times> string" where
  "candidate_from_model default_provider model =
     (case split_once (CHR ''/'') model of
        Some (provider, m) \<Rightarrow> Inr (provider, m)
      | None \<Rightarrow>
          (case default_provider of
             None \<Rightarrow> Inl (MissingFallbackProvider model)
           | Some provider \<Rightarrow> Inr (provider, model)))"

definition model_candidates :: "ModelPolicy \<Rightarrow> ModelPolicyError + (string \<times> string) list" where
  "model_candidates policy =
     (case mp_model policy of
        None \<Rightarrow> Inl MissingModel
      | Some primary \<Rightarrow> try_map (candidate_from_model (mp_provider policy)) (primary # mp_fallback_models policy))"

text \<open>The loop over the candidates, with the source of the next one and what was rejected.\<close>

fun try_candidates ::
  "ProviderRegistry \<Rightarrow> ModelRole \<Rightarrow> ModelCapabilities \<Rightarrow> ModelSelectionSource \<Rightarrow> (string \<times> string) list \<Rightarrow> string list \<Rightarrow>
   ModelPolicyError + ResolvedModel" where
  "try_candidates r role required source [] rejected = Inl (NoCapableModel role rejected)"
| "try_candidates r role required source (c # cs) rejected =
     (case bt_get (rg_models r) (model_key (fst c) (snd c)) of
        None \<Rightarrow> try_candidates r role required Fallback cs (rejected @ [fst c @ ''/'' @ snd c @ '': unknown''])
      | Some m \<Rightarrow>
          if satisfies (pm_capabilities m) required
          then Inr \<lparr>rm_role = role, rm_provider = pm_provider m, rm_model = pm_model m,
            rm_capabilities = pm_capabilities m, rm_source = source\<rparr>
          else try_candidates r role required Fallback cs
            (rejected @ [pm_provider m @ ''/'' @ pm_model m @ '': missing required capabilities'']))"

definition resolve_policy ::
  "ProviderRegistry \<Rightarrow> ModelRole \<Rightarrow> ModelPolicy \<Rightarrow> ModelSelectionSource \<Rightarrow> ModelCapabilities \<Rightarrow> ModelPolicyError + ResolvedModel" where
  "resolve_policy r role policy primary_source required =
     try_bind (model_candidates policy) (\<lambda>cs. try_candidates r role required primary_source cs [])"

definition resolve_role ::
  "ProviderRegistry \<Rightarrow> ModelRole \<Rightarrow> ModelPolicy option \<Rightarrow> ModelCapabilities \<Rightarrow> ModelPolicyError + ResolvedModel" where
  "resolve_role r role policy required =
     (case policy of
        Some p \<Rightarrow> resolve_policy r role p Primary required
      | None \<Rightarrow>
          (case bt_get (rg_role_policies r) role of
             None \<Rightarrow> Inl (MissingPolicy role)
           | Some p \<Rightarrow> resolve_policy r role p RoleDefault required))"

section \<open>JSON repair\<close>

definition JSON_REPAIR_CANDIDATE_LIMIT :: nat where
  "JSON_REPAIR_CANDIDATE_LIMIT = 64"

text \<open>
  The scan of one candidate: the stack of open brackets, and whether the position is inside a string and
  behind a backslash. The result is the text up to and including the bracket that empties the stack.
\<close>

definition opens :: "char \<Rightarrow> bool" where
  "opens c \<longleftrightarrow> c = CHR ''{'' \<or> c = CHR ''[''"

definition closes :: "char \<Rightarrow> bool" where
  "closes c \<longleftrightarrow> c = CHR ''}'' \<or> c = CHR '']''"

definition expected_open :: "char \<Rightarrow> char" where
  "expected_open c = (if c = CHR ''}'' then CHR ''{'' else CHR ''['')"

fun balanced_scan :: "char list \<Rightarrow> bool \<Rightarrow> bool \<Rightarrow> string \<Rightarrow> string option" where
  "balanced_scan stack in_string escaped [] = None"
| "balanced_scan stack in_string escaped (c # s) =
     (if in_string then
        map_option ((#) c)
          (if escaped then balanced_scan stack True False s
           else if c = CHR 0x5C then balanced_scan stack True True s
           else if c = CHR 0x22 then balanced_scan stack False False s
           else balanced_scan stack True False s)
      else if c = CHR 0x22 then map_option ((#) c) (balanced_scan stack True escaped s)
      else if opens c then map_option ((#) c) (balanced_scan (c # stack) False escaped s)
      else if closes c then
        (case stack of
           [] \<Rightarrow> None
         | bracket # rest \<Rightarrow>
             if bracket \<noteq> expected_open c then None
             else if rest = [] then Some [c]
             else map_option ((#) c) (balanced_scan rest False escaped s))
      else map_option ((#) c) (balanced_scan stack False escaped s))"

definition balanced_json_payload :: "string \<Rightarrow> string option" where
  "balanced_json_payload raw = balanced_scan [] False False raw"

text \<open>\<open>accepts\<close> is whether \<open>serde_json\<close> parses a text; the first argument counts the containers tried.\<close>

fun first_payload_from :: "(string \<Rightarrow> bool) \<Rightarrow> nat \<Rightarrow> string \<Rightarrow> string option" where
  "first_payload_from accepts attempted [] = None"
| "first_payload_from accepts attempted (c # s) =
     (if \<not> opens c then first_payload_from accepts attempted s
      else if attempted + 1 > JSON_REPAIR_CANDIDATE_LIMIT then None
      else case balanced_json_payload (c # s) of
          None \<Rightarrow> first_payload_from accepts (attempted + 1) s
        | Some candidate \<Rightarrow> if accepts candidate then Some candidate else first_payload_from accepts (attempted + 1) s)"

definition first_valid_json_payload :: "(string \<Rightarrow> bool) \<Rightarrow> string \<Rightarrow> string option" where
  "first_valid_json_payload accepts raw = first_payload_from accepts 0 raw"

definition fence :: string where
  "fence = [CHR 0x60, CHR 0x60, CHR 0x60]"

definition without_fence :: "string \<Rightarrow> string" where
  "without_fence trimmed =
     (case option_or (strip_prefix trimmed (fence @ ''json'')) (strip_prefix trimmed fence) of
        None \<Rightarrow> trimmed
      | Some v \<Rightarrow> (case strip_suffix v fence of Some body \<Rightarrow> trim body | None \<Rightarrow> trimmed))"

definition repair_json_text_once :: "(string \<Rightarrow> bool) \<Rightarrow> string \<Rightarrow> string" where
  "repair_json_text_once accepts raw =
     (let body = without_fence (trim raw)
      in case first_valid_json_payload accepts body of Some p \<Rightarrow> p | None \<Rightarrow> body)"

text \<open>\<open>from_str\<close> is \<open>serde_json::from_str\<close> at the type asked for, its error as text.\<close>

definition parse_json_with_repair :: "(string \<Rightarrow> string + 'a) \<Rightarrow> (string \<Rightarrow> bool) \<Rightarrow> string \<Rightarrow> string + 'a" where
  "parse_json_with_repair from_str accepts raw =
     (case from_str raw of
        Inr parsed \<Rightarrow> Inr parsed
      | Inl first \<Rightarrow>
          (case from_str (repair_json_text_once accepts raw) of
             Inr parsed \<Rightarrow> Inr parsed
           | Inl second \<Rightarrow> Inl (first @ ''; repair failed: '' @ second)))"

end
