(* ===== verification/Model_Policy_Props.thy ===== *)
theory Model_Policy_Props
  imports Model_Policy Str_Lemmas
begin

text \<open>
  What resolution and repair guarantee: a role gets the first of its candidates that is configured and
  capable, and the scan for embedded JSON finds exactly the texts of a grammar of nested brackets and strings.
\<close>

section \<open>Registries\<close>

inductive registry :: "ProviderRegistry \<Rightarrow> bool" where
  new: "registry registry_new"
| model: "registry r \<Longrightarrow> registry (insert_model m r)"
| policy: "registry r \<Longrightarrow> registry (with_role_policy role p r)"

definition keyed :: "ProviderRegistry \<Rightarrow> bool" where
  "keyed r \<longleftrightarrow> bt_ok (rg_models r) \<and>
     (\<forall>k m. bt_get (rg_models r) k = Some m \<longrightarrow> k = model_key (pm_provider m) (pm_model m))"

lemma registry_keyed: "registry r \<Longrightarrow> keyed r"
proof (induction rule: registry.induct)
  case (model r m)
  then show ?case by (auto simp: keyed_def insert_model_def bt_ok_insert)
qed (auto simp: keyed_def registry_new_def with_role_policy_def)

section \<open>Resolution\<close>

text \<open>The model a candidate stands for, if it is configured and capable.\<close>

definition capable :: "ProviderRegistry \<Rightarrow> ModelCapabilities \<Rightarrow> string \<times> string \<Rightarrow> ProviderModel option" where
  "capable r required c =
     (case bt_get (rg_models r) (model_key (fst c) (snd c)) of
        Some m \<Rightarrow> if satisfies (pm_capabilities m) required then Some m else None
      | None \<Rightarrow> None)"

definition selected_model :: "ModelRole \<Rightarrow> ModelSelectionSource \<Rightarrow> ProviderModel \<Rightarrow> ResolvedModel" where
  "selected_model role source m = \<lparr>rm_role = role, rm_provider = pm_provider m, rm_model = pm_model m,
     rm_capabilities = pm_capabilities m, rm_source = source\<rparr>"

lemma try_candidates_Cons:
  "capable r required c = Some pm \<Longrightarrow>
     try_candidates r role required source (c # cs) rejected = Inr (selected_model role source pm)"
  "capable r required c = None \<Longrightarrow>
     \<exists>reason. try_candidates r role required source (c # cs) rejected =
       try_candidates r role required Fallback cs (rejected @ [reason])"
  by (auto simp: capable_def selected_model_def split: option.splits if_splits)

lemma try_candidates_Inr:
  "try_candidates r role required source cs rejected = Inr m \<Longrightarrow>
     \<exists>before c after pm. cs = before @ c # after \<and> (\<forall>b \<in> set before. capable r required b = None) \<and>
        capable r required c = Some pm \<and> m = selected_model role (if before = [] then source else Fallback) pm"
proof (induction cs arbitrary: source rejected)
  case (Cons c cs)
  show ?case
  proof (cases "capable r required c")
    case (Some pm)
    then have "m = selected_model role source pm" using Cons.prems try_candidates_Cons(1) [OF Some] by simp
    with Some show ?thesis by (intro exI [of _ "[]"]) auto
  next
    case None
    then obtain reason where "try_candidates r role required Fallback cs (rejected @ [reason]) = Inr m"
      using Cons.prems try_candidates_Cons(2) [OF None] by metis
    from Cons.IH [OF this] obtain before d after pm where
      "cs = before @ d # after" "\<forall>b \<in> set before. capable r required b = None" "capable r required d = Some pm"
      "m = selected_model role Fallback pm" by auto
    with None show ?thesis by (intro exI [of _ "c # before"] exI [of _ d] exI [of _ after] exI [of _ pm]) auto
  qed
qed simp

lemma try_candidates_Inl:
  "try_candidates r role required source cs rejected = Inl e \<Longrightarrow>
     (\<forall>c \<in> set cs. capable r required c = None) \<and> (\<exists>rs. e = NoCapableModel role rs \<and> length rs = length rejected + length cs)"
proof (induction cs arbitrary: source rejected)
  case (Cons c cs)
  show ?case
  proof (cases "capable r required c")
    case (Some pm)
    then show ?thesis using Cons.prems try_candidates_Cons(1) [OF Some] by simp
  next
    case None
    then obtain reason where "try_candidates r role required Fallback cs (rejected @ [reason]) = Inl e"
      using Cons.prems try_candidates_Cons(2) [OF None] by metis
    from Cons.IH [OF this] None show ?thesis by simp
  qed
qed auto

text \<open>The policy a role resolves with, and the source of its first candidate.\<close>

definition policy_of :: "ProviderRegistry \<Rightarrow> ModelRole \<Rightarrow> ModelPolicy option \<Rightarrow> (ModelPolicy \<times> ModelSelectionSource) option" where
  "policy_of r role policy = (case policy of Some p \<Rightarrow> Some (p, Primary)
     | None \<Rightarrow> map_option (\<lambda>p. (p, RoleDefault)) (bt_get (rg_role_policies r) role))"

text \<open>
  A resolved model is configured under the name of a candidate of the policy, has every capability that is
  asked for, and is the first such candidate in the order primary, then fallbacks; it is reported as a
  fallback exactly if it is not the first candidate. When no candidate is configured and capable the error
  gives one reason for each.
\<close>

theorem resolve_role_first_capable:
  assumes "registry r" and "policy_of r role policy = Some (p, source)" and "model_candidates p = Inr cs"
  shows "(\<forall>m. resolve_role r role policy required = Inr m \<longrightarrow>
      (\<exists>before c after pm. cs = before @ c # after \<and> (\<forall>b \<in> set before. capable r required b = None) \<and>
         pm \<in> set (bt_values (rg_models r)) \<and> model_key (rm_provider m) (rm_model m) = model_key (fst c) (snd c) \<and>
         satisfies (rm_capabilities m) required \<and>
         m = selected_model role (if before = [] then source else Fallback) pm)) \<and>
    (\<forall>e. resolve_role r role policy required = Inl e \<longrightarrow>
      (\<forall>c \<in> set cs. capable r required c = None) \<and> (\<exists>rs. e = NoCapableModel role rs \<and> length rs = length cs))"
proof -
  have run: "resolve_role r role policy required = try_candidates r role required source cs []"
    using assms(2,3) by (auto simp: resolve_role_def resolve_policy_def policy_of_def split: option.splits)
  show ?thesis
  proof (intro conjI allI impI)
    fix m
    assume "resolve_role r role policy required = Inr m"
    from try_candidates_Inr [OF this [unfolded run]] obtain before c after pm where
      c: "cs = before @ c # after" "\<forall>b \<in> set before. capable r required b = None" "capable r required c = Some pm"
      "m = selected_model role (if before = [] then source else Fallback) pm" by blast
    have get: "bt_get (rg_models r) (model_key (fst c) (snd c)) = Some pm" and "satisfies (pm_capabilities pm) required"
      using c(3) by (auto simp: capable_def split: option.splits if_splits)
    moreover have "model_key (pm_provider pm) (pm_model pm) = model_key (fst c) (snd c)"
      using registry_keyed [OF assms(1)] get by (auto simp: keyed_def)
    moreover have "pm \<in> set (bt_values (rg_models r))"
      using map_of_SomeD [OF get] by (force simp: bt_values_def)
    ultimately show "\<exists>before c after pm. cs = before @ c # after \<and> (\<forall>b \<in> set before. capable r required b = None) \<and>
         pm \<in> set (bt_values (rg_models r)) \<and> model_key (rm_provider m) (rm_model m) = model_key (fst c) (snd c) \<and>
         satisfies (rm_capabilities m) required \<and>
         m = selected_model role (if before = [] then source else Fallback) pm"
      using c by (intro exI [of _ before] exI [of _ c] exI [of _ after] exI [of _ pm]) (simp add: selected_model_def)
  next
    fix e
    assume "resolve_role r role policy required = Inl e"
    from try_candidates_Inl [OF this [unfolded run]]
    show "\<forall>c \<in> set cs. capable r required c = None" and "\<exists>rs. e = NoCapableModel role rs \<and> length rs = length cs" by simp_all
  qed
qed

text \<open>
  The provider of a policy does not count for a model whose id has a slash: the part before the slash is taken
  for the provider, so the same policy resolves the same way whatever provider it names.
\<close>

theorem slash_model_ignores_provider:
  assumes "CHR ''/'' \<in> set model"
  shows "candidate_from_model (Some provider) model = candidate_from_model (Some provider') model"
proof -
  have "split_once (CHR ''/'') model \<noteq> None" using assms by (induction model) auto
  then show ?thesis by (auto simp: candidate_from_model_def)
qed

definition no_capabilities :: ModelCapabilities where
  "no_capabilities = \<lparr>mc_tool_calls = False, mc_json_mode = False, mc_prompt_cache = False, mc_large_context = False,
     mc_streaming = False\<rparr>"

definition aggregator_registry :: ProviderRegistry where
  "aggregator_registry = insert_model \<lparr>pm_provider = ''openrouter'', pm_model = ''deepseek/v4'', pm_capabilities = no_capabilities\<rparr>
     (insert_model \<lparr>pm_provider = ''zai'', pm_model = ''glm'', pm_capabilities = no_capabilities\<rparr> registry_new)"

theorem aggregator_model_not_found:
  "resolve_role aggregator_registry Planner
     (Some \<lparr>mp_provider = Some ''openrouter'', mp_model = Some ''deepseek/v4'', mp_fallback_models = []\<rparr>) no_capabilities =
   Inl (NoCapableModel Planner [''deepseek/v4: unknown''])"
  by code_simp

theorem resolve_role_first_capable_witness:
  "resolve_role aggregator_registry Planner
     (Some \<lparr>mp_provider = Some ''zai'', mp_model = Some ''none'', mp_fallback_models = [''glm'']\<rparr>) no_capabilities =
   Inr \<lparr>rm_role = Planner, rm_provider = ''zai'', rm_model = ''glm'', rm_capabilities = no_capabilities, rm_source = Fallback\<rparr> \<and>
   capable aggregator_registry no_capabilities (''zai'', ''none'') = None"
proof -
  let ?p = "\<lparr>mp_provider = Some ''zai'', mp_model = Some ''none'', mp_fallback_models = [''glm'']\<rparr>"
  have reg: "registry aggregator_registry" unfolding aggregator_registry_def by (intro registry.intros)
  have pol: "policy_of aggregator_registry Planner (Some ?p) = Some (?p, Primary)" by (simp add: policy_of_def)
  have cs: "model_candidates ?p = Inr [(''zai'', ''none''), (''zai'', ''glm'')]" by code_simp
  have run: "resolve_role aggregator_registry Planner (Some ?p) no_capabilities =
      Inr \<lparr>rm_role = Planner, rm_provider = ''zai'', rm_model = ''glm'', rm_capabilities = no_capabilities, rm_source = Fallback\<rparr>"
    by code_simp
  from resolve_role_first_capable [OF reg pol cs, of no_capabilities] run
  obtain before c after pm where "[(''zai'', ''none''), (''zai'', ''glm'')] = before @ c # after"
    "\<forall>b \<in> set before. capable aggregator_registry no_capabilities b = None"
    "Fallback = (if before = [] then Primary else Fallback)"
    by (auto simp: selected_model_def)
  then have "capable aggregator_registry no_capabilities (''zai'', ''none'') = None"
    by (cases before) auto
  with run show ?thesis by blast
qed

end
