(* ===== verification/Json_Repair.thy ===== *)
theory Json_Repair
  imports Model_Policy Str_Lemmas
begin

text \<open>
  What the repair of JSON text finds. The scan of one candidate accepts exactly the texts of a grammar of nested
  brackets and string literals; the search is the first accepted one among the first 64 starts; and the
  repaired text is always a part of the text the model answered.
\<close>

section \<open>The grammar\<close>

text \<open>The rest of a string literal, with its closing quote; the flag is whether a backslash precedes.\<close>

fun string_tail :: "bool \<Rightarrow> string \<Rightarrow> bool" where
  "string_tail escaped [] = False"
| "string_tail escaped (c # s) =
     (if escaped then string_tail False s
      else if c = CHR 0x5C then string_tail True s
      else if c = CHR 0x22 then s = []
      else string_tail False s)"

definition plain :: "char \<Rightarrow> bool" where
  "plain c \<longleftrightarrow> c \<noteq> CHR 0x22 \<and> \<not> opens c \<and> \<not> closes c"

inductive payload :: "string \<Rightarrow> bool" and body :: "string \<Rightarrow> bool" where
  container: "opens a \<Longrightarrow> closes c \<Longrightarrow> expected_open c = a \<Longrightarrow> body b \<Longrightarrow> payload (a # b @ [c])"
| empty: "body []"
| char: "plain c \<Longrightarrow> body b \<Longrightarrow> body (c # b)"
| literal: "string_tail False l \<Longrightarrow> body b \<Longrightarrow> body (CHR 0x22 # l @ b)"
| nested: "payload p \<Longrightarrow> body b \<Longrightarrow> body (p @ b)"

lemma body_append: "body a \<Longrightarrow> body b \<Longrightarrow> body (a @ b)"
proof (induction rule: payload_body.inducts(2) [where ?P1.0 = "\<lambda>_. True"])
  case (literal l b')
  then show ?case using payload_body.literal [of l "b' @ b"] by simp
next
  case (nested p b')
  then show ?case using payload_body.nested [of p "b' @ b"] by simp
qed (simp_all add: payload_body.char)

lemma bracket_facts:
  "opens a \<Longrightarrow> a \<noteq> CHR 0x22 \<and> \<not> closes a" "closes c \<Longrightarrow> c \<noteq> CHR 0x22 \<and> \<not> opens c" "opens (expected_open c)"
  by (auto simp: opens_def closes_def expected_open_def)

section \<open>The scan accepts the grammar\<close>

lemma scan_string:
  "string_tail escaped l \<Longrightarrow>
     balanced_scan stack True escaped (l @ s) = map_option ((@) l) (balanced_scan stack False False s)"
proof (induction l arbitrary: escaped)
  case (Cons c l)
  then show ?case by (auto simp: option.map_comp comp_def split: if_splits)
qed simp

lemma scan_grammar:
  "payload p \<Longrightarrow> \<forall>stack s. balanced_scan stack False False (p @ s) =
     (if stack = [] then Some p else map_option ((@) p) (balanced_scan stack False False s))"
  "body b \<Longrightarrow> \<forall>stack s. stack \<noteq> [] \<longrightarrow>
     balanced_scan stack False False (b @ s) = map_option ((@) b) (balanced_scan stack False False s)"
proof (induction rule: payload_body.inducts)
  case (container a c b)
  have shape: "(@) (a # b @ [c]) = (\<lambda>x. a # b @ c # x)" by (rule ext) simp
  show ?case
  proof (intro allI)
    fix stack s
    have "balanced_scan (a # stack) False False (b @ c # s) = map_option ((@) b) (balanced_scan (a # stack) False False (c # s))"
      using container.IH by simp
    also have "balanced_scan (a # stack) False False (c # s) =
        (if stack = [] then Some [c] else map_option ((#) c) (balanced_scan stack False False s))"
      using container.hyps bracket_facts(2) by simp
    finally show "balanced_scan stack False False ((a # b @ [c]) @ s) =
       (if stack = [] then Some (a # b @ [c]) else map_option ((@) (a # b @ [c])) (balanced_scan stack False False s))"
      using container.hyps bracket_facts(1) shape by (simp add: option.map_comp comp_def)
  qed
next
  case (char c b)
  then show ?case by (simp add: plain_def option.map_comp comp_def)
next
  case (literal l b)
  then show ?case by (simp add: scan_string option.map_comp comp_def)
next
  case (nested p b)
  then show ?case by (simp add: option.map_comp comp_def)
qed (simp add: option.map_ident)

section \<open>The grammar generates what the scan accepts\<close>

text \<open>What closes a stack of open brackets.\<close>

inductive closing :: "char list \<Rightarrow> string \<Rightarrow> bool" where
  last: "body b \<Longrightarrow> closes c \<Longrightarrow> expected_open c = a \<Longrightarrow> closing [a] (b @ [c])"
| more: "body b \<Longrightarrow> closes c \<Longrightarrow> expected_open c = a \<Longrightarrow> closing stack r \<Longrightarrow> closing (a # stack) (b @ c # r)"

inductive_cases closing_one: "closing [a] p"

lemma closing_not_Nil: "closing stack p \<Longrightarrow> stack \<noteq> []"
  by (induction rule: closing.induct) auto

lemma closing_prepend: "closing stack r \<Longrightarrow> body a \<Longrightarrow> closing stack (a @ r)"
proof (induction rule: closing.induct)
  case (last b c a')
  then show ?case using closing.last [OF body_append] by simp
next
  case (more b c a' stack r)
  then show ?case using closing.more [OF body_append] by simp
qed

lemma closing_nested:
  assumes "closing (a # stack) p" and "stack \<noteq> []" and "opens a"
  shows "closing stack (a # p)"
  using assms(1)
proof cases
  case (more b c r)
  have "body (a # b @ [c])"
    using payload_body.nested [OF payload_body.container payload_body.empty, of a c b] more assms(3) by simp
  from closing_prepend [OF more(5) this] show ?thesis by (simp add: more)
qed (use assms(2) in simp)

lemma scan_closing:
  "balanced_scan stack in_string escaped s = Some p \<Longrightarrow> stack \<noteq> [] \<Longrightarrow>
     (if in_string then \<exists>l r. p = l @ r \<and> string_tail escaped l \<and> closing stack r else escaped \<or> closing stack p)"
proof (induction stack in_string escaped s arbitrary: p rule: balanced_scan.induct)
  case (2 stack in_string escaped c s)
  show ?case
  proof (cases in_string)
    case True
    consider (esc) "escaped" | (slash) "\<not> escaped" "c = CHR 0x5C" | (quote) "\<not> escaped" "c = CHR 0x22"
      | (other) "\<not> escaped" "c \<noteq> CHR 0x5C" "c \<noteq> CHR 0x22" by blast
    then have "\<exists>l r. p = l @ r \<and> string_tail escaped l \<and> closing stack r"
    proof cases
      case esc
      with True "2.prems" obtain p' where p: "p = c # p'" "balanced_scan stack True False s = Some p'" by auto
      from "2.IH"(1) [OF True esc this(2) "2.prems"(2)] obtain l r where "p' = l @ r" "string_tail False l" "closing stack r" by auto
      with esc p show ?thesis by (intro exI [of _ "c # l"] exI [of _ r]) simp
    next
      case slash
      with True "2.prems" obtain p' where p: "p = c # p'" "balanced_scan stack True True s = Some p'" by auto
      from "2.IH"(2) [OF True slash this(2) "2.prems"(2)] obtain l r where "p' = l @ r" "string_tail True l" "closing stack r" by auto
      with slash p show ?thesis by (intro exI [of _ "c # l"] exI [of _ r]) simp
    next
      case quote
      with True "2.prems" obtain p' where p: "p = c # p'" "balanced_scan stack False False s = Some p'" by auto
      have "closing stack p'" using "2.IH"(3) [OF True quote(1) _ quote(2) p(2) "2.prems"(2)] quote(2) by simp
      with quote p show ?thesis by (intro exI [of _ "[c]"] exI [of _ p']) simp
    next
      case other
      with True "2.prems" obtain p' where p: "p = c # p'" "balanced_scan stack True False s = Some p'" by auto
      from "2.IH"(4) [OF True other this(2) "2.prems"(2)] obtain l r where "p' = l @ r" "string_tail False l" "closing stack r" by auto
      with other p show ?thesis by (intro exI [of _ "c # l"] exI [of _ r]) simp
    qed
    with True show ?thesis by simp
  next
    case False
    have "closing stack p" if esc: "\<not> escaped"
    proof -
      consider (quote) "c = CHR 0x22" | (opener) "c \<noteq> CHR 0x22" "opens c" | (closer) "c \<noteq> CHR 0x22" "\<not> opens c" "closes c"
        | (other) "c \<noteq> CHR 0x22" "\<not> opens c" "\<not> closes c" by blast
      then show ?thesis
      proof cases
        case quote
        with False "2.prems" obtain p' where p: "p = c # p'" "balanced_scan stack True escaped s = Some p'" by auto
        from "2.IH"(5) [OF False quote this(2) "2.prems"(2)] esc obtain l r where
          l: "p' = l @ r" "string_tail False l" "closing stack r" by auto
        from closing_prepend [OF l(3) payload_body.literal [OF l(2) payload_body.empty]] show ?thesis
          by (simp add: p l quote)
      next
        case opener
        with False "2.prems" obtain p' where p: "p = c # p'" "balanced_scan (c # stack) False escaped s = Some p'" by auto
        have "closing (c # stack) p'" using "2.IH"(6) [OF False opener p(2)] esc by simp
        from closing_nested [OF this "2.prems"(2) opener(2)] show ?thesis by (simp add: p)
      next
        case closer
        obtain a rest where stack: "stack = a # rest" using "2.prems"(2) by (cases stack) auto
        have a: "expected_open c = a" using closer False "2.prems"(1) stack by (auto split: if_splits)
        show ?thesis
        proof (cases "rest = []")
          case True
          then have "p = [c]" using closer False "2.prems"(1) stack a by simp
          then show ?thesis using closing.last [OF payload_body.empty closer(3) a] stack True by simp
        next
          case rest: False
          then obtain p' where p: "p = c # p'" "balanced_scan rest False escaped s = Some p'"
            using closer False "2.prems"(1) stack a by auto
          have "closing rest p'" using "2.IH"(7) [OF False closer stack _ rest p(2) rest] a esc by simp
          from closing.more [OF payload_body.empty closer(3) a this] show ?thesis by (simp add: p stack)
        qed
      next
        case other
        with False "2.prems" obtain p' where p: "p = c # p'" "balanced_scan stack False escaped s = Some p'" by auto
        have "closing stack p'" using "2.IH"(8) [OF False other p(2) "2.prems"(2)] esc by simp
        moreover have "body [c]" using payload_body.char [OF _ payload_body.empty, of c] other by (simp add: plain_def)
        ultimately show ?thesis using closing_prepend by (fastforce simp: p)
      qed
    qed
    with False show ?thesis by auto
  qed
qed simp

lemma scan_prefix: "balanced_scan stack in_string escaped s = Some p \<Longrightarrow> prefix p s"
proof (induction stack in_string escaped s arbitrary: p rule: balanced_scan.induct)
  case (2 stack in_string escaped c s)
  then show ?case by (auto split: if_splits list.splits)
qed simp

text \<open>The candidate of a text that starts with a bracket is its unique beginning in the grammar, if it has one.\<close>

theorem balanced_payload_grammar:
  assumes "opens a"
  shows "balanced_json_payload (a # s) = Some p \<longleftrightarrow> payload p \<and> prefix p (a # s)"
proof
  assume scan: "balanced_json_payload (a # s) = Some p"
  then obtain q where q: "p = a # q" "balanced_scan [a] False False s = Some q"
    using assms bracket_facts(1) by (auto simp: balanced_json_payload_def)
  then have "closing [a] q" using scan_closing by fastforce
  then obtain b c where "q = b @ [c]" "body b" "closes c" "expected_open c = a"
    by (auto elim!: closing_one dest: closing_not_Nil)
  then have "payload p" using q(1) assms by (auto intro: payload_body.container)
  moreover have "prefix p (a # s)" using scan unfolding balanced_json_payload_def by (rule scan_prefix)
  ultimately show "payload p \<and> prefix p (a # s)" ..
next
  assume "payload p \<and> prefix p (a # s)"
  then obtain r where "payload p" "a # s = p @ r" by (auto simp: prefix_def)
  then show "balanced_json_payload (a # s) = Some p" using scan_grammar(1) [of p] by (simp add: balanced_json_payload_def)
qed

section \<open>The search\<close>

fun tails :: "string \<Rightarrow> string list" where
  "tails [] = []"
| "tails (c # s) = (c # s) # tails s"

definition container_starts :: "string \<Rightarrow> string list" where
  "container_starts raw = filter (\<lambda>t. opens (hd t)) (tails raw)"

definition accepted_at :: "(string \<Rightarrow> bool) \<Rightarrow> string \<Rightarrow> string option" where
  "accepted_at accepts t = (case balanced_json_payload t of Some p \<Rightarrow> if accepts p then Some p else None | None \<Rightarrow> None)"

lemma first_payload_from_find:
  "n \<le> JSON_REPAIR_CANDIDATE_LIMIT \<Longrightarrow> first_payload_from accepts n raw =
     find_map (accepted_at accepts) (take (JSON_REPAIR_CANDIDATE_LIMIT - n) (container_starts raw))"
proof (induction accepts n raw rule: first_payload_from.induct)
  case (2 accepts n c s)
  show ?case
  proof (cases "opens c \<and> n < JSON_REPAIR_CANDIDATE_LIMIT")
    case True
    then have "JSON_REPAIR_CANDIDATE_LIMIT - n = Suc (JSON_REPAIR_CANDIDATE_LIMIT - (n + 1))" by (simp add: Suc_diff_Suc)
    with True 2 show ?thesis by (simp add: container_starts_def accepted_at_def split: option.split)
  next
    case False
    with 2 show ?thesis by (auto simp: container_starts_def)
  qed
qed (simp add: container_starts_def)

lemma first_valid_find:
  "first_valid_json_payload accepts raw =
     find_map (accepted_at accepts) (take JSON_REPAIR_CANDIDATE_LIMIT (container_starts raw))"
  using first_payload_from_find [of 0 accepts raw] by (simp add: first_valid_json_payload_def)

lemma tails_suffix: "t \<in> set (tails s) \<Longrightarrow> suffix t s \<and> t \<noteq> []"
  by (induction s) (auto simp: suffix_Cons)

lemma container_starts_append:
  "\<forall>c \<in> set pre. \<not> opens c \<Longrightarrow> container_starts (pre @ s) = container_starts s"
  by (induction pre) (simp_all add: container_starts_def)

lemma payload_opens: "payload p \<Longrightarrow> \<exists>a q. p = a # q \<and> opens a"
  by (cases rule: payload.cases) auto

lemma first_valid_part:
  assumes "first_valid_json_payload accepts raw = Some p"
  shows "payload p \<and> accepts p \<and> sublist p raw"
proof -
  obtain t where "t \<in> set (container_starts raw)" and t: "accepted_at accepts t = Some p"
    using assms find_map_Some [of "accepted_at accepts"] unfolding first_valid_find by (meson in_set_takeD)
  then have "suffix t raw" "t \<noteq> []" "opens (hd t)" by (auto simp: container_starts_def dest: tails_suffix)
  then obtain a s where s: "t = a # s" "opens a" by (cases t) auto
  then have "payload p \<and> prefix p t" "accepts p"
    using t balanced_payload_grammar [OF s(2)] by (auto simp: accepted_at_def split: option.splits if_splits)
  with \<open>suffix t raw\<close> show ?thesis by (auto simp: sublist_def prefix_def suffix_def)
qed

lemma first_valid_found:
  assumes "payload p" "accepts p" "\<forall>c \<in> set pre. \<not> opens c"
  shows "first_valid_json_payload accepts (pre @ p @ post) = Some p"
proof -
  obtain a q where a: "p = a # q" "opens a" using payload_opens [OF assms(1)] by blast
  have "balanced_json_payload (p @ post) = Some p"
    using balanced_payload_grammar [OF a(2), of "q @ post" p] assms(1) a(1) by simp
  then show ?thesis
    using assms(2) a container_starts_append [OF assms(3), of "p @ post"]
    by (simp add: first_valid_find container_starts_def accepted_at_def JSON_REPAIR_CANDIDATE_LIMIT_def take_Cons')
qed

text \<open>
  C27. The scan of a text that starts with a bracket yields exactly the beginning of it that belongs to the grammar
  of nested brackets and string literals. What the search returns is such a part of the text and accepted
  by the parser; and an accepted one behind text without brackets is always found, whatever follows it.
\<close>

theorem json_payload_exact:
  "(\<forall>a s p. opens a \<longrightarrow> balanced_json_payload (a # s) = Some p \<longleftrightarrow> payload p \<and> prefix p (a # s)) \<and>
   (\<forall>raw p. first_valid_json_payload accepts raw = Some p \<longrightarrow> payload p \<and> accepts p \<and> sublist p raw) \<and>
   (\<forall>pre p post. payload p \<and> accepts p \<and> (\<forall>c \<in> set pre. \<not> opens c) \<longrightarrow>
      first_valid_json_payload accepts (pre @ p @ post) = Some p)"
proof (intro conjI allI impI)
  show "balanced_json_payload (a # s) = Some p \<longleftrightarrow> payload p \<and> prefix p (a # s)" if "opens a" for a s p
    by (rule balanced_payload_grammar [OF that])
next
  fix raw p
  assume "first_valid_json_payload accepts raw = Some p"
  from first_valid_part [OF this] show "payload p" "accepts p" "sublist p raw" by blast+
next
  fix pre p post
  assume "payload p \<and> accepts p \<and> (\<forall>c \<in> set pre. \<not> opens c)"
  then show "first_valid_json_payload accepts (pre @ p @ post) = Some p" using first_valid_found by blast
qed

theorem json_payload_exact_witness:
  "first_valid_json_payload (\<lambda>t. length t > 2) ''Sure: {[1]} ok'' = Some ''{[1]}'' \<and> payload ''{[1]}''"
proof -
  have "opens (CHR ''{'')" by (simp add: opens_def)
  moreover have "balanced_json_payload (CHR ''{'' # ''[1]} ok'') = Some ''{[1]}''" by code_simp
  ultimately have p: "payload ''{[1]}''" using json_payload_exact by blast
  have "\<forall>c \<in> set ''Sure: ''. \<not> opens c" "length ''{[1]}'' > 2" by (simp_all add: opens_def)
  with p json_payload_exact [of "\<lambda>t. length t > 2", THEN conjunct2, THEN conjunct2, rule_format, of "''{[1]}''" "''Sure: ''" "'' ok''"]
  have "first_valid_json_payload (\<lambda>t. length t > 2) (''Sure: '' @ ''{[1]}'' @ '' ok'') = Some ''{[1]}''" by blast
  with p show ?thesis by simp
qed

section \<open>The repaired text\<close>

lemma sublist_strip:
  "strip_prefix s p = Some v \<Longrightarrow> sublist v s" "strip_suffix s p = Some v \<Longrightarrow> sublist v s"
  by (auto simp: strip_prefix_def strip_suffix_def split: if_splits)

lemma sublist_without_fence: "sublist (without_fence s) s"
proof -
  have "sublist (trim b) s"
    if "option_or (strip_prefix s (fence @ ''json'')) (strip_prefix s fence) = Some v" "strip_suffix v fence = Some b" for v b
  proof -
    have "strip_prefix s (fence @ ''json'') = Some v \<or> strip_prefix s fence = Some v"
      using that(1) by (cases "strip_prefix s (fence @ ''json'')") auto
    then have "sublist v s" using sublist_strip(1) by blast
    moreover have "sublist b v" using that(2) by (rule sublist_strip(2))
    ultimately show ?thesis using trim_sublist sublist_order.order_trans by blast
  qed
  then show ?thesis by (auto simp: without_fence_def split: option.split)
qed

lemma repair_sublist: "sublist (repair_json_text_once accepts raw) raw"
proof -
  have "sublist (without_fence (trim raw)) raw" using sublist_without_fence trim_sublist sublist_order.order_trans by blast
  then show ?thesis using first_valid_part [of accepts "without_fence (trim raw)"] sublist_order.order_trans
    by (fastforce simp: repair_json_text_once_def Let_def split: option.split)
qed

text \<open>The repair invents nothing: a value it yields is what the parser reads from a part of the answer.\<close>

theorem repaired_value_is_embedded:
  assumes "parse_json_with_repair from_str accepts raw = Inr v"
  shows "\<exists>t. sublist t raw \<and> from_str t = Inr v"
  using assms repair_sublist [of accepts raw]
  by (auto simp: parse_json_with_repair_def split: sum.splits)

end
