(* ===== verification/Fleet_Composition.thy ===== *)
theory Fleet_Composition
  imports Redaction Workflow_Types
begin

text \<open>
  Suggestions for the set-up of a fleet (\<open>workflow/src/fleet_composition.rs\<close>): a request with the models the
  operator has configured and the roles to fill, and a proposal that is checked against it. Free text passes
  the redaction.
\<close>

section \<open>The request\<close>

record ConfiguredModel =
  cm_provider :: string
  cm_model :: string
  cm_note :: "string option"

record CompositionRole =
  cp_role :: string
  cp_intent :: "string option"

datatype CompositionError =
    EmptyPool
  | NoRoles
  | InvalidRole string
  | DuplicateRole string
  | UnknownRole string
  | ModelOutsidePool string string string "string list"

text \<open>Free text is redacted, and dropped when nothing but blanks is left.\<close>

definition redacted_text :: "string option \<Rightarrow> string option" where
  "redacted_text text =
     (case text of
        None \<Rightarrow> None
      | Some t \<Rightarrow>
          let r = rx_text (redact_for_disclosure t)
          in if trim r \<noteq> [] then Some r else None)"

definition ConfiguredModel_new :: "string \<Rightarrow> string \<Rightarrow> string option \<Rightarrow> ConfiguredModel" where
  "ConfiguredModel_new provider model note =
     \<lparr>cm_provider = provider, cm_model = model, cm_note = redacted_text note\<rparr>"

definition configured_key :: "ConfiguredModel \<Rightarrow> string" where
  "configured_key m = cm_provider m @ ''/'' @ cm_model m"

definition CompositionRole_new :: "string \<Rightarrow> string option \<Rightarrow> CompositionRole" where
  "CompositionRole_new role intent = \<lparr>cp_role = role, cp_intent = redacted_text intent\<rparr>"

record FleetCompositionRequest =
  cq_pool :: "ConfiguredModel list"
  cq_roles :: "CompositionRole list"

definition composition_key :: "string \<Rightarrow> string" where
  "composition_key role = to_ascii_lowercase (trim role)"

fun check_requested_roles :: "CompositionRole list \<Rightarrow> string set \<Rightarrow> CompositionError + unit" where
  "check_requested_roles [] seen = Inr ()"
| "check_requested_roles (role # roles) seen =
     (let key = composition_key (cp_role role)
      in if key = [] then Inl (InvalidRole (cp_role role))
         else if key \<in> seen then Inl (DuplicateRole key)
         else check_requested_roles roles (insert key seen))"

definition FleetCompositionRequest_new ::
  "ConfiguredModel list \<Rightarrow> CompositionRole list \<Rightarrow> CompositionError + FleetCompositionRequest" where
  "FleetCompositionRequest_new pool roles =
     (if pool = [] then Inl EmptyPool
      else if roles = [] then Inl NoRoles
      else try_bind (check_requested_roles roles {}) (\<lambda>_. Inr \<lparr>cq_pool = pool, cq_roles = roles\<rparr>))"

definition pool_contains :: "FleetCompositionRequest \<Rightarrow> string \<Rightarrow> string \<Rightarrow> bool" where
  "pool_contains q provider model \<longleftrightarrow> list_ex (\<lambda>m. cm_provider m = provider \<and> cm_model m = model) (cq_pool q)"

definition pool_keys :: "FleetCompositionRequest \<Rightarrow> string list" where
  "pool_keys q = map configured_key (cq_pool q)"

section \<open>The proposal\<close>

record RoleSuggestion =
  su_role :: string
  su_provider :: string
  su_model :: string
  su_reason :: "string option"

datatype RatificationState = Unratified | Ratified

fun ratification_str :: "RatificationState \<Rightarrow> string" where
  "ratification_str Unratified = ''unratified''"
| "ratification_str Ratified = ''ratified''"

record FleetCompositionProposal =
  fp_ratification :: RatificationState
  fp_suggestions :: "RoleSuggestion list"
  fp_advisory :: string

definition COMPOSITION_ADVISORY :: string where
  "COMPOSITION_ADVISORY = ''Suggestion only '' @ [CHR 0xE2, CHR 0x80, CHR 0x94] @
     '' not saved, not running. Review each role'' @ [CHR 0x27] @
     ''s provider and model, then save a Fleet yourself. Nothing here changes an existing Fleet or starts a Workflow.''"

fun check_suggestions :: "FleetCompositionRequest \<Rightarrow> RoleSuggestion list \<Rightarrow> string set \<Rightarrow> CompositionError + unit" where
  "check_suggestions q [] seen = Inr ()"
| "check_suggestions q (s # ss) seen =
     (let role = composition_key (su_role s)
      in if \<not> list_ex (\<lambda>wanted. composition_key (cp_role wanted) = role) (cq_roles q) then Inl (UnknownRole (su_role s))
         else if role \<in> seen then Inl (DuplicateRole role)
         else if \<not> pool_contains q (su_provider s) (su_model s)
         then Inl (ModelOutsidePool (su_role s) (su_provider s) (su_model s) (pool_keys q))
         else check_suggestions q ss (insert role seen))"

definition redact_reason :: "RoleSuggestion \<Rightarrow> RoleSuggestion" where
  "redact_reason s = s\<lparr>su_reason := redacted_text (su_reason s)\<rparr>"

definition proposal_validate ::
  "FleetCompositionRequest \<Rightarrow> RoleSuggestion list \<Rightarrow> CompositionError + FleetCompositionProposal" where
  "proposal_validate q suggestions =
     try_bind (check_suggestions q suggestions {}) (\<lambda>_.
       Inr \<lparr>fp_ratification = Unratified, fp_suggestions = map redact_reason suggestions, fp_advisory = COMPOSITION_ADVISORY\<rparr>)"

definition is_actionable :: "FleetCompositionProposal \<Rightarrow> bool" where
  "is_actionable p = False"

definition unfilled_roles :: "FleetCompositionProposal \<Rightarrow> FleetCompositionRequest \<Rightarrow> string list" where
  "unfilled_roles p q =
     map cp_role
       (filter (\<lambda>wanted. \<not> list_ex (\<lambda>s. eq_ignore_ascii_case (trim (su_role s)) (trim (cp_role wanted))) (fp_suggestions p))
         (cq_roles q))"

end
