(* ===== verification/Fleet_Composition_Props.thy ===== *)
theory Fleet_Composition_Props
  imports Fleet_Composition Redaction_Props
begin

text \<open>
  What a proposal for a fleet guarantees: it is checked against the request, it is never ratified here, it only
  names configured models, and with the roles left open it accounts for every requested role once.
\<close>

definition role_keys :: "CompositionRole list \<Rightarrow> string list" where
  "role_keys roles = map (\<lambda>r. composition_key (cp_role r)) roles"

definition suggestion_keys :: "RoleSuggestion list \<Rightarrow> string list" where
  "suggestion_keys ss = map (\<lambda>s. composition_key (su_role s)) ss"

lemma check_requested_roles_Inr:
  "check_requested_roles roles seen = Inr () \<longleftrightarrow>
     distinct (role_keys roles) \<and> [] \<notin> set (role_keys roles) \<and> set (role_keys roles) \<inter> seen = {}"
  by (induction roles arbitrary: seen) (auto simp: role_keys_def Let_def)

lemma check_suggestions_Inr:
  "check_suggestions q ss seen = Inr () \<longleftrightarrow>
     distinct (suggestion_keys ss) \<and> set (suggestion_keys ss) \<inter> seen = {} \<and>
     set (suggestion_keys ss) \<subseteq> set (role_keys (cq_roles q)) \<and> (\<forall>s \<in> set ss. pool_contains q (su_provider s) (su_model s))"
proof (induction ss arbitrary: seen)
  case (Cons s ss)
  have "list_ex (\<lambda>wanted. composition_key (cp_role wanted) = composition_key (su_role s)) (cq_roles q) \<longleftrightarrow>
      composition_key (su_role s) \<in> set (role_keys (cq_roles q))"
    by (force simp: list_ex_iff role_keys_def)
  with Cons.IH show ?case by (auto simp: suggestion_keys_def Let_def)
qed (simp add: suggestion_keys_def)

lemma unfilled_length:
  assumes "distinct (role_keys (cq_roles q))" and "distinct (suggestion_keys ss)"
    and "set (suggestion_keys ss) \<subseteq> set (role_keys (cq_roles q))" and "fp_suggestions p = map redact_reason ss"
  shows "length (unfilled_roles p q) + length ss = length (cq_roles q)"
proof -
  let ?K = "set (suggestion_keys ss)"
  have "unfilled_roles p q = map cp_role (filter (\<lambda>r. composition_key (cp_role r) \<notin> ?K) (cq_roles q))"
  proof -
    have hit: "list_ex (\<lambda>s. eq_ignore_ascii_case (trim (su_role s)) (trim (cp_role r))) (fp_suggestions p) \<longleftrightarrow> composition_key (cp_role r) \<in> ?K" for r
      by (force simp: assms(4) list_ex_iff eq_ignore_ascii_case_def composition_key_def suggestion_keys_def redact_reason_def)
    show ?thesis unfolding unfilled_roles_def hit ..
  qed
  then have "length (unfilled_roles p q) = length (filter (\<lambda>k. k \<notin> ?K) (role_keys (cq_roles q)))"
    by (simp add: role_keys_def filter_map comp_def)
  moreover have "length (filter (\<lambda>k. k \<in> ?K) (role_keys (cq_roles q))) = length ss"
    using distinct_length_filter [OF assms(1), of "\<lambda>k. k \<in> ?K"] assms(3) distinct_card [OF assms(2)]
    by (simp add: Int_absorb2 suggestion_keys_def)
  moreover have "length (filter (\<lambda>k. k \<in> ?K) (role_keys (cq_roles q))) + length (filter (\<lambda>k. k \<notin> ?K) (role_keys (cq_roles q))) =
      length (cq_roles q)"
    using sum_length_filter_compl [of "\<lambda>k. k \<in> ?K" "role_keys (cq_roles q)"] by (simp only: role_keys_def length_map)
  ultimately show ?thesis by simp
qed

lemma redacted_text_Some: "redacted_text t = Some r \<Longrightarrow> \<exists>raw. t = Some raw \<and> r = rx_text (redact_for_disclosure raw) \<and> trim r \<noteq> []"
  by (auto simp: redacted_text_def Let_def split: option.splits if_splits)

text \<open>
  An accepted proposal is not ratified and cannot be acted on. Each suggestion keeps the role, provider and
  model it was made with, the model is in the pool of the operator, and no two suggestions are for the same
  role; suggestions and unfilled roles together account for every requested role exactly once. A reason
  that is shown is a redacted one.
\<close>

theorem proposal_sound:
  assumes "FleetCompositionRequest_new pool roles = Inr q" and "proposal_validate q ss = Inr p"
  shows "fp_ratification p = Unratified \<and> \<not> is_actionable p \<and>
    map (\<lambda>s. (su_role s, su_provider s, su_model s)) (fp_suggestions p) = map (\<lambda>s. (su_role s, su_provider s, su_model s)) ss \<and>
    (\<forall>s \<in> set (fp_suggestions p). (\<exists>m \<in> set pool. cm_provider m = su_provider s \<and> cm_model m = su_model s) \<and>
       (\<forall>r. su_reason s = Some r \<longrightarrow> (\<exists>raw. r = rx_text (redact_for_disclosure raw)))) \<and>
    distinct (suggestion_keys (fp_suggestions p)) \<and>
    length (unfilled_roles p q) + length (fp_suggestions p) = length roles"
proof -
  have q: "cq_pool q = pool" "cq_roles q = roles" and roles: "check_requested_roles roles {} = Inr ()"
    using assms(1) by (auto simp: FleetCompositionRequest_new_def try_bind_Inr split: if_splits)
  have p: "fp_ratification p = Unratified" "fp_suggestions p = map redact_reason ss" and ss: "check_suggestions q ss {} = Inr ()"
    using assms(2) by (auto simp: proposal_validate_def try_bind_Inr)
  have keys: "suggestion_keys (fp_suggestions p) = suggestion_keys ss" by (simp add: p suggestion_keys_def redact_reason_def)
  have "length (unfilled_roles p q) + length ss = length (cq_roles q)"
    by (rule unfilled_length) (use roles ss q p in \<open>auto simp: check_requested_roles_Inr check_suggestions_Inr\<close>)
  moreover have "\<exists>m \<in> set pool. cm_provider m = su_provider s \<and> cm_model m = su_model s" if "s \<in> set (fp_suggestions p)" for s
    using that ss q by (auto simp: p redact_reason_def check_suggestions_Inr pool_contains_def list_ex_iff)
  moreover have "\<exists>raw. r = rx_text (redact_for_disclosure raw)" if "s \<in> set (fp_suggestions p)" "su_reason s = Some r" for s r
    using that by (auto simp: p redact_reason_def dest!: redacted_text_Some)
  ultimately show ?thesis
    using p keys ss q by (auto simp: is_actionable_def redact_reason_def check_suggestions_Inr)
qed

definition small_pool :: "ConfiguredModel list" where
  "small_pool = [ConfiguredModel_new ''zai'' ''glm'' (Some ''cheap, see /home/alice/notes.md'')]"

definition two_roles :: "CompositionRole list" where
  "two_roles = [CompositionRole_new ''Builder'' None, CompositionRole_new ''reviewer'' None]"

definition one_suggestion :: RoleSuggestion where
  "one_suggestion = \<lparr>su_role = '' builder'', su_provider = ''zai'', su_model = ''glm'', su_reason = None\<rparr>"

theorem proposal_sound_witness:
  "\<exists>q p. FleetCompositionRequest_new small_pool two_roles = Inr q \<and> proposal_validate q [one_suggestion] = Inr p \<and>
     length (unfilled_roles p q) = 1 \<and> fp_ratification p = Unratified"
proof -
  have keys: "role_keys two_roles = [''builder'', ''reviewer'']" "suggestion_keys [one_suggestion] = [''builder'']" by code_simp+
  have "check_requested_roles two_roles {} = Inr ()" by (simp add: check_requested_roles_Inr keys)
  moreover have "small_pool \<noteq> []" "two_roles \<noteq> []" by (simp_all add: small_pool_def two_roles_def)
  ultimately have q: "FleetCompositionRequest_new small_pool two_roles = Inr \<lparr>cq_pool = small_pool, cq_roles = two_roles\<rparr>"
    by (simp add: FleetCompositionRequest_new_def)
  let ?q = "\<lparr>cq_pool = small_pool, cq_roles = two_roles\<rparr>"
  have "pool_contains ?q ''zai'' ''glm''" by (simp add: pool_contains_def small_pool_def ConfiguredModel_new_def)
  then have "check_suggestions ?q [one_suggestion] {} = Inr ()"
    unfolding check_suggestions_Inr keys by (simp add: keys one_suggestion_def)
  then obtain p where p: "proposal_validate ?q [one_suggestion] = Inr p" by (simp add: proposal_validate_def)
  from proposal_sound [OF q p] have "length (unfilled_roles p ?q) + length (fp_suggestions p) = length two_roles"
    "map (\<lambda>s. (su_role s, su_provider s, su_model s)) (fp_suggestions p) = map (\<lambda>s. (su_role s, su_provider s, su_model s)) [one_suggestion]"
    "fp_ratification p = Unratified" by blast+
  moreover from this(2) have "length (fp_suggestions p) = 1" by (auto dest: map_eq_imp_length_eq)
  ultimately show ?thesis using q p by (auto simp: two_roles_def)
qed

end
