(* ===== verification/Fleet_Exact.thy ===== *)
theory Fleet_Exact
  imports Workflow_Nodes
begin

text \<open>
  Exact fleets (\<open>workflow/src/fleet_exact.rs\<close>): a saved team whose members name their provider, model, reasoning
  policy and permission ceiling. The TOML deserialiser is a parameter that yields the document or a message. The call
  ceiling of a reasoning router and its errors (\<open>reasoning_router.rs\<close>) stand here because the parser uses them.
\<close>

section \<open>Names\<close>

definition EXACT_FLEET_SCHEMA_KIND :: string where
  "EXACT_FLEET_SCHEMA_KIND = ''exact''"

definition LEGACY_FLEET_SCHEMA_KIND :: string where
  "LEGACY_FLEET_SCHEMA_KIND = ''legacy''"

definition EXACT_FLEET_SCHEMA_REVISION :: "32 word" where
  "EXACT_FLEET_SCHEMA_REVISION = 1"

definition ROUTER_MEMBER_KIND :: string where
  "ROUTER_MEMBER_KIND = ''router''"

definition WORKER_MEMBER_KIND :: string where
  "WORKER_MEMBER_KIND = ''worker''"

definition ROUTER_PUBLIC_ID :: string where
  "ROUTER_PUBLIC_ID = ''router''"

definition ROUTER_PUBLIC_ROLE :: string where
  "ROUTER_PUBLIC_ROLE = ''router''"

definition ROLE_ALIASES :: "(string \<times> string) list" where
  "ROLE_ALIASES = [(''oracle'', ''consultant''), (''advisor'', ''consultant'')]"

definition canonical_role_key :: "string \<Rightarrow> string" where
  "canonical_role_key value =
     (let key = to_ascii_lowercase (trim value)
      in case find (\<lambda>(alias, _). alias = key) ROLE_ALIASES of None \<Rightarrow> key | Some (_, canonical) \<Rightarrow> canonical)"

definition canonical_member_key :: "string \<Rightarrow> string" where
  "canonical_member_key value = to_ascii_lowercase (trim value)"

definition FORBIDDEN_ROUTE_SELECTORS :: "string list" where
  "FORBIDDEN_ROUTE_SELECTORS =
     [''auto'', ''inherit'', ''parent'', ''same'', ''faster'', ''fast'', ''cheap'', ''strong'', ''balanced'', ''default'']"

section \<open>Reasoning\<close>

datatype ReasoningTier = Off | Low | Medium | High | Max

text \<open>The derived order is that of the declaration.\<close>

fun tier_rank :: "ReasoningTier \<Rightarrow> nat" where
  "tier_rank ReasoningTier.Off = 0"
| "tier_rank ReasoningTier.Low = 1"
| "tier_rank ReasoningTier.Medium = 2"
| "tier_rank ReasoningTier.High = 3"
| "tier_rank ReasoningTier.Max = 4"

lemma tier_rank_inject: "tier_rank a = tier_rank b \<longleftrightarrow> a = b"
  by (cases a; cases b) simp_all

instantiation ReasoningTier :: linorder
begin

definition less_eq_ReasoningTier :: "ReasoningTier \<Rightarrow> ReasoningTier \<Rightarrow> bool" where
  "less_eq_ReasoningTier a b \<longleftrightarrow> tier_rank a \<le> tier_rank b"

definition less_ReasoningTier :: "ReasoningTier \<Rightarrow> ReasoningTier \<Rightarrow> bool" where
  "less_ReasoningTier a b \<longleftrightarrow> tier_rank a < tier_rank b"

instance
  by standard (auto simp: less_eq_ReasoningTier_def less_ReasoningTier_def simp flip: tier_rank_inject)

end

fun tier_str :: "ReasoningTier \<Rightarrow> string" where
  "tier_str ReasoningTier.Off = ''off''"
| "tier_str ReasoningTier.Low = ''low''"
| "tier_str ReasoningTier.Medium = ''medium''"
| "tier_str ReasoningTier.High = ''high''"
| "tier_str ReasoningTier.Max = ''max''"

definition tier_parse :: "string \<Rightarrow> ReasoningTier option" where
  "tier_parse text =
     (let v = to_ascii_lowercase (trim text)
      in if v \<in> set [''off'', ''none'', ''disabled''] then Some ReasoningTier.Off
         else if v \<in> set [''low'', ''minimal''] then Some ReasoningTier.Low
         else if v \<in> set [''medium'', ''mid''] then Some ReasoningTier.Medium
         else if v = ''high'' then Some ReasoningTier.High
         else if v \<in> set [''max'', ''maximum'', ''xhigh''] then Some ReasoningTier.Max
         else None)"

datatype RequestedReasoning = Off | Low | Medium | High | Max | Auto

fun requested_str :: "RequestedReasoning \<Rightarrow> string" where
  "requested_str RequestedReasoning.Off = ''off''"
| "requested_str RequestedReasoning.Low = ''low''"
| "requested_str RequestedReasoning.Medium = ''medium''"
| "requested_str RequestedReasoning.High = ''high''"
| "requested_str RequestedReasoning.Max = ''max''"
| "requested_str RequestedReasoning.Auto = ''auto''"

definition is_auto :: "RequestedReasoning \<Rightarrow> bool" where
  "is_auto r \<longleftrightarrow> r = RequestedReasoning.Auto"

fun requested_tier :: "RequestedReasoning \<Rightarrow> ReasoningTier option" where
  "requested_tier RequestedReasoning.Off = Some ReasoningTier.Off"
| "requested_tier RequestedReasoning.Low = Some ReasoningTier.Low"
| "requested_tier RequestedReasoning.Medium = Some ReasoningTier.Medium"
| "requested_tier RequestedReasoning.High = Some ReasoningTier.High"
| "requested_tier RequestedReasoning.Max = Some ReasoningTier.Max"
| "requested_tier RequestedReasoning.Auto = None"

fun requested_of_tier :: "ReasoningTier \<Rightarrow> RequestedReasoning" where
  "requested_of_tier ReasoningTier.Off = RequestedReasoning.Off"
| "requested_of_tier ReasoningTier.Low = RequestedReasoning.Low"
| "requested_of_tier ReasoningTier.Medium = RequestedReasoning.Medium"
| "requested_of_tier ReasoningTier.High = RequestedReasoning.High"
| "requested_of_tier ReasoningTier.Max = RequestedReasoning.Max"

definition requested_parse :: "string \<Rightarrow> RequestedReasoning option" where
  "requested_parse text =
     (if to_ascii_lowercase (trim text) = ''auto'' then Some RequestedReasoning.Auto
      else map_option requested_of_tier (tier_parse text))"

section \<open>Permissions\<close>

datatype ShellCeiling = NoShell | ReadOnly | Full

fun shell_rank :: "ShellCeiling \<Rightarrow> nat" where
  "shell_rank NoShell = 0"
| "shell_rank ReadOnly = 1"
| "shell_rank Full = 2"

lemma shell_rank_inject: "shell_rank a = shell_rank b \<longleftrightarrow> a = b"
  by (cases a; cases b) simp_all

instantiation ShellCeiling :: linorder
begin

definition less_eq_ShellCeiling :: "ShellCeiling \<Rightarrow> ShellCeiling \<Rightarrow> bool" where
  "less_eq_ShellCeiling a b \<longleftrightarrow> shell_rank a \<le> shell_rank b"

definition less_ShellCeiling :: "ShellCeiling \<Rightarrow> ShellCeiling \<Rightarrow> bool" where
  "less_ShellCeiling a b \<longleftrightarrow> shell_rank a < shell_rank b"

instance
  by standard (auto simp: less_eq_ShellCeiling_def less_ShellCeiling_def simp flip: shell_rank_inject)

end

fun shell_str :: "ShellCeiling \<Rightarrow> string" where
  "shell_str NoShell = ''none''"
| "shell_str ReadOnly = ''read_only''"
| "shell_str Full = ''full''"

definition shell_min_with :: "ShellCeiling \<Rightarrow> ShellCeiling \<Rightarrow> ShellCeiling" where
  "shell_min_with a b = (if a \<le> b then a else b)"

record PermissionCeiling =
  pc_write :: bool
  pc_network_tool :: bool
  pc_shell :: ShellCeiling
  pc_delegation_depth :: "32 word"
  pc_tools :: bool

definition CEILING_ROUTER :: PermissionCeiling where
  "CEILING_ROUTER = \<lparr>pc_write = False, pc_network_tool = False, pc_shell = NoShell, pc_delegation_depth = 0, pc_tools = False\<rparr>"

definition preset_base :: "bool \<Rightarrow> bool \<Rightarrow> ShellCeiling \<Rightarrow> 32 word \<Rightarrow> PermissionCeiling" where
  "preset_base write network_tool shell delegation_depth =
     \<lparr>pc_write = write, pc_network_tool = network_tool, pc_shell = shell, pc_delegation_depth = delegation_depth, pc_tools = True\<rparr>"

definition ceiling_preset :: "string \<Rightarrow> PermissionCeiling option" where
  "ceiling_preset name =
     (let v = to_ascii_lowercase (trim name)
      in if v = ''none'' then Some CEILING_ROUTER
         else if v = ''analyst'' then Some (preset_base False False NoShell 0)
         else if v \<in> set [''read_only'', ''readonly''] then Some (preset_base False False ReadOnly 0)
         else if v \<in> set [''tester'', ''verifier''] then Some (preset_base False False Full 0)
         else if v \<in> set [''read_write'', ''readwrite''] then Some (preset_base True False Full 0)
         else if v = ''full'' then Some (preset_base True True Full 1)
         else None)"

definition clamp_to :: "PermissionCeiling \<Rightarrow> PermissionCeiling \<Rightarrow> PermissionCeiling" where
  "clamp_to p session =
     \<lparr>pc_write = (pc_write p \<and> pc_write session),
      pc_network_tool = (pc_network_tool p \<and> pc_network_tool session),
      pc_shell = shell_min_with (pc_shell p) (pc_shell session),
      pc_delegation_depth = min (pc_delegation_depth p) (pc_delegation_depth session),
      pc_tools = (pc_tools p \<and> pc_tools session)\<rparr>"

definition ceiling_default :: PermissionCeiling where
  "ceiling_default = the (ceiling_preset ''read_only'')"

section \<open>Members\<close>

record FrozenRoute =
  fr_provider :: string
  fr_model :: string

record ExactMember =
  em_id :: string
  em_role :: string
  em_provider :: string
  em_model :: string
  em_reasoning :: RequestedReasoning
  em_permissions :: PermissionCeiling

definition member_frozen_route :: "ExactMember \<Rightarrow> FrozenRoute" where
  "member_frozen_route m = \<lparr>fr_provider = em_provider m, fr_model = em_model m\<rparr>"

datatype RouterCallReasoning = Off | Low

record RouterMember =
  rt_id :: string
  rt_provider :: string
  rt_model :: string
  rt_call_reasoning :: RouterCallReasoning

definition router_public_id :: "RouterMember \<Rightarrow> string" where
  "router_public_id m = ROUTER_PUBLIC_ID"

definition router_public_role :: "RouterMember \<Rightarrow> string" where
  "router_public_role m = ROUTER_PUBLIC_ROLE"

definition router_is_dispatchable :: "RouterMember \<Rightarrow> bool" where
  "router_is_dispatchable m = False"

definition router_tool_surface :: "RouterMember \<Rightarrow> string list" where
  "router_tool_surface m = []"

definition router_permissions :: "RouterMember \<Rightarrow> PermissionCeiling" where
  "router_permissions m = CEILING_ROUTER"

definition router_frozen_route :: "RouterMember \<Rightarrow> FrozenRoute" where
  "router_frozen_route m = \<lparr>fr_provider = rt_provider m, fr_model = rt_model m\<rparr>"

record ExactFleet =
  ef_name :: string
  ef_description :: "string option"
  ef_schema_revision :: "32 word"
  ef_members :: "ExactMember list"
  ef_reasoning_router :: "string option"
  ef_router :: "RouterMember option"

datatype FleetRouterRef = Profile string | LegacyInline RouterMember

definition fleet_member :: "ExactFleet \<Rightarrow> string \<Rightarrow> ExactMember option" where
  "fleet_member f mid =
     (let key = canonical_member_key mid in find (\<lambda>m. canonical_member_key (em_id m) = key) (ef_members f))"

definition fleet_member_by_role :: "ExactFleet \<Rightarrow> string \<Rightarrow> ExactMember option" where
  "fleet_member_by_role f role =
     (let key = canonical_role_key role in find (\<lambda>m. canonical_role_key (em_role m) = key) (ef_members f))"

definition fleet_member_by_id_or_role :: "ExactFleet \<Rightarrow> string \<Rightarrow> ExactMember option" where
  "fleet_member_by_id_or_role f n = option_or (fleet_member f n) (fleet_member_by_role f n)"

definition router_ref :: "ExactFleet \<Rightarrow> FleetRouterRef option" where
  "router_ref f =
     (case ef_reasoning_router f of
        Some name \<Rightarrow> Some (Profile name)
      | None \<Rightarrow> map_option LegacyInline (ef_router f))"

definition has_auto_member :: "ExactFleet \<Rightarrow> bool" where
  "has_auto_member f \<longleftrightarrow> list_ex (\<lambda>m. is_auto (em_reasoning m)) (ef_members f)"

section \<open>Errors\<close>

datatype ReasoningRouterError =
    RouterParse string
  | RouterIo string string
  | RouterNotFound string
  | AmbiguousRouter string "string list"
  | UnknownRouterSchema string
  | UnsupportedRouterRevision "32 word" "32 word"
  | InvalidRouterToken string string
  | RouterNameMismatch string string
  | CallReasoningTooExpensive string string
  | InvalidCallReasoning string string

datatype ExactFleetError =
    ExactParse string
  | UnknownSchema string
  | UnsupportedRevision "32 word" "32 word"
  | InvalidToken string string
  | DuplicateMember string
  | DuplicateMemberRole string
  | IdRoleCollision string string
  | ReservedRouterIdentity string string
  | ContentHashMismatch string string string
  | NoMembers string
  | UnknownMemberKind string string
  | MultipleRouters
  | LateBindingSelector string string string
  | InvalidReasoning string string
  | UnknownPermissionPreset string string
  | RouterPermissionsDeclared string
  | RouterRoleDeclared string
  | RouterAutoReasoning string
  | ConflictingRouterDeclarations string
  | RouterSource ReasoningRouterError

definition call_reasoning_parse :: "string \<Rightarrow> string \<Rightarrow> ReasoningRouterError + RouterCallReasoning" where
  "call_reasoning_parse text router =
     (let v = to_ascii_lowercase (trim text)
      in if v \<in> set [''off'', ''none'', ''disabled''] then Inr RouterCallReasoning.Off
         else if v \<in> set [''low'', ''minimal''] then Inr RouterCallReasoning.Low
         else if v \<in> set [''medium'', ''mid'', ''high'', ''max'', ''maximum'', ''xhigh'']
         then Inl (CallReasoningTooExpensive router (trim text))
         else Inl (InvalidCallReasoning router (trim text)))"

section \<open>Validation\<close>

text \<open>One pass over the members with the keys of the members before.\<close>

definition reserved_identity :: "ExactMember \<Rightarrow> ExactFleetError + unit" where
  "reserved_identity m =
     try_bind (refuse_if (canonical_member_key (em_id m) = ROUTER_PUBLIC_ID) (ReservedRouterIdentity (em_id m) ''id''))
       (\<lambda>_. refuse_if (canonical_role_key (em_role m) = ROUTER_PUBLIC_ID) (ReservedRouterIdentity (em_id m) ''role''))"

fun check_members :: "ExactMember list \<Rightarrow> string set \<Rightarrow> string set \<Rightarrow> ExactFleetError + unit" where
  "check_members [] ids roles = Inr ()"
| "check_members (m # ms) ids roles =
     (let mid = canonical_member_key (em_id m); role = canonical_role_key (em_role m)
      in try_bind (refuse_if (mid = []) (InvalidToken ''member id'' (em_id m))) (\<lambda>_.
         try_bind (refuse_if (role = []) (InvalidToken ''member role'' (em_role m))) (\<lambda>_.
         try_bind (reserved_identity m) (\<lambda>_.
         try_bind (refuse_if (mid \<in> ids) (DuplicateMember mid)) (\<lambda>_.
         try_bind (refuse_if (role \<in> roles) (DuplicateMemberRole role)) (\<lambda>_.
         check_members ms (insert mid ids) (insert role roles)))))))"

definition colliding_member :: "ExactMember list \<Rightarrow> ExactMember \<Rightarrow> ExactMember option" where
  "colliding_member ms m =
     find (\<lambda>other. em_id other \<noteq> em_id m \<and> canonical_role_key (em_role other) = canonical_member_key (em_id m)) ms"

definition check_collision :: "ExactMember list \<Rightarrow> ExactMember \<Rightarrow> ExactFleetError + unit" where
  "check_collision ms m =
     (case colliding_member ms m of None \<Rightarrow> Inr () | Some other \<Rightarrow> Inl (IdRoleCollision (em_id m) (em_id other)))"

definition fleet_validate :: "ExactFleet \<Rightarrow> ExactFleetError + unit" where
  "fleet_validate f =
     (if ef_members f = [] then Inl (NoMembers (ef_name f))
      else try_bind (check_members (ef_members f) {} {}) (\<lambda>_. try_each (check_collision (ef_members f)) (ef_members f)))"

section \<open>Parsing\<close>

record ExactMemberToml =
  tm_id :: string
  tm_kind :: "string option"
  tm_role :: "string option"
  tm_provider :: string
  tm_model :: string
  tm_reasoning :: "string option"
  tm_permissions :: "string option"

record ExactFleetToml =
  tf_name :: string
  tf_description :: "string option"
  tf_schema :: string
  tf_schema_revision :: "32 word"
  tf_reasoning_router :: "string option"
  tf_members :: "ExactMemberToml list"

definition require_token :: "string \<Rightarrow> string \<Rightarrow> ExactFleetError + string" where
  "require_token value field =
     (case normalize_token value of None \<Rightarrow> Inl (InvalidToken field (trim value)) | Some t \<Rightarrow> Inr t)"

definition require_member_role :: "string \<Rightarrow> ExactFleetError + string" where
  "require_member_role value = try_bind (require_token value ''member role'') (\<lambda>role. Inr (canonical_role_key role))"

definition require_exact_route_token :: "string \<Rightarrow> string \<Rightarrow> string \<Rightarrow> ExactFleetError + string" where
  "require_exact_route_token value member field =
     (let trimmed = trim value
      in if trimmed = [] \<or> \<not> token_text_ok trimmed then Inl (InvalidToken (member @ ''.'' @ field) trimmed)
         else if list_ex (eq_ignore_ascii_case trimmed) FORBIDDEN_ROUTE_SELECTORS
         then Inl (LateBindingSelector member field trimmed)
         else Inr trimmed)"

definition member_kind :: "ExactMemberToml \<Rightarrow> string" where
  "member_kind raw =
     to_ascii_lowercase
       (case tm_kind raw of
          None \<Rightarrow> WORKER_MEMBER_KIND
        | Some kind \<Rightarrow> if trim kind \<noteq> [] then trim kind else WORKER_MEMBER_KIND)"

definition inline_call_reasoning :: "string option \<Rightarrow> string \<Rightarrow> ExactFleetError + RouterCallReasoning" where
  "inline_call_reasoning reasoning mid =
     (case reasoning of
        None \<Rightarrow> Inr RouterCallReasoning.Off
      | Some v \<Rightarrow>
          if eq_ignore_ascii_case (trim v) ''auto'' then Inl (RouterAutoReasoning mid)
          else (case call_reasoning_parse v mid of Inl source \<Rightarrow> Inl (RouterSource source) | Inr c \<Rightarrow> Inr c))"

definition inline_router :: "ExactMemberToml \<Rightarrow> string \<Rightarrow> string \<Rightarrow> string \<Rightarrow> RouterMember option \<Rightarrow> ExactFleetError + RouterMember" where
  "inline_router raw mid provider model router =
     (if router \<noteq> None then Inl MultipleRouters
      else if tm_permissions raw \<noteq> None then Inl (RouterPermissionsDeclared mid)
      else if tm_role raw \<noteq> None then Inl (RouterRoleDeclared mid)
      else try_bind (inline_call_reasoning (tm_reasoning raw) mid) (\<lambda>c.
        Inr \<lparr>rt_id = mid, rt_provider = provider, rt_model = model, rt_call_reasoning = c\<rparr>))"

definition worker_member :: "ExactMemberToml \<Rightarrow> string \<Rightarrow> string \<Rightarrow> string \<Rightarrow> ExactFleetError + ExactMember" where
  "worker_member raw mid provider model =
     try_bind (case tm_role raw of Some role \<Rightarrow> require_member_role role | None \<Rightarrow> Inr mid) (\<lambda>role.
     try_bind (case tm_reasoning raw of
         None \<Rightarrow> Inr RequestedReasoning.Off
       | Some v \<Rightarrow> (case requested_parse v of Some r \<Rightarrow> Inr r | None \<Rightarrow> Inl (InvalidReasoning mid (trim v)))) (\<lambda>reasoning.
     try_bind (case tm_permissions raw of
         None \<Rightarrow> Inr ceiling_default
       | Some v \<Rightarrow> (case ceiling_preset v of Some p \<Rightarrow> Inr p | None \<Rightarrow> Inl (UnknownPermissionPreset mid (trim v)))) (\<lambda>permissions.
     Inr \<lparr>em_id = mid, em_role = role, em_provider = provider, em_model = model, em_reasoning = reasoning,
       em_permissions = permissions\<rparr>)))"

text \<open>The loop over the members of the document, with the members, the router and the ids so far.\<close>

fun parse_members ::
  "ExactMemberToml list \<Rightarrow> ExactMember list \<Rightarrow> RouterMember option \<Rightarrow> string set \<Rightarrow>
   ExactFleetError + ExactMember list \<times> RouterMember option" where
  "parse_members [] members router seen = Inr (members, router)"
| "parse_members (raw # raws) members router seen =
     try_bind (require_token (tm_id raw) ''member id'') (\<lambda>mid.
     try_bind (refuse_if (mid \<in> seen) (DuplicateMember mid)) (\<lambda>_.
     try_bind (require_exact_route_token (tm_provider raw) mid ''provider'') (\<lambda>provider.
     try_bind (require_exact_route_token (tm_model raw) mid ''model'') (\<lambda>model.
     if member_kind raw = ROUTER_MEMBER_KIND then
       try_bind (inline_router raw mid provider model router) (\<lambda>r. parse_members raws members (Some r) (insert mid seen))
     else if member_kind raw = WORKER_MEMBER_KIND then
       try_bind (worker_member raw mid provider model) (\<lambda>m. parse_members raws (members @ [m]) router (insert mid seen))
     else Inl (UnknownMemberKind mid (member_kind raw))))))"

definition declared_router :: "ExactFleetToml \<Rightarrow> string \<Rightarrow> RouterMember option \<Rightarrow> ExactFleetError + string option" where
  "declared_router doc name router =
     (case map_option trim (tf_reasoning_router doc) of
        None \<Rightarrow> Inr None
      | Some v \<Rightarrow>
          if v = [] then Inr None
          else if router \<noteq> None then Inl (ConflictingRouterDeclarations name)
          else Inr (Some v))"

definition from_toml :: "ExactFleetToml \<Rightarrow> ExactFleetError + ExactFleet" where
  "from_toml doc =
     (if \<not> eq_ignore_ascii_case (trim (tf_schema doc)) EXACT_FLEET_SCHEMA_KIND then Inl (UnknownSchema (trim (tf_schema doc)))
      else if tf_schema_revision doc \<noteq> EXACT_FLEET_SCHEMA_REVISION
      then Inl (UnsupportedRevision (tf_schema_revision doc) EXACT_FLEET_SCHEMA_REVISION)
      else try_bind (require_token (tf_name doc) ''name'') (\<lambda>name.
        try_bind (parse_members (tf_members doc) [] None {}) (\<lambda>(members, router).
        if members = [] then Inl (NoMembers name)
        else try_bind (declared_router doc name router) (\<lambda>reasoning_router.
          let fleet = \<lparr>ef_name = name, ef_description = tf_description doc, ef_schema_revision = tf_schema_revision doc,
            ef_members = members, ef_reasoning_router = reasoning_router, ef_router = router\<rparr>
          in try_bind (fleet_validate fleet) (\<lambda>_. Inr fleet)))))"

text \<open>\<open>toml\<close> is \<open>toml::from_str\<close> at the document type, its error as text.\<close>

definition exact_parse :: "(string \<Rightarrow> string + ExactFleetToml) \<Rightarrow> string \<Rightarrow> ExactFleetError + ExactFleet" where
  "exact_parse toml text = (case toml text of Inl e \<Rightarrow> Inl (ExactParse e) | Inr doc \<Rightarrow> from_toml doc)"

text \<open>\<open>probe\<close> reads the \<open>schema\<close> key, if the text is a document at all.\<close>

definition declared_schema_kind :: "(string \<Rightarrow> string option option) \<Rightarrow> string \<Rightarrow> string option" where
  "declared_schema_kind probe text =
     (case probe text of
        Some (Some schema) \<Rightarrow>
          (let kind = to_ascii_lowercase (trim schema) in if kind \<noteq> [] then Some kind else None)
      | _ \<Rightarrow> None)"

end
