(* ===== verification/Fleet_Exact_Props.thy ===== *)
theory Fleet_Exact_Props
  imports Fleet_Exact "HOL-Library.Multiset"
begin

text \<open>
  What an exact fleet guarantees: a clamped ceiling is the meet of the ceiling and the session, validation
  accepts exactly the rosters whose keys do not collide, lookups do not depend on the order of a roster, and a parsed
  fleet names concrete routes only.
\<close>

section \<open>Names of tiers\<close>

lemma tier_parse_str: "tier_parse (tier_str t) = Some t"
  by (cases t; hypsubst; code_simp)

lemma requested_parse_str: "requested_parse (requested_str r) = Some r"
  by (cases r; hypsubst; code_simp)

section \<open>Ceilings\<close>

definition ceiling_below :: "PermissionCeiling \<Rightarrow> PermissionCeiling \<Rightarrow> bool" where
  "ceiling_below p q \<longleftrightarrow> (pc_write p \<longrightarrow> pc_write q) \<and> (pc_network_tool p \<longrightarrow> pc_network_tool q) \<and>
     pc_shell p \<le> pc_shell q \<and> pc_delegation_depth p \<le> pc_delegation_depth q \<and> (pc_tools p \<longrightarrow> pc_tools q)"

lemma shell_min_with_min: "shell_min_with a b = min a b"
  by (simp add: shell_min_with_def min_def)

interpretation ceiling: attenuation ceiling_below clamp_to
  by unfold_locales (auto simp: ceiling_below_def clamp_to_def shell_min_with_min)

lemma ceiling_below_antisym: "ceiling_below p q \<Longrightarrow> ceiling_below q p \<Longrightarrow> p = q"
  by (cases p; cases q) (auto simp: ceiling_below_def)

text \<open>
  Clamping a ceiling to the session is the meet of the two: what is below the clamped ceiling is exactly what is
  below the ceiling and below the session, so no order and no number of clamps grants more than any one of them.
\<close>

theorem clamp_is_meet:
  "(ceiling_below q (clamp_to p session) \<longleftrightarrow> ceiling_below q p \<and> ceiling_below q session) \<and>
   ceiling_below (foldl clamp_to p (session # later)) p \<and>
   ceiling_below (foldl clamp_to p (session # later)) session \<and>
   clamp_to p session = clamp_to session p"
proof -
  have meet: "ceiling_below q (clamp_to p s) \<longleftrightarrow> ceiling_below q p \<and> ceiling_below q s" for q p s
    by (auto simp: ceiling_below_def clamp_to_def shell_min_with_min)
  have "ceiling_below (foldl clamp_to p (session # later)) (clamp_to p session)"
    using ceiling.fold_derive_below [of "clamp_to p session" later] by simp
  with meet have "ceiling_below (foldl clamp_to p (session # later)) p" "ceiling_below (foldl clamp_to p (session # later)) session"
    by blast+
  moreover have "clamp_to p session = clamp_to session p"
    by (auto simp: clamp_to_def shell_min_with_min min.commute)
  ultimately show ?thesis using meet by blast
qed

section \<open>Validation\<close>

definition id_keys :: "ExactMember list \<Rightarrow> string list" where
  "id_keys ms = map (\<lambda>m. canonical_member_key (em_id m)) ms"

definition member_role_keys :: "ExactMember list \<Rightarrow> string list" where
  "member_role_keys ms = map (\<lambda>m. canonical_role_key (em_role m)) ms"

lemma check_members_Inr:
  "check_members ms ids roles = Inr () \<longleftrightarrow>
     distinct (id_keys ms) \<and> set (id_keys ms) \<inter> ids = {} \<and> distinct (member_role_keys ms) \<and> set (member_role_keys ms) \<inter> roles = {} \<and>
     (\<forall>k \<in> set (id_keys ms) \<union> set (member_role_keys ms). k \<noteq> [] \<and> k \<noteq> ROUTER_PUBLIC_ID)"
proof (induction ms arbitrary: ids roles)
  case (Cons m ms)
  show ?case
    by (auto simp: try_bind_Inr Let_def reserved_identity_def Cons.IH id_keys_def member_role_keys_def)
qed (simp add: id_keys_def member_role_keys_def)

lemma check_collision_Inr:
  "check_collision ms m = Inr () \<longleftrightarrow>
     (\<forall>other \<in> set ms. canonical_role_key (em_role other) = canonical_member_key (em_id m) \<longrightarrow> em_id other = em_id m)"
  by (auto simp: check_collision_def colliding_member_def find_None_iff dest!: find_Some_set split: option.split)

text \<open>The roster of a fleet is well formed: keys are distinct, not blank and not reserved, and no member's id is another's role.\<close>

definition roster_ok :: "ExactMember list \<Rightarrow> bool" where
  "roster_ok ms \<longleftrightarrow> ms \<noteq> [] \<and> distinct (id_keys ms) \<and> distinct (member_role_keys ms) \<and>
     (\<forall>k \<in> set (id_keys ms) \<union> set (member_role_keys ms). k \<noteq> [] \<and> k \<noteq> ROUTER_PUBLIC_ID) \<and>
     (\<forall>m \<in> set ms. \<forall>other \<in> set ms. canonical_role_key (em_role other) = canonical_member_key (em_id m) \<longrightarrow> other = m)"

lemma same_id: "distinct (id_keys ms) \<Longrightarrow> m \<in> set ms \<Longrightarrow> m' \<in> set ms \<Longrightarrow>
    canonical_member_key (em_id m) = canonical_member_key (em_id m') \<Longrightarrow> m = m'"
  by (auto simp: id_keys_def distinct_map dest: inj_onD)

lemma same_role: "distinct (member_role_keys ms) \<Longrightarrow> m \<in> set ms \<Longrightarrow> m' \<in> set ms \<Longrightarrow>
    canonical_role_key (em_role m) = canonical_role_key (em_role m') \<Longrightarrow> m = m'"
  by (auto simp: member_role_keys_def distinct_map dest: inj_onD)

lemma collision_free_iff:
  assumes "distinct (id_keys ms)"
  shows "(\<forall>m \<in> set ms. check_collision ms m = Inr ()) \<longleftrightarrow>
     (\<forall>m \<in> set ms. \<forall>other \<in> set ms. canonical_role_key (em_role other) = canonical_member_key (em_id m) \<longrightarrow> other = m)"
proof -
  have "em_id other = em_id m \<longleftrightarrow> other = m" if "m \<in> set ms" "other \<in> set ms" for m other
    using same_id [OF assms that(2,1)] by auto
  then show ?thesis unfolding check_collision_Inr by blast
qed

lemma fleet_validate_iff: "fleet_validate f = Inr () \<longleftrightarrow> roster_ok (ef_members f)"
  unfolding fleet_validate_def roster_ok_def
  using collision_free_iff [of "ef_members f"]
  by (simp add: try_bind_Inr check_members_Inr try_each_Inr cong: conj_cong)

section \<open>Lookups\<close>

lemma find_unique:
  assumes "\<And>a b. a \<in> set xs \<Longrightarrow> b \<in> set xs \<Longrightarrow> P a \<Longrightarrow> P b \<Longrightarrow> a = b"
  shows "find P xs = Some x \<longleftrightarrow> x \<in> set xs \<and> P x"
proof
  show "find P xs = Some x \<Longrightarrow> x \<in> set xs \<and> P x" by (auto dest: find_Some_set)
next
  assume x: "x \<in> set xs \<and> P x"
  then obtain y where y: "find P xs = Some y" using find_None_iff [of P xs] by auto
  then have "y \<in> set xs" "P y" by (auto dest: find_Some_set)
  with x assms y show "find P xs = Some x" by blast
qed

lemma member_iff:
  "roster_ok (ef_members f) \<Longrightarrow> fleet_member f n = Some m \<longleftrightarrow>
     m \<in> set (ef_members f) \<and> canonical_member_key (em_id m) = canonical_member_key n"
  unfolding fleet_member_def Let_def by (rule find_unique) (auto simp: roster_ok_def intro: same_id)

lemma member_by_role_iff:
  "roster_ok (ef_members f) \<Longrightarrow> fleet_member_by_role f r = Some m \<longleftrightarrow>
     m \<in> set (ef_members f) \<and> canonical_role_key (em_role m) = canonical_role_key r"
  unfolding fleet_member_by_role_def Let_def by (rule find_unique) (auto simp: roster_ok_def intro: same_role)

lemma roster_ok_permute:
  assumes "mset ms' = mset ms" and "roster_ok ms"
  shows "roster_ok ms'"
proof -
  have members: "set ms' = set ms" using mset_eq_setD [OF assms(1)] .
  have keys: "mset (map h ms') = mset (map h ms)" for h :: "ExactMember \<Rightarrow> string" using assms(1) by simp
  have "distinct (map h ms') \<longleftrightarrow> distinct (map h ms)" for h :: "ExactMember \<Rightarrow> string"
    using keys [of h] by (rule mset_eq_imp_distinct_iff)
  moreover have "ms' = [] \<longleftrightarrow> ms = []" using members by auto
  ultimately show ?thesis using assms(2) by (simp add: roster_ok_def id_keys_def member_role_keys_def members)
qed

lemma option_eq_iff: "a = b \<longleftrightarrow> (\<forall>x. a = Some x \<longleftrightarrow> b = Some x)"
  by (cases a; cases b) auto

text \<open>
  C29. In a validated fleet every lookup by id, by role and by either is independent of the order of the roster,
  and finds exactly the member with that key. A name that is no old spelling of a role means one member only,
  whether it is read as an id or as a role.
\<close>

theorem roster_lookup_unambiguous:
  assumes "fleet_validate f = Inr ()" and "mset (ef_members g) = mset (ef_members f)"
  shows "fleet_validate g = Inr () \<and> fleet_member g n = fleet_member f n \<and> fleet_member_by_role g n = fleet_member_by_role f n \<and>
    fleet_member_by_id_or_role g n = fleet_member_by_id_or_role f n \<and>
    (\<forall>m. fleet_member f n = Some m \<longleftrightarrow> m \<in> set (ef_members f) \<and> canonical_member_key (em_id m) = canonical_member_key n) \<and>
    (\<forall>a b. canonical_role_key n = canonical_member_key n \<longrightarrow> fleet_member f n = Some a \<longrightarrow> fleet_member_by_role f n = Some b \<longrightarrow> a = b)"
proof -
  have f: "roster_ok (ef_members f)" using assms(1) by (simp add: fleet_validate_iff)
  have g: "roster_ok (ef_members g)" using roster_ok_permute [OF assms(2) f] .
  have members: "set (ef_members g) = set (ef_members f)" using mset_eq_setD [OF assms(2)] .
  have by_id: "fleet_member g n = fleet_member f n"
    by (simp add: option_eq_iff [of "fleet_member g n"] member_iff [OF f] member_iff [OF g] members)
  have by_role: "fleet_member_by_role g n = fleet_member_by_role f n"
    by (simp add: option_eq_iff [of "fleet_member_by_role g n"] member_by_role_iff [OF f] member_by_role_iff [OF g] members)
  have "a = b" if "canonical_role_key n = canonical_member_key n" "fleet_member f n = Some a" "fleet_member_by_role f n = Some b" for a b
    using that f by (auto simp: member_iff [OF f] member_by_role_iff [OF f] roster_ok_def)
  with by_id by_role f g show ?thesis
    by (auto simp: fleet_validate_iff fleet_member_by_id_or_role_def member_iff [OF f])
qed

definition plain_member :: "string \<Rightarrow> string \<Rightarrow> ExactMember" where
  "plain_member mid role = \<lparr>em_id = mid, em_role = role, em_provider = ''zai'', em_model = ''glm'',
     em_reasoning = RequestedReasoning.Off, em_permissions = ceiling_default\<rparr>"

definition plain_fleet :: "ExactMember list \<Rightarrow> ExactFleet" where
  "plain_fleet ms = \<lparr>ef_name = ''pair'', ef_description = None, ef_schema_revision = 1, ef_members = ms,
     ef_reasoning_router = None, ef_router = None\<rparr>"

lemma canonical_keys [simp]:
  "canonical_member_key ''ann'' = ''ann''" "canonical_member_key ''bob'' = ''bob''" "canonical_member_key ''oracle'' = ''oracle''"
  "canonical_role_key ''builder'' = ''builder''" "canonical_role_key ''oracle'' = ''consultant''"
  "canonical_role_key ''auditor'' = ''auditor''" "canonical_role_key ''consultant'' = ''consultant''" "canonical_role_key ''ann'' = ''ann''"
  "canonical_member_key '' ANN'' = ''ann''" "canonical_role_key '' ANN'' = ''ann''"
  by code_simp+

theorem roster_lookup_unambiguous_witness:
  "fleet_member (plain_fleet [plain_member ''bob'' ''oracle'', plain_member ''ann'' ''builder'']) '' ANN'' =
     fleet_member (plain_fleet [plain_member ''ann'' ''builder'', plain_member ''bob'' ''oracle'']) '' ANN'' \<and>
   fleet_member (plain_fleet [plain_member ''ann'' ''builder'', plain_member ''bob'' ''oracle'']) '' ANN'' = Some (plain_member ''ann'' ''builder'')"
proof -
  let ?f = "plain_fleet [plain_member ''ann'' ''builder'', plain_member ''bob'' ''oracle'']"
  let ?g = "plain_fleet [plain_member ''bob'' ''oracle'', plain_member ''ann'' ''builder'']"
  have "fleet_validate ?f = Inr ()"
    by (simp add: fleet_validate_iff roster_ok_def id_keys_def member_role_keys_def plain_fleet_def plain_member_def ROUTER_PUBLIC_ID_def)
  moreover have "mset (ef_members ?g) = mset (ef_members ?f)" by (simp add: plain_fleet_def)
  ultimately have "fleet_member ?g '' ANN'' = fleet_member ?f '' ANN''" and
    found: "\<forall>m. fleet_member ?f '' ANN'' = Some m \<longleftrightarrow> m \<in> set (ef_members ?f) \<and> canonical_member_key (em_id m) = canonical_member_key '' ANN''"
    using roster_lookup_unambiguous [of ?f ?g "'' ANN''"] by blast+
  moreover have "fleet_member ?f '' ANN'' = Some (plain_member ''ann'' ''builder'')"
    using found by (simp add: plain_fleet_def plain_member_def)
  ultimately show ?thesis by simp
qed

text \<open>
  The collision test compares an id with canonical role names, so an id that is an old spelling of a role is not
  seen: a validated fleet can have a member \<open>oracle\<close> and another one with the role \<open>consultant\<close>, and then the
  name \<open>oracle\<close> means the first as an id and the second as a role.
\<close>

theorem alias_id_shadows_role:
  "fleet_validate (plain_fleet [plain_member ''oracle'' ''auditor'', plain_member ''bob'' ''consultant'']) = Inr () \<and>
   fleet_member_by_id_or_role (plain_fleet [plain_member ''oracle'' ''auditor'', plain_member ''bob'' ''consultant'']) ''oracle'' =
     Some (plain_member ''oracle'' ''auditor'') \<and>
   fleet_member_by_role (plain_fleet [plain_member ''oracle'' ''auditor'', plain_member ''bob'' ''consultant'']) ''oracle'' =
     Some (plain_member ''bob'' ''consultant'')"
  by (simp add: fleet_validate_iff roster_ok_def id_keys_def member_role_keys_def plain_fleet_def plain_member_def
      ROUTER_PUBLIC_ID_def fleet_member_by_id_or_role_def fleet_member_def fleet_member_by_role_def)

section \<open>Parsing\<close>

text \<open>A provider or a model that names itself: a trimmed token that is no selector to be resolved later.\<close>

definition concrete_token :: "string \<Rightarrow> bool" where
  "concrete_token t \<longleftrightarrow> t \<noteq> [] \<and> trim t = t \<and> token_text_ok t \<and> to_ascii_lowercase t \<notin> set FORBIDDEN_ROUTE_SELECTORS"

lemma selectors_lower: "map to_ascii_lowercase FORBIDDEN_ROUTE_SELECTORS = FORBIDDEN_ROUTE_SELECTORS"
  by code_simp

lemma concrete_route_token: "require_exact_route_token v member field = Inr t \<Longrightarrow> t = trim v \<and> concrete_token t"
proof -
  have "list_ex (eq_ignore_ascii_case t) FORBIDDEN_ROUTE_SELECTORS \<longleftrightarrow> to_ascii_lowercase t \<in> set (map to_ascii_lowercase FORBIDDEN_ROUTE_SELECTORS)" for t
    by (auto simp: list_ex_iff eq_ignore_ascii_case_def)
  then show "require_exact_route_token v member field = Inr t \<Longrightarrow> t = trim v \<and> concrete_token t"
    by (auto simp: require_exact_route_token_def concrete_token_def Let_def trim_idem selectors_lower split: if_splits)
qed

definition concrete_member :: "ExactMember \<Rightarrow> bool" where
  "concrete_member m \<longleftrightarrow> concrete_token (em_provider m) \<and> concrete_token (em_model m) \<and>
     (\<exists>name. ceiling_preset name = Some (em_permissions m))"

lemma ceiling_default_preset: "ceiling_preset ''read_only'' = Some ceiling_default"
proof -
  have "ceiling_preset ''read_only'' \<noteq> None" by code_simp
  then show ?thesis by (simp add: ceiling_default_def)
qed

lemma worker_concrete:
  assumes "worker_member raw mid provider model = Inr m" and "concrete_token provider" and "concrete_token model"
  shows "em_id m = mid \<and> concrete_member m"
  using assms ceiling_default_preset
  by (auto simp: worker_member_def try_bind_Inr concrete_member_def split: option.splits)

lemma inline_router_Inr:
  "inline_router raw mid provider model router = Inr r \<Longrightarrow> router = None \<and> rt_id r = mid \<and> rt_provider r = provider \<and> rt_model r = model"
  by (auto simp: inline_router_def try_bind_Inr split: if_splits)

definition router_ids :: "RouterMember option \<Rightarrow> string list" where
  "router_ids r = (case r of None \<Rightarrow> [] | Some m \<Rightarrow> [rt_id m])"

definition concrete_router :: "RouterMember option \<Rightarrow> bool" where
  "concrete_router r \<longleftrightarrow> (\<forall>m. r = Some m \<longrightarrow> concrete_token (rt_provider m) \<and> concrete_token (rt_model m))"

text \<open>What holds of the members and the router read so far.\<close>

definition parsed_ok :: "ExactMember list \<Rightarrow> RouterMember option \<Rightarrow> string set \<Rightarrow> bool" where
  "parsed_ok ms r seen \<longleftrightarrow> list_all concrete_member ms \<and> concrete_router r \<and>
     distinct (router_ids r @ map em_id ms) \<and> set (router_ids r @ map em_id ms) \<subseteq> seen"

lemma parse_members_ok:
  "parse_members raws ms r seen = Inr (ms', r') \<Longrightarrow> parsed_ok ms r seen \<Longrightarrow>
     (\<exists>seen'. parsed_ok ms' r' seen') \<and> length (router_ids r') + length ms' = length (router_ids r) + length ms + length raws"
proof (induction raws arbitrary: ms r seen)
  case (Cons raw raws)
  from Cons.prems(1) obtain mid provider model where
    mid: "mid \<notin> seen" and provider: "concrete_token provider" and model: "concrete_token model" and
    step: "(if member_kind raw = ROUTER_MEMBER_KIND then
       try_bind (inline_router raw mid provider model r) (\<lambda>q. parse_members raws ms (Some q) (insert mid seen))
     else if member_kind raw = WORKER_MEMBER_KIND then
       try_bind (worker_member raw mid provider model) (\<lambda>m. parse_members raws (ms @ [m]) r (insert mid seen))
     else Inl (UnknownMemberKind mid (member_kind raw))) = Inr (ms', r')"
    by (auto simp: try_bind_Inr dest!: concrete_route_token)
  from step consider
    (router) q where "inline_router raw mid provider model r = Inr q" "parse_members raws ms (Some q) (insert mid seen) = Inr (ms', r')"
  | (worker) m where "worker_member raw mid provider model = Inr m" "parse_members raws (ms @ [m]) r (insert mid seen) = Inr (ms', r')"
    by (auto simp: try_bind_Inr split: if_splits)
  then show ?case
  proof cases
    case router
    have q: "r = None" "rt_id q = mid" "rt_provider q = provider" "rt_model q = model" using inline_router_Inr [OF router(1)] by auto
    have "parsed_ok ms (Some q) (insert mid seen)"
      using Cons.prems(2) mid provider model q by (auto simp: parsed_ok_def router_ids_def concrete_router_def)
    from Cons.IH [OF router(2) this] q show ?thesis by (simp add: router_ids_def)
  next
    case worker
    have m: "em_id m = mid" "concrete_member m" using worker_concrete [OF worker(1) provider model] by auto
    have "parsed_ok (ms @ [m]) r (insert mid seen)"
      using Cons.prems(2) mid m by (auto simp: parsed_ok_def)
    from Cons.IH [OF worker(2) this] show ?thesis by simp
  qed
qed auto

text \<open>
  C28. A fleet that parses is validated and concrete: every member and the inline router name their provider and model
  with no selector to be resolved later, every ceiling is one of the presets, no entry of the document is lost or
  added, the router shares its id with no member, and at most one of the two forms of a router is used.
\<close>

theorem parsed_fleet_concrete:
  assumes "exact_parse toml text = Inr f"
  shows "fleet_validate f = Inr () \<and> (\<forall>m \<in> set (ef_members f). concrete_member m) \<and> concrete_router (ef_router f) \<and>
    (\<exists>doc. toml text = Inr doc \<and> length (ef_members f) + length (router_ids (ef_router f)) = length (tf_members doc)) \<and>
    distinct (router_ids (ef_router f) @ map em_id (ef_members f)) \<and>
    (ef_router f = None \<or> ef_reasoning_router f = None)"
proof -
  from assms obtain doc where doc: "toml text = Inr doc" "from_toml doc = Inr f"
    by (auto simp: exact_parse_def split: sum.splits)
  then obtain members router where
    run: "parse_members (tf_members doc) [] None {} = Inr (members, router)" and
    f: "ef_members f = members" "ef_router f = router" "fleet_validate f = Inr ()" and
    one: "declared_router doc (ef_name f) router = Inr (ef_reasoning_router f)"
    by (auto simp: from_toml_def try_bind_Inr Let_def split: if_splits)
  have "parsed_ok [] None {}" by (simp add: parsed_ok_def router_ids_def concrete_router_def)
  from parse_members_ok [OF run this] obtain seen where "parsed_ok members router seen"
    and "length (router_ids router) + length members = length (tf_members doc)" by (auto simp: router_ids_def)
  moreover have "router = None \<or> ef_reasoning_router f = None"
    using one by (auto simp: declared_router_def Let_def split: option.splits if_splits)
  ultimately show ?thesis using doc(1) f by (auto simp: parsed_ok_def list_all_iff)
qed

definition pair_doc :: ExactFleetToml where
  "pair_doc = \<lparr>tf_name = '' Pair'', tf_description = None, tf_schema = ''EXACT'', tf_schema_revision = 1, tf_reasoning_router = Some '' '',
     tf_members =
       [\<lparr>tm_id = ''ann'', tm_kind = None, tm_role = Some ''oracle'', tm_provider = ''zai'', tm_model = '' GLM-5'',
          tm_reasoning = Some ''auto'', tm_permissions = Some ''full''\<rparr>,
        \<lparr>tm_id = ''luna'', tm_kind = Some '' Router'', tm_role = None, tm_provider = ''openai'', tm_model = ''mini'',
          tm_reasoning = Some ''low'', tm_permissions = None\<rparr>]\<rparr>"

definition pair_fleet :: ExactFleet where
  "pair_fleet = \<lparr>ef_name = ''pair'', ef_description = None, ef_schema_revision = 1,
     ef_members = [\<lparr>em_id = ''ann'', em_role = ''consultant'', em_provider = ''zai'', em_model = ''GLM-5'',
       em_reasoning = RequestedReasoning.Auto, em_permissions = preset_base True True Full 1\<rparr>],
     ef_reasoning_router = None,
     ef_router = Some \<lparr>rt_id = ''luna'', rt_provider = ''openai'', rt_model = ''mini'', rt_call_reasoning = RouterCallReasoning.Low\<rparr>\<rparr>"

theorem parsed_fleet_concrete_witness:
  "exact_parse (\<lambda>_. Inr pair_doc) [] = Inr pair_fleet \<and> concrete_token ''GLM-5'' \<and> fleet_validate pair_fleet = Inr ()"
proof -
  have parse: "exact_parse (\<lambda>_. Inr pair_doc) [] = Inr pair_fleet" by code_simp
  from parsed_fleet_concrete [OF this] have "fleet_validate pair_fleet = Inr ()" "\<forall>m \<in> set (ef_members pair_fleet). concrete_member m" by blast+
  with parse show ?thesis by (auto simp: pair_fleet_def concrete_member_def)
qed

end
