(* ===== verification/Fleet_Routes.thy ===== *)
theory Fleet_Routes
  imports Fleet_Exact
begin

text \<open>
  What a frozen route can express: the reasoning capability of a route (\<open>workflow/src/fleet_reasoning.rs\<close>), its
  preflight (\<open>fleet_preflight.rs\<close>) and the captured router service (\<open>reasoning_router.rs\<close>).
\<close>

section \<open>Capabilities\<close>

datatype ProviderReasoningControl = NoControl | EnabledDisabled | Tiers | NativeAdaptive

fun control_str :: "ProviderReasoningControl \<Rightarrow> string" where
  "control_str NoControl = ''none''"
| "control_str EnabledDisabled = ''enabled_disabled''"
| "control_str Tiers = ''tiers''"
| "control_str NativeAdaptive = ''native_adaptive''"

text \<open>The wire tiers are an array with one entry for each tier.\<close>

record ReasoningCapability =
  cap_control :: ProviderReasoningControl
  cap_min_tier :: "ReasoningTier option"
  cap_max_tier :: "ReasoningTier option"
  cap_wire_tiers :: "ReasoningTier list option"

fun tier_index :: "ReasoningTier \<Rightarrow> nat" where
  "tier_index ReasoningTier.Off = 0"
| "tier_index ReasoningTier.Low = 1"
| "tier_index ReasoningTier.Medium = 2"
| "tier_index ReasoningTier.High = 3"
| "tier_index ReasoningTier.Max = 4"

definition FAITHFUL_WIRE_TIERS :: "ReasoningTier list" where
  "FAITHFUL_WIRE_TIERS =
     [ReasoningTier.Off, ReasoningTier.Low, ReasoningTier.Medium, ReasoningTier.High, ReasoningTier.Max]"

definition capability_of :: "ProviderReasoningControl \<Rightarrow> ReasoningCapability" where
  "capability_of control = \<lparr>cap_control = control, cap_min_tier = None, cap_max_tier = None, cap_wire_tiers = None\<rparr>"

definition capability_none :: ReasoningCapability where
  "capability_none = capability_of NoControl"

definition capability_tiered :: ReasoningCapability where
  "capability_tiered = capability_of Tiers"

definition capability_enabled_disabled :: ReasoningCapability where
  "capability_enabled_disabled = capability_of EnabledDisabled"

definition capability_native_adaptive :: ReasoningCapability where
  "capability_native_adaptive = capability_of NativeAdaptive"

definition with_wire_tiers :: "ReasoningTier list \<Rightarrow> ReasoningCapability \<Rightarrow> ReasoningCapability" where
  "with_wire_tiers wire c = c\<lparr>cap_wire_tiers := (if wire \<noteq> FAITHFUL_WIRE_TIERS then Some wire else None)\<rparr>"

definition wire_tier :: "ReasoningCapability \<Rightarrow> ReasoningTier \<Rightarrow> ReasoningTier" where
  "wire_tier c tier = (case cap_wire_tiers c of None \<Rightarrow> tier | Some wire \<Rightarrow> wire ! tier_index tier)"

definition supports_thinking :: "ReasoningCapability \<Rightarrow> bool" where
  "supports_thinking c \<longleftrightarrow> cap_control c \<noteq> NoControl"

definition supports_native_adaptive :: "ReasoningCapability \<Rightarrow> bool" where
  "supports_native_adaptive c \<longleftrightarrow> cap_control c = NativeAdaptive"

definition raise_to :: "ReasoningTier option \<Rightarrow> ReasoningTier \<Rightarrow> ReasoningTier" where
  "raise_to floor tier = (case floor of Some m \<Rightarrow> if tier < m then m else tier | None \<Rightarrow> tier)"

definition lower_to :: "ReasoningTier option \<Rightarrow> ReasoningTier \<Rightarrow> ReasoningTier" where
  "lower_to ceiling tier = (case ceiling of Some m \<Rightarrow> if tier > m then m else tier | None \<Rightarrow> tier)"

definition normalize_tier :: "ReasoningCapability \<Rightarrow> ReasoningTier \<Rightarrow> ReasoningTier \<times> bool" where
  "normalize_tier c tier =
     (if \<not> supports_thinking c then (ReasoningTier.Off, tier \<noteq> ReasoningTier.Off)
      else let effective = lower_to (cap_max_tier c) (raise_to (cap_min_tier c) (wire_tier c tier))
           in (effective, effective \<noteq> tier))"

datatype ProviderEffectiveReasoning = Disabled | Enabled | EffectiveTier ReasoningTier | ProviderAdaptive

definition provider_effective :: "ReasoningCapability \<Rightarrow> ReasoningTier \<Rightarrow> ProviderEffectiveReasoning" where
  "provider_effective c tier =
     (case cap_control c of
        NoControl \<Rightarrow> Disabled
      | EnabledDisabled \<Rightarrow> (if tier = ReasoningTier.Off then Disabled else Enabled)
      | Tiers \<Rightarrow> EffectiveTier tier
      | NativeAdaptive \<Rightarrow> ProviderAdaptive)"

fun provider_effective_label :: "ProviderEffectiveReasoning \<Rightarrow> string" where
  "provider_effective_label Disabled = ''disabled''"
| "provider_effective_label Enabled = ''enabled''"
| "provider_effective_label (EffectiveTier tier) = tier_str tier"
| "provider_effective_label ProviderAdaptive = ''native_adaptive''"

section \<open>Preflight\<close>

datatype CredentialReadiness = Configured | KeylessLocal | MissingCredential string

fun credential_ready :: "CredentialReadiness \<Rightarrow> bool" where
  "credential_ready (MissingCredential _) = False"
| "credential_ready _ = True"

fun credential_str :: "CredentialReadiness \<Rightarrow> string" where
  "credential_str Configured = ''configured''"
| "credential_str KeylessLocal = ''keyless_local''"
| "credential_str (MissingCredential _) = ''missing''"

record EndpointIdentity =
  ep_host :: string
  ep_local :: bool

text \<open>\<open>split_once\<close> at a string and \<open>rsplit_once_char\<close> at a character.\<close>

fun split_once_str :: "string \<Rightarrow> string \<Rightarrow> (string \<times> string) option" where
  "split_once_str pat [] = (if pat = [] then Some ([], []) else None)"
| "split_once_str pat (c # s) =
     (if prefix pat (c # s) then Some ([], drop (length pat) (c # s))
      else map_option (\<lambda>(a, b). (c # a, b)) (split_once_str pat s))"

definition rsplit_once_char :: "char \<Rightarrow> string \<Rightarrow> (string \<times> string) option" where
  "rsplit_once_char d s = map_option (\<lambda>(b, a). (rev a, rev b)) (split_once d (rev s))"

definition url_authority :: "string \<Rightarrow> string" where
  "url_authority base_url =
     takeWhile (\<lambda>c. c \<notin> set ''/?#'')
       (case split_once_str ''://'' (trim base_url) of None \<Rightarrow> trim base_url | Some (_, rest) \<Rightarrow> rest)"

definition authority_host :: "string \<Rightarrow> string" where
  "authority_host authority =
     to_ascii_lowercase (case rsplit_once_char (CHR ''@'') authority of None \<Rightarrow> authority | Some (_, host) \<Rightarrow> host)"

definition local_host :: "string \<Rightarrow> bool" where
  "local_host bare \<longleftrightarrow> bare = ''localhost'' \<or> bare = ''127.0.0.1'' \<or> bare = ''::1'' \<or> starts_with bare ''192.168.'' \<or>
     starts_with bare ''10.'' \<or> ends_with bare ''.local''"

definition from_base_url :: "string \<Rightarrow> EndpointIdentity" where
  "from_base_url base_url =
     (let host = authority_host (url_authority base_url)
      in \<lparr>ep_host = host, ep_local = local_host (takeWhile (\<lambda>c. c \<noteq> CHR '':'') host)\<rparr>)"

definition endpoint_label :: "EndpointIdentity \<Rightarrow> string" where
  "endpoint_label e = (if ep_local e then ep_host e @ '' (local)'' else ep_host e)"

record PreflightedRoute =
  pr_member_id :: string
  pr_provider_id :: string
  pr_provider_kind :: string
  pr_declared_model :: string
  pr_wire_model :: string
  pr_endpoint :: EndpointIdentity
  pr_credential :: CredentialReadiness
  pr_capability :: ReasoningCapability

definition preflight_frozen :: "PreflightedRoute \<Rightarrow> FrozenRoute" where
  "preflight_frozen r = \<lparr>fr_provider = pr_provider_id r, fr_model = pr_wire_model r\<rparr>"

definition model_canonicalized :: "PreflightedRoute \<Rightarrow> bool" where
  "model_canonicalized r \<longleftrightarrow> pr_declared_model r \<noteq> pr_wire_model r"

datatype PreflightError =
    ProviderUnresolved string string string
  | ModelUnresolved string string string string
  | CredentialMissing string string string
  | CapabilityUnknown string string string

definition require_ready :: "PreflightedRoute \<Rightarrow> PreflightError + unit" where
  "require_ready r =
     (case pr_credential r of
        MissingCredential detail \<Rightarrow> Inl (CredentialMissing (pr_member_id r) (pr_provider_id r) detail)
      | _ \<Rightarrow> Inr ())"

record RoutePreflight =
  pf_workers :: "PreflightedRoute list"
  pf_router :: "PreflightedRoute option"

definition preflight_worker :: "RoutePreflight \<Rightarrow> string \<Rightarrow> PreflightedRoute option" where
  "preflight_worker p member_id =
     (let key = to_ascii_lowercase (trim member_id) in find (\<lambda>r. pr_member_id r = key) (pf_workers p))"

definition require_all_ready :: "RoutePreflight \<Rightarrow> PreflightError + unit" where
  "require_all_ready p = try_each require_ready (pf_workers p)"

definition crosses_providers :: "RoutePreflight \<Rightarrow> string \<Rightarrow> bool" where
  "crosses_providers p member_id =
     (case (preflight_worker p member_id, pf_router p) of
        (Some worker, Some router) \<Rightarrow> pr_provider_id worker \<noteq> pr_provider_id router
      | _ \<Rightarrow> False)"

section \<open>The captured router\<close>

definition REASONING_ROUTER_SERVICE_KIND :: string where
  "REASONING_ROUTER_SERVICE_KIND = ''reasoning_router''"

definition LEGACY_INLINE_ROUTER_ORIGIN :: string where
  "LEGACY_INLINE_ROUTER_ORIGIN = ''legacy_inline''"

fun call_reasoning_str :: "RouterCallReasoning \<Rightarrow> string" where
  "call_reasoning_str RouterCallReasoning.Off = ''off''"
| "call_reasoning_str RouterCallReasoning.Low = ''low''"

fun call_reasoning_tier :: "RouterCallReasoning \<Rightarrow> ReasoningTier" where
  "call_reasoning_tier RouterCallReasoning.Off = ReasoningTier.Off"
| "call_reasoning_tier RouterCallReasoning.Low = ReasoningTier.Low"

record ReasoningRouterProfile =
  rp_name :: string
  rp_description :: "string option"
  rp_schema_revision :: "32 word"
  rp_provider :: string
  rp_model :: string
  rp_call_reasoning :: RouterCallReasoning

record CapturedReasoningRouter =
  cr_service_kind :: string
  cr_id :: string
  cr_origin :: string
  cr_legacy_inline :: bool
  cr_route :: FrozenRoute
  cr_requested_call_reasoning :: RouterCallReasoning
  cr_dispatchable :: bool
  cr_permissions :: PermissionCeiling

definition from_profile :: "ReasoningRouterProfile \<Rightarrow> string \<Rightarrow> CapturedReasoningRouter" where
  "from_profile profile origin =
     \<lparr>cr_service_kind = REASONING_ROUTER_SERVICE_KIND, cr_id = rp_name profile, cr_origin = origin, cr_legacy_inline = False,
      cr_route = \<lparr>fr_provider = rp_provider profile, fr_model = rp_model profile\<rparr>,
      cr_requested_call_reasoning = rp_call_reasoning profile, cr_dispatchable = False, cr_permissions = CEILING_ROUTER\<rparr>"

definition from_legacy_inline :: "RouterMember \<Rightarrow> CapturedReasoningRouter" where
  "from_legacy_inline member =
     \<lparr>cr_service_kind = REASONING_ROUTER_SERVICE_KIND, cr_id = rt_id member, cr_origin = LEGACY_INLINE_ROUTER_ORIGIN,
      cr_legacy_inline = True, cr_route = router_frozen_route member,
      cr_requested_call_reasoning = rt_call_reasoning member, cr_dispatchable = False, cr_permissions = CEILING_ROUTER\<rparr>"

definition captured_qualified :: "CapturedReasoningRouter \<Rightarrow> string" where
  "captured_qualified c = cr_origin c @ ''/'' @ cr_id c"

definition captured_is_dispatchable :: "CapturedReasoningRouter \<Rightarrow> bool" where
  "captured_is_dispatchable c = False"

definition captured_tool_surface :: "CapturedReasoningRouter \<Rightarrow> string list" where
  "captured_tool_surface c = []"

section \<open>The call of the router\<close>

definition ROUTER_CALL_REASONING :: RouterCallReasoning where
  "ROUTER_CALL_REASONING = RouterCallReasoning.Off"

record RouterCallDisclosure =
  rd_requested :: string
  rd_effective :: string
  rd_provider_control :: string
  rd_provider_effective :: string
  rd_capability_normalized :: bool

definition call_receipt :: "RouterCallDisclosure \<Rightarrow> string" where
  "call_receipt d =
     ''router_call_requested='' @ rd_requested d @ '' router_call_effective='' @ rd_effective d @
     '' router_call_provider_control='' @ rd_provider_control d @ '' router_call_provider_effective='' @ rd_provider_effective d"

record RouterCallPlan =
  cl_tier :: ReasoningTier
  cl_disclosure :: RouterCallDisclosure

definition router_call_plan :: "RouterCallReasoning \<Rightarrow> ReasoningCapability \<Rightarrow> RouterCallPlan" where
  "router_call_plan requested capability =
     (let (tier, capability_normalized) = normalize_tier capability (call_reasoning_tier requested)
      in \<lparr>cl_tier = tier, cl_disclosure =
           \<lparr>rd_requested = call_reasoning_str requested, rd_effective = tier_str tier,
            rd_provider_control = control_str (cap_control capability),
            rd_provider_effective = provider_effective_label (provider_effective capability tier),
            rd_capability_normalized = capability_normalized\<rparr>\<rparr>)"

record RouterIdentity =
  ri_id :: string
  ri_origin :: string
  ri_service_kind :: string
  ri_legacy_inline :: bool
  ri_provider :: string
  ri_model :: string
  ri_endpoint :: "EndpointIdentity option"
  ri_call :: "RouterCallDisclosure option"

definition from_captured ::
  "CapturedReasoningRouter \<Rightarrow> PreflightedRoute option \<Rightarrow> RouterCallDisclosure option \<Rightarrow> RouterIdentity" where
  "from_captured captured route call =
     \<lparr>ri_id = cr_id captured, ri_origin = cr_origin captured, ri_service_kind = cr_service_kind captured,
      ri_legacy_inline = cr_legacy_inline captured,
      ri_provider = (case route of None \<Rightarrow> fr_provider (cr_route captured) | Some r \<Rightarrow> pr_provider_id r),
      ri_model = (case route of None \<Rightarrow> fr_model (cr_route captured) | Some r \<Rightarrow> pr_wire_model r),
      ri_endpoint = map_option pr_endpoint route, ri_call = call\<rparr>"

definition RouterIdentity_new :: "string \<Rightarrow> string \<Rightarrow> RouterIdentity" where
  "RouterIdentity_new provider model =
     \<lparr>ri_id = ''router'', ri_origin = LEGACY_INLINE_ROUTER_ORIGIN, ri_service_kind = REASONING_ROUTER_SERVICE_KIND,
      ri_legacy_inline = True, ri_provider = provider, ri_model = model, ri_endpoint = None, ri_call = None\<rparr>"

definition identity_qualified :: "RouterIdentity \<Rightarrow> string" where
  "identity_qualified r = ri_origin r @ ''/'' @ ri_id r"

definition identity_label :: "RouterIdentity \<Rightarrow> string" where
  "identity_label r = ri_service_kind r @ '':'' @ identity_qualified r @ '' '' @ ri_provider r @ ''/'' @ ri_model r"

datatype RouterAvailability = Absent | Unavailable string | Ready

end
