(* ===== verification/Router_Call.thy ===== *)
theory Router_Call
  imports Fleet_Routes Redaction Rust_Debug Model_Policy
begin

text \<open>
  The call of a reasoning router (\<open>workflow/src/fleet_reasoning.rs\<close>): the bounded payload made from a task, its
  disclosure, the prompt, and the parser of the answer. SHA-256 and the JSON reader are parameters.
\<close>

section \<open>Digests\<close>

text \<open>\<open>digest\<close> is SHA-256, its result as bytes.\<close>

definition hex_byte :: "char \<Rightarrow> string" where
  "hex_byte c = [hex_digit (byte c div 16), hex_digit (byte c mod 16)]"

definition sha256_label :: "(string \<Rightarrow> string) \<Rightarrow> string \<Rightarrow> string" where
  "sha256_label digest bytes = ''sha256:'' @ concat (map hex_byte (digest bytes))"

section \<open>The payload\<close>

definition ROUTER_SUMMARY_MAX_CHARS :: nat where
  "ROUTER_SUMMARY_MAX_CHARS = 600"

definition ROUTING_SCOPE :: string where
  "ROUTING_SCOPE = ''bounded_redacted_task_shape''"

datatype TaskShape = Read | Edit | Diagnose | Unclassified

fun shape_str :: "TaskShape \<Rightarrow> string" where
  "shape_str Read = ''read''"
| "shape_str Edit = ''edit''"
| "shape_str Diagnose = ''diagnose''"
| "shape_str Unclassified = ''unclassified''"

definition classify_shape :: "string \<Rightarrow> TaskShape" where
  "classify_shape text =
     (let lowered = to_ascii_lowercase text
      in if list_ex (contains lowered) [''debug'', ''why does'', ''root cause'', ''failing'', ''flake'', ''crash''] then Diagnose
         else if list_ex (contains lowered) [''edit'', ''implement'', ''refactor'', ''fix'', ''add '', ''rewrite'', ''migrate''] then Edit
         else if list_ex (contains lowered) [''read'', ''review'', ''summarize'', ''audit'', ''inspect'', ''explain''] then Read
         else Unclassified)"

record RoutingDisclosure =
  ds_transmitted_bytes :: nat
  ds_transmitted_chars :: nat
  ds_original_chars :: nat
  ds_truncated :: bool
  ds_content_hash :: string
  ds_redacted :: bool
  ds_redactions :: "string list"
  ds_scope :: string
  ds_task_shape :: string
  ds_cross_provider_inference :: bool

definition show_bool :: "bool \<Rightarrow> string" where
  "show_bool b = (if b then ''true'' else ''false'')"

definition disclosure_receipt :: "RoutingDisclosure \<Rightarrow> string" where
  "disclosure_receipt d =
     ''routing_summary_bytes='' @ show_nat (ds_transmitted_bytes d) @ '' chars='' @ show_nat (ds_transmitted_chars d) @
     '' truncated='' @ show_bool (ds_truncated d) @ '' hash='' @ ds_content_hash d @ '' redacted='' @ show_bool (ds_redacted d) @
     '' cross_provider='' @ show_bool (ds_cross_provider_inference d)"

record RoutingPayload =
  py_text :: string
  py_disclosure :: RoutingDisclosure

definition with_cross_provider :: "bool \<Rightarrow> RoutingPayload \<Rightarrow> RoutingPayload" where
  "with_cross_provider cross p = p\<lparr>py_disclosure := (py_disclosure p)\<lparr>ds_cross_provider_inference := cross\<rparr>\<rparr>"

text \<open>
  \<open>char::is_control\<close> on the encoding of a character: U+0000 to U+001F and U+007F to U+009F. A character is
  whitespace if its encoding starts a whitespace character.
\<close>

definition is_control :: "string \<Rightarrow> bool" where
  "is_control ch \<longleftrightarrow>
     (case ch of
        [c] \<Rightarrow> byte c < 32 \<or> byte c = 127
      | [c, d] \<Rightarrow> c = CHR 0xC2 \<and> byte d < 160
      | _ \<Rightarrow> False)"

definition map_fence :: "string \<Rightarrow> string" where
  "map_fence ch = (if ch = [CHR 0x60] then [CHR 0x27] else if ch = ''{'' then ''('' else if ch = ''}'' then '')'' else ch)"

text \<open>The loop over the characters, with what is written and whether a blank is pending.\<close>

fun sanitize_chars :: "string list \<Rightarrow> string \<Rightarrow> bool \<Rightarrow> string" where
  "sanitize_chars [] sanitized pending_space = sanitized"
| "sanitize_chars (ch # chs) sanitized pending_space =
     (if is_control ch \<or> ws_len ch \<noteq> 0 then sanitize_chars chs sanitized (sanitized \<noteq> [])
      else sanitize_chars chs (sanitized @ (if pending_space then '' '' else []) @ map_fence ch) False)"

definition bound_text :: "string \<Rightarrow> string" where
  "bound_text cleaned =
     (if length (str_chars cleaned) > ROUTER_SUMMARY_MAX_CHARS
      then trim_end (concat (take ROUTER_SUMMARY_MAX_CHARS (str_chars cleaned)))
      else cleaned)"

definition bounded_routing_payload :: "(string \<Rightarrow> string) \<Rightarrow> string \<Rightarrow> RoutingPayload" where
  "bounded_routing_payload digest task =
     (let redaction = redact_for_disclosure (sanitize_chars (str_chars task) [] False);
          cleaned = rx_text redaction;
          text = bound_text cleaned
      in \<lparr>py_text = text, py_disclosure =
           \<lparr>ds_transmitted_bytes = length text, ds_transmitted_chars = length (str_chars text),
            ds_original_chars = length (str_chars cleaned),
            ds_truncated = (length (str_chars cleaned) > ROUTER_SUMMARY_MAX_CHARS),
            ds_content_hash = sha256_label digest text, ds_redacted = redacted redaction, ds_redactions = rx_kinds redaction,
            ds_scope = ROUTING_SCOPE, ds_task_shape = shape_str (classify_shape text),
            ds_cross_provider_inference = False\<rparr>\<rparr>)"

section \<open>The prompt\<close>

record RouterCallInput =
  in_fleet :: string
  in_member_id :: string
  in_frozen :: FrozenRoute
  in_payload :: RoutingPayload

definition ROUTER_MAX_OUTPUT_TOKENS :: "32 word" where
  "ROUTER_MAX_OUTPUT_TOKENS = 32"

definition newline :: string where
  "newline = [CHR 0x0A]"

definition in_quotes :: "string \<Rightarrow> string" where
  "in_quotes s = [dquote_char] @ s @ [dquote_char]"

definition in_backticks :: "string \<Rightarrow> string" where
  "in_backticks s = [CHR 0x60] @ s @ [CHR 0x60]"

definition router_system_prompt :: "RouterCallInput \<Rightarrow> string" where
  "router_system_prompt input =
     ''You are the reasoning router for the '' @ in_backticks (in_fleet input) @ '' fleet. You are a reasoning-only service, '' @
     ''not a fleet member: the worker'' @ [CHR 0x27] @ ''s provider and model are already frozen and you cannot change '' @
     ''them, choose a different member, or alter tools or permissions.'' @ newline @
     ''Worker member: '' @ in_member_id input @ newline @
     ''Frozen provider: '' @ fr_provider (in_frozen input) @ newline @
     ''Frozen model: '' @ fr_model (in_frozen input) @ newline @
     ''The next message is a bounded, redacted description of the task'' @ [CHR 0x27] @ ''s shape. Judge only how hard the '' @
     ''already-chosen model should think about it.'' @ newline @ newline @
     ''Reply with exactly this JSON object and nothing else: '' @
     ''{'' @ in_quotes ''reasoning'' @ '':'' @ in_quotes ''off|low|medium|high|max'' @ ''}. '' @
     ''Emit one object only '' @ [CHR 0xE2, CHR 0x80, CHR 0x94] @ '' no second object, no repeated key, no text before or after it. '' @
     ''No other key is permitted '' @ [CHR 0xE2, CHR 0x80, CHR 0x94] @ '' not a rationale, not an explanation, and above all not a '' @
     ''provider, model, route, member, or fleet field. Any extra key rejects your answer and '' @
     ''fails the run. Do not answer '' @ in_quotes ''auto'' @ ''.''"

definition router_user_message :: "RouterCallInput \<Rightarrow> string" where
  "router_user_message input = py_text (in_payload input)"

section \<open>The answer\<close>

definition ROUTER_REASONING_FIELD :: string where
  "ROUTER_REASONING_FIELD = ''reasoning''"

definition ROUTER_FORBIDDEN_FIELDS :: "string list" where
  "ROUTER_FORBIDDEN_FIELDS =
     [''provider'', ''provider_id'', ''provider_kind'', ''model'', ''model_id'', ''wire_model'', ''wire_model_id'', ''route'',
      ''model_route'', ''endpoint'', ''fleet'', ''member'', ''member_id'', ''role'', ''tools'', ''allowed_tools'', ''permissions'']"

datatype RouterDecisionError =
    DecisionParse string
  | RouteMutationAttempt string
  | UnknownDecisionField string
  | DuplicateField string
  | MissingReasoning
  | AutoReasoning
  | InvalidDecisionReasoning string
  | TrailingContent string

definition strip_router_code_fence :: "string \<Rightarrow> string" where
  "strip_router_code_fence raw =
     (let trimmed = trim raw
      in case option_or (strip_prefix trimmed (fence @ ''json'')) (strip_prefix trimmed fence) of
           None \<Rightarrow> trimmed
         | Some v \<Rightarrow> (case strip_suffix v fence of Some body \<Rightarrow> trim body | None \<Rightarrow> trimmed))"

definition trailing_excerpt :: "string \<Rightarrow> string" where
  "trailing_excerpt rest =
     trim (concat (take 60 (map (\<lambda>ch. if is_control ch then '' '' else ch) (str_chars (trim rest)))))"

fun first_duplicate :: "(string \<times> 'j) list \<Rightarrow> string list \<Rightarrow> string option" where
  "first_duplicate [] earlier = None"
| "first_duplicate ((field, v) # es) earlier =
     (if list_ex (\<lambda>e. eq_ignore_ascii_case e field) earlier then Some field else first_duplicate es (earlier @ [field]))"

definition forbidden_field :: "string \<Rightarrow> bool" where
  "forbidden_field field \<longleftrightarrow> list_ex (eq_ignore_ascii_case field) ROUTER_FORBIDDEN_FIELDS"

text \<open>
  \<open>read\<close> is the first item of the streaming reader at the type of ordered entries: nothing, an error as text, or the entries
  and the offset behind the object. \<open>as_str\<close> reads a string value. A decision is its tier.
\<close>

type_synonym 'j object_reader = "string \<Rightarrow> (string + (string \<times> 'j) list \<times> nat) option"

definition judge_entries :: "('j \<Rightarrow> string option) \<Rightarrow> (string \<times> 'j) list \<Rightarrow> RouterDecisionError + ReasoningTier" where
  "judge_entries as_str entries =
     (case first_duplicate entries [] of
        Some field \<Rightarrow> Inl (DuplicateField field)
      | None \<Rightarrow>
     (case find (\<lambda>e. forbidden_field (fst e)) entries of
        Some e \<Rightarrow> Inl (RouteMutationAttempt (fst e))
      | None \<Rightarrow>
     (case find (\<lambda>e. fst e \<noteq> ROUTER_REASONING_FIELD) entries of
        Some e \<Rightarrow> Inl (UnknownDecisionField (fst e))
      | None \<Rightarrow>
     (case Option.bind (find (\<lambda>e. fst e = ROUTER_REASONING_FIELD) entries) (\<lambda>e. as_str (snd e)) of
        None \<Rightarrow> Inl MissingReasoning
      | Some reasoning \<Rightarrow>
          if eq_ignore_ascii_case (trim reasoning) ''auto'' then Inl AutoReasoning
          else (case tier_parse reasoning of
              None \<Rightarrow> Inl (InvalidDecisionReasoning (trim reasoning))
            | Some tier \<Rightarrow> Inr tier)))))"

definition parse_router_decision ::
  "'j object_reader \<Rightarrow> ('j \<Rightarrow> string option) \<Rightarrow> string \<Rightarrow> RouterDecisionError + ReasoningTier" where
  "parse_router_decision read as_str raw =
     (let repaired = strip_router_code_fence raw
      in case read repaired of
           None \<Rightarrow> Inl (DecisionParse ''router output was empty'')
         | Some (Inl e) \<Rightarrow> Inl (DecisionParse e)
         | Some (Inr (entries, consumed)) \<Rightarrow>
             if trim (drop consumed repaired) \<noteq> [] then Inl (TrailingContent (trailing_excerpt (drop consumed repaired)))
             else judge_entries as_str entries)"

end
