(* ===== verification/Fleet_Reasoning.thy ===== *)
theory Fleet_Reasoning
  imports Router_Call
begin

text \<open>
  From requested to effective reasoning (\<open>workflow/src/fleet_reasoning.rs\<close>): the resolution for a member of an exact fleet and
  for the other callers, and the receipt of a launch.
\<close>

section \<open>Decisions\<close>

datatype EffectiveReasoning = AtTier ReasoningTier | AdaptiveReasoning

fun effective_label :: "EffectiveReasoning \<Rightarrow> string" where
  "effective_label (AtTier tier) = tier_str tier"
| "effective_label AdaptiveReasoning = ''native_adaptive''"

fun effective_tier :: "EffectiveReasoning \<Rightarrow> ReasoningTier option" where
  "effective_tier (AtTier tier) = Some tier"
| "effective_tier AdaptiveReasoning = None"

datatype EffectiveReasoningSource = MemberExplicit | ProviderNativeAdaptive | FleetRouter | LegacyHeuristic | SessionInherited

fun source_str :: "EffectiveReasoningSource \<Rightarrow> string" where
  "source_str MemberExplicit = ''member_explicit''"
| "source_str ProviderNativeAdaptive = ''provider_native_adaptive''"
| "source_str FleetRouter = ''fleet_router''"
| "source_str LegacyHeuristic = ''legacy_heuristic''"
| "source_str SessionInherited = ''session_inherited''"

record ResolvedReasoning =
  rs_requested :: RequestedReasoning
  rs_effective :: EffectiveReasoning
  rs_provider_control :: ProviderReasoningControl
  rs_provider_effective :: ProviderEffectiveReasoning
  rs_source :: EffectiveReasoningSource
  rs_capability_normalized :: bool
  rs_router :: "RouterIdentity option"

definition ResolvedReasoning_new ::
  "RequestedReasoning \<Rightarrow> EffectiveReasoning \<Rightarrow> ReasoningCapability \<Rightarrow> EffectiveReasoningSource \<Rightarrow> bool \<Rightarrow> ResolvedReasoning" where
  "ResolvedReasoning_new requested effective capability source capability_normalized =
     \<lparr>rs_requested = requested, rs_effective = effective, rs_provider_control = cap_control capability,
      rs_provider_effective =
        (case effective of AtTier tier \<Rightarrow> provider_effective capability tier | AdaptiveReasoning \<Rightarrow> ProviderAdaptive),
      rs_source = source, rs_capability_normalized = capability_normalized, rs_router = None\<rparr>"

definition with_router :: "RouterIdentity \<Rightarrow> ResolvedReasoning \<Rightarrow> ResolvedReasoning" where
  "with_router router r = r\<lparr>rs_router := Some router\<rparr>"

definition router_suffix :: "RouterIdentity option \<Rightarrow> string" where
  "router_suffix router =
     (case router of
        None \<Rightarrow> []
      | Some r \<Rightarrow> '' router='' @ identity_label r @ (case ri_call r of None \<Rightarrow> [] | Some call \<Rightarrow> '' '' @ call_receipt call))"

definition resolved_receipt :: "ResolvedReasoning \<Rightarrow> string" where
  "resolved_receipt r =
     ''requested='' @ requested_str (rs_requested r) @ '' selected='' @ effective_label (rs_effective r) @
     '' provider_control='' @ control_str (rs_provider_control r) @
     '' provider_effective='' @ provider_effective_label (rs_provider_effective r) @ '' source='' @ source_str (rs_source r) @
     router_suffix (rs_router r)"

section \<open>Resolution\<close>

datatype ReasoningResolveError =
    RouterRequired string string
  | RouterUnavailable string string
  | RouterDecisionMissing string
  | RouterIdentityMissing string

text \<open>The frozen route is taken but not read.\<close>

definition resolve_exact_member_reasoning ::
  "string \<Rightarrow> FrozenRoute \<Rightarrow> RequestedReasoning \<Rightarrow> ReasoningCapability \<Rightarrow> RouterAvailability \<Rightarrow> ReasoningTier option \<Rightarrow>
   RouterIdentity option \<Rightarrow> ReasoningResolveError + ResolvedReasoning" where
  "resolve_exact_member_reasoning member_id frozen requested capability router decision router_identity =
     (case requested_tier requested of
        Some tier \<Rightarrow>
          (let (effective, normalized) = normalize_tier capability tier
           in Inr (ResolvedReasoning_new requested (AtTier effective) capability MemberExplicit normalized))
      | None \<Rightarrow>
          (case router of
             Absent \<Rightarrow> Inl (RouterRequired member_id ''this fleet references no reasoning router'')
           | Unavailable reason \<Rightarrow> Inl (RouterUnavailable member_id reason)
           | Ready \<Rightarrow>
               (case decision of
                  None \<Rightarrow> Inl (RouterDecisionMissing member_id)
                | Some reasoning \<Rightarrow>
                    (case router_identity of
                       None \<Rightarrow> Inl (RouterIdentityMissing member_id)
                     | Some identity \<Rightarrow>
                         (let (effective, normalized) = normalize_tier capability reasoning
                          in Inr (with_router identity
                               (ResolvedReasoning_new requested (AtTier effective) capability FleetRouter normalized)))))))"

definition resolve_legacy_reasoning :: "RequestedReasoning \<Rightarrow> ReasoningCapability \<Rightarrow> ReasoningTier \<Rightarrow> ResolvedReasoning" where
  "resolve_legacy_reasoning requested capability heuristic_tier =
     (let (tier, source) = (case requested_tier requested of
            Some tier \<Rightarrow> (tier, MemberExplicit)
          | None \<Rightarrow> (heuristic_tier, LegacyHeuristic));
          (effective, normalized) = normalize_tier capability tier
      in ResolvedReasoning_new requested (AtTier effective) capability source normalized)"

section \<open>The receipt\<close>

record FleetTaskReceipt =
  rc_fleet :: string
  rc_schema_kind :: string
  rc_schema_revision :: "32 word"
  rc_content_hash :: string
  rc_member_id :: string
  rc_member_role :: string
  rc_posture_role :: "string option"
  rc_authority_fingerprint :: "string option"
  rc_provider :: string
  rc_model :: string
  rc_declared_model :: "string option"
  rc_endpoint :: "EndpointIdentity option"
  rc_requested_reasoning :: string
  rc_effective_reasoning :: string
  rc_provider_control :: string
  rc_provider_effective_reasoning :: string
  rc_selection_source :: string
  rc_capability_normalized :: bool
  rc_router :: "RouterIdentity option"
  rc_routing_summary :: "RoutingDisclosure option"
  rc_member_network_tool :: bool
  rc_cross_provider_inference :: bool
  rc_transport :: string

definition transport_disclosure :: "bool \<Rightarrow> bool \<Rightarrow> bool \<Rightarrow> string" where
  "transport_disclosure router_called member_network_tool cross_provider =
     ''Host-owned provider inference over the network; '' @
     (if member_network_tool then ''the member also holds a model-visible network tool''
      else ''the member holds no model-visible network tool'') @ ''.'' @
     (if router_called
      then '' A bounded, redacted routing summary was also sent to the fleet'' @ [CHR 0x27] @ ''s '' @
        (if cross_provider then ''reasoning router, which runs on a different provider than this member.''
         else ''reasoning router, which runs on the same provider as this member.'')
      else [])"

definition FleetTaskReceipt_new ::
  "string \<Rightarrow> string \<Rightarrow> 32 word \<Rightarrow> string \<Rightarrow> string \<Rightarrow> string \<Rightarrow> PreflightedRoute \<Rightarrow> ResolvedReasoning \<Rightarrow>
   RoutingDisclosure option \<Rightarrow> bool \<Rightarrow> FleetTaskReceipt" where
  "FleetTaskReceipt_new fleet schema_kind schema_revision content_hash member_id member_role route resolved routing_summary network_tool =
     (let cross = (case routing_summary of None \<Rightarrow> False | Some summary \<Rightarrow> ds_cross_provider_inference summary)
      in \<lparr>rc_fleet = fleet, rc_schema_kind = schema_kind, rc_schema_revision = schema_revision, rc_content_hash = content_hash,
          rc_member_id = member_id, rc_member_role = member_role, rc_posture_role = None, rc_authority_fingerprint = None,
          rc_provider = pr_provider_id route, rc_model = pr_wire_model route,
          rc_declared_model = (if model_canonicalized route then Some (pr_declared_model route) else None),
          rc_endpoint = Some (pr_endpoint route),
          rc_requested_reasoning = requested_str (rs_requested resolved),
          rc_effective_reasoning = effective_label (rs_effective resolved),
          rc_provider_control = control_str (rs_provider_control resolved),
          rc_provider_effective_reasoning = provider_effective_label (rs_provider_effective resolved),
          rc_selection_source = source_str (rs_source resolved),
          rc_capability_normalized = rs_capability_normalized resolved,
          rc_router = rs_router resolved, rc_routing_summary = routing_summary, rc_member_network_tool = network_tool,
          rc_cross_provider_inference = cross,
          rc_transport = transport_disclosure (rs_router resolved \<noteq> None) network_tool cross\<rparr>)"

definition with_posture_role :: "string \<Rightarrow> FleetTaskReceipt \<Rightarrow> FleetTaskReceipt" where
  "with_posture_role posture_role r =
     r\<lparr>rc_posture_role := (if posture_role \<noteq> rc_member_role r then Some posture_role else None)\<rparr>"

definition with_authority_fingerprint :: "string \<Rightarrow> FleetTaskReceipt \<Rightarrow> FleetTaskReceipt" where
  "with_authority_fingerprint fingerprint r = r\<lparr>rc_authority_fingerprint := Some fingerprint\<rparr>"

definition receipt_line :: "FleetTaskReceipt \<Rightarrow> string" where
  "receipt_line r =
     ''fleet='' @ rc_fleet r @ '' member='' @ rc_member_id r @ '' (role '' @ rc_member_role r @ '') route='' @ rc_provider r @ ''/'' @
     rc_model r @ '' requested='' @ rc_requested_reasoning r @ '' effective='' @ rc_effective_reasoning r @
     '' provider_control='' @ rc_provider_control r @ '' provider_effective='' @ rc_provider_effective_reasoning r @
     '' source='' @ rc_selection_source r @
     (case rc_posture_role r of None \<Rightarrow> [] | Some posture \<Rightarrow> '' posture='' @ posture) @
     router_suffix (rc_router r) @
     (case rc_routing_summary r of None \<Rightarrow> [] | Some summary \<Rightarrow> '' '' @ disclosure_receipt summary)"

end
