(* ===== verification/Router_Call_Props.thy ===== *)
theory Router_Call_Props
  imports Router_Call Redaction_Props
begin

text \<open>
  What leaves for a router and what may come back: the payload is short, free of the prompt's own structure and
  redacted, its label determines the digest of what was sent, and an answer is accepted exactly if it is one object with
  the one field.
\<close>

section \<open>Digests\<close>

lemma hex_byte_inject: "hex_byte c @ x = hex_byte d @ y \<longleftrightarrow> c = d \<and> x = y"
proof
  assume eq: "hex_byte c @ x = hex_byte d @ y"
  have "byte a < 256" for a by (simp add: byte_def)
  then have bound: "byte a div 16 < 16" "byte a mod 16 < 16" for a
    by (simp_all add: less_mult_imp_div_less)
  have "hex_digit m = hex_digit n \<longleftrightarrow> m = n" if "m < 16" "n < 16" for m n
    using hex_value_digit [OF that(1)] hex_value_digit [OF that(2)] by metis
  then have "byte c div 16 = byte d div 16" "byte c mod 16 = byte d mod 16" "x = y"
    using eq bound [of c] bound [of d] by (auto simp: hex_byte_def)
  moreover from this(1,2) have "byte c = byte d" by (metis div_mod_decomp)
  ultimately show "c = d \<and> x = y" by (simp add: byte_def)
qed simp

lemma hex_inject: "concat (map hex_byte s) = concat (map hex_byte t) \<longleftrightarrow> s = t"
proof (induction s arbitrary: t)
  case Nil
  show ?case by (cases t) (simp_all add: hex_byte_def)
next
  case (Cons c s)
  show ?case
  proof (cases t)
    case (Cons d t')
    then show ?thesis using Cons.IH [of t'] by (simp add: hex_byte_inject)
  qed (simp add: hex_byte_def)
qed

lemma sha256_label_inject: "sha256_label digest a = sha256_label digest b \<longleftrightarrow> digest a = digest b"
  by (simp add: sha256_label_def hex_inject)

section \<open>Characters\<close>

lemma str_chars_length:
  "length (str_chars s) = length (filter (\<lambda>c. \<not> is_continuation c) s) + (if s \<noteq> [] \<and> is_continuation (hd s) then 1 else 0)"
proof (induction s rule: str_chars.induct)
  case (2 c s)
  have "filter (\<lambda>c. \<not> is_continuation c) s = filter (\<lambda>c. \<not> is_continuation c) (dropWhile is_continuation s)"
    by (induction s) auto
  moreover have "dropWhile is_continuation s = [] \<or> \<not> is_continuation (hd (dropWhile is_continuation s))"
    using hd_dropWhile [of is_continuation s] by blast
  ultimately show ?case using "2.IH" by auto
qed simp

lemma str_chars_prefix: "length (str_chars a) \<le> length (str_chars (a @ b))"
  unfolding str_chars_length by (cases a) auto

lemma str_chars_concat: "concat (str_chars s) = s"
  by (induction s rule: str_chars.induct) simp_all

lemma bound_text_length: "length (str_chars (bound_text s)) \<le> ROUTER_SUMMARY_MAX_CHARS"
proof -
  let ?t = "concat (take ROUTER_SUMMARY_MAX_CHARS (str_chars s))"
  obtain rest where "trim_end ?t @ rest = ?t" using trim_end_split [of ?t] by metis
  then have "length (str_chars (trim_end ?t)) \<le> length (str_chars ?t)" using str_chars_prefix by metis
  also have "str_chars ?t = take ROUTER_SUMMARY_MAX_CHARS (str_chars s)"
    using str_chars_take [of "[]" ROUTER_SUMMARY_MAX_CHARS s] by (simp add: starts_scalar_def)
  finally show ?thesis by (simp add: bound_text_def)
qed

lemma bound_text_subset: "set (bound_text s) \<subseteq> set s"
proof -
  have "set (concat (take n (str_chars s))) \<subseteq> set (concat (str_chars s))" for n
    by (auto dest: in_set_takeD)
  then have "set (trim_end (concat (take ROUTER_SUMMARY_MAX_CHARS (str_chars s)))) \<subseteq> set s"
    using set_trim_end unfolding str_chars_concat by (rule order_trans [rotated])
  then show ?thesis unfolding bound_text_def by simp
qed

section \<open>The payload\<close>

text \<open>In UTF-8 only a character outside ASCII has more than one byte, and its first byte is a lead byte.\<close>

definition well_encoded :: "string \<Rightarrow> bool" where
  "well_encoded s \<longleftrightarrow> (\<forall>ch \<in> set (str_chars s). 1 < length ch \<longrightarrow> 192 \<le> byte (hd ch) \<and> (\<forall>c \<in> set (tl ch). 128 \<le> byte c))"

definition inert :: "char \<Rightarrow> bool" where
  "inert c \<longleftrightarrow> 32 \<le> byte c \<and> byte c \<noteq> 127 \<and> c \<notin> {CHR 0x60, CHR ''{'', CHR ''}''}"

lemma inert_map_fence:
  assumes "ch \<noteq> []" and "\<not> is_control ch" and "1 < length ch \<longrightarrow> 192 \<le> byte (hd ch) \<and> (\<forall>c \<in> set (tl ch). 128 \<le> byte c)"
  shows "\<forall>c \<in> set (map_fence ch). inert c"
proof (cases "1 < length ch")
  case True
  then have high: "\<forall>c \<in> set ch. 128 \<le> byte c" using assms(3) by (cases ch) auto
  moreover have "byte (CHR 0x60) < 128" "byte (CHR ''{'') < 128" "byte (CHR ''}'') < 128" by code_simp+
  ultimately have "\<forall>c \<in> set ch. inert c" by (auto simp: inert_def)
  then show ?thesis using True by (auto simp: map_fence_def)
next
  case False
  then obtain c where "ch = [c]" using assms(1) by (cases ch) auto
  moreover have "inert (CHR 0x27)" "inert (CHR ''('')" "inert (CHR '')'')" by code_simp+
  ultimately show ?thesis using assms(2) by (auto simp: map_fence_def is_control_def inert_def)
qed

lemma sanitize_inert:
  assumes "\<forall>ch \<in> set chs. ch \<noteq> [] \<and> (1 < length ch \<longrightarrow> 192 \<le> byte (hd ch) \<and> (\<forall>c \<in> set (tl ch). 128 \<le> byte c))"
    and "\<forall>c \<in> set out. inert c"
  shows "\<forall>c \<in> set (sanitize_chars chs out pending). inert c"
  using assms
proof (induction chs out pending rule: sanitize_chars.induct)
  case (2 ch chs out pending)
  have "inert (CHR '' '')" by code_simp
  show ?case
  proof (cases "is_control ch \<or> ws_len ch \<noteq> 0")
    case True
    have "\<forall>c \<in> set (sanitize_chars chs out (out \<noteq> [])). inert c"
      by (rule "2.IH"(1) [OF True]) (use "2.prems" in simp_all)
    with True show ?thesis by simp
  next
    case False
    have "\<forall>c \<in> set (map_fence ch). inert c" by (rule inert_map_fence) (use False "2.prems"(1) in simp_all)
    with \<open>inert (CHR '' '')\<close> have "\<forall>c \<in> set (out @ (if pending then '' '' else []) @ map_fence ch). inert c"
      using "2.prems"(2) by auto
    then have "\<forall>c \<in> set (sanitize_chars chs (out @ (if pending then '' '' else []) @ map_fence ch) False). inert c"
      by (intro "2.IH"(2) [OF False]) (use "2.prems"(1) in simp)
    with False show ?thesis by simp
  qed
qed simp

lemma str_chars_not_Nil: "ch \<in> set (str_chars s) \<Longrightarrow> ch \<noteq> []"
  by (induction s rule: str_chars.induct) auto

lemma set_join_subset: "set (join sep ws) \<subseteq> set sep \<union> \<Union> (set ` set ws)"
  by (induction sep ws rule: join.induct) auto

lemma split_once_sep: "split_once d t = Some (a, b) \<Longrightarrow> d \<in> set t"
  by (induction t arbitrary: a) (auto split: if_splits)

lemma disclosed_subset: "disclosed t out \<Longrightarrow> set out \<subseteq> set t \<union> set SECRET_PLACEHOLDER \<union> set PATH_PLACEHOLDER"
  using split_once_subset split_once_sep by (fastforce simp: disclosed_def)

lemma split_char_subset: "w \<in> set (split_char d s) \<Longrightarrow> set w \<subseteq> set s"
proof (induction s arbitrary: w)
  case (Cons c s)
  show ?case
  proof (cases "c = d")
    case False
    obtain v vs where "split_char d s = v # vs" using split_char_not_Nil [of d s] by (cases "split_char d s") auto
    with Cons False show ?thesis by fastforce
  qed (use Cons in auto)
qed simp

lemma redacted_subset:
  "set (rx_text (redact_for_disclosure s)) \<subseteq> insert (CHR '' '') (set s \<union> set SECRET_PLACEHOLDER \<union> set PATH_PLACEHOLDER)"
proof -
  obtain outs where joined: "rx_text (redact_for_disclosure s) = join '' '' outs"
    and rel: "list_all2 disclosed (split_char (CHR '' '') s) outs"
    using redacted_tokens by metis
  have "set w \<subseteq> set s \<union> set SECRET_PLACEHOLDER \<union> set PATH_PLACEHOLDER" if "w \<in> set outs" for w :: string
  proof -
    obtain i where "i < length outs" "w = outs ! i" using \<open>w \<in> set outs\<close> by (auto simp: in_set_conv_nth)
    then obtain t where "t \<in> set (split_char (CHR '' '') s)" "disclosed t w"
      using rel by (metis list_all2_conv_all_nth nth_mem)
    then have "set t \<subseteq> set s" "set w \<subseteq> set t \<union> set SECRET_PLACEHOLDER \<union> set PATH_PLACEHOLDER"
      using split_char_subset disclosed_subset by blast+
    then show ?thesis by blast
  qed
  then have "\<Union> (set ` set outs) \<subseteq> set s \<union> set SECRET_PLACEHOLDER \<union> set PATH_PLACEHOLDER" by (intro UN_least)
  moreover have "set (join '' '' outs) \<subseteq> insert (CHR '' '') (\<Union> (set ` set outs))"
    using set_join_subset [of "'' ''" outs] by simp
  ultimately show ?thesis unfolding joined by (meson insert_mono order_trans)
qed

lemma payload_text: "py_text (bounded_routing_payload digest task) = bound_text (rx_text (redact_for_disclosure (sanitize_chars (str_chars task) [] False)))"
  by (simp add: bounded_routing_payload_def Let_def)

lemma payload_inert:
  assumes "well_encoded task"
  shows "\<forall>c \<in> set (py_text (bounded_routing_payload digest task)). inert c"
proof -
  have "\<forall>c \<in> set (sanitize_chars (str_chars task) [] False). inert c"
    by (rule sanitize_inert) (use assms str_chars_not_Nil in \<open>auto simp: well_encoded_def\<close>)
  moreover have "list_all inert ('' '' @ SECRET_PLACEHOLDER @ PATH_PLACEHOLDER)" by code_simp
  ultimately show ?thesis
    using bound_text_subset redacted_subset [of "sanitize_chars (str_chars task) [] False"]
    by (fastforce simp: payload_text list_all_iff)
qed



section \<open>The answer\<close>

lemma find_None_all: "find P xs = None \<longleftrightarrow> (\<forall>x \<in> set xs. \<not> P x)"
  by (auto simp: find_None_iff)

lemma first_duplicate_seen:
  "first_duplicate es earlier = None \<Longrightarrow> e \<in> set es \<Longrightarrow> fst e \<notin> set earlier"
proof (induction es arbitrary: earlier)
  case (Cons d es)
  obtain field v where d: "d = (field, v)" by force
  with Cons.prems(1) have "field \<notin> set earlier" "first_duplicate es (earlier @ [field]) = None"
    by (auto simp: eq_ignore_ascii_case_def list_ex_iff split: if_splits)
  with Cons.IH [of "earlier @ [field]"] Cons.prems(2) d show ?case by auto
qed simp

lemma judge_entries_Inr:
  "judge_entries as_str entries = Inr tier \<longleftrightarrow>
     (\<exists>v text. entries = [(ROUTER_REASONING_FIELD, v)] \<and> as_str v = Some text \<and> tier_parse text = Some tier)"
proof
  assume judged: "judge_entries as_str entries = Inr tier"
  then have dup: "first_duplicate entries [] = None" and only: "\<forall>e \<in> set entries. fst e = ROUTER_REASONING_FIELD"
    by (auto simp: judge_entries_def find_None_all split: option.splits)
  have "\<exists>v. entries = [(ROUTER_REASONING_FIELD, v)]"
  proof (cases entries)
    case Nil
    with judged show ?thesis by (simp add: judge_entries_def)
  next
    case (Cons d es)
    obtain field v where d: "d = (field, v)" by force
    have "es = []"
    proof (rule ccontr)
      assume "es \<noteq> []"
      then obtain e where "e \<in> set es" by (cases es) auto
      moreover have "first_duplicate es [field] = None" using dup Cons d by (simp split: if_splits)
      ultimately have "fst e \<noteq> field" using first_duplicate_seen [of es "[field]"] by simp
      with only \<open>e \<in> set es\<close> Cons d show False by auto
    qed
    with only Cons d show ?thesis by simp
  qed
  then obtain v where "entries = [(ROUTER_REASONING_FIELD, v)]" ..
  with judged show "\<exists>v text. entries = [(ROUTER_REASONING_FIELD, v)] \<and> as_str v = Some text \<and> tier_parse text = Some tier"
    by (auto simp: judge_entries_def split: option.splits if_splits)
next
  assume "\<exists>v text. entries = [(ROUTER_REASONING_FIELD, v)] \<and> as_str v = Some text \<and> tier_parse text = Some tier"
  then obtain v t where e: "entries = [(ROUTER_REASONING_FIELD, v)]" "as_str v = Some t" "tier_parse t = Some tier" by blast
  have "\<not> forbidden_field ROUTER_REASONING_FIELD" by code_simp
  moreover have "to_ascii_lowercase ''auto'' = ''auto''" "tier_parse ''auto'' = None" by code_simp+
  moreover have "to_ascii_lowercase (trim t) \<noteq> ''auto''" using e(3) by (auto simp: tier_parse_def Let_def)
  ultimately show "judge_entries as_str entries = Inr tier" using e by (simp add: judge_entries_def eq_ignore_ascii_case_def)
qed

text \<open>
  C35. An answer of a router is a decision exactly if, without a code fence, it is one JSON object and nothing behind it, the
  object has the one field \<open>reasoning\<close> once, and its value is a string that names a concrete tier. In particular no field
  that names a route is ever accepted, and an object that has one and repeats no key is refused as an
  attempt to move the route.
\<close>

theorem router_decision_exact:
  "(parse_router_decision reader as_str raw = Inr tier \<longleftrightarrow>
      (\<exists>v n text. reader (strip_router_code_fence raw) = Some (Inr ([(ROUTER_REASONING_FIELD, v)], n)) \<and>
         trim (drop n (strip_router_code_fence raw)) = [] \<and> as_str v = Some text \<and> tier_parse text = Some tier)) \<and>
   (\<forall>entries n. reader (strip_router_code_fence raw) = Some (Inr (entries, n)) \<and> trim (drop n (strip_router_code_fence raw)) = [] \<and>
      first_duplicate entries [] = None \<and> (\<exists>e \<in> set entries. forbidden_field (fst e)) \<longrightarrow>
      (\<exists>field. forbidden_field field \<and> parse_router_decision reader as_str raw = Inl (RouteMutationAttempt field)))"
proof (intro conjI allI impI)
  show "parse_router_decision reader as_str raw = Inr tier \<longleftrightarrow>
      (\<exists>v n text. reader (strip_router_code_fence raw) = Some (Inr ([(ROUTER_REASONING_FIELD, v)], n)) \<and>
         trim (drop n (strip_router_code_fence raw)) = [] \<and> as_str v = Some text \<and> tier_parse text = Some tier)"
    by (auto simp: parse_router_decision_def Let_def judge_entries_Inr split: option.splits sum.splits if_splits)
next
  fix entries n
  assume "reader (strip_router_code_fence raw) = Some (Inr (entries, n)) \<and> trim (drop n (strip_router_code_fence raw)) = [] \<and>
      first_duplicate entries [] = None \<and> (\<exists>e \<in> set entries. forbidden_field (fst e))"
  moreover from this obtain e where "find (\<lambda>e. forbidden_field (fst e)) entries = Some e" "forbidden_field (fst e)"
    using find_exists [of _ entries "\<lambda>e. forbidden_field (fst e)"] by blast
  ultimately show "\<exists>field. forbidden_field field \<and> parse_router_decision reader as_str raw = Inl (RouteMutationAttempt field)"
    by (auto simp: parse_router_decision_def judge_entries_def)
qed

theorem router_decision_exact_witness:
  "parse_router_decision (\<lambda>s. Some (Inr ([(''reasoning'', '' HIGH'')], length s))) Some ''{}'' = Inr ReasoningTier.High \<and>
   (\<exists>field. parse_router_decision (\<lambda>s. Some (Inr ([(''reasoning'', ''low''), (''Model'', ''x'')], length s))) Some ''{}'' =
      Inl (RouteMutationAttempt field))"
proof -
  have "tier_parse '' HIGH'' = Some ReasoningTier.High" by code_simp
  then have "parse_router_decision (\<lambda>s. Some (Inr ([(''reasoning'', '' HIGH'')], length s))) Some ''{}'' = Inr ReasoningTier.High"
    using router_decision_exact [of "\<lambda>s. Some (Inr ([(''reasoning'', '' HIGH'')], length s))" Some "''{}''" ReasoningTier.High, THEN conjunct1]
    by (simp add: ROUTER_REASONING_FIELD_def trim_empty)
  moreover have "forbidden_field ''Model''" "first_duplicate [(''reasoning'', ''low''), (''Model'', ''x'')] [] = None" by code_simp+
  then have "\<exists>field. parse_router_decision (\<lambda>s. Some (Inr ([(''reasoning'', ''low''), (''Model'', ''x'')], length s))) Some ''{}'' =
      Inl (RouteMutationAttempt field)"
    using router_decision_exact [of "\<lambda>s. Some (Inr ([(''reasoning'', ''low''), (''Model'', ''x'')], length s))" Some "''{}''", THEN conjunct2]
    by (auto simp: trim_empty)
  ultimately show ?thesis by blast
qed

end
