(* ===== verification/Fleet_Store.thy ===== *)
theory Fleet_Store
  imports Router_Call
begin

text \<open>
  The store of fleets and routers (\<open>workflow/src/named_fleet.rs\<close> and the loader of \<open>reasoning_router.rs\<close>): the two
  forms of a fleet file, the line parser of the older form, and the lookup of a name in labelled roots. The host is a
  parameter: the TOML and JSON readers, SHA-256 and the file system.
\<close>

section \<open>The host\<close>

record NamedFleet =
  nf_name :: string
  nf_description :: "string option"
  nf_roles :: "(string, string) btree_map"

record RouterProfileToml =
  rq_name :: string
  rq_description :: "string option"
  rq_schema :: string
  rq_schema_revision :: "32 word"
  rq_provider :: string
  rq_model :: string
  rq_call_reasoning :: "string option"

text \<open>
  A reader gives the value or a message, \<open>fh_probe\<close> the \<open>schema\<close> key of a text that is a document. A path is text; reading a
  file gives its content or a message.
\<close>

record FleetHost =
  fh_probe :: "string \<Rightarrow> string option option"
  fh_exact_toml :: "string \<Rightarrow> string + ExactFleetToml"
  fh_fleet_json :: "string \<Rightarrow> string + NamedFleet"
  fh_router_toml :: "string \<Rightarrow> string + RouterProfileToml"
  fh_digest :: "string \<Rightarrow> string"
  fh_is_file :: "string \<Rightarrow> bool"
  fh_read :: "string \<Rightarrow> string + string"

text \<open>\<open>Path::join\<close> on Unix: an absolute second path replaces the first.\<close>

definition path_join :: "string \<Rightarrow> string \<Rightarrow> string" where
  "path_join base name =
     (if starts_with name ''/'' then name
      else if base = [] \<or> ends_with base ''/'' then base @ name
      else base @ ''/'' @ name)"

record FleetSearchRoot =
  sr_origin :: string
  sr_root :: string

definition split_qualified :: "string \<Rightarrow> string option \<times> string" where
  "split_qualified name =
     (case split_once (CHR ''/'') (trim name) of
        Some (origin, bare) \<Rightarrow>
          if trim origin \<noteq> [] \<and> trim bare \<noteq> [] then (Some (trim origin), trim bare) else (None, trim name)
      | None \<Rightarrow> (None, trim name))"

definition origin_matches :: "string option \<Rightarrow> FleetSearchRoot \<Rightarrow> bool" where
  "origin_matches requested root = (case requested of None \<Rightarrow> True | Some origin \<Rightarrow> eq_ignore_ascii_case (sr_origin root) origin)"

section \<open>The line parser\<close>

datatype NamedFleetError =
    FleetNotFound string
  | FleetIo string string
  | FleetParse string string
  | MissingRole string string
  | FleetNameMismatch string string
  | AmbiguousFleet string "string list"
  | ExactForm string ExactFleetError

definition MEMORY :: string where
  "MEMORY = ''<memory>''"

text \<open>The scan up to a comment, with the quote that is open and whether a backslash precedes.\<close>

fun strip_comment_from :: "char option \<Rightarrow> bool \<Rightarrow> string \<Rightarrow> string" where
  "strip_comment_from quote escaped [] = []"
| "strip_comment_from (Some q) escaped (c # s) =
     (if q = CHR 0x22 then
        (if escaped then c # strip_comment_from (Some q) False s
         else if c = CHR 0x5C then c # strip_comment_from (Some q) True s
         else if c = CHR 0x22 then c # strip_comment_from None escaped s
         else c # strip_comment_from (Some q) escaped s)
      else if c = CHR 0x27 then c # strip_comment_from None escaped s
      else c # strip_comment_from (Some q) escaped s)"
| "strip_comment_from None escaped (c # s) =
     (if c = CHR 0x22 \<or> c = CHR 0x27 then c # strip_comment_from (Some c) escaped s
      else if c = CHR ''#'' then []
      else c # strip_comment_from None escaped s)"

definition strip_toml_comment :: "string \<Rightarrow> string" where
  "strip_toml_comment line = strip_comment_from None False line"

record MinimalFleet =
  mf_name :: "string option"
  mf_description :: "string option"
  mf_roles :: "(string, string) btree_map"
  mf_section :: string

definition minimal_entry :: "string \<Rightarrow> string \<Rightarrow> MinimalFleet \<Rightarrow> MinimalFleet" where
  "minimal_entry key value m =
     (if mf_section m = [] then
        (if key = ''name'' then m\<lparr>mf_name := Some value\<rparr>
         else if key = ''description'' then m\<lparr>mf_description := Some value\<rparr>
         else m)
      else if mf_section m = ''roles'' then m\<lparr>mf_roles := bt_insert key value (mf_roles m)\<rparr>
      else m)"

definition minimal_line :: "string \<Rightarrow> MinimalFleet \<Rightarrow> MinimalFleet" where
  "minimal_line raw m =
     (let line = trim (strip_toml_comment raw)
      in if line = [] then m
         else if starts_with line ''['' \<and> ends_with line '']'' then m\<lparr>mf_section := take (length line - 2) (drop 1 line)\<rparr>
         else case split_once (CHR ''='') line of
             None \<Rightarrow> m
           | Some (key, value) \<Rightarrow> minimal_entry (trim key) (trim_matches [CHR 0x22] (trim value)) m)"

definition parse_fleet_toml_minimal :: "string \<Rightarrow> NamedFleetError + NamedFleet" where
  "parse_fleet_toml_minimal text =
     (let m = fold minimal_line (lines text) \<lparr>mf_name = None, mf_description = None, mf_roles = [], mf_section = []\<rparr>
      in case mf_name m of
           None \<Rightarrow> Inl (FleetParse MEMORY ''missing name'')
         | Some name \<Rightarrow> Inr \<lparr>nf_name = name, nf_description = mf_description m, nf_roles = mf_roles m\<rparr>)"

definition parse_named_fleet :: "FleetHost \<Rightarrow> string \<Rightarrow> NamedFleetError + NamedFleet" where
  "parse_named_fleet h text =
     (let trimmed = trim text
      in if starts_with trimmed ''{'' then
           (case fh_fleet_json h trimmed of Inl e \<Rightarrow> Inl (FleetParse MEMORY e) | Inr f \<Rightarrow> Inr f)
         else parse_fleet_toml_minimal trimmed)"

section \<open>Legacy fleets\<close>

definition at_path :: "string \<Rightarrow> NamedFleetError \<Rightarrow> NamedFleetError" where
  "at_path path e =
     (case e of FleetParse _ message \<Rightarrow> FleetParse path message | ExactForm _ source \<Rightarrow> ExactForm path source | _ \<Rightarrow> e)"

definition read_fleet_file :: "FleetHost \<Rightarrow> string \<Rightarrow> NamedFleetError + string" where
  "read_fleet_file h path = (case fh_read h path of Inl e \<Rightarrow> Inl (FleetIo path e) | Inr text \<Rightarrow> Inr text)"

definition load_named_fleet_file :: "FleetHost \<Rightarrow> string \<Rightarrow> string option \<Rightarrow> NamedFleetError + NamedFleet" where
  "load_named_fleet_file h path expect_name =
     try_bind (read_fleet_file h path) (\<lambda>text.
     try_bind (case parse_named_fleet h text of Inl e \<Rightarrow> Inl (at_path path e) | Inr f \<Rightarrow> Inr f) (\<lambda>fleet.
     case expect_name of
       None \<Rightarrow> Inr fleet
     | Some expected \<Rightarrow>
         if nf_name fleet \<noteq> expected then Inl (FleetNameMismatch (nf_name fleet) expected) else Inr fleet))"

fun load_named_fleet :: "FleetHost \<Rightarrow> string \<Rightarrow> string list \<Rightarrow> NamedFleetError + NamedFleet" where
  "load_named_fleet h name [] = Inl (FleetNotFound name)"
| "load_named_fleet h name (root # roots) =
     (let path = path_join (path_join root ''fleets'') (name @ ''.toml'')
      in if fh_is_file h path then load_named_fleet_file h path (Some name) else load_named_fleet h name roots)"

definition fleet_resolve :: "NamedFleet \<Rightarrow> string \<Rightarrow> NamedFleetError + string" where
  "fleet_resolve f role =
     (case option_or (bt_get (nf_roles f) (to_ascii_lowercase (trim role)))
         (map_option snd (find (\<lambda>(k, _). eq_ignore_ascii_case k role) (nf_roles f))) of
        None \<Rightarrow> Inl (MissingRole (nf_name f) role)
      | Some profile \<Rightarrow> Inr profile)"

definition STOPSHIP_REQUIRED_ROLES :: "string list" where
  "STOPSHIP_REQUIRED_ROLES = [''scout'', ''implementer'', ''reviewer'', ''verifier'', ''release_lead'']"

definition validate_stopship_roles :: "NamedFleet \<Rightarrow> NamedFleetError + unit" where
  "validate_stopship_roles f = try_each (\<lambda>role. try_bind (fleet_resolve f role) (\<lambda>_. Inr ())) STOPSHIP_REQUIRED_ROLES"

section \<open>Documents\<close>

datatype FleetSchema = Legacy NamedFleet | Exact ExactFleet

record FleetDocument =
  fd_schema :: FleetSchema
  fd_source :: "string option"
  fd_source_hash :: string

definition parse_schema :: "FleetHost \<Rightarrow> string \<Rightarrow> NamedFleetError + FleetSchema" where
  "parse_schema h text =
     (case declared_schema_kind (fh_probe h) text of
        Some kind \<Rightarrow>
          if kind = EXACT_FLEET_SCHEMA_KIND then
            (case exact_parse (fh_exact_toml h) text of Inl source \<Rightarrow> Inl (ExactForm MEMORY source) | Inr f \<Rightarrow> Inr (Exact f))
          else Inl (FleetParse MEMORY (''unknown fleet schema '' @ in_backticks kind @ ''; expected '' @ in_backticks ''exact''))
      | None \<Rightarrow> try_bind (parse_named_fleet h text) (\<lambda>f. Inr (Legacy f)))"

definition document_parse :: "FleetHost \<Rightarrow> string \<Rightarrow> NamedFleetError + FleetDocument" where
  "document_parse h text =
     try_bind (parse_schema h text) (\<lambda>schema.
       Inr \<lparr>fd_schema = schema, fd_source = None, fd_source_hash = sha256_label (fh_digest h) text\<rparr>)"

fun schema_name :: "FleetSchema \<Rightarrow> string" where
  "schema_name (Legacy f) = nf_name f"
| "schema_name (Exact f) = ef_name f"

fun schema_description :: "FleetSchema \<Rightarrow> string option" where
  "schema_description (Legacy f) = nf_description f"
| "schema_description (Exact f) = ef_description f"

fun is_legacy :: "FleetSchema \<Rightarrow> bool" where
  "is_legacy (Legacy _) = True"
| "is_legacy (Exact _) = False"

fun schema_kind :: "FleetSchema \<Rightarrow> string" where
  "schema_kind (Legacy _) = LEGACY_FLEET_SCHEMA_KIND"
| "schema_kind (Exact _) = EXACT_FLEET_SCHEMA_KIND"

fun schema_revision :: "FleetSchema \<Rightarrow> 32 word" where
  "schema_revision (Legacy _) = 0"
| "schema_revision (Exact f) = ef_schema_revision f"

definition document_load :: "FleetHost \<Rightarrow> string \<Rightarrow> string option \<Rightarrow> NamedFleetError + FleetDocument" where
  "document_load h path expect_name =
     try_bind (read_fleet_file h path) (\<lambda>text.
     try_bind (case document_parse h text of Inl e \<Rightarrow> Inl (at_path path e) | Inr d \<Rightarrow> Inr d) (\<lambda>document.
     try_bind (case expect_name of
         None \<Rightarrow> Inr ()
       | Some expected \<Rightarrow> refuse_if (schema_name (fd_schema document) \<noteq> expected)
           (FleetNameMismatch (schema_name (fd_schema document)) expected)) (\<lambda>_.
     Inr (document\<lparr>fd_source := Some path\<rparr>))))"

record QualifiedFleetId =
  qf_name :: string
  qf_origin :: string

definition qualified_fleet :: "QualifiedFleetId \<Rightarrow> string" where
  "qualified_fleet q = qf_origin q @ ''/'' @ qf_name q"

definition fleet_path :: "string \<Rightarrow> FleetSearchRoot \<Rightarrow> string" where
  "fleet_path bare root = path_join (path_join (sr_root root) ''fleets'') (bare @ ''.toml'')"

definition fleet_candidates :: "FleetHost \<Rightarrow> string option \<Rightarrow> string \<Rightarrow> FleetSearchRoot list \<Rightarrow> FleetSearchRoot list" where
  "fleet_candidates h requested bare roots =
     filter (\<lambda>root. origin_matches requested root \<and> fh_is_file h (fleet_path bare root)) roots"

text \<open>Whether one of the candidates declares a schema; they are read up to the first that does.\<close>

fun any_exact :: "FleetHost \<Rightarrow> string list \<Rightarrow> NamedFleetError + bool" where
  "any_exact h [] = Inr False"
| "any_exact h (path # paths) =
     try_bind (read_fleet_file h path) (\<lambda>text.
       if declared_schema_kind (fh_probe h) text \<noteq> None then Inr True else any_exact h paths)"

definition document_load_by_name ::
  "FleetHost \<Rightarrow> string \<Rightarrow> FleetSearchRoot list \<Rightarrow> NamedFleetError + FleetDocument \<times> QualifiedFleetId" where
  "document_load_by_name h name roots =
     (let (requested, bare) = split_qualified name; candidates = fleet_candidates h requested bare roots
      in case candidates of
           [] \<Rightarrow> Inl (FleetNotFound name)
         | first # others \<Rightarrow>
             try_bind (if others \<noteq> [] then any_exact h (map (fleet_path bare) candidates) else Inr False) (\<lambda>exact.
             if exact then
               Inl (AmbiguousFleet bare (map (\<lambda>r. sr_origin r @ ''/'' @ bare @ '' ('' @ fleet_path bare r @ '')'') candidates))
             else try_bind (document_load h (fleet_path bare first) (Some bare)) (\<lambda>document.
               Inr (document, \<lparr>qf_name = bare, qf_origin = sr_origin first\<rparr>))))"

section \<open>Router profiles\<close>

definition REASONING_ROUTER_DIR :: string where
  "REASONING_ROUTER_DIR = ''routers''"

definition REASONING_ROUTER_SCHEMA_KIND :: string where
  "REASONING_ROUTER_SCHEMA_KIND = ''reasoning_router''"

definition REASONING_ROUTER_SCHEMA_REVISION :: "32 word" where
  "REASONING_ROUTER_SCHEMA_REVISION = 1"

definition exact_token :: "string \<Rightarrow> string \<Rightarrow> string \<Rightarrow> ReasoningRouterError + string" where
  "exact_token value router field =
     (let trimmed = trim value
      in if trimmed = [] \<or> \<not> token_text_ok trimmed then Inl (InvalidRouterToken (router @ ''.'' @ field) trimmed) else Inr trimmed)"

definition router_from_toml :: "RouterProfileToml \<Rightarrow> ReasoningRouterError + ReasoningRouterProfile" where
  "router_from_toml doc =
     (if \<not> eq_ignore_ascii_case (trim (rq_schema doc)) REASONING_ROUTER_SCHEMA_KIND
      then Inl (UnknownRouterSchema (trim (rq_schema doc)))
      else if rq_schema_revision doc \<noteq> REASONING_ROUTER_SCHEMA_REVISION
      then Inl (UnsupportedRouterRevision (rq_schema_revision doc) REASONING_ROUTER_SCHEMA_REVISION)
      else case normalize_token (rq_name doc) of
          None \<Rightarrow> Inl (InvalidRouterToken ''name'' (trim (rq_name doc)))
        | Some name \<Rightarrow>
            try_bind (exact_token (rq_provider doc) name ''provider'') (\<lambda>provider.
            try_bind (exact_token (rq_model doc) name ''model'') (\<lambda>model.
            try_bind (case rq_call_reasoning doc of
                None \<Rightarrow> Inr RouterCallReasoning.Off
              | Some v \<Rightarrow> call_reasoning_parse v name) (\<lambda>call_reasoning.
            Inr \<lparr>rp_name = name, rp_description = rq_description doc, rp_schema_revision = rq_schema_revision doc,
              rp_provider = provider, rp_model = model, rp_call_reasoning = call_reasoning\<rparr>))))"

definition router_profile_parse :: "FleetHost \<Rightarrow> string \<Rightarrow> ReasoningRouterError + ReasoningRouterProfile" where
  "router_profile_parse h text = (case fh_router_toml h text of Inl e \<Rightarrow> Inl (RouterParse e) | Inr doc \<Rightarrow> router_from_toml doc)"

record QualifiedRouterId =
  qr_name :: string
  qr_origin :: string

definition qualified_router :: "QualifiedRouterId \<Rightarrow> string" where
  "qualified_router q = qr_origin q @ ''/'' @ qr_name q"

definition router_path :: "string \<Rightarrow> FleetSearchRoot \<Rightarrow> string" where
  "router_path bare root = path_join (path_join (sr_root root) REASONING_ROUTER_DIR) (bare @ ''.toml'')"

definition router_candidates :: "FleetHost \<Rightarrow> string option \<Rightarrow> string \<Rightarrow> FleetSearchRoot list \<Rightarrow> FleetSearchRoot list" where
  "router_candidates h requested bare roots =
     filter (\<lambda>root. origin_matches requested root \<and> fh_is_file h (router_path bare root)) roots"

definition router_load_by_name ::
  "FleetHost \<Rightarrow> string \<Rightarrow> FleetSearchRoot list \<Rightarrow> ReasoningRouterError + ReasoningRouterProfile \<times> QualifiedRouterId" where
  "router_load_by_name h name roots =
     (let (requested, bare) = split_qualified name
      in if bare = [] then Inl (InvalidRouterToken ''router reference'' (trim name))
         else case router_candidates h requested bare roots of
             [] \<Rightarrow> Inl (RouterNotFound (trim name))
           | first # others \<Rightarrow>
               if others \<noteq> [] then Inl (AmbiguousRouter bare (map (\<lambda>r. sr_origin r @ ''/'' @ bare) (first # others)))
               else case fh_read h (router_path bare first) of
                   Inl e \<Rightarrow> Inl (RouterIo (router_path bare first) e)
                 | Inr text \<Rightarrow>
                     try_bind (router_profile_parse h text) (\<lambda>profile.
                     if rp_name profile \<noteq> bare then Inl (RouterNameMismatch (rp_name profile) bare)
                     else Inr (profile, \<lparr>qr_name = rp_name profile, qr_origin = sr_origin first\<rparr>)))"

end
