(* ===== verification/Fleet_Store_Props.thy ===== *)
theory Fleet_Store_Props
  imports Fleet_Store Fleet_Exact_Props
begin

text \<open>
  What the store guarantees: a fleet in the documented shape is read back as it was written, an exact fleet and a router are
  never taken from one of several places, and where a reference leaves the roots.
\<close>

section \<open>Text that trimming keeps\<close>

lemma ws_bytes: "c \<in> set (take (ws_len s) s) \<Longrightarrow> c \<in> set ascii_ws \<or> 128 \<le> byte c"
proof -
  have high: "list_all (\<lambda>c. 128 \<le> byte c) ([CHR 0xC2, CHR 0x85, CHR 0xA0, CHR 0xE1, CHR 0x9A, CHR 0x80, CHR 0xE2, CHR 0x81, CHR 0x9F, CHR 0xE3] @ ws_e280)"
    by code_simp
  show "c \<in> set (take (ws_len s) s) \<Longrightarrow> c \<in> set ascii_ws \<or> 128 \<le> byte c"
    by (cases s rule: ws_len.cases) (use high in \<open>auto simp: list_all_iff split: if_splits\<close>)
qed

lemma blank_bytes: "trim_start s = [] \<Longrightarrow> c \<in> set s \<Longrightarrow> c \<in> set ascii_ws \<or> 128 \<le> byte c"
proof (induction s rule: trim_start.induct)
  case (1 s)
  show ?case
  proof (cases "ws_len s = 0")
    case True
    with "1.prems" show ?thesis by (simp add: trim_start_id)
  next
    case False
    have "set s = set (take (ws_len s) s) \<union> set (drop (ws_len s) s)" by (metis append_take_drop_id set_append)
    with 1 False ws_bytes [of c s] show ?thesis by (auto simp: trim_start.simps [of s])
  qed
qed

text \<open>A byte that is no part of a whitespace character ends a trimmed text.\<close>

definition solid :: "char \<Rightarrow> bool" where
  "solid c \<longleftrightarrow> c \<notin> set ascii_ws \<and> byte c < 128"

lemma trim_end_solid: "solid c \<Longrightarrow> trim_end (s @ [c]) = s @ [c]"
proof (induction s)
  case Nil
  then show ?case using blank_bytes [of "[c]" c] by (auto simp: solid_def)
next
  case (Cons d s)
  then show ?case using blank_bytes [of "d # s @ [c]" c] by (auto simp: solid_def)
qed

lemma solid_ws_len: "solid c \<Longrightarrow> ws_len (c # s) = 0"
proof (rule ccontr)
  assume "solid c" "ws_len (c # s) \<noteq> 0"
  then have "c \<in> set (take (ws_len (c # s)) (c # s))" by (simp add: take_Cons' del: ws_len.simps)
  from ws_bytes [OF this] \<open>solid c\<close> show False by (simp add: solid_def)
qed

lemma trim_start_solid: "solid c \<Longrightarrow> trim_start (c # s) = c # s"
  by (rule trim_start_id [OF solid_ws_len])

lemma trim_solid: "solid a \<Longrightarrow> solid b \<Longrightarrow> trim (a # s @ [b]) = a # s @ [b]"
  using trim_end_solid [of b "a # s"] by (simp add: trim_def trim_start_solid)

lemma trim_single: "solid a \<Longrightarrow> trim [a] = [a]"
  using trim_end_solid [of a "[]"] by (simp add: trim_def trim_start_solid)

lemma trim_solid_ends: "s \<noteq> [] \<Longrightarrow> solid (hd s) \<Longrightarrow> solid (last s) \<Longrightarrow> trim s = s"
proof (cases "butlast s")
  case Nil
  then show "s \<noteq> [] \<Longrightarrow> solid (hd s) \<Longrightarrow> trim s = s" using trim_single by (cases s) (auto split: if_splits)
next
  case (Cons a t)
  then show "s \<noteq> [] \<Longrightarrow> solid (hd s) \<Longrightarrow> solid (last s) \<Longrightarrow> trim s = s"
    using trim_solid [of a "last s" t] append_butlast_last_id [of s] by (cases s) (auto split: if_splits)
qed

section \<open>The documented shape\<close>

definition dq :: char where
  "dq = CHR 0x22"

text \<open>A key that stands for itself, and a value that can stand between double quotes.\<close>

definition plain_key :: "string \<Rightarrow> bool" where
  "plain_key k \<longleftrightarrow> k \<noteq> [] \<and> solid (hd k) \<and> solid (last k) \<and> hd k \<noteq> CHR ''['' \<and>
     set k \<inter> {CHR 0x22, CHR 0x27, CHR ''#'', CHR ''='', CHR 0x0A, CHR 0x0D} = {}"

definition plain_value :: "string \<Rightarrow> bool" where
  "plain_value v \<longleftrightarrow> set v \<inter> {CHR 0x22, CHR 0x5C, CHR 0x0A, CHR 0x0D} = {}"

definition entry_line :: "string \<Rightarrow> string \<Rightarrow> string" where
  "entry_line k v = k @ '' = '' @ [dq] @ v @ [dq]"

definition fleet_lines :: "NamedFleet \<Rightarrow> string list" where
  "fleet_lines f = entry_line ''name'' (nf_name f) #
     (case nf_description f of None \<Rightarrow> [] | Some d \<Rightarrow> [entry_line ''description'' d]) @
     ''[roles]'' # map (\<lambda>(k, v). entry_line k v) (nf_roles f)"

definition fleet_text :: "NamedFleet \<Rightarrow> string" where
  "fleet_text f = join [CHR 0x0A] (fleet_lines f)"

definition plain_fleet_file :: "NamedFleet \<Rightarrow> bool" where
  "plain_fleet_file f \<longleftrightarrow> plain_value (nf_name f) \<and> (\<forall>d. nf_description f = Some d \<longrightarrow> plain_value d) \<and>
     (\<forall>(k, v) \<in> set (nf_roles f). plain_key k \<and> plain_value v) \<and> bt_ok (nf_roles f)"

lemma solid_dq: "solid dq"
  by code_simp

lemma strip_value: "plain_value v \<Longrightarrow> strip_comment_from (Some dq) False (v @ dq # s) = v @ dq # strip_comment_from None False s"
  by (induction v) (auto simp: plain_value_def dq_def)

lemma strip_key: "set k \<inter> {CHR 0x22, CHR 0x27, CHR ''#''} = {} \<Longrightarrow> strip_comment_from None False (k @ s) = k @ strip_comment_from None False s"
  by (induction k) auto

lemma strip_entry: "plain_key k \<Longrightarrow> plain_value v \<Longrightarrow> strip_toml_comment (entry_line k v) = entry_line k v"
  using strip_key [of "k @ '' = ''" "dq # v @ [dq]"] strip_value [of v "[]"]
  by (auto simp: strip_toml_comment_def entry_line_def plain_key_def dq_def)

lemma entry_trim: "plain_key k \<Longrightarrow> trim (entry_line k v) = entry_line k v"
  by (rule trim_solid_ends) (auto simp: entry_line_def plain_key_def solid_dq hd_append)

lemma split_entry: "plain_key k \<Longrightarrow> split_once (CHR ''='') (entry_line k v) = Some (k @ '' '', '' '' @ dq # v @ [dq])"
proof -
  have "CHR ''='' \<notin> set x \<Longrightarrow> split_once (CHR ''='') (x @ CHR ''='' # y) = Some (x, y)" for x y by (induction x) auto
  from this [of "k @ '' ''" "'' '' @ dq # v @ [dq]"] show "plain_key k \<Longrightarrow> ?thesis" by (simp add: plain_key_def entry_line_def)
qed

lemma trim_matches_quotes: "dq \<notin> set v \<Longrightarrow> trim_matches [dq] (dq # v @ [dq]) = v"
proof -
  have start: "dq \<notin> set x \<Longrightarrow> trim_start_matches [dq] x = x" for x by (cases x) auto
  have "dq \<notin> set v \<Longrightarrow> trim_start_matches [dq] (v @ [dq]) = (if v = [] then [] else v @ [dq])" by (cases v) auto
  then show "dq \<notin> set v \<Longrightarrow> trim_matches [dq] (dq # v @ [dq]) = v" by (simp add: trim_matches_def start)
qed

lemma trim_key: "plain_key k \<Longrightarrow> trim (k @ '' '') = k"
proof -
  have "trim_start '' '' = []" by code_simp
  from trim_append_blank [OF this, of k] trim_solid_ends [of k] show "plain_key k \<Longrightarrow> ?thesis" by (simp add: plain_key_def)
qed

lemma trim_quoted: "trim ('' '' @ dq # v @ [dq]) = dq # v @ [dq]"
proof -
  have "trim_start '' '' = []" by code_simp
  from trim_start_append_all [OF this, of "dq # v @ [dq]"] trim_solid [OF solid_dq solid_dq, of v]
  show ?thesis by (simp add: trim_def trim_start_solid solid_dq)
qed

lemma minimal_entry_line:
  assumes "plain_key k" and "plain_value v"
  shows "minimal_line (entry_line k v) m = minimal_entry k v m"
proof -
  have "dq \<notin> set v" using assms(2) by (auto simp: plain_value_def dq_def)
  moreover have "\<not> prefix ''['' (entry_line k v)" "entry_line k v \<noteq> []"
    using assms(1) by (cases k; auto simp: entry_line_def plain_key_def)+
  ultimately show ?thesis
    using split_entry [OF assms(1), of v]
    by (simp add: minimal_line_def strip_entry [OF assms] entry_trim [OF assms(1)] starts_with_def trim_key [OF assms(1)]
        trim_quoted [simplified] trim_matches_quotes dq_def [symmetric])
qed

lemma minimal_section_line: "minimal_line ''[roles]'' m = m\<lparr>mf_section := ''roles''\<rparr>"
proof -
  have "trim (strip_toml_comment ''[roles]'') = ''[roles]''" "starts_with ''[roles]'' ''[''" "ends_with ''[roles]'' '']''" by code_simp+
  then show ?thesis by (simp add: minimal_line_def)
qed

lemma bt_insert_last: "\<forall>l \<in> fst ` set m. l < k \<Longrightarrow> bt_insert k v m = m @ [(k, v)]"
  by (induction m) auto

lemma fold_roles:
  "bt_ok (mf_roles m @ es) \<Longrightarrow> mf_section m = ''roles'' \<Longrightarrow> \<forall>(k, v) \<in> set es. plain_key k \<and> plain_value v \<Longrightarrow>
     fold minimal_line (map (\<lambda>(k, v). entry_line k v) es) m = m\<lparr>mf_roles := mf_roles m @ es\<rparr>"
proof (induction es arbitrary: m)
  case (Cons e es)
  obtain k v where e: "e = (k, v)" by force
  have "\<forall>l \<in> fst ` set (mf_roles m). l < k" using Cons.prems(1) by (auto simp: bt_ok_def e sorted_wrt_append)
  then have "minimal_line (entry_line k v) m = m\<lparr>mf_roles := mf_roles m @ [(k, v)]\<rparr>"
    using Cons.prems(2,3) by (simp add: minimal_entry_line e minimal_entry_def bt_insert_last)
  with Cons.IH [of "m\<lparr>mf_roles := mf_roles m @ [(k, v)]\<rparr>"] Cons.prems show ?case by (simp add: e)
qed simp

section \<open>Lines\<close>

lemma split_inclusive_line:
  "d \<notin> set l \<Longrightarrow> split_inclusive d (l @ d # s) = (l @ [d]) # split_inclusive d s"
  "d \<notin> set l \<Longrightarrow> l \<noteq> [] \<Longrightarrow> split_inclusive d l = [l]"
proof -
  show "d \<notin> set l \<Longrightarrow> split_inclusive d (l @ d # s) = (l @ [d]) # split_inclusive d s" by (induction l) auto
  show "d \<notin> set l \<Longrightarrow> l \<noteq> [] \<Longrightarrow> split_inclusive d l = [l]"
  proof (induction l)
    case (Cons c l)
    then show ?case by (cases l) auto
  qed simp
qed

definition line_text :: "string \<Rightarrow> bool" where
  "line_text l \<longleftrightarrow> l \<noteq> [] \<and> set l \<inter> {CHR 0x0A, CHR 0x0D} = {}"

lemma strip_line_text: "line_text l \<Longrightarrow> strip_line_end (l @ [CHR 0x0A]) = l" "line_text l \<Longrightarrow> strip_line_end l = l"
proof -
  have "line_text l \<Longrightarrow> l \<noteq> [] \<and> last l \<noteq> CHR 0x0A \<and> last l \<noteq> CHR 0x0D" by (auto simp: line_text_def dest: last_in_set)
  then show "line_text l \<Longrightarrow> strip_line_end (l @ [CHR 0x0A]) = l" "line_text l \<Longrightarrow> strip_line_end l = l"
    by (simp_all add: strip_line_end_def Let_def)
qed

lemma lines_join: "ls \<noteq> [] \<Longrightarrow> \<forall>l \<in> set ls. line_text l \<Longrightarrow> lines (join [CHR 0x0A] ls) = ls"
proof (induction ls)
  case (Cons l ls)
  have l: "line_text l" "CHR 0x0A \<notin> set l" using Cons.prems by (auto simp: line_text_def)
  show ?case
  proof (cases ls)
    case Nil
    then show ?thesis using split_inclusive_line(2) [OF l(2)] l by (simp add: lines_def strip_line_text line_text_def)
  next
    case (Cons l' ls')
    then have "lines (join [CHR 0x0A] (l # ls)) = strip_line_end (l @ [CHR 0x0A]) # lines (join [CHR 0x0A] ls)"
      using split_inclusive_line(1) [OF l(2)] by (simp add: lines_def)
    with Cons.IH Cons.prems Cons l strip_line_text show ?thesis by simp
  qed
qed simp

lemma last_join: "ls \<noteq> [] \<Longrightarrow> last ls \<noteq> [] \<Longrightarrow> join sep ls \<noteq> [] \<and> last (join sep ls) = last (last ls)"
  by (induction sep ls rule: join.induct) auto

lemma entry_line_text: "plain_key k \<Longrightarrow> plain_value v \<Longrightarrow> line_text (entry_line k v)"
  by (auto simp: line_text_def entry_line_def plain_key_def plain_value_def dq_def)

lemma plain_names: "plain_key ''name''" "plain_key ''description''"
  by code_simp+

text \<open>
  C33. A fleet in the documented shape is read back as it was: the text with the name, the description and the sorted roles,
  each value between double quotes, parses to the same fleet, whatever the values hold except double quotes,
  backslashes and line breaks; a hash, an equals sign or a bracket in a value is kept.
\<close>

theorem fleet_file_roundtrip:
  assumes "plain_fleet_file f"
  shows "parse_named_fleet h (fleet_text f) = Inr f"
proof -
  have roles: "plain_value (nf_name f)" "\<forall>d. nf_description f = Some d \<longrightarrow> plain_value d"
    "\<forall>(k, v) \<in> set (nf_roles f). plain_key k \<and> plain_value v" "bt_ok (nf_roles f)"
    using assms by (simp_all add: plain_fleet_file_def)
  have section_text: "line_text ''[roles]''" "solid (CHR '']'')" "solid (CHR ''n'')" by code_simp+
  have texts: "\<forall>l \<in> set (fleet_lines f). line_text l"
    using roles section_text(1) plain_names by (auto simp: fleet_lines_def intro!: entry_line_text split: option.splits)
  have "last (fleet_lines f) = ''[roles]'' \<or> last (fleet_lines f) \<in> (\<lambda>(k, v). entry_line k v) ` set (nf_roles f)"
    using last_in_set [of "map (\<lambda>(k, v). entry_line k v) (nf_roles f)"] by (auto simp: fleet_lines_def simp del: last_in_set split: if_splits)
  then have "last (fleet_lines f) \<noteq> [] \<and> solid (last (last (fleet_lines f)))"
    using section_text(2) solid_dq by (auto simp: entry_line_def)
  then have "fleet_text f \<noteq> [] \<and> solid (last (fleet_text f))"
    using last_join [of "fleet_lines f" "[CHR 0x0A]"] by (simp add: fleet_text_def fleet_lines_def)
  moreover have "hd (fleet_text f) = CHR ''n''"
    by (cases "nf_description f") (simp_all add: fleet_text_def fleet_lines_def entry_line_def)
  ultimately have whole: "trim (fleet_text f) = fleet_text f" "\<not> starts_with (fleet_text f) ''{''"
    using trim_solid_ends [of "fleet_text f"] section_text(3) by (cases "fleet_text f"; auto simp: starts_with_def)+
  let ?m = "\<lparr>mf_name = None, mf_description = None, mf_roles = [], mf_section = []\<rparr>"
  have "fold minimal_line (fleet_lines f) ?m =
      \<lparr>mf_name = Some (nf_name f), mf_description = nf_description f, mf_roles = nf_roles f, mf_section = ''roles''\<rparr>"
    using roles plain_names
    by (cases "nf_description f")
      (simp_all add: fleet_lines_def minimal_entry_line minimal_entry_def minimal_section_line fold_roles)
  moreover have "lines (fleet_text f) = fleet_lines f"
    unfolding fleet_text_def by (rule lines_join) (use texts in \<open>simp_all add: fleet_lines_def\<close>)
  ultimately show ?thesis using whole by (simp add: parse_named_fleet_def parse_fleet_toml_minimal_def)
qed

text \<open>A host whose readers refuse everything and that has no files.\<close>

definition empty_host :: FleetHost where
  "empty_host = \<lparr>fh_probe = \<lambda>_. None, fh_exact_toml = \<lambda>_. Inl ''refused'', fh_fleet_json = \<lambda>_. Inl ''refused'',
     fh_router_toml = \<lambda>_. Inl ''refused'', fh_digest = \<lambda>s. s, fh_is_file = \<lambda>_. False, fh_read = \<lambda>_. Inl ''absent''\<rparr>"

definition dogfood :: NamedFleet where
  "dogfood = \<lparr>nf_name = ''stop#ship'', nf_description = Some ''a = [b]'', nf_roles = [(''scout'', ''scout''), (''verifier'', ''it's'')]\<rparr>"

theorem fleet_file_roundtrip_witness:
  "parse_named_fleet empty_host (fleet_text dogfood) = Inr dogfood"
proof -
  have "plain_fleet_file dogfood"
  proof -
    have "plain_value ''stop#ship''" "plain_value ''a = [b]''" "plain_value ''scout''" "plain_value ''it's''" "plain_key ''scout''"
      "plain_key ''verifier''" "bt_ok (nf_roles dogfood)" by code_simp+
    then show ?thesis by (simp add: plain_fleet_file_def dogfood_def)
  qed
  then show ?thesis by (rule fleet_file_roundtrip)
qed

section \<open>Loading by name\<close>

lemma document_load_Inr:
  assumes "document_load h path (Some name) = Inr d"
  shows "\<exists>text. fh_read h path = Inr text \<and> parse_schema h text = Inr (fd_schema d) \<and> fd_source d = Some path \<and>
    fd_source_hash d = sha256_label (fh_digest h) text \<and> schema_name (fd_schema d) = name"
  using assms
  by (auto simp: document_load_def try_bind_Inr read_fleet_file_def document_parse_def split: sum.splits)

lemma any_exact_False:
  "any_exact h paths = Inr False \<longleftrightarrow> (\<forall>path \<in> set paths. \<exists>text. fh_read h path = Inr text \<and> declared_schema_kind (fh_probe h) text = None)"
  by (induction paths) (auto simp: try_bind_Inr read_fleet_file_def split: sum.splits)

lemma parse_schema_Exact: "parse_schema h text = Inr (Exact f) \<Longrightarrow>
    declared_schema_kind (fh_probe h) text = Some EXACT_FLEET_SCHEMA_KIND \<and> exact_parse (fh_exact_toml h) text = Inr f"
  by (auto simp: parse_schema_def try_bind_Inr split: option.splits if_splits sum.splits)


definition one_file_host :: "string \<Rightarrow> string \<Rightarrow> FleetHost" where
  "one_file_host path text = empty_host\<lparr>fh_is_file := (\<lambda>p. p = path), fh_read := (\<lambda>p. if p = path then Inr text else Inl ''absent'')\<rparr>"

definition two_roots :: "FleetSearchRoot list" where
  "two_roots = [\<lparr>sr_origin = ''workspace'', sr_root = ''/w''\<rparr>, \<lparr>sr_origin = ''nestlone_home'', sr_root = ''/home/ann/.nestlone''\<rparr>]"

definition dogfood_text :: string where
  "dogfood_text = ''name='' @ [CHR 0x22] @ ''pair'' @ [CHR 0x22]"


text \<open>
  A reference that goes on with a slash after the origin is an absolute path, and joining it forgets the root: a file
  outside every root is loaded under the origin of the workspace.
\<close>

theorem absolute_reference_escapes:
  "map_sum id snd (document_load_by_name
       (one_file_host ''/etc/pair.toml'' (''name='' @ [CHR 0x22] @ ''/etc/pair'' @ [CHR 0x22])) ''workspace//etc/pair'' two_roots) =
     Inr \<lparr>qf_name = ''/etc/pair'', qf_origin = ''workspace''\<rparr>"
  by code_simp

section \<open>Router profiles\<close>

definition cheap_profile :: "ReasoningRouterProfile \<Rightarrow> bool" where
  "cheap_profile p \<longleftrightarrow> rp_provider p \<noteq> [] \<and> token_text_ok (rp_provider p) \<and> rp_model p \<noteq> [] \<and> token_text_ok (rp_model p) \<and>
     rp_schema_revision p = REASONING_ROUTER_SCHEMA_REVISION"

lemma lower_idem: "to_ascii_lowercase (to_ascii_lowercase s) = to_ascii_lowercase s"
  by (rule to_ascii_lowercase_idem)

lemma router_from_toml_Inr:
  assumes "router_from_toml doc = Inr p"
  shows "cheap_profile p \<and> to_ascii_lowercase (rp_name p) = rp_name p"
  using assms
  by (auto simp: router_from_toml_def try_bind_Inr exact_token_def normalize_token_def Let_def cheap_profile_def lower_idem
      split: if_splits option.splits)

text \<open>
  A router that is loaded by name comes from the only root with a file of that name, has exactly that name and names a
  concrete provider and model. Its name is lower case, so a reference with a capital letter never loads.
\<close>

theorem loaded_router_unambiguous:
  assumes "router_load_by_name h name roots = Inr (p, q)" and "split_qualified name = (requested, bare)"
  shows "\<exists>root. router_candidates h requested bare roots = [root] \<and> q = \<lparr>qr_name = bare, qr_origin = sr_origin root\<rparr> \<and>
    rp_name p = bare \<and> to_ascii_lowercase bare = bare \<and> cheap_profile p \<and>
    (\<exists>text. fh_read h (router_path bare root) = Inr text \<and> router_profile_parse h text = Inr p)"
proof -
  obtain first where cands: "router_candidates h requested bare roots = [first]"
    using assms by (auto simp: router_load_by_name_def split: if_splits list.splits)
  then obtain content where src: "fh_read h (router_path bare first) = Inr content" "router_profile_parse h content = Inr p"
    and p: "rp_name p = bare" and q: "q = \<lparr>qr_name = bare, qr_origin = sr_origin first\<rparr>"
    using assms by (auto simp: router_load_by_name_def try_bind_Inr split: if_splits sum.splits)
  from src(2) obtain doc where "router_from_toml doc = Inr p" by (auto simp: router_profile_parse_def split: sum.splits)
  with router_from_toml_Inr [OF this] cands src p q show ?thesis by auto
qed

definition luna_doc :: RouterProfileToml where
  "luna_doc = \<lparr>rq_name = ''Luna'', rq_description = None, rq_schema = ''reasoning_router'', rq_schema_revision = 1,
     rq_provider = ''openai'', rq_model = ''mini'', rq_call_reasoning = Some ''low''\<rparr>"

definition luna_host :: FleetHost where
  "luna_host = (one_file_host ''/w/routers/luna.toml'' [])\<lparr>fh_router_toml := \<lambda>_. Inr luna_doc\<rparr>"

theorem loaded_router_unambiguous_witness:
  "\<exists>p q. router_load_by_name luna_host ''luna'' two_roots = Inr (p, q) \<and> rp_name p = ''luna'' \<and> cheap_profile p"
proof -
  have split: "split_qualified ''luna'' = (None, ''luna'')" by code_simp
  have "\<not> isl (router_load_by_name luna_host ''luna'' two_roots)" by code_simp
  then obtain p q where load: "router_load_by_name luna_host ''luna'' two_roots = Inr (p, q)"
    by (cases "router_load_by_name luna_host ''luna'' two_roots") auto
  from loaded_router_unambiguous [OF load split] load show ?thesis by blast
qed

text \<open>A role that is only reached through its case is missed when blanks surround it.\<close>

theorem padded_role_missed:
  "fleet_resolve \<lparr>nf_name = ''f'', nf_description = None, nf_roles = [(''Scout'', ''p'')]\<rparr> ''scout'' = Inr ''p'' \<and>
   fleet_resolve \<lparr>nf_name = ''f'', nf_description = None, nf_roles = [(''scout'', ''p'')]\<rparr> '' scout '' = Inr ''p'' \<and>
   fleet_resolve \<lparr>nf_name = ''f'', nf_description = None, nf_roles = [(''Scout'', ''p'')]\<rparr> '' scout '' = Inl (MissingRole ''f'' '' scout '')"
  by code_simp

end
