(* ===== verification/Fleet_Snapshot.thy ===== *)
theory Fleet_Snapshot
  imports Fleet_Store Fleet_Routes
begin

text \<open>
  The snapshot of a fleet that a workflow runs on (\<open>workflow/src/fleet_snapshot.rs\<close>). The JSON encoding of its shape and
  SHA-256 are parameters.
\<close>

record FleetSnapshotMember =
  sm_id :: string
  sm_role :: string
  sm_route :: FrozenRoute
  sm_requested_reasoning :: RequestedReasoning
  sm_permissions :: PermissionCeiling

record FleetSnapshotLegacyRole =
  sl_role :: string
  sl_profile :: string

text \<open>The part of a snapshot that is hashed, and the snapshot.\<close>

record SnapshotShape =
  sn_fleet :: QualifiedFleetId
  sn_schema_kind :: string
  sn_schema_revision :: "32 word"
  sn_schema_hash :: string
  sn_members :: "FleetSnapshotMember list"
  sn_router :: "CapturedReasoningRouter option"
  sn_legacy_roles :: "FleetSnapshotLegacyRole list"

record FleetSnapshot = SnapshotShape +
  sn_content_hash :: string
  sn_captured_at :: string

definition shape_of :: "FleetSnapshot \<Rightarrow> SnapshotShape" where
  "shape_of s = \<lparr>sn_fleet = sn_fleet s, sn_schema_kind = sn_schema_kind s, sn_schema_revision = sn_schema_revision s,
     sn_schema_hash = sn_schema_hash s, sn_members = sn_members s, sn_router = sn_router s, sn_legacy_roles = sn_legacy_roles s\<rparr>"

definition compute_content_hash :: "(string \<Rightarrow> string) \<Rightarrow> (SnapshotShape \<Rightarrow> string) \<Rightarrow> FleetSnapshot \<Rightarrow> string" where
  "compute_content_hash digest encode s = sha256_label digest (encode (shape_of s))"

definition freeze_member :: "ExactMember \<Rightarrow> FleetSnapshotMember" where
  "freeze_member m = \<lparr>sm_id = canonical_member_key (em_id m), sm_role = canonical_role_key (em_role m),
     sm_route = member_frozen_route m, sm_requested_reasoning = em_reasoning m, sm_permissions = em_permissions m\<rparr>"

definition exact_members :: "ExactFleet \<Rightarrow> FleetSnapshotMember list" where
  "exact_members exact = map freeze_member (ef_members exact)"

definition captured_roster :: "FleetSchema \<Rightarrow> ExactFleetError + FleetSnapshotMember list \<times> FleetSnapshotLegacyRole list" where
  "captured_roster schema =
     (case schema of
        Exact exact \<Rightarrow> try_bind (fleet_validate exact) (\<lambda>_. Inr (exact_members exact, []))
      | Legacy legacy \<Rightarrow> Inr ([], map (\<lambda>(role, profile). \<lparr>sl_role = role, sl_profile = profile\<rparr>) (nf_roles legacy)))"

definition snapshot_capture ::
  "(string \<Rightarrow> string) \<Rightarrow> (SnapshotShape \<Rightarrow> string) \<Rightarrow> QualifiedFleetId \<Rightarrow> FleetDocument \<Rightarrow> string \<Rightarrow> CapturedReasoningRouter option \<Rightarrow>
   ExactFleetError + FleetSnapshot" where
  "snapshot_capture digest encode fleet document captured_at router =
     try_bind (captured_roster (fd_schema document)) (\<lambda>(members, legacy_roles).
       let snapshot = \<lparr>sn_fleet = fleet, sn_schema_kind = schema_kind (fd_schema document),
         sn_schema_revision = schema_revision (fd_schema document), sn_schema_hash = fd_source_hash document,
         sn_members = members, sn_router = router, sn_legacy_roles = legacy_roles, sn_content_hash = [],
         sn_captured_at = captured_at\<rparr>
       in Inr (snapshot\<lparr>sn_content_hash := compute_content_hash digest encode snapshot\<rparr>))"

definition verify_content_hash ::
  "(string \<Rightarrow> string) \<Rightarrow> (SnapshotShape \<Rightarrow> string) \<Rightarrow> FleetSnapshot \<Rightarrow> ExactFleetError + unit" where
  "verify_content_hash digest encode s =
     (let recomputed = compute_content_hash digest encode s
      in if recomputed = sn_content_hash s then Inr ()
         else Inl (ContentHashMismatch (qualified_fleet (sn_fleet s)) (sn_content_hash s) recomputed))"

definition into_verified ::
  "(string \<Rightarrow> string) \<Rightarrow> (SnapshotShape \<Rightarrow> string) \<Rightarrow> FleetSnapshot \<Rightarrow> ExactFleetError + FleetSnapshot" where
  "into_verified digest encode s = try_bind (verify_content_hash digest encode s) (\<lambda>_. Inr s)"

definition snapshot_member :: "FleetSnapshot \<Rightarrow> string \<Rightarrow> FleetSnapshotMember option" where
  "snapshot_member s n =
     (let key = canonical_member_key n in find (\<lambda>m. canonical_member_key (sm_id m) = key) (sn_members s))"

definition snapshot_member_by_role :: "FleetSnapshot \<Rightarrow> string \<Rightarrow> FleetSnapshotMember option" where
  "snapshot_member_by_role s role =
     (let key = canonical_role_key role in find (\<lambda>m. canonical_role_key (sm_role m) = key) (sn_members s))"

definition snapshot_member_by_id_or_role :: "FleetSnapshot \<Rightarrow> string \<Rightarrow> FleetSnapshotMember option" where
  "snapshot_member_by_id_or_role s n = option_or (snapshot_member s n) (snapshot_member_by_role s n)"

definition snapshot_has_auto_member :: "FleetSnapshot \<Rightarrow> bool" where
  "snapshot_has_auto_member s \<longleftrightarrow> list_ex (\<lambda>m. is_auto (sm_requested_reasoning m)) (sn_members s)"

definition auto_member_ids :: "FleetSnapshot \<Rightarrow> string list" where
  "auto_member_ids s = map sm_id (filter (\<lambda>m. is_auto (sm_requested_reasoning m)) (sn_members s))"

definition captured_legacy_inline_router :: "ExactFleet \<Rightarrow> CapturedReasoningRouter option" where
  "captured_legacy_inline_router exact = map_option from_legacy_inline (ef_router exact)"

end
