(* ===== verification/Spec2Isabelle.thy ===== *)
theory Spec2Isabelle
  imports Exec_Policy_State Exec_Paths Auto_Review_Props Authority Run_Budget Progress_Guard Run_Manifest Run_Receipts
    Network_Policy Tool_Repair Fleet_Scheduler_Props Review_Repair
    Lane_Gates Lane_Registry Workflow_Plan_Props Workflow_Replay_Props
    Workflow_Elevation_Props Workflow_Select_Props Redaction_Props
    Model_Policy_Props Json_Repair Fleet_Composition_Props
    Fleet_Exact_Props Fleet_Reasoning_Props Fleet_Store_Props Fleet_Snapshot_Props
begin

text \<open>
  \<^bold>\<open>Verification of the authority and execution-control core of Nestlone.\<close>

  Nestlone is a coding agent: a language model proposes tool calls, and the program decides which of them
  run, with whose authority, for how long, and what is recorded about them. This library models the code
  that takes those decisions and keeps those records, and proves what the code guarantees. File names
  below are relative to \<open>src/crates\<close>.

  \<^bold>\<open>How the parts interact.\<close>

  A turn starts with input of some provenance. \<open>core/authority.rs\<close> turns provenance and the session's mode
  into the authority of the turn. A tool call is brought to its canonical name (\<open>tools/canonical_action.rs\<close>)
  and graded (\<open>tui/approval.rs\<close>, \<open>command_safety.rs\<close>); the execution policy (\<open>execpolicy\<close>) and the
  auto-review policy (\<open>tui/auto_review.rs\<close>) allow it, forbid it or hold it; a network call also passes
  \<open>network_policy.rs\<close>. A sub-agent gets a profile derived from its parent's (\<open>worker_profile.rs\<close>). A run is
  bounded by budgets, a retry rule and a progress guard and leaves an append-only ledger, a manifest and
  receipts (\<open>core/runtime_contract\<close>). Work of many agents is queued in the fleet ledger and started by the
  fleet scheduler (\<open>tui/src/fleet\<close>); workflows review and repair (\<open>workflow\<close>), and lanes keep a durable
  record of each background session (\<open>lane\<close>). Before a history is sent to a provider, its tool calls and
  results are paired (\<open>tool_history_repair.rs\<close>).

  \<^bold>\<open>Theories and the code they model.\<close>

  \<^item> \<open>Prelude\<close>, \<open>Rust_Str\<close>, \<open>Str_Lemmas\<close>, \<open>Segments\<close>, \<open>BTree_Map\<close>, \<open>Rust_Debug\<close>: what the code uses of the Rust
    standard library. A \<open>str\<close> is its UTF-8 bytes as a \<open>char list\<close>; \<open>u32\<close> and \<open>u64\<close> are words with the
    saturating operations; \<open>BTreeMap\<close> and \<open>BTreeSet\<close> are sorted association lists and lists, so iteration
    order is the code's; the \<open>{:?}\<close> formatter is written out for the types whose debug text is compared.
    \<open>Prelude\<close> holds the locale \<open>attenuation\<close> (an operation whose result never exceeds its first argument),
    \<open>Segments\<close> the locale \<open>segmenter\<close> (the contract of the three copies of the segment splitter).
  \<^item> \<open>Arity\<close>: \<open>execpolicy/src/bash_arity.rs\<close>. Locale \<open>arity_classifier\<close>, interpreted here and on the second
    classifier in \<open>Command_Safety_Props\<close>.
  \<^item> \<open>Deny_Match\<close>, \<open>Exec_Policy\<close>, \<open>Exec_Paths\<close>: \<open>execpolicy/src/lib.rs\<close>, the engine's record, its mutators,
    \<open>check\<close>, the prefix search and the path rules. \<open>Exec_Policy_Props\<close> and \<open>Exec_Policy_State\<close> prove that
    denials win, state the verdict over sets of rules and show that \<open>check\<close> implements it in every state
    the mutators reach (locale \<open>ruleset_store\<close>).
  \<^item> \<open>Command_Safety\<close>: \<open>tui/src/command_safety.rs\<close>, every function. \<open>Command_Safety_Props\<close>: what the levels
    and the read-only test admit, and that the read-only test returns.
  \<^item> \<open>Approval\<close>, \<open>Canonical_Action\<close>, \<open>Auto_Review\<close>: modes, provenance and risk (\<open>tui/app/types.rs\<close>,
    \<open>tui/approval.rs\<close>, \<open>core/ops.rs\<close>, \<open>sandbox/policy.rs\<close>), the alias table, and \<open>tui/auto_review.rs\<close>.
    \<open>Auto_Review_Props\<close>: exactly when a call is released, what the safety floor holds back, and where the
    recognisers are evaded.
  \<^item> \<open>Authority\<close>: \<open>core/authority.rs\<close>; input without standing authority is narrowed.
  \<^item> \<open>Worker_Profile\<close>: \<open>worker_profile.rs\<close>; no chain of derivations escalates (\<open>attenuation\<close>, interpreted for
    permissions, shell, tools and the whole profile).
  \<^item> \<open>Run_Budget\<close>, \<open>Progress_Guard\<close>, \<open>Runtime_Ledger\<close>, \<open>Run_Manifest\<close>, \<open>Run_Receipts\<close>:
    \<open>core/runtime_contract/*.rs\<close> and \<open>goal_loop.rs\<close>. A run that makes no progress is stopped; every reachable
    ledger is gap-free and validated; a resume is compatible exactly if the contract fields agree, although
    the code compares debug texts (locale \<open>debug_code\<close>: a prefix-free text code is injective).
  \<^item> \<open>Network_Policy\<close>: \<open>network_policy.rs\<close>, host matching, session cache, audit lines, fake-IP trust.
  \<^item> \<open>Tool_Repair\<close>: \<open>tool_history_repair.rs\<close> and the message types of \<open>models.rs\<close>. The repaired history is
    accepted by the provider's pairing rule, and repairing is idempotent.
  \<^item> \<open>Fleet_Types\<close>, \<open>Fleet_Ledger\<close>: \<open>protocol/src/fleet.rs\<close> and \<open>tui/src/fleet/ledger.rs\<close>, the record types,
    replay, every guarded append and compaction. \<open>Fleet_Ledger_Props\<close>: \<open>admissible\<close> says which records the
    guards let through, and the locales \<open>replay_stable\<close> and \<open>replay_invariant\<close> carry a property of the replayed
    state through every interleaving of operations; they are interpreted for one lease per worker, for
    the fence of closed attempts, for lease ownership, for the keys and for alerts.
  \<^item> \<open>Fleet_Scheduler\<close>: \<open>tui/src/fleet/scheduler.rs\<close>. \<open>Fleet_Scheduler_Props\<close>: limits, retry budget, cancellation, and
    when the launch loop returns and when it does not.
  \<^item> \<open>Review_Repair\<close>, \<open>Lane_Gates\<close>: \<open>workflow/src/review_repair.rs\<close> and \<open>workflow/src/gates.rs\<close>. What a verified
    outcome means, ceilings, and the state of a gate as a function of its history.
  \<^item> \<open>Workflow_Types\<close>, \<open>Workflow_Plan\<close>, \<open>Workflow_Nodes\<close>, \<open>Workflow_Exec\<close>: \<open>workflow/src/lib.rs\<close> and \<open>role_resolve.rs\<close>,
    the compiler from phases to a plan, the node language with its validation and fleet estimate, and the
    deterministic executor. \<open>Workflow_Plan_Props\<close>: the plan is a dependency order, and a cycle is refused
    exactly when there is one. \<open>Workflow_Exec_Props\<close> relates the executor to a big-step semantics and
    proves by rule induction that it returns and keeps the step budget and the fleet estimate.
  \<^item> \<open>Workflow_Replay\<close>: \<open>workflow/src/replay.rs\<close>, the executor that replays a recorded trace.
    \<open>Workflow_Replay_Props\<close>: the locale \<open>replay_relation\<close> carries a relation through a replay; every result comes
    from the trace or is marked as diverged, the status reports failures and divergences, and when a replay
    returns.
  \<^item> \<open>Workflow_Elevation\<close>: \<open>workflow/src/elevation.rs\<close>, the assessment of a plan for the approval card.
    \<open>Workflow_Elevation_Props\<close>: the locale \<open>plan_flag\<close>, interpreted for the five flags, characterises each by the
    leaves and permissions of the plan; a plan that needs no approval only runs read-only leaves.
  \<^item> \<open>Workflow_Select\<close>: the teacher review, promotion gate, tournament and Pareto frontier of
    \<open>workflow/src/lib.rs\<close>. \<open>Workflow_Select_Props\<close>: exactly which candidates are promoted, which branch wins and
    what the frontier covers.
  \<^item> \<open>Rust_Chars\<close>, \<open>Redaction\<close>: \<open>workflow/src/redaction.rs\<close>, the redaction of text that leaves the process.
    \<open>Redaction_Props\<close>: the locale \<open>token_relation\<close> carries a relation along the tokens of a text; what may be
    disclosed, that every removal is recorded, and that a bearer token never survives.
  \<^item> \<open>Model_Policy\<close>, \<open>Fleet_Composition\<close>: \<open>workflow/src/model_policy.rs\<close> and \<open>fleet_composition.rs\<close>, the model a
    role resolves to, the repair of JSON text, and proposals for a fleet. \<open>Model_Policy_Props\<close>: the first capable
    candidate is chosen. \<open>Json_Repair\<close>: the scan accepts exactly a grammar of brackets and strings, and a repaired
    text is a part of the answer. \<open>Fleet_Composition_Props\<close>: what an accepted proposal guarantees.
  \<^item> \<open>Fleet_Exact\<close>: \<open>workflow/src/fleet_exact.rs\<close>, a fleet whose members name a provider and a model exactly.
    \<open>Fleet_Exact_Props\<close>: the clamp to the machine's policy is a meet (\<open>attenuation\<close>, interpreted as \<open>ceiling\<close>),
    a fleet that was parsed names concrete routes only, and which look-ups do not depend on the order.
  \<^item> \<open>Fleet_Routes\<close>, \<open>Router_Call\<close>, \<open>Fleet_Reasoning\<close>: \<open>workflow/src/fleet_preflight.rs\<close>, \<open>reasoning_router.rs\<close>
    and \<open>fleet_reasoning.rs\<close>, where a request will go, the one call of a reasoning router with the text of its
    request and the judgement of its answer, and the effort each member gets. \<open>Router_Call_Props\<close>: exactly
    which answers are decisions, and that the text handed to the router is bounded and inert.
    \<open>Fleet_Reasoning_Props\<close>: the receipt of a launch says what was launched.
  \<^item> \<open>Fleet_Store\<close>: \<open>workflow/src/named_fleet.rs\<close> and the loader of \<open>reasoning_router.rs\<close>, fleets and routers
    found by name under several roots. \<open>Fleet_Store_Props\<close>: a loaded fleet is not shadowed, and the entries
    of the small file form are read back as written.
  \<^item> \<open>Fleet_Snapshot\<close>: \<open>workflow/src/fleet_snapshot.rs\<close>, the fleet frozen at the start of a run.
    \<open>Fleet_Snapshot_Props\<close>: look-ups in a snapshot refine those of the fleet, and equal hashes mean equal
    evidence if the digest does not collide.
  \<^item> \<open>Lane_Registry\<close>: \<open>lane/src/registry.rs\<close>, each lifecycle transition with its callbacks and save failures;
    a lane that has ended is final, and a stop is fenced.

  \<^bold>\<open>How state and effects are modelled.\<close>

  Each component's state is a record with the fields of the Rust struct, an operation maps the old state
  to the new one and a result, and errors are \<open>Inl\<close>. Operations of the fleet ledger run under one file
  lock, so a concurrent history is a sequence of them, and the theorems quantify over all sequences.
  Where a callback or a file write can fail, its outcome is an argument, so every failure path is a
  branch of the model; lane operations also return the backend calls they made, in order. Counters keep
  their width; the one number that is not a word is the length of a collection, which is a \<open>nat\<close>.

  \<^bold>\<open>Parameters.\<close>

  What is not code of the repository is an argument: \<open>shlex\<close> (the tokenizer \<open>shlex::split\<close>), \<open>ci\<close> (whether
  the platform folds case in paths), the JSON accessors of \<open>serde_json\<close> and a type variable for opaque JSON
  values, the digest of a serialised ledger event (\<open>checksums_determine_history\<close> names the
  absence of collisions on the events at hand as a hypothesis), the hash of a leaf's input in a replay, the parser and printer of time stamps, the clock, the TOML and JSON
  deserialisers of the fleet files, the JSON text of a snapshot, and, for the fleet store, SHA-256 and the file system
  (the record \<open>FleetHost\<close>). Every property with such a
  hypothesis has a witness that instantiates the parameter.

  \<^bold>\<open>Loops.\<close>

  No definition has fuel. Loops are structural recursion or \<open>function\<close> with a measure, except four that
  are \<open>partial_function (option)\<close>: the read-only test on nested shells, which is shown to return for a
  tokenizer that does not lengthen its input; the launch loop of the scheduler, which returns when no worker
  of the run is leased to another run (\<open>launch_loop_returns\<close>) and need not otherwise (\<open>launch_loop_spins\<close>);
  the workflow executor, which always returns (\<open>mock_run_returns\<close>); and the replay executor, which returns
  when the recorded expansions can be ranked (\<open>replay_returns\<close>) and not when a record generates its own
  expansion again (\<open>replay_spins\<close>).

  \<^bold>\<open>Where the code and its documentation disagree.\<close>

  Some theorems of the library state behaviour that a comment or a test excludes, among them
  \<open>typed_allow_sweeps_chain\<close>, \<open>find_masks_later_deletion\<close>, \<open>publish_disarms_destroyer_floor\<close>,
  \<open>reused_call_id_breaks_history\<close>, \<open>compaction_loses_busy_worker\<close>, \<open>launch_loop_spins\<close>,
  \<open>pending_gate_does_not_block\<close>, \<open>zero_ceiling_still_verifies\<close>, \<open>glob_scopes_escape\<close>,
  \<open>generated_nodes_escape_estimate\<close>, \<open>replay_spins\<close>, \<open>replay_hides_stop\<close>, \<open>path_before_separator_survives\<close>,
  \<open>aggregator_model_not_found\<close>, \<open>alias_id_shadows_role\<close>, \<open>slash_password_disclosed\<close>, \<open>ipv6_loopback_not_local\<close>,
  \<open>absolute_reference_escapes\<close> and \<open>padded_role_missed\<close>; they state it as it is.
  The other theorems do not depend on it being repaired.

  \<^bold>\<open>Not modelled.\<close>

  The turn loop of the engine (\<open>core/engine\<close>), the fleet manager and its executors and hosts, lane control
  and terminal multiplexers, the compaction of conversations, the session store (SQLite), configuration
  loading, the terminal interface, the provider and MCP clients, the application server, the command line,
  hooks, key rings, release tooling and the scripting engine. Most of it is input and output, rendering
  or asynchronous glue over the parts above. Of the modelled files, reading and writing files, JSON text
  and directory listings are left out.
  The fleet manager and lane control run processes and await them over the ledger and registry
  operations that are modelled; the context budget of \<open>compaction.rs\<close> rests on token estimates and on the
  answers of a model, so its operations would be parameters throughout.
\<close>

end
